(* ===== verification/Prelude.thy ===== *)
theory Prelude
  imports Main "HOL-Library.AList" "HOL-Library.Word"
begin

text \<open>
  What every theory of the development shares: the error values of the Go code, the
  result type of a fallible call, the byte view of characters, the association lists
  that stand for Go maps, files and their contents, and the generic transition system
  whose reachable states and invariant rule the state machines of the other theories
  instantiate.

  A Go string is a sequence of bytes, and so is an Isabelle \<open>string\<close>: \<open>len\<close> is
  \<open>length\<close>. A Go map is an association list without repeated keys (each component
  proves that its operations keep the keys distinct), so that \<open>len\<close> of the map is the
  length of the list; the order of the list has no meaning, as the order of a Go map
  has none.
\<close>

section \<open>Collections\<close>

named_theorems go_defs \<open>definitions of small helpers, unfolded by simp add: go_defs\<close>
named_theorems alist_simps \<open>lookups in updated, filtered and mapped association lists\<close>

section \<open>Errors and results\<close>

text \<open>
  The sentinel errors of main.go and operation_store.go are constructors of their own,
  because callers tell them apart with \<open>errors.Is\<close>; every other \<open>errors.New\<close> or
  \<open>fmt.Errorf\<close> is \<open>Err\<close> with an English label of the message, and an error of the
  operating system is \<open>ErrIO\<close> with the name of the failed call. An error that wraps a
  sentinel with \<open>%w\<close> is that sentinel.
\<close>

datatype err =
    ErrMaintenanceClosed
  | ErrMaintenanceIdleConflict
  | ErrLifecycleJobNotPending
  | ErrMaintenanceLeaseUsed
  | ErrDockerUnreachable
  | ErrLifecycleJobCapacity
  | ErrLifecycleOperationConflict
  | ErrDurableOperationSettlementPending
  | ErrCreatePortsEqual
  | ErrResetExecutionEvidence
  | ErrNotExist
  | ErrIO string
  | Err string

type_synonym 'a result = "err + 'a"

definition is_ok :: "'a result \<Rightarrow> bool" where
  "is_ok r \<longleftrightarrow> (case r of Inl _ \<Rightarrow> False | Inr _ \<Rightarrow> True)"

lemma is_ok_simps [simp]: "is_ok (Inr x)" "\<not> is_ok (Inl e)"
  by (simp_all add: is_ok_def)

lemma is_ok_iff: "is_ok r \<longleftrightarrow> (\<exists>x. r = Inr x)"
  by (cases r) auto

definition the_ok :: "'a \<Rightarrow> 'a result \<Rightarrow> 'a" where
  "the_ok d r = (case r of Inl _ \<Rightarrow> d | Inr x \<Rightarrow> x)"

text \<open>
  The two ways a Go function goes on after \<open>if err != nil { return err }\<close>: with the value of
  a call, and with the value of a call that also changes the state.
\<close>

definition bind_r :: "'a result \<Rightarrow> ('a \<Rightarrow> 'b result) \<Rightarrow> 'b result" where
  "bind_r r k = (case r of Inl e \<Rightarrow> Inl e | Inr x \<Rightarrow> k x)"

definition require :: "bool \<Rightarrow> string \<Rightarrow> unit result" where
  "require b msg = (if b then Inr () else Inl (Err msg))"

definition no_error :: "err option \<Rightarrow> unit result" where
  "no_error e = (case e of None \<Rightarrow> Inr () | Some x \<Rightarrow> Inl x)"

lemma bind_r_simps [simp]: "bind_r (Inl e) k = Inl e" "bind_r (Inr x) k = k x"
  by (simp_all add: bind_r_def)

lemma bind_r_ok: "bind_r r k = Inr y \<longleftrightarrow> (\<exists>x. r = Inr x \<and> k x = Inr y)"
  by (cases r) auto

lemma require_ok [simp]: "require b msg = Inr u \<longleftrightarrow> b"
  by (simp add: require_def)

lemma no_error_ok [simp]: "no_error e = Inr u \<longleftrightarrow> e = None"
  by (simp add: no_error_def split: option.splits)

lemma bind_r_cong [fundef_cong]:
  "r = r' \<Longrightarrow> (\<And>x. r' = Inr x \<Longrightarrow> k x = k' x) \<Longrightarrow> bind_r r k = bind_r r' k'"
  by (cases r') auto

type_synonym ('s, 'a) operation = "'s \<Rightarrow> 'a result \<times> 's"

definition bind_op ::
    "('s \<Rightarrow> ('e + 'a) \<times> 's) \<Rightarrow> ('a \<Rightarrow> 's \<Rightarrow> ('e + 'b) \<times> 's) \<Rightarrow> 's \<Rightarrow> ('e + 'b) \<times> 's" where
  "bind_op m k s = (case m s of (Inl e, s') \<Rightarrow> (Inl e, s') | (Inr x, s') \<Rightarrow> k x s')"

definition lift_op :: "('s \<Rightarrow> 'e + 'a) \<Rightarrow> 's \<Rightarrow> ('e + 'a) \<times> 's" where
  "lift_op f s = (f s, s)"

text \<open>The same call with another error, as a handler that answers each failure in its own way.\<close>

definition fail_with :: "'f \<Rightarrow> ('s \<Rightarrow> ('e + 'a) \<times> 's) \<Rightarrow> 's \<Rightarrow> ('f + 'a) \<times> 's" where
  "fail_with f m s = (let (r, s') = m s in (map_sum (\<lambda>_. f) id r, s'))"

lemma bind_op_ok:
  "bind_op m k s = (Inr y, t) \<longleftrightarrow> (\<exists>x s1. m s = (Inr x, s1) \<and> k x s1 = (Inr y, t))"
  by (auto simp: bind_op_def split: prod.splits sum.splits)

lemma bind_op_cases:
  assumes "bind_op m k s = (r, t)"
  obtains (stopped) e where "m s = (Inl e, t)" and "r = Inl e"
  | (goes_on) x s1 where "m s = (Inr x, s1)" and "k x s1 = (r, t)"
  using assms by (auto simp: bind_op_def split: prod.splits sum.splits)

lemma lift_op_ok [simp]: "lift_op f s = (Inr y, t) \<longleftrightarrow> f s = Inr y \<and> t = s"
  by (auto simp: lift_op_def)

text \<open>What every step of a sequence keeps, the sequence keeps.\<close>

lemma bind_op_keeps:
  assumes "\<And>s. R s s" and "\<And>s t u. R s t \<Longrightarrow> R t u \<Longrightarrow> R s u"
    and "\<And>s. R s (snd (m s))" and "\<And>x s. R s (snd (k x s))"
  shows "R s (snd (bind_op m k s))"
proof -
  obtain r s1 where "m s = (r, s1)" by fastforce
  then show ?thesis
    using assms(3)[of s] assms(4)[where s = s1] assms(2)
    by (cases r) (auto simp: bind_op_def)
qed

lemma lift_op_snd [simp]: "snd (lift_op f s) = s"
  by (simp add: lift_op_def)

lemma fail_with_ok: "fail_with f m s = (Inr y, t) \<longleftrightarrow> m s = (Inr y, t)"
proof -
  obtain r u where "m s = (r, u)" by fastforce
  then show ?thesis by (cases r) (auto simp: fail_with_def)
qed

lemma fail_with_snd [simp]: "snd (fail_with f m s) = snd (m s)"
  by (simp add: fail_with_def split_beta)

lemma fail_with_failed: "fail_with f m s = (Inl g, t) \<longleftrightarrow> g = f \<and> (\<exists>e. m s = (Inl e, t))"
proof -
  obtain r u where "m s = (r, u)" by fastforce
  then show ?thesis by (cases r) (auto simp: fail_with_def)
qed

lemma map_sum_ok: "map_sum id f r = Inr y \<longleftrightarrow> (\<exists>x. r = Inr x \<and> y = f x)"
  by (cases r) auto

section \<open>Time\<close>

text \<open>
  A \<open>time.Time\<close> is the number of nanoseconds since the zero instant of Go's \<open>time\<close>
  package, so \<open>IsZero\<close> is equality with 0; a \<open>time.Duration\<close> is a number of
  nanoseconds. Both are unbounded here: the code adds constants of at most a day to
  times of the present.
\<close>

type_synonym time = int
type_synonym duration = int

abbreviation time_is_zero :: "time \<Rightarrow> bool" where
  "time_is_zero t \<equiv> t = 0"

definition second :: duration where "second = 1000000000"
definition minute :: duration where "minute = 60 * second"
definition hour :: duration where "hour = 60 * minute"

lemmas duration_defs [go_defs] = second_def minute_def hour_def

lemma durations_positive [simp]: "0 < second" "0 < minute" "0 < hour"
  by (simp_all add: go_defs)

section \<open>Bytes\<close>

definition byte :: "char \<Rightarrow> nat" where
  "byte c = of_char c"

lemma byte_less [simp]: "byte c < 256"
  by (simp add: byte_def)

lemma byte_char_of [simp]: "n < 256 \<Longrightarrow> byte (char_of n) = n"
  by (simp add: byte_def)

lemma byte_inj: "byte c = byte d \<longleftrightarrow> c = d"
  by (simp add: byte_def)

lemma char_of_byte [simp]: "char_of (byte c) = c"
  by (simp add: byte_def)

definition in_bytes :: "nat \<Rightarrow> nat \<Rightarrow> char \<Rightarrow> bool" where
  "in_bytes lo hi c \<longleftrightarrow> lo \<le> byte c \<and> byte c \<le> hi"

section \<open>Association lists as Go maps\<close>

type_synonym ('k, 'v) gomap = "('k \<times> 'v) list"

abbreviation gm_ok :: "('k, 'v) gomap \<Rightarrow> bool" where
  "gm_ok m \<equiv> distinct (map fst m)"

abbreviation gm_has :: "('k, 'v) gomap \<Rightarrow> 'k \<Rightarrow> bool" where
  "gm_has m k \<equiv> map_of m k \<noteq> None"

text \<open>Indexing a map of strings yields the empty string for a missing key.\<close>

definition gm_str :: "('k, string) gomap \<Rightarrow> 'k \<Rightarrow> string" where
  "gm_str m k = (case map_of m k of None \<Rightarrow> [] | Some v \<Rightarrow> v)"

lemma map_of_update_same [alist_simps]: "map_of (AList.update k v m) k = Some v"
  by (simp add: update_conv')

lemma map_of_update_other [alist_simps]:
  "k \<noteq> k' \<Longrightarrow> map_of (AList.update k v m) k' = map_of m k'"
  by (simp add: update_conv')

lemma map_of_update [alist_simps]:
  "map_of (AList.update k v m) k' = (if k' = k then Some v else map_of m k')"
  by (simp add: update_conv')

lemma map_of_delete [alist_simps]:
  "map_of (AList.delete k m) k' = (if k' = k then None else map_of m k')"
  by (simp add: delete_conv')

lemma gm_ok_update [simp, intro]: "gm_ok m \<Longrightarrow> gm_ok (AList.update k v m)"
  by (rule distinct_update)

lemma gm_ok_delete [simp, intro]: "gm_ok m \<Longrightarrow> gm_ok (AList.delete k m)"
  by (rule distinct_delete)

lemma gm_ok_filter [simp, intro]: "gm_ok m \<Longrightarrow> gm_ok (filter P m)"
  by (induction m) auto

lemma map_of_filter_key:
  assumes "gm_ok m"
  shows "map_of (filter P m) k =
    (case map_of m k of None \<Rightarrow> None | Some v \<Rightarrow> if P (k, v) then Some v else None)"
  using assms
proof (induction m)
  case (Cons kv m)
  obtain a b where kv: "kv = (a, b)" by (cases kv)
  have absent: "map_of (filter P m) a = None" if "a \<notin> fst ` set m"
    using that by (force simp: map_of_eq_None_iff)
  show ?case using Cons absent
    by (auto simp: kv map_of_eq_None_iff split: option.splits)
qed simp

lemma length_update_existing:
  "k \<in> fst ` set m \<Longrightarrow> length (AList.update k v m) = length m"
  by (induction m) auto

lemma length_update_le: "length (AList.update k v m) \<le> Suc (length m)"
  by (induction m) auto

lemma update_new_append: "k \<notin> fst ` set m \<Longrightarrow> AList.update k v m = m @ [(k, v)]"
  by (induction m) auto

lemma length_delete_gm_le: "length (AList.delete k m) \<le> length m"
  by (simp add: AList.delete_eq)

lemma gm_has_iff: "gm_has m k \<longleftrightarrow> k \<in> fst ` set m"
  by (metis map_of_eq_None_iff)

lemma set_gm_iff: "gm_ok m \<Longrightarrow> (k, v) \<in> set m \<longleftrightarrow> map_of m k = Some v"
  by (auto simp: map_of_eq_Some_iff)

definition gm_map :: "('k \<Rightarrow> 'v \<Rightarrow> 'w) \<Rightarrow> ('k, 'v) gomap \<Rightarrow> ('k, 'w) gomap" where
  "gm_map f m = map (\<lambda>(k, v). (k, f k v)) m"

lemma map_of_gm_map [alist_simps]:
  "map_of (gm_map f m) k = map_option (f k) (map_of m k)"
  by (induction m) (auto simp: gm_map_def)

lemma keys_gm_map [simp]: "map fst (gm_map f m) = map fst m"
  by (induction m) (auto simp: gm_map_def)

lemma length_gm_map [simp]: "length (gm_map f m) = length m"
  by (simp add: gm_map_def)

section \<open>Transition systems\<close>

text \<open>
  A component with state is a set of initial states and a step relation. The locale
  gives the reachable states, the rule for invariants, the rule that strengthens an
  invariant with one already proved, and the rule for a property of two states (what a
  run of steps can only extend), once for all components.
\<close>

locale transition_system =
  fixes init :: "'s \<Rightarrow> bool" and step :: "'s \<Rightarrow> 's \<Rightarrow> bool"
begin

inductive reach :: "'s \<Rightarrow> bool" where
  reach_init: "init s \<Longrightarrow> reach s"
| reach_step: "reach s \<Longrightarrow> step s t \<Longrightarrow> reach t"

lemma invariant:
  assumes "\<And>s. init s \<Longrightarrow> I s"
    and "\<And>s t. I s \<Longrightarrow> step s t \<Longrightarrow> I t"
    and "reach s"
  shows "I s"
  using assms(3) by (induction rule: reach.induct) (auto intro: assms(1,2))

lemma invariant_with:
  assumes "\<And>s. reach s \<Longrightarrow> J s"
    and "\<And>s. init s \<Longrightarrow> I s"
    and "\<And>s t. J s \<Longrightarrow> J t \<Longrightarrow> I s \<Longrightarrow> step s t \<Longrightarrow> I t"
    and "reach s"
  shows "I s"
  using assms(4)
proof (induction rule: reach.induct)
  case (reach_step s t)
  then show ?case using assms(1,3) reach.reach_step by blast
qed (rule assms(2))

lemma run_reach: "step\<^sup>*\<^sup>* s t \<Longrightarrow> reach s \<Longrightarrow> reach t"
  by (induction rule: rtranclp_induct) (auto intro: reach_step)

lemma run_relation:
  assumes "\<And>s. R s s"
    and "\<And>s t u. reach t \<Longrightarrow> R s t \<Longrightarrow> step t u \<Longrightarrow> R s u"
    and "step\<^sup>*\<^sup>* s t" and "reach s"
  shows "R s t"
  using assms(3,4)
proof (induction rule: rtranclp_induct)
  case (step t u)
  then have "reach t" by (auto intro: run_reach)
  with step show ?case by (auto intro: assms(2))
qed (rule assms(1))

end

end
