(* ===== verification/GoText.thy ===== *)
theory GoText
  imports Prelude "HOL-Library.List_Lexorder" "HOL-Library.Char_ord"
begin

unbundle bit_operations_syntax

text \<open>
  The text routines: what the deployer uses of Go's \<open>strings\<close>, \<open>strconv\<close>,
  \<open>unicode/utf8\<close> and \<open>regexp\<close> packages on byte strings, and main.go's own validators
  (\<open>isEnvKey\<close>, \<open>isSafeToken\<close>, \<open>isPort\<close>, \<open>parseGeneration\<close>, \<open>secureEqual\<close>). The
  lemmas give trimming as an idempotent operation, the decimal round trip, and what each
  validator lets through.
\<close>

section \<open>Go's string library\<close>

definition has_prefix :: "string \<Rightarrow> string \<Rightarrow> bool" where
  "has_prefix s p \<longleftrightarrow> take (length p) s = p"

definition has_suffix :: "string \<Rightarrow> string \<Rightarrow> bool" where
  "has_suffix s p \<longleftrightarrow> length p \<le> length s \<and> drop (length s - length p) s = p"

definition trim_prefix :: "string \<Rightarrow> string \<Rightarrow> string" where
  "trim_prefix s p = (if has_prefix s p then drop (length p) s else s)"

definition trim_suffix :: "string \<Rightarrow> string \<Rightarrow> string" where
  "trim_suffix s p = (if has_suffix s p then take (length s - length p) s else s)"

definition contains_any :: "string \<Rightarrow> string \<Rightarrow> bool" where
  "contains_any s cs \<longleftrightarrow> list_ex (\<lambda>c. c \<in> set cs) s"

fun split_on :: "char \<Rightarrow> string \<Rightarrow> string list" where
  "split_on d [] = [[]]"
| "split_on d (c # s) =
     (if c = d then [] # split_on d s
      else (case split_on d s of [] \<Rightarrow> [[c]] | p # ps \<Rightarrow> (c # p) # ps))"

fun join_with :: "string \<Rightarrow> string list \<Rightarrow> string" where
  "join_with d [] = []"
| "join_with d [s] = s"
| "join_with d (s # t # ss) = s @ d @ join_with d (t # ss)"

text \<open>
  \<open>path/filepath\<close> on Unix: \<open>Clean\<close> resolves empty, dot and dot-dot components lexically, and
  \<open>Join\<close> cleans the non-empty elements joined with a slash.
\<close>

fun clean_parts :: "bool \<Rightarrow> string list \<Rightarrow> string list \<Rightarrow> string list" where
  "clean_parts rooted st [] = rev st"
| "clean_parts rooted st (p # ps) =
     (if p = [] \<or> p = ''.'' then clean_parts rooted st ps
      else if p = ''..'' then
        (if st \<noteq> [] \<and> hd st \<noteq> ''..'' then clean_parts rooted (tl st) ps
         else if rooted then clean_parts rooted st ps
         else clean_parts rooted (''..'' # st) ps)
      else clean_parts rooted (p # st) ps)"

definition filepath_clean :: "string \<Rightarrow> string" where
  "filepath_clean path =
     (let rooted = (path \<noteq> [] \<and> hd path = CHR ''/'');
          ps = clean_parts rooted [] (split_on CHR ''/'' path)
      in if rooted then ''/'' @ join_with ''/'' ps
         else if ps = [] then ''.'' else join_with ''/'' ps)"

definition filepath_join :: "string list \<Rightarrow> string" where
  "filepath_join elems =
     (let es = filter (\<lambda>e. e \<noteq> []) elems in
      if es = [] then [] else filepath_clean (join_with ''/'' es))"

text \<open>\<open>strings.Cut\<close> at a single byte: the text before it and, when it occurs, after it.\<close>

definition cut_at :: "char \<Rightarrow> string \<Rightarrow> string \<times> string option" where
  "cut_at d s = (let k = takeWhile (\<lambda>c. c \<noteq> d) s in
     (k, if length k < length s then Some (drop (Suc (length k)) s) else None))"

lemma has_prefix_append [simp]: "has_prefix (p @ s) p"
  by (simp add: has_prefix_def)

lemma trim_prefix_append [simp]: "trim_prefix (p @ s) p = s"
  by (simp add: trim_prefix_def)

lemma has_prefixE: "has_prefix s p \<Longrightarrow> \<exists>t. s = p @ t"
  by (metis append_take_drop_id has_prefix_def)

lemma has_prefix_take: "has_prefix (take n s) p \<Longrightarrow> has_prefix s p"
proof -
  assume "has_prefix (take n s) p"
  then obtain t where "take n s = p @ t" using has_prefixE by blast
  then have "s = p @ t @ drop n s" by (metis append.assoc append_take_drop_id)
  then show ?thesis by (metis has_prefix_append)
qed

lemma split_on_nonempty [simp]: "split_on d s \<noteq> []"
  by (induction s) (auto split: list.splits)

lemma split_on_no_sep: "d \<notin> set s \<Longrightarrow> split_on d s = [s]"
  by (induction s) auto

lemma split_on_append_sep: "d \<notin> set s \<Longrightarrow> split_on d (s @ d # t) = s # split_on d t"
  by (induction s) auto

lemma split_on_no_sep_in: "p \<in> set (split_on d s) \<Longrightarrow> d \<notin> set p"
proof (induction s arbitrary: p)
  case (Cons c s)
  then show ?case by (cases "split_on d s") (auto split: if_splits)
qed simp

lemma join_split: "join_with [d] (split_on d s) = s"
proof (induction s)
  case (Cons c s)
  show ?case
  proof (cases "split_on d s")
    case (Cons p ps)
    then show ?thesis using Cons.IH by (cases ps) auto
  qed simp
qed simp

section \<open>Unicode: decoding and white space\<close>

text \<open>
  \<open>unicode/utf8\<close>: a string is a sequence of runes; a byte that does not start a valid
  encoding is the rune 65533 on its own.
\<close>

definition cont :: "char \<Rightarrow> bool" where "cont c = in_bytes 128 191 c"

definition low_bits :: "char \<Rightarrow> nat" where "low_bits c = byte c mod 64"

function runes :: "string \<Rightarrow> nat list" where
  "runes [] = []"
| "runes (a # s) =
     (if byte a < 128 then byte a # runes s
      else case s of
        b # s2 \<Rightarrow>
          if in_bytes 194 223 a \<and> cont b
          then ((byte a - 192) * 64 + low_bits b) # runes s2
          else (case s2 of
            c # s3 \<Rightarrow>
              if (byte a = 224 \<and> in_bytes 160 191 b \<or> in_bytes 225 236 a \<and> cont b \<or>
                  byte a = 237 \<and> in_bytes 128 159 b \<or> in_bytes 238 239 a \<and> cont b) \<and> cont c
              then (((byte a - 224) * 64 + low_bits b) * 64 + low_bits c) # runes s3
              else (case s3 of
                d # s4 \<Rightarrow>
                  if (byte a = 240 \<and> in_bytes 144 191 b \<or> in_bytes 241 243 a \<and> cont b \<or>
                      byte a = 244 \<and> in_bytes 128 143 b) \<and> cont c \<and> cont d
                  then ((((byte a - 240) * 64 + low_bits b) * 64 + low_bits c) * 64 + low_bits d)
                       # runes s4
                  else 65533 # runes s
              | [] \<Rightarrow> 65533 # runes s)
          | [] \<Rightarrow> 65533 # runes s)
      | [] \<Rightarrow> 65533 # runes s)"
  by pat_completeness auto
termination by (relation "measure length") auto

text \<open>
  \<open>utf8.ValidString\<close>: encoding the runes again gives the string back, because the rune of
  an invalid byte takes three bytes.
\<close>

definition utf8_encode :: "nat \<Rightarrow> string" where
  "utf8_encode r = map char_of
     (if r < 128 then [r]
      else if r < 2048 then [192 + r div 64, 128 + r mod 64]
      else if r < 65536 then [224 + r div 4096, 128 + r div 64 mod 64, 128 + r mod 64]
      else [240 + r div 262144, 128 + r div 4096 mod 64, 128 + r div 64 mod 64, 128 + r mod 64])"

definition valid_utf8 :: "string \<Rightarrow> bool" where
  "valid_utf8 s \<longleftrightarrow> concat (map utf8_encode (runes s)) = s"

definition rune_is_control :: "nat \<Rightarrow> bool" where
  "rune_is_control r \<longleftrightarrow> r < 32 \<or> 127 \<le> r \<and> r \<le> 159"

text \<open>
  The white space of \<open>unicode.IsSpace\<close>, by its UTF-8 encodings: tab to carriage return,
  space, U+0085, U+00A0, U+1680, U+2000 to U+200A, U+2028, U+2029, U+202F, U+205F and
  U+3000.
\<close>

definition space_encodings :: "string list" where
  "space_encodings = map (map char_of)
     ([[9], [10], [11], [12], [13], [32], [194, 133], [194, 160], [225, 154, 128]] @
      map (\<lambda>n. [226, 128, n]) [128, 129, 130, 131, 132, 133, 134, 135, 136, 137, 138, 168, 169, 175] @
      [[226, 129, 159], [227, 128, 128 :: nat]])"

text \<open>The same list as characters, for evaluation.\<close>

lemma space_encodings_chars [code]:
  "space_encodings =
    [[CHR 0x09], [CHR 0x0A], [CHR 0x0B], [CHR 0x0C], [CHR 0x0D], [CHR 0x20], [CHR 0xC2, CHR
     0x85], [CHR 0xC2, CHR 0xA0], [CHR 0xE1, CHR 0x9A, CHR 0x80], [CHR 0xE2, CHR 0x80, CHR
     0x80], [CHR 0xE2, CHR 0x80, CHR 0x81], [CHR 0xE2, CHR 0x80, CHR 0x82], [CHR 0xE2, CHR
     0x80, CHR 0x83], [CHR 0xE2, CHR 0x80, CHR 0x84], [CHR 0xE2, CHR 0x80, CHR 0x85], [CHR
     0xE2, CHR 0x80, CHR 0x86], [CHR 0xE2, CHR 0x80, CHR 0x87], [CHR 0xE2, CHR 0x80, CHR 0x88],
     [CHR 0xE2, CHR 0x80, CHR 0x89], [CHR 0xE2, CHR 0x80, CHR 0x8A], [CHR 0xE2, CHR 0x80, CHR
     0xA8], [CHR 0xE2, CHR 0x80, CHR 0xA9], [CHR 0xE2, CHR 0x80, CHR 0xAF], [CHR 0xE2, CHR
     0x81, CHR 0x9F], [CHR 0xE3, CHR 0x80, CHR 0x80]]"
  by (simp add: space_encodings_def char_of_eq_iff take_bit_eq_mod)

lemma space_encodings_nonempty: "e \<in> set space_encodings \<Longrightarrow> e \<noteq> []"
  by (auto simp: space_encodings_def)

function trim_left :: "string \<Rightarrow> string" where
  "trim_left s = (case find (\<lambda>e. has_prefix s e) space_encodings of
     None \<Rightarrow> s | Some e \<Rightarrow> trim_left (drop (length e) s))"
  by pat_completeness auto
termination
proof (relation "measure length")
  fix s e assume "find (\<lambda>e. has_prefix s e) space_encodings = Some e"
  then have "e \<noteq> []" "has_prefix s e"
    using space_encodings_nonempty by (auto simp: find_Some_iff)
  then show "(drop (length e) s, s) \<in> measure length"
    by (auto dest!: has_prefixE)
qed simp

function trim_right :: "string \<Rightarrow> string" where
  "trim_right s = (case find (\<lambda>e. has_suffix s e) space_encodings of
     None \<Rightarrow> s | Some e \<Rightarrow> trim_right (take (length s - length e) s))"
  by pat_completeness auto
termination
proof (relation "measure length")
  fix s e assume "find (\<lambda>e. has_suffix s e) space_encodings = Some e"
  then have "e \<noteq> []" "length e \<le> length s"
    using space_encodings_nonempty by (auto simp: find_Some_iff has_suffix_def)
  then show "(take (length s - length e) s, s) \<in> measure length"
    by (cases e) auto
qed simp

declare trim_left.simps [simp del] trim_right.simps [simp del]

definition trim_space :: "string \<Rightarrow> string" where
  "trim_space s = trim_right (trim_left s)"

definition no_leading_space :: "string \<Rightarrow> bool" where
  "no_leading_space s \<longleftrightarrow> (\<forall>e\<in>set space_encodings. \<not> has_prefix s e)"

definition no_trailing_space :: "string \<Rightarrow> bool" where
  "no_trailing_space s \<longleftrightarrow> (\<forall>e\<in>set space_encodings. \<not> has_suffix s e)"

lemma trim_left_clean: "no_leading_space (trim_left s)"
proof (induction s rule: trim_left.induct)
  case (1 s)
  then show ?case
    by (subst trim_left.simps) (auto split: option.splits simp: find_None_iff no_leading_space_def)
qed

lemma trim_right_clean: "no_trailing_space (trim_right s)"
proof (induction s rule: trim_right.induct)
  case (1 s)
  then show ?case
    by (subst trim_right.simps) (auto split: option.splits simp: find_None_iff no_trailing_space_def)
qed

lemma trim_left_id: "no_leading_space s \<Longrightarrow> trim_left s = s"
  by (subst trim_left.simps) (auto simp: no_leading_space_def find_Some_iff split: option.splits)

lemma trim_right_id: "no_trailing_space s \<Longrightarrow> trim_right s = s"
  by (subst trim_right.simps) (auto simp: no_trailing_space_def find_Some_iff split: option.splits)

lemma trim_right_take: "\<exists>n. trim_right s = take n s"
proof (induction s rule: trim_right.induct)
  case (1 s)
  show ?case
  proof (cases "find (\<lambda>e. has_suffix s e) space_encodings")
    case None
    then have "trim_right s = take (length s) s" by (subst trim_right.simps) simp
    then show ?thesis by blast
  next
    case (Some e)
    then obtain n where "trim_right (take (length s - length e) s) = take n (take (length s - length e) s)"
      using "1.IH" by blast
    with Some have "trim_right s = take (min n (length s - length e)) s"
      by (subst trim_right.simps) (simp add: min.commute)
    then show ?thesis by blast
  qed
qed

lemma trim_space_clean:
  "no_leading_space (trim_space s)" "no_trailing_space (trim_space s)"
proof -
  obtain n where "trim_right (trim_left s) = take n (trim_left s)" using trim_right_take by blast
  then show "no_leading_space (trim_space s)"
    using trim_left_clean[of s] unfolding trim_space_def no_leading_space_def
    by (metis has_prefix_take)
qed (simp add: trim_space_def trim_right_clean)

lemma trim_space_idem [simp]: "trim_space (trim_space s) = trim_space s"
  by (metis trim_left_id trim_right_id trim_space_clean trim_space_def)

lemma trim_left_set: "set (trim_left s) \<subseteq> set s"
proof (induction s rule: trim_left.induct)
  case (1 s)
  then show ?case
    by (subst trim_left.simps) (auto split: option.splits dest: in_set_dropD)
qed

lemma trim_space_set: "set (trim_space s) \<subseteq> set s"
proof -
  obtain n where "trim_right (trim_left s) = take n (trim_left s)" using trim_right_take by blast
  then show ?thesis using trim_left_set[of s] by (auto simp: trim_space_def dest: in_set_takeD)
qed

lemma trim_space_no_line_break:
  "\<not> contains_any s cs \<Longrightarrow> \<not> contains_any (trim_space s) cs"
  using trim_space_set[of s] by (auto simp: contains_any_def list_ex_iff)

section \<open>Byte classes and the regular expressions of main.go\<close>

definition is_digit :: "char \<Rightarrow> bool" where "is_digit c = in_bytes 48 57 c"
definition is_upper :: "char \<Rightarrow> bool" where "is_upper c = in_bytes 65 90 c"
definition is_lower :: "char \<Rightarrow> bool" where "is_lower c = in_bytes 97 122 c"
definition is_lower_hex :: "char \<Rightarrow> bool" where
  "is_lower_hex c = (is_digit c \<or> in_bytes 97 102 c)"

lemmas byte_classes [go_defs] = is_digit_def is_upper_def is_lower_def is_lower_hex_def
  in_bytes_def byte_def

text \<open>The longest public server id: a DNS label less the internal prefix and the longest suffix.\<close>

definition maxPublicServerIDLength :: nat where
  "maxPublicServerIDLength = 63 - length ''s'' - length ''-game-postgres''"

definition hex_string :: "nat \<Rightarrow> string \<Rightarrow> bool" where
  "hex_string n s \<longleftrightarrow> length s = n \<and> list_all is_lower_hex s"

definition lifecycleJobIDRe :: "string \<Rightarrow> bool" where
  "lifecycleJobIDRe s = hex_string 32 s"

definition gitSHA40 :: "string \<Rightarrow> bool" where
  "gitSHA40 s = hex_string 40 s"

definition resetEvidenceSHA :: "string \<Rightarrow> bool" where
  "resetEvidenceSHA s = hex_string 64 s"

definition durableOperationFingerprintRe :: "string \<Rightarrow> bool" where
  "durableOperationFingerprintRe s = hex_string 64 s"

definition resetManifestDigest :: "string \<Rightarrow> bool" where
  "resetManifestDigest s \<longleftrightarrow> has_prefix s ''sha256:'' \<and> hex_string 64 (drop 7 s)"

definition webGameDigestRE :: "string \<Rightarrow> bool" where
  "webGameDigestRE s \<longleftrightarrow> has_prefix s ''sha256:'' \<and> hex_string 64 (drop 7 s)"

definition webGamePinnedTagRE :: "string \<Rightarrow> bool" where
  "webGamePinnedTagRE s \<longleftrightarrow>
     hex_string 40 (take 40 s) \<and> has_prefix (drop 40 s) ''@sha256:'' \<and> hex_string 64 (drop 48 s)"

definition serverIDRe :: "string \<Rightarrow> bool" where
  "serverIDRe s \<longleftrightarrow> s \<noteq> [] \<and> list_all (\<lambda>c. is_upper c \<or> is_lower c \<or> is_digit c) s"

definition lower_alnum :: "string \<Rightarrow> bool" where
  "lower_alnum s \<longleftrightarrow> s \<noteq> [] \<and> list_all (\<lambda>c. is_lower c \<or> is_digit c) s"

definition projectRe :: "string \<Rightarrow> bool" where
  "projectRe s \<longleftrightarrow> has_prefix s ''opensamguk-s'' \<and> lower_alnum (drop 12 s)"

definition internalServerKeyRe :: "string \<Rightarrow> bool" where
  "internalServerKeyRe s \<longleftrightarrow> has_prefix s ''s'' \<and> lower_alnum (drop 1 s)"

definition tagRe :: "string \<Rightarrow> bool" where
  "tagRe s \<longleftrightarrow> s \<noteq> [] \<and>
     list_all (\<lambda>c. is_upper c \<or> is_lower c \<or> is_digit c \<or> c \<in> set ''._-'') s"

definition resetImageOwner :: "string \<Rightarrow> bool" where
  "resetImageOwner s \<longleftrightarrow> s \<noteq> [] \<and> (is_lower (hd s) \<or> is_digit (hd s)) \<and>
     list_all (\<lambda>c. is_lower c \<or> is_digit c \<or> c \<in> set ''._-'') s"

definition isEnvKey :: "string \<Rightarrow> bool" where
  "isEnvKey key \<longleftrightarrow> key \<noteq> [] \<and> list_all (\<lambda>r. is_upper r \<or> is_digit r \<or> r = CHR ''_'') key"

definition isSafeToken :: "string \<Rightarrow> bool" where
  "isSafeToken value \<longleftrightarrow> value \<noteq> [] \<and>
     list_all (\<lambda>r. is_upper r \<or> is_lower r \<or> is_digit r \<or> r \<in> set ''_-:.'') value"

text \<open>
  \<open>strings.ToLower\<close>. The code lowers server ids, which are ASCII letters and digits, and
  compares a lowered project name with an ASCII string. Two runes outside ASCII lower to
  an ASCII letter, U+0130 and U+212A; every other one lowers to a rune outside ASCII and
  is left as it is here, which no such comparison can see.
\<close>

definition lower_char :: "char \<Rightarrow> char" where
  "lower_char c = (if is_upper c then char_of (byte c + 32) else c)"

fun to_lower :: "string \<Rightarrow> string" where
  "to_lower [] = []"
| "to_lower [a] = [lower_char a]"
| "to_lower [a, b] = (if byte a = 196 \<and> byte b = 176 then ''i'' else [lower_char a, lower_char b])"
| "to_lower (a # b # c # s) =
     (if byte a = 196 \<and> byte b = 176 then ''i'' @ to_lower (c # s)
      else if byte a = 226 \<and> byte b = 132 \<and> byte c = 170 then ''k'' @ to_lower s
      else lower_char a # to_lower (b # c # s))"

lemma lower_char_id: "is_lower c \<or> is_digit c \<Longrightarrow> lower_char c = c"
  by (auto simp: lower_char_def go_defs)

lemma lower_char_class:
  "is_upper c \<or> is_lower c \<or> is_digit c \<Longrightarrow> is_lower (lower_char c) \<or> is_digit (lower_char c)"
  by (auto simp: lower_char_def is_upper_def is_lower_def is_digit_def in_bytes_def)

lemma to_lower_ascii: "list_all (\<lambda>c. byte c < 128) s \<Longrightarrow> to_lower s = map lower_char s"
  by (induction s rule: to_lower.induct) auto

lemma serverIDRe_ascii: "serverIDRe s \<Longrightarrow> list_all (\<lambda>c. byte c < 128) s"
  by (auto simp: serverIDRe_def list_all_iff is_upper_def is_lower_def is_digit_def in_bytes_def)

lemma serverIDRe_lower:
  assumes "serverIDRe s"
  shows "lower_alnum (to_lower s)"
proof -
  have "to_lower s = map lower_char s"
    by (rule to_lower_ascii) (rule serverIDRe_ascii[OF assms])
  with assms show ?thesis
    using lower_char_class by (auto simp: lower_alnum_def serverIDRe_def list_all_iff)
qed

lemma lower_alnum_serverIDRe: "lower_alnum s \<Longrightarrow> serverIDRe s"
  by (auto simp: lower_alnum_def serverIDRe_def list_all_iff)

lemma lower_alnum_to_lower: "lower_alnum s \<Longrightarrow> to_lower s = s"
  using to_lower_ascii[OF serverIDRe_ascii[OF lower_alnum_serverIDRe]]
  by (auto simp: lower_alnum_def list_all_iff lower_char_id intro: map_idI)

lemma hex_string_length: "hex_string n s \<Longrightarrow> length s = n"
  by (simp add: hex_string_def)

lemma hex_string_nonempty: "hex_string n s \<Longrightarrow> 0 < n \<Longrightarrow> s \<noteq> []"
  by (auto simp: hex_string_def)

section \<open>Decimal numbers\<close>

definition digit_char :: "nat \<Rightarrow> char" where
  "digit_char n = char_of (48 + n)"

definition digit_value :: "char \<Rightarrow> nat" where
  "digit_value c = byte c - 48"

fun dec :: "nat \<Rightarrow> string" where
  "dec n = (if n < 10 then [digit_char n] else dec (n div 10) @ [digit_char (n mod 10)])"

declare dec.simps [simp del]

definition itoa :: "int \<Rightarrow> string" where
  "itoa i = (if i < 0 then CHR ''-'' # dec (nat (- i)) else dec (nat i))"

definition dec_value :: "string \<Rightarrow> nat" where
  "dec_value s = foldl (\<lambda>n c. 10 * n + digit_value c) 0 s"

text \<open>
  \<open>strconv.Atoi\<close> (and \<open>ParseInt\<close> at base 10 and 64 bits): an optional sign, then at
  least one digit and nothing else, in the range of a 64-bit integer.
\<close>

definition atoi :: "string \<Rightarrow> int option" where
  "atoi s =
     (let neg = (s \<noteq> [] \<and> hd s = CHR ''-'');
          ds = (if s \<noteq> [] \<and> (hd s = CHR ''-'' \<or> hd s = CHR ''+'') then tl s else s);
          v = (if neg then - int (dec_value ds) else int (dec_value ds))
      in if ds \<noteq> [] \<and> list_all is_digit ds \<and> - (2 ^ 63) \<le> v \<and> v < 2 ^ 63 then Some v else None)"

lemma digit_char_digit: "n < 10 \<Longrightarrow> is_digit (digit_char n)"
  by (simp add: digit_char_def is_digit_def in_bytes_def)

lemma digit_value_char: "n < 10 \<Longrightarrow> digit_value (digit_char n) = n"
  by (simp add: digit_char_def digit_value_def)

lemma dec_digits: "list_all is_digit (dec n)"
  by (induction n rule: dec.induct) (subst dec.simps, simp add: digit_char_digit)

lemma dec_nonempty [simp]: "dec n \<noteq> []"
  by (subst dec.simps) simp

lemma dec_value_dec [simp]: "dec_value (dec n) = n"
proof (induction n rule: dec.induct)
  case (1 n)
  show ?case
  proof (cases "n < 10")
    case True
    then show ?thesis by (subst dec.simps) (simp add: dec_value_def digit_value_char)
  next
    case False
    with 1 have "dec_value (dec (n div 10)) = n div 10" by simp
    with False show ?thesis
      by (subst dec.simps) (simp add: dec_value_def digit_value_char)
  qed
qed

lemma dec_hd: "hd (dec n) \<noteq> CHR ''-''" "hd (dec n) \<noteq> CHR ''+''"
proof -
  have "is_digit (hd (dec n))"
    using dec_digits[of n] dec_nonempty[of n] by (cases "dec n") auto
  then show "hd (dec n) \<noteq> CHR ''-''" "hd (dec n) \<noteq> CHR ''+''"
    by (auto simp: go_defs)
qed

lemma atoi_itoa: "- (2 ^ 63) \<le> i \<Longrightarrow> i < 2 ^ 63 \<Longrightarrow> atoi (itoa i) = Some i"
  using dec_digits dec_hd by (auto simp: atoi_def itoa_def Let_def)

lemma dec_bytes: "c \<in> set (dec n) \<Longrightarrow> is_digit c"
  using dec_digits[of n] by (auto simp: list_all_iff)

text \<open>
  \<open>isPort\<close> reads the digits into a Go \<open>int\<close>, which wraps at 64 bits.
\<close>

definition port_value :: "string \<Rightarrow> 64 word" where
  "port_value value = foldl (\<lambda>n r. n * 10 + of_nat (digit_value r)) 0 value"

definition isPort :: "string \<Rightarrow> bool" where
  "isPort value \<longleftrightarrow> value \<noteq> [] \<and> list_all is_digit value \<and>
     1 \<le> sint (port_value value) \<and> sint (port_value value) \<le> 65535"

lemma port_value_dec: "port_value s = of_nat (dec_value s)"
proof -
  have "foldl (\<lambda>n r. n * 10 + of_nat (digit_value r)) (of_nat k) s =
      (of_nat (foldl (\<lambda>n c. 10 * n + digit_value c) k s) :: 64 word)" for k
  proof (induction s arbitrary: k)
    case (Cons a s)
    have "of_nat k * 10 + of_nat (digit_value a) = (of_nat (10 * k + digit_value a) :: 64 word)"
      by simp
    then show ?case using Cons.IH[of "10 * k + digit_value a"] by (simp only: foldl_Cons)
  qed simp
  from this[of 0] show ?thesis by (simp add: port_value_def dec_value_def)
qed

lemma dec_value_snoc: "dec_value (s @ [c]) = 10 * dec_value s + digit_value c"
  by (simp add: dec_value_def)

lemma dec_value_bound: "list_all is_digit s \<Longrightarrow> dec_value s < 10 ^ length s"
proof (induction s rule: rev_induct)
  case (snoc c s)
  have "48 \<le> byte c \<and> byte c \<le> 57" using snoc.prems by (simp add: is_digit_def in_bytes_def)
  then have "digit_value c < 10" unfolding digit_value_def by arith
  moreover have "dec_value s < 10 ^ length s" using snoc by simp
  ultimately show ?case by (simp add: dec_value_snoc)
qed (simp add: dec_value_def)

lemma sint_small: "n < 2 ^ 63 \<Longrightarrow> sint (of_nat n :: 64 word) = int n"
  using signed_of_int[of "int n", where ?'b = 64 and ?'a = int] by (simp add: signed_take_bit_int_eq_self_iff)

definition parseGeneration :: "string \<Rightarrow> int \<Rightarrow> int result" where
  "parseGeneration value fallback =
     (let trimmed = trim_space value in
      if trimmed = [] then Inr fallback
      else (case atoi trimmed of
        None \<Rightarrow> Inl (Err ''generation must be a number of at least 0'')
      | Some n \<Rightarrow> if n < 0 then Inl (Err ''generation must be a number of at least 0'') else Inr n))"

definition normalizeLifecycleOperationID :: "string \<Rightarrow> string result" where
  "normalizeLifecycleOperationID raw =
     (if raw = [] then Inr []
      else if \<not> lifecycleJobIDRe raw
      then Inl (Err ''operationId must be 32 lowercase hexadecimal digits'')
      else Inr raw)"

definition boolText :: "bool \<Rightarrow> string" where
  "boolText value = (if value then ''true'' else ''false'')"

definition envOrValue :: "string \<Rightarrow> string \<Rightarrow> string" where
  "envOrValue value fallback = (if value \<noteq> [] then value else fallback)"

definition isExactScenarioLookupDir :: "string \<Rightarrow> bool" where
  "isExactScenarioLookupDir value \<longleftrightarrow> value = [] \<or> value = ''/data/scenarios''"

text \<open>
  The comparison of tokens: the lengths first, then every byte, the differences
  collected with OR so that the time does not depend on where they differ.
\<close>

definition byte_word :: "char \<Rightarrow> 8 word" where
  "byte_word c = of_nat (byte c)"

definition secureEqual :: "string \<Rightarrow> string \<Rightarrow> bool" where
  "secureEqual a b \<longleftrightarrow> length a = length b \<and>
     foldl (\<lambda>diff (x, y). diff OR (byte_word x XOR byte_word y)) 0 (zip a b) = 0"

lemma byte_word_inj: "byte_word x = byte_word y \<longleftrightarrow> x = y"
proof
  assume "byte_word x = byte_word y"
  then have "unat (byte_word x) = unat (byte_word y)" by simp
  then have "byte x = byte y" by (simp add: byte_word_def unat_of_nat)
  then show "x = y" by (simp add: byte_inj)
qed simp

lemma xor_word_eq_0: "(x :: 8 word) XOR y = 0 \<longleftrightarrow> x = y"
  by (simp add: bit_eq_iff bit_simps)

lemma or_word_eq_0: "(x :: 8 word) OR y = 0 \<longleftrightarrow> x = 0 \<and> y = 0"
  by (auto simp: or_eq_0_iff)

lemma secureEqual_fold:
  "foldl (\<lambda>diff (x, y). diff OR (byte_word x XOR byte_word y)) d ps = 0 \<longleftrightarrow>
     d = 0 \<and> list_all (\<lambda>(x, y). x = y) ps"
proof (induction ps arbitrary: d)
  case (Cons p ps)
  obtain x y where p: "p = (x, y)" by (cases p)
  have "d OR (byte_word x XOR byte_word y) = 0 \<longleftrightarrow> d = 0 \<and> x = y"
    by (simp only: or_word_eq_0 xor_word_eq_0 byte_word_inj)
  with Cons show ?case by (simp only: p foldl_Cons prod.case list.pred_inject(2)) blast
qed simp

lemma list_all_zip_eq: "length a = length b \<Longrightarrow> list_all (\<lambda>(x, y). x = y) (zip a b) \<longleftrightarrow> a = b"
  by (induction a b rule: list_induct2) auto

lemma secureEqual_iff: "secureEqual a b \<longleftrightarrow> a = b"
  unfolding secureEqual_def secureEqual_fold using list_all_zip_eq[of a b] by auto


section \<open>Port numbers\<close>

text \<open>
  Ports up to eighteen digits. For every text of at most eighteen bytes \<open>isPort\<close>
  accepts exactly the non-empty digit strings whose value lies between 1 and 65535.
\<close>

theorem isPort_exact:
  assumes "length value \<le> 18"
  shows "isPort value = (value \<noteq> [] \<and> list_all is_digit value \<and>
    1 \<le> dec_value value \<and> dec_value value \<le> 65535)"
proof (cases "list_all is_digit value")
  case True
  have "dec_value value < 10 ^ length value" by (rule dec_value_bound[OF True])
  also have "(10 :: nat) ^ length value \<le> 10 ^ 18" by (rule power_increasing[OF assms]) simp
  finally have "sint (port_value value) = int (dec_value value)"
    by (simp add: port_value_dec sint_small)
  then show ?thesis by (simp add: isPort_def True)
qed (simp add: isPort_def)

theorem isPort_exact_witness:
  "isPort ''065535'' = (''065535'' \<noteq> [] \<and> list_all is_digit ''065535'' \<and>
    1 \<le> dec_value ''065535'' \<and> dec_value ''065535'' \<le> 65535) \<and> isPort ''065535''"
  using isPort_exact[of "''065535''"] by (simp add: go_defs dec_value_def digit_value_def)

text \<open>
  Longer texts wrap. The accumulator of \<open>isPort\<close> is a 64-bit integer that wraps, so
  the digits of 2^64 + 8080 are accepted as a port number although their value is not one.
\<close>

theorem isPort_wraps:
  "isPort ''18446744073709559696'' \<and> dec_value ''18446744073709559696'' = 2 ^ 64 + 8080"
proof -
  have v: "dec_value ''18446744073709559696'' = 18446744073709559696"
    by (simp add: dec_value_def digit_value_def byte_def)
  have "port_value ''18446744073709559696'' = 8080" by (simp add: port_value_dec v)
  then show ?thesis by (simp add: isPort_def v go_defs)
qed

end
