(* ===== verification/AtomicWrite.thy ===== *)
theory AtomicWrite
  imports GoText
begin

text \<open>
  The two routines that replace a file by writing a temporary one beside it and renaming
  it over the target: \<open>writeFileAtomicWithDurabilityResult\<close> of main.go (env files,
  journals, the maintenance marker) and \<open>writeDurableOperationFile\<close> of
  operation_store.go. Every system call may fail, as the record of answers says; the
  result carries the files after the call and the trace of every state a crash or a
  concurrent reader could see. The locale \<open>atomic_writer\<close> is the contract the callers
  rely on, and both routines interpret it.
\<close>

section \<open>Files\<close>

text \<open>
  What a file holds: a prefix of the data while it is being written, the whole data that
  the kernel has accepted, or the whole data that \<open>fsync\<close> has put on disk.
\<close>

datatype 'c content = Partial | Written 'c | Synced 'c

record 'c go_file =
  f_mode :: nat
  f_owner :: "nat \<times> nat"
  f_content :: "'c content"

type_synonym 'c files = "string \<Rightarrow> 'c go_file option"

fun readable :: "'c content \<Rightarrow> 'c option" where
  "readable Partial = None"
| "readable (Written d) = Some d"
| "readable (Synced d) = Some d"

definition data_at :: "'c files \<Rightarrow> string \<Rightarrow> 'c option" where
  "data_at fs path = (case fs path of None \<Rightarrow> None | Some f \<Rightarrow> readable (f_content f))"

text \<open>The answers of the system calls of one write, and the name \<open>CreateTemp\<close> chose.\<close>

record answers =
  ans_tmp :: string
  ans_create :: bool
  ans_stat :: bool
  ans_dirowner :: "(nat \<times> nat) option"
  ans_self :: "nat \<times> nat"
  ans_chmod0 :: bool
  ans_chown :: bool
  ans_chmod :: bool
  ans_write :: bool
  ans_sync :: bool
  ans_close :: bool
  ans_rename :: bool
  ans_syncdir :: bool
  ans_remove :: bool

definition all_well :: "string \<Rightarrow> answers" where
  "all_well tmp = \<lparr>ans_tmp = tmp, ans_create = True, ans_stat = True, ans_dirowner = None,
     ans_self = (0, 0), ans_chmod0 = True, ans_chown = True, ans_chmod = True,
     ans_write = True, ans_sync = True, ans_close = True, ans_rename = True,
     ans_syncdir = True, ans_remove = True\<rparr>"

record 'c write_result =
  w_committed :: bool
  w_err :: "err option"
  w_fs :: "'c files"
  w_trace :: "'c files list"

text \<open>The deferred \<open>os.Remove(tmpName)\<close>, whose own error is ignored.\<close>

definition finish :: "answers \<Rightarrow> 'c files list \<Rightarrow> 'c files \<Rightarrow> bool \<Rightarrow> err option \<Rightarrow> 'c write_result" where
  "finish a trace fs c e =
     (let fs' = (if ans_remove a then fs(ans_tmp a := None) else fs) in
      \<lparr>w_committed = c, w_err = e, w_fs = fs', w_trace = trace @ [fs, fs']\<rparr>)"

definition move_file :: "'c files \<Rightarrow> string \<Rightarrow> string \<Rightarrow> 'c files" where
  "move_file fs src dst = (fs(dst := fs src))(src := None)"

section \<open>writeDurableOperationFile\<close>

definition writeDurableOperationFile ::
    "string \<Rightarrow> 'c \<Rightarrow> answers \<Rightarrow> 'c files \<Rightarrow> 'c write_result" where
  "writeDurableOperationFile path data a fs =
     (if \<not> ans_create a \<or> fs (ans_tmp a) \<noteq> None
      then \<lparr>w_committed = False, w_err = Some (ErrIO ''createTemp''), w_fs = fs, w_trace = [fs]\<rparr>
      else
        let tmp = ans_tmp a;
            mk = (\<lambda>c. \<lparr>f_mode = 384, f_owner = ans_self a, f_content = c\<rparr>);
            f1 = fs(tmp \<mapsto> mk Partial);
            f2 = fs(tmp \<mapsto> mk (Written data));
            f3 = fs(tmp \<mapsto> mk (Synced data));
            f4 = move_file f3 tmp path
        in
        if \<not> ans_chmod0 a then finish a [fs] f1 False (Some (ErrIO ''chmod''))
        else if \<not> ans_write a then finish a [fs] f1 False (Some (ErrIO ''write''))
        else if \<not> ans_sync a then finish a [fs, f1] f2 False (Some (ErrIO ''sync''))
        else if \<not> ans_close a then finish a [fs, f1, f2] f3 False (Some (ErrIO ''close''))
        else if \<not> ans_rename a then finish a [fs, f1, f2] f3 False (Some (ErrIO ''rename''))
        else if \<not> ans_syncdir a then finish a [fs, f1, f2, f3] f4 True (Some (ErrIO ''syncDirectory''))
        else finish a [fs, f1, f2, f3] f4 True None)"

section \<open>writeFileAtomicWithDurabilityResult\<close>

text \<open>
  The mode and owner a replaced file keeps: those of the target, or mode 0600 and the
  owner of the directory for a new file.
\<close>

definition atomicWriteAttrs :: "answers \<Rightarrow> 'c files \<Rightarrow> string \<Rightarrow> nat \<times> (nat \<times> nat) option" where
  "atomicWriteAttrs a fs path =
     (case fs path of
        Some f \<Rightarrow> if ans_stat a then (f_mode f, Some (f_owner f)) else (384, ans_dirowner a)
      | None \<Rightarrow> (384, ans_dirowner a))"

definition writeFileAtomicWithDurabilityResult ::
    "bool \<Rightarrow> bool \<Rightarrow> string \<Rightarrow> 'c \<Rightarrow> answers \<Rightarrow> 'c files \<Rightarrow> 'c write_result" where
  "writeFileAtomicWithDurabilityResult durable hasSyncDir path data a fs =
     (let (mode, owner) = atomicWriteAttrs a fs path in
      if \<not> ans_create a \<or> fs (ans_tmp a) \<noteq> None
      then \<lparr>w_committed = False, w_err = Some (ErrIO ''createTemp''), w_fs = fs, w_trace = [fs]\<rparr>
      else
        let tmp = ans_tmp a;
            chown = (owner \<noteq> None \<and> fst (ans_self a) = 0);
            own = (if chown then the owner else ans_self a);
            f0 = fs(tmp \<mapsto> \<lparr>f_mode = 384, f_owner = ans_self a, f_content = Partial\<rparr>);
            f1 = fs(tmp \<mapsto> \<lparr>f_mode = mode, f_owner = own, f_content = Partial\<rparr>);
            f2 = fs(tmp \<mapsto> \<lparr>f_mode = mode, f_owner = own, f_content = Written data\<rparr>);
            f3 = fs(tmp \<mapsto> \<lparr>f_mode = mode, f_owner = own,
                             f_content = (if durable then Synced data else Written data)\<rparr>);
            f4 = move_file f3 tmp path
        in
        if \<not> ans_chmod0 a then finish a [fs] f0 False (Some (ErrIO ''chmod''))
        else if chown \<and> \<not> ans_chown a then finish a [fs] f0 False (Some (ErrIO ''chown''))
        else if \<not> ans_chmod a then finish a [fs] f0 False (Some (ErrIO ''chmod''))
        else if \<not> ans_write a then finish a [fs, f0] f1 False (Some (ErrIO ''write''))
        else if durable \<and> \<not> ans_sync a then finish a [fs, f0, f1] f2 False (Some (ErrIO ''sync''))
        else if \<not> ans_close a then finish a [fs, f0, f1, f2] f3 False (Some (ErrIO ''close''))
        else if \<not> ans_rename a then finish a [fs, f0, f1, f2] f3 False (Some (ErrIO ''rename''))
        else if \<not> durable then finish a [fs, f0, f1, f2, f3] f4 True None
        else if \<not> hasSyncDir
        then finish a [fs, f0, f1, f2, f3] f4 True (Some (Err ''directory sync is unavailable''))
        else finish a [fs, f0, f1, f2, f3] f4 True
               (if ans_syncdir a then None else Some (ErrIO ''syncDirectory'')))"

definition writeFileAtomic :: "string \<Rightarrow> 'c \<Rightarrow> answers \<Rightarrow> 'c files \<Rightarrow> 'c write_result" where
  "writeFileAtomic = writeFileAtomicWithDurabilityResult False True"

definition writeFileAtomicDurable :: "string \<Rightarrow> 'c \<Rightarrow> answers \<Rightarrow> 'c files \<Rightarrow> 'c write_result" where
  "writeFileAtomicDurable = writeFileAtomicWithDurabilityResult True True"

section \<open>The contract of an atomic writer\<close>

text \<open>
  A write that reports an error before the rename leaves the target as it was; one that
  is committed puts the data there, whatever it reports; no state in between shows
  anything else at the target, and no file but the target and the temporary one changes.
\<close>

locale atomic_writer =
  fixes wr :: "string \<Rightarrow> 'c \<Rightarrow> answers \<Rightarrow> 'c files \<Rightarrow> 'c write_result"
    and final :: "'c \<Rightarrow> 'c content"
  assumes committed_content: "ans_tmp a \<noteq> path \<Longrightarrow> w_committed (wr path d a fs) \<Longrightarrow>
      map_option f_content (w_fs (wr path d a fs) path) = Some (final d)"
    and uncommitted_target: "ans_tmp a \<noteq> path \<Longrightarrow> \<not> w_committed (wr path d a fs) \<Longrightarrow>
      w_fs (wr path d a fs) path = fs path"
    and uncommitted_error: "\<not> w_committed (wr path d a fs) \<Longrightarrow> w_err (wr path d a fs) \<noteq> None"
    and trace_target: "ans_tmp a \<noteq> path \<Longrightarrow> g \<in> set (w_trace (wr path d a fs)) \<Longrightarrow>
      g path = fs path \<or> map_option f_content (g path) = Some (final d)"
    and others_kept: "p \<noteq> path \<Longrightarrow> p \<noteq> ans_tmp a \<Longrightarrow> w_fs (wr path d a fs) p = fs p"
    and tmp_removed: "ans_tmp a \<noteq> path \<Longrightarrow> ans_remove a \<Longrightarrow> fs (ans_tmp a) = None \<Longrightarrow>
      w_fs (wr path d a fs) (ans_tmp a) = None"
    and final_readable: "readable (final d) = Some d"
begin

lemma success_committed: "w_err (wr path d a fs) = None \<Longrightarrow> w_committed (wr path d a fs)"
  using uncommitted_error by blast

lemma data_after: "ans_tmp a \<noteq> path \<Longrightarrow>
    data_at (w_fs (wr path d a fs)) path =
      (if w_committed (wr path d a fs) then Some d else data_at fs path)"
  using committed_content[of a path d fs] uncommitted_target[of a path d fs] final_readable
  by (auto simp: data_at_def split: option.splits)

lemma trace_data: "ans_tmp a \<noteq> path \<Longrightarrow> g \<in> set (w_trace (wr path d a fs)) \<Longrightarrow>
    data_at g path = data_at fs path \<or> data_at g path = Some d"
  using trace_target[of a path g d fs] final_readable
  by (auto simp: data_at_def split: option.splits)

fun write_all :: "string \<Rightarrow> ('c \<times> answers) list \<Rightarrow> 'c files \<Rightarrow> 'c files" where
  "write_all path [] fs = fs"
| "write_all path ((d, a) # ws) fs = write_all path ws (w_fs (wr path d a fs))"

lemma write_all_data:
  "(\<forall>(d, a) \<in> set ws. ans_tmp a \<noteq> path) \<Longrightarrow>
   data_at (write_all path ws fs) path = data_at fs path \<or>
   (\<exists>d \<in> fst ` set ws. data_at (write_all path ws fs) path = Some d)"
proof (induction ws arbitrary: fs)
  case (Cons w ws)
  obtain d a where w: "w = (d, a)" by (cases w)
  let ?fs = "w_fs (wr path d a fs)"
  have "data_at ?fs path = Some d \<or> data_at ?fs path = data_at fs path"
    using data_after[of a path d fs] Cons.prems w by auto
  with Cons.IH[of ?fs] Cons.prems w show ?case by force
qed simp

end

lemmas writer_simps = finish_def move_file_def Let_def

text \<open>
  Both routines are chains of guards that end in one of two shapes, so the laws are
  proved once for a write whose states before the rename leave the target alone.
\<close>

lemma writeDurableOperationFile_cases:
  "w_committed (writeDurableOperationFile path d a fs) \<longleftrightarrow>
     ans_create a \<and> fs (ans_tmp a) = None \<and> ans_chmod0 a \<and> ans_write a \<and> ans_sync a \<and>
     ans_close a \<and> ans_rename a"
  by (simp add: writeDurableOperationFile_def writer_simps)

lemma writeFileAtomic_cases:
  "w_committed (writeFileAtomicWithDurabilityResult durable sd path d a fs) \<longleftrightarrow>
     ans_create a \<and> fs (ans_tmp a) = None \<and> ans_chmod0 a \<and>
     (snd (atomicWriteAttrs a fs path) \<noteq> None \<and> fst (ans_self a) = 0 \<longrightarrow> ans_chown a) \<and>
     ans_chmod a \<and> ans_write a \<and> (durable \<longrightarrow> ans_sync a) \<and> ans_close a \<and> ans_rename a"
  by (simp add: writeFileAtomicWithDurabilityResult_def writer_simps split_beta)

lemma op_write_trace:
  "ans_tmp a \<noteq> path \<Longrightarrow> list_all
     (\<lambda>g. g path = fs path \<or> map_option f_content (g path) = Some (Synced d))
     (w_trace (writeDurableOperationFile path d a fs))"
  by (simp add: writeDurableOperationFile_def writer_simps)

interpretation op_writer: atomic_writer writeDurableOperationFile Synced
proof unfold_locales
  fix a path d fs g
  assume "ans_tmp a \<noteq> path" "g \<in> set (w_trace (writeDurableOperationFile path d a fs))"
  then show "g path = fs path \<or> map_option f_content (g path) = Some (Synced d)"
    using op_write_trace[of a path fs d] unfolding list_all_iff by blast
qed (simp_all add: writeDurableOperationFile_def writer_simps split: if_split_asm, auto)

lemma env_write_trace:
  "ans_tmp a \<noteq> path \<Longrightarrow> list_all
     (\<lambda>g. g path = fs path \<or> map_option f_content (g path) = Some ((if durable then Synced else Written) d))
     (w_trace (writeFileAtomicWithDurabilityResult durable sd path d a fs))"
  by (simp add: writeFileAtomicWithDurabilityResult_def writer_simps split_beta)

lemma env_write_committed:
  "ans_tmp a \<noteq> path \<Longrightarrow>
   (let w = writeFileAtomicWithDurabilityResult durable sd path d a fs in
    if w_committed w
    then map_option f_content (w_fs w path) = Some ((if durable then Synced else Written) d)
    else w_fs w path = fs path \<and> w_err w \<noteq> None)"
  by (simp add: writeFileAtomicWithDurabilityResult_def writer_simps split_beta)

lemma env_write_frame:
  "(p \<noteq> path \<and> p \<noteq> ans_tmp a \<longrightarrow>
     w_fs (writeFileAtomicWithDurabilityResult durable sd path d a fs) p = fs p) \<and>
   (ans_tmp a \<noteq> path \<and> ans_remove a \<and> fs (ans_tmp a) = None \<longrightarrow>
     w_fs (writeFileAtomicWithDurabilityResult durable sd path d a fs) (ans_tmp a) = None)"
  by (simp add: writeFileAtomicWithDurabilityResult_def writer_simps split_beta)

lemma env_write_error:
  "w_committed (writeFileAtomicWithDurabilityResult durable sd path d a fs) \<or>
   w_err (writeFileAtomicWithDurabilityResult durable sd path d a fs) \<noteq> None"
  by (simp add: writeFileAtomicWithDurabilityResult_def writer_simps split_beta)

lemma atomic_writer_atomic:
  "atomic_writer (writeFileAtomicWithDurabilityResult durable sd)
     (if durable then Synced else Written)"
proof unfold_locales
  fix a path d fs g
  let ?w = "writeFileAtomicWithDurabilityResult durable sd path d a fs"
  show "map_option f_content (w_fs ?w path) = Some ((if durable then Synced else Written) d)"
    if "ans_tmp a \<noteq> path" "w_committed ?w"
    using env_write_committed[OF that(1), of durable sd d fs] that(2) by (simp only: Let_def if_True)
  show "w_fs ?w path = fs path" if "ans_tmp a \<noteq> path" "\<not> w_committed ?w"
    using env_write_committed[OF that(1), of durable sd d fs] that(2)
    by (simp only: Let_def if_False)
  show "w_err ?w \<noteq> None" if "\<not> w_committed ?w"
    using that env_write_error[of durable sd path d a fs] by blast
  show "g path = fs path \<or>
      map_option f_content (g path) = Some ((if durable then Synced else Written) d)"
    if "ans_tmp a \<noteq> path" "g \<in> set (w_trace ?w)"
    using env_write_trace[of a path fs durable d sd] that unfolding list_all_iff by blast
  show "w_fs ?w p = fs p" if "p \<noteq> path" "p \<noteq> ans_tmp a" for p
    using that env_write_frame[of p path a durable sd d fs] by blast
  show "w_fs ?w (ans_tmp a) = None" if "ans_tmp a \<noteq> path" "ans_remove a" "fs (ans_tmp a) = None"
    using that env_write_frame[of undefined path a durable sd d fs] by blast
qed simp

interpretation env_writer: atomic_writer writeFileAtomic Written
  using atomic_writer_atomic[of False True] by (simp add: writeFileAtomic_def)

interpretation durable_writer: atomic_writer writeFileAtomicDurable Synced
  using atomic_writer_atomic[of True True] by (simp add: writeFileAtomicDurable_def)

section \<open>What the writers guarantee\<close>

text \<open>
  The target of an env write keeps its mode, and its owner when the deployer runs as
  root: replacing a file is not visible in its attributes.
\<close>

lemma replaced_attrs:
  assumes "w_committed (writeFileAtomicWithDurabilityResult durable sd path d a fs)"
    and "fs path = Some f" and "ans_stat a" and "ans_tmp a \<noteq> path"
  shows "\<exists>g. w_fs (writeFileAtomicWithDurabilityResult durable sd path d a fs) path = Some g \<and>
     f_mode g = f_mode f \<and> (fst (ans_self a) = 0 \<longrightarrow> f_owner g = f_owner f)"
  using assms(1) assms(2-4) unfolding writeFileAtomic_cases
  by (auto simp: writeFileAtomicWithDurabilityResult_def writer_simps atomicWriteAttrs_def)

text \<open>
  C11. Crash atomicity of the durable operation store's writer. Whatever subset of the
  system calls fails, every state of the files that a crash or a concurrent reader can
  see during \<open>writeDurableOperationFile\<close> has at the target path either exactly what was
  there before or the complete new document, already flushed to disk.
\<close>

theorem durable_write_crash_atomic:
  assumes "ans_tmp a \<noteq> path"
    and "g \<in> set (w_trace (writeDurableOperationFile path d a fs))"
  shows "g path = fs path \<or> map_option f_content (g path) = Some (Synced d)"
  using assms by (rule op_writer.trace_target)

theorem durable_write_crash_atomic_witness:
  "(\<lambda>p. None) ''ops'' = (None :: nat go_file option) \<or>
   map_option f_content ((\<lambda>p. None :: nat go_file option) ''ops'') = Some (Synced 7)"
proof (rule durable_write_crash_atomic[where a = "(all_well ''tmp'')\<lparr>ans_write := False\<rparr>"
      and fs = "\<lambda>p. None" and d = 7 and path = "''ops''"])
  show "ans_tmp ((all_well ''tmp'')\<lparr>ans_write := False\<rparr>) \<noteq> ''ops''"
    by (simp add: all_well_def)
  show "(\<lambda>p. None) \<in> set (w_trace (writeDurableOperationFile ''ops'' (7::nat)
      ((all_well ''tmp'')\<lparr>ans_write := False\<rparr>) (\<lambda>p. None)))"
    by (simp add: writeDurableOperationFile_def all_well_def writer_simps)
qed

text \<open>
  Outcome of a durable replacement of a file (journals, the maintenance marker, the
  registry): the committed flag tells exactly whether the target now holds the new data,
  an uncommitted write leaves the target alone and reports an error, and when the
  deferred removal of the temporary file works no other path changes, on every failure.
\<close>

theorem durable_replace_outcome:
  assumes "ans_tmp a \<noteq> path" and "fs (ans_tmp a) = None" and "ans_remove a"
  shows "(let w = writeFileAtomicWithDurabilityResult True sd path d a fs in
     data_at (w_fs w) path = (if w_committed w then Some d else data_at fs path) \<and>
     (w_committed w \<or> w_err w \<noteq> None \<and> w_fs w path = fs path) \<and>
     (\<forall>p. p = path \<or> w_fs w p = fs p))"
proof -
  let ?w = "writeFileAtomicWithDurabilityResult True sd path d a fs"
  have A: "atomic_writer (writeFileAtomicWithDurabilityResult True sd) Synced"
    using atomic_writer_atomic[of True sd] by simp
  note laws = atomic_writer.data_after[OF A] atomic_writer.uncommitted_target[OF A]
    atomic_writer.uncommitted_error[OF A] atomic_writer.others_kept[OF A]
    atomic_writer.tmp_removed[OF A]
  have "p = path \<or> w_fs ?w p = fs p" for p
    using laws(4)[of p path a d fs] laws(5)[of a path fs d] assms by (cases "p = ans_tmp a") auto
  then have "\<forall>p. p = path \<or> w_fs ?w p = fs p" ..
  moreover have "w_committed ?w \<or> w_err ?w \<noteq> None \<and> w_fs ?w path = fs path"
    using laws(2)[of a path d fs] laws(3)[of path d a fs] assms(1) by (cases "w_committed ?w") simp_all
  ultimately show ?thesis
    unfolding Let_def using laws(1)[OF assms(1), of d fs] by simp
qed

theorem durable_replace_outcome_witness:
  "(let w = writeFileAtomicWithDurabilityResult True True ''journal'' (1 :: nat)
      ((all_well ''tmp'')\<lparr>ans_syncdir := False\<rparr>) (\<lambda>p. None) in
     data_at (w_fs w) ''journal'' = (if w_committed w then Some 1 else data_at (\<lambda>p. None) ''journal'') \<and>
     (w_committed w \<or> w_err w \<noteq> None \<and> w_fs w ''journal'' = None) \<and>
     (\<forall>p. p = ''journal'' \<or> w_fs w p = None))"
  by (rule durable_replace_outcome) (simp_all add: all_well_def)

end
