(* ===== verification/LifecycleTypes.thy ===== *)
theory LifecycleTypes
  imports GoText
begin

text \<open>
  The vocabulary of the control plane: the kinds and states of a lifecycle operation
  (main.go), the public messages an operation may carry (operation_store.go) and the
  native owner gate (legacy_native_guards.go), which the coordinator, the job manager
  and the operation store all consult.
\<close>

section \<open>Kinds and states\<close>

text \<open>
  The Go types are strings; a value that is none of the declared constants is the
  constructor that carries the text (for a state also the empty string).
\<close>

datatype lifecycleKind = KindNone | KindCreate | KindClose | KindReset | KindOther string

datatype lifecycleJobStatus =
    JobPending | JobRunning | JobRecoveryRequired | JobSucceeded | JobFailed | JobCancelled
  | StatusOther string

definition isTerminalLifecycleJob :: "lifecycleJobStatus \<Rightarrow> bool" where
  "isTerminalLifecycleJob status \<longleftrightarrow>
     status = JobSucceeded \<or> status = JobFailed \<or> status = JobCancelled"

lemma terminal_simps [simp]:
  "isTerminalLifecycleJob JobSucceeded" "isTerminalLifecycleJob JobFailed"
  "isTerminalLifecycleJob JobCancelled" "\<not> isTerminalLifecycleJob JobPending"
  "\<not> isTerminalLifecycleJob JobRunning" "\<not> isTerminalLifecycleJob JobRecoveryRequired"
  "\<not> isTerminalLifecycleJob (StatusOther s)"
  by (simp_all add: isTerminalLifecycleJob_def)

definition isDurableOperationStatus :: "lifecycleJobStatus \<Rightarrow> bool" where
  "isDurableOperationStatus status \<longleftrightarrow>
     (case status of
        JobPending \<Rightarrow> True | JobRunning \<Rightarrow> True | JobRecoveryRequired \<Rightarrow> True
      | JobSucceeded \<Rightarrow> True | JobFailed \<Rightarrow> True | JobCancelled \<Rightarrow> True
      | StatusOther s \<Rightarrow> False)"

section \<open>Public messages\<close>

text \<open>
  The approved message templates, one constructor per constant (their Korean text is not
  needed: it is compared with itself only), and any other text. A message identifier
  names a template.
\<close>

datatype public_message =
    MsgNone | MsgRequestValidationFailed | MsgDockerUnavailable | MsgAlreadyInProgress
  | MsgCreatePreparationFailed | MsgClosePreparationFailed | MsgResetPreparationFailed
  | MsgRecovery | MsgVerificationFailed | MsgCancelled | MsgRestart
  | MsgCreateSucceeded | MsgCloseSucceeded | MsgResetSucceeded
  | MsgOther string

datatype message_id =
    IdNone | IdRequestValidationFailed | IdDockerUnavailable | IdAlreadyInProgress
  | IdCreatePreparationFailed | IdClosePreparationFailed | IdResetPreparationFailed
  | IdRecoveryRequired | IdVerificationFailed | IdCancelled | IdRestartInterrupted
  | IdCreateSucceeded | IdCloseSucceeded | IdResetSucceeded
  | IdOther string

fun durableOperationPublicMessage :: "message_id \<Rightarrow> public_message result" where
  "durableOperationPublicMessage IdNone = Inr MsgNone"
| "durableOperationPublicMessage IdRequestValidationFailed = Inr MsgRequestValidationFailed"
| "durableOperationPublicMessage IdDockerUnavailable = Inr MsgDockerUnavailable"
| "durableOperationPublicMessage IdAlreadyInProgress = Inr MsgAlreadyInProgress"
| "durableOperationPublicMessage IdCreatePreparationFailed = Inr MsgCreatePreparationFailed"
| "durableOperationPublicMessage IdClosePreparationFailed = Inr MsgClosePreparationFailed"
| "durableOperationPublicMessage IdResetPreparationFailed = Inr MsgResetPreparationFailed"
| "durableOperationPublicMessage IdRecoveryRequired = Inr MsgRecovery"
| "durableOperationPublicMessage IdVerificationFailed = Inr MsgVerificationFailed"
| "durableOperationPublicMessage IdCancelled = Inr MsgCancelled"
| "durableOperationPublicMessage IdRestartInterrupted = Inr MsgRestart"
| "durableOperationPublicMessage IdCreateSucceeded = Inr MsgCreateSucceeded"
| "durableOperationPublicMessage IdCloseSucceeded = Inr MsgCloseSucceeded"
| "durableOperationPublicMessage IdResetSucceeded = Inr MsgResetSucceeded"
| "durableOperationPublicMessage (IdOther s) = Inl (Err ''durable operation message id is invalid'')"

text \<open>
  \<open>validateDurableOperationMessage\<close>: the templates pass its UTF-8, length and control
  character tests; a text that is no template fails one of those or the final switch.
\<close>

fun validateDurableOperationMessage :: "public_message \<Rightarrow> unit result" where
  "validateDurableOperationMessage (MsgOther s) =
     (if \<not> valid_utf8 s then Inl (Err ''public message is not valid UTF-8'')
      else if length (runes s) > 300 then Inl (Err ''public message exceeds 300 characters'')
      else if list_ex rune_is_control (runes s)
      then Inl (Err ''public message contains control characters'')
      else Inl (Err ''public message is not an approved lifecycle template''))"
| "validateDurableOperationMessage _ = Inr ()"

lemma public_message_approved:
  "durableOperationPublicMessage m = Inr p \<Longrightarrow> validateDurableOperationMessage p = Inr ()"
  by (cases m) auto

definition durableOperationSuccessMessage :: "lifecycleKind \<Rightarrow> message_id" where
  "durableOperationSuccessMessage kind =
     (case kind of KindCreate \<Rightarrow> IdCreateSucceeded | KindClose \<Rightarrow> IdCloseSucceeded
      | _ \<Rightarrow> IdResetSucceeded)"

definition durableOperationPreparationFailureMessage :: "lifecycleKind \<Rightarrow> message_id" where
  "durableOperationPreparationFailureMessage kind =
     (case kind of KindCreate \<Rightarrow> IdCreatePreparationFailed | KindClose \<Rightarrow> IdClosePreparationFailed
      | _ \<Rightarrow> IdResetPreparationFailed)"

section \<open>The native owner gate\<close>

datatype ownerState = OwnerAbsent | OwnerPresent | OwnerUnknown

text \<open>
  A preparation is a heap object: its identity is a number, its fields never change. The
  gate points to one, and is itself reached through a pointer that may be nil.
\<close>

type_synonym prep_id = nat

record prep_info =
  pi_kind :: lifecycleKind
  pi_operationID :: string
  pi_subjectID :: string
  pi_fingerprint :: string

record owner_gate =
  og_state :: ownerState
  og_frozen :: bool
  og_preparation :: "(prep_id \<times> prep_info) option"

type_synonym gate = "owner_gate option"

definition blocksAdmission :: "gate \<Rightarrow> bool" where
  "blocksAdmission g = (case g of None \<Rightarrow> False | Some o' \<Rightarrow> og_state o' \<noteq> OwnerAbsent)"

definition blocksMutation :: "gate \<Rightarrow> bool" where
  "blocksMutation g =
     (case g of None \<Rightarrow> False | Some o' \<Rightarrow> og_frozen o' \<or> og_state o' = OwnerUnknown)"

definition blocksPromotion :: "gate \<Rightarrow> prep_id \<Rightarrow> bool" where
  "blocksPromotion g p \<longleftrightarrow> blocksAdmission g \<and>
     (blocksMutation g \<or> (case g of None \<Rightarrow> True | Some o' \<Rightarrow> map_option fst (og_preparation o') \<noteq> Some p))"

definition allowsPreparationDrain :: "gate \<Rightarrow> string \<Rightarrow> string \<Rightarrow> lifecycleKind \<Rightarrow> bool" where
  "allowsPreparationDrain g operationID fingerprint kind =
     (case g of
        None \<Rightarrow> False
      | Some o' \<Rightarrow>
          (case og_preparation o' of
             None \<Rightarrow> False
           | Some (_, p) \<Rightarrow>
               \<not> blocksMutation g \<and> pi_operationID p \<noteq> [] \<and> pi_operationID p = operationID \<and>
               pi_fingerprint p = fingerprint \<and> pi_kind p = kind))"

definition resetD101RestoreGatePath :: "string \<Rightarrow> string" where
  "resetD101RestoreGatePath marker = (if marker = [] then [] else marker @ ''.d101-restore1'')"

definition resetD101RootOwnerPath :: "string \<Rightarrow> string" where
  "resetD101RootOwnerPath servers = filepath_join [servers, ''.deployer-d101-native-owner'']"

text \<open>
  What \<open>os.Lstat\<close> says of a path. The probe walks the components of a clean absolute
  path; a missing component means that no owner is there, unless one was seen before.
\<close>

record file_info =
  fi_symlink :: bool
  fi_dir :: bool
  fi_regular :: bool
  fi_size :: int
  fi_perm :: nat
  fi_uid :: nat
  fi_nlink :: nat

datatype lstat_answer = LstatNotExist | LstatError | LstatInfo file_info

fun probe_parts :: "(string \<Rightarrow> lstat_answer) \<Rightarrow> bool \<Rightarrow> string \<Rightarrow> string list \<Rightarrow> ownerState" where
  "probe_parts lstat unresolved current [] = OwnerUnknown"
| "probe_parts lstat unresolved current (part # parts) =
     (let next = filepath_join [current, part] in
      case lstat next of
        LstatNotExist \<Rightarrow> if unresolved then OwnerUnknown else OwnerAbsent
      | LstatError \<Rightarrow> OwnerUnknown
      | LstatInfo info \<Rightarrow>
          if fi_symlink info then OwnerUnknown
          else if parts \<noteq> []
          then (if \<not> fi_dir info then OwnerUnknown else probe_parts lstat unresolved next parts)
          else if \<not> fi_regular info \<or> fi_size info \<le> 0 \<or> fi_perm info \<noteq> 256 then OwnerUnknown
          else if fi_uid info \<noteq> 0 \<or> fi_nlink info \<noteq> 1 then OwnerUnknown
          else OwnerPresent)"

definition probeResetD101RootOwner :: "(string \<Rightarrow> lstat_answer) \<Rightarrow> string \<Rightarrow> bool \<Rightarrow> ownerState" where
  "probeResetD101RootOwner lstat path unresolved =
     (if \<not> has_prefix path ''/'' \<or> filepath_clean path \<noteq> path then OwnerUnknown
      else probe_parts lstat unresolved ''/'' (split_on CHR ''/'' (trim_prefix path ''/'')))"

definition resetD101RootStartupOwner :: "(string \<Rightarrow> lstat_answer) \<Rightarrow> string \<Rightarrow> bool \<Rightarrow> unit result" where
  "resetD101RootStartupOwner lstat servers unresolved =
     (if probeResetD101RootOwner lstat (resetD101RootOwnerPath servers) unresolved \<noteq> OwnerAbsent
      then Inl ErrResetExecutionEvidence else Inr ())"

lemma no_gate [simp]:
  "\<not> blocksAdmission None" "\<not> blocksMutation None" "\<not> blocksPromotion None p"
  by (simp_all add: blocksAdmission_def blocksMutation_def blocksPromotion_def)

text \<open>A seen owner never becomes absent: with \<open>unresolved\<close> the probe does not say so.\<close>

lemma probe_parts_unresolved: "probe_parts lstat True current ps \<noteq> OwnerAbsent"
  by (induction lstat "True" current ps rule: probe_parts.induct)
    (auto simp: Let_def split: lstat_answer.splits)

lemma probe_unresolved: "probeResetD101RootOwner lstat path True \<noteq> OwnerAbsent"
  by (simp add: probeResetD101RootOwner_def probe_parts_unresolved)

text \<open>Only a root-owned, singly linked, non-empty regular file of mode 0400 is an owner.\<close>

lemma probe_parts_present:
  "probe_parts lstat u current ps = OwnerPresent \<Longrightarrow>
   \<exists>path info. lstat path = LstatInfo info \<and> \<not> fi_symlink info \<and> fi_regular info \<and>
     0 < fi_size info \<and> fi_perm info = 256 \<and> fi_uid info = 0 \<and> fi_nlink info = 1"
proof (induction lstat u current ps rule: probe_parts.induct)
  case (2 lstat u current part parts)
  show ?case
  proof (cases "lstat (filepath_join [current, part])")
    case (LstatInfo info)
    show ?thesis
    proof (cases "parts = []")
      case True
      then show ?thesis
        using "2.prems" LstatInfo
        by (intro exI[of _ "filepath_join [current, part]"] exI[of _ info])
          (simp add: Let_def not_le split: if_split_asm)
    next
      case False
      then have "probe_parts lstat u (filepath_join [current, part]) parts = OwnerPresent"
        using "2.prems" LstatInfo by (simp add: Let_def split: if_split_asm)
      then show ?thesis
        using "2.IH"[OF refl LstatInfo] "2.prems" LstatInfo False
        by (simp add: Let_def split: if_split_asm)
    qed
  qed (use "2.prems" in \<open>auto simp: Let_def split: if_splits\<close>)
qed simp

end
