(* ===== verification/OperationStore.thy ===== *)
theory OperationStore
  imports AtomicWrite LifecycleTypes
begin

text \<open>
  The durable operation store of operation_store.go: the records of lifecycle operations,
  the document file that holds them, and the operations that reserve, settle, look up and
  reconcile them. The receiver's fields are the record \<open>op_store\<close>; the document file lives
  in the files of AtomicWrite, so every write can fail at every system call. The JSON text
  is modelled at the level of the decoded document.
\<close>

section \<open>Records, documents and the store\<close>

record op_record =
  op_operationID :: string
  op_kind :: lifecycleKind
  op_subjectID :: string
  op_fingerprint :: string
  op_status :: lifecycleJobStatus
  op_httpStatus :: int
  op_publicMessage :: public_message
  op_createdAt :: time
  op_updatedAt :: time
  op_intentSHA :: string

definition zero_op_record :: op_record where
  "zero_op_record = \<lparr>op_operationID = [], op_kind = KindNone, op_subjectID = [], op_fingerprint = [],
     op_status = StatusOther [], op_httpStatus = 0, op_publicMessage = MsgNone, op_createdAt = 0,
     op_updatedAt = 0, op_intentSHA = []\<rparr>"

text \<open>
  The content of the document file: bytes that do not decode (malformed, with unknown
  fields or trailing data), or a version and the list of operations, which may be null.
\<close>

datatype op_file = Undecodable | Decoded int "op_record list option"

record op_store =
  st_gate :: gate
  st_path :: string
  st_maxEntries :: int
  st_retention :: duration
  st_operations :: "(string, op_record) gomap"
  st_deferred :: "(string, op_record) gomap"

definition durableOperationStoreVersion :: int where "durableOperationStoreVersion = 1"
definition durableOperationMaxEntries :: int where "durableOperationMaxEntries = 512"
definition durableOperationTerminalRetention :: duration where
  "durableOperationTerminalRetention = 24 * hour"

lemmas op_consts [go_defs] = durableOperationStoreVersion_def durableOperationMaxEntries_def
  durableOperationTerminalRetention_def


section \<open>Validation and pruning\<close>

definition validateDurableOperationRecord :: "op_record \<Rightarrow> unit result" where
  "validateDurableOperationRecord r =
     (if op_intentSHA r \<noteq> [] \<and>
         (\<not> resetEvidenceSHA (op_intentSHA r) \<or> op_kind r \<noteq> KindReset \<or> op_subjectID r \<noteq> ''pep'')
      then Inl (Err ''D101 operation reservation is invalid'')
      else if \<not> lifecycleJobIDRe (op_operationID r)
      then Inl (Err ''operation id must be 32 lowercase hexadecimal characters'')
      else if op_kind r \<noteq> KindCreate \<and> op_kind r \<noteq> KindClose \<and> op_kind r \<noteq> KindReset
      then Inl (Err ''operation kind is invalid'')
      else if op_subjectID r = [] \<or> length (op_subjectID r) > maxPublicServerIDLength \<or>
              \<not> serverIDRe (op_subjectID r)
      then Inl (Err ''operation subject id is invalid'')
      else if \<not> durableOperationFingerprintRe (op_fingerprint r)
      then Inl (Err ''request fingerprint must be 64 lowercase hexadecimal characters'')
      else if \<not> isDurableOperationStatus (op_status r)
      then Inl (Err ''operation status is invalid'')
      else if op_httpStatus r \<noteq> 0 \<and> (op_httpStatus r < 100 \<or> op_httpStatus r > 599)
      then Inl (Err ''operation HTTP status is invalid'')
      else case validateDurableOperationMessage (op_publicMessage r) of
        Inl e \<Rightarrow> Inl e
      | Inr _ \<Rightarrow>
          if time_is_zero (op_createdAt r) \<or> time_is_zero (op_updatedAt r) \<or> op_updatedAt r < op_createdAt r
          then Inl (Err ''operation timestamps are invalid'')
          else Inr ())"

definition keep_operation :: "time \<Rightarrow> duration \<Rightarrow> op_record \<Rightarrow> bool" where
  "keep_operation now ret r \<longleftrightarrow>
     op_intentSHA r \<noteq> [] \<or> \<not> isTerminalLifecycleJob (op_status r) \<or> now < op_updatedAt r + ret"

definition pruneExpiredDurableOperations ::
    "(string, op_record) gomap \<Rightarrow> time \<Rightarrow> duration \<Rightarrow> (string, op_record) gomap \<times> bool" where
  "pruneExpiredDurableOperations ops now ret =
     (filter (\<lambda>(id, r). keep_operation now ret r) ops,
      list_ex (\<lambda>(id, r). \<not> keep_operation now ret r) ops)"

abbreviation pruned :: "(string, op_record) gomap \<Rightarrow> time \<Rightarrow> duration \<Rightarrow> (string, op_record) gomap" where
  "pruned ops now ret \<equiv> fst (pruneExpiredDurableOperations ops now ret)"

section \<open>Persistence\<close>

definition document_of :: "(string, op_record) gomap \<Rightarrow> op_file" where
  "document_of ops = Decoded durableOperationStoreVersion (Some (map snd ops))"

definition persistLocked ::
    "op_store \<Rightarrow> (string, op_record) gomap \<Rightarrow> answers \<Rightarrow> op_file files \<Rightarrow>
     bool \<times> err option \<times> op_file files" where
  "persistLocked s ops a fs =
     (let w = writeDurableOperationFile (st_path s) (document_of ops) a fs in
      case w_err w of
        Some e \<Rightarrow> (w_committed w, Some e, w_fs w)
      | None \<Rightarrow> (True, None, w_fs w))"

definition persistAndInstallLocked ::
    "op_store \<Rightarrow> (string, op_record) gomap \<Rightarrow> answers \<Rightarrow> op_file files \<Rightarrow>
     err option \<times> op_store \<times> op_file files" where
  "persistAndInstallLocked s ops a fs =
     (if blocksMutation (st_gate s) then (Some ErrMaintenanceClosed, s, fs)
      else let (committed, e, fs') = persistLocked s ops a fs in
        (e, if committed then s\<lparr>st_operations := ops\<rparr> else s, fs'))"

text \<open>The answers of the calls of \<open>openDurableOperationStore\<close> on the document file.\<close>

record open_answers =
  oa_open :: bool
  oa_stat :: bool
  oa_chmod :: bool
  oa_sync :: bool

fun load_records ::
    "(string, op_record) gomap \<Rightarrow> op_record list \<Rightarrow> (string, op_record) gomap result" where
  "load_records ops [] = Inr ops"
| "load_records ops (r # rs) =
     (case validateDurableOperationRecord r of
        Inl e \<Rightarrow> Inl e
      | Inr _ \<Rightarrow>
          if gm_has ops (op_operationID r) then Inl (Err ''duplicate durable operation id'')
          else load_records (AList.update (op_operationID r) r ops) rs)"

definition decode_document :: "int \<Rightarrow> op_file option \<Rightarrow> (string, op_record) gomap result" where
  "decode_document maxE c =
     (case c of
        None \<Rightarrow> Inl (Err ''decode durable operation store'')
      | Some Undecodable \<Rightarrow> Inl (Err ''decode durable operation store'')
      | Some (Decoded v ops) \<Rightarrow>
          if v \<noteq> durableOperationStoreVersion
          then Inl (Err ''unsupported durable operation store version'')
          else case ops of
            None \<Rightarrow> Inl (Err ''durable operation store operations are missing'')
          | Some rs \<Rightarrow>
              if int (length rs) > maxE
              then Inl (Err ''durable operation store contains too many records'')
              else load_records [] rs)"

definition openDurableOperationStore ::
    "string \<Rightarrow> int \<Rightarrow> duration \<Rightarrow> time \<Rightarrow> open_answers \<Rightarrow> answers \<Rightarrow> op_file files \<Rightarrow>
     op_store result \<times> op_file files" where
  "openDurableOperationStore p maxE ret now oa a fs =
     (if p = [] then (Inl (Err ''durable operation store path is empty''), fs)
      else if maxE \<le> 0 then (Inl (Err ''durable operation store capacity must be positive''), fs)
      else if ret \<le> 0
      then (Inl (Err ''durable operation terminal retention must be positive''), fs)
      else
        let store = \<lparr>st_gate = None, st_path = p, st_maxEntries = maxE, st_retention = ret,
                     st_operations = [], st_deferred = []\<rparr>
        in case fs p of
          None \<Rightarrow> (Inr store, fs)
        | Some f \<Rightarrow>
            if \<not> oa_open oa then (Inl (ErrIO ''open''), fs)
            else if \<not> oa_stat oa then (Inl (ErrIO ''stat''), fs)
            else if f_mode f \<noteq> 384 \<and> \<not> oa_chmod oa then (Inl (ErrIO ''chmod''), fs)
            else
              let fs1 = fs(p \<mapsto> f\<lparr>f_mode := 384\<rparr>) in
              if f_mode f \<noteq> 384 \<and> \<not> oa_sync oa then (Inl (ErrIO ''sync''), fs1)
              else case decode_document maxE (readable (f_content f)) of
                Inl e \<Rightarrow> (Inl e, fs1)
              | Inr ops \<Rightarrow>
                  let store1 = store\<lparr>st_operations := ops\<rparr>;
                      (next, changed) = pruneExpiredDurableOperations ops now ret
                  in if \<not> changed then (Inr store1, fs1)
                     else let (committed, e, fs2) = persistLocked store1 next a fs1;
                              store2 = (if committed then store1\<lparr>st_operations := next\<rparr> else store1)
                       in case e of Some e \<Rightarrow> (Inl e, fs2) | None \<Rightarrow> (Inr store2, fs2))"

section \<open>Reserve, Transition, Lookup, Recover\<close>

text \<open>
  \<open>Reserve\<close> returns a record, whether it existed, and an error; with the settlement error
  it returns all three.
\<close>

record reserve_result =
  rv_record :: op_record
  rv_existing :: bool
  rv_err :: "err option"

definition reserve_fail :: "err \<Rightarrow> reserve_result" where
  "reserve_fail e = \<lparr>rv_record = zero_op_record, rv_existing = False, rv_err = Some e\<rparr>"

definition reserve_ok :: "op_record \<Rightarrow> bool \<Rightarrow> reserve_result" where
  "reserve_ok r existing = \<lparr>rv_record = r, rv_existing = existing, rv_err = None\<rparr>"

definition same_request :: "op_record \<Rightarrow> op_record \<Rightarrow> bool" where
  "same_request r r' \<longleftrightarrow> op_kind r = op_kind r' \<and> op_subjectID r = op_subjectID r' \<and>
     op_fingerprint r = op_fingerprint r' \<and> op_intentSHA r = op_intentSHA r'"

definition reserve_existing ::
    "op_record \<Rightarrow> op_record \<Rightarrow> answers \<Rightarrow> op_store \<Rightarrow> op_file files \<Rightarrow>
     reserve_result \<times> op_store \<times> op_file files" where
  "reserve_existing record existing a s fs =
     (let id = op_operationID record in
      if \<not> same_request existing record
      then (reserve_fail ErrLifecycleOperationConflict, s, fs)
      else case map_of (st_deferred s) id of
        None \<Rightarrow> (reserve_ok existing True, s, fs)
      | Some deferred \<Rightarrow>
          let next = AList.update id deferred (st_operations s);
              (e, s1, fs1) = persistAndInstallLocked s next a fs;
              s2 = s1\<lparr>st_deferred := AList.delete id (st_deferred s1)\<rparr>
          in case e of
            None \<Rightarrow> (reserve_ok deferred True, s2, fs1)
          | Some _ \<Rightarrow>
              if map_of (st_operations s1) id = Some deferred
              then (reserve_ok deferred True, s2, fs1)
              else (\<lparr>rv_record = existing, rv_existing = True,
                     rv_err = Some ErrDurableOperationSettlementPending\<rparr>, s1, fs1))"

definition stamp_record :: "time \<Rightarrow> op_record \<Rightarrow> op_record" where
  "stamp_record now r =
     (let r1 = (if time_is_zero (op_createdAt r) then r\<lparr>op_createdAt := now\<rparr> else r) in
      if time_is_zero (op_updatedAt r1) then r1\<lparr>op_updatedAt := op_createdAt r1\<rparr> else r1)"

definition reserve_new ::
    "op_record \<Rightarrow> time \<Rightarrow> answers \<Rightarrow> op_store \<Rightarrow> op_file files \<Rightarrow>
     reserve_result \<times> op_store \<times> op_file files" where
  "reserve_new record0 now a s fs =
     (let record = stamp_record now record0 in
      case validateDurableOperationRecord record of
        Inl e \<Rightarrow> (reserve_fail e, s, fs)
      | Inr _ \<Rightarrow>
          let next = pruned (st_operations s) now (st_retention s) in
          if int (length next) \<ge> st_maxEntries s
          then (reserve_fail ErrLifecycleJobCapacity, s, fs)
          else let (e, s1, fs1) =
                     persistAndInstallLocked s (AList.update (op_operationID record) record next) a fs
            in case e of
              Some e \<Rightarrow> (reserve_fail e, s1, fs1)
            | None \<Rightarrow> (reserve_ok record False, s1, fs1))"

definition reserve_admitted :: "op_record \<Rightarrow> gate \<Rightarrow> bool" where
  "reserve_admitted r g \<longleftrightarrow> \<not> (blocksAdmission g \<and>
     (\<not> allowsPreparationDrain g (op_operationID r) (op_fingerprint r) (op_kind r) \<or>
      (case g of None \<Rightarrow> True | Some o' \<Rightarrow>
         map_option (pi_subjectID \<circ> snd) (og_preparation o') \<noteq> Some (op_subjectID r))))"

definition Reserve ::
    "op_record \<Rightarrow> time \<Rightarrow> answers \<Rightarrow> op_store \<Rightarrow> op_file files \<Rightarrow>
     reserve_result \<times> op_store \<times> op_file files" where
  "Reserve record now a s fs =
     (if blocksMutation (st_gate s) then (reserve_fail ErrMaintenanceClosed, s, fs)
      else case map_of (st_operations s) (op_operationID record) of
        Some existing \<Rightarrow> reserve_existing record existing a s fs
      | None \<Rightarrow>
          if \<not> reserve_admitted record (st_gate s)
          then (reserve_fail ErrMaintenanceClosed, s, fs)
          else reserve_new record now a s fs)"

definition transitioned ::
    "op_record \<Rightarrow> lifecycleJobStatus \<Rightarrow> int \<Rightarrow> public_message \<Rightarrow> time \<Rightarrow> op_record" where
  "transitioned r st http msg now =
     r\<lparr>op_status := st, op_httpStatus := http, op_publicMessage := msg, op_updatedAt := now\<rparr>"

definition transition_live ::
    "string \<Rightarrow> op_record \<Rightarrow> answers \<Rightarrow> op_store \<Rightarrow> op_file files \<Rightarrow> op_record result \<times> op_store \<times> op_file files" where
  "transition_live opid record a s fs =
     (let next = AList.update opid record (pruned (st_operations s) (op_updatedAt record) (st_retention s));
          (e, s1, fs1) = persistAndInstallLocked s next a fs;
          dropped = s1\<lparr>st_deferred := AList.delete opid (st_deferred s1)\<rparr>
      in case e of
        None \<Rightarrow> (Inr record, dropped, fs1)
      | Some e \<Rightarrow>
          if map_of (st_operations s1) opid \<noteq> Some record
          then (Inl e, s1\<lparr>st_deferred := AList.update opid record (st_deferred s1)\<rparr>, fs1)
          else (Inl e, dropped, fs1))"

definition Transition ::
    "string \<Rightarrow> lifecycleJobStatus \<Rightarrow> int \<Rightarrow> message_id \<Rightarrow> time \<Rightarrow> answers \<Rightarrow> op_store \<Rightarrow>
     op_file files \<Rightarrow> op_record result \<times> op_store \<times> op_file files" where
  "Transition opid st http mid now a s fs =
     (case durableOperationPublicMessage mid of
        Inl e \<Rightarrow> (Inl e, s, fs)
      | Inr msg \<Rightarrow>
          if blocksMutation (st_gate s) then (Inl ErrMaintenanceClosed, s, fs)
          else case map_of (st_operations s) opid of
            None \<Rightarrow> (Inl ErrNotExist, s, fs)
          | Some r \<Rightarrow>
              if isTerminalLifecycleJob (op_status r)
              then (if op_status r = st \<and> op_httpStatus r = http \<and> op_publicMessage r = msg
                    then (Inr r, s, fs)
                    else (Inl (Err ''durable operation is already terminal''), s, fs))
              else let r1 = transitioned r st http msg now in
                case validateDurableOperationRecord r1 of
                  Inl e \<Rightarrow> (Inl e, s, fs)
                | Inr _ \<Rightarrow> transition_live opid r1 a s fs)"

definition Lookup :: "string \<Rightarrow> op_store \<Rightarrow> op_record option" where
  "Lookup opid s = map_of (st_operations s) opid"

definition recover_record :: "string \<Rightarrow> time \<Rightarrow> string \<Rightarrow> op_record \<Rightarrow> op_record" where
  "recover_record journalID now opid r =
     (if journalID \<noteq> [] \<and> opid = journalID
      then transitioned r JobRecoveryRequired 202 MsgRecovery now
      else transitioned r JobCancelled 409 MsgRestart now)"

fun recover_loop ::
    "string \<Rightarrow> time \<Rightarrow> (string, op_record) gomap \<Rightarrow> bool \<Rightarrow> ((string, op_record) gomap \<times> bool) result" where
  "recover_loop j now [] changed = Inr ([], changed)"
| "recover_loop j now ((opid, r) # ops) changed =
     (if isTerminalLifecycleJob (op_status r)
      then map_sum (\<lambda>e. e) (apfst (Cons (opid, r))) (recover_loop j now ops changed)
      else let r1 = recover_record j now opid r in
        case validateDurableOperationRecord r1 of
          Inl e \<Rightarrow> Inl e
        | Inr _ \<Rightarrow> map_sum (\<lambda>e. e) (apfst (Cons (opid, r1))) (recover_loop j now ops True))"

definition Recover ::
    "string \<Rightarrow> time \<Rightarrow> answers \<Rightarrow> op_store \<Rightarrow> op_file files \<Rightarrow> err option \<times> op_store \<times> op_file files" where
  "Recover j now a s fs =
     (if blocksAdmission (st_gate s) then (Some ErrMaintenanceClosed, s, fs)
      else let (next, changed) = pruneExpiredDurableOperations (st_operations s) now (st_retention s) in
        case recover_loop j now next changed of
          Inl e \<Rightarrow> (Some e, s, fs)
        | Inr (next1, changed1) \<Rightarrow>
            if \<not> changed1 then (None, s, fs)
            else persistAndInstallLocked s next1 a fs)"

end
