(* ===== verification/OperationStoreLaws.thy ===== *)
theory OperationStoreLaws
  imports OperationStore
begin

text \<open>
  The laws of the durable operation store: its invariant, the agreement of the records in
  memory with the document file under every failure of a write, and the life of a record
  as the abstract specification \<open>record_step\<close> that each operation refines.
\<close>

section \<open>Pruning, validation and installation\<close>

abbreviation valid_record :: "op_record \<Rightarrow> bool" where
  "valid_record r \<equiv> validateDurableOperationRecord r = Inr ()"

abbreviation terminal_record :: "op_record \<Rightarrow> bool" where
  "terminal_record r \<equiv> isTerminalLifecycleJob (op_status r)"

lemma map_of_pruned [alist_simps]:
  "gm_ok ops \<Longrightarrow> map_of (pruned ops now ret) k =
    (case map_of ops k of None \<Rightarrow> None | Some r \<Rightarrow> if keep_operation now ret r then Some r else None)"
  by (auto simp: pruneExpiredDurableOperations_def map_of_filter_key split: option.splits)

lemma pruned_ok [simp, intro]: "gm_ok ops \<Longrightarrow> gm_ok (pruned ops now ret)"
  by (simp add: pruneExpiredDurableOperations_def)

lemma length_pruned: "length (pruned ops now ret) \<le> length ops"
  by (simp add: pruneExpiredDurableOperations_def)

lemma set_pruned: "kr \<in> set (pruned ops now ret) \<Longrightarrow> kr \<in> set ops"
  by (auto simp: pruneExpiredDurableOperations_def)

lemma prune_unchanged:
  "\<not> snd (pruneExpiredDurableOperations ops now ret) \<Longrightarrow> pruned ops now ret = ops"
  by (auto simp: pruneExpiredDurableOperations_def list_ex_iff intro!: filter_True)

lemma keep_live: "\<not> terminal_record r \<Longrightarrow> keep_operation now ret r"
  by (simp add: keep_operation_def)

text \<open>The record in memory, and the document at the path of the store.\<close>

definition mem_file :: "op_store \<Rightarrow> op_file files \<Rightarrow> bool" where
  "mem_file s fs \<longleftrightarrow>
     (case fs (st_path s) of
        None \<Rightarrow> st_operations s = []
      | Some f \<Rightarrow> readable (f_content f) = Some (document_of (st_operations s)))"

lemma mem_file_data:
  "data_at fs (st_path s) = Some (document_of (st_operations s)) \<Longrightarrow> mem_file s fs"
  by (auto simp: mem_file_def data_at_def split: option.splits)

lemma mem_file_deferred [simp]: "mem_file (s\<lparr>st_deferred := d\<rparr>) fs = mem_file s fs"
  by (simp add: mem_file_def split: option.split)

lemma mem_file_cong: "mem_file s fs \<Longrightarrow> fs' (st_path s) = fs (st_path s) \<Longrightarrow> mem_file s fs'"
  by (simp add: mem_file_def)

lemma install_cases:
  assumes "persistAndInstallLocked s ops a fs = (e, s1, fs1)" and "ans_tmp a \<noteq> st_path s"
  obtains
    (kept) "s1 = s" "e \<noteq> None" "fs1 (st_path s) = fs (st_path s)"
  | (installed) "s1 = s\<lparr>st_operations := ops\<rparr>"
      "data_at fs1 (st_path s) = Some (document_of ops)"
proof -
  let ?w = "writeDurableOperationFile (st_path s) (document_of ops) a fs"
  show thesis
  proof (cases "blocksMutation (st_gate s)")
    case True
    then show thesis using assms(1) by (intro kept) (auto simp: persistAndInstallLocked_def)
  next
    case False
    have split: "e = w_err ?w" "fs1 = w_fs ?w"
      "s1 = (if w_committed ?w then s\<lparr>st_operations := ops\<rparr> else s)"
      using assms(1) False op_writer.success_committed[of "st_path s" "document_of ops" a fs]
      by (auto simp: persistAndInstallLocked_def persistLocked_def Let_def split: option.splits)
    show thesis
    proof (cases "w_committed ?w")
      case True
      then show thesis
        using op_writer.data_after[OF assms(2), of "document_of ops" fs] split by (intro installed) simp_all
    next
      case nc: False
      then show thesis
        using op_writer.uncommitted_target[OF assms(2) nc] op_writer.uncommitted_error[OF nc] split
        by (intro kept) simp_all
    qed
  qed
qed

lemma install_path [simp]: "st_path (fst (snd (persistAndInstallLocked s ops a fs))) = st_path s"
  by (simp add: persistAndInstallLocked_def persistLocked_def Let_def split: option.splits)

text \<open>A write whose system calls all succeed installs its document.\<close>

lemma install_well:
  assumes "\<not> blocksMutation (st_gate s)" and "fs tmp = None" and "tmp \<noteq> st_path s"
  obtains fs1 where "persistAndInstallLocked s ops (all_well tmp) fs = (None, s\<lparr>st_operations := ops\<rparr>, fs1)"
    "data_at fs1 (st_path s) = Some (document_of ops)" "fs1 tmp = None"
proof -
  let ?w = "writeDurableOperationFile (st_path s) (document_of ops) (all_well tmp) fs"
  have c: "w_committed ?w" "w_err ?w = None"
    using assms(2) by (simp_all add: writeDurableOperationFile_def all_well_def writer_simps)
  have "ans_tmp (all_well tmp) \<noteq> st_path s" using assms(3) by (simp add: all_well_def)
  from op_writer.data_after[OF this, of "document_of ops" fs]
    op_writer.tmp_removed[OF this, of fs "document_of ops"] assms(2) show thesis
    using c assms(1) by (intro that[of "w_fs ?w"])
      (simp_all add: persistAndInstallLocked_def persistLocked_def Let_def all_well_def)
qed

section \<open>The life of a record\<close>

text \<open>
  What the store promises about the record of an operation id: it appears valid, it
  changes only while it is not terminal and keeps its identity, and only a terminal
  record without a D101 intent disappears.
\<close>

inductive record_step :: "op_record option \<Rightarrow> op_record option \<Rightarrow> bool" where
  keep: "record_step r r"
| create: "valid_record r \<Longrightarrow> record_step None (Some r)"
| settle: "\<not> terminal_record r \<Longrightarrow> same_request r r' \<Longrightarrow> op_createdAt r' = op_createdAt r \<Longrightarrow>
    valid_record r' \<Longrightarrow> record_step (Some r) (Some r')"
| expire: "terminal_record r \<Longrightarrow> op_intentSHA r = [] \<Longrightarrow> record_step (Some r) None"

inductive_simps record_step_SomeNone: "record_step (Some r) None"
inductive_simps record_step_SomeSome: "record_step (Some r) (Some r')"
inductive_simps record_step_None: "record_step None x"

definition same_life :: "op_record \<Rightarrow> op_record \<Rightarrow> bool" where
  "same_life r r' \<longleftrightarrow> same_request r r' \<and> op_createdAt r' = op_createdAt r \<and>
     op_operationID r' = op_operationID r"

lemma same_life_refl [simp]: "same_life r r"
  by (simp add: same_life_def same_request_def)

lemma same_life_trans: "same_life r s \<Longrightarrow> same_life s t \<Longrightarrow> same_life r t"
  by (simp add: same_life_def same_request_def)

lemma same_life_sym: "same_life r s \<Longrightarrow> same_life s r"
  by (simp add: same_life_def same_request_def)

lemma same_life_transitioned [simp]: "same_life r (transitioned r st http m now)"
  by (simp add: same_life_def same_request_def transitioned_def)

lemma transitioned_fields [simp]:
  "op_status (transitioned r st http m now) = st"
  "op_operationID (transitioned r st http m now) = op_operationID r"
  "op_updatedAt (transitioned r st http m now) = now"
  by (simp_all add: transitioned_def)

section \<open>The invariant\<close>

definition records_ok :: "(string, op_record) gomap \<Rightarrow> bool" where
  "records_ok ops \<longleftrightarrow> gm_ok ops \<and> (\<forall>k r. map_of ops k = Some r \<longrightarrow> op_operationID r = k \<and> valid_record r)"

definition deferred_ok :: "(string, op_record) gomap \<Rightarrow> (string, op_record) gomap \<Rightarrow> bool" where
  "deferred_ok ops d \<longleftrightarrow> gm_ok d \<and> (\<forall>k r. map_of d k = Some r \<longrightarrow> valid_record r \<and>
     (\<exists>r0. map_of ops k = Some r0 \<and> \<not> terminal_record r0 \<and> same_life r0 r))"

definition store_ok :: "op_store \<Rightarrow> bool" where
  "store_ok s \<longleftrightarrow> records_ok (st_operations s) \<and>
     deferred_ok (st_operations s) (st_deferred s) \<and>
     int (length (st_operations s)) \<le> st_maxEntries s \<and>
     0 < st_maxEntries s \<and> 0 < st_retention s \<and> st_path s \<noteq> []"

lemma records_okD:
  "records_ok ops \<Longrightarrow> map_of ops k = Some r \<Longrightarrow> op_operationID r = k \<and> valid_record r"
  "records_ok ops \<Longrightarrow> gm_ok ops"
  by (auto simp: records_ok_def)

lemma records_ok_pruned: "records_ok ops \<Longrightarrow> records_ok (pruned ops now ret)"
  by (auto simp: records_ok_def alist_simps split: option.splits if_splits)

lemma records_ok_update:
  "records_ok ops \<Longrightarrow> valid_record r \<Longrightarrow> op_operationID r = k \<Longrightarrow> records_ok (AList.update k r ops)"
  by (auto simp: records_ok_def alist_simps)

lemma deferred_okD:
  "deferred_ok ops d \<Longrightarrow> map_of d k = Some r \<Longrightarrow> valid_record r"
  "deferred_ok ops d \<Longrightarrow> map_of d k = Some r \<Longrightarrow>
   \<exists>r0. map_of ops k = Some r0 \<and> \<not> terminal_record r0 \<and> same_life r0 r"
  unfolding deferred_ok_def by blast+

lemma deferred_ok_delete:
  "deferred_ok ops d \<Longrightarrow> deferred_ok ops (AList.delete k d)"
  by (auto simp: deferred_ok_def alist_simps)

lemma deferred_ok_insert:
  assumes "deferred_ok ops d" and "map_of ops k = Some r0" and "\<not> terminal_record r0"
    and "same_life r0 r" and "valid_record r"
  shows "deferred_ok ops (AList.update k r d)"
  using assms by (auto simp: deferred_ok_def alist_simps)

text \<open>Pruning and replacing the record \<open>k\<close> keeps every other record that has a deferred one.\<close>

lemma deferred_ok_settled:
  assumes "deferred_ok ops d" and "gm_ok ops"
    and "\<And>j r0. j \<noteq> k \<Longrightarrow> map_of ops j = Some r0 \<Longrightarrow> \<not> terminal_record r0 \<Longrightarrow>
      map_of ops' j = Some r0"
  shows "deferred_ok ops' (AList.delete k d)"
  unfolding deferred_ok_def
proof (rule conjI; (intro allI impI)?)
  show "gm_ok (AList.delete k d)" using assms(1) by (simp add: deferred_ok_def)
  fix j r assume "map_of (AList.delete k d) j = Some r"
  then have j: "j \<noteq> k" "map_of d j = Some r" by (auto simp: alist_simps split: if_splits)
  obtain r0 where "valid_record r" "map_of ops j = Some r0" "\<not> terminal_record r0" "same_life r0 r"
    using deferred_okD[OF assms(1) j(2)] by blast
  with assms(3)[of j r0] j(1) show "valid_record r \<and>
      (\<exists>r0. map_of ops' j = Some r0 \<and> \<not> terminal_record r0 \<and> same_life r0 r)"
    by blast
qed

lemma deferred_ok_absent: "deferred_ok ops d \<Longrightarrow> map_of ops k = None \<Longrightarrow> map_of d k = None"
  using deferred_okD(2)[of ops d k] by (cases "map_of d k") auto

lemma delete_absent: "map_of d k = None \<Longrightarrow> AList.delete k d = d"
  by (induction d) (auto split: if_splits)

text \<open>
  The state of the store and its files; a step of an operation keeps \<open>good\<close>, and its
  records are related by \<open>record_step\<close>.
\<close>

definition good :: "op_store \<Rightarrow> op_file files \<Rightarrow> bool" where
  "good s fs \<longleftrightarrow> store_ok s \<and> mem_file s fs"

definition record_steps :: "op_store \<Rightarrow> op_store \<Rightarrow> bool" where
  "record_steps s s' \<longleftrightarrow>
     (\<forall>k. record_step (map_of (st_operations s) k) (map_of (st_operations s') k))"

definition good_step :: "op_store \<Rightarrow> op_store \<Rightarrow> op_file files \<Rightarrow> bool" where
  "good_step s s' fs' \<longleftrightarrow> good s' fs' \<and> record_steps s s' \<and> st_path s' = st_path s"

lemma good_step_refl: "good s fs \<Longrightarrow> good_step s s fs"
  by (auto simp: good_step_def record_steps_def intro: keep)

lemma good_step_kept:
  "good s fs \<Longrightarrow> fs' (st_path s) = fs (st_path s) \<Longrightarrow> good_step s s fs'"
  by (auto simp: good_step_def good_def record_steps_def intro: keep mem_file_cong)

lemma good_step_kept_deferred:
  "good s fs \<Longrightarrow> fs' (st_path s) = fs (st_path s) \<Longrightarrow> deferred_ok (st_operations s) d \<Longrightarrow>
   good_step s (s\<lparr>st_deferred := d\<rparr>) fs'"
  by (auto simp: good_step_def good_def record_steps_def store_ok_def intro: keep mem_file_cong)

lemma good_step_installed:
  assumes "good s fs" and "data_at fs' (st_path s) = Some (document_of ops)"
    and "records_ok ops" and "int (length ops) \<le> st_maxEntries s"
    and "deferred_ok ops d"
    and "\<And>k. record_step (map_of (st_operations s) k) (map_of ops k)"
  shows "good_step s (s\<lparr>st_operations := ops, st_deferred := d\<rparr>) fs'"
  using assms
  by (auto simp: good_step_def good_def record_steps_def store_ok_def intro!: mem_file_data)

lemma goodD:
  assumes "good s fs"
  shows "records_ok (st_operations s)" "gm_ok (st_operations s)"
    "deferred_ok (st_operations s) (st_deferred s)"
    "int (length (st_operations s)) \<le> st_maxEntries s"
    "map_of (st_operations s) k = Some r \<Longrightarrow> op_operationID r = k"
    "map_of (st_operations s) k = Some r \<Longrightarrow> valid_record r"
  using assms records_okD[of "st_operations s"] by (auto simp: good_def store_ok_def)

lemma step_pruned:
  "gm_ok ops \<Longrightarrow> record_step (map_of ops k) (map_of (pruned ops now ret) k)"
  by (auto simp: alist_simps keep_operation_def split: option.splits intro: keep expire)

text \<open>The effect of pruning and then writing the record of one id.\<close>

lemma step_updated:
  assumes "gm_ok ops" and "record_step (map_of ops k) (Some r)"
  shows "record_step (map_of ops j) (map_of (AList.update k r (pruned ops now ret)) j)"
  using assms step_pruned[OF assms(1), of j now ret] by (simp add: map_of_update)

lemma step_updated_plain:
  assumes "record_step (map_of ops k) (Some r)"
  shows "record_step (map_of ops j) (map_of (AList.update k r ops) j)"
  using assms keep by (simp add: map_of_update)

lemma length_updated_live:
  assumes "gm_ok ops" and "map_of ops k = Some r0" and "\<not> terminal_record r0"
  shows "length (AList.update k r (pruned ops now ret)) \<le> length ops"
proof -
  have "map_of (pruned ops now ret) k = Some r0"
    using assms by (simp add: map_of_pruned keep_live)
  then have "k \<in> fst ` set (pruned ops now ret)" by (metis gm_has_iff option.distinct(1))
  then show ?thesis using length_pruned[of ops now ret] by (simp add: length_update_existing)
qed

lemma settle_same_life:
  assumes "\<not> terminal_record r0" and "same_life r0 r" and "valid_record r"
  shows "record_step (Some r0) (Some r)"
  using assms by (intro settle) (simp_all add: same_life_def)

lemma store_update_both [simp]:
  "st_operations (s\<lparr>st_operations := ops, st_deferred := d\<rparr>) = ops"
  by simp

section \<open>Reserve\<close>

lemma reserve_existing_good:
  assumes "good s fs" and "ans_tmp a \<noteq> st_path s"
    and ex: "map_of (st_operations s) (op_operationID rec) = Some r0"
    and run: "reserve_existing rec r0 a s fs = (rv, s', fs')"
  shows "good_step s s' fs'"
proof (cases "same_request r0 rec \<and> gm_has (st_deferred s) (op_operationID rec)")
  case False
  then have "s' = s" "fs' = fs"
    using run by (auto simp: reserve_existing_def Let_def split: if_splits option.splits)
  then show ?thesis using assms(1) good_step_refl by simp
next
  case True
  let ?k = "op_operationID rec"
  obtain d where d: "map_of (st_deferred s) ?k = Some d" using True by auto
  note G = goodD[OF assms(1)]
  let ?next = "AList.update ?k d (st_operations s)"
  obtain e s1 fs1 where i: "persistAndInstallLocked s ?next a fs = (e, s1, fs1)"
    by (cases "persistAndInstallLocked s ?next a fs") auto
  have live: "\<not> terminal_record r0" "same_life r0 d" "valid_record d"
    using deferred_okD[OF G(3) d] ex by auto
  from i assms(2) show ?thesis
  proof (cases rule: install_cases)
    case kept
    show ?thesis
    proof (cases "map_of (st_operations s) ?k = Some d")
      case True
      then have "s' = s\<lparr>st_deferred := AList.delete ?k (st_deferred s)\<rparr>" "fs' = fs1"
        using run d i kept \<open>same_request r0 rec \<and> _\<close> by (auto simp: reserve_existing_def Let_def)
      then show ?thesis
        using good_step_kept_deferred[of s fs fs1, OF assms(1) kept(3) deferred_ok_delete[OF G(3)]] by simp
    next
      case False
      then have "s' = s" "fs' = fs1"
        using run d i kept \<open>same_request r0 rec \<and> _\<close> by (auto simp: reserve_existing_def Let_def)
      then show ?thesis using good_step_kept[of s fs fs1, OF assms(1) kept(3)] by simp
    qed
  next
    case installed
    have s': "s' = s\<lparr>st_operations := ?next, st_deferred := AList.delete ?k (st_deferred s)\<rparr>"
      and fs': "fs' = fs1"
      using run d i installed \<open>same_request r0 rec \<and> _\<close>
      by (auto simp: reserve_existing_def Let_def alist_simps split: option.splits)
    show ?thesis unfolding s' fs'
    proof (rule good_step_installed[OF assms(1) installed(2)])
      have "op_operationID d = ?k"
        using live(2) G(5)[OF ex] by (simp add: same_life_def)
      then show "records_ok ?next" using records_ok_update[OF G(1) live(3)] by simp
      have "?k \<in> fst ` set (st_operations s)" using ex by (metis gm_has_iff option.distinct(1))
      then show "int (length ?next) \<le> st_maxEntries s" using G(4) by (simp add: length_update_existing)
      show "deferred_ok ?next (AList.delete ?k (st_deferred s))"
        by (rule deferred_ok_settled[OF G(3) G(2)]) (simp add: alist_simps)
      show "record_step (map_of (st_operations s) j) (map_of ?next j)" for j
        using step_updated_plain[of "st_operations s" ?k d j] settle_same_life[OF live] ex by simp
    qed
  qed
qed

lemma stamp_record_id [simp]: "op_operationID (stamp_record now r) = op_operationID r"
  by (simp add: stamp_record_def Let_def)

lemma reserve_new_good:
  assumes "good s fs" and "ans_tmp a \<noteq> st_path s"
    and new: "map_of (st_operations s) (op_operationID rec) = None"
    and run: "reserve_new rec now a s fs = (rv, s', fs')"
  shows "good_step s s' fs'"
proof -
  let ?k = "op_operationID rec" and ?r = "stamp_record now rec"
  let ?p = "pruned (st_operations s) now (st_retention s)"
  let ?next = "AList.update ?k ?r ?p"
  note G = goodD[OF assms(1)]
  show ?thesis
  proof (cases "valid_record ?r \<and> int (length ?p) < st_maxEntries s")
    case False
    then have "s' = s" "fs' = fs"
      using run by (auto simp: reserve_new_def Let_def split: if_splits sum.splits)
    then show ?thesis using assms(1) good_step_refl by simp
  next
    case True
    obtain e s1 fs1 where i: "persistAndInstallLocked s ?next a fs = (e, s1, fs1)"
      by (cases "persistAndInstallLocked s ?next a fs") auto
    have res: "s' = s1" "fs' = fs1"
      using run i True by (auto simp: reserve_new_def Let_def split: option.splits)
    from i assms(2) show ?thesis
    proof (cases rule: install_cases)
      case kept
      then show ?thesis using good_step_kept[of s fs fs1, OF assms(1) kept(3)] res by simp
    next
      case installed
      have s': "s' = s\<lparr>st_operations := ?next, st_deferred := st_deferred s\<rparr>"
        using res installed by simp
      show ?thesis unfolding s' res(2)
      proof (rule good_step_installed[OF assms(1) installed(2)])
        show "records_ok ?next"
          by (rule records_ok_update[OF records_ok_pruned[OF G(1)]]) (simp_all add: True)
        show "int (length ?next) \<le> st_maxEntries s"
          using True length_update_le[of ?k ?r ?p] by linarith
        have absent: "map_of (st_deferred s) ?k = None" by (rule deferred_ok_absent[OF G(3) new])
        have "deferred_ok ?next (AList.delete ?k (st_deferred s))"
          by (rule deferred_ok_settled[OF G(3) G(2)]) (simp add: alist_simps G(2) keep_live)
        then show "deferred_ok ?next (st_deferred s)" by (simp add: delete_absent[OF absent])
        show "record_step (map_of (st_operations s) j) (map_of ?next j)" for j
          using step_updated[OF G(2), of ?k ?r j] create[of ?r] new True by simp
      qed
    qed
  qed
qed

lemma reserve_good:
  assumes "good s fs" and "ans_tmp a \<noteq> st_path s" and "Reserve rec now a s fs = (rv, s', fs')"
  shows "good_step s s' fs'"
proof (cases "map_of (st_operations s) (op_operationID rec)")
  case (Some r0)
  then show ?thesis
    using assms reserve_existing_good[OF assms(1,2) Some, of rv s' fs'] good_step_refl[OF assms(1)]
    by (auto simp: Reserve_def split: if_splits)
next
  case None
  then show ?thesis
    using assms reserve_new_good[OF assms(1,2) None, of now rv s' fs'] good_step_refl[OF assms(1)]
    by (auto simp: Reserve_def split: if_splits)
qed

section \<open>Transition\<close>

lemma transition_live_good:
  assumes "good s fs" and "ans_tmp a \<noteq> st_path s"
    and ex: "map_of (st_operations s) k = Some r0"
    and live: "\<not> terminal_record r0" "same_life r0 rec" "valid_record rec"
    and run: "transition_live k rec a s fs = (res, s', fs')"
  shows "good_step s s' fs'"
proof -
  let ?next = "AList.update k rec (pruned (st_operations s) (op_updatedAt rec) (st_retention s))"
  note G = goodD[OF assms(1)]
  obtain e s1 fs1 where i: "persistAndInstallLocked s ?next a fs = (e, s1, fs1)"
    by (cases "persistAndInstallLocked s ?next a fs") auto
  from i assms(2) show ?thesis
  proof (cases rule: install_cases)
    case kept
    have "s' = s\<lparr>st_deferred := AList.update k rec (st_deferred s)\<rparr> \<or>
          s' = s\<lparr>st_deferred := AList.delete k (st_deferred s)\<rparr>" and fs': "fs' = fs1"
      using run i kept by (auto simp: transition_live_def Let_def split: option.splits if_splits)
    moreover have "deferred_ok (st_operations s) (AList.update k rec (st_deferred s))"
      by (rule deferred_ok_insert[OF G(3) ex live])
    ultimately show ?thesis
      using good_step_kept_deferred[of s fs fs1, OF assms(1) kept(3)] deferred_ok_delete[OF G(3)] by auto
  next
    case installed
    have s': "s' = s\<lparr>st_operations := ?next, st_deferred := AList.delete k (st_deferred s)\<rparr>"
      and fs': "fs' = fs1"
      using run i installed by (auto simp: transition_live_def Let_def alist_simps split: option.splits)
    show ?thesis unfolding s' fs'
    proof (rule good_step_installed[OF assms(1) installed(2)])
      have "op_operationID rec = k" using live(2) G(5)[OF ex] by (simp add: same_life_def)
      then show "records_ok ?next"
        using records_ok_update[OF records_ok_pruned[OF G(1)] live(3)] by simp
      show "int (length ?next) \<le> st_maxEntries s"
        using length_updated_live[OF G(2) ex live(1), of rec "op_updatedAt rec" "st_retention s"] G(4)
        by linarith
      show "deferred_ok ?next (AList.delete k (st_deferred s))"
        by (rule deferred_ok_settled[OF G(3) G(2)]) (simp add: alist_simps G(2) keep_live)
      show "record_step (map_of (st_operations s) j) (map_of ?next j)" for j
        using step_updated[OF G(2), of k rec j] settle_same_life[OF live] ex by simp
    qed
  qed
qed

lemma transition_good:
  assumes "good s fs" and "ans_tmp a \<noteq> st_path s"
    and run: "Transition k st http mid now a s fs = (res, s', fs')"
  shows "good_step s s' fs'"
proof (cases "s' = s \<and> fs' = fs")
  case True
  then show ?thesis using good_step_refl[OF assms(1)] by simp
next
  case False
  with run obtain msg r0 where "map_of (st_operations s) k = Some r0" "\<not> terminal_record r0"
      "valid_record (transitioned r0 st http msg now)"
      "transition_live k (transitioned r0 st http msg now) a s fs = (res, s', fs')"
    by (auto simp: Transition_def Let_def split: sum.splits option.splits if_splits)
  then show ?thesis by (rule transition_live_good[OF assms(1,2) _ _ same_life_transitioned])
qed

section \<open>Recover\<close>

definition recover1 :: "string \<Rightarrow> time \<Rightarrow> string \<Rightarrow> op_record \<Rightarrow> op_record" where
  "recover1 j now k r = (if terminal_record r then r else recover_record j now k r)"

lemma recover_loop_result:
  "recover_loop j now ops c = Inr (ops', c') \<Longrightarrow>
   ops' = gm_map (recover1 j now) ops \<and> (\<not> c' \<longrightarrow> \<not> c \<and> ops' = ops) \<and>
   (\<forall>k r. (k, r) \<in> set ops \<longrightarrow> terminal_record r \<or> valid_record (recover_record j now k r))"
proof (induction ops arbitrary: c ops' c')
  case Nil
  then show ?case by (simp add: gm_map_def)
next
  case (Cons kr ops)
  obtain k r where kr: "kr = (k, r)" by (cases kr)
  show ?case
  proof (cases "terminal_record r")
    case True
    then obtain o1 where "recover_loop j now ops c = Inr (o1, c')" "ops' = (k, r) # o1"
      using Cons.prems kr by (auto simp: map_sum_def split: sum.splits)
    with Cons.IH[of c o1 c'] True kr show ?thesis by (auto simp: gm_map_def recover1_def)
  next
    case False
    then obtain o1 where "recover_loop j now ops True = Inr (o1, c')"
      "ops' = (k, recover_record j now k r) # o1" "valid_record (recover_record j now k r)"
      using Cons.prems kr by (auto simp: Let_def map_sum_def split: sum.splits)
    with Cons.IH[of True o1 c'] False kr show ?thesis by (auto simp: gm_map_def recover1_def)
  qed
qed

lemma recover1_same_life: "same_life r (recover1 j now k r)"
  by (simp add: recover1_def recover_record_def same_life_transitioned)

lemma recover1_step:
  assumes "terminal_record r \<or> valid_record (recover_record j now k r)"
  shows "record_step (Some r) (Some (recover1 j now k r))"
proof (cases "terminal_record r")
  case True
  then show ?thesis by (simp add: recover1_def keep)
next
  case False
  then show ?thesis
    using assms settle_same_life[OF False recover1_same_life, of j now k] by (simp add: recover1_def)
qed

lemma record_step_prune_first:
  assumes "gm_ok ops" and "\<And>r. map_of (pruned ops now ret) k = Some r \<Longrightarrow> record_step (Some r) x"
    and "map_of (pruned ops now ret) k = None \<Longrightarrow> x = None"
  shows "record_step (map_of ops k) x"
proof (cases "map_of (pruned ops now ret) k")
  case None
  then show ?thesis using assms(3) step_pruned[OF assms(1), of k now ret] by simp
next
  case (Some r)
  then have "map_of ops k = Some r"
    using assms(1) by (auto simp: map_of_pruned split: option.splits if_splits)
  then show ?thesis using assms(2)[OF Some] by simp
qed

lemma recover_good:
  assumes "good s fs" and "ans_tmp a \<noteq> st_path s" and "st_deferred s = []"
    and run: "Recover j now a s fs = (e, s', fs')"
  shows "good_step s s' fs'" and "st_deferred s' = []"
proof -
  note G = goodD[OF assms(1)]
  let ?p = "pruned (st_operations s) now (st_retention s)"
  let ?next = "gm_map (recover1 j now) ?p"
  have "good_step s s' fs' \<and> st_deferred s' = []"
  proof (cases "s' = s \<and> fs' = fs")
    case True
    then show ?thesis using good_step_refl[OF assms(1)] assms(3) by simp
  next
    case False
    then obtain c c' ops' where loop: "recover_loop j now ?p c = Inr (ops', c')"
      and i: "persistAndInstallLocked s ops' a fs = (e, s', fs')"
      using run by (auto simp: Recover_def split_beta split: sum.splits prod.splits if_splits)
    have next': "ops' = ?next"
      and valid: "\<And>k r. map_of ?p k = Some r \<Longrightarrow> terminal_record r \<or> valid_record (recover_record j now k r)"
      using recover_loop_result[OF loop] by (auto dest: map_of_SomeD)
    have P: "records_ok ?p" "gm_ok ?p" using records_ok_pruned[OF G(1)] by (auto dest: records_okD)
    have ok: "records_ok ?next"
      unfolding records_ok_def
    proof (rule conjI; (intro allI impI)?)
      show "gm_ok ?next" using P(2) by simp
      fix k r assume "map_of ?next k = Some r"
      then obtain r0 where r0: "map_of ?p k = Some r0" "r = recover1 j now k r0"
        by (auto simp: map_of_gm_map)
      then show "op_operationID r = k \<and> valid_record r"
        using records_okD(1)[OF P(1) r0(1)] valid[OF r0(1)]
        by (auto simp: recover1_def recover_record_def)
    qed
    from i assms(2) show ?thesis
    proof (cases rule: install_cases)
      case kept
      then show ?thesis using good_step_kept[of s fs fs', OF assms(1) kept(3)] assms(3) by simp
    next
      case installed
      have "good_step s (s\<lparr>st_operations := ?next, st_deferred := st_deferred s\<rparr>) fs'"
      proof (rule good_step_installed[OF assms(1)])
        show "data_at fs' (st_path s) = Some (document_of ?next)" using installed(2) next' by simp
        show "records_ok ?next" by (rule ok)
        show "int (length ?next) \<le> st_maxEntries s"
          using G(4) length_pruned[of "st_operations s" now "st_retention s"] by simp
        show "deferred_ok ?next (st_deferred s)" by (simp add: assms(3) deferred_ok_def)
        show "record_step (map_of (st_operations s) k) (map_of ?next k)" for k
          by (rule record_step_prune_first[OF G(2), of now "st_retention s"])
            (use valid in \<open>auto simp: map_of_gm_map intro: recover1_step\<close>)
      qed
      moreover have "s\<lparr>st_operations := ?next, st_deferred := st_deferred s\<rparr> = s'"
        using installed(1) next' by (cases s) simp
      ultimately show ?thesis using installed(1) assms(3) by simp
    qed
  qed
  then show "good_step s s' fs'" "st_deferred s' = []" by simp_all
qed

section \<open>Opening the store\<close>

lemma load_records_result:
  "load_records acc rs = Inr ops \<Longrightarrow> records_ok acc \<Longrightarrow>
   records_ok ops \<and> map snd ops = map snd acc @ rs"
proof (induction acc rs rule: load_records.induct)
  case (2 acc r rs)
  then have v: "valid_record r" "map_of acc (op_operationID r) = None"
    and l: "load_records (AList.update (op_operationID r) r acc) rs = Inr ops"
    by (auto split: sum.splits if_splits)
  have "AList.update (op_operationID r) r acc = acc @ [(op_operationID r, r)]"
    using v(2) by (simp add: update_new_append map_of_eq_None_iff)
  then show ?case
    using "2.IH"[of "()"] v l records_ok_update[OF "2.prems"(2) v(1) refl] by simp
qed simp

lemma load_records_complete:
  "records_ok (acc @ ops) \<Longrightarrow> load_records acc (map snd ops) = Inr (acc @ ops)"
proof (induction ops arbitrary: acc)
  case (Cons kr ops)
  obtain k r where kr: "kr = (k, r)" by (cases kr)
  have new: "k \<notin> fst ` set acc"
    using Cons.prems kr by (auto simp: records_ok_def)
  then have "map_of (acc @ kr # ops) k = Some r"
    by (simp add: kr map_add_Some_iff map_of_eq_None_iff)
  then have "valid_record r \<and> op_operationID r = k"
    using records_okD(1)[OF Cons.prems] by blast
  then show ?case
    using Cons.IH[of "acc @ [kr]"] Cons.prems kr new
    by (simp add: update_new_append map_of_eq_None_iff)
qed simp

lemma decode_document_of:
  "records_ok ops \<Longrightarrow> int (length ops) \<le> m \<Longrightarrow> decode_document m (Some (document_of ops)) = Inr ops"
  using load_records_complete[of "[]" ops] by (simp add: decode_document_def document_of_def)

lemma decode_document_result:
  assumes "decode_document m c = Inr ops"
  shows "c = Some (document_of ops)" "records_ok ops" "int (length ops) \<le> m"
proof -
  obtain rs where c: "c = Some (Decoded durableOperationStoreVersion (Some rs))"
      "int (length rs) \<le> m" "load_records [] rs = Inr ops"
    using assms by (auto simp: decode_document_def split: option.splits op_file.splits if_splits)
  have "records_ok ops \<and> map snd ops = rs"
    using load_records_result[OF c(3)] by (simp add: records_ok_def)
  then show "c = Some (document_of ops)" "records_ok ops" "int (length ops) \<le> m"
    using c by (auto simp: document_of_def)
qed

lemma deferred_ok_Nil [simp]: "deferred_ok ops []"
  by (simp add: deferred_ok_def)

lemma records_ok_Nil [simp]: "records_ok []"
  by (simp add: records_ok_def)

text \<open>
  A store that opens is good, has no deferred record and no gate; its records are those
  of the document, pruned.
\<close>

lemma open_result:
  assumes run: "openDurableOperationStore p m ret now oa a fs = (Inr s, fs')"
    and tmp: "ans_tmp a \<noteq> p"
  shows "good s fs'" "st_deferred s = []" "st_gate s = None" "st_path s = p"
    "st_maxEntries s = m" "st_retention s = ret"
    "fs p = None \<and> st_operations s = [] \<or>
     (\<exists>ops. decode_document m (data_at fs p) = Inr ops \<and> st_operations s = pruned ops now ret)"
proof -
  let ?s0 = "\<lparr>st_gate = None, st_path = p, st_maxEntries = m, st_retention = ret,
              st_operations = [], st_deferred = []\<rparr>"
  have pos: "p \<noteq> []" "0 < m" "0 < ret"
    using run by (auto simp: openDurableOperationStore_def split: if_splits)
  have "good s fs' \<and> st_deferred s = [] \<and> st_gate s = None \<and> st_path s = p \<and>
    st_maxEntries s = m \<and> st_retention s = ret \<and>
    (fs p = None \<and> st_operations s = [] \<or>
     (\<exists>ops. decode_document m (data_at fs p) = Inr ops \<and> st_operations s = pruned ops now ret))"
  proof (cases "fs p")
    case None
    then have "s = ?s0" "fs' = fs"
      using run pos by (auto simp: openDurableOperationStore_def Let_def)
    then show ?thesis using None pos by (simp add: good_def store_ok_def mem_file_def)
  next
    case (Some f)
    let ?fs1 = "fs(p \<mapsto> f\<lparr>f_mode := 384\<rparr>)"
    from run Some pos obtain ops where dec: "decode_document m (readable (f_content f)) = Inr ops"
      by (auto simp: openDurableOperationStore_def Let_def split: if_splits sum.splits)
    let ?s1 = "?s0\<lparr>st_operations := ops\<rparr>"
    note D = decode_document_result[OF dec]
    have data: "data_at fs p = readable (f_content f)" using Some by (simp add: data_at_def)
    show ?thesis
    proof (cases "snd (pruneExpiredDurableOperations ops now ret)")
      case False
      then have s: "s = ?s1" "fs' = ?fs1"
        using run Some pos dec
        by (auto simp: openDurableOperationStore_def Let_def split_beta split: if_splits)
      have "good s fs'" using s D pos by (simp add: good_def store_ok_def mem_file_def)
      then show ?thesis using s dec data prune_unchanged[OF False] by simp
    next
      case True
      let ?w = "writeDurableOperationFile p (document_of (pruned ops now ret)) a ?fs1"
      have w: "w_err ?w = None" "fs' = w_fs ?w" "s = ?s1\<lparr>st_operations := pruned ops now ret\<rparr>"
        using run Some pos dec True
        by (auto simp: openDurableOperationStore_def persistLocked_def Let_def split_beta
            split: if_splits option.splits)
      have "data_at fs' p = Some (document_of (pruned ops now ret))"
        using op_writer.data_after[OF tmp, of "document_of (pruned ops now ret)" ?fs1] w
          op_writer.success_committed[OF w(1)] by simp
      then have "mem_file s fs'" using w(3) by (intro mem_file_data) simp
      moreover have "store_ok s"
        using w(3) D pos records_ok_pruned[OF D(2)] length_pruned[of ops now ret]
        by (simp add: store_ok_def)
      ultimately show ?thesis using w(3) dec data by (simp add: good_def)
    qed
  qed
  then show "good s fs'" "st_deferred s = []" "st_gate s = None" "st_path s = p"
    "st_maxEntries s = m" "st_retention s = ret"
    "fs p = None \<and> st_operations s = [] \<or>
     (\<exists>ops. decode_document m (data_at fs p) = Inr ops \<and> st_operations s = pruned ops now ret)"
    by blast+
qed

end
