(* ===== verification/OperationStoreSystem.thy ===== *)
theory OperationStoreSystem
  imports OperationStoreLaws
begin

text \<open>
  The durable operation store as a transition system: opening it, reconciling it at
  startup, serving reservations and transitions with any pattern of failing system calls,
  changes of the native owner gate, restarts, and the properties of its runs.
\<close>

section \<open>The system\<close>

text \<open>
  A state is the phase (true while starting up, when only \<open>Recover\<close> runs), the store and
  the files. A restart can happen between any two operations; a crash inside a write
  leaves at the path what was there before or after it (property \<open>durable_write_crash_atomic\<close>).
  Other processes may change files other than the document.
\<close>

type_synonym store_world = "bool \<times> op_store \<times> op_file files"

inductive store_init :: "store_world \<Rightarrow> bool" where
  "openDurableOperationStore p m ret now oa a fs = (Inr s, fs') \<Longrightarrow> ans_tmp a \<noteq> p \<Longrightarrow>
   store_init (True, s, fs')"

inductive store_step :: "store_world \<Rightarrow> store_world \<Rightarrow> bool" where
  do_recover: "Recover j now a s fs = (e, s', fs') \<Longrightarrow> ans_tmp a \<noteq> st_path s \<Longrightarrow>
    store_step (True, s, fs) (True, s', fs')"
| do_serve: "store_step (True, s, fs) (False, s, fs)"
| do_reserve: "Reserve rec now a s fs = (rv, s', fs') \<Longrightarrow> ans_tmp a \<noteq> st_path s \<Longrightarrow>
    store_step (False, s, fs) (False, s', fs')"
| do_transition: "Transition k st http mid now a s fs = (res, s', fs') \<Longrightarrow> ans_tmp a \<noteq> st_path s \<Longrightarrow>
    store_step (False, s, fs) (False, s', fs')"
| do_gate: "store_step (b, s, fs) (b, s\<lparr>st_gate := g\<rparr>, fs)"
| do_restart: "openDurableOperationStore (st_path s) (st_maxEntries s) (st_retention s) now oa a fs
      = (Inr s', fs') \<Longrightarrow> ans_tmp a \<noteq> st_path s \<Longrightarrow> store_step (b, s, fs) (True, s', fs')"
| do_elsewhere: "fs' (st_path s) = fs (st_path s) \<Longrightarrow> store_step (b, s, fs) (b, s, fs')"

interpretation store: transition_system store_init store_step .

definition world_ok :: "store_world \<Rightarrow> bool" where
  "world_ok w = (case w of (b, s, fs) \<Rightarrow> good s fs \<and> (b \<longrightarrow> st_deferred s = []))"

definition ops_of :: "store_world \<Rightarrow> string \<Rightarrow> op_record option" where
  "ops_of w = map_of (st_operations (fst (snd w)))"

lemma good_gate: "good s fs \<Longrightarrow> good (s\<lparr>st_gate := g\<rparr>) fs"
  by (simp add: good_def store_ok_def mem_file_def split: option.splits)

lemma reopened_records:
  assumes "good s fs"
    and "openDurableOperationStore (st_path s) (st_maxEntries s) ret now oa a fs = (Inr s', fs')"
    and "ans_tmp a \<noteq> st_path s"
  shows "st_operations s' = pruned (st_operations s) now ret"
proof -
  note O = open_result[OF assms(2,3)]
  show ?thesis
  proof (cases "fs (st_path s)")
    case None
    then have "st_operations s = []" using assms(1) by (simp add: good_def mem_file_def)
    moreover have "st_operations s' = []"
      using O(7) None by (auto simp: data_at_def decode_document_def)
    ultimately show ?thesis by (simp add: pruneExpiredDurableOperations_def)
  next
    case (Some f)
    then have "data_at fs (st_path s) = Some (document_of (st_operations s))"
      using assms(1) by (simp add: good_def mem_file_def data_at_def)
    then have "decode_document (st_maxEntries s) (data_at fs (st_path s)) = Inr (st_operations s)"
      using goodD[OF assms(1)] decode_document_of by simp
    then show ?thesis using O(7) Some by auto
  qed
qed

lemma world_step:
  assumes "store_step w w'" and "world_ok w"
  shows "world_ok w' \<and> (\<forall>k. record_step (ops_of w k) (ops_of w' k))"
  using assms
proof (induction rule: store_step.induct)
  case (do_recover j now a s fs e s' fs')
  then show ?case using recover_good[of s fs a j now e s' fs']
    by (auto simp: world_ok_def good_step_def record_steps_def ops_of_def)
next
  case (do_reserve rec now a s fs rv s' fs')
  then show ?case using reserve_good[of s fs a rec now rv s' fs']
    by (auto simp: world_ok_def good_step_def record_steps_def ops_of_def)
next
  case (do_transition k st http mid now a s fs res s' fs')
  then show ?case using transition_good[of s fs a k st http mid now res s' fs']
    by (auto simp: world_ok_def good_step_def record_steps_def ops_of_def)
next
  case (do_restart s now oa a fs s' fs' b)
  then have g: "good s fs" by (simp add: world_ok_def)
  have "record_step (map_of (st_operations s) k) (map_of (st_operations s') k)" for k
    unfolding reopened_records[OF g do_restart(1,2)] by (rule step_pruned[OF goodD(2)[OF g]])
  then show ?case using open_result[OF do_restart(1,2)] by (simp add: world_ok_def ops_of_def)
next
  case (do_elsewhere fs' s fs b)
  then show ?case by (auto simp: world_ok_def ops_of_def good_def intro: keep mem_file_cong)
qed (auto simp: world_ok_def ops_of_def good_gate intro: keep)

lemma reach_ok: "store.reach w \<Longrightarrow> world_ok w"
proof (rule store.invariant)
  fix w assume "store_init w"
  then show "world_ok w"
    by (induction rule: store_init.induct) (simp add: world_ok_def open_result)
qed (use world_step in blast)+

lemma run_step_ok: "store_step\<^sup>*\<^sup>* w w' \<Longrightarrow> store.reach w \<Longrightarrow> world_ok w'"
  by (rule reach_ok) (rule store.run_reach)

lemma record_step_permanent:
  "record_step (Some r) x \<Longrightarrow> op_intentSHA r \<noteq> [] \<Longrightarrow>
   \<exists>r'. x = Some r' \<and> same_request r r' \<and> op_createdAt r' = op_createdAt r \<and> (terminal_record r \<longrightarrow> r' = r)"
  by (cases x) (auto simp: record_step_SomeNone record_step_SomeSome same_request_def)

section \<open>Concrete records for the witnesses\<close>

definition ex_id :: string where "ex_id = replicate 32 CHR ''a''"

definition ex_record :: op_record where
  "ex_record = zero_op_record\<lparr>op_operationID := ex_id, op_kind := KindReset, op_subjectID := ''pep'',
     op_fingerprint := replicate 64 CHR ''b'', op_status := JobPending\<rparr>"

definition ex_files :: "op_file files" where "ex_files = (\<lambda>p. None)"

definition ex_open :: open_answers where
  "ex_open = \<lparr>oa_open = True, oa_stat = True, oa_chmod = True, oa_sync = True\<rparr>"

definition ex_store :: op_store where
  "ex_store = \<lparr>st_gate = None, st_path = ''ops'', st_maxEntries = 512, st_retention = 24 * hour,
     st_operations = [], st_deferred = []\<rparr>"

lemma ex_opened:
  "openDurableOperationStore ''ops'' 512 (24 * hour) 1 ex_open (all_well ''tmp'') ex_files
   = (Inr ex_store, ex_files)"
  by (simp add: openDurableOperationStore_def ex_files_def ex_store_def go_defs)

lemma ex_serving: "store.reach (False, ex_store, ex_files)"
  by (rule store.reach_step[OF store.reach_init[OF store_init.intros[OF ex_opened]] do_serve])
    (simp add: all_well_def)

lemma ex_good: "good ex_store ex_files"
  using reach_ok[OF ex_serving] by (simp add: world_ok_def)

lemma ex_fields:
  "lifecycleJobIDRe (replicate 32 CHR ''a'')" "durableOperationFingerprintRe (replicate 64 CHR ''b'')"
  "serverIDRe ''pep''" "length ''pep'' \<le> maxPublicServerIDLength"
  by code_simp+

lemma ex_id_other: "ex_id \<noteq> ''other''"
  by code_simp

lemma ex_valid [simp]: "now \<noteq> 0 \<Longrightarrow> valid_record (stamp_record now ex_record)"
  using ex_fields
  by (simp add: validateDurableOperationRecord_def stamp_record_def ex_record_def zero_op_record_def
      ex_id_def isDurableOperationStatus_def)

section \<open>Properties of the store\<close>

text \<open>
  C8. The invariant of the durable operation store. After any startup, any sequence of
  reservations, transitions, reconciliations, gate changes and restarts, with any system
  call of any write failing, the records in memory are valid, keyed by their own id, at
  most the configured capacity, and equal to the document that the file at the store's
  path decodes to; and every deferred transition belongs to a record that is still open.
\<close>

theorem operation_store_invariant:
  assumes "store.reach (starting, s, fs)"
  shows "store_ok s \<and> mem_file s fs"
  using reach_ok[OF assms] by (simp add: world_ok_def good_def)

theorem operation_store_invariant_witness: "store_ok ex_store \<and> mem_file ex_store ex_files"
  by (rule operation_store_invariant[OF ex_serving])

text \<open>
  C9. Refinement of the record life cycle. Every step of the store takes the record of
  every operation id along the abstract life cycle \<open>record_step\<close>: it appears only valid,
  changes only while it is not terminal and then keeps its kind, subject, fingerprint,
  D101 intent and creation time, and disappears only when terminal and without a D101
  intent.
\<close>

theorem store_refines_record_life:
  assumes "store.reach w" and "store_step w w'"
  shows "record_step (ops_of w operationID) (ops_of w' operationID)"
  using world_step[OF assms(2) reach_ok[OF assms(1)]] by blast

theorem store_refines_record_life_witness:
  "record_step (ops_of (False, ex_store, ex_files) ex_id)
     (ops_of (False, snd (Reserve ex_record 5 (all_well ''tmp'') ex_store ex_files)) ex_id)"
proof (rule store_refines_record_life[OF ex_serving])
  obtain rv s' fs' where r: "Reserve ex_record 5 (all_well ''tmp'') ex_store ex_files = (rv, s', fs')"
    by (cases "Reserve ex_record 5 (all_well ''tmp'') ex_store ex_files") auto
  show "store_step (False, ex_store, ex_files)
      (False, snd (Reserve ex_record 5 (all_well ''tmp'') ex_store ex_files))"
    unfolding r snd_conv by (rule do_reserve[OF r]) (simp add: all_well_def ex_store_def)
qed

text \<open>
  C10. A D101 reservation is permanent. Once a record with a D101 intent is in the store,
  no sequence of operations, failures and restarts removes it or changes its request, and
  once it is terminal it never changes again: an execution id cannot be reused.
\<close>

theorem d101_reservation_permanent:
  assumes "store.reach w" and "store_step\<^sup>*\<^sup>* w w'"
    and "ops_of w operationID = Some r" and "op_intentSHA r \<noteq> []"
  shows "\<exists>r'. ops_of w' operationID = Some r' \<and> same_request r r' \<and>
    op_createdAt r' = op_createdAt r \<and> (if terminal_record r then r' = r else True)"
  using assms(2)
proof (induction rule: rtranclp_induct)
  case base
  then show ?case using assms(3) by (simp add: same_request_def)
next
  case (step w1 w2)
  then obtain r1 where r1: "ops_of w1 operationID = Some r1" "same_request r r1"
      "op_createdAt r1 = op_createdAt r" "if terminal_record r then r1 = r else True" by auto
  have "record_step (Some r1) (ops_of w2 operationID)"
    using world_step[OF step(2) run_step_ok[OF step(1) assms(1)]] r1(1) by metis
  moreover have "op_intentSHA r1 \<noteq> []" using r1(2) assms(4) by (simp add: same_request_def)
  ultimately obtain r2 where "ops_of w2 operationID = Some r2" "same_request r1 r2"
      "op_createdAt r2 = op_createdAt r1" "terminal_record r1 \<longrightarrow> r2 = r1"
    using record_step_permanent by blast
  then show ?case using r1 by (auto simp: same_request_def split: if_splits)
qed

definition ex_d101 :: op_record where
  "ex_d101 = ex_record\<lparr>op_intentSHA := replicate 64 CHR ''c''\<rparr>"

lemma ex_d101_valid: "valid_record (stamp_record 5 ex_d101)"
proof -
  have "resetEvidenceSHA (replicate 64 CHR ''c'')" by code_simp
  then show ?thesis using ex_fields
    by (simp add: validateDurableOperationRecord_def stamp_record_def ex_record_def ex_d101_def
        zero_op_record_def ex_id_def isDurableOperationStatus_def)
qed

lemma ex_reserved:
  assumes "valid_record (stamp_record 5 rec)" and "op_operationID rec = ex_id"
  obtains fs where "Reserve rec 5 (all_well ''tmp'') ex_store ex_files =
      (reserve_ok (stamp_record 5 rec) False,
       ex_store\<lparr>st_operations := [(ex_id, stamp_record 5 rec)]\<rparr>, fs)"
    "data_at fs ''ops'' = Some (document_of [(ex_id, stamp_record 5 rec)])"
    "store.reach (False, ex_store\<lparr>st_operations := [(ex_id, stamp_record 5 rec)]\<rparr>, fs)"
    "fs ''tmp'' = None"
proof -
  obtain fs where i: "persistAndInstallLocked ex_store [(ex_id, stamp_record 5 rec)]
      (all_well ''tmp'') ex_files
      = (None, ex_store\<lparr>st_operations := [(ex_id, stamp_record 5 rec)]\<rparr>, fs)"
    and d: "data_at fs ''ops'' = Some (document_of [(ex_id, stamp_record 5 rec)])"
    and tmp: "fs ''tmp'' = None"
    by (rule install_well[of ex_store ex_files "''tmp''" "[(ex_id, stamp_record 5 rec)]"])
      (simp_all add: ex_store_def ex_files_def)
  have r: "Reserve rec 5 (all_well ''tmp'') ex_store ex_files =
      (reserve_ok (stamp_record 5 rec) False,
       ex_store\<lparr>st_operations := [(ex_id, stamp_record 5 rec)]\<rparr>, fs)"
    using i assms
    by (simp add: Reserve_def reserve_new_def reserve_admitted_def ex_store_def Let_def
        pruneExpiredDurableOperations_def)
  have "store.reach (False, ex_store\<lparr>st_operations := [(ex_id, stamp_record 5 rec)]\<rparr>, fs)"
    by (rule store.reach_step[OF ex_serving do_reserve[OF r]]) (simp add: all_well_def ex_store_def)
  with that r d tmp show thesis by blast
qed

theorem d101_reservation_permanent_witness:
  "\<exists>fs r'. ops_of (False, ex_store\<lparr>st_operations := [(ex_id, stamp_record 5 ex_d101)],
       st_gate := Some \<lparr>og_state = OwnerUnknown, og_frozen = True, og_preparation = None\<rparr>\<rparr>, fs) ex_id
     = Some r' \<and> same_request (stamp_record 5 ex_d101) r'"
proof -
  let ?s = "ex_store\<lparr>st_operations := [(ex_id, stamp_record 5 ex_d101)]\<rparr>"
  let ?g = "Some \<lparr>og_state = OwnerUnknown, og_frozen = True, og_preparation = None\<rparr>"
  obtain fs where "store.reach (False, ?s, fs)"
    by (rule ex_reserved[OF ex_d101_valid]) (auto simp: ex_d101_def ex_record_def)
  then show ?thesis
    using d101_reservation_permanent[of "(False, ?s, fs)" "(False, ?s\<lparr>st_gate := ?g\<rparr>, fs)" ex_id
        "stamp_record 5 ex_d101"] do_gate[of False ?s fs ?g]
    by (auto simp: ops_of_def ex_d101_def ex_record_def zero_op_record_def stamp_record_def)
qed

text \<open>
  Reservation is idempotent. After a reservation succeeds, any later reservation with
  the same operation id returns the stored record and writes nothing when kind, subject,
  fingerprint and intent agree, and is refused as a conflict otherwise, whatever the
  clock, the file system and the caller's status fields say.
\<close>

theorem reserve_idempotent:
  assumes "store.reach (False, s, fs)" and "ans_tmp a \<noteq> st_path s"
    and "Reserve rec now a s fs = (rv, s1, fs1)" and "rv_err rv = None"
    and "rv_existing rv = False"
    and "op_operationID rec' = op_operationID rec"
  shows "Reserve rec' now' a' s1 fs1 =
    ((if same_request rec rec' then reserve_ok (rv_record rv) True
      else reserve_fail ErrLifecycleOperationConflict), s1, fs1)"
proof -
  let ?k = "op_operationID rec" and ?r = "stamp_record now rec"
  have good: "good s fs" using reach_ok[OF assms(1)] by (simp add: world_ok_def)
  have new: "map_of (st_operations s) ?k = None" and nb: "\<not> blocksMutation (st_gate s)"
    and run: "reserve_new rec now a s fs = (rv, s1, fs1)"
    using assms(3-5)
    by (auto simp: Reserve_def reserve_existing_def reserve_fail_def reserve_ok_def Let_def split_beta
        split: if_splits option.splits)
  let ?next = "AList.update ?k ?r (pruned (st_operations s) now (st_retention s))"
  have i: "persistAndInstallLocked s ?next a fs = (None, s1, fs1)" and rv: "rv = reserve_ok ?r False"
    using run assms(4) by (auto simp: reserve_new_def reserve_fail_def Let_def split_beta
        intro: prod_eqI split: if_splits option.splits sum.splits prod.splits)
  from i assms(2) have s1: "s1 = s\<lparr>st_operations := ?next\<rparr>"
    by (cases rule: install_cases) simp_all
  have "map_of (st_deferred s) ?k = None"
    by (rule deferred_ok_absent[OF goodD(3)[OF good] new])
  moreover have "same_request ?r rec' = same_request rec rec'"
    by (simp add: same_request_def stamp_record_def Let_def)
  ultimately show ?thesis
    using s1 nb rv assms(6)
    by (simp add: Reserve_def reserve_existing_def alist_simps reserve_ok_def)
qed

theorem reserve_idempotent_witness:
  "\<exists>s1 fs1. Reserve (ex_record\<lparr>op_kind := KindClose\<rparr>) 9 (all_well ''tmp'') s1 fs1 =
     (reserve_fail ErrLifecycleOperationConflict, s1, fs1)"
proof -
  have valid: "valid_record (stamp_record 5 ex_record)" by simp
  obtain fs where "Reserve ex_record 5 (all_well ''tmp'') ex_store ex_files =
      (reserve_ok (stamp_record 5 ex_record) False,
       ex_store\<lparr>st_operations := [(ex_id, stamp_record 5 ex_record)]\<rparr>, fs)"
    by (rule ex_reserved[OF valid]) (auto simp: ex_record_def)
  from reserve_idempotent[OF ex_serving _ this, of "ex_record\<lparr>op_kind := KindClose\<rparr>" 9 "all_well ''tmp''"]
  show ?thesis
    by (auto simp: all_well_def ex_store_def reserve_ok_def same_request_def ex_record_def)
qed

lemma transition_live_error:
  assumes "good s fs" and "ans_tmp a \<noteq> st_path s"
    and "transition_live k rec a s fs = (Inl e, s1, fs1)"
  shows "map_of (st_operations s1) k = Some rec \<and> map_of (st_deferred s1) k = None \<or>
     st_operations s1 = st_operations s \<and> map_of (st_deferred s1) k = Some rec"
    "st_gate s1 = st_gate s" "st_path s1 = st_path s"
proof -
  let ?next = "AList.update k rec (pruned (st_operations s) (op_updatedAt rec) (st_retention s))"
  obtain e' s2 fs2 where i: "persistAndInstallLocked s ?next a fs = (e', s2, fs2)"
    by (cases "persistAndInstallLocked s ?next a fs") auto
  have e': "e' \<noteq> None" and s1: "s1 = (if map_of (st_operations s2) k \<noteq> Some rec
      then s2\<lparr>st_deferred := AList.update k rec (st_deferred s2)\<rparr>
      else s2\<lparr>st_deferred := AList.delete k (st_deferred s2)\<rparr>)"
    using assms(3) i by (auto simp: transition_live_def Let_def split: option.splits if_splits)
  from i assms(2) have "(map_of (st_operations s1) k = Some rec \<and> map_of (st_deferred s1) k = None \<or>
      st_operations s1 = st_operations s \<and> map_of (st_deferred s1) k = Some rec) \<and>
      st_gate s1 = st_gate s \<and> st_path s1 = st_path s"
    by (cases rule: install_cases) (auto simp: s1 alist_simps)
  then show "map_of (st_operations s1) k = Some rec \<and> map_of (st_deferred s1) k = None \<or>
     st_operations s1 = st_operations s \<and> map_of (st_deferred s1) k = Some rec"
    "st_gate s1 = st_gate s" "st_path s1 = st_path s" by simp_all
qed

text \<open>
  C28. A settlement is not lost to a failing disk. If the transition of an open record
  returns an error, whichever system call of the write failed, then the next reservation
  of the same request under a working file system returns exactly the record that the
  transition was to write, and the document on disk holds it.
\<close>

theorem failed_transition_settled_by_retry:
  assumes "store.reach (False, s, fs)" and "ans_tmp a \<noteq> st_path s"
    and "\<not> blocksMutation (st_gate s)"
    and "map_of (st_operations s) k = Some r0" and "\<not> terminal_record r0"
    and "durableOperationPublicMessage mid = Inr msg"
    and "valid_record (transitioned r0 st http msg now)"
    and "Transition k st http mid now a s fs = (Inl e, s1, fs1)"
    and "op_operationID rec = k" and "same_request r0 rec"
    and "fs1 tmp = None" and "tmp \<noteq> st_path s"
  shows "(case Reserve rec now' (all_well tmp) s1 fs1 of (rv, s2, fs2) \<Rightarrow>
     rv = reserve_ok (transitioned r0 st http msg now) True \<and>
     map_of (st_operations s2) k = Some (transitioned r0 st http msg now) \<and>
     data_at fs2 (st_path s) = Some (document_of (st_operations s2)))"
proof -
  let ?r = "transitioned r0 st http msg now"
  have good: "good s fs" using reach_ok[OF assms(1)] by (simp add: world_ok_def)
  have run: "transition_live k ?r a s fs = (Inl e, s1, fs1)"
    using assms(3-8) by (simp add: Transition_def Let_def)
  note T = transition_live_error[OF good assms(2) run]
  have good1: "good s1 fs1"
    using transition_good[OF good assms(2,8)] by (simp add: good_step_def)
  have req: "same_request ?r rec" "same_request r0 rec"
    using assms(10) by (simp_all add: same_request_def transitioned_def)
  from T(1) show ?thesis
  proof
    assume a: "map_of (st_operations s1) k = Some ?r \<and> map_of (st_deferred s1) k = None"
    then have "fs1 (st_path s1) \<noteq> None"
      using good1 by (auto simp: good_def mem_file_def split: option.splits)
    then have "data_at fs1 (st_path s) = Some (document_of (st_operations s1))"
      using good1 T(3) by (auto simp: good_def mem_file_def data_at_def split: option.splits)
    then show ?thesis
      using a assms(3,9) req T(2) by (simp add: Reserve_def reserve_existing_def)
  next
    assume b: "st_operations s1 = st_operations s \<and> map_of (st_deferred s1) k = Some ?r"
    obtain fs2 where i: "persistAndInstallLocked s1 (AList.update k ?r (st_operations s1)) (all_well tmp) fs1
        = (None, s1\<lparr>st_operations := AList.update k ?r (st_operations s1)\<rparr>, fs2)"
      and d: "data_at fs2 (st_path s1) = Some (document_of (AList.update k ?r (st_operations s1)))"
      by (rule install_well[of s1 fs1 tmp "AList.update k ?r (st_operations s1)"])
        (simp_all add: assms(3,11,12) T)
    then show ?thesis
      using b assms(3,4,9) req T(2,3)
      by (simp add: Reserve_def reserve_existing_def Let_def alist_simps)
  qed
qed

lemma ex_transition_valid:
  "valid_record (transitioned (stamp_record 5 ex_record) JobSucceeded 200 MsgResetSucceeded 7)"
  using ex_fields
  by (simp add: validateDurableOperationRecord_def stamp_record_def ex_record_def transitioned_def
      zero_op_record_def ex_id_def isDurableOperationStatus_def)

theorem failed_transition_settled_by_retry_witness:
  "\<exists>s1 fs1. fst (Reserve ex_record 9 (all_well ''tmp'') s1 fs1) =
     reserve_ok (transitioned (stamp_record 5 ex_record) JobSucceeded 200 MsgResetSucceeded 7) True"
proof -
  let ?r = "stamp_record 5 ex_record" and ?a = "(all_well ''tmp'')\<lparr>ans_rename := False\<rparr>"
  let ?s = "ex_store\<lparr>st_operations := [(ex_id, ?r)]\<rparr>"
  have valid: "valid_record ?r" by simp
  obtain fs where R: "store.reach (False, ?s, fs)"
    and F: "Reserve ex_record 5 (all_well ''tmp'') ex_store ex_files = (reserve_ok ?r False, ?s, fs)"
    and tmp0: "fs ''tmp'' = None"
    by (rule ex_reserved[OF valid]) (auto simp: ex_record_def)
  obtain res s1 fs1 where t: "Transition ex_id JobSucceeded 200 IdResetSucceeded 7 ?a ?s fs = (res, s1, fs1)"
    by (cases "Transition ex_id JobSucceeded 200 IdResetSucceeded 7 ?a ?s fs") auto
  have r: "op_status ?r = JobPending" "op_operationID ?r = ex_id"
    by (simp_all add: stamp_record_def ex_record_def zero_op_record_def)
  from tmp0 have "\<exists>e. res = Inl e \<and> fs1 ''tmp'' = None"
    using t r ex_transition_valid
    by (auto simp: Transition_def transition_live_def Let_def ex_store_def all_well_def
        persistAndInstallLocked_def persistLocked_def writeDurableOperationFile_def writer_simps
        pruneExpiredDurableOperations_def keep_operation_def split: if_splits)
  then obtain e where e: "res = Inl e" "fs1 ''tmp'' = None" by blast
  have req: "same_request ?r ex_record" by (simp add: same_request_def stamp_record_def Let_def)
  have "case Reserve ex_record 9 (all_well ''tmp'') s1 fs1 of (rv, s2, fs2) \<Rightarrow>
     rv = reserve_ok (transitioned ?r JobSucceeded 200 MsgResetSucceeded 7) True \<and>
     map_of (st_operations s2) ex_id = Some (transitioned ?r JobSucceeded 200 MsgResetSucceeded 7) \<and>
     data_at fs2 (st_path ?s) = Some (document_of (st_operations s2))"
    by (rule failed_transition_settled_by_retry[OF R _ _ _ _ _ ex_transition_valid t[unfolded e(1)] _ req e(2)])
      (use r in \<open>simp_all add: all_well_def ex_store_def ex_record_def\<close>)
  then show ?thesis by (intro exI[of _ s1] exI[of _ fs1]) (simp add: split_beta)
qed

text \<open>
  Reconciliation at startup leaves no operation in doubt: when \<open>Recover\<close> succeeds every
  record is terminal, or it is the one the surviving journal names and waits for recovery.
\<close>

theorem recover_reconciles:
  assumes "store.reach (True, s, fs)" and "ans_tmp a \<noteq> st_path s"
    and "Recover j now a s fs = (None, s', fs')"
    and "map_of (st_operations s') operationID = Some r"
  shows "terminal_record r \<or>
    j = operationID \<and> op_status r = JobRecoveryRequired \<and> op_httpStatus r = 202"
proof -
  have good: "good s fs" using reach_ok[OF assms(1)] by (simp add: world_ok_def)
  obtain p c where pc: "pruneExpiredDurableOperations (st_operations s) now (st_retention s) = (p, c)"
    by (cases "pruneExpiredDurableOperations (st_operations s) now (st_retention s)") auto
  then have run: "(case recover_loop j now p c of Inl e \<Rightarrow> (Some e, s, fs)
      | Inr (next1, changed1) \<Rightarrow> if \<not> changed1 then (None, s, fs)
          else persistAndInstallLocked s next1 a fs) = (None, s', fs')"
    using assms(3) by (simp add: Recover_def split: if_splits)
  then obtain ops' c' where loop: "recover_loop j now p c = Inr (ops', c')"
    by (cases "recover_loop j now p c") auto
  note L = recover_loop_result[OF loop]
  have "st_operations s' = gm_map (recover1 j now) p"
  proof (cases c')
    case True
    then have i: "persistAndInstallLocked s ops' a fs = (None, s', fs')" using run loop by simp
    from i assms(2) have "s' = s\<lparr>st_operations := ops'\<rparr>"
      by (cases rule: install_cases) simp_all
    then show ?thesis using L by simp
  next
    case False
    then have "\<not> c" "p = gm_map (recover1 j now) p" using L by metis+
    then have "p = st_operations s"
      using pc prune_unchanged[of "st_operations s" now "st_retention s"] by simp
    moreover have "s' = s" using run loop False by simp
    ultimately show ?thesis using \<open>p = gm_map (recover1 j now) p\<close> by metis
  qed
  then obtain r0 where "r = recover1 j now operationID r0"
    using assms(4) by (auto simp: map_of_gm_map)
  then show ?thesis by (auto simp: recover1_def recover_record_def transitioned_def)
qed

theorem recover_reconciles_witness:
  "\<exists>(s' :: op_store) r. map_of (st_operations s') ex_id = Some r \<and> op_status r = JobCancelled \<and>
     (terminal_record r \<or> ''other'' = ex_id \<and> op_status r = JobRecoveryRequired \<and> op_httpStatus r = 202)"
proof -
  let ?r = "stamp_record 5 ex_record"
  let ?s = "ex_store\<lparr>st_operations := [(ex_id, ?r)]\<rparr>"
  let ?r2 = "transitioned ?r JobCancelled 409 MsgRestart 7"
  have valid: "valid_record ?r" by simp
  obtain fs where R: "store.reach (False, ?s, fs)" and d: "data_at fs ''ops'' = Some (document_of [(ex_id, ?r)])"
    and tmp: "fs ''tmp'' = None"
    by (rule ex_reserved[OF valid]) (auto simp: ex_record_def)
  obtain f where f: "fs ''ops'' = Some f" "readable (f_content f) = Some (document_of [(ex_id, ?r)])"
    using d by (auto simp: data_at_def split: option.splits)
  have live: "op_status ?r = JobPending" by (simp add: stamp_record_def ex_record_def Let_def)
  have g: "good ?s fs" using reach_ok[OF R] by (simp add: world_ok_def)
  have "decode_document 512 (readable (f_content f)) = Inr [(ex_id, ?r)]"
    using decode_document_of[of "[(ex_id, ?r)]" 512] goodD[OF g] f by simp
  then have "openDurableOperationStore ''ops'' 512 (24 * hour) 6 ex_open (all_well ''tmp'') fs
      = (Inr ?s, fs(''ops'' \<mapsto> f\<lparr>f_mode := 384\<rparr>))"
    using f(1) live by (simp add: openDurableOperationStore_def ex_open_def ex_store_def
        pruneExpiredDurableOperations_def keep_operation_def go_defs)
  from store.reach_init[OF store_init.intros[OF this]]
  have B: "store.reach (True, ?s, fs(''ops'' \<mapsto> f\<lparr>f_mode := 384\<rparr>))"
    by (simp add: all_well_def)
  obtain fs2 where i: "persistAndInstallLocked ?s [(ex_id, ?r2)] (all_well ''tmp'')
      (fs(''ops'' \<mapsto> f\<lparr>f_mode := 384\<rparr>)) = (None, ?s\<lparr>st_operations := [(ex_id, ?r2)]\<rparr>, fs2)"
    by (rule install_well[of ?s "fs(''ops'' \<mapsto> f\<lparr>f_mode := 384\<rparr>)" "''tmp''" "[(ex_id, ?r2)]"])
      (simp_all add: ex_store_def tmp)
  have "valid_record ?r2" using ex_fields
    by (simp add: validateDurableOperationRecord_def stamp_record_def ex_record_def transitioned_def
        zero_op_record_def ex_id_def isDurableOperationStatus_def)
  then have "Recover ''other'' 7 (all_well ''tmp'') ?s (fs(''ops'' \<mapsto> f\<lparr>f_mode := 384\<rparr>)) =
      (None, ?s\<lparr>st_operations := [(ex_id, ?r2)]\<rparr>, fs2)"
    using i live by (simp add: Recover_def ex_store_def pruneExpiredDurableOperations_def
        keep_operation_def recover_record_def ex_id_other Let_def)
  from recover_reconciles[OF B _ this, of ex_id ?r2]
  have "terminal_record ?r2 \<or> ''other'' = ex_id \<and> op_status ?r2 = JobRecoveryRequired \<and>
      op_httpStatus ?r2 = 202"
    by (simp add: all_well_def ex_store_def)
  moreover have "map_of (st_operations (?s\<lparr>st_operations := [(ex_id, ?r2)]\<rparr>)) ex_id = Some ?r2"
    "op_status ?r2 = JobCancelled" by simp_all
  ultimately show ?thesis by blast
qed

lemma reopen_from_document:
  assumes "data_at g p = Some (document_of ops)" and "records_ok ops" and "int (length ops) \<le> m"
    and "p \<noteq> []" and "0 < m" and "0 < ret" and "g tmp = None" and "tmp \<noteq> p"
  shows "\<exists>s' g'. openDurableOperationStore p m ret now ex_open (all_well tmp) g = (Inr s', g') \<and>
     st_operations s' = pruned ops now ret"
proof -
  obtain f where f: "g p = Some f" "readable (f_content f) = Some (document_of ops)"
    using assms(1) by (auto simp: data_at_def split: option.splits)
  let ?g1 = "g(p \<mapsto> f\<lparr>f_mode := 384\<rparr>)"
  let ?w = "writeDurableOperationFile p (document_of (pruned ops now ret)) (all_well tmp) ?g1"
  have "decode_document m (readable (f_content f)) = Inr ops"
    using decode_document_of[OF assms(2,3)] f(2) by simp
  moreover have "w_err ?w = None" "w_committed ?w"
    using assms(7,8) by (simp_all add: writeDurableOperationFile_def all_well_def writer_simps)
  ultimately show ?thesis
    using f(1) assms(4-6) prune_unchanged[of ops now ret]
    by (auto simp: openDurableOperationStore_def persistLocked_def ex_open_def Let_def split_beta)
qed

text \<open>
  C22. Crash recovery. If the deployer dies at any moment of writing a new set of records,
  whichever system calls had failed, then opening the store again succeeds and its records
  are exactly the old ones or exactly the new ones, less those whose retention is over.
\<close>

theorem crash_reopens_old_or_new:
  assumes "store.reach (starting, s, fs)" and "fs (st_path s) \<noteq> None"
    and "ans_tmp a \<noteq> st_path s"
    and "g \<in> set (w_trace (writeDurableOperationFile (st_path s) (document_of next) a fs))"
    and "records_ok next" and "int (length next) \<le> st_maxEntries s"
    and "g tmp = None" and "tmp \<noteq> st_path s"
  shows "\<exists>s' g'. openDurableOperationStore (st_path s) (st_maxEntries s) (st_retention s) now
       ex_open (all_well tmp) g = (Inr s', g') \<and>
     st_operations s' \<in> {pruned (st_operations s) now (st_retention s),
                         pruned next now (st_retention s)}"
proof -
  have good: "good s fs" using reach_ok[OF assms(1)] by (simp add: world_ok_def)
  then have old: "data_at fs (st_path s) = Some (document_of (st_operations s))"
    using assms(2) by (auto simp: good_def mem_file_def data_at_def split: option.splits)
  have pos: "st_path s \<noteq> []" "0 < st_maxEntries s" "0 < st_retention s"
    using good by (auto simp: good_def store_ok_def)
  have reopen: "\<exists>s' g'. openDurableOperationStore (st_path s) (st_maxEntries s) (st_retention s) now
       ex_open (all_well tmp) g = (Inr s', g') \<and> st_operations s' = pruned ops now (st_retention s)"
    if "data_at g (st_path s) = Some (document_of ops)" "records_ok ops"
      "int (length ops) \<le> st_maxEntries s" for ops
    using reopen_from_document[of g "st_path s" ops "st_maxEntries s" "st_retention s" tmp now]
      that pos assms(7,8) by blast
  from op_writer.trace_data[OF assms(3,4)] show ?thesis
  proof
    assume "data_at g (st_path s) = data_at fs (st_path s)"
    then show ?thesis using reopen[of "st_operations s"] old goodD(1,4)[OF good] by auto
  next
    assume "data_at g (st_path s) = Some (document_of next)"
    then show ?thesis using reopen[of "next"] assms(5,6) by auto
  qed
qed

theorem crash_reopens_old_or_new_witness:
  "\<exists>fs s' g'. openDurableOperationStore ''ops'' 512 (24 * hour) 9 ex_open (all_well ''tmp2'') fs = (Inr s', g') \<and>
     st_operations s' \<in> {pruned [(ex_id, stamp_record 5 ex_record)] 9 (24 * hour), pruned [] 9 (24 * hour)}"
proof -
  let ?r = "stamp_record 5 ex_record"
  let ?s = "ex_store\<lparr>st_operations := [(ex_id, ?r)]\<rparr>"
  have valid: "valid_record ?r" by simp
  obtain fs where R: "store.reach (False, ?s, fs)" and F: "Reserve ex_record 5 (all_well ''tmp'') ex_store ex_files = (reserve_ok ?r False, ?s, fs)"
    and d: "data_at fs ''ops'' = Some (document_of [(ex_id, ?r)])" and tmp: "fs ''tmp'' = None"
    by (rule ex_reserved[OF valid]) (auto simp: ex_record_def)
  let ?fs = "fs(''tmp2'' := None)"
  have "store.reach (False, ?s, ?fs)"
    by (rule store.reach_step[OF R do_elsewhere]) (simp add: ex_store_def)
  from crash_reopens_old_or_new[OF this, of "all_well ''tmp''" "?fs" "[]" "''tmp2''" 9] show ?thesis
    using d tmp
    by (auto simp: ex_store_def data_at_def all_well_def writeDurableOperationFile_def writer_simps
        split: option.splits)
qed

end
