(* ===== verification/JobManager.thy ===== *)
theory JobManager
  imports LifecycleTypes
begin

text \<open>
  The in-memory lifecycle job manager of main.go: jobs by id, the job of each operation
  id, reservation, cancellation, claiming, finishing, lookup and expiry. Its invariant
  says that operations and their jobs are in bijection and that the table is bounded;
  \<open>job_step\<close> is the life of one job.
\<close>

section \<open>State\<close>

text \<open>
  A context is identified by a number, and the cancel function a job stores is the number
  of its context. The result body is opaque.
\<close>

type_synonym ctx_id = nat

record job =
  jb_id :: string
  jb_status :: lifecycleJobStatus
  jb_finishedAt :: time
  jb_operationID :: string
  jb_operationFingerprint :: string
  jb_kind :: lifecycleKind
  jb_subjectID :: string
  jb_httpStatus :: int
  jb_publicMessage :: public_message
  jb_result :: "string option"
  jb_cancel :: "ctx_id option"
  jb_cancelRequested :: bool

record job_manager =
  jm_gate :: gate
  jm_jobs :: "(string, job) gomap"
  jm_operationJobs :: "(string, string) gomap"
  jm_maxEntries :: int
  jm_terminalRetention :: duration

record job_response =
  jr_id :: string
  jr_status :: lifecycleJobStatus
  jr_publicMessage :: public_message

record operation_response =
  or_operationID :: string
  or_kind :: lifecycleKind
  or_subjectID :: string
  or_status :: lifecycleJobStatus
  or_httpStatus :: int
  or_message :: public_message

definition lifecycleJobMaxEntries :: int where "lifecycleJobMaxEntries = 128"
definition lifecycleJobTerminalRetention :: duration where "lifecycleJobTerminalRetention = hour"

lemmas job_consts [go_defs] = lifecycleJobMaxEntries_def lifecycleJobTerminalRetention_def

definition newLifecycleJobManager :: job_manager where
  "newLifecycleJobManager = \<lparr>jm_gate = None, jm_jobs = [], jm_operationJobs = [],
     jm_maxEntries = lifecycleJobMaxEntries, jm_terminalRetention = lifecycleJobTerminalRetention\<rparr>"

definition new_job :: "string \<Rightarrow> string \<Rightarrow> string \<Rightarrow> lifecycleKind \<Rightarrow> job" where
  "new_job jid oid fp k = \<lparr>jb_id = jid, jb_status = JobPending, jb_finishedAt = 0,
     jb_operationID = oid, jb_operationFingerprint = fp, jb_kind = k, jb_subjectID = [],
     jb_httpStatus = 0, jb_publicMessage = MsgNone, jb_result = None, jb_cancel = None,
     jb_cancelRequested = False\<rparr>"

section \<open>Operations\<close>

definition put_job :: "string \<Rightarrow> job \<Rightarrow> job_manager \<Rightarrow> job_manager" where
  "put_job jid j m = m\<lparr>jm_jobs := AList.update jid j (jm_jobs m)\<rparr>"

text \<open>Deleting a job and, when it is still the job of its operation, the link to it.\<close>

definition remove_job :: "string \<Rightarrow> job \<Rightarrow> job_manager \<Rightarrow> job_manager" where
  "remove_job jid j m =
     (let m1 = m\<lparr>jm_jobs := AList.delete jid (jm_jobs m)\<rparr> in
      if jb_operationID j \<noteq> [] \<and> gm_str (jm_operationJobs m) (jb_operationID j) = jid
      then m1\<lparr>jm_operationJobs := AList.delete (jb_operationID j) (jm_operationJobs m)\<rparr>
      else m1)"

definition expired_job :: "time \<Rightarrow> duration \<Rightarrow> job \<Rightarrow> bool" where
  "expired_job now ret j \<longleftrightarrow>
     isTerminalLifecycleJob (jb_status j) \<and> \<not> time_is_zero (jb_finishedAt j) \<and>
     \<not> now < jb_finishedAt j + ret"

fun prune_loop :: "time \<Rightarrow> (string, job) gomap \<Rightarrow> job_manager \<Rightarrow> job_manager" where
  "prune_loop now [] m = m"
| "prune_loop now ((jid, j) # jobs) m =
     prune_loop now jobs (if expired_job now (jm_terminalRetention m) j then remove_job jid j m else m)"

definition pruneExpiredTerminalLocked :: "time \<Rightarrow> job_manager \<Rightarrow> job_manager" where
  "pruneExpiredTerminalLocked now m = prune_loop now (jm_jobs m) m"

definition prune_if_admitting :: "time \<Rightarrow> job_manager \<Rightarrow> job_manager" where
  "prune_if_admitting now m =
     (if \<not> blocksAdmission (jm_gate m) then pruneExpiredTerminalLocked now m else m)"

text \<open>
  \<open>reserveWithOperation\<close> draws at most four random ids; \<open>rand n\<close> is the answer of the
  \<open>n\<close>-th call of \<open>randomHex\<close>, with None for a failing random source.
\<close>

fun draw_id :: "(nat \<Rightarrow> string option) \<Rightarrow> nat \<Rightarrow> nat \<Rightarrow> (string, job) gomap \<Rightarrow> string result" where
  "draw_id rand n 0 jobs = Inl (Err ''lifecycle job id collision'')"
| "draw_id rand n (Suc left) jobs =
     (case rand n of
        None \<Rightarrow> Inl (ErrIO ''randomHex'')
      | Some jid \<Rightarrow> if gm_has jobs jid then draw_id rand (Suc n) left jobs else Inr jid)"

definition insert_job ::
    "string \<Rightarrow> string \<Rightarrow> lifecycleKind \<Rightarrow> string \<Rightarrow> job_manager \<Rightarrow> job_manager" where
  "insert_job oid fp k jid m =
     (let m1 = put_job jid (new_job jid oid fp k) m in
      if oid \<noteq> [] then m1\<lparr>jm_operationJobs := AList.update oid jid (jm_operationJobs m1)\<rparr> else m1)"

definition reserve_fresh ::
    "string \<Rightarrow> string \<Rightarrow> lifecycleKind \<Rightarrow> (nat \<Rightarrow> string option) \<Rightarrow> job_manager \<Rightarrow>
     (string \<times> bool) result \<times> job_manager" where
  "reserve_fresh oid fp k rand m =
     (if int (length (jm_jobs m)) \<ge> jm_maxEntries m then (Inl ErrLifecycleJobCapacity, m)
      else case draw_id rand 0 4 (jm_jobs m) of
        Inl e \<Rightarrow> (Inl e, m)
      | Inr jid \<Rightarrow> (Inr (jid, False), insert_job oid fp k jid m))"

definition reserveWithOperation ::
    "string \<Rightarrow> string \<Rightarrow> lifecycleKind \<Rightarrow> time \<Rightarrow> (nat \<Rightarrow> string option) \<Rightarrow> job_manager \<Rightarrow>
     (string \<times> bool) result \<times> job_manager" where
  "reserveWithOperation oid fp k now rand m0 =
     (if blocksAdmission (jm_gate m0) \<and> \<not> allowsPreparationDrain (jm_gate m0) oid fp k
      then (Inl ErrMaintenanceClosed, m0)
      else let m = prune_if_admitting now m0 in
        if oid = [] then reserve_fresh oid fp k rand m
        else case map_of (jm_operationJobs m) oid of
          None \<Rightarrow> reserve_fresh oid fp k rand m
        | Some existingID \<Rightarrow>
            (case map_of (jm_jobs m) existingID of
               Some existing \<Rightarrow>
                 if jb_operationFingerprint existing \<noteq> fp
                 then (Inl ErrLifecycleOperationConflict, m)
                 else (Inr (existingID, True), m)
             | None \<Rightarrow> reserve_fresh oid fp k rand
                 (m\<lparr>jm_operationJobs := AList.delete oid (jm_operationJobs m)\<rparr>)))"

definition reserve :: "time \<Rightarrow> (nat \<Rightarrow> string option) \<Rightarrow> job_manager \<Rightarrow> string result \<times> job_manager" where
  "reserve now rand m =
     (let (r, m') = reserveWithOperation [] [] KindNone now rand m in (map_sum (\<lambda>e. e) fst r, m'))"

definition jobIDForOperation :: "string \<Rightarrow> job_manager \<Rightarrow> string" where
  "jobIDForOperation oid m =
     (let jid = gm_str (jm_operationJobs m) oid in if gm_has (jm_jobs m) jid then jid else [])"

definition discard :: "string \<Rightarrow> job_manager \<Rightarrow> job_manager" where
  "discard jid m =
     (case map_of (jm_jobs m) jid of
        None \<Rightarrow> m
      | Some j \<Rightarrow>
          if jb_status j = JobPending \<or> isTerminalLifecycleJob (jb_status j)
          then remove_job jid j m else m)"

text \<open>The response, and the context that the caller cancels once the lock is released.\<close>

definition response_of :: "job \<Rightarrow> job_response" where
  "response_of j = \<lparr>jr_id = jb_id j, jr_status = jb_status j, jr_publicMessage = jb_publicMessage j\<rparr>"

definition requestCancel ::
    "string \<Rightarrow> time \<Rightarrow> job_manager \<Rightarrow> job_response option \<times> ctx_id option \<times> job_manager" where
  "requestCancel jid now m =
     (case map_of (jm_jobs m) jid of
        None \<Rightarrow> (None, None, m)
      | Some j \<Rightarrow>
          if jb_status j = JobPending
          then let j1 = j\<lparr>jb_status := JobCancelled, jb_finishedAt := now\<rparr> in
               (Some (response_of j1), None, put_job jid j1 m)
          else if jb_status j = JobRunning
          then let j1 = j\<lparr>jb_cancelRequested := True\<rparr> in
               (Some (response_of j1), jb_cancel j, put_job jid j1 m)
          else (Some (response_of j), None, m))"

definition claim :: "string \<Rightarrow> ctx_id \<Rightarrow> job_manager \<Rightarrow> bool \<times> job_manager" where
  "claim jid cancel m =
     (case map_of (jm_jobs m) jid of
        None \<Rightarrow> (False, m)
      | Some j \<Rightarrow>
          if jb_status j \<noteq> JobPending then (False, m)
          else (True, put_job jid (j\<lparr>jb_status := JobRunning, jb_cancel := Some cancel\<rparr>) m))"

definition finished_job :: "job \<Rightarrow> lifecycleJobStatus \<Rightarrow> public_message \<Rightarrow> time \<Rightarrow> job" where
  "finished_job j status0 msg now =
     (let st = (if jb_cancelRequested j \<and> status0 \<noteq> JobRecoveryRequired then JobCancelled else status0) in
      j\<lparr>jb_status := st, jb_publicMessage := msg,
        jb_finishedAt := (if isTerminalLifecycleJob st then now else 0), jb_cancel := None\<rparr>)"

definition finishWithPublicMessage ::
    "string \<Rightarrow> lifecycleJobStatus \<Rightarrow> public_message \<Rightarrow> time \<Rightarrow> job_manager \<Rightarrow> job_manager" where
  "finishWithPublicMessage jid st msg now m =
     (case map_of (jm_jobs m) jid of
        None \<Rightarrow> m
      | Some j \<Rightarrow>
          if isTerminalLifecycleJob (jb_status j) then m
          else put_job jid (finished_job j st msg now) m)"

definition finish_job :: "string \<Rightarrow> lifecycleJobStatus \<Rightarrow> time \<Rightarrow> job_manager \<Rightarrow> job_manager" where
  "finish_job jid st now m = finishWithPublicMessage jid st MsgNone now m"

text \<open>
  The goroutine of \<open>start\<close>: its work answers with an error or not, and its context may
  have been cancelled meanwhile.
\<close>

definition start_claim :: "string \<Rightarrow> ctx_id \<Rightarrow> job_manager \<Rightarrow> bool \<times> job_manager" where
  "start_claim jid ctx m = claim jid ctx m"

definition start_finish :: "string \<Rightarrow> bool \<Rightarrow> bool \<Rightarrow> time \<Rightarrow> job_manager \<Rightarrow> job_manager" where
  "start_finish jid cancelled failed now m =
     finish_job jid (if cancelled then JobCancelled else if failed then JobFailed else JobSucceeded) now m"

definition bindOperationSubject :: "string \<Rightarrow> lifecycleKind \<Rightarrow> string \<Rightarrow> job_manager \<Rightarrow> job_manager" where
  "bindOperationSubject jid k sub m =
     (case map_of (jm_jobs m) jid of
        None \<Rightarrow> m
      | Some j \<Rightarrow>
          let j1 = (if k \<noteq> KindNone then j\<lparr>jb_kind := k\<rparr> else j);
              j2 = (if sub \<noteq> [] then j1\<lparr>jb_subjectID := sub\<rparr> else j1)
          in put_job jid j2 m)"

definition annotate_result :: "string \<Rightarrow> int \<Rightarrow> string \<Rightarrow> job_manager \<Rightarrow> job_manager" where
  "annotate_result jid http res m =
     (case map_of (jm_jobs m) jid of
        None \<Rightarrow> m
      | Some j \<Rightarrow> put_job jid (j\<lparr>jb_httpStatus := http, jb_result := Some res\<rparr>) m)"

text \<open>
  \<open>recordOperationResult\<close> releases the lock between storing the result and finishing the
  job, so the transition system below takes the two halves as separate steps.
\<close>

definition recordOperationResult ::
    "string \<Rightarrow> lifecycleJobStatus \<Rightarrow> int \<Rightarrow> string \<Rightarrow> time \<Rightarrow> job_manager \<Rightarrow> job_manager" where
  "recordOperationResult jid st http res now m =
     (let m1 = annotate_result jid http res m in
      if gm_has (jm_jobs m) jid \<and> isTerminalLifecycleJob st then finish_job jid st now m1 else m1)"

definition operation_response_of :: "string \<Rightarrow> job \<Rightarrow> operation_response" where
  "operation_response_of oid j =
     \<lparr>or_operationID = oid, or_kind = jb_kind j, or_subjectID = jb_subjectID j,
      or_status = jb_status j,
      or_httpStatus =
        (if \<not> isTerminalLifecycleJob (jb_status j) then 0
         else if jb_httpStatus j \<noteq> 0 then jb_httpStatus j
         else if jb_status j \<noteq> JobSucceeded then 500 else 200),
      or_message = MsgNone\<rparr>"

definition lookupOperation ::
    "string \<Rightarrow> time \<Rightarrow> job_manager \<Rightarrow> operation_response option \<times> job_manager" where
  "lookupOperation oid now m0 =
     (let m = prune_if_admitting now m0 in
      case map_of (jm_operationJobs m) oid of
        None \<Rightarrow> (None, m)
      | Some jid \<Rightarrow> (map_option (operation_response_of oid) (map_of (jm_jobs m) jid), m))"

definition lookup_job :: "string \<Rightarrow> time \<Rightarrow> job_manager \<Rightarrow> job_response option \<times> job_manager" where
  "lookup_job jid now m0 =
     (let m = prune_if_admitting now m0 in (map_option response_of (map_of (jm_jobs m) jid), m))"

section \<open>The life of a job\<close>

text \<open>
  A job moves forward through its states, never changes its operation, and is removed
  only while pending or once terminal; a random id may come back once its job expired.
\<close>

fun status_rank :: "lifecycleJobStatus \<Rightarrow> nat" where
  "status_rank JobPending = 0"
| "status_rank JobRunning = 1"
| "status_rank JobRecoveryRequired = 2"
| "status_rank _ = 3"

definition advances :: "lifecycleJobStatus \<Rightarrow> lifecycleJobStatus \<Rightarrow> bool" where
  "advances st st' \<longleftrightarrow>
     st' = st \<or> status_rank st < status_rank st' \<and> isDurableOperationStatus st'"

inductive job_step :: "job option \<Rightarrow> job option \<Rightarrow> bool" where
  absent: "job_step None None"
| reserved: "jb_status j = JobPending \<Longrightarrow> jb_cancel j = None \<Longrightarrow> job_step None (Some j)"
| moved: "advances (jb_status j) (jb_status j') \<Longrightarrow> jb_id j' = jb_id j \<Longrightarrow>
    jb_operationID j' = jb_operationID j \<Longrightarrow>
    jb_operationFingerprint j' = jb_operationFingerprint j \<Longrightarrow> job_step (Some j) (Some j')"
| removed: "jb_status j = JobPending \<or> isTerminalLifecycleJob (jb_status j) \<Longrightarrow> job_step (Some j) None"
| recycled: "isTerminalLifecycleJob (jb_status j) \<Longrightarrow> jb_status j' = JobPending \<Longrightarrow>
    jb_cancel j' = None \<Longrightarrow> job_step (Some j) (Some j')"

lemma job_step_refl [simp, intro]: "job_step x x"
  by (cases x) (auto intro: absent moved simp: advances_def)

section \<open>The invariant\<close>

definition linked :: "job_manager \<Rightarrow> string \<Rightarrow> string \<Rightarrow> bool" where
  "linked m oid jid \<longleftrightarrow> oid \<noteq> [] \<and> (\<exists>j. map_of (jm_jobs m) jid = Some j \<and> jb_operationID j = oid)"

definition jobs_ok :: "job_manager \<Rightarrow> bool" where
  "jobs_ok m \<longleftrightarrow> gm_ok (jm_jobs m) \<and> gm_ok (jm_operationJobs m) \<and>
     (\<forall>jid j. map_of (jm_jobs m) jid = Some j \<longrightarrow> jb_id j = jid) \<and>
     (\<forall>oid jid. map_of (jm_operationJobs m) oid = Some jid \<longleftrightarrow> linked m oid jid) \<and>
     int (length (jm_jobs m)) \<le> jm_maxEntries m"

lemma jobs_okD:
  assumes "jobs_ok m"
  shows "gm_ok (jm_jobs m)" "gm_ok (jm_operationJobs m)"
    "map_of (jm_jobs m) jid = Some j \<Longrightarrow> jb_id j = jid"
    "map_of (jm_operationJobs m) oid = Some jid \<longleftrightarrow> linked m oid jid"
    "int (length (jm_jobs m)) \<le> jm_maxEntries m"
  using assms by (auto simp: jobs_ok_def)

definition jobs_step :: "job_manager \<Rightarrow> job_manager \<Rightarrow> bool" where
  "jobs_step m m' \<longleftrightarrow> jobs_ok m' \<and>
     (\<forall>jid. job_step (map_of (jm_jobs m) jid) (map_of (jm_jobs m') jid))"

lemma jobs_step_refl: "jobs_ok m \<Longrightarrow> jobs_step m m"
  by (simp add: jobs_step_def)

lemma length_update_present:
  "map_of m k \<noteq> None \<Longrightarrow> length (AList.update k v m) = length m"
  using gm_has_iff[of m k] by (simp only: length_update_existing)

text \<open>Replacing a job by one of the same id and operation keeps the invariant.\<close>

lemma put_job_ok:
  assumes "jobs_ok m" and "map_of (jm_jobs m) jid = Some j"
    and "jb_id j' = jb_id j" and "jb_operationID j' = jb_operationID j"
  shows "jobs_ok (put_job jid j' m)"
proof -
  note J = jobs_okD[OF assms(1)]
  have "linked (put_job jid j' m) oid i \<longleftrightarrow> linked m oid i" for oid i
    using assms(2,4) by (auto simp: linked_def put_job_def map_of_update)
  then show ?thesis
    using J(1,2,4,5) J(3)[OF assms(2)] J(3) assms(2,3)
    by (auto simp: jobs_ok_def put_job_def map_of_update length_update_present
        simp del: map_of_eq_Some_iff split: if_splits)
qed

lemma put_job_step:
  assumes "jobs_ok m" and "map_of (jm_jobs m) jid = Some j"
    and "jb_id j' = jb_id j" and "jb_operationID j' = jb_operationID j"
    and "jb_operationFingerprint j' = jb_operationFingerprint j"
    and "advances (jb_status j) (jb_status j')"
  shows "jobs_step m (put_job jid j' m)"
  using put_job_ok[OF assms(1-4)] assms
  by (auto simp: jobs_step_def put_job_def map_of_update intro: moved)

lemma remove_job_step:
  assumes "jobs_ok m" and "map_of (jm_jobs m) jid = Some j"
    and "jb_status j = JobPending \<or> isTerminalLifecycleJob (jb_status j)"
  shows "jobs_step m (remove_job jid j m)"
proof -
  note J = jobs_okD[OF assms(1)]
  let ?m = "remove_job jid j m"
  have jobs: "jm_jobs ?m = AList.delete jid (jm_jobs m)" "jm_maxEntries ?m = jm_maxEntries m"
    by (simp_all add: remove_job_def Let_def)
  have link: "jb_operationID j \<noteq> [] \<Longrightarrow> map_of (jm_operationJobs m) (jb_operationID j) = Some jid"
    using assms(2) J(4) by (simp add: linked_def)
  then have ops: "jm_operationJobs ?m = (if jb_operationID j \<noteq> []
      then AList.delete (jb_operationID j) (jm_operationJobs m) else jm_operationJobs m)"
    by (auto simp: remove_job_def Let_def gm_str_def)
  have "map_of (jm_operationJobs ?m) oid = Some i \<longleftrightarrow> linked ?m oid i" for oid i
  proof -
    have same: "oid = jb_operationID j \<longleftrightarrow> i = jid" if "linked m oid i"
      using that link J(4)[of oid i] assms(2) by (auto simp: linked_def simp del: map_of_eq_Some_iff)
    have "linked ?m oid i \<longleftrightarrow> i \<noteq> jid \<and> linked m oid i"
      by (auto simp: linked_def jobs map_of_delete simp del: map_of_eq_Some_iff)
    moreover have "map_of (jm_operationJobs ?m) oid = Some i \<longleftrightarrow>
        \<not> (jb_operationID j \<noteq> [] \<and> oid = jb_operationID j) \<and> linked m oid i"
      using J(4)[of oid i] by (simp add: ops map_of_delete)
    moreover have "oid \<noteq> []" if "linked m oid i" using that by (simp add: linked_def)
    ultimately show ?thesis using same by auto
  qed
  then have "jobs_ok ?m"
    using J(1-3,5) length_delete_gm_le[of jid "jm_jobs m"]
    by (auto simp: jobs_ok_def jobs ops map_of_delete simp del: map_of_eq_Some_iff split: if_splits)
  then show ?thesis
    using assms(2,3) by (auto simp: jobs_step_def jobs map_of_delete intro: removed)
qed

text \<open>Expiry removes jobs one by one; a job that stays is not changed.\<close>

definition kept_or_expired :: "job_manager \<Rightarrow> job_manager \<Rightarrow> bool" where
  "kept_or_expired m m' \<longleftrightarrow> jobs_ok m' \<and> jm_gate m' = jm_gate m \<and>
     jm_maxEntries m' = jm_maxEntries m \<and> jm_terminalRetention m' = jm_terminalRetention m \<and>
     (\<forall>jid. map_of (jm_jobs m') jid = map_of (jm_jobs m) jid \<or>
        map_of (jm_jobs m') jid = None \<and>
        (\<exists>j. map_of (jm_jobs m) jid = Some j \<and> isTerminalLifecycleJob (jb_status j)))"

lemma kept_or_expired_step: "kept_or_expired m m' \<Longrightarrow> jobs_step m m'"
  unfolding kept_or_expired_def jobs_step_def by (metis job_step_refl removed)

lemma kept_or_expired_trans:
  "kept_or_expired m m1 \<Longrightarrow> kept_or_expired m1 m2 \<Longrightarrow> kept_or_expired m m2"
  unfolding kept_or_expired_def by (metis (no_types, lifting))

lemma remove_job_fields [simp]:
  "jm_jobs (remove_job jid j m) = AList.delete jid (jm_jobs m)"
  "jm_gate (remove_job jid j m) = jm_gate m"
  "jm_maxEntries (remove_job jid j m) = jm_maxEntries m"
  "jm_terminalRetention (remove_job jid j m) = jm_terminalRetention m"
  by (simp_all add: remove_job_def Let_def)

lemma prune_loop_ok:
  assumes "jobs_ok m" and "\<And>jid j. (jid, j) \<in> set jobs \<Longrightarrow> map_of (jm_jobs m) jid = Some j"
    and "gm_ok jobs"
  shows "kept_or_expired m (prune_loop now jobs m)"
  using assms
proof (induction now jobs m rule: prune_loop.induct)
  case (2 now jid j jobs m)
  let ?m = "if expired_job now (jm_terminalRetention m) j then remove_job jid j m else m"
  have here: "map_of (jm_jobs m) jid = Some j" using "2.prems"(2) by simp
  have step: "kept_or_expired m ?m"
  proof (cases "expired_job now (jm_terminalRetention m) j")
    case True
    then have "jobs_ok (remove_job jid j m)"
      using remove_job_step[OF "2.prems"(1) here] by (simp add: expired_job_def jobs_step_def)
    with True here show ?thesis by (simp add: kept_or_expired_def map_of_delete expired_job_def)
  qed (simp add: kept_or_expired_def "2.prems"(1))
  have rest: "map_of (jm_jobs ?m) i = Some k" if "(i, k) \<in> set jobs" for i k
  proof -
    have "map_of (jm_jobs m) i = Some k" using "2.prems"(2) that by simp
    moreover have "i \<noteq> jid" using "2.prems"(3) that by force
    ultimately show ?thesis by (simp add: map_of_delete)
  qed
  have "kept_or_expired ?m (prune_loop now jobs ?m)"
    using "2.IH" step rest "2.prems"(3) by (simp add: kept_or_expired_def)
  then show ?case using kept_or_expired_trans[OF step] by simp
qed (simp add: kept_or_expired_def)

lemma prune_ok: "jobs_ok m \<Longrightarrow> kept_or_expired m (prune_if_admitting now m)"
  unfolding prune_if_admitting_def pruneExpiredTerminalLocked_def
  using prune_loop_ok[of m "jm_jobs m" now] jobs_okD(1)[of m]
  by (auto simp: kept_or_expired_def)

section \<open>Every operation keeps the invariant\<close>

lemma draw_id_fresh: "draw_id rand n k jobs = Inr jid \<Longrightarrow> map_of jobs jid = None"
  by (induction rand n k jobs rule: draw_id.induct) (auto split: option.splits if_splits)

lemma insert_job_fields [simp]:
  "map_of (jm_jobs (insert_job oid fp k jid m)) i =
     (if i = jid then Some (new_job jid oid fp k) else map_of (jm_jobs m) i)"
  "map_of (jm_operationJobs (insert_job oid fp k jid m)) o' =
     (if oid \<noteq> [] \<and> o' = oid then Some jid else map_of (jm_operationJobs m) o')"
  "jm_maxEntries (insert_job oid fp k jid m) = jm_maxEntries m"
  by (simp_all add: insert_job_def Let_def put_job_def map_of_update)

lemma insert_job_ok:
  assumes "jobs_ok m" and "oid = [] \<or> map_of (jm_operationJobs m) oid = None"
    and "map_of (jm_jobs m) jid = None" and "int (length (jm_jobs m)) < jm_maxEntries m"
  shows "jobs_ok (insert_job oid fp k jid m)" (is "jobs_ok ?m")
proof -
  note J = jobs_okD[OF assms(1)]
  let ?j = "new_job jid oid fp k"
  have link: "linked ?m o' i \<longleftrightarrow> (if i = jid then oid \<noteq> [] \<and> o' = oid else linked m o' i)" for o' i
    by (auto simp: linked_def new_job_def simp del: map_of_eq_Some_iff)
  have "map_of (jm_operationJobs ?m) o' = Some i \<longleftrightarrow> linked ?m o' i" for o' i
  proof -
    have absent: "\<not> linked m o' jid" using assms(3) by (simp add: linked_def)
    have free: "\<not> linked m oid i" using assms(2) J(4)[of oid i] by (auto simp: linked_def)
    show ?thesis
      using absent free J(4)[of o' i] unfolding link insert_job_fields
      by (cases "i = jid"; cases "oid \<noteq> [] \<and> o' = oid") (simp_all del: map_of_eq_Some_iff)
  qed
  moreover have "jb_id j = i" if "map_of (jm_jobs ?m) i = Some j" for i j
    using that J(3) by (auto simp: new_job_def simp del: map_of_eq_Some_iff split: if_splits)
  moreover have "int (length (jm_jobs ?m)) \<le> jm_maxEntries ?m"
    using assms(4) length_update_le[of jid ?j "jm_jobs m"] by (auto simp: insert_job_def Let_def put_job_def)
  moreover have "gm_ok (jm_jobs ?m)" "gm_ok (jm_operationJobs ?m)"
    using J(1,2) by (simp_all add: insert_job_def Let_def put_job_def)
  ultimately show ?thesis unfolding jobs_ok_def by blast
qed

lemma reserve_fresh_cases:
  assumes "reserve_fresh oid fp k rand m = (r, m')"
  obtains (fail) e where "r = Inl e" "m' = m"
  | (ok) jid where "r = Inr (jid, False)" "map_of (jm_jobs m) jid = None"
      "int (length (jm_jobs m)) < jm_maxEntries m"
      "m' = insert_job oid fp k jid m"
proof (cases "int (length (jm_jobs m)) \<ge> jm_maxEntries m")
  case True
  then show thesis
    using assms by (intro fail[of ErrLifecycleJobCapacity]) (simp_all add: reserve_fresh_def)
next
  case False
  show thesis
  proof (cases "draw_id rand 0 4 (jm_jobs m)")
    case (Inl e)
    then show thesis using assms False by (intro fail[of e]) (simp_all add: reserve_fresh_def)
  next
    case (Inr jid)
    then show thesis
      using assms False by (intro ok[of jid]) (simp_all add: reserve_fresh_def draw_id_fresh)
  qed
qed

lemma reserve_fresh_step:
  assumes "jobs_ok m0" and "kept_or_expired m0 m"
    and "oid = [] \<or> map_of (jm_operationJobs m) oid = None"
    and "reserve_fresh oid fp k rand m = (r, m')"
  shows "jobs_step m0 m'"
proof -
  have m: "jobs_ok m" using assms(2) by (simp add: kept_or_expired_def)
  from assms(4) show ?thesis
  proof (cases rule: reserve_fresh_cases)
    case (ok jid)
    have "jobs_ok m'"
      unfolding ok(4) by (rule insert_job_ok[OF m assms(3) ok(2,3)])
    moreover have "map_of (jm_jobs m') i =
        (if i = jid then Some (new_job jid oid fp k) else map_of (jm_jobs m) i)" for i
      unfolding ok(4) by simp
    moreover have "job_step (map_of (jm_jobs m0) jid) (Some (new_job jid oid fp k))"
      using assms(2) ok(2) unfolding kept_or_expired_def
      by (cases "map_of (jm_jobs m0) jid")
        (auto intro!: reserved recycled simp: new_job_def simp del: map_of_eq_Some_iff dest!: spec[of _ jid])
    ultimately show ?thesis
      using kept_or_expired_step[OF assms(2)] by (simp add: jobs_step_def)
  qed (use kept_or_expired_step[OF assms(2)] in simp)
qed

lemma reserveWithOperation_step:
  assumes "jobs_ok m0" and "reserveWithOperation oid fp k now rand m0 = (r, m')"
  shows "jobs_step m0 m'"
proof (cases "blocksAdmission (jm_gate m0) \<and> \<not> allowsPreparationDrain (jm_gate m0) oid fp k")
  case True
  then show ?thesis using assms by (auto simp: reserveWithOperation_def jobs_step_refl)
next
  case False
  let ?m = "prune_if_admitting now m0"
  note P = prune_ok[OF assms(1), of now]
  have m: "jobs_ok ?m" using P by (simp add: kept_or_expired_def)
  show ?thesis
  proof (cases "oid = [] \<or> map_of (jm_operationJobs ?m) oid = None")
    case True
    then have "reserve_fresh oid fp k rand ?m = (r, m')"
      using assms(2) False by (auto simp: reserveWithOperation_def Let_def split: if_splits)
    then show ?thesis using reserve_fresh_step[OF assms(1) P True] by simp
  next
    case linked': False
    then obtain jid j where "map_of (jm_operationJobs ?m) oid = Some jid" "map_of (jm_jobs ?m) jid = Some j"
      using jobs_okD(4)[OF m, of oid] by (auto simp: linked_def simp del: map_of_eq_Some_iff)
    then have "m' = ?m"
      using assms(2) False linked' by (auto simp: reserveWithOperation_def Let_def split: if_splits)
    then show ?thesis using kept_or_expired_step[OF P] by simp
  qed
qed

lemma discard_step: "jobs_ok m \<Longrightarrow> jobs_step m (discard jid m)"
  by (auto simp: discard_def jobs_step_refl split: option.split intro: remove_job_step
      simp del: map_of_eq_Some_iff)

lemma requestCancel_step: "jobs_ok m \<Longrightarrow> jobs_step m (snd (snd (requestCancel jid now m)))"
  by (auto simp: requestCancel_def jobs_step_refl advances_def Let_def isDurableOperationStatus_def split: option.split
      intro!: put_job_step simp del: map_of_eq_Some_iff)

lemma claim_step: "jobs_ok m \<Longrightarrow> jobs_step m (snd (claim jid ctx m))"
  by (auto simp: claim_def jobs_step_refl advances_def isDurableOperationStatus_def split: option.split
      intro!: put_job_step simp del: map_of_eq_Some_iff)

text \<open>The statuses that the code finishes a job with.\<close>

definition final_status :: "lifecycleJobStatus \<Rightarrow> bool" where
  "final_status st \<longleftrightarrow> isTerminalLifecycleJob st \<or> st = JobRecoveryRequired"

lemma rank_terminal: "isTerminalLifecycleJob st \<Longrightarrow> status_rank st = 3"
  by (cases st) auto

lemma finished_advances:
  assumes "final_status st" and "\<not> isTerminalLifecycleJob (jb_status j)"
    and "\<forall>s. jb_status j \<noteq> StatusOther s"
  shows "advances (jb_status j) (jb_status (finished_job j st msg now))"
  using assms by (cases "jb_status j"; cases st)
    (auto simp: finished_job_def advances_def final_status_def Let_def isDurableOperationStatus_def)

text \<open>The status of a job is one of the declared constants.\<close>

definition known_statuses :: "job_manager \<Rightarrow> bool" where
  "known_statuses m \<longleftrightarrow>
     (\<forall>jid j. map_of (jm_jobs m) jid = Some j \<longrightarrow> isDurableOperationStatus (jb_status j))"

lemma finish_step:
  assumes "jobs_ok m" and "final_status st" and "known_statuses m"
  shows "jobs_step m (finishWithPublicMessage jid st msg now m)"
proof (cases "map_of (jm_jobs m) jid")
  case None
  then show ?thesis by (simp add: finishWithPublicMessage_def jobs_step_refl assms(1))
next
  case (Some j)
  then have "isDurableOperationStatus (jb_status j)"
    using assms(3) unfolding known_statuses_def by blast
  then have "\<forall>s. jb_status j \<noteq> StatusOther s" by (auto simp: isDurableOperationStatus_def)
  then show ?thesis
    using Some assms(1,2) finished_advances[of st j msg now]
    by (auto simp: finishWithPublicMessage_def jobs_step_refl intro!: put_job_step
        simp: finished_job_def Let_def)
qed

lemma bind_step: "jobs_ok m \<Longrightarrow> jobs_step m (bindOperationSubject jid k sub m)"
  by (auto simp: bindOperationSubject_def jobs_step_refl advances_def Let_def split: option.split
      intro!: put_job_step simp del: map_of_eq_Some_iff)

lemma annotate_step: "jobs_ok m \<Longrightarrow> jobs_step m (annotate_result jid http res m)"
  by (auto simp: annotate_result_def jobs_step_refl advances_def Let_def split: option.split
      intro!: put_job_step simp del: map_of_eq_Some_iff)

lemma jobs_step_known:
  assumes "jobs_step m m'" and "known_statuses m"
  shows "known_statuses m'"
  unfolding known_statuses_def
proof (intro allI impI)
  fix jid j assume "map_of (jm_jobs m') jid = Some j"
  then have "job_step (map_of (jm_jobs m) jid) (Some j)"
    using assms(1) unfolding jobs_step_def by metis
  then show "isDurableOperationStatus (jb_status j)"
    by (cases rule: job_step.cases)
      (use assms(2) in \<open>auto simp: known_statuses_def advances_def isDurableOperationStatus_def
        simp del: map_of_eq_Some_iff\<close>)
qed

section \<open>The system\<close>

inductive jobs_init :: "job_manager \<Rightarrow> bool" where
  "jobs_init newLifecycleJobManager"

inductive manager_step :: "job_manager \<Rightarrow> job_manager \<Rightarrow> bool" where
  "reserveWithOperation oid fp k now rand m = (r, m') \<Longrightarrow> manager_step m m'"
| "manager_step m (discard jid m)"
| "manager_step m (snd (snd (requestCancel jid now m)))"
| "manager_step m (snd (claim jid ctx m))"
| "final_status st \<Longrightarrow> manager_step m (finishWithPublicMessage jid st msg now m)"
| "manager_step m (bindOperationSubject jid k sub m)"
| "manager_step m (annotate_result jid http res m)"
| "manager_step m (snd (lookupOperation oid now m))"
| "manager_step m (snd (lookup_job jid now m))"
| "manager_step m (m\<lparr>jm_gate := g\<rparr>)"

interpretation jobs: transition_system jobs_init manager_step .

lemma gate_step: "jobs_ok m \<Longrightarrow> jobs_step m (m\<lparr>jm_gate := g\<rparr>)"
  by (simp add: jobs_step_def jobs_ok_def linked_def)

lemma lookup_steps:
  "jobs_ok m \<Longrightarrow> jobs_step m (snd (lookupOperation oid now m))"
  "jobs_ok m \<Longrightarrow> jobs_step m (snd (lookup_job jid now m))"
  using kept_or_expired_step[OF prune_ok, of m now]
  by (auto simp: lookupOperation_def lookup_job_def Let_def split: option.split)

lemma manager_step_ok:
  assumes "manager_step m m'" and "jobs_ok m" and "known_statuses m"
  shows "jobs_step m m'"
  using assms(1,2,3)
  by (cases rule: manager_step.cases)
    (simp_all add: reserveWithOperation_step discard_step requestCancel_step claim_step finish_step
      bind_step annotate_step lookup_steps gate_step)

lemma jobs_reach_ok: "jobs.reach m \<Longrightarrow> jobs_ok m \<and> known_statuses m"
proof (rule jobs.invariant[of "\<lambda>m. jobs_ok m \<and> known_statuses m"])
  fix m assume "jobs_init m"
  then show "jobs_ok m \<and> known_statuses m"
    by (auto elim!: jobs_init.cases simp: newLifecycleJobManager_def jobs_ok_def linked_def
        known_statuses_def go_defs)
next
  fix m m' assume "jobs_ok m \<and> known_statuses m" "manager_step m m'"
  then show "jobs_ok m' \<and> known_statuses m'"
    using manager_step_ok[of m m'] jobs_step_known[of m m'] by (simp add: jobs_step_def)
qed

section \<open>Properties of the job manager\<close>

definition ex_rand :: "nat \<Rightarrow> string option" where
  "ex_rand n = Some (replicate 32 (if n = 0 then CHR ''a'' else CHR ''b''))"

definition ex_manager :: job_manager where
  "ex_manager = snd (reserveWithOperation ''op'' ''fp'' KindCreate 5 ex_rand newLifecycleJobManager)"

lemma ex_manager_reach: "jobs.reach ex_manager"
proof -
  obtain r m where "reserveWithOperation ''op'' ''fp'' KindCreate 5 ex_rand newLifecycleJobManager = (r, m)"
    by fastforce
  then show ?thesis
    using jobs.reach_step[OF jobs.reach_init[OF jobs_init.intros] manager_step.intros(1)]
    by (simp add: ex_manager_def)
qed

text \<open>
  C29. The invariant of the job manager. In every reachable table the ids are distinct, a
  job is stored under its own id, an operation id is linked to a job exactly when that job
  exists and carries it (so an operation never has two jobs and no link dangles), and the
  table never exceeds its capacity.
\<close>

theorem job_manager_invariant:
  assumes "jobs.reach m"
  shows "jobs_ok m"
  using jobs_reach_ok[OF assms] by blast

theorem job_manager_invariant_witness: "jobs_ok ex_manager"
  by (rule job_manager_invariant[OF ex_manager_reach])

text \<open>
  C30. Refinement of the job life cycle. Every operation moves every job along the abstract
  life \<open>job_step\<close>: states only advance (pending, running, recovery required, terminal), a
  terminal state is final, the operation and fingerprint of a job never change, and a job
  is removed only while it is pending or terminal, never while its work is running.
\<close>

theorem manager_refines_job_life:
  assumes "jobs.reach m" and "manager_step m m'"
  shows "job_step (map_of (jm_jobs m) jobID) (map_of (jm_jobs m') jobID)"
  using manager_step_ok[OF assms(2)] jobs_reach_ok[OF assms(1)] by (simp add: jobs_step_def)

theorem manager_refines_job_life_witness:
  "job_step (map_of (jm_jobs ex_manager) (replicate 32 CHR ''a''))
     (map_of (jm_jobs (snd (claim (replicate 32 CHR ''a'') 7 ex_manager))) (replicate 32 CHR ''a''))"
  by (rule manager_refines_job_life[OF ex_manager_reach manager_step.intros(4)])

text \<open>
  Cancellation wins. Once cancellation of a running job has been requested, the
  caller holds the job's own cancel function, and however the work then ends (unless it
  ends in recovery) the job finishes cancelled, also when its subject and its result are
  recorded in between.
\<close>

theorem cancel_request_wins:
  assumes "map_of (jm_jobs m) jobID = Some j" and "jb_status j = JobRunning"
    and "status \<noteq> JobRecoveryRequired"
    and "requestCancel jobID now m = (response, cancelled, m1)"
  shows "cancelled = jb_cancel j \<and>
    (\<exists>j'. map_of (jm_jobs (finishWithPublicMessage jobID status msg now'
            (annotate_result jobID http body (bindOperationSubject jobID k subject m1)))) jobID
          = Some j' \<and> jb_status j' = JobCancelled \<and> jb_finishedAt j' = now')"
  using assms
  by (auto simp: requestCancel_def Let_def finishWithPublicMessage_def annotate_result_def
      bindOperationSubject_def put_job_def map_of_update finished_job_def simp del: map_of_eq_Some_iff)

theorem cancel_request_wins_witness:
  "(case requestCancel ''j'' 9 (ex_manager\<lparr>jm_jobs := [(''j'', (new_job ''j'' ''op'' ''fp'' KindReset)
        \<lparr>jb_status := JobRunning, jb_cancel := Some 4\<rparr>)]\<rparr>) of (response, cancelled, m1) \<Rightarrow>
      cancelled = Some 4)"
proof -
  let ?j = "(new_job ''j'' ''op'' ''fp'' KindReset)\<lparr>jb_status := JobRunning, jb_cancel := Some 4\<rparr>"
  let ?m = "ex_manager\<lparr>jm_jobs := [(''j'', ?j)]\<rparr>"
  obtain r c m1 where "requestCancel ''j'' 9 ?m = (r, c, m1)" by (cases "requestCancel ''j'' 9 ?m") auto
  then show ?thesis
    using cancel_request_wins[of ?m "''j''" ?j JobSucceeded 9 r c m1] by simp
qed

lemma prune_keeps_live:
  assumes "jobs_ok m" and "map_of (jm_jobs m) jid = Some j" and "\<not> isTerminalLifecycleJob (jb_status j)"
  shows "map_of (jm_jobs (prune_if_admitting now m)) jid = Some j"
proof -
  have "map_of (jm_jobs (prune_if_admitting now m)) jid = map_of (jm_jobs m) jid \<or>
      (\<exists>j. map_of (jm_jobs m) jid = Some j \<and> isTerminalLifecycleJob (jb_status j))"
    using prune_ok[OF assms(1), of now] unfolding kept_or_expired_def by blast
  then show ?thesis using assms(2,3) by auto
qed

text \<open>
  One job per operation. While the job of an operation is not terminal, every further
  reservation for that operation id returns the same job when the fingerprint agrees and
  is refused as a conflict otherwise; no second job is created, whatever has expired.
\<close>

theorem operation_has_one_job:
  assumes "jobs.reach m" and "\<not> blocksAdmission (jm_gate m)" and "operationID \<noteq> []"
    and "map_of (jm_operationJobs m) operationID = Some jobID"
    and "map_of (jm_jobs m) jobID = Some j" and "\<not> isTerminalLifecycleJob (jb_status j)"
  shows "fst (reserveWithOperation operationID fingerprint k now rand m) =
    (if fingerprint = jb_operationFingerprint j then Inr (jobID, True)
     else Inl ErrLifecycleOperationConflict)"
proof -
  have m: "jobs_ok m" using jobs_reach_ok[OF assms(1)] by blast
  let ?m = "prune_if_admitting now m"
  have here: "map_of (jm_jobs ?m) jobID = Some j" by (rule prune_keeps_live[OF m assms(5,6)])
  have "jobs_ok ?m" using prune_ok[OF m] by (simp add: kept_or_expired_def)
  moreover have "jb_operationID j = operationID"
    using jobs_okD(4)[OF m, of operationID jobID] assms(4,5) by (simp add: linked_def)
  ultimately have "map_of (jm_operationJobs ?m) operationID = Some jobID"
    using jobs_okD(4)[of ?m operationID jobID] here assms(3) by (simp add: linked_def)
  then show ?thesis
    using here assms(2,3) by (simp add: reserveWithOperation_def Let_def)
qed

lemma ex_manager_value:
  "jm_jobs ex_manager = [(replicate 32 CHR ''a'', new_job (replicate 32 CHR ''a'') ''op'' ''fp'' KindCreate)]"
  "jm_operationJobs ex_manager = [(''op'', replicate 32 CHR ''a'')]"
  "jm_gate ex_manager = None"
  by (simp_all add: ex_manager_def reserveWithOperation_def newLifecycleJobManager_def Let_def
      prune_if_admitting_def pruneExpiredTerminalLocked_def reserve_fresh_def insert_job_def
      put_job_def ex_rand_def go_defs eval_nat_numeral)

theorem operation_has_one_job_witness:
  "fst (reserveWithOperation ''op'' ''other'' KindClose 99999999999999 ex_rand ex_manager)
   = Inl ErrLifecycleOperationConflict"
  using operation_has_one_job[OF ex_manager_reach, of "''op''" "replicate 32 CHR ''a''"
      "new_job (replicate 32 CHR ''a'') ''op'' ''fp'' KindCreate" "''other''" KindClose 99999999999999 ex_rand]
  by (simp add: ex_manager_value new_job_def)

end
