(* ===== verification/Coordinator.thy ===== *)
theory Coordinator
  imports AtomicWrite JobManager
begin

text \<open>
  The operation coordinator of main.go: the monitor that serialises every mutation of the
  control plane, the preparations and leases it hands out, the maintenance barrier with
  its one-time lease, and the fence that a lifecycle journal puts before new work. A
  method that waits on the condition variable is a function with the outcome \<open>Wait\<close>; the
  system of CoordinatorSystem keeps the waiting calls and resumes them.
\<close>

section \<open>State\<close>

type_synonym lease_id = nat

record maintenance_lease =
  ml_token :: string
  ml_operationID :: string
  ml_jobID :: string
  ml_consumed :: bool

record lease =
  ls_jobID :: string
  ls_ctx :: ctx_id
  ls_done :: bool

record prep =
  pr_info :: prep_info
  pr_leaseAttempt :: string
  pr_admissionErr :: "err option"
  pr_ctx :: ctx_id
  pr_done :: bool

text \<open>
  The coordinator, the heap of the objects it hands out (leases and preparations, with
  their \<open>sync.Once\<close> flags), the cancelled contexts, the next unused number, the job
  manager, and what \<open>os.Stat\<close> says of the state files: present also stands for a file whose
  state cannot be read.
\<close>

record coord =
  co_gate :: gate
  co_closed :: bool
  co_journalPending :: bool
  co_active :: "lease_id option"
  co_preparing :: "prep_id option"
  co_settlementPending :: bool
  co_maintenanceLease :: "maintenance_lease option"
  co_markerPath :: string
  co_journalPath :: string
  co_jobs :: "job_manager option"
  co_leases :: "lease_id \<Rightarrow> lease option"
  co_preps :: "prep_id \<Rightarrow> prep option"
  co_cancelled :: "ctx_id \<Rightarrow> bool"
  co_next :: nat
  co_present :: "string \<Rightarrow> bool"

datatype 'a outcome = Wait | Return 'a

datatype maintenanceState = StateOpen | StateDraining | StateDrained

definition stateFilePresent :: "coord \<Rightarrow> string \<Rightarrow> bool" where
  "stateFilePresent c path \<longleftrightarrow> path \<noteq> [] \<and> co_present c path"

abbreviation journalOnDisk :: "coord \<Rightarrow> bool" where
  "journalOnDisk c \<equiv> stateFilePresent c (co_journalPath c)"

abbreviation markerOnDisk :: "coord \<Rightarrow> bool" where
  "markerOnDisk c \<equiv> stateFilePresent c (co_markerPath c)"

abbreviation restoreGateOnDisk :: "coord \<Rightarrow> bool" where
  "restoreGateOnDisk c \<equiv> stateFilePresent c (resetD101RestoreGatePath (co_markerPath c))"

definition newOperationCoordinator ::
    "string \<Rightarrow> string \<Rightarrow> job_manager option \<Rightarrow> (string \<Rightarrow> bool) \<Rightarrow> coord" where
  "newOperationCoordinator marker journal jobs present =
     (let c = \<lparr>co_gate = None, co_closed = False, co_journalPending = False, co_active = None,
               co_preparing = None, co_settlementPending = False, co_maintenanceLease = None,
               co_markerPath = marker, co_journalPath = journal, co_jobs = jobs,
               co_leases = (\<lambda>_. None), co_preps = (\<lambda>_. None), co_cancelled = (\<lambda>_. False),
               co_next = 0, co_present = present\<rparr>
      in if markerOnDisk c \<or> journalOnDisk c \<or> restoreGateOnDisk c
         then c\<lparr>co_closed := True, co_journalPending := journalOnDisk c\<rparr>
         else c)"

definition cancel_ctx :: "ctx_id \<Rightarrow> coord \<Rightarrow> coord" where
  "cancel_ctx x c = c\<lparr>co_cancelled := (co_cancelled c)(x := True)\<rparr>"

text \<open>\<open>jobs.requestCancel\<close>, with the cancel function it calls after releasing its lock.\<close>

definition cancel_job :: "string \<Rightarrow> time \<Rightarrow> coord \<Rightarrow> coord" where
  "cancel_job jid now c =
     (case co_jobs c of
        None \<Rightarrow> c
      | Some m \<Rightarrow>
          let (_, x, m') = requestCancel jid now m; c1 = c\<lparr>co_jobs := Some m'\<rparr>
          in case x of None \<Rightarrow> c1 | Some x \<Rightarrow> cancel_ctx x c1)"

definition claim_job :: "string \<Rightarrow> ctx_id \<Rightarrow> coord \<Rightarrow> coord option" where
  "claim_job jid x c =
     (case co_jobs c of
        None \<Rightarrow> None
      | Some m \<Rightarrow> let (ok, m') = claim jid x m in if ok then Some (c\<lparr>co_jobs := Some m'\<rparr>) else None)"

section \<open>Preparations\<close>

text \<open>
  \<open>complete\<close> and the settlement mark. A preparation completes at most once; an unsettled one
  closes the coordinator for good.
\<close>

definition complete :: "prep_id \<Rightarrow> bool \<Rightarrow> coord \<Rightarrow> coord" where
  "complete p settled c =
     (case co_preps c p of
        None \<Rightarrow> c
      | Some pr \<Rightarrow>
          if pr_done pr then c
          else
            let c1 = cancel_ctx (pr_ctx pr) (c\<lparr>co_preps := (co_preps c)(p \<mapsto> pr\<lparr>pr_done := True\<rparr>)\<rparr>);
                c2 = (if \<not> settled then c1\<lparr>co_settlementPending := True, co_closed := True\<rparr> else c1)
            in if co_preparing c2 = Some p then c2\<lparr>co_preparing := None\<rparr> else c2)"

definition markPreparationSettlementPending :: "coord \<Rightarrow> coord" where
  "markPreparationSettlementPending c = c\<lparr>co_settlementPending := True, co_closed := True\<rparr>"

text \<open>
  The state files are looked at before the lock is taken, so what was seen is an argument.
\<close>

definition observe_files :: "bool \<Rightarrow> bool \<Rightarrow> coord \<Rightarrow> coord" where
  "observe_files marker journal c =
     (let c1 = (if marker then c\<lparr>co_closed := True\<rparr> else c) in
      if journal \<and> co_active c1 = None then c1\<lparr>co_closed := True, co_journalPending := True\<rparr> else c1)"

definition leasedKind :: "prep_info \<Rightarrow> bool" where
  "leasedKind i \<longleftrightarrow> pi_kind i = KindCreate \<or> (pi_kind i = KindReset \<and> pi_subjectID i = ''pep'')"

definition recovery_fence :: "coord \<Rightarrow> bool" where
  "recovery_fence c \<longleftrightarrow> co_journalPending c \<and> co_active c = None"

definition lease_rejects :: "coord \<Rightarrow> prep_info \<Rightarrow> string \<Rightarrow> bool" where
  "lease_rejects c i token \<longleftrightarrow>
     (case co_maintenanceLease c of
        None \<Rightarrow> True
      | Some l \<Rightarrow> ml_consumed l \<or> \<not> secureEqual (ml_token l) token \<or>
          (ml_operationID l \<noteq> [] \<and> ml_operationID l \<noteq> pi_operationID i))"

definition new_prep :: "prep_info \<Rightarrow> string \<Rightarrow> coord \<Rightarrow> prep_id \<times> coord" where
  "new_prep i token c =
     (let p = co_next c; x = Suc (co_next c);
          pr = \<lparr>pr_info = i, pr_leaseAttempt = token,
                pr_admissionErr =
                  (if co_closed c \<and> lease_rejects c i token then Some ErrMaintenanceClosed else None),
                pr_ctx = x, pr_done = False\<rparr>
      in (p, c\<lparr>co_preps := (co_preps c)(p \<mapsto> pr), co_preparing := Some p,
              co_next := Suc (Suc (co_next c))\<rparr>))"

definition prepare_try :: "prep_info \<Rightarrow> string \<Rightarrow> coord \<Rightarrow> prep_id result outcome \<times> coord" where
  "prepare_try i token c =
     (if co_preparing c \<noteq> None \<and> \<not> co_closed c then (Wait, c)
      else if co_settlementPending c \<or> recovery_fence c \<or> co_preparing c \<noteq> None
      then (Return (Inl ErrMaintenanceClosed), c)
      else if pi_kind i = KindReset \<and> token \<noteq> [] \<and> \<not> co_closed c
      then (Return (Inl ErrMaintenanceClosed), c)
      else if co_closed c \<and> (\<not> leasedKind i \<or> pi_operationID i = [] \<or> token = [])
      then (Return (Inl ErrMaintenanceClosed), c)
      else let (p, c') = new_prep i token c in (Return (Inr p), c'))"

definition prepare ::
    "bool \<Rightarrow> bool \<Rightarrow> prep_info \<Rightarrow> string \<Rightarrow> coord \<Rightarrow> prep_id result outcome \<times> coord" where
  "prepare marker journal i token c =
     (if blocksAdmission (co_gate c) then (Return (Inl ErrMaintenanceClosed), c)
      else prepare_try i token (observe_files marker journal c))"

section \<open>Promotion\<close>

definition promote_check :: "prep_id \<Rightarrow> prep \<Rightarrow> coord \<Rightarrow> bool" where
  "promote_check p pr c \<longleftrightarrow>
     \<not> (co_preparing c \<noteq> Some p \<or> co_cancelled c (pr_ctx pr) \<or> pr_admissionErr pr \<noteq> None \<or>
        co_settlementPending c \<or> recovery_fence c) \<and>
     \<not> (pi_kind (pr_info pr) = KindReset \<and> pr_leaseAttempt pr \<noteq> [] \<and> \<not> co_closed c) \<and>
     (co_closed c \<longrightarrow>
        \<not> (\<not> leasedKind (pr_info pr) \<or> pi_operationID (pr_info pr) = [] \<or>
           pr_leaseAttempt pr = [] \<or> lease_rejects c (pr_info pr) (pr_leaseAttempt pr)))"

definition consume_lease :: "prep_info \<Rightarrow> string \<Rightarrow> coord \<Rightarrow> coord" where
  "consume_lease i jid c =
     (if co_closed c
      then c\<lparr>co_maintenanceLease := map_option
               (\<lambda>l. l\<lparr>ml_consumed := True, ml_operationID := pi_operationID i, ml_jobID := jid\<rparr>)
               (co_maintenanceLease c)\<rparr>
      else c)"

definition new_lease :: "string \<Rightarrow> ctx_id \<Rightarrow> coord \<Rightarrow> lease_id \<times> coord" where
  "new_lease jid x c =
     (let l = co_next c in
      (l, c\<lparr>co_leases := (co_leases c)(l \<mapsto> \<lparr>ls_jobID = jid, ls_ctx = x, ls_done = False\<rparr>),
            co_active := Some l, co_next := Suc (co_next c)\<rparr>))"

definition promote_try :: "prep_id \<Rightarrow> prep \<Rightarrow> string \<Rightarrow> coord \<Rightarrow> lease_id result outcome \<times> coord" where
  "promote_try p pr jid c =
     (if \<not> promote_check p pr c then (Return (Inl ErrMaintenanceClosed), c)
      else if co_active c \<noteq> None then (Wait, c)
      else case claim_job jid (pr_ctx pr) c of
        None \<Rightarrow> (Return (Inl ErrLifecycleJobNotPending), c)
      | Some c1 \<Rightarrow>
          let (l, c2) = new_lease jid (pr_ctx pr) (consume_lease (pr_info pr) jid c1) in
          (Return (Inr l),
           c2\<lparr>co_preparing := None, co_preps := (co_preps c2)(p \<mapsto> pr\<lparr>pr_done := True\<rparr>)\<rparr>))"

definition promote ::
    "bool \<Rightarrow> bool \<Rightarrow> prep_id \<Rightarrow> prep \<Rightarrow> string \<Rightarrow> coord \<Rightarrow> lease_id result outcome \<times> coord" where
  "promote marker journal p pr jid c =
     (if blocksPromotion (co_gate c) p then (Return (Inl ErrMaintenanceClosed), c)
      else promote_try p pr jid (observe_files marker journal c))"

section \<open>Leases for unprepared operations and for recovery\<close>

text \<open>
  A failing \<open>begin\<close> cancels the job after it has released the lock: \<open>begin_try\<close> says so with
  its second component.
\<close>

definition begin_try :: "string \<Rightarrow> coord \<Rightarrow> lease_id result outcome \<times> bool \<times> coord" where
  "begin_try jid c =
     (if blocksAdmission (co_gate c) then (Return (Inl ErrMaintenanceClosed), False, c)
      else if (co_active c \<noteq> None \<or> co_preparing c \<noteq> None) \<and> \<not> co_closed c then (Wait, False, c)
      else if co_settlementPending c \<or> co_closed c \<or> co_journalPending c \<or> journalOnDisk c
      then (Return (Inl ErrMaintenanceClosed), jid \<noteq> [] \<and> co_jobs c \<noteq> None, c\<lparr>co_closed := True\<rparr>)
      else
        let x = co_next c; c1 = c\<lparr>co_next := Suc (co_next c)\<rparr> in
        if jid = [] then let (l, c2) = new_lease jid x c1 in (Return (Inr l), False, c2)
        else case claim_job jid x c1 of
          None \<Rightarrow> (Return (Inl ErrLifecycleJobNotPending), False, cancel_ctx x c1)
        | Some c2 \<Rightarrow> let (l, c3) = new_lease jid x c2 in (Return (Inr l), False, c3))"

definition beginRecovery_try :: "coord \<Rightarrow> lease_id result outcome \<times> coord" where
  "beginRecovery_try c =
     (if blocksAdmission (co_gate c) then (Return (Inl ErrMaintenanceClosed), c)
      else if co_active c \<noteq> None \<or> co_preparing c \<noteq> None then (Wait, c)
      else if \<not> co_journalPending c \<and> \<not> journalOnDisk c
      then (Return (Inl (Err ''lifecycle recovery journal is unavailable'')), c)
      else
        let x = co_next c;
            (l, c1) = new_lease [] x
              (c\<lparr>co_closed := True, co_journalPending := True, co_next := Suc (co_next c)\<rparr>)
        in (Return (Inr l), c1))"

definition claimLifecycleJob :: "lease_id \<Rightarrow> string \<Rightarrow> coord \<Rightarrow> unit result \<times> bool \<times> coord" where
  "claimLifecycleJob l jid c =
     (if jid = [] then (Inl (Err ''lifecycle job claim is unavailable''), False, c)
      else if co_active c \<noteq> Some l then (Inl (Err ''operation lease is no longer active''), False, c)
      else case co_leases c l of
        None \<Rightarrow> (Inl (Err ''lifecycle job claim is unavailable''), False, c)
      | Some ls \<Rightarrow>
          if co_closed c \<or> co_cancelled c (ls_ctx ls)
          then (Inl ErrMaintenanceClosed, co_jobs c \<noteq> None, c)
          else case claim_job jid (ls_ctx ls) c of
            None \<Rightarrow> (Inl ErrLifecycleJobNotPending, False, c)
          | Some c1 \<Rightarrow>
              (Inr (), False, c1\<lparr>co_leases := (co_leases c1)(l \<mapsto> ls\<lparr>ls_jobID := jid\<rparr>)\<rparr>))"

definition lease_done :: "lease_id \<Rightarrow> coord \<Rightarrow> coord" where
  "lease_done l c =
     (case co_leases c l of
        None \<Rightarrow> c
      | Some ls \<Rightarrow>
          if ls_done ls then c
          else
            let c1 = cancel_ctx (ls_ctx ls) (c\<lparr>co_leases := (co_leases c)(l \<mapsto> ls\<lparr>ls_done := True\<rparr>)\<rparr>)
            in if co_active c1 = Some l
               then c1\<lparr>co_closed := (co_closed c1 \<or> co_journalPending c1 \<or> journalOnDisk c1),
                       co_active := None\<rparr>
               else c1)"

section \<open>The journal fence\<close>

definition markLifecycleJournalPending :: "coord \<Rightarrow> coord" where
  "markLifecycleJournalPending c =
     (let c1 = c\<lparr>co_journalPending := True\<rparr> in
      if co_active c = None then c1\<lparr>co_closed := True\<rparr> else c1)"

definition clearLifecycleJournalPending :: "coord \<Rightarrow> coord" where
  "clearLifecycleJournalPending c =
     (let c1 = c\<lparr>co_journalPending := False\<rparr> in
      if \<not> blocksAdmission (co_gate c) \<and> \<not> co_settlementPending c \<and> \<not> markerOnDisk c
      then c1\<lparr>co_closed := False\<rparr> else c1)"

definition lifecycleRecoveryPending :: "coord \<Rightarrow> bool \<times> coord" where
  "lifecycleRecoveryPending c =
     (if co_journalPending c \<or> journalOnDisk c then (True, c\<lparr>co_journalPending := True\<rparr>) else (False, c))"

definition nativeMutationBlocked :: "coord \<Rightarrow> bool" where
  "nativeMutationBlocked c = blocksMutation (co_gate c)"

definition nativeAdmissionBlocked :: "coord \<Rightarrow> bool" where
  "nativeAdmissionBlocked c = blocksAdmission (co_gate c)"

section \<open>Maintenance\<close>

definition maintenance_state :: "coord \<Rightarrow> maintenanceState" where
  "maintenance_state c =
     (if \<not> co_closed c then StateOpen
      else if co_active c \<noteq> None \<or> co_preparing c \<noteq> None then StateDraining
      else StateDrained)"

text \<open>The marker writers, on what is present: the answers say which calls fail.\<close>

definition present_files :: "(string \<Rightarrow> bool) \<Rightarrow> unit files" where
  "present_files present =
     (\<lambda>p. if present p then Some \<lparr>f_mode = 384, f_owner = (0, 0), f_content = Written ()\<rparr> else None)"

definition write_marker :: "bool \<Rightarrow> bool \<Rightarrow> answers \<Rightarrow> coord \<Rightarrow> bool \<times> err option \<times> coord" where
  "write_marker durable mkdir a c =
     (if co_markerPath c = []
      then (False, Some (Err ''maintenance marker path is unavailable''), c)
      else if \<not> mkdir then (False, Some (ErrIO ''mkdirAll''), c)
      else
        let w = writeFileAtomicWithDurabilityResult durable True (co_markerPath c) () a
                  (present_files (co_present c))
        in (w_committed w, w_err w, c\<lparr>co_present := (\<lambda>p. w_fs w p \<noteq> None)\<rparr>))"

definition writeMaintenanceMarkerAtomic :: "bool \<Rightarrow> answers \<Rightarrow> coord \<Rightarrow> err option \<times> coord" where
  "writeMaintenanceMarkerAtomic mkdir a c = (let (_, e, c') = write_marker False mkdir a c in (e, c'))"

definition writeMaintenanceMarkerDurable :: "bool \<Rightarrow> answers \<Rightarrow> coord \<Rightarrow> bool \<times> err option \<times> coord" where
  "writeMaintenanceMarkerDurable = write_marker True"

text \<open>
  \<open>enterMaintenance\<close> up to its first release of the lock: an error, or the job that it then
  asks to cancel; and its last part, which waits until everything has drained.
\<close>

definition enterMaintenance_close :: "bool \<Rightarrow> answers \<Rightarrow> coord \<Rightarrow> string option result \<times> coord" where
  "enterMaintenance_close mkdir a c =
     (let (e, c1) = (if markerOnDisk c then (None, c) else writeMaintenanceMarkerAtomic mkdir a c) in
      case e of
        Some e \<Rightarrow> (Inl e, c1)
      | None \<Rightarrow>
          let c2 = c1\<lparr>co_closed := True\<rparr>;
              c3 = (case co_preparing c2 of
                      None \<Rightarrow> c2
                    | Some p \<Rightarrow> (case co_preps c2 p of None \<Rightarrow> c2 | Some pr \<Rightarrow> cancel_ctx (pr_ctx pr) c2));
              act = (case co_active c3 of None \<Rightarrow> None | Some l \<Rightarrow> co_leases c3 l);
              c4 = (case act of None \<Rightarrow> c3 | Some ls \<Rightarrow> cancel_ctx (ls_ctx ls) c3)
          in (Inr (case act of
                     None \<Rightarrow> None
                   | Some ls \<Rightarrow> if ls_jobID ls \<noteq> [] \<and> co_jobs c4 \<noteq> None then Some (ls_jobID ls) else None), c4))"

definition enterMaintenance_drain ::
    "string option \<Rightarrow> coord \<Rightarrow> (maintenanceState \<times> string result) outcome \<times> coord" where
  "enterMaintenance_drain rand c =
     (if co_active c \<noteq> None \<or> co_preparing c \<noteq> None then (Wait, c)
      else case co_maintenanceLease c of
        None \<Rightarrow>
          (case rand of
             None \<Rightarrow> (Return (maintenance_state c, Inl (ErrIO ''randomHex'')), c)
           | Some token \<Rightarrow>
               let c1 = c\<lparr>co_maintenanceLease := Some \<lparr>ml_token = token, ml_operationID = [],
                            ml_jobID = [], ml_consumed = False\<rparr>\<rparr>
               in (Return (maintenance_state c1, Inr token), c1))
      | Some l \<Rightarrow>
          if ml_consumed l then (Return (maintenance_state c, Inl ErrMaintenanceLeaseUsed), c)
          else (Return (maintenance_state c, Inr (ml_token l)), c))"

definition busy_or_closed :: "coord \<Rightarrow> bool" where
  "busy_or_closed c \<longleftrightarrow> co_active c \<noteq> None \<or> co_preparing c \<noteq> None \<or> co_settlementPending c \<or>
     co_closed c \<or> co_journalPending c \<or> markerOnDisk c \<or> journalOnDisk c"

definition enterMaintenanceIfIdle ::
    "string option \<Rightarrow> bool \<Rightarrow> answers \<Rightarrow> coord \<Rightarrow> (maintenanceState \<times> string result) \<times> coord" where
  "enterMaintenanceIfIdle rand mkdir a c =
     (if blocksAdmission (co_gate c) then ((StateDrained, Inl ErrMaintenanceIdleConflict), c)
      else if busy_or_closed c then ((maintenance_state c, Inl ErrMaintenanceIdleConflict), c)
      else case rand of
        None \<Rightarrow> ((maintenance_state c, Inl (ErrIO ''randomHex'')), c)
      | Some token \<Rightarrow>
          let (committed, e, c1) = writeMaintenanceMarkerDurable mkdir a c in
          case e of
            Some e \<Rightarrow>
              let c2 = (if committed \<or> markerOnDisk c1
                        then c1\<lparr>co_closed := True, co_maintenanceLease := None\<rparr> else c1)
              in ((maintenance_state c2, Inl e), c2)
          | None \<Rightarrow>
              if \<not> committed
              then ((maintenance_state c, Inl (Err ''maintenance marker was not committed'')), c1)
              else ((StateDrained, Inr token),
                    c1\<lparr>co_closed := True,
                       co_maintenanceLease := Some \<lparr>ml_token = token, ml_operationID = [],
                         ml_jobID = [], ml_consumed = False\<rparr>\<rparr>))"

definition leaveMaintenance :: "bool \<Rightarrow> coord \<Rightarrow> (maintenanceState \<times> unit result) \<times> coord" where
  "leaveMaintenance remove_ok c =
     (if blocksAdmission (co_gate c) then ((StateDrained, Inl ErrMaintenanceClosed), c)
      else if \<not> co_closed c then ((StateOpen, Inr ()), c)
      else if co_active c \<noteq> None \<or> co_preparing c \<noteq> None
      then ((StateDraining, Inl (Err ''maintenance operation is not drained'')), c)
      else if co_settlementPending c
      then ((StateDrained, Inl (Err ''lifecycle operation settlement is required'')), c)
      else if restoreGateOnDisk c
      then ((StateDrained, Inl (Err ''D101 restore closure is required'')), c\<lparr>co_closed := True\<rparr>)
      else if co_journalPending c \<or> journalOnDisk c
      then ((StateDrained, Inl (Err ''lifecycle recovery is required'')),
            c\<lparr>co_closed := True, co_journalPending := True\<rparr>)
      else if co_markerPath c = []
      then ((StateDrained, Inl (Err ''maintenance marker path is unavailable'')), c)
      else if \<not> remove_ok then ((StateDrained, Inl (ErrIO ''remove'')), c)
      else ((StateOpen, Inr ()),
            c\<lparr>co_present := (co_present c)(co_markerPath c := False),
              co_maintenanceLease := None, co_closed := False\<rparr>))"

end
