(* ===== verification/CoordinatorSystem.thy ===== *)
theory CoordinatorSystem
  imports Coordinator
begin

text \<open>
  The coordinator as a transition system. A state is the list of calls that wait on the
  condition variable (or still owe a cancellation after releasing the lock) and the
  coordinator; any method may be called at any moment, any waiting call may be resumed, and
  the state files, the owner gate and the job table may change under it. The theorems say
  who gets in.
\<close>

section \<open>Calls and steps\<close>

datatype call =
    CPrepare prep_info string
  | CPromote prep_id prep string
  | CBegin string
  | CRecovery
  | CCancelJob string
  | CEnter "string option"

definition waiting :: "'a outcome \<Rightarrow> call \<Rightarrow> call list" where
  "waiting o' k = (case o' of Wait \<Rightarrow> [k] | Return _ \<Rightarrow> [])"

definition run_begin :: "string \<Rightarrow> coord \<Rightarrow> call list \<times> coord" where
  "run_begin jid c =
     (let (o', cancel, c') = begin_try jid c in
      (waiting o' (CBegin jid) @ (if cancel then [CCancelJob jid] else []), c'))"

text \<open>Resuming a call: what is left of it, and the coordinator after it ran.\<close>

fun resume :: "time \<Rightarrow> string option \<Rightarrow> call \<Rightarrow> coord \<Rightarrow> call list \<times> coord" where
  "resume now rand (CPrepare i t) c =
     (let (o', c') = prepare_try i t c in (waiting o' (CPrepare i t), c'))"
| "resume now rand (CPromote p pr jid) c =
     (let (o', c') = promote_try p pr jid c in (waiting o' (CPromote p pr jid), c'))"
| "resume now rand (CBegin jid) c = run_begin jid c"
| "resume now rand CRecovery c =
     (let (o', c') = beginRecovery_try c in (waiting o' CRecovery, c'))"
| "resume now rand (CCancelJob jid) c = ([], cancel_job jid now c)"
| "resume now rand (CEnter (Some jid)) c = ([CEnter None], cancel_job jid now c)"
| "resume now rand (CEnter None) c =
     (let (o', c') = enterMaintenance_drain rand c in (waiting o' (CEnter None), c'))"

type_synonym monitor = "call list \<times> coord"

inductive monitor_init :: "monitor \<Rightarrow> bool" where
  "monitor_init ([], newOperationCoordinator marker journal jobs present)"

inductive monitor_step :: "monitor \<Rightarrow> monitor \<Rightarrow> bool" where
  s_prepare: "prepare mk jn i t c = (o', c') \<Longrightarrow>
    monitor_step (cs, c) (cs @ waiting o' (CPrepare i t), c')"
| s_promote: "co_preps c p = Some pr \<Longrightarrow> promote mk jn p pr jid c = (o', c') \<Longrightarrow>
    monitor_step (cs, c) (cs @ waiting o' (CPromote p pr jid), c')"
| s_begin: "run_begin jid c = (ks, c') \<Longrightarrow> monitor_step (cs, c) (cs @ ks, c')"
| s_recovery: "beginRecovery_try c = (o', c') \<Longrightarrow>
    monitor_step (cs, c) (cs @ waiting o' CRecovery, c')"
| s_enter: "enterMaintenance_close mkdir a c = (r, c') \<Longrightarrow>
    monitor_step (cs, c) (cs @ (case r of Inl e \<Rightarrow> [] | Inr j \<Rightarrow> [CEnter j]), c')"
| s_resume: "k \<in> set cs \<Longrightarrow> resume now rand k c = (ks, c') \<Longrightarrow>
    monitor_step (cs, c) (remove1 k cs @ ks, c')"
| s_complete: "monitor_step (cs, c) (cs, complete p settled c)"
| s_settlement: "monitor_step (cs, c) (cs, markPreparationSettlementPending c)"
| s_claim: "claimLifecycleJob l jid c = (r, cancel, c') \<Longrightarrow>
    monitor_step (cs, c) (cs @ (if cancel then [CCancelJob jid] else []), c')"
| s_done: "monitor_step (cs, c) (cs, lease_done l c)"
| s_mark: "monitor_step (cs, c) (cs, markLifecycleJournalPending c)"
| s_clear: "monitor_step (cs, c) (cs, clearLifecycleJournalPending c)"
| s_pending: "monitor_step (cs, c) (cs, snd (lifecycleRecoveryPending c))"
| s_idle: "monitor_step (cs, c) (cs, snd (enterMaintenanceIfIdle rand mkdir a c))"
| s_leave: "monitor_step (cs, c) (cs, snd (leaveMaintenance remove_ok c))"
| s_files: "monitor_step (cs, c) (cs, c\<lparr>co_present := present\<rparr>)"
| s_gate: "monitor_step (cs, c) (cs, c\<lparr>co_gate := g\<rparr>)"
| s_jobs: "monitor_step (cs, c) (cs, c\<lparr>co_jobs := jobs\<rparr>)"

interpretation monitor: transition_system monitor_init monitor_step .

section \<open>What a step can do to the coordinator\<close>

text \<open>
  The objects that are not done are the current ones, and a pending settlement keeps the
  coordinator closed.
\<close>

definition coord_ok :: "coord \<Rightarrow> bool" where
  "coord_ok c \<longleftrightarrow>
     (\<forall>l ls. co_leases c l = Some ls \<longrightarrow> l < co_next c \<and> (ls_done ls \<or> co_active c = Some l)) \<and>
     (\<forall>l. co_active c = Some l \<longrightarrow> (\<exists>ls. co_leases c l = Some ls \<and> \<not> ls_done ls)) \<and>
     (\<forall>p pr. co_preps c p = Some pr \<longrightarrow> p < co_next c \<and> (pr_done pr \<or> co_preparing c = Some p)) \<and>
     (\<forall>p. co_preparing c = Some p \<longrightarrow> (\<exists>pr. co_preps c p = Some pr \<and> \<not> pr_done pr)) \<and>
     (co_settlementPending c \<longrightarrow> co_closed c)"

text \<open>
  A lease that appears while the barrier is closed is a recovery lease behind the journal
  fence, or consumes the maintenance lease; behind the fence only recovery appears.
\<close>

definition admitted_by :: "coord \<Rightarrow> coord \<Rightarrow> lease \<Rightarrow> bool" where
  "admitted_by c c' ls \<longleftrightarrow>
     (ls_jobID ls = [] \<and> co_journalPending c' \<and> co_closed c') \<or>
     (\<exists>ml ml'. co_maintenanceLease c = Some ml \<and> \<not> ml_consumed ml \<and>
        co_maintenanceLease c' = Some ml' \<and> ml_consumed ml' \<and> ml_token ml' = ml_token ml \<and>
        ml_jobID ml' = ls_jobID ls)"

definition admission_ok :: "coord \<Rightarrow> coord \<Rightarrow> bool" where
  "admission_ok c c' \<longleftrightarrow>
     (\<forall>l ls. co_active c = None \<and> co_active c' = Some l \<and> co_leases c' l = Some ls \<longrightarrow>
        (co_closed c \<longrightarrow> admitted_by c c' ls) \<and>
        (co_journalPending c \<longrightarrow> ls_jobID ls = [] \<and> co_journalPending c' \<and> co_closed c'))"

definition step_ok :: "coord \<Rightarrow> coord \<Rightarrow> bool" where
  "step_ok c c' \<longleftrightarrow> coord_ok c' \<and> admission_ok c c' \<and>
     (co_settlementPending c \<longrightarrow> co_settlementPending c')"

text \<open>A step that touches none of the objects, the active lease or the settlement flag.\<close>

definition same_objects :: "coord \<Rightarrow> coord \<Rightarrow> bool" where
  "same_objects c c' \<longleftrightarrow> co_active c' = co_active c \<and> co_preparing c' = co_preparing c \<and>
     co_leases c' = co_leases c \<and> co_preps c' = co_preps c \<and> co_next c' = co_next c"

lemma step_ok_same:
  assumes "coord_ok c" and "same_objects c c'" and "co_settlementPending c \<longrightarrow> co_settlementPending c'"
    and "co_settlementPending c' \<longrightarrow> co_closed c'"
  shows "step_ok c c'"
  using assms by (auto simp: step_ok_def coord_ok_def same_objects_def admission_ok_def)

lemma cancel_ctx_fields [simp]:
  "co_gate (cancel_ctx x c) = co_gate c" "co_closed (cancel_ctx x c) = co_closed c"
  "co_journalPending (cancel_ctx x c) = co_journalPending c" "co_active (cancel_ctx x c) = co_active c"
  "co_preparing (cancel_ctx x c) = co_preparing c"
  "co_settlementPending (cancel_ctx x c) = co_settlementPending c"
  "co_maintenanceLease (cancel_ctx x c) = co_maintenanceLease c"
  "co_markerPath (cancel_ctx x c) = co_markerPath c" "co_journalPath (cancel_ctx x c) = co_journalPath c"
  "co_jobs (cancel_ctx x c) = co_jobs c" "co_leases (cancel_ctx x c) = co_leases c"
  "co_preps (cancel_ctx x c) = co_preps c" "co_next (cancel_ctx x c) = co_next c"
  "co_present (cancel_ctx x c) = co_present c"
  by (simp_all add: cancel_ctx_def)

lemma cancel_job_fields [simp]:
  "co_closed (cancel_job j now c) = co_closed c" "co_active (cancel_job j now c) = co_active c"
  "co_preparing (cancel_job j now c) = co_preparing c" "co_leases (cancel_job j now c) = co_leases c"
  "co_settlementPending (cancel_job j now c) = co_settlementPending c"
  "co_preps (cancel_job j now c) = co_preps c" "co_next (cancel_job j now c) = co_next c"
  by (simp_all add: cancel_job_def Let_def split: option.split prod.split)

lemma write_marker_fields [simp]:
  "co_closed (snd (snd (write_marker d mkdir a c))) = co_closed c"
  "co_active (snd (snd (write_marker d mkdir a c))) = co_active c"
  "co_preparing (snd (snd (write_marker d mkdir a c))) = co_preparing c"
  "co_leases (snd (snd (write_marker d mkdir a c))) = co_leases c"
  "co_preps (snd (snd (write_marker d mkdir a c))) = co_preps c"
  "co_next (snd (snd (write_marker d mkdir a c))) = co_next c"
  "co_settlementPending (snd (snd (write_marker d mkdir a c))) = co_settlementPending c"
  by (simp_all add: write_marker_def Let_def)

lemma observe_same: "coord_ok c \<Longrightarrow> step_ok c (observe_files mk jn c)"
  by (rule step_ok_same) (auto simp: observe_files_def same_objects_def coord_ok_def Let_def)

lemma observe_fields [simp]:
  "co_active (observe_files mk jn c) = co_active c"
  "co_preparing (observe_files mk jn c) = co_preparing c"
  "co_maintenanceLease (observe_files mk jn c) = co_maintenanceLease c"
  "co_closed c \<Longrightarrow> co_closed (observe_files mk jn c)"
  "co_journalPending c \<Longrightarrow> co_journalPending (observe_files mk jn c)"
  "co_settlementPending (observe_files mk jn c) = co_settlementPending c"
  by (auto simp: observe_files_def Let_def)

lemma admission_ok_observed:
  "admission_ok (observe_files mk jn c) c' \<Longrightarrow> admission_ok c c'"
  by (auto simp: admission_ok_def admitted_by_def)

lemma step_ok_observed:
  "step_ok (observe_files mk jn c) c' \<Longrightarrow> step_ok c c'"
  by (auto simp: step_ok_def intro: admission_ok_observed)

section \<open>The operations\<close>

lemma prepare_try_ok:
  assumes "coord_ok c" and "prepare_try i t c = (r, c')"
  shows "step_ok c c'"
proof (cases "c' = c")
  case True
  then show ?thesis using assms(1) by (intro step_ok_same) (auto simp: same_objects_def coord_ok_def)
next
  case False
  with assms(2) have n: "co_preparing c = None" "c' = snd (new_prep i t c)"
    by (auto simp: prepare_try_def split_beta split: if_splits)
  have fresh: "\<And>p pr. co_preps c p = Some pr \<Longrightarrow> p \<noteq> co_next c \<and> p < Suc (Suc (co_next c)) \<and> pr_done pr"
    using assms(1) n(1) by (fastforce simp: coord_ok_def)
  have "\<And>l ls. co_leases c l = Some ls \<Longrightarrow> l < Suc (Suc (co_next c))"
    using assms(1) by (fastforce simp: coord_ok_def)
  then show ?thesis
    using assms(1) fresh unfolding n(2) new_prep_def Let_def
    by (auto simp: step_ok_def coord_ok_def admission_ok_def)
qed

lemma claim_job_fields:
  assumes "claim_job jid x c = Some c1"
  shows "\<exists>m. c1 = c\<lparr>co_jobs := Some m\<rparr>"
  using assms by (auto simp: claim_job_def split: option.splits prod.splits if_splits)

lemma promote_try_ok:
  assumes "coord_ok c" and "promote_try p pr jid c = (r, c')"
  shows "step_ok c c'"
proof (cases "c' = c")
  case True
  then show ?thesis using assms(1) by (intro step_ok_same) (auto simp: same_objects_def coord_ok_def)
next
  case False
  with assms(2) obtain c1 where n: "promote_check p pr c" "co_active c = None"
      "claim_job jid (pr_ctx pr) c = Some c1"
      "c' = (snd (new_lease jid (pr_ctx pr) (consume_lease (pr_info pr) jid c1)))
        \<lparr>co_preparing := None, co_preps :=
          (co_preps (snd (new_lease jid (pr_ctx pr) (consume_lease (pr_info pr) jid c1))))
          (p \<mapsto> pr\<lparr>pr_done := True\<rparr>)\<rparr>"
    by (auto simp: promote_try_def split_beta split: if_splits option.splits)
  obtain m where c1: "c1 = c\<lparr>co_jobs := Some m\<rparr>" using claim_job_fields[OF n(3)] by blast
  have p: "co_preparing c = Some p" using n(1) by (simp add: promote_check_def)
  have fresh: "\<And>l ls. co_leases c l = Some ls \<Longrightarrow> l \<noteq> co_next c \<and> l < Suc (co_next c) \<and> ls_done ls"
    "\<And>q qr. co_preps c q = Some qr \<Longrightarrow> q < Suc (co_next c) \<and> (q \<noteq> p \<longrightarrow> pr_done qr)"
    "p < Suc (co_next c)"
    using assms(1) n(2) p by (fastforce simp: coord_ok_def)+
  have "coord_ok c'"
    using assms(1) fresh unfolding n(4) c1 new_lease_def consume_lease_def Let_def
    by (auto simp: coord_ok_def)
  moreover have "admission_ok c c'"
    using n(1,2) unfolding n(4) c1 new_lease_def consume_lease_def Let_def
    by (auto simp: admission_ok_def admitted_by_def promote_check_def recovery_fence_def
        lease_rejects_def split: option.splits)
  moreover have "co_settlementPending c' = co_settlementPending c"
    unfolding n(4) c1 new_lease_def consume_lease_def Let_def by simp
  ultimately show ?thesis by (simp add: step_ok_def)
qed

lemma new_lease_ok:
  assumes "coord_ok c" and "co_active c = None" and "co_preparing c = None"
    and "co_closed c \<longrightarrow> jid = [] \<and> co_journalPending c"
    and "co_journalPending c \<longrightarrow> jid = [] \<and> co_closed c"
  shows "step_ok c (snd (new_lease jid x c))"
proof -
  have fresh: "\<And>l ls. co_leases c l = Some ls \<Longrightarrow> l \<noteq> co_next c \<and> l < Suc (co_next c) \<and> ls_done ls"
    "\<And>q qr. co_preps c q = Some qr \<Longrightarrow> q < Suc (co_next c) \<and> pr_done qr"
    using assms(1-3) by (fastforce simp: coord_ok_def)+
  show ?thesis
    using assms fresh unfolding new_lease_def Let_def
    by (auto simp: step_ok_def coord_ok_def admission_ok_def admitted_by_def)
qed

lemma step_ok_trans_same:
  assumes "step_ok c1 c'" and "same_objects c c1 \<or> co_active c1 = None" and "co_active c = co_active c1"
    and "co_closed c \<longrightarrow> co_closed c1" and "co_journalPending c \<longrightarrow> co_journalPending c1"
    and "co_maintenanceLease c1 = co_maintenanceLease c"
    and "co_settlementPending c \<longrightarrow> co_settlementPending c1"
  shows "step_ok c c'"
  using assms by (auto simp: step_ok_def admission_ok_def admitted_by_def)

lemma coord_ok_next: "coord_ok c \<Longrightarrow> coord_ok (c\<lparr>co_next := Suc (co_next c)\<rparr>)"
  by (auto simp: coord_ok_def intro: less_SucI)

lemma coord_ok_jobs: "coord_ok c \<Longrightarrow> coord_ok (c\<lparr>co_jobs := j\<rparr>)"
  by (simp add: coord_ok_def)

lemma begin_try_ok:
  assumes "coord_ok c" and "begin_try jid c = (r, b, c')"
  shows "step_ok c c'"
proof -
  let ?c1 = "c\<lparr>co_next := Suc (co_next c)\<rparr>"
  have same: "step_ok c c" by (rule step_ok_same) (use assms(1) in \<open>auto simp: same_objects_def coord_ok_def\<close>)
  consider (same) "c' = c" | (closed) "c' = c\<lparr>co_closed := True\<rparr>"
    | (claim) "c' = cancel_ctx (co_next c) ?c1"
    | (lease) jobs where "c' = snd (new_lease jid (co_next c) (?c1\<lparr>co_jobs := jobs\<rparr>))"
        "co_active c = None" "co_preparing c = None" "\<not> co_closed c" "\<not> co_journalPending c"
  proof (cases "c' = c \<or> c' = c\<lparr>co_closed := True\<rparr> \<or> c' = cancel_ctx (co_next c) ?c1")
    case False
    then have idle: "co_active c = None" "co_preparing c = None" "\<not> co_closed c" "\<not> co_journalPending c"
      using assms(2) by (auto simp: begin_try_def Let_def split_beta split: if_splits)
    show thesis
    proof (cases "jid = []")
      case True
      then have "c' = snd (new_lease jid (co_next c) (?c1\<lparr>co_jobs := co_jobs c\<rparr>))"
        using assms(2) False idle
        by (auto simp: begin_try_def Let_def split_beta split: if_splits)
      then show thesis using lease idle by blast
    next
      case nonempty: False
      then obtain c2 where c2: "claim_job jid (co_next c) ?c1 = Some c2"
        "c' = snd (new_lease jid (co_next c) c2)"
        using assms(2) False idle
        by (auto simp: begin_try_def Let_def split_beta split: if_splits option.splits)
      then show thesis using claim_job_fields[OF c2(1)] lease idle by auto
    qed
  qed blast
  then show ?thesis
  proof cases
    case lease
    have "step_ok (?c1\<lparr>co_jobs := jobs\<rparr>) c'"
      unfolding lease(1) by (rule new_lease_ok) (use lease assms(1) in \<open>simp_all add: coord_ok_next coord_ok_jobs\<close>)
    then show ?thesis by (rule step_ok_trans_same) (use lease in simp_all)
  next
    case closed
    then show ?thesis
      using assms(1) by (intro step_ok_same) (auto simp: same_objects_def coord_ok_def)
  next
    case claim
    then show ?thesis
      using coord_ok_next[OF assms(1)]
      by (auto simp: step_ok_def coord_ok_def admission_ok_def)
  qed (use same in simp)
qed

lemma beginRecovery_try_ok:
  assumes "coord_ok c" and "beginRecovery_try c = (r, c')"
  shows "step_ok c c'"
proof (cases "c' = c")
  case True
  then show ?thesis using assms(1) by (intro step_ok_same) (auto simp: same_objects_def coord_ok_def)
next
  case False
  let ?c1 = "c\<lparr>co_closed := True, co_journalPending := True, co_next := Suc (co_next c)\<rparr>"
  have idle: "co_active c = None" "co_preparing c = None" "c' = snd (new_lease [] (co_next c) ?c1)"
    using assms(2) False by (auto simp: beginRecovery_try_def Let_def split_beta split: if_splits)
  have "coord_ok ?c1" using coord_ok_next[OF assms(1)] by (simp add: coord_ok_def)
  then have "step_ok ?c1 c'" unfolding idle(3) by (intro new_lease_ok) (use idle in simp_all)
  then show ?thesis by (rule step_ok_trans_same) (use idle in simp_all)
qed

lemma claimLifecycleJob_ok:
  assumes "coord_ok c" and "claimLifecycleJob l jid c = (r, b, c')"
  shows "step_ok c c'"
proof (cases "c' = c")
  case True
  then show ?thesis using assms(1) by (intro step_ok_same) (auto simp: same_objects_def coord_ok_def)
next
  case False
  then obtain ls c1 where l: "co_active c = Some l" "co_leases c l = Some ls"
      "claim_job jid (ls_ctx ls) c = Some c1"
      "c' = c1\<lparr>co_leases := (co_leases c1)(l \<mapsto> ls\<lparr>ls_jobID := jid\<rparr>)\<rparr>"
    using assms(2) by (auto simp: claimLifecycleJob_def split: if_splits option.splits)
  obtain m where "c1 = c\<lparr>co_jobs := Some m\<rparr>" using claim_job_fields[OF l(3)] by blast
  then show ?thesis
    using assms(1) l by (auto simp: step_ok_def coord_ok_def admission_ok_def)
qed

lemma lease_done_ok:
  assumes "coord_ok c"
  shows "step_ok c (lease_done l c)"
proof (cases "\<exists>ls. co_leases c l = Some ls \<and> \<not> ls_done ls")
  case False
  then have "lease_done l c = c" by (auto simp: lease_done_def split: option.split)
  then show ?thesis using assms by (intro step_ok_same) (auto simp: same_objects_def coord_ok_def)
next
  case True
  then obtain ls where ls: "co_leases c l = Some ls" "\<not> ls_done ls" by blast
  then have "co_active c = Some l" using assms by (auto simp: coord_ok_def)
  then show ?thesis
    using assms ls
    by (auto simp: lease_done_def Let_def step_ok_def coord_ok_def admission_ok_def)
qed

lemma complete_ok:
  assumes "coord_ok c"
  shows "step_ok c (complete p settled c)"
proof (cases "\<exists>pr. co_preps c p = Some pr \<and> \<not> pr_done pr")
  case False
  then have "complete p settled c = c" by (auto simp: complete_def split: option.split)
  then show ?thesis using assms by (intro step_ok_same) (auto simp: same_objects_def coord_ok_def)
next
  case True
  then obtain pr where pr: "co_preps c p = Some pr" "\<not> pr_done pr" by blast
  then have "co_preparing c = Some p" using assms by (auto simp: coord_ok_def)
  then show ?thesis
    using assms pr by (cases settled)
      (auto simp: complete_def Let_def step_ok_def coord_ok_def admission_ok_def)
qed

text \<open>The remaining methods change flags, the maintenance lease and the files only.\<close>

lemma flag_steps:
  assumes "coord_ok c"
  shows "step_ok c (markPreparationSettlementPending c)"
    and "step_ok c (markLifecycleJournalPending c)"
    and "step_ok c (clearLifecycleJournalPending c)"
    and "step_ok c (snd (lifecycleRecoveryPending c))"
    and "step_ok c (snd (leaveMaintenance remove_ok c))"
    and "step_ok c (c\<lparr>co_present := present\<rparr>)"
    and "step_ok c (c\<lparr>co_gate := g\<rparr>)"
    and "step_ok c (c\<lparr>co_jobs := jobs\<rparr>)"
    and "step_ok c (cancel_job jid now c)"
  by (rule step_ok_same; use assms in \<open>auto simp: same_objects_def coord_ok_def
      markPreparationSettlementPending_def markLifecycleJournalPending_def
      clearLifecycleJournalPending_def lifecycleRecoveryPending_def leaveMaintenance_def Let_def\<close>)+

lemma enterMaintenanceIfIdle_ok:
  assumes "coord_ok c"
  shows "step_ok c (snd (enterMaintenanceIfIdle rand mkdir a c))"
  by (rule step_ok_same; use assms in \<open>auto simp: same_objects_def coord_ok_def
      enterMaintenanceIfIdle_def writeMaintenanceMarkerDurable_def busy_or_closed_def Let_def split_beta
      split: option.split\<close>)

lemma enter_close_ok:
  assumes "coord_ok c" and "enterMaintenance_close mkdir a c = (r, c')"
  shows "step_ok c c'"
proof (rule step_ok_same[OF assms(1)])
  show "same_objects c c'" "co_settlementPending c \<longrightarrow> co_settlementPending c'"
    "co_settlementPending c' \<longrightarrow> co_closed c'"
    using assms
    by (auto simp: same_objects_def enterMaintenance_close_def writeMaintenanceMarkerAtomic_def
        coord_ok_def Let_def split_beta split: if_splits option.splits)
qed

lemma enter_drain_ok:
  assumes "coord_ok c" and "enterMaintenance_drain rand c = (r, c')"
  shows "step_ok c c'"
  using assms(2)
  by (intro step_ok_same[OF assms(1)])
    (use assms(1) in \<open>auto simp: same_objects_def coord_ok_def enterMaintenance_drain_def Let_def
      split: if_splits option.splits\<close>)

lemma resume_ok:
  assumes "coord_ok c" and "resume now rand k c = (ks, c')"
  shows "step_ok c c'"
  using assms
  by (cases "(now, rand, k, c)" rule: resume.cases)
    (auto simp: run_begin_def Let_def split_beta flag_steps prod_eq_iff
      intro: prepare_try_ok promote_try_ok begin_try_ok beginRecovery_try_ok enter_drain_ok)

lemma monitor_step_ok:
  assumes "monitor_step (cs, c) (cs', c')" and "coord_ok c"
  shows "step_ok c c'"
proof -
  have observed: "coord_ok (observe_files mk jn c)" for mk jn
    using observe_same[OF assms(2)] by (simp add: step_ok_def)
  from assms(1) show ?thesis
  proof (cases rule: monitor_step.cases)
    case (s_prepare mk jn i t o')
    show ?thesis
    proof (cases "blocksAdmission (co_gate c)")
      case True
      then show ?thesis using s_prepare(2) assms(2)
        by (intro step_ok_same) (auto simp: prepare_def same_objects_def coord_ok_def)
    next
      case False
      then have "prepare_try i t (observe_files mk jn c) = (o', c')"
        using s_prepare(2) by (simp add: prepare_def)
      then show ?thesis by (rule step_ok_observed[OF prepare_try_ok[OF observed]])
    qed
  next
    case (s_promote p pr mk jn jid o')
    show ?thesis
    proof (cases "blocksPromotion (co_gate c) p")
      case True
      then show ?thesis using s_promote(3) assms(2)
        by (intro step_ok_same) (auto simp: promote_def same_objects_def coord_ok_def)
    next
      case False
      then have "promote_try p pr jid (observe_files mk jn c) = (o', c')"
        using s_promote(3) by (simp add: promote_def)
      then show ?thesis by (rule step_ok_observed[OF promote_try_ok[OF observed]])
    qed
  next
    case (s_begin jid ks)
    then show ?thesis using begin_try_ok[OF assms(2)] by (auto simp: run_begin_def split: prod.splits)
  qed (use assms(2) beginRecovery_try_ok enter_close_ok resume_ok complete_ok claimLifecycleJob_ok
      lease_done_ok flag_steps enterMaintenanceIfIdle_ok in \<open>auto\<close>)
qed

section \<open>Reachable coordinators\<close>

lemma monitor_reach_ok: "monitor.reach w \<Longrightarrow> coord_ok (snd w)"
proof (rule monitor.invariant[of "\<lambda>w. coord_ok (snd w)"])
  fix w assume "monitor_init w"
  then show "coord_ok (snd w)"
    by (cases rule: monitor_init.cases) (simp add: newOperationCoordinator_def coord_ok_def Let_def)
next
  fix w w' assume "coord_ok (snd w)" "monitor_step w w'"
  then show "coord_ok (snd w')"
    using monitor_step_ok[of "fst w" "snd w" "fst w'" "snd w'"] by (simp add: step_ok_def)
qed

lemma reach_step_ok: "monitor.reach (cs, c) \<Longrightarrow> monitor_step (cs, c) (cs', c') \<Longrightarrow> step_ok c c'"
  using monitor_reach_ok[of "(cs, c)"] monitor_step_ok by simp

text \<open>Coordinators for the witnesses: a fresh one, one that recovers, one under maintenance.\<close>

definition ex_coord :: coord where
  "ex_coord = newOperationCoordinator ''m'' ''j'' (Some ex_manager) (\<lambda>_. False)"

definition ex_fenced :: coord where
  "ex_fenced = newOperationCoordinator ''m'' ''j'' (Some ex_manager) (\<lambda>p. p = ''j'')"

definition ex_info :: prep_info where
  "ex_info = \<lparr>pi_kind = KindCreate, pi_operationID = ''op'', pi_subjectID = ''pep'', pi_fingerprint = ''fp''\<rparr>"

lemma ex_coord_reach: "monitor.reach ([], ex_coord)" "monitor.reach ([], ex_fenced)"
  unfolding ex_coord_def ex_fenced_def by (rule monitor.reach_init[OF monitor_init.intros])+

lemma ex_coord_fields:
  "co_closed ex_coord = False" "co_journalPending ex_coord = False" "co_active ex_coord = None"
  "co_preparing ex_coord = None" "co_settlementPending ex_coord = False" "co_next ex_coord = 0"
  "co_gate ex_coord = None" "co_leases ex_coord l = None" "co_preps ex_coord p = None"
  "co_present ex_coord f = False" "co_maintenanceLease ex_coord = None"
  "co_closed ex_fenced = True" "co_journalPending ex_fenced = True" "co_active ex_fenced = None"
  "co_preparing ex_fenced = None" "co_gate ex_fenced = None" "co_maintenanceLease ex_fenced = None"
  by (simp_all add: ex_coord_def ex_fenced_def newOperationCoordinator_def stateFilePresent_def Let_def)

section \<open>Properties of the coordinator\<close>

text \<open>
  C7. Mutual exclusion. In every reachable state, whatever calls wait, were cancelled or
  failed, two leases whose holders have not called \<open>Done\<close> are the same lease, and it is the
  active one: the control plane runs one mutation at a time.
\<close>

theorem operations_serialised:
  assumes "monitor.reach (calls, c)"
    and "co_leases c l1 = Some a" and "ls_done a = False"
    and "co_leases c l2 = Some b" and "ls_done b = False"
  shows "l1 = l2 \<and> co_active c = Some l1"
proof -
  have "coord_ok c" using monitor_reach_ok[OF assms(1)] by simp
  then have "co_active c = Some l1" "co_active c = Some l2"
    using assms(2-5) unfolding coord_ok_def by blast+
  then show ?thesis by simp
qed

theorem operations_serialised_witness:
  "\<exists>c. monitor.reach ([], c) \<and> (1 :: nat) = 1 \<and> co_active c = Some 1"
proof -
  obtain c where b: "begin_try [] ex_coord = (Return (Inr 1), False, c)"
      "co_leases c 1 = Some \<lparr>ls_jobID = [], ls_ctx = 0, ls_done = False\<rparr>"
    by (simp add: begin_try_def ex_coord_fields stateFilePresent_def new_lease_def)
  then have "run_begin [] ex_coord = ([], c)" by (simp add: run_begin_def waiting_def)
  from monitor.reach_step[OF ex_coord_reach(1) s_begin[OF this]]
  have "monitor.reach ([], c)" by simp
  then show ?thesis using operations_serialised[of "[]" c 1 _ 1, OF _ b(2) _ b(2)] by auto
qed

text \<open>
  C24. A pending settlement is sticky. Once a preparation ended without its operation being
  settled, no sequence of calls, file changes or gate changes ever opens the coordinator
  again: only a restart, which reconciles the operations, does.
\<close>

theorem settlement_closes_for_good:
  assumes "monitor.reach w" and "monitor_step\<^sup>*\<^sup>* w w'" and "co_settlementPending (snd w)"
  shows "co_settlementPending (snd w') \<and> co_closed (snd w')"
proof -
  have "co_settlementPending (snd w')"
    using assms(2)
  proof (induction rule: rtranclp_induct)
    case (step w1 w2)
    have "coord_ok (snd w1)" by (rule monitor_reach_ok[OF monitor.run_reach[OF step(1) assms(1)]])
    then show ?case
      using monitor_step_ok[of "fst w1" "snd w1" "fst w2" "snd w2"] step by (simp add: step_ok_def)
  qed (rule assms(3))
  moreover have "coord_ok (snd w')" by (rule monitor_reach_ok[OF monitor.run_reach[OF assms(2,1)]])
  ultimately show ?thesis by (simp add: coord_ok_def)
qed

theorem settlement_closes_for_good_witness:
  "co_closed (clearLifecycleJournalPending (markPreparationSettlementPending ex_coord)) = True"
proof -
  let ?c = "markPreparationSettlementPending ex_coord"
  have "monitor.reach ([], ?c)" by (rule monitor.reach_step[OF ex_coord_reach(1) s_settlement])
  moreover have "monitor_step\<^sup>*\<^sup>* ([], ?c) ([], clearLifecycleJournalPending ?c)"
    by (rule r_into_rtranclp) (rule s_clear)
  ultimately show ?thesis
    using settlement_closes_for_good by (fastforce simp: markPreparationSettlementPending_def)
qed

text \<open>
  The recovery fence. While a lifecycle journal is pending and nothing is active, the
  only step that can make a lease active is \<open>beginRecovery\<close>: the lease has no job, and the
  coordinator stays closed behind the journal.
\<close>

theorem only_recovery_passes_the_fence:
  assumes "monitor.reach (calls, c)" and "monitor_step (calls, c) (calls', c')"
    and "recovery_fence c" and "co_active c' = Some l" and "co_leases c' l = Some ls"
  shows "ls_jobID ls = [] \<and> co_journalPending c' \<and> co_closed c'"
  using reach_step_ok[OF assms(1,2)] assms(3-5)
  unfolding step_ok_def admission_ok_def recovery_fence_def by blast

theorem only_recovery_passes_the_fence_witness:
  "co_journalPending (snd (beginRecovery_try ex_fenced)) \<and> co_closed (snd (beginRecovery_try ex_fenced))"
proof -
  let ?c = "snd (beginRecovery_try ex_fenced)"
  have b: "beginRecovery_try ex_fenced = (Return (Inr (Suc (co_next ex_fenced))), ?c)"
    "co_active ?c = Some (Suc (co_next ex_fenced))"
    "co_leases ?c (Suc (co_next ex_fenced)) = Some \<lparr>ls_jobID = [], ls_ctx = co_next ex_fenced, ls_done = False\<rparr>"
    by (simp_all add: beginRecovery_try_def ex_coord_fields new_lease_def)
  show ?thesis
    using only_recovery_passes_the_fence[OF ex_coord_reach(2) s_recovery[OF b(1)] _ b(2,3)]
    by (simp add: recovery_fence_def ex_coord_fields)
qed


definition ex_closed :: coord where
  "ex_closed = newOperationCoordinator ''m'' ''j'' (Some ex_manager) (\<lambda>p. p = ''m'')"

lemma ex_lease_admission:
  obtains c1 c2 c3 where "enterMaintenance_drain (Some ''tok'') ex_closed = (Return (StateDrained, Inr ''tok''), c1)"
    "prepare False False ex_info ''tok'' c1 = (Return (Inr 0), c2)"
    "co_preps c2 0 = Some \<lparr>pr_info = ex_info, pr_leaseAttempt = ''tok'', pr_admissionErr = None,
       pr_ctx = 1, pr_done = False\<rparr>"
    "promote False False 0 \<lparr>pr_info = ex_info, pr_leaseAttempt = ''tok'', pr_admissionErr = None,
       pr_ctx = 1, pr_done = False\<rparr> (replicate 32 CHR ''a'') c2 = (Return (Inr 2), c3)"
    "co_closed c2" "co_active c2 = None" "co_active c3 = Some 2"
    "co_leases c3 2 = Some \<lparr>ls_jobID = replicate 32 CHR ''a'', ls_ctx = 1, ls_done = False\<rparr>"
proof -
  let ?ml = "\<lparr>ml_token = ''tok'', ml_operationID = [], ml_jobID = [], ml_consumed = False\<rparr>"
  let ?pr = "\<lparr>pr_info = ex_info, pr_leaseAttempt = ''tok'', pr_admissionErr = None, pr_ctx = 1, pr_done = False\<rparr>"
  let ?c1 = "ex_closed\<lparr>co_maintenanceLease := Some ?ml\<rparr>"
  let ?c2 = "?c1\<lparr>co_preps := [0 \<mapsto> ?pr], co_preparing := Some 0, co_next := 2\<rparr>"
  have f: "co_closed ex_closed" "co_journalPending ex_closed = False" "co_active ex_closed = None"
    "co_preparing ex_closed = None" "co_settlementPending ex_closed = False" "co_next ex_closed = 0"
    "co_gate ex_closed = None" "co_leases ex_closed = (\<lambda>_. None)" "co_preps ex_closed = (\<lambda>_. None)"
    "co_maintenanceLease ex_closed = None" "co_jobs ex_closed = Some ex_manager" "co_cancelled ex_closed x = False" for x
    by (simp_all add: ex_closed_def newOperationCoordinator_def stateFilePresent_def Let_def)
  have "enterMaintenance_drain (Some ''tok'') ex_closed = (Return (StateDrained, Inr ''tok''), ?c1)"
    by (simp add: enterMaintenance_drain_def f maintenance_state_def)
  moreover have "prepare False False ex_info ''tok'' ?c1 = (Return (Inr 0), ?c2)"
    by (simp add: prepare_def prepare_try_def observe_files_def f recovery_fence_def new_prep_def ex_info_def
        leasedKind_def lease_rejects_def secureEqual_iff numeral_2_eq_2)
  moreover obtain c3 where "promote False False 0 ?pr (replicate 32 CHR ''a'') ?c2 = (Return (Inr 2), c3)"
    "co_active c3 = Some 2"
    "co_leases c3 2 = Some \<lparr>ls_jobID = replicate 32 CHR ''a'', ls_ctx = 1, ls_done = False\<rparr>"
    by (simp add: promote_def promote_try_def promote_check_def observe_files_def f recovery_fence_def
        ex_info_def leasedKind_def lease_rejects_def secureEqual_iff claim_job_def claim_def
        ex_manager_value new_job_def consume_lease_def new_lease_def blocksPromotion_def)
  ultimately show thesis using f by (intro that[of ?c1 ?c2 c3]) simp_all
qed


text \<open>
  No call waits forever on an idle coordinator: once nothing is active and nothing is
  preparing, every waiting call that is resumed returns (a call that still owes a
  cancellation performs it and moves on).
\<close>

theorem idle_coordinator_answers:
  assumes "co_active c = None" and "co_preparing c = None" and "resume now rand k c = (ks, c')"
  shows "k \<notin> set ks"
  using assms
  by (cases "(now, rand, k, c)" rule: resume.cases)
    (auto simp: run_begin_def Let_def split_beta waiting_def prepare_try_def promote_try_def
      promote_check_def begin_try_def beginRecovery_try_def enterMaintenance_drain_def
      split: outcome.splits if_splits option.splits)

theorem idle_coordinator_answers_witness:
  "CBegin ''x'' \<notin> set (fst (resume 0 None (CBegin ''x'') ex_coord))"
  by (rule idle_coordinator_answers[of ex_coord 0 None "CBegin ''x''" _ "snd (resume 0 None (CBegin ''x'') ex_coord)"])
    (simp_all only: ex_coord_fields prod.collapse)

text \<open>
  Opening the barrier. When \<open>leaveMaintenance\<close> opens a closed coordinator, nothing is
  active, preparing or unsettled, no journal and no restore gate is on disk, the marker is
  gone, and the maintenance lease is void.
\<close>

theorem leave_opens_only_when_drained:
  assumes "co_closed c" and "leaveMaintenance remove_ok c = ((StateOpen, r), c')"
  shows "co_active c = None \<and> co_preparing c = None \<and> co_settlementPending c = False \<and>
    co_journalPending c = False \<and> journalOnDisk c = False \<and> restoreGateOnDisk c = False \<and>
    blocksAdmission (co_gate c) = False \<and>
    co_closed c' = False \<and> markerOnDisk c' = False \<and> co_maintenanceLease c' = None"
  using assms by (auto simp: leaveMaintenance_def stateFilePresent_def split: if_splits)

theorem leave_opens_only_when_drained_witness:
  "co_closed (snd (leaveMaintenance True ex_closed)) = False \<and> restoreGateOnDisk ex_closed = False"
proof -
  have f: "co_closed ex_closed" "leaveMaintenance True ex_closed = ((StateOpen, Inr ()), snd (leaveMaintenance True ex_closed))"
    by (simp_all add: ex_closed_def newOperationCoordinator_def stateFilePresent_def leaveMaintenance_def
        resetD101RestoreGatePath_def Let_def)
  show ?thesis using leave_opens_only_when_drained[OF f] by blast
qed

lemma marker_write_present:
  assumes "ans_tmp a \<noteq> co_markerPath c" and "write_marker d mkdir a c = (cm, e, c')"
    and "\<not> co_present c (co_markerPath c)"
  shows "co_present c' (co_markerPath c) \<longrightarrow> cm" "e = None \<longrightarrow> cm \<and> co_present c' (co_markerPath c)"
    "co_markerPath c' = co_markerPath c"
proof -
  let ?w = "writeFileAtomicWithDurabilityResult d True (co_markerPath c) () a (present_files (co_present c))"
  have env: "if w_committed ?w
      then map_option f_content (w_fs ?w (co_markerPath c)) = Some ((if d then Synced else Written) ())
      else w_fs ?w (co_markerPath c) = present_files (co_present c) (co_markerPath c) \<and> w_err ?w \<noteq> None"
    using env_write_committed[OF assms(1), of d True "()" "present_files (co_present c)"]
    by (simp only: Let_def)
  show "co_present c' (co_markerPath c) \<longrightarrow> cm" "e = None \<longrightarrow> cm \<and> co_present c' (co_markerPath c)"
    "co_markerPath c' = co_markerPath c"
    using env assms(2,3)
    by (auto simp: write_marker_def present_files_def Let_def simp del: not_None_eq split: if_splits)
qed

text \<open>
  Entering maintenance from idle fails closed. Whatever the random source and the
  writes of the marker answer, afterwards the coordinator is closed if the marker is on
  disk, and a lease token is handed out only together with a committed marker and a fresh
  unconsumed lease.
\<close>

theorem idle_maintenance_fails_closed:
  assumes "ans_tmp a \<noteq> co_markerPath c" and "busy_or_closed c = False"
    and "enterMaintenanceIfIdle rand mkdir a c = ((state, token), c')"
  shows "(markerOnDisk c' = False \<or> co_closed c' = True) \<and>
    (case token of Inl e \<Rightarrow> True
     | Inr t \<Rightarrow> markerOnDisk c' \<and> co_closed c' \<and> state = StateDrained \<and>
         co_maintenanceLease c' =
           Some \<lparr>ml_token = t, ml_operationID = [], ml_jobID = [], ml_consumed = False\<rparr>)"
proof (cases "blocksAdmission (co_gate c) \<or> rand = None")
  case True
  then have "c' = c" "is_ok token = False"
    using assms(2,3) by (auto simp: enterMaintenanceIfIdle_def split: if_splits)
  then show ?thesis using assms(2) by (auto simp: busy_or_closed_def split: sum.splits)
next
  case False
  then obtain t where t: "rand = Some t" "\<not> blocksAdmission (co_gate c)" by auto
  obtain cm e c1 where w: "write_marker True mkdir a c = (cm, e, c1)"
    by (cases "write_marker True mkdir a c") auto
  show ?thesis
  proof (cases "co_markerPath c = []")
    case True
    then have "cm = False" "e \<noteq> None" "c1 = c" using w by (auto simp: write_marker_def)
    then show ?thesis
      using assms(2,3) t w True
      by (auto simp: enterMaintenanceIfIdle_def writeMaintenanceMarkerDurable_def busy_or_closed_def
          stateFilePresent_def split: option.splits)
  next
    case path: False
    then have "\<not> co_present c (co_markerPath c)"
      using assms(2) by (simp add: busy_or_closed_def stateFilePresent_def)
    note M = marker_write_present[OF assms(1) w this]
    show ?thesis
      using assms(2,3) t w M path
      by (auto simp: enterMaintenanceIfIdle_def writeMaintenanceMarkerDurable_def busy_or_closed_def
          stateFilePresent_def Let_def split: option.splits if_splits)
  qed
qed

theorem idle_maintenance_fails_closed_witness:
  "\<exists>state token c'. enterMaintenanceIfIdle (Some ''tok'') True ((all_well ''t'')\<lparr>ans_syncdir := False\<rparr>) ex_coord
     = ((state, token), c') \<and> (markerOnDisk c' = False \<or> co_closed c' = True)"
proof -
  obtain st tk c' where e: "enterMaintenanceIfIdle (Some ''tok'') True ((all_well ''t'')\<lparr>ans_syncdir := False\<rparr>) ex_coord
      = ((st, tk), c')"
    by (cases "enterMaintenanceIfIdle (Some ''tok'') True ((all_well ''t'')\<lparr>ans_syncdir := False\<rparr>) ex_coord") auto
  have "ans_tmp ((all_well ''t'')\<lparr>ans_syncdir := False\<rparr>) \<noteq> co_markerPath ex_coord" "busy_or_closed ex_coord = False"
    by (simp_all add: all_well_def ex_coord_def newOperationCoordinator_def busy_or_closed_def
        stateFilePresent_def Let_def)
  from idle_maintenance_fails_closed[OF this e] e show ?thesis by blast
qed

text \<open>
  The restore gate is not consulted when a journal is cleared. A coordinator that
  started closed because of a pending journal and the D101 restore gate is opened by
  \<open>clearLifecycleJournalPending\<close> although the restore gate is still on disk, which
  \<open>leaveMaintenance\<close> would have refused.
\<close>

theorem journal_clearing_ignores_restore_gate:
  "let c = newOperationCoordinator ''m'' ''j'' None (\<lambda>p. p = ''j'' \<or> p = ''m.d101-restore1'');
       cleared = clearLifecycleJournalPending (c\<lparr>co_present := (co_present c)(''j'' := False)\<rparr>)
   in co_closed c \<and> restoreGateOnDisk cleared \<and> co_closed cleared = False"
  by (simp add: newOperationCoordinator_def stateFilePresent_def clearLifecycleJournalPending_def
      resetD101RestoreGatePath_def Let_def)

end
