(* ===== verification/Lifecycle.thy ===== *)
theory Lifecycle
  imports OperationStoreSystem Coordinator
begin

text \<open>
  The layer of main.go between the request handlers and the store, the coordinator and the
  job manager: durable reservation and replay, the preparation of a lifecycle operation,
  confirmed transitions, the settlement of rejected operations, and the life of a claimed
  job. The locale \<open>operation_log\<close> is what this layer needs of a store.
\<close>

section \<open>State\<close>

text \<open>
  The configuration's store (which may be nil), its files, and the coordinator with its
  jobs. A call of the store reads the clock and writes with the answers of its own \<open>call_env\<close>.
\<close>

type_synonym call_env = "time \<times> answers"

type_synonym store_state = "op_store \<times> op_file files"

record world =
  wd_store :: "op_store option"
  wd_files :: "op_file files"
  wd_coord :: coord

definition put_store :: "store_state \<Rightarrow> world \<Rightarrow> world" where
  "put_store st w = w\<lparr>wd_store := Some (fst st), wd_files := snd st\<rparr>"

definition same_operation :: "op_record \<Rightarrow> lifecycleKind \<Rightarrow> string \<Rightarrow> string \<Rightarrow> bool" where
  "same_operation r k subject fp \<longleftrightarrow> op_kind r = k \<and> op_subjectID r = subject \<and> op_fingerprint r = fp"

definition has_outcome :: "op_record \<Rightarrow> lifecycleJobStatus \<Rightarrow> int \<Rightarrow> public_message \<Rightarrow> bool" where
  "has_outcome r st http msg \<longleftrightarrow> op_status r = st \<and> op_httpStatus r = http \<and> op_publicMessage r = msg"

section \<open>The store as this layer sees it\<close>

text \<open>
  A transition that returns an error may still be visible, because a directory sync can
  fail after the rename; the caller confirms the exact state through a lookup.
\<close>

definition settle_with ::
    "(string \<Rightarrow> lifecycleJobStatus \<Rightarrow> int \<Rightarrow> message_id \<Rightarrow> 's \<Rightarrow> op_record result \<times> 's) \<Rightarrow>
     ('s \<Rightarrow> string \<Rightarrow> op_record option) \<Rightarrow>
     string \<Rightarrow> lifecycleJobStatus \<Rightarrow> int \<Rightarrow> message_id \<Rightarrow> 's \<Rightarrow> err option \<times> 's" where
  "settle_with transition look opid st http mid s =
     (let (res, s') = transition opid st http mid s in
      case res of
        Inr _ \<Rightarrow> (None, s')
      | Inl e \<Rightarrow>
          (case durableOperationPublicMessage mid of
             Inl e' \<Rightarrow> (Some e', s')
           | Inr want \<Rightarrow>
               (case look s' opid of
                  None \<Rightarrow> (Some e, s')
                | Some committed \<Rightarrow>
                    if has_outcome committed st http want then (None, s') else (Some e, s'))))"

text \<open>
  What a store promises: the invariant is kept, a successful transition is what a lookup
  then returns, a terminal record is never changed, and a look-up that returns a record
  returns what would survive a crash.
\<close>

locale operation_log =
  fixes transition :: "call_env \<Rightarrow> string \<Rightarrow> lifecycleJobStatus \<Rightarrow> int \<Rightarrow> message_id \<Rightarrow> 's \<Rightarrow>
      op_record result \<times> 's"
    and look :: "'s \<Rightarrow> string \<Rightarrow> op_record option"
    and durable :: "'s \<Rightarrow> string \<Rightarrow> op_record option"
    and inv :: "'s \<Rightarrow> bool"
    and env_ok :: "call_env \<Rightarrow> 's \<Rightarrow> bool"
  assumes transition_inv: "inv s \<Longrightarrow> env_ok e s \<Longrightarrow> inv (snd (transition e opid st http mid s))"
    and transition_found: "inv s \<Longrightarrow> env_ok e s \<Longrightarrow> transition e opid st http mid s = (Inr r, s') \<Longrightarrow>
      durableOperationPublicMessage mid = Inr msg \<Longrightarrow> look s' opid = Some r \<and> has_outcome r st http msg"
    and transition_life: "inv s \<Longrightarrow> env_ok e s \<Longrightarrow>
      record_step (look s k) (look (snd (transition e opid st http mid s)) k)"
    and look_durable: "inv s \<Longrightarrow> look s k = durable s k"
begin

lemma settle_found:
  assumes "inv s" and "env_ok e s" and "durableOperationPublicMessage mid = Inr msg"
    and "settle_with (transition e) look opid st http mid s = (None, s')"
  shows "\<exists>r. durable s' opid = Some r \<and> has_outcome r st http msg"
proof -
  obtain res s1 where t: "transition e opid st http mid s = (res, s1)" by fastforce
  have s1: "s1 = s'"
    using assms(4) t by (auto simp: settle_with_def split: sum.splits option.splits if_splits)
  have "\<exists>r. look s' opid = Some r \<and> has_outcome r st http msg"
  proof (cases res)
    case (Inr r)
    then show ?thesis using transition_found[OF assms(1,2) t[unfolded Inr] assms(3)] s1 by blast
  next
    case (Inl e')
    then show ?thesis
      using assms(3,4) t s1 by (auto simp: settle_with_def split: option.splits if_splits)
  qed
  moreover have "inv s'" using transition_inv[OF assms(1,2), of opid st http mid] t s1 by simp
  ultimately show ?thesis using look_durable[of s' opid] by simp
qed

lemma settle_life:
  assumes "inv s" and "env_ok e s" and "settle_with (transition e) look opid st http mid s = (r, s')"
  shows "inv s'" and "record_step (look s k) (look s' k)"
proof -
  obtain res s1 where t: "transition e opid st http mid s = (res, s1)" by fastforce
  have "s1 = s'"
    using assms(3) t by (auto simp: settle_with_def split: sum.splits option.splits if_splits)
  then show "inv s'" "record_step (look s k) (look s' k)"
    using transition_inv[OF assms(1,2), of opid st http mid]
      transition_life[OF assms(1,2), of k opid st http mid] t by simp_all
qed

end

text \<open>The durable store provides this interface.\<close>

definition store_transition ::
    "call_env \<Rightarrow> string \<Rightarrow> lifecycleJobStatus \<Rightarrow> int \<Rightarrow> message_id \<Rightarrow> store_state \<Rightarrow>
     op_record result \<times> store_state" where
  "store_transition e opid st http mid s = Transition opid st http mid (fst e) (snd e) (fst s) (snd s)"

definition store_look :: "store_state \<Rightarrow> string \<Rightarrow> op_record option" where
  "store_look s opid = Lookup opid (fst s)"

definition store_durable :: "store_state \<Rightarrow> string \<Rightarrow> op_record option" where
  "store_durable s opid =
     (case decode_document (st_maxEntries (fst s)) (data_at (snd s) (st_path (fst s))) of
        Inl e \<Rightarrow> None
      | Inr ops \<Rightarrow> map_of ops opid)"

definition store_good :: "store_state \<Rightarrow> bool" where
  "store_good s \<longleftrightarrow> good (fst s) (snd s)"

definition store_env_ok :: "call_env \<Rightarrow> store_state \<Rightarrow> bool" where
  "store_env_ok e s \<longleftrightarrow> ans_tmp (snd e) \<noteq> st_path (fst s)"

lemma look_is_durable:
  assumes "store_good s"
  shows "store_look s k = store_durable s k"
proof (cases "snd s (st_path (fst s))")
  case None
  then have "st_operations (fst s) = []"
    using assms by (simp add: store_good_def good_def mem_file_def)
  with None show ?thesis
    by (simp add: store_look_def store_durable_def Lookup_def data_at_def decode_document_def)
next
  case (Some f)
  then have "data_at (snd s) (st_path (fst s)) = Some (document_of (st_operations (fst s)))"
    using assms by (simp add: store_good_def good_def mem_file_def data_at_def)
  moreover have "decode_document (st_maxEntries (fst s)) (Some (document_of (st_operations (fst s))))
      = Inr (st_operations (fst s))"
    using assms goodD[of "fst s" "snd s"] by (intro decode_document_of) (auto simp: store_good_def)
  ultimately show ?thesis by (simp add: store_look_def store_durable_def Lookup_def)
qed

lemma transition_found_store:
  assumes "good s fs" and "ans_tmp a \<noteq> st_path s"
    and "Transition opid st http mid now a s fs = (Inr r, s', fs')"
    and "durableOperationPublicMessage mid = Inr msg"
  shows "map_of (st_operations s') opid = Some r \<and> has_outcome r st http msg"
proof -
  obtain r0 where r0: "map_of (st_operations s) opid = Some r0"
    using assms(3,4) by (auto simp: Transition_def split: if_splits option.splits)
  show ?thesis
  proof (cases "terminal_record r0")
    case True
    then show ?thesis using assms(3,4) r0
      by (auto simp: Transition_def has_outcome_def split: if_splits)
  next
    case False
    let ?r = "transitioned r0 st http msg now"
    have live: "transition_live opid ?r a s fs = (Inr r, s', fs')"
      using assms(3,4) r0 False
      by (auto simp: Transition_def Let_def split: if_splits sum.splits)
    let ?next = "AList.update opid ?r (pruned (st_operations s) now (st_retention s))"
    obtain e s1 fs1 where i: "persistAndInstallLocked s ?next a fs = (e, s1, fs1)"
      by (cases "persistAndInstallLocked s ?next a fs") auto
    have e: "e = None" "r = ?r" "st_operations s' = st_operations s1"
      using live i by (auto simp: transition_live_def Let_def split: option.splits if_splits)
    from i assms(2) have "st_operations s1 = ?next"
      by (cases rule: install_cases) (use e in simp_all)
    then show ?thesis using e by (simp add: map_of_update has_outcome_def transitioned_def)
  qed
qed

interpretation store_log: operation_log store_transition store_look store_durable store_good store_env_ok
proof
  fix s :: store_state and e :: call_env and opid st http mid k
  assume inv: "store_good s" and env: "store_env_ok e s"
  obtain res s' fs' where t: "Transition opid st http mid (fst e) (snd e) (fst s) (snd s) = (res, s', fs')"
    by (cases "Transition opid st http mid (fst e) (snd e) (fst s) (snd s)") auto
  have "good_step (fst s) s' fs'"
    using transition_good[OF _ _ t] inv env by (simp add: store_good_def store_env_ok_def)
  then show "store_good (snd (store_transition e opid st http mid s))"
    "record_step (store_look s k) (store_look (snd (store_transition e opid st http mid s)) k)"
    using t by (simp_all add: store_transition_def store_good_def good_step_def store_look_def
        Lookup_def record_steps_def)
next
  fix s :: store_state and e :: call_env and opid st http mid r s' msg
  assume inv: "store_good s" and env: "store_env_ok e s"
    and t: "store_transition e opid st http mid s = (Inr r, s')"
    and m: "durableOperationPublicMessage mid = Inr msg"
  have "map_of (st_operations (fst s')) opid = Some r \<and> has_outcome r st http msg"
    using transition_found_store[of "fst s" "snd s" "snd e" opid st http mid "fst e" r "fst s'" "snd s'" msg]
      inv env t m by (simp add: store_transition_def store_good_def store_env_ok_def)
  then show "store_look s' opid = Some r \<and> has_outcome r st http msg"
    by (simp add: store_look_def Lookup_def)
qed (rule look_is_durable)

section \<open>Reservation and replay\<close>

definition desired_record :: "string \<Rightarrow> lifecycleKind \<Rightarrow> string \<Rightarrow> string \<Rightarrow> op_record" where
  "desired_record opid k subject fp = zero_op_record\<lparr>op_operationID := opid, op_kind := k,
     op_subjectID := subject, op_fingerprint := fp, op_status := JobPending\<rparr>"

definition reserveDurableLifecycleOperation ::
    "string \<Rightarrow> lifecycleKind \<Rightarrow> string \<Rightarrow> string \<Rightarrow> call_env \<Rightarrow> world \<Rightarrow> reserve_result \<times> world" where
  "reserveDurableLifecycleOperation opid k subject fp e w =
     (if opid = [] then (reserve_fail (Err ''durable operation id is required''), w)
      else case wd_store w of
        None \<Rightarrow> (reserve_fail (Err ''durable operation store unavailable''), w)
      | Some s \<Rightarrow>
          let (rv, st) = Reserve (desired_record opid k subject fp) (fst e) (snd e) s (wd_files w);
              w1 = put_store st w
          in case rv_err rv of
               None \<Rightarrow> (rv, w1)
             | Some err \<Rightarrow>
                 if rv_existing rv then (rv, w1)
                 else case Lookup opid (fst st) of
                   None \<Rightarrow> (reserve_fail err, w1)
                 | Some committed \<Rightarrow>
                     if \<not> same_operation committed k subject fp
                     then (reserve_fail ErrLifecycleOperationConflict, w1)
                     else (reserve_ok committed False, w1))"

definition nothing_reserved :: reserve_result where
  "nothing_reserved = \<lparr>rv_record = zero_op_record, rv_existing = False, rv_err = None\<rparr>"

definition replayDurableLifecycleOperation ::
    "string \<Rightarrow> lifecycleKind \<Rightarrow> string \<Rightarrow> string \<Rightarrow> call_env \<Rightarrow> world \<Rightarrow> reserve_result \<times> world" where
  "replayDurableLifecycleOperation opid k subject fp e w =
     (if opid = [] then (nothing_reserved, w)
      else case wd_store w of
        None \<Rightarrow> (reserve_fail (Err ''durable operation store unavailable''), w)
      | Some s \<Rightarrow>
          (case Lookup opid s of
             None \<Rightarrow> (nothing_reserved, w)
           | Some record \<Rightarrow>
               if \<not> same_operation record k subject fp
               then (reserve_fail ErrLifecycleOperationConflict, w)
               else if \<not> isTerminalLifecycleJob (op_status record)
               then reserveDurableLifecycleOperation opid k subject fp e w
               else (reserve_ok record True, w)))"

text \<open>
  \<open>prepareLifecycleOperation\<close>: a replay, the admission by the coordinator (which may wait),
  a second replay under the published preparation, and the tombstone of a refused lease.
  The answer is the preparation to go on with, or the result for the caller.
\<close>

definition map_coord :: "(coord \<Rightarrow> coord) \<Rightarrow> world \<Rightarrow> world" where
  "map_coord f w = w\<lparr>wd_coord := f (wd_coord w)\<rparr>"

definition answered :: "reserve_result \<Rightarrow> bool" where
  "answered rv \<longleftrightarrow> rv_existing rv \<or> rv_err rv \<noteq> None"

definition cancelled_record :: "string \<Rightarrow> lifecycleKind \<Rightarrow> string \<Rightarrow> string \<Rightarrow> op_record" where
  "cancelled_record opid k subject fp = (desired_record opid k subject fp)
     \<lparr>op_status := JobCancelled, op_httpStatus := 409, op_publicMessage := MsgCancelled\<rparr>"

definition reserve_tombstone :: "op_record \<Rightarrow> call_env \<Rightarrow> world \<Rightarrow> op_record \<times> err option \<times> world" where
  "reserve_tombstone want e w =
     (case wd_store w of
        None \<Rightarrow> (zero_op_record, Some (Err ''durable operation store unavailable''), w)
      | Some s \<Rightarrow>
          let (rv, st) = Reserve want (fst e) (snd e) s (wd_files w);
              visible = (case Lookup (op_operationID want) (fst st) of
                  None \<Rightarrow> False
                | Some c \<Rightarrow> same_operation c (op_kind want) (op_subjectID want) (op_fingerprint want) \<and>
                    has_outcome c (op_status want) (op_httpStatus want) (op_publicMessage want))
          in (rv_record rv, if visible then None else rv_err rv, put_store st w))"

definition prepared_lifecycle ::
    "prep_id \<Rightarrow> lifecycleKind \<Rightarrow> string \<Rightarrow> string \<Rightarrow> string \<Rightarrow> call_env \<Rightarrow> call_env \<Rightarrow> world \<Rightarrow>
     (prep_id option \<times> reserve_result) \<times> world" where
  "prepared_lifecycle p k opid subject fp e1 e2 w =
     (let (rv, w1) = replayDurableLifecycleOperation opid k subject fp e1 w in
      if answered rv then ((None, rv), map_coord (complete p True) w1)
      else case Option.bind (co_preps (wd_coord w1) p) pr_admissionErr of
        None \<Rightarrow> ((Some p, nothing_reserved), w1)
      | Some refused \<Rightarrow>
          let (record, err, w2) = reserve_tombstone (cancelled_record opid k subject fp) e2 w1;
              w3 = map_coord (complete p (err = None)) w2
          in if err \<noteq> None
             then ((None, \<lparr>rv_record = record, rv_existing = False,
                            rv_err = Some ErrDurableOperationSettlementPending\<rparr>), w3)
             else ((None, \<lparr>rv_record = record, rv_existing = False, rv_err = Some refused\<rparr>), w3))"

definition prepareLifecycleOperation ::
    "bool \<Rightarrow> bool \<Rightarrow> lifecycleKind \<Rightarrow> string \<Rightarrow> string \<Rightarrow> string \<Rightarrow> string \<Rightarrow>
     call_env \<Rightarrow> call_env \<Rightarrow> call_env \<Rightarrow> world \<Rightarrow>
     (prep_id option \<times> reserve_result) outcome \<times> world" where
  "prepareLifecycleOperation marker journal k opid subject fp token e0 e1 e2 w =
     (let (rv, w1) = replayDurableLifecycleOperation opid k subject fp e0 w in
      if answered rv then (Return (None, rv), w1)
      else
        let (o', c) = prepare marker journal
              \<lparr>pi_kind = k, pi_operationID = opid, pi_subjectID = subject, pi_fingerprint = fp\<rparr> token
              (wd_coord w1);
            w2 = w1\<lparr>wd_coord := c\<rparr>
        in case o' of
             Wait \<Rightarrow> (Wait, w2)
           | Return (Inl e) \<Rightarrow> (Return (None, reserve_fail e), w2)
           | Return (Inr p) \<Rightarrow>
               let (r, w3) = prepared_lifecycle p k opid subject fp e1 e2 w2 in (Return r, w3))"

definition beginPreparedLifecycle ::
    "bool \<Rightarrow> bool \<Rightarrow> bool \<Rightarrow> prep_id \<Rightarrow> prep \<Rightarrow> string \<Rightarrow> coord \<Rightarrow> lease_id result outcome \<times> coord" where
  "beginPreparedLifecycle dockerOK marker journal p pr jid c =
     (if \<not> dockerOK then (Return (Inl ErrDockerUnreachable), c) else promote marker journal p pr jid c)"

section \<open>Transitions and settlement\<close>

definition transitionDurableLifecycleOperation ::
    "string \<Rightarrow> lifecycleJobStatus \<Rightarrow> int \<Rightarrow> message_id \<Rightarrow> call_env \<Rightarrow> world \<Rightarrow> err option \<times> world" where
  "transitionDurableLifecycleOperation opid st http mid e w =
     (if opid = [] then (None, w)
      else case wd_store w of
        None \<Rightarrow> (Some (Err ''durable operation store unavailable''), w)
      | Some s \<Rightarrow>
          let (r, s') = settle_with (store_transition e) store_look opid st http mid (s, wd_files w)
          in (r, put_store s' w))"

definition settleRejectedDurableLifecycleOperation ::
    "string \<Rightarrow> int \<Rightarrow> message_id \<Rightarrow> lease_id option \<Rightarrow> call_env \<Rightarrow> world \<Rightarrow> err option \<times> world" where
  "settleRejectedDurableLifecycleOperation opid http mid l e w =
     (if opid = [] \<or> http < 400 then (None, w)
      else case wd_store w of
        None \<Rightarrow> (Some (Err ''durable operation store unavailable''), w)
      | Some s \<Rightarrow>
          (case Lookup opid s of
             None \<Rightarrow> (Some (Err ''rejected durable operation is unavailable''), w)
           | Some record \<Rightarrow>
               if isTerminalLifecycleJob (op_status record) then (None, w)
               else if op_status record = JobRunning \<and> l = None
               then (Some (Err ''rejected running operation has no owned active lease''), w)
               else if op_status record = JobRunning \<and> co_active (wd_coord w) \<noteq> l
               then (Some (Err ''rejected running operation is no longer owned''), w)
               else if op_status record \<noteq> JobRunning \<and> op_status record \<noteq> JobPending
               then (Some (Err ''rejected durable operation is not terminal or settleable''), w)
               else transitionDurableLifecycleOperation opid JobFailed http mid e w))"

section \<open>Responses\<close>

datatype detail = DetailText string | DetailMessage public_message

record lifecycle_response =
  lr_ok :: bool
  lr_id :: string
  lr_name :: string
  lr_project :: string
  lr_jobID :: string
  lr_operationID :: string
  lr_operationStatus :: lifecycleJobStatus
  lr_restartRequired :: bool
  lr_affectedServices :: "string list"
  lr_detail :: detail

definition lifecycleOperationReplay :: "op_record \<Rightarrow> string \<Rightarrow> string \<Rightarrow> lifecycle_response" where
  "lifecycleOperationReplay r jid text' = \<lparr>lr_ok = (op_status r \<noteq> JobFailed \<and> op_status r \<noteq> JobCancelled),
     lr_id = op_subjectID r, lr_name = [], lr_project = [], lr_jobID = jid, lr_operationID = op_operationID r,
     lr_operationStatus = op_status r, lr_restartRequired = False, lr_affectedServices = [],
     lr_detail = (if op_publicMessage r \<noteq> MsgNone then DetailMessage (op_publicMessage r)
                  else DetailText text')\<rparr>"

definition operationResponseForRecord :: "op_record \<Rightarrow> operation_response" where
  "operationResponseForRecord r = \<lparr>or_operationID = op_operationID r, or_kind = op_kind r,
     or_subjectID = op_subjectID r, or_status = op_status r, or_httpStatus = op_httpStatus r,
     or_message = op_publicMessage r\<rparr>"

definition rejectedDurableOperationSettlementResponse ::
    "lifecycle_response \<Rightarrow> string \<Rightarrow> message_id \<Rightarrow> lifecycle_response" where
  "rejectedDurableOperationSettlementResponse r opid mid =
     r\<lparr>lr_ok := False, lr_jobID := [], lr_operationID := opid, lr_operationStatus := StatusOther [],
       lr_restartRequired := False, lr_affectedServices := [],
       lr_detail := DetailMessage (case durableOperationPublicMessage mid of
           Inl e \<Rightarrow> MsgVerificationFailed | Inr m \<Rightarrow> m)\<rparr>"

text \<open>The public text and HTTP status of a refused mutation; the Korean texts by English labels.\<close>

definition mutationAdmissionFailure :: "err \<Rightarrow> string \<times> int" where
  "mutationAdmissionFailure e =
     (case e of
        ErrDockerUnreachable \<Rightarrow> (''docker daemon is unreachable'', 503)
      | ErrMaintenanceClosed \<Rightarrow> (''maintenance in progress'', 503)
      | ErrLifecycleJobNotPending \<Rightarrow> (''the server lifecycle job was cancelled'', 409)
      | _ \<Rightarrow> (''the server lifecycle lock could not be prepared'', 500))"

definition lifecycleJobReservationFailure :: "err \<Rightarrow> string \<times> int" where
  "lifecycleJobReservationFailure e =
     (case e of
        ErrDurableOperationSettlementPending \<Rightarrow> (''the server lifecycle job could not be prepared'', 503)
      | ErrLifecycleJobCapacity \<Rightarrow> (''the server lifecycle queue is full'', 503)
      | _ \<Rightarrow> (''the server lifecycle job could not be prepared'', 500))"

definition lifecyclePreparationFailure :: "err \<Rightarrow> string \<times> int" where
  "lifecyclePreparationFailure e =
     (if e = ErrMaintenanceClosed then mutationAdmissionFailure e else lifecycleJobReservationFailure e)"

record http_error =
  he_status :: int
  he_retryAfter :: bool
  he_text :: string

definition writeMutationAdmissionError :: "err \<Rightarrow> http_error" where
  "writeMutationAdmissionError e =
     (case e of
        ErrDockerUnreachable \<Rightarrow> \<lparr>he_status = 503, he_retryAfter = True, he_text = ''docker daemon is unreachable''\<rparr>
      | ErrMaintenanceClosed \<Rightarrow> \<lparr>he_status = 503, he_retryAfter = True, he_text = ''maintenance in progress''\<rparr>
      | ErrLifecycleJobNotPending \<Rightarrow>
          \<lparr>he_status = 409, he_retryAfter = False, he_text = ''server lifecycle job was cancelled''\<rparr>
      | _ \<Rightarrow> \<lparr>he_status = 500, he_retryAfter = False, he_text = ''mutation coordinator unavailable''\<rparr>)"

definition admitMutation :: "coord option \<Rightarrow> bool \<Rightarrow> unit result" where
  "admitMutation c dockerOK =
     (if c = None then Inl (Err ''operation coordinator unavailable'')
      else if \<not> dockerOK then Inl ErrDockerUnreachable else Inr ())"

definition beginMutation :: "bool \<Rightarrow> string \<Rightarrow> coord \<Rightarrow> lease_id result outcome \<times> bool \<times> coord" where
  "beginMutation dockerOK jid c =
     (if \<not> dockerOK then (Return (Inl ErrDockerUnreachable), False, c) else begin_try jid c)"

section \<open>Claimed jobs\<close>

definition with_jobs :: "(job_manager \<Rightarrow> job_manager) \<Rightarrow> world \<Rightarrow> world" where
  "with_jobs f w = map_coord (\<lambda>c. c\<lparr>co_jobs := map_option f (co_jobs c)\<rparr>) w"

definition lease_cancelled :: "lease_id \<Rightarrow> world \<Rightarrow> bool" where
  "lease_cancelled l w =
     (case co_leases (wd_coord w) l of None \<Rightarrow> False | Some ls \<Rightarrow> co_cancelled (wd_coord w) (ls_ctx ls))"

text \<open>\<open>finishClaimedLifecycleJob\<close>, and the end of the goroutine of \<open>startClaimedLifecycleJob\<close>.\<close>

definition finishClaimedLifecycleJob :: "lease_id \<Rightarrow> string \<Rightarrow> bool \<Rightarrow> time \<Rightarrow> world \<Rightarrow> world" where
  "finishClaimedLifecycleJob l jid failed now w =
     (let st = (if lease_cancelled l w then JobCancelled else if failed then JobFailed else JobSucceeded)
      in map_coord (lease_done l) (with_jobs (finish_job jid st now) w))"

text \<open>
  \<open>startClaimedDurableLifecycleJob\<close>: the operation becomes running before the work starts;
  when the work has ended, \<open>durable_job_end\<close> settles the operation and finishes the job.
  \<open>clear\<close> stands for \<open>settleSucceededLifecycleJournal\<close>, which clears the journal of a
  succeeded operation and may fail.
\<close>

definition startClaimedDurable :: "string \<Rightarrow> string \<Rightarrow> call_env \<Rightarrow> time \<Rightarrow> world \<Rightarrow> err option \<times> world" where
  "startClaimedDurable jid opid e now w =
     (let (err, w1) = transitionDurableLifecycleOperation opid JobRunning 202 IdNone e w in
      case err of
        None \<Rightarrow> (None, w1)
      | Some err \<Rightarrow> (Some err, with_jobs (finish_job jid JobFailed now) w1))"

record work_end =
  we_status :: lifecycleJobStatus
  we_transition :: lifecycleJobStatus
  we_http :: int
  we_message :: message_id

definition work_outcome :: "lifecycleKind \<Rightarrow> bool \<Rightarrow> bool \<Rightarrow> bool \<Rightarrow> work_end" where
  "work_outcome k failed cancelled journal =
     (if failed \<or> cancelled then
        (if journal
         then \<lparr>we_status = JobFailed, we_transition = JobRecoveryRequired, we_http = 202,
               we_message = IdRecoveryRequired\<rparr>
         else if cancelled
         then \<lparr>we_status = JobCancelled, we_transition = JobCancelled, we_http = 409,
               we_message = IdCancelled\<rparr>
         else \<lparr>we_status = JobFailed, we_transition = JobFailed, we_http = 500,
               we_message = durableOperationPreparationFailureMessage k\<rparr>)
      else \<lparr>we_status = JobSucceeded, we_transition = JobSucceeded, we_http = 200,
            we_message = durableOperationSuccessMessage k\<rparr>)"

definition durable_job_end ::
    "(world \<Rightarrow> bool \<times> world) \<Rightarrow> lease_id \<Rightarrow> string \<Rightarrow> string \<Rightarrow> lifecycleKind \<Rightarrow> bool \<Rightarrow> call_env \<Rightarrow> time \<Rightarrow>
     world \<Rightarrow> world" where
  "durable_job_end clear l jid opid k failed e now w =
     (let out = work_outcome k failed (lease_cancelled l w) (journalOnDisk (wd_coord w));
          (err, w1) = transitionDurableLifecycleOperation opid (we_transition out) (we_http out)
                        (we_message out) e w;
          w2 = (if err = None \<and> we_transition out = JobSucceeded
                then let (cleared, w') = clear w1 in
                     if cleared then w' else map_coord markPreparationSettlementPending w'
                else w1);
          w3 = (if err \<noteq> None then map_coord markPreparationSettlementPending w2 else w2);
          st = (if err \<noteq> None then JobFailed
                else if opid \<noteq> [] then we_transition out else we_status out);
          msg = (if opid \<noteq> [] \<and> err = None
                 then (case durableOperationPublicMessage (we_message out) of Inl _ \<Rightarrow> MsgNone | Inr m \<Rightarrow> m)
                 else MsgNone)
      in map_coord (lease_done l) (with_jobs (finishWithPublicMessage jid st msg now) w3))"

section \<open>Properties of the layer\<close>

definition world_store_ok :: "world \<Rightarrow> call_env \<Rightarrow> bool" where
  "world_store_ok w e \<longleftrightarrow>
     (case wd_store w of None \<Rightarrow> False | Some s \<Rightarrow> good s (wd_files w) \<and> ans_tmp (snd e) \<noteq> st_path s)"

definition durable_record :: "world \<Rightarrow> string \<Rightarrow> op_record option" where
  "durable_record w opid = Option.bind (wd_store w) (\<lambda>s. store_durable (s, wd_files w) opid)"

lemma world_store_okD:
  assumes "world_store_ok w e"
  obtains s where "wd_store w = Some s" "store_good (s, wd_files w)" "store_env_ok e (s, wd_files w)"
  using assms by (auto simp: world_store_ok_def store_good_def store_env_ok_def split: option.splits)

lemma durable_put [simp]: "durable_record (put_store st w) opid = store_durable st opid"
  by (simp add: durable_record_def put_store_def)

lemma transition_durable_life:
  assumes "world_store_ok w e"
    and "transitionDurableLifecycleOperation opid st http mid e w = (r, w')"
  shows "wd_coord w' = wd_coord w" "\<exists>s'. wd_store w' = Some s' \<and> good s' (wd_files w')"
    "record_step (durable_record w k) (durable_record w' k)"
proof -
  obtain s where s: "wd_store w = Some s" "store_good (s, wd_files w)" "store_env_ok e (s, wd_files w)"
    by (rule world_store_okD[OF assms(1)])
  obtain r1 s1 where t: "settle_with (store_transition e) store_look opid st http mid (s, wd_files w) = (r1, s1)"
    by (rule prod.exhaust)
  note L = store_log.settle_life[OF s(2,3) t]
  have "wd_coord w' = wd_coord w \<and> (\<exists>s'. wd_store w' = Some s' \<and> good s' (wd_files w')) \<and>
      record_step (durable_record w k) (durable_record w' k)"
  proof (cases "opid = []")
    case True
    then have "w' = w" using assms(2) by (simp add: transitionDurableLifecycleOperation_def)
    then show ?thesis using s(1,2) by (simp add: store_good_def keep)
  next
    case False
    then have w': "w' = put_store s1 w"
      using assms(2) s(1) t by (simp add: transitionDurableLifecycleOperation_def)
    have "record_step (store_durable (s, wd_files w) k) (store_durable s1 k)"
      using L(2)[of k] look_is_durable[OF s(2), of k] look_is_durable[OF L(1), of k] by simp
    then show ?thesis
      using L(1) s(1) w' by (simp add: durable_record_def put_store_def store_good_def)
  qed
  then show "wd_coord w' = wd_coord w" "\<exists>s'. wd_store w' = Some s' \<and> good s' (wd_files w')"
    "record_step (durable_record w k) (durable_record w' k)" by blast+
qed

lemma confirmed_transition:
  assumes "world_store_ok w e" and "opid \<noteq> []"
    and "durableOperationPublicMessage mid = Inr msg"
    and "transitionDurableLifecycleOperation opid st http mid e w = (None, w')"
  shows "\<exists>r. durable_record w' opid = Some r \<and> has_outcome r st http msg"
proof -
  obtain s where s: "wd_store w = Some s" "store_good (s, wd_files w)" "store_env_ok e (s, wd_files w)"
    by (rule world_store_okD[OF assms(1)])
  obtain s1 where t: "settle_with (store_transition e) store_look opid st http mid (s, wd_files w) = (None, s1)"
    and w': "w' = put_store s1 w"
    using assms(2,4) s(1) by (auto simp: transitionDurableLifecycleOperation_def split: prod.splits)
  show ?thesis using store_log.settle_found[OF s(2,3) assms(3) t] w' by simp
qed

text \<open>
  C21. A confirmed transition is durable. When \<open>transitionDurableLifecycleOperation\<close> reports
  success, whichever system calls failed on the way, the document on disk decodes to a
  record of the operation with exactly the requested status, HTTP status and message.
\<close>

theorem confirmed_transition_is_durable:
  assumes "world_store_ok w e" and "opid \<noteq> []"
    and "durableOperationPublicMessage mid = Inr msg"
    and "transitionDurableLifecycleOperation opid st http mid e w = (None, w')"
  shows "\<exists>r. durable_record w' opid = Some r \<and> has_outcome r st http msg"
  by (rule confirmed_transition[OF assms])

text \<open>A world for the witnesses: one pending reset in the store, an open coordinator.\<close>

lemma ex_world:
  fixes c :: coord
  obtains w :: world where "wd_store w = Some (ex_store\<lparr>st_operations := [(ex_id, stamp_record 5 ex_record)]\<rparr>)"
    "wd_coord w = c" "good (ex_store\<lparr>st_operations := [(ex_id, stamp_record 5 ex_record)]\<rparr>) (wd_files w)"
    "wd_files w ''tmp'' = None"
proof -
  let ?s = "ex_store\<lparr>st_operations := [(ex_id, stamp_record 5 ex_record)]\<rparr>"
  have valid: "valid_record (stamp_record 5 ex_record)" by simp
  obtain fs where "store.reach (False, ?s, fs)" "fs ''tmp'' = None"
    by (rule ex_reserved[OF valid]) (auto simp: ex_record_def)
  then have "good ?s fs" using reach_ok[of "(False, ?s, fs)"] by (simp add: world_ok_def)
  with \<open>fs ''tmp'' = None\<close> show thesis
    by (intro that[of "\<lparr>wd_store = Some ?s, wd_files = fs, wd_coord = c\<rparr>"]) simp_all
qed

lemma ex_world_transition:
  assumes "wd_store w = Some (ex_store\<lparr>st_operations := [(ex_id, stamp_record 5 ex_record)]\<rparr>)"
    and "wd_files w ''tmp'' = None"
  shows "\<exists>w'. transitionDurableLifecycleOperation ex_id JobSucceeded 200 IdResetSucceeded
    (7, (all_well ''tmp'')\<lparr>ans_syncdir := False\<rparr>) w = (None, w')"
proof -
  have "op_status (stamp_record 5 ex_record) = JobPending"
    by (simp add: stamp_record_def ex_record_def Let_def)
  with assms show ?thesis using ex_transition_valid
    by (auto simp: transitionDurableLifecycleOperation_def settle_with_def store_transition_def
        store_look_def Lookup_def Transition_def transition_live_def persistAndInstallLocked_def
        persistLocked_def writeDurableOperationFile_def writer_simps all_well_def ex_store_def
        pruneExpiredDurableOperations_def keep_operation_def has_outcome_def transitioned_def ex_id_def)
qed

theorem confirmed_transition_is_durable_witness:
  "\<exists>w r. durable_record w ex_id = Some r \<and> has_outcome r JobSucceeded 200 MsgResetSucceeded"
proof -
  let ?a = "(all_well ''tmp'')\<lparr>ans_syncdir := False\<rparr>"
  fix c :: coord
  obtain w :: world where w: "wd_store w = Some (ex_store\<lparr>st_operations := [(ex_id, stamp_record 5 ex_record)]\<rparr>)"
    "wd_coord w = c" "good (ex_store\<lparr>st_operations := [(ex_id, stamp_record 5 ex_record)]\<rparr>) (wd_files w)"
    "wd_files w ''tmp'' = None"
    by (rule ex_world)
  have ok: "world_store_ok w (7, ?a)"
    using w by (simp add: world_store_ok_def all_well_def ex_store_def)
  obtain w' where "transitionDurableLifecycleOperation ex_id JobSucceeded 200 IdResetSucceeded (7, ?a) w = (None, w')"
    using ex_world_transition[OF w(1,4)] by blast
  from confirmed_transition_is_durable[OF ok _ _ this, of MsgResetSucceeded]
  show ?thesis by (auto simp: ex_id_def)
qed

text \<open>
  A rejected operation is settled. When \<open>settleRejectedDurableLifecycleOperation\<close>
  reports success for an HTTP error, the record of the operation on disk is terminal.
\<close>

theorem rejected_operation_is_terminal:
  assumes "world_store_ok w e" and "opid \<noteq> []" and "400 \<le> http"
    and "durableOperationPublicMessage mid = Inr msg"
    and "settleRejectedDurableLifecycleOperation opid http mid l e w = (None, w')"
  shows "\<exists>r. durable_record w' opid = Some r \<and> terminal_record r"
proof -
  obtain s where s: "wd_store w = Some s" "store_good (s, wd_files w)"
    by (rule world_store_okD[OF assms(1)])
  obtain r0 where r0: "Lookup opid s = Some r0"
    and run: "isTerminalLifecycleJob (op_status r0) \<and> w' = w \<or>
      transitionDurableLifecycleOperation opid JobFailed http mid e w = (None, w')"
    using assms(2,3,5) s(1)
    by (auto simp: settleRejectedDurableLifecycleOperation_def split: option.splits if_splits)
  from run show ?thesis
  proof
    assume "isTerminalLifecycleJob (op_status r0) \<and> w' = w"
    then show ?thesis
      using r0 s look_is_durable[OF s(2), of opid, symmetric]
      by (simp add: durable_record_def store_look_def)
  next
    assume t: "transitionDurableLifecycleOperation opid JobFailed http mid e w = (None, w')"
    obtain r where "durable_record w' opid = Some r" "has_outcome r JobFailed http msg"
      using confirmed_transition[OF assms(1,2,4) t] by blast
    then show ?thesis by (simp add: has_outcome_def)
  qed
qed

theorem rejected_operation_is_terminal_witness:
  "\<exists>w r. durable_record w ex_id = Some r \<and> terminal_record r"
proof -
  fix c :: coord
  obtain w :: world where w: "wd_store w = Some (ex_store\<lparr>st_operations := [(ex_id, stamp_record 5 ex_record)]\<rparr>)"
    "wd_coord w = c" "good (ex_store\<lparr>st_operations := [(ex_id, stamp_record 5 ex_record)]\<rparr>) (wd_files w)"
    "wd_files w ''tmp'' = None"
    by (rule ex_world)
  have ok: "world_store_ok w (7, all_well ''tmp'')"
    using w by (simp add: world_store_ok_def all_well_def ex_store_def)
  have live: "op_status (stamp_record 5 ex_record) = JobPending"
    by (simp add: stamp_record_def ex_record_def Let_def)
  have valid: "valid_record (transitioned (stamp_record 5 ex_record) JobFailed 503 MsgDockerUnavailable 7)"
    using ex_fields
    by (simp add: validateDurableOperationRecord_def stamp_record_def ex_record_def transitioned_def
        zero_op_record_def ex_id_def isDurableOperationStatus_def)
  obtain w' where "settleRejectedDurableLifecycleOperation ex_id 503 IdDockerUnavailable None
      (7, all_well ''tmp'') w = (None, w')"
    using w live valid
    by (auto simp: settleRejectedDurableLifecycleOperation_def Lookup_def
        transitionDurableLifecycleOperation_def settle_with_def store_transition_def
        store_look_def Transition_def transition_live_def persistAndInstallLocked_def
        persistLocked_def writeDurableOperationFile_def writer_simps all_well_def ex_store_def
        pruneExpiredDurableOperations_def keep_operation_def has_outcome_def ex_id_def)
  from rejected_operation_is_terminal[OF ok _ _ _ this, of MsgDockerUnavailable]
  show ?thesis by (auto simp: ex_id_def)
qed

text \<open>
  C31. A finished operation is replayed without any effect: when its record is terminal and
  the request is the same, preparing the operation again returns that record at once and
  changes neither the store, nor its file, nor the coordinator, even when admission is closed.
\<close>

theorem finished_operation_replays:
  assumes "wd_store w = Some s" and "Lookup opid s = Some r" and "opid \<noteq> []"
    and "isTerminalLifecycleJob (op_status r)" and "same_operation r k subject fp"
  shows "prepareLifecycleOperation marker journal k opid subject fp token e0 e1 e2 w =
    (Return (None, reserve_ok r True), w)"
  using assms
  by (simp add: prepareLifecycleOperation_def replayDurableLifecycleOperation_def answered_def
      reserve_ok_def)

theorem finished_operation_replays_witness:
  "\<exists>w. prepareLifecycleOperation True True KindReset ex_id ''pep'' (replicate 64 CHR ''b'') [] (1, all_well []) (1, all_well [])
     (1, all_well []) w = (Return (None, reserve_ok (ex_record\<lparr>op_status := JobFailed\<rparr>) True), w)"
proof -
  let ?w = "\<lparr>wd_store = Some (ex_store\<lparr>st_operations := [(ex_id, ex_record\<lparr>op_status := JobFailed\<rparr>)]\<rparr>),
     wd_files = ex_files, wd_coord = newOperationCoordinator [] [] None (\<lambda>_. True)\<rparr>"
  have "prepareLifecycleOperation True True KindReset ex_id ''pep'' (replicate 64 CHR ''b'') [] (1, all_well []) (1, all_well [])
     (1, all_well []) ?w = (Return (None, reserve_ok (ex_record\<lparr>op_status := JobFailed\<rparr>) True), ?w)"
    by (rule finished_operation_replays[where s = "ex_store\<lparr>st_operations := [(ex_id, ex_record\<lparr>op_status := JobFailed\<rparr>)]\<rparr>"])
      (simp_all add: Lookup_def same_operation_def ex_record_def ex_id_def)
  then show ?thesis by blast
qed

lemma complete_released:
  assumes "co_preparing c = Some p" and "co_preps c p = Some pr" and "\<not> pr_done pr"
  shows "co_preparing (complete p settled c) = None" "co_cancelled (complete p settled c) (pr_ctx pr)"
    "\<not> settled \<Longrightarrow> co_settlementPending (complete p settled c) \<and> co_closed (complete p settled c)"
  using assms by (auto simp: complete_def Let_def cancel_ctx_def)

lemma reserve_keeps_coord [simp]:
  "wd_coord (snd (reserveDurableLifecycleOperation opid k subject fp e w)) = wd_coord w"
  "wd_coord (snd (replayDurableLifecycleOperation opid k subject fp e w)) = wd_coord w"
  "wd_coord (snd (snd (reserve_tombstone want e w))) = wd_coord w"
  by (auto simp: reserveDurableLifecycleOperation_def replayDurableLifecycleOperation_def
      reserve_tombstone_def put_store_def Let_def split: option.split prod.split)

text \<open>
  C27. No preparation leaks. After the coordinator has published a preparation, either the
  caller receives it with the coordinator untouched, or it has been completed: nothing is
  preparing any more, its context is cancelled, and if the tombstone of the refused lease
  could not be written the coordinator is closed with a pending settlement.
\<close>

theorem preparation_not_leaked:
  assumes "co_preparing (wd_coord w) = Some p" and "co_preps (wd_coord w) p = Some pr"
    and "pr_done pr = False" and "pr_admissionErr pr \<in> {None, Some ErrMaintenanceClosed}"
    and "prepared_lifecycle p k opid subject fp e1 e2 w = ((handed, rv), w')"
  shows "(if handed = Some p then wd_coord w' = wd_coord w \<and> pr_admissionErr pr = None
     else handed = None \<and> co_preparing (wd_coord w') = None \<and>
       co_cancelled (wd_coord w') (pr_ctx pr) \<and>
       (if rv_err rv = Some ErrDurableOperationSettlementPending \<and>
           answered (fst (replayDurableLifecycleOperation opid k subject fp e1 w)) = False
        then co_settlementPending (wd_coord w') \<and> co_closed (wd_coord w') else True))"
proof -
  obtain rv1 w1 where r: "replayDurableLifecycleOperation opid k subject fp e1 w = (rv1, w1)"
    by (rule prod.exhaust)
  have c1: "wd_coord w1 = wd_coord w"
    using reserve_keeps_coord(2)[of opid k subject fp e1 w] r by simp
  note released = complete_released[OF assms(1,2)]
  show ?thesis
  proof (cases "answered rv1")
    case True
    then have "handed = None" "w' = map_coord (complete p True) w1"
      using assms(5) r by (auto simp: prepared_lifecycle_def)
    then show ?thesis using c1 released assms(3) r True by (simp add: map_coord_def)
  next
    case na: False
    show ?thesis
    proof (cases "pr_admissionErr pr")
      case None
      then show ?thesis using assms(2,5) r na c1 by (auto simp: prepared_lifecycle_def)
    next
      case (Some refused)
      obtain stored err w2 where t: "reserve_tombstone (cancelled_record opid k subject fp) e2 w1 = (stored, err, w2)"
        by (cases "reserve_tombstone (cancelled_record opid k subject fp) e2 w1") auto
      have c2: "wd_coord w2 = wd_coord w"
        using reserve_keeps_coord(3)[of "cancelled_record opid k subject fp" e2 w1] t c1 by simp
      have "handed = None" "w' = map_coord (complete p (err = None)) w2"
        "err = None \<Longrightarrow> rv_err rv = Some ErrMaintenanceClosed"
        using assms(2,4,5) r na c1 t Some by (auto simp: prepared_lifecycle_def Let_def split: if_splits)
      then show ?thesis
        using c2 released assms(3) by (cases "err = None") (simp_all add: map_coord_def)
    qed
  qed
qed

definition ex_prep_coord :: coord where
  "ex_prep_coord = (newOperationCoordinator ''m'' ''j'' None (\<lambda>_. False))
     \<lparr>co_preparing := Some 0, co_next := 2,
       co_preps := [0 \<mapsto> \<lparr>pr_info = \<lparr>pi_kind = KindReset, pi_operationID = ex_id, pi_subjectID = ''pep'',
         pi_fingerprint = []\<rparr>, pr_leaseAttempt = [], pr_admissionErr = Some ErrMaintenanceClosed,
         pr_ctx = 1, pr_done = False\<rparr>]\<rparr>"

theorem preparation_not_leaked_witness:
  "\<exists>w' :: world. co_preparing (wd_coord w') = None \<and> co_settlementPending (wd_coord w')"
proof -
  let ?w = "\<lparr>wd_store = None, wd_files = ex_files, wd_coord = ex_prep_coord\<rparr>"
  let ?pr = "\<lparr>pr_info = \<lparr>pi_kind = KindReset, pi_operationID = ex_id, pi_subjectID = ''pep'',
         pi_fingerprint = []\<rparr>, pr_leaseAttempt = [], pr_admissionErr = Some ErrMaintenanceClosed,
         pr_ctx = 1, pr_done = False\<rparr>"
  obtain handed rv w' where run: "prepared_lifecycle 0 KindReset [] ''pep'' [] (1, all_well []) (1, all_well []) ?w
      = ((handed, rv), w')" and rv: "handed = None" "rv_err rv = Some ErrDurableOperationSettlementPending"
    by (auto simp: prepared_lifecycle_def replayDurableLifecycleOperation_def answered_def
        nothing_reserved_def ex_prep_coord_def reserve_tombstone_def Let_def)
  have "answered (fst (replayDurableLifecycleOperation [] KindReset ''pep'' [] (1, all_well []) ?w)) = False"
    by (simp add: replayDurableLifecycleOperation_def answered_def nothing_reserved_def)
  with preparation_not_leaked[of ?w 0 ?pr, OF _ _ _ _ run] rv show ?thesis
    by (auto simp: ex_prep_coord_def)
qed

end
