(* ===== verification/Identity.thy ===== *)
theory Identity
  imports GoText
begin

text \<open>
  Server identity in main.go: the public id of a server, its internal key, its compose
  project, its URLs and its env file. \<open>serverTargetForID\<close> is the single mapping from a raw
  id to all of them; the lemmas make it a bijection between canonical ids and targets, so
  that no two servers share a project or a file and none owns the shared stack.
\<close>

section \<open>Configuration\<close>

text \<open>
  The data of \<open>config\<close>; the store, the jobs and the coordinator it points to are state. The
  two lists of services are package variables read from the environment.
\<close>

record config =
  cf_token :: string
  cf_composeDir :: string
  cf_composeHostDir :: string
  cf_serversDir :: string
  cf_composeServer :: string
  cf_composeShared :: string
  cf_ghcrOwner :: string
  cf_gameAPIInternalPort :: string
  cf_gameEngineInternalPort :: string
  cf_gatewayAPIURL :: string
  cf_battleWSAllowlistEnabled :: bool
  cf_ghcrToken :: string
  cf_ghcrAPIBaseURL :: string
  cf_localHTTPBaseURL :: string
  cf_maintenanceFile :: string
  cf_lifecycleJournalFile :: string
  cf_resetVerifyTimeout :: duration
  cf_resetVerifyPollInterval :: duration
  cf_statelessServices :: "string list"
  cf_sharedEnvServices :: "string list"

section \<open>Names\<close>

definition internalServerKey :: "string \<Rightarrow> string" where
  "internalServerKey publicID = ''s'' @ publicID"

definition projectForServerID :: "string \<Rightarrow> string" where
  "projectForServerID publicID = ''opensamguk-'' @ internalServerKey publicID"

definition gameAPIURLFor :: "config \<Rightarrow> string \<Rightarrow> string" where
  "gameAPIURLFor c publicID = ''http://'' @ internalServerKey publicID @ ''-game-api:'' @
     envOrValue (cf_gameAPIInternalPort c) ''8081''"

definition gameEngineURLFor :: "config \<Rightarrow> string \<Rightarrow> string" where
  "gameEngineURLFor c publicID = ''http://'' @ internalServerKey publicID @ ''-game-engine'' @ '':'' @
     envOrValue (cf_gameEngineInternalPort c) ''8082''"

definition defaultGatewayAPIURL :: "config \<Rightarrow> string" where
  "defaultGatewayAPIURL c = envOrValue (cf_gatewayAPIURL c) ''http://gateway-api:8080''"

definition webGameURLFor :: "string \<Rightarrow> string" where
  "webGameURLFor publicID = ''http://'' @ internalServerKey publicID @ ''-web-game:3001''"

definition sharedComposeProjectName :: string where
  "sharedComposeProjectName = ''opensamguk-shared''"

definition reservedPublicServerIDs :: "string list" where
  "reservedPublicServerIDs = [''all'']"

definition reservedGameRouteIDs :: "string list" where
  "reservedGameRouteIDs =
    [''admin'', ''admin1'', ''admin2'', ''admin5'', ''admin7'', ''admin8'', ''auction'',
     ''battle-center'', ''battle-replay'', ''betting'', ''board'', ''chief-center'', ''city'',
     ''coming-soon'', ''corps'', ''council'', ''court'', ''create'', ''diplomacy'', ''generals'',
     ''global-diplomacy'', ''hand'', ''help'', ''history'', ''inherit'', ''join'', ''mail'',
     ''mailbox'', ''main'', ''map'', ''my'', ''my-boss'', ''my-cities'', ''my-generals'',
     ''my-nation'', ''nation'', ''nation-betting'', ''nation-finance'', ''npc-control'',
     ''orders'', ''posts'', ''rankings'', ''records'', ''register'', ''retinue'',
     ''select-pool'', ''siege'', ''simulator'', ''stratagem'', ''supply'', ''territory'',
     ''tournament'', ''tournament-admin'', ''troop'', ''v2-lab'', ''vote'', ''war-room'',
     ''world-log'', ''yuedan'']"

definition normalizeCreateServerID :: "string \<Rightarrow> (string \<times> string) result" where
  "normalizeCreateServerID raw =
     (if raw = [] then Inl (Err ''server id is required'')
      else if \<not> serverIDRe raw then Inl (Err ''server id allows only letters and digits'')
      else let sid = to_lower raw in
        if maxPublicServerIDLength < length sid then Inl (Err ''server id is too long'')
        else if sid \<in> set reservedGameRouteIDs then Inl (Err ''server id conflicts with a game route'')
        else if sid \<in> set reservedPublicServerIDs then Inl (Err ''server id is the reserved word for all servers'')
        else if projectForServerID sid = sharedComposeProjectName
        then Inl (Err ''server id conflicts with the project of the shared stack'')
        else Inr (sid, internalServerKey sid))"

definition isCanonicalServerProject :: "string \<Rightarrow> bool" where
  "isCanonicalServerProject project \<longleftrightarrow> projectRe project \<and>
     (case normalizeCreateServerID (trim_prefix project ''opensamguk-s'') of
        Inl e \<Rightarrow> False
      | Inr (canonicalID, key) \<Rightarrow> project = projectForServerID canonicalID)"

section \<open>Targets\<close>

record serverTarget =
  tg_ID :: string
  tg_InternalKey :: string
  tg_Project :: string
  tg_EnvFile :: string

definition envFileFor :: "config \<Rightarrow> string \<Rightarrow> string" where
  "envFileFor c project = filepath_join [cf_serversDir c, trim_prefix project ''opensamguk-'' @ ''.env'']"

definition sharedEnvFile :: "config \<Rightarrow> string" where
  "sharedEnvFile c = filepath_join [cf_composeDir c, ''.env'']"

definition serverEnvFileForID :: "config \<Rightarrow> string \<Rightarrow> string" where
  "serverEnvFileForID c publicID = filepath_join [cf_serversDir c, internalServerKey publicID @ ''.env'']"

definition serverTargetForID :: "config \<Rightarrow> string \<Rightarrow> serverTarget result" where
  "serverTargetForID c rawID =
     (case normalizeCreateServerID rawID of
        Inl e \<Rightarrow> Inl e
      | Inr (sid, key) \<Rightarrow> Inr \<lparr>tg_ID = sid, tg_InternalKey = key, tg_Project = projectForServerID sid,
          tg_EnvFile = filepath_join [cf_serversDir c, key @ ''.env'']\<rparr>)"

definition serverTargetForProject :: "config \<Rightarrow> string \<Rightarrow> serverTarget result" where
  "serverTargetForProject c project =
     (if \<not> isCanonicalServerProject project
      then Inl (Err ''bad project: only opensamguk-s<id> is allowed'')
      else case serverTargetForID c (trim_prefix project ''opensamguk-s'') of
        Inl e \<Rightarrow> Inl e
      | Inr target \<Rightarrow>
          if tg_Project target \<noteq> project
          then Inl (Err ''project and public server id do not map to each other'')
          else Inr target)"

definition serverEnvDisplayPath :: "serverTarget \<Rightarrow> string" where
  "serverEnvDisplayPath target = filepath_join [''servers'', tg_InternalKey target @ ''.env'']"

section \<open>Paths of plain names\<close>

definition plain_name :: "string \<Rightarrow> bool" where
  "plain_name s \<longleftrightarrow> s \<noteq> [] \<and> s \<noteq> ''.'' \<and> s \<noteq> ''..'' \<and> CHR ''/'' \<notin> set s"

lemma split_on_snoc: "split_on d (s @ d # t) = split_on d s @ split_on d t"
proof (induction s)
  case (Cons c s)
  then show ?case by (cases "split_on d s") auto
qed simp

lemma join_with_snoc: "ps \<noteq> [] \<Longrightarrow> join_with d (ps @ [x]) = join_with d ps @ d @ x"
proof (induction ps)
  case (Cons p ps)
  then show ?case by (cases ps) auto
qed simp

lemma clean_parts_snoc:
  assumes "plain_name x"
  shows "clean_parts rooted st (ps @ [x]) = clean_parts rooted st ps @ [x]"
  using assms by (induction rooted st ps rule: clean_parts.induct) (auto simp: plain_name_def)

lemma filepath_join_prefix:
  "\<exists>pre. (pre = [] \<or> (\<exists>q. pre = q @ ''/'')) \<and> (\<forall>x. plain_name x \<longrightarrow> filepath_join [dir, x] = pre @ x)"
proof (cases dir)
  case Nil
  have "filepath_join [[], x] = x" if x: "plain_name x" for x
  proof -
    have "hd x \<noteq> CHR ''/''" using x by (metis hd_in_set plain_name_def)
    with x show ?thesis
      by (auto simp: filepath_join_def filepath_clean_def plain_name_def split_on_no_sep Let_def)
  qed
  with Nil show ?thesis by (intro exI[of _ "[]"]) simp
next
  case (Cons a dir')
  define rooted where "rooted = (hd dir = CHR ''/'')"
  define ps where "ps = clean_parts rooted [] (split_on CHR ''/'' dir)"
  have "filepath_join [dir, x] =
      (if rooted then ''/'' else []) @ (if ps = [] then [] else join_with ''/'' ps @ ''/'') @ x"
    if x: "plain_name x" for x
  proof -
    have "clean_parts rooted [] (split_on CHR ''/'' (dir @ ''/'' @ x)) = ps @ [x]"
      using x clean_parts_snoc[OF x, of rooted "[]" "split_on CHR ''/'' dir"]
      by (simp add: split_on_snoc split_on_no_sep plain_name_def ps_def)
    with x Cons show ?thesis
      by (auto simp: filepath_join_def filepath_clean_def Let_def rooted_def join_with_snoc plain_name_def)
  qed
  then show ?thesis by (intro exI[of _ "(if rooted then ''/'' else []) @
      (if ps = [] then [] else join_with ''/'' ps @ ''/'')"]) auto
qed

lemma filepath_join_plain: "\<exists>pre. \<forall>x. plain_name x \<longrightarrow> filepath_join [dir, x] = pre @ x"
  using filepath_join_prefix[of dir] by blast

lemma filepath_join_plain_inj:
  assumes "plain_name x" and "plain_name y"
  shows "filepath_join [dir, x] = filepath_join [dir, y] \<longleftrightarrow> x = y"
  using filepath_join_plain[of dir] assms by auto

text \<open>Cleaning a joined path keeps its last name behind the same directory.\<close>

lemma clean_join_inj:
  assumes "plain_name x" and "plain_name y"
  shows "filepath_clean (filepath_join [dir, x]) = filepath_clean (filepath_join [dir, y]) \<longleftrightarrow> x = y"
proof -
  obtain pre where pre: "pre = [] \<or> (\<exists>q. pre = q @ ''/'')" "filepath_join [dir, x] = pre @ x" "filepath_join [dir, y] = pre @ y"
    using filepath_join_prefix assms by meson
  have "\<exists>pre'. \<forall>x. plain_name x \<longrightarrow> filepath_clean (pre @ x) = pre' @ x"
  proof -
    consider "pre = []" | "pre = ''/''" | q where "pre = q @ ''/''" "q \<noteq> []" using pre(1) by fastforce
    then show ?thesis
    proof cases
      case 1
      have "filepath_clean x = filepath_join [[], x]" if "plain_name x" for x
        using that by (auto simp: filepath_join_def plain_name_def)
      then show ?thesis using filepath_join_plain[of "[]"] 1 by auto
    next
      case 2
      have "filepath_clean (''/'' @ x) = ''/'' @ x" if x: "plain_name x" for x
        using x by (auto simp: filepath_clean_def plain_name_def split_on_no_sep Let_def)
      then show ?thesis using 2 by blast
    next
      case 3
      have "filepath_clean (pre @ x) = filepath_join [q, x]" if "plain_name x" for x
        using that 3 by (auto simp: filepath_join_def plain_name_def)
      then show ?thesis using filepath_join_plain[of q] by auto
    qed
  qed
  then show ?thesis using assms pre(2,3) by auto
qed

section \<open>Canonical ids\<close>

definition canonical_id :: "string \<Rightarrow> bool" where
  "canonical_id sid \<longleftrightarrow> lower_alnum sid \<and> length sid \<le> maxPublicServerIDLength \<and>
     sid \<notin> set reservedGameRouteIDs \<and> sid \<notin> set reservedPublicServerIDs \<and> sid \<noteq> ''hared''"

lemma projectForServerID_inj [simp]: "projectForServerID x = projectForServerID y \<longleftrightarrow> x = y"
  by (simp add: projectForServerID_def internalServerKey_def)

lemma shared_project_id: "projectForServerID sid = sharedComposeProjectName \<longleftrightarrow> sid = ''hared''"
  by (simp add: projectForServerID_def internalServerKey_def sharedComposeProjectName_def)

lemma normalize_ok_iff:
  "normalizeCreateServerID raw = Inr (sid, key) \<longleftrightarrow>
     serverIDRe raw \<and> sid = to_lower raw \<and> key = internalServerKey sid \<and> canonical_id sid"
proof -
  have "serverIDRe raw \<Longrightarrow> raw \<noteq> []" by (auto simp: serverIDRe_def)
  then show ?thesis
    by (auto simp: normalizeCreateServerID_def canonical_id_def Let_def shared_project_id
        serverIDRe_lower split: if_splits)
qed

lemma canonical_normalizes:
  "canonical_id sid \<Longrightarrow> normalizeCreateServerID sid = Inr (sid, internalServerKey sid)"
  unfolding normalize_ok_iff
  by (simp add: canonical_id_def lower_alnum_serverIDRe lower_alnum_to_lower)

lemma projectRe_of: "lower_alnum sid \<Longrightarrow> projectRe (projectForServerID sid)"
  by (simp add: projectRe_def projectForServerID_def internalServerKey_def has_prefix_def)

lemma project_strip [simp]: "trim_prefix (projectForServerID sid) ''opensamguk-s'' = sid"
  by (simp add: projectForServerID_def internalServerKey_def trim_prefix_def has_prefix_def)

lemma canonical_project_iff:
  "isCanonicalServerProject project \<longleftrightarrow> (\<exists>sid. canonical_id sid \<and> project = projectForServerID sid)"
proof
  assume "isCanonicalServerProject project"
  then show "\<exists>sid. canonical_id sid \<and> project = projectForServerID sid"
    by (auto simp: isCanonicalServerProject_def normalize_ok_iff split: sum.splits prod.splits)
next
  assume "\<exists>sid. canonical_id sid \<and> project = projectForServerID sid"
  then obtain sid where s: "canonical_id sid" "project = projectForServerID sid" by blast
  then show "isCanonicalServerProject project"
    using projectRe_of[of sid]
    by (simp add: isCanonicalServerProject_def canonical_normalizes) (simp add: canonical_id_def)
qed

definition target_of :: "config \<Rightarrow> string \<Rightarrow> serverTarget" where
  "target_of c sid = \<lparr>tg_ID = sid, tg_InternalKey = internalServerKey sid,
     tg_Project = projectForServerID sid, tg_EnvFile = serverEnvFileForID c sid\<rparr>"

lemma target_for_id_iff:
  "serverTargetForID c raw = Inr t \<longleftrightarrow>
     serverIDRe raw \<and> canonical_id (to_lower raw) \<and> t = target_of c (to_lower raw)"
proof (cases "normalizeCreateServerID raw")
  case (Inl e)
  then have "\<not> (serverIDRe raw \<and> canonical_id (to_lower raw))"
    using normalize_ok_iff[of raw "to_lower raw" "internalServerKey (to_lower raw)"] by auto
  with Inl show ?thesis by (auto simp: serverTargetForID_def)
next
  case (Inr p)
  obtain sid key where p: "p = (sid, key)" by (cases p)
  have "serverIDRe raw" "sid = to_lower raw" "key = internalServerKey sid" "canonical_id sid"
    using Inr p normalize_ok_iff[of raw sid key] by auto
  with Inr p show ?thesis
    by (auto simp: serverTargetForID_def target_of_def serverEnvFileForID_def)
qed

lemma target_for_canonical: "canonical_id sid \<Longrightarrow> serverTargetForID c sid = Inr (target_of c sid)"
  by (auto simp: target_for_id_iff canonical_id_def lower_alnum_serverIDRe lower_alnum_to_lower)

lemma target_for_project_iff:
  "serverTargetForProject c project = Inr t \<longleftrightarrow>
     (\<exists>sid. canonical_id sid \<and> project = projectForServerID sid \<and> t = target_of c sid)"
proof (cases "isCanonicalServerProject project")
  case True
  then obtain sid where s: "canonical_id sid" "project = projectForServerID sid"
    unfolding canonical_project_iff by blast
  have "serverTargetForProject c project = Inr (target_of c sid)"
    using s True by (simp add: serverTargetForProject_def target_for_canonical) (simp add: target_of_def)
  with s show ?thesis by auto
next
  case False
  then show ?thesis by (auto simp: serverTargetForProject_def canonical_project_iff)
qed

lemma env_name_plain: "lower_alnum sid \<Longrightarrow> plain_name (internalServerKey sid @ ''.env'')"
  by (auto simp: plain_name_def internalServerKey_def lower_alnum_def list_all_iff go_defs)

lemma serverEnvFileForID_inj:
  assumes "canonical_id x" and "canonical_id y"
  shows "serverEnvFileForID c x = serverEnvFileForID c y \<longleftrightarrow> x = y"
  using assms env_name_plain[of x] env_name_plain[of y]
  by (simp add: serverEnvFileForID_def filepath_join_plain_inj canonical_id_def)
     (simp add: internalServerKey_def)

lemma clean_env_file_inj:
  assumes "canonical_id x" and "canonical_id y"
  shows "filepath_clean (serverEnvFileForID c x) = filepath_clean (serverEnvFileForID c y) \<longleftrightarrow> x = y"
  using assms env_name_plain[of x] env_name_plain[of y]
  by (simp add: serverEnvFileForID_def clean_join_inj canonical_id_def)
     (simp add: internalServerKey_def)

section \<open>Properties of identity\<close>

text \<open>
  A normalised id is canonical. Whatever text a request gives, an accepted id is
  non-empty lower-case letters and digits, fits the longest docker label, is no reserved
  word, does not name the project of the shared stack, and is normalised to itself; the
  result depends on the text only up to the case of its letters.
\<close>

theorem normalized_id_canonical:
  assumes "normalizeCreateServerID raw = Inr (sid, key)"
  shows "lower_alnum sid \<and> length (internalServerKey sid @ ''-game-postgres'') \<le> 63 \<and>
    sid \<notin> set reservedGameRouteIDs \<and> sid \<notin> set reservedPublicServerIDs \<and>
    projectForServerID sid \<noteq> sharedComposeProjectName \<and> internalServerKeyRe key \<and>
    normalizeCreateServerID sid = Inr (sid, key) \<and> sid = to_lower raw"
proof -
  have *: "serverIDRe raw" "sid = to_lower raw" "key = internalServerKey sid" "canonical_id sid"
    using assms unfolding normalize_ok_iff by auto
  then have "normalizeCreateServerID sid = Inr (sid, key)" by (simp add: canonical_normalizes)
  with * show ?thesis
    by (auto simp: canonical_id_def shared_project_id internalServerKeyRe_def internalServerKey_def
        has_prefix_def maxPublicServerIDLength_def)
qed

lemma ex_normalized: "normalizeCreateServerID ''Pep1'' = Inr (''pep1'', ''spep1'')"
  by code_simp

theorem normalized_id_canonical_witness:
  "lower_alnum ''pep1'' \<and> normalizeCreateServerID ''pep1'' = Inr (''pep1'', ''spep1'')"
  using normalized_id_canonical[OF ex_normalized] by blast

text \<open>
  C32. The mapping between projects, ids and env files is one to one. A project resolves to
  a target exactly when it is the project of the target some id resolves to, and two targets
  with the same project, internal key or env file are the same target.
\<close>

theorem target_mapping_bijective:
  assumes "serverTargetForID c raw = Inr t" and "serverTargetForID c raw' = Inr t'"
  shows "serverTargetForProject c (tg_Project t) = Inr t \<and> tg_EnvFile t = envFileFor c (tg_Project t) \<and>
    (tg_Project t = tg_Project t' \<longleftrightarrow> t = t') \<and> (tg_EnvFile t = tg_EnvFile t' \<longleftrightarrow> t = t') \<and>
    (tg_InternalKey t = tg_InternalKey t' \<longleftrightarrow> t = t') \<and> (to_lower raw = to_lower raw' \<longleftrightarrow> t = t')"
proof -
  have t: "canonical_id (to_lower raw)" "t = target_of c (to_lower raw)"
    and t': "canonical_id (to_lower raw')" "t' = target_of c (to_lower raw')"
    using assms by (simp_all add: target_for_id_iff)
  have "serverTargetForProject c (tg_Project t) = Inr t"
    unfolding target_for_project_iff using t by (auto simp: target_of_def)
  moreover have "tg_EnvFile t = envFileFor c (tg_Project t)"
    by (simp add: t(2) target_of_def envFileFor_def serverEnvFileForID_def projectForServerID_def
        trim_prefix_def has_prefix_def)
  ultimately show ?thesis
    using serverEnvFileForID_inj[OF t(1) t'(1), of c]
    by (auto simp: t(2) t'(2) target_of_def internalServerKey_def)
qed

definition ex_config :: config where
  "ex_config = \<lparr>cf_token = ''secret'', cf_composeDir = ''/workspace'', cf_composeHostDir = ''/srv/sam'',
     cf_serversDir = ''/workspace/servers'',
     cf_composeServer = ''/workspace/docker-compose.server.yml'',
     cf_composeShared = ''/workspace/docker-compose.shared.yml'', cf_ghcrOwner = ''peppone-choi'',
     cf_gameAPIInternalPort = ''8081'', cf_gameEngineInternalPort = ''8082'',
     cf_gatewayAPIURL = [], cf_battleWSAllowlistEnabled = True, cf_ghcrToken = [],
     cf_ghcrAPIBaseURL = ''https://api.github.com'', cf_localHTTPBaseURL = ''http://localhost:9000'',
     cf_maintenanceFile = ''/m'', cf_lifecycleJournalFile = ''/j'', cf_resetVerifyTimeout = 0,
     cf_resetVerifyPollInterval = 0, cf_statelessServices = [''game-api'', ''web-game''],
     cf_sharedEnvServices = [''gateway-api'', ''board-api'', ''web-gateway'', ''nginx'', ''deployer'']\<rparr>"

lemma ex_target: "serverTargetForID ex_config ''Pep1'' = Inr (target_of ex_config ''pep1'')"
  by (simp add: serverTargetForID_def ex_normalized target_of_def internalServerKey_def
      serverEnvFileForID_def)

theorem target_mapping_bijective_witness:
  "serverTargetForProject ex_config ''opensamguk-spep1'' = Inr (target_of ex_config ''pep1'') \<and>
   tg_EnvFile (target_of ex_config ''pep1'') = ''/workspace/servers/spep1.env''"
proof -
  have "tg_EnvFile (target_of ex_config ''pep1'') = ''/workspace/servers/spep1.env''"
    by (simp add: target_of_def serverEnvFileForID_def ex_config_def internalServerKey_def
        filepath_join_def filepath_clean_def Let_def)
  then show ?thesis
    using target_mapping_bijective[OF ex_target ex_target]
    by (simp add: target_of_def projectForServerID_def internalServerKey_def)
qed

end
