(* ===== verification/EnvFile.thy ===== *)
theory EnvFile
  imports Identity AtomicWrite
begin

text \<open>
  Env files in main.go: parsing into lines, rendering, patching, the allowlists of the
  env requests, the fields shown to the operator, and the check that a server's file
  declares that server and nothing of the other stack version. The lemmas give the
  parse/render round trip and the exact effect of a patch on every key.
\<close>

section \<open>Lines\<close>

record envLine =
  ln_Raw :: string
  ln_Key :: string
  ln_Value :: string
  ln_IsKV :: bool

type_synonym env = "(string, string) gomap"

abbreviation newline :: char where "newline \<equiv> CHR 0x0A"

definition env_line :: "string \<Rightarrow> envLine" where
  "env_line raw =
     (let plain = \<lparr>ln_Raw = raw, ln_Key = [], ln_Value = [], ln_IsKV = False\<rparr>;
          trimmed = trim_space raw
      in if trimmed \<noteq> [] \<and> \<not> has_prefix trimmed ''#''
         then (case cut_at CHR ''='' raw of
             (key, None) \<Rightarrow> plain
           | (key, Some value) \<Rightarrow>
               if key \<noteq> [] \<and> isEnvKey (trim_space key)
               then plain\<lparr>ln_Key := trim_space key, ln_Value := value, ln_IsKV := True\<rparr>
               else plain)
         else plain)"

definition env_lines :: "string \<Rightarrow> envLine list" where
  "env_lines text' =
     (let parts = split_on newline text' in
      map env_line (if last parts = [] then butlast parts else parts))"

definition render_lines :: "envLine list \<Rightarrow> string" where
  "render_lines lines = concat (map (\<lambda>l. ln_Raw l @ [newline]) lines)"

text \<open>A file that is absent or cannot be read is an error of \<open>os.ReadFile\<close>.\<close>

definition readEnvLines :: "string \<Rightarrow> string files \<Rightarrow> envLine list result" where
  "readEnvLines path fs =
     (case data_at fs path of
        None \<Rightarrow> Inl (if fs path = None then ErrNotExist else ErrIO ''read'')
      | Some text' \<Rightarrow> Inr (env_lines text'))"

definition writeEnvLinesAtomic :: "string \<Rightarrow> envLine list \<Rightarrow> answers \<Rightarrow> string files \<Rightarrow> string write_result" where
  "writeEnvLinesAtomic path lines = writeFileAtomic path (render_lines lines)"

definition writeEnvLinesAtomicDurable ::
    "string \<Rightarrow> envLine list \<Rightarrow> answers \<Rightarrow> string files \<Rightarrow> string write_result" where
  "writeEnvLinesAtomicDurable path lines = writeFileAtomicDurable path (render_lines lines)"

definition envValuesFromLines :: "envLine list \<Rightarrow> env" where
  "envValuesFromLines lines =
     foldl (\<lambda>m l. if ln_IsKV l then AList.update (ln_Key l) (ln_Value l) m else m) [] lines"

definition readEnvValues :: "string \<Rightarrow> string files \<Rightarrow> env result" where
  "readEnvValues path fs = map_sum id envValuesFromLines (readEnvLines path fs)"

definition key_is :: "string \<Rightarrow> envLine \<Rightarrow> bool" where
  "key_is k l \<longleftrightarrow> ln_IsKV l \<and> ln_Key l = k"

definition sharedEnvValue :: "config \<Rightarrow> string \<Rightarrow> string files \<Rightarrow> string" where
  "sharedEnvValue c key fs =
     (case readEnvLines (sharedEnvFile c) fs of
        Inl e \<Rightarrow> []
      | Inr lines \<Rightarrow> (case find (key_is key) lines of None \<Rightarrow> [] | Some l \<Rightarrow> ln_Value l))"

text \<open>\<open>readImageTag\<close>: the first trimmed line that starts with the key.\<close>

definition image_tag_line :: "string \<Rightarrow> string result" where
  "image_tag_line text' =
     (case find (\<lambda>l. has_prefix l ''IMAGE_TAG='') (map trim_space (split_on newline text')) of
        None \<Rightarrow> Inl (Err ''no IMAGE_TAG line'')
      | Some l \<Rightarrow> Inr (trim_prefix l ''IMAGE_TAG=''))"

section \<open>Fields and allowlists\<close>

text \<open>
  The description of a field, a constant text for the operator, is left out of the
  specification and of the field's metadata.
\<close>

record envFieldSpec =
  es_WriteOnly :: bool

record envField =
  ef_Key :: string
  ef_Value :: "string option"
  ef_Configured :: bool
  ef_WriteOnly :: bool
  ef_Masked :: bool

type_synonym allowlist = "(string, envFieldSpec) gomap"

definition specs :: "string list \<Rightarrow> string list \<Rightarrow> allowlist" where
  "specs secret keys = map (\<lambda>k. (k, \<lparr>es_WriteOnly = (k \<in> set secret)\<rparr>)) keys"

definition serverEnvAllowlist :: allowlist where
  "serverEnvAllowlist = specs [''INTERNAL_SERVICE_TOKEN'', ''JWT_LEGACY_SECRET'']
    [''IMAGE_TAG'', ''GAME_API_PORT'', ''WEB_GAME_PORT'', ''WEB_GAME_TAG'', ''TURN_PROFILE_NAME'',
     ''SCENARIO_SEED_ENABLED'', ''SCENARIO_CODE'', ''SCENARIO_LOOKUP_DIR'', ''SERVER_NAME'',
     ''SERVER_GENERATION'', ''GAME_API_URL'', ''GATEWAY_API_URL'', ''INTERNAL_SERVICE_TOKEN'',
     ''JWT_PUBLIC_KEY'', ''JWT_LEGACY_SECRET'', ''JWT_LEGACY_ACCESS_ACCEPT_UNTIL'',
     ''RESET_MAXGENERAL'', ''RESET_FIRST_TURN'', ''RESET_TURNTERM'', ''RESET_SYNC'',
     ''RESET_FICTION'', ''RESET_EXTEND'', ''RESET_BLOCK_GENERAL_CREATE'', ''RESET_NPCMODE'',
     ''RESET_SHOW_IMG_LEVEL'', ''RESET_AUTORUN_USER_OPTIONS'', ''RESET_AUTORUN_USER_MINUTES'',
     ''RESET_JOIN_MODE'', ''RESET_TOURNAMENT_TRIG'', ''RESET_RESERVE_OPEN'', ''RESET_PRE_RESERVE_OPEN'']"

definition sharedEnvAllowlist :: allowlist where
  "sharedEnvAllowlist = specs
    [''JWT_PRIVATE_KEY'', ''INTERNAL_SERVICE_TOKEN'', ''JWT_LEGACY_SECRET'', ''ADMIN_PASSWORD'', ''GHCR_TOKEN'']
    [''IMAGE_TAG'', ''NGINX_HTTP_PORT'', ''NGINX_HTTPS_PORT'', ''NEXT_PUBLIC_GATEWAY_URL'',
     ''NEXT_PUBLIC_IMAGE_CDN'', ''COOKIE_SECURE'', ''JWT_PRIVATE_KEY'', ''JWT_PUBLIC_KEY'',
     ''INTERNAL_SERVICE_TOKEN'', ''JWT_LEGACY_SECRET'', ''ADMIN_PASSWORD'', ''GHCR_TOKEN'']"

definition env_field :: "env \<Rightarrow> string \<Rightarrow> envFieldSpec \<Rightarrow> envField" where
  "env_field values key spec =
     \<lparr>ef_Key = key, ef_Value = (if es_WriteOnly spec then None else map_of values key),
      ef_Configured = (gm_has values key \<and> gm_str values key \<noteq> []),
      ef_WriteOnly = es_WriteOnly spec, ef_Masked = (es_WriteOnly spec \<and> gm_has values key)\<rparr>"

definition buildEnvFields :: "allowlist \<Rightarrow> env \<Rightarrow> (string, envField) gomap" where
  "buildEnvFields allow values = gm_map (env_field values) allow"

definition readEnvFields :: "string \<Rightarrow> allowlist \<Rightarrow> string files \<Rightarrow> (string, envField) gomap result" where
  "readEnvFields path allow fs =
     map_sum id (\<lambda>lines. buildEnvFields allow (envValuesFromLines lines)) (readEnvLines path fs)"

definition validateEnvPatch :: "env \<Rightarrow> allowlist \<Rightarrow> err option" where
  "validateEnvPatch values allow =
     (if list_ex (\<lambda>(k, v). \<not> gm_has allow k) values then Some (Err ''env key is not allowed'')
      else if list_ex (\<lambda>(k, v). k = ''SCENARIO_LOOKUP_DIR'' \<and> \<not> isExactScenarioLookupDir v) values
      then Some (Err ''SCENARIO_LOOKUP_DIR must be empty or /data/scenarios'') else None)"

section \<open>Patching\<close>

definition kv_line :: "string \<Rightarrow> string \<Rightarrow> envLine" where
  "kv_line key value = \<lparr>ln_Raw = key @ ''='' @ value, ln_Key = key, ln_Value = value, ln_IsKV = True\<rparr>"

fun patch_loop :: "env \<Rightarrow> envLine list \<Rightarrow> envLine list \<times> env" where
  "patch_loop remaining [] = ([], remaining)"
| "patch_loop remaining (l # ls) =
     (case (if ln_IsKV l then map_of remaining (ln_Key l) else None) of
        None \<Rightarrow> let (ls', r) = patch_loop remaining ls in (l # ls', r)
      | Some value \<Rightarrow>
          let (ls', r) = patch_loop (AList.delete (ln_Key l) remaining) ls in
          (l\<lparr>ln_Value := value, ln_Raw := ln_Key l @ ''='' @ value\<rparr> # ls', r))"

definition patched_lines :: "env \<Rightarrow> envLine list \<Rightarrow> envLine list" where
  "patched_lines updates lines =
     (let (ls, remaining) = patch_loop updates lines in
      ls @ map (\<lambda>k. kv_line k (gm_str remaining k)) (sort (map fst remaining)))"

definition patchEnvFile ::
    "string \<Rightarrow> allowlist \<Rightarrow> env \<Rightarrow> answers \<Rightarrow> string files \<Rightarrow>
     (string, envField) gomap result \<times> string files" where
  "patchEnvFile path allow updates a fs =
     (case readEnvLines path fs of
        Inl e \<Rightarrow> (Inl e, fs)
      | Inr lines \<Rightarrow>
          let ls = patched_lines updates lines;
              w = writeEnvLinesAtomic path ls a fs
          in case w_err w of
               Some e \<Rightarrow> (Inl e, w_fs w)
             | None \<Rightarrow> (Inr (buildEnvFields allow (envValuesFromLines ls)), w_fs w))"

text \<open>
  \<open>patchManagedEnvFile\<close> takes the lock of the shared env file around the patch of that
  file; each operation of the model is one indivisible step, so it is the patch itself.
\<close>

definition patchManagedEnvFile ::
    "string \<Rightarrow> allowlist \<Rightarrow> env \<Rightarrow> answers \<Rightarrow> string files \<Rightarrow>
     (string, envField) gomap result \<times> string files" where
  "patchManagedEnvFile = patchEnvFile"

section \<open>Server env files\<close>

definition v2ServerDefinitionKeys :: "string list" where
  "v2ServerDefinitionKeys = [''SPRING_FLYWAY_LOCATIONS'', ''SPRING_PROFILES_ACTIVE'']"

definition line_admitted :: "envLine \<Rightarrow> bool" where
  "line_admitted l \<longleftrightarrow>
     (if \<not> ln_IsKV l then trim_space (ln_Raw l) = [] \<or> has_prefix (trim_space (ln_Raw l)) ''#''
      else \<not> has_prefix (ln_Key l) ''V2_'' \<and> ln_Key l \<notin> set v2ServerDefinitionKeys)"

definition validateV1ServerDefinition :: "envLine list \<Rightarrow> err option" where
  "validateV1ServerDefinition lines =
     (case find (\<lambda>l. \<not> line_admitted l) lines of
        None \<Rightarrow> None
      | Some l \<Rightarrow> Some (Err (if ln_IsKV l then ''v1 server definition must not set '' @ ln_Key l
                              else ''v1 server definition has unmanaged syntax'')))"

definition validateServerEnvFile :: "serverTarget \<Rightarrow> string \<Rightarrow> string files \<Rightarrow> env result" where
  "validateServerEnvFile target envFile fs =
     (case readEnvLines envFile fs of
        Inl e \<Rightarrow> Inl e
      | Inr lines \<Rightarrow>
          let declared = filter (key_is ''SERVER_ID'') lines in
          (case validateV1ServerDefinition lines of
             Some e \<Rightarrow> Inl e
           | None \<Rightarrow>
               if length declared \<noteq> 1 \<or> ln_Value (last declared) \<noteq> tg_ID target
               then Inl (Err ''SERVER_ID must exactly match the canonical public id'')
               else Inr (envValuesFromLines lines)))"

definition validateServerTarget :: "serverTarget \<Rightarrow> string files \<Rightarrow> env result" where
  "validateServerTarget target = validateServerEnvFile target (tg_EnvFile target)"

definition validateDockerServerTarget ::
    "config \<Rightarrow> string \<Rightarrow> string \<Rightarrow> bool \<Rightarrow> string files \<Rightarrow> serverTarget result" where
  "validateDockerServerTarget c project envFile allowStagedEnv fs =
     (case serverTargetForProject c project of
        Inl e \<Rightarrow> Inl e
      | Inr target \<Rightarrow>
          if \<not> allowStagedEnv \<and> filepath_clean envFile \<noteq> filepath_clean (tg_EnvFile target)
          then Inl (Err ''server env file does not match canonical project mapping'')
          else (case validateServerEnvFile target envFile fs of
              Inl e \<Rightarrow> Inl e
            | Inr values \<Rightarrow> Inr target))"

definition readImageTag :: "config \<Rightarrow> string \<Rightarrow> string files \<Rightarrow> string result" where
  "readImageTag c project fs =
     (case validateDockerServerTarget c project (envFileFor c project) False fs of
        Inl e \<Rightarrow> Inl e
      | Inr target \<Rightarrow>
          (case data_at fs (tg_EnvFile target) of
             None \<Rightarrow> Inl (ErrIO ''read'')
           | Some text' \<Rightarrow> image_tag_line text'))"

section \<open>What a compose child inherits\<close>

definition serverComposeInterpolationKeys :: "string list" where
  "serverComposeInterpolationKeys =
    [''GAME_POSTGRES_IMAGE'', ''GAME_REDIS_IMAGE'', ''RESET_MAXGENERAL'', ''RESET_FIRST_TURN'',
     ''BATTLE_JOIN_TICKET_ENABLED'', ''BATTLE_JOIN_TICKET_KEY_BASE64'', ''BATTLE_WS_ALLOWED_ORIGINS'',
     ''COMPOSE_HOST_DIR'', ''GATEWAY_API_URL'', ''INTERNAL_SERVICE_TOKEN'', ''GAME_API_PORT'',
     ''GAME_API_URL'', ''GAME_POSTGRES_DB'', ''GAME_POSTGRES_PASSWORD'', ''GAME_POSTGRES_USER'',
     ''GHCR_OWNER'', ''GHCR_REGISTRY'', ''IMAGE_TAG'', ''JWT_PUBLIC_KEY'', ''JWT_LEGACY_SECRET'',
     ''JWT_LEGACY_ACCESS_ACCEPT_UNTIL'', ''OPENSAMGUK_WORLD_ID'', ''PWD'',
     ''RESET_BLOCK_GENERAL_CREATE'', ''RESET_EXTEND'', ''RESET_FICTION'', ''RESET_NPCMODE'',
     ''RESET_SHOW_IMG_LEVEL'', ''RESET_TURNTERM'', ''SCENARIO_CODE'', ''SCENARIO_DIR'',
     ''SCENARIO_LOOKUP_DIR'', ''SCENARIO_SEED_ENABLED'', ''SERVER_GENERATION'', ''SERVER_ID'',
     ''SERVER_NAME'', ''TOPDOWN_BAKE_ID'', ''TURN_PROFILE_NAME'', ''WEB_GAME_PORT'', ''WEB_GAME_TAG'']"

definition serverComposeProcessControlKeys :: "string list" where
  "serverComposeProcessControlKeys =
    [''COMPOSE_DISABLE_ENV_FILE'', ''COMPOSE_ENV_FILES'', ''COMPOSE_FILE'', ''COMPOSE_PATH_SEPARATOR'',
     ''COMPOSE_PROFILES'', ''COMPOSE_PROJECT_NAME'']"

definition isServerComposeEnvironmentOverride :: "string \<Rightarrow> bool" where
  "isServerComposeEnvironmentOverride key \<longleftrightarrow> has_prefix key ''V2_'' \<or>
     key \<in> set v2ServerDefinitionKeys \<or> key \<in> set serverComposeInterpolationKeys \<or>
     key \<in> set serverComposeProcessControlKeys"

definition inherited_entry :: "string \<Rightarrow> bool" where
  "inherited_entry entry =
     (let (key, rest) = cut_at CHR ''='' entry in
      rest \<noteq> None \<and> \<not> isServerComposeEnvironmentOverride key)"

definition serverComposeEnvironment :: "config \<Rightarrow> string list \<Rightarrow> string list" where
  "serverComposeEnvironment c parent = filter inherited_entry parent @
     (if cf_composeHostDir c \<noteq> [] then [''COMPOSE_HOST_DIR='' @ cf_composeHostDir c] else [])"

end
