(* ===== verification/EnvFileLaws.thy ===== *)
theory EnvFileLaws
  imports EnvFile
begin

text \<open>
  The laws of env files: parsing inverts rendering on lines that came from a file or from a
  patch, the exact effect of a patch on every key, the preservation of a valid server env
  file, and what the fields of a response tell about secrets.
\<close>

section \<open>Trimming and keys\<close>

lemma space_bytes: "c \<in> set (concat space_encodings) \<Longrightarrow> byte c \<le> 32 \<or> 128 \<le> byte c"
  by (auto simp: space_encodings_def)

lemma space_encoding_bytes: "e \<in> set space_encodings \<Longrightarrow> c \<in> set e \<Longrightarrow> byte c \<le> 32 \<or> 128 \<le> byte c"
  using space_bytes by auto

lemma trim_left_keeps: "32 < byte c \<Longrightarrow> byte c < 128 \<Longrightarrow> c \<in> set s \<Longrightarrow> c \<in> set (trim_left s)"
proof (induction s rule: trim_left.induct)
  case (1 s)
  show ?case
  proof (cases "find (\<lambda>e. has_prefix s e) space_encodings")
    case None
    then show ?thesis using "1.prems" by (subst trim_left.simps) simp
  next
    case (Some e)
    then have e: "e \<in> set space_encodings" "has_prefix s e" by (auto simp: find_Some_iff)
    then obtain t where s: "s = e @ t" using has_prefixE by blast
    have "c \<notin> set e" using space_encoding_bytes[OF e(1)] "1.prems" by force
    then have "c \<in> set (drop (length e) s)" using "1.prems"(3) by (simp add: s)
    then show ?thesis using "1.IH"[OF Some] "1.prems" Some by (subst trim_left.simps) simp
  qed
qed

lemma trim_right_keeps: "32 < byte c \<Longrightarrow> byte c < 128 \<Longrightarrow> c \<in> set s \<Longrightarrow> c \<in> set (trim_right s)"
proof (induction s rule: trim_right.induct)
  case (1 s)
  show ?case
  proof (cases "find (\<lambda>e. has_suffix s e) space_encodings")
    case None
    then show ?thesis using "1.prems" by (subst trim_right.simps) simp
  next
    case (Some e)
    then have e: "e \<in> set space_encodings" "has_suffix s e" by (auto simp: find_Some_iff)
    then have s: "s = take (length s - length e) s @ e"
      by (metis append_take_drop_id has_suffix_def)
    have "c \<notin> set e" using space_encoding_bytes[OF e(1)] "1.prems" by force
    moreover have "c \<in> set (take (length s - length e) s) \<union> set e"
      using "1.prems"(3) s by (metis set_append)
    ultimately have "c \<in> set (take (length s - length e) s)" by blast
    then show ?thesis using "1.IH"[OF Some] "1.prems" Some by (subst trim_right.simps) simp
  qed
qed

lemma trim_space_keeps: "32 < byte c \<Longrightarrow> byte c < 128 \<Longrightarrow> c \<in> set s \<Longrightarrow> c \<in> set (trim_space s)"
  by (simp add: trim_space_def trim_left_keeps trim_right_keeps)

lemma no_leading_space_hd: "32 < byte (hd s) \<Longrightarrow> byte (hd s) < 128 \<Longrightarrow> s \<noteq> [] \<Longrightarrow> no_leading_space s"
  unfolding no_leading_space_def
proof
  fix e assume s: "32 < byte (hd s)" "byte (hd s) < 128" "s \<noteq> []" and e: "e \<in> set space_encodings"
  show "\<not> has_prefix s e"
  proof
    assume "has_prefix s e"
    then have "hd s = hd e" using space_encodings_nonempty[OF e] has_prefixE by fastforce
    then show False
      using space_encoding_bytes[OF e hd_in_set[OF space_encodings_nonempty[OF e]]] s by simp
  qed
qed

lemma no_trailing_space_last:
  assumes "list_all (\<lambda>c. 32 < byte c \<and> byte c < 128) s"
  shows "no_trailing_space s"
  unfolding no_trailing_space_def
proof
  fix e assume e: "e \<in> set space_encodings"
  show "\<not> has_suffix s e"
  proof
    assume "has_suffix s e"
    then have "set e \<subseteq> set s" by (metis has_suffix_def set_drop_subset)
    then have "hd e \<in> set s" using hd_in_set[OF space_encodings_nonempty[OF e]] by blast
    then show False
      using assms space_encoding_bytes[OF e hd_in_set[OF space_encodings_nonempty[OF e]]]
      by (auto simp: list_all_iff)
  qed
qed

lemma env_key_bytes: "isEnvKey k \<Longrightarrow> c \<in> set k \<Longrightarrow> 48 \<le> byte c \<and> byte c \<le> 95 \<and> c \<noteq> CHR ''=''"
  by (auto simp: isEnvKey_def list_all_iff go_defs)

lemma env_key_nonempty: "isEnvKey k \<Longrightarrow> k \<noteq> []"
  by (simp add: isEnvKey_def)

lemma trim_env_key:
  assumes "isEnvKey k"
  shows "trim_space k = k"
proof -
  have all: "list_all (\<lambda>c. 32 < byte c \<and> byte c < 128) k"
    using env_key_bytes[OF assms] by (force simp: list_all_iff)
  moreover have "no_leading_space k"
    using env_key_nonempty[OF assms] all by (cases k) (auto intro!: no_leading_space_hd)
  ultimately show ?thesis
    by (simp add: trim_space_def trim_left_id trim_right_id no_trailing_space_last)
qed

section \<open>Parsing and rendering\<close>

definition ln_ok :: "envLine \<Rightarrow> bool" where
  "ln_ok l \<longleftrightarrow> l = env_line (ln_Raw l) \<and> newline \<notin> set (ln_Raw l)"

lemma raw_env_line [simp]: "ln_Raw (env_line raw) = raw"
  by (auto simp: env_line_def Let_def split: option.splits prod.splits)

lemma env_line_key: "ln_IsKV (env_line raw) \<Longrightarrow> isEnvKey (ln_Key (env_line raw))"
  by (auto simp: env_line_def Let_def split: option.splits prod.splits if_splits)

lemma env_lines_ok: "list_all ln_ok (env_lines t)"
proof -
  have "newline \<notin> set p" if "p \<in> set (split_on newline t)" for p
    using that by (rule split_on_no_sep_in)
  then show ?thesis
    by (auto simp: env_lines_def Let_def list_all_iff ln_ok_def dest: in_set_butlastD)
qed

lemma split_render:
  "list_all ln_ok ls \<Longrightarrow> split_on newline (render_lines ls) = map ln_Raw ls @ [[]]"
  by (induction ls) (auto simp: render_lines_def ln_ok_def split_on_append_sep)

lemma env_lines_render: "list_all ln_ok ls \<Longrightarrow> env_lines (render_lines ls) = ls"
  by (simp add: env_lines_def split_render) (auto simp: list_all_iff ln_ok_def intro!: map_idI)

lemma cut_at_key: "d \<notin> set k \<Longrightarrow> cut_at d (k @ d # v) = (k, Some v)"
proof -
  assume "d \<notin> set k"
  then have "takeWhile (\<lambda>c. c \<noteq> d) (k @ d # v) = k" by (induction k) auto
  then show ?thesis by (simp add: cut_at_def)
qed

lemma kv_line_ok:
  assumes "isEnvKey k" and "newline \<notin> set v"
  shows "ln_ok (kv_line k v)"
proof -
  let ?s = "k @ CHR ''='' # v"
  have k: "k \<noteq> []" "CHR ''='' \<notin> set k" "newline \<notin> set k"
    using env_key_nonempty[OF assms(1)] env_key_bytes[OF assms(1), of "CHR ''=''"]
      env_key_bytes[OF assms(1), of newline] by (auto simp: byte_def)
  have hd: "48 \<le> byte (hd ?s)" "byte (hd ?s) \<le> 95"
    using env_key_bytes[OF assms(1), of "hd k"] k by simp_all
  have "CHR ''='' \<in> set (trim_space ?s)" by (rule trim_space_keeps) (simp_all add: byte_def)
  then have ne: "trim_space ?s \<noteq> []" by auto
  have "trim_left ?s = ?s" using hd by (intro trim_left_id no_leading_space_hd) simp_all
  then obtain n where "trim_space ?s = take n ?s"
    using trim_right_take[of ?s] by (auto simp: trim_space_def)
  then have "hd (trim_space ?s) = hd ?s" using ne by (cases n) (auto simp: hd_append k)
  then have "\<not> has_prefix (trim_space ?s) ''#''"
    using hd ne by (cases "trim_space ?s") (auto simp: has_prefix_def byte_def)
  with ne have "env_line ?s = kv_line k v"
    using k by (simp add: env_line_def kv_line_def cut_at_key trim_env_key assms(1) Let_def)
  with k assms(2) show ?thesis by (simp add: ln_ok_def kv_line_def)
qed

lemma ln_ok_key: "ln_ok l \<Longrightarrow> ln_IsKV l \<Longrightarrow> isEnvKey (ln_Key l)"
  using env_line_key[of "ln_Raw l"] by (simp add: ln_ok_def)

section \<open>Values\<close>

lemma env_values_last:
  "map_of (envValuesFromLines ls) k =
     (case filter (key_is k) ls of [] \<Rightarrow> None | x # xs \<Rightarrow> Some (ln_Value (last (x # xs))))"
proof (induction ls rule: rev_induct)
  case (snoc l ls)
  then show ?case
    by (auto simp: envValuesFromLines_def map_of_update key_is_def split: list.splits)
qed (simp add: envValuesFromLines_def)

lemma env_values_distinct: "gm_ok (envValuesFromLines ls)"
proof (induction ls rule: rev_induct)
  case (snoc l ls)
  then show ?case by (simp add: envValuesFromLines_def)
qed (simp add: envValuesFromLines_def)

section \<open>The effect of a patch\<close>

lemma updated_is_kv_line:
  "key_is k l \<Longrightarrow> l\<lparr>ln_Value := v, ln_Raw := ln_Key l @ ''='' @ v\<rparr> = kv_line k v"
  by (simp add: kv_line_def key_is_def)

lemma patch_loop_key:
  "filter (key_is k) (fst (patch_loop r ls)) =
     (case map_of r k of
        None \<Rightarrow> filter (key_is k) ls
      | Some v \<Rightarrow> (case filter (key_is k) ls of [] \<Rightarrow> [] | x # xs \<Rightarrow> kv_line k v # xs)) \<and>
   map_of (snd (patch_loop r ls)) k = (if filter (key_is k) ls = [] then map_of r k else None)"
proof (induction r ls rule: patch_loop.induct)
  case (2 r l ls)
  show ?case
  proof (cases "if ln_IsKV l then map_of r (ln_Key l) else None")
    case None
    then show ?thesis using "2.IH"(1)[OF None]
      by (auto simp: split_beta Let_def key_is_def split: option.splits list.splits if_splits)
  next
    case (Some v)
    then have l: "ln_IsKV l" "map_of r (ln_Key l) = Some v" by (auto split: if_splits)
    have this_key: "filter (key_is k) (l # ls) = (if k = ln_Key l then l # filter (key_is k) ls else filter (key_is k) ls)"
      and new_key: "key_is k (l\<lparr>ln_Value := v, ln_Raw := ln_Key l @ ''='' @ v\<rparr>) \<longleftrightarrow> k = ln_Key l"
      and new: "l\<lparr>ln_Value := v, ln_Raw := ln_Key l @ ''='' @ v\<rparr> = kv_line (ln_Key l) v"
      using l by (auto simp: key_is_def kv_line_def)
    show ?thesis
    proof (cases "k = ln_Key l")
      case True
      then show ?thesis using "2.IH"(2)[OF Some] l this_key new_key new
        by (simp add: split_beta Let_def map_of_delete)
    next
      case False
      then have "\<not> key_is k l" by (auto simp: key_is_def)
      with False show ?thesis using "2.IH"(2)[OF Some] l new_key
        by (simp add: split_beta Let_def map_of_delete split: option.splits)
    qed
  qed
qed (simp split: option.splits)

lemma patch_loop_others:
  assumes "\<And>k. gm_has r k \<Longrightarrow> gm_has u k"
  shows "filter (\<lambda>l. \<not> (ln_IsKV l \<and> gm_has u (ln_Key l))) (fst (patch_loop r ls)) =
    filter (\<lambda>l. \<not> (ln_IsKV l \<and> gm_has u (ln_Key l))) ls"
  using assms
proof (induction r ls rule: patch_loop.induct)
  case (2 r l ls)
  show ?case
  proof (cases "if ln_IsKV l then map_of r (ln_Key l) else None")
    case None
    then show ?thesis using "2.IH"(1)[OF None] "2.prems" by (simp add: split_beta Let_def)
  next
    case (Some v)
    then have l: "ln_IsKV l" "map_of r (ln_Key l) = Some v" by (auto split: if_splits)
    then have "gm_has u (ln_Key l)" using "2.prems"[of "ln_Key l"] by simp
    moreover have "\<And>k. gm_has (AList.delete (ln_Key l) r) k \<Longrightarrow> gm_has u k"
      using "2.prems" by (auto simp: map_of_delete split: if_splits)
    ultimately show ?thesis using "2.IH"(2)[OF Some] l by (simp add: split_beta Let_def not_None_eq del: map_of_eq_None_iff) auto
  qed
qed simp

lemma patch_loop_remaining_ok: "gm_ok r \<Longrightarrow> gm_ok (snd (patch_loop r ls))"
  by (induction r ls rule: patch_loop.induct) (auto simp: split_beta Let_def split: option.splits)

lemma patch_loop_ok:
  assumes "list_all ln_ok ls" and "list_all (\<lambda>p. newline \<notin> set (snd p)) r"
  shows "list_all ln_ok (fst (patch_loop r ls))"
  using assms
proof (induction r ls rule: patch_loop.induct)
  case (2 r l ls)
  show ?case
  proof (cases "if ln_IsKV l then map_of r (ln_Key l) else None")
    case None
    then show ?thesis using "2.IH"(1)[OF None] "2.prems" by (simp add: split_beta Let_def)
  next
    case (Some v)
    then have l: "ln_IsKV l" "map_of r (ln_Key l) = Some v" by (auto split: if_splits)
    have "newline \<notin> set v" using "2.prems"(2) map_of_SomeD[OF l(2)] by (auto simp: list_all_iff)
    moreover have "isEnvKey (ln_Key l)" using "2.prems"(1) l(1) ln_ok_key by auto
    ultimately have "ln_ok (l\<lparr>ln_Value := v, ln_Raw := ln_Key l @ ''='' @ v\<rparr>)"
      using kv_line_ok[of "ln_Key l" v] updated_is_kv_line[of "ln_Key l" l v] l(1) by (simp add: key_is_def)
    moreover have "list_all (\<lambda>p. newline \<notin> set (snd p)) (AList.delete (ln_Key l) r)"
      using "2.prems"(2) by (auto simp: list_all_iff AList.delete_eq)
    ultimately show ?thesis using "2.IH"(2)[OF Some] "2.prems"(1) l by (simp add: split_beta Let_def)
  qed
qed simp

lemma filter_map_keys:
  assumes "distinct ks"
  shows "filter (key_is k) (map (\<lambda>k. kv_line k (f k)) ks) = (if k \<in> set ks then [kv_line k (f k)] else [])"
  using assms by (induction ks) (auto simp: key_is_def kv_line_def)

definition new_lines :: "env \<Rightarrow> envLine list" where
  "new_lines remaining = map (\<lambda>k. kv_line k (gm_str remaining k)) (sort (map fst remaining))"

lemma patched_split: "patched_lines u ls = fst (patch_loop u ls) @ new_lines (snd (patch_loop u ls))"
  by (simp add: patched_lines_def new_lines_def split_beta Let_def)

lemma patched_key:
  assumes "gm_ok u"
  shows "filter (key_is k) (patched_lines u ls) =
    (case map_of u k of
       None \<Rightarrow> filter (key_is k) ls
     | Some v \<Rightarrow> kv_line k v # drop 1 (filter (key_is k) ls))"
proof -
  let ?r = "snd (patch_loop u ls)"
  have new: "filter (key_is k) (new_lines ?r) = (if gm_has ?r k then [kv_line k (gm_str ?r k)] else [])"
    using filter_map_keys[of "sort (map fst ?r)" k] patch_loop_remaining_ok[OF assms, of ls]
    unfolding new_lines_def gm_has_iff by simp
  note key = patch_loop_key[of k u ls]
  show ?thesis
  proof (cases "map_of u k")
    case None
    with key show ?thesis unfolding patched_split filter_append new by auto
  next
    case (Some v)
    with key show ?thesis unfolding patched_split filter_append new
      by (cases "filter (key_is k) ls") (auto simp: gm_str_def)
  qed
qed

lemma remaining_of_updates: "gm_has (snd (patch_loop u ls)) k \<Longrightarrow> gm_has u k"
  using patch_loop_key[of k u ls] by (auto split: if_splits)

lemma patched_others:
  "filter (\<lambda>l. \<not> (ln_IsKV l \<and> gm_has u (ln_Key l))) (patched_lines u ls) =
   filter (\<lambda>l. \<not> (ln_IsKV l \<and> gm_has u (ln_Key l))) ls"
proof -
  have "filter (\<lambda>l. \<not> (ln_IsKV l \<and> gm_has u (ln_Key l))) (new_lines (snd (patch_loop u ls))) = []"
    using remaining_of_updates[of u ls] unfolding gm_has_iff
    by (force simp: new_lines_def filter_empty_conv kv_line_def)
  then show ?thesis using patch_loop_others[of u u ls] by (simp add: patched_split)
qed

definition single_line :: "env \<Rightarrow> bool" where
  "single_line u \<longleftrightarrow> list_all (\<lambda>(k, v). isEnvKey k \<and> newline \<notin> set v) u"

lemma patched_ok:
  assumes "list_all ln_ok ls" and "single_line u"
  shows "list_all ln_ok (patched_lines u ls)"
proof -
  let ?r = "snd (patch_loop u ls)"
  have v: "list_all (\<lambda>p. newline \<notin> set (snd p)) u"
    using assms(2) by (auto simp: single_line_def list_all_iff)
  have "ln_ok (kv_line k (gm_str ?r k))" if "k \<in> fst ` set ?r" for k
  proof -
    have h: "gm_has ?r k" using that gm_has_iff[of ?r k] by blast
    obtain v where r: "map_of ?r k = Some v" using h by auto
    then have "map_of u k = Some v" using patch_loop_key[of k u ls] by (auto split: if_splits)
    then have "isEnvKey k" "newline \<notin> set v"
      using assms(2) map_of_SomeD[of u k v] by (auto simp: single_line_def list_all_iff)
    with r show ?thesis by (simp add: gm_str_def kv_line_ok)
  qed
  then have "list_all ln_ok (new_lines ?r)" by (auto simp: new_lines_def list_all_iff)
  then show ?thesis using patch_loop_ok[OF assms(1) v] by (simp add: patched_split)
qed

section \<open>Reading after writing\<close>

lemma read_lines_ok: "readEnvLines path fs = Inr ls \<Longrightarrow> list_all ln_ok ls"
  by (auto simp: readEnvLines_def env_lines_ok split: option.splits)

lemma writeFileAtomic_data:
  assumes "ans_tmp a \<noteq> path"
  shows "data_at (w_fs (writeFileAtomic path d a fs)) path =
    (if w_committed (writeFileAtomic path d a fs) then Some d else data_at fs path)"
    and "w_err (writeFileAtomic path d a fs) = None \<longleftrightarrow> w_committed (writeFileAtomic path d a fs)"
  subgoal using env_write_committed[OF assms, of False True d fs]
    by (auto simp: writeFileAtomic_def Let_def data_at_def split: option.splits if_splits)
  subgoal using env_write_committed[OF assms, of False True d fs]
    by (simp add: writeFileAtomic_def writeFileAtomicWithDurabilityResult_def writer_simps split_beta)
  done

lemma readEnvLines_data: "data_at fs path = Some (render_lines ls) \<Longrightarrow> list_all ln_ok ls \<Longrightarrow>
    readEnvLines path fs = Inr ls"
  by (simp add: readEnvLines_def env_lines_render)

lemma patch_file_cases:
  assumes "ans_tmp a \<noteq> path" and "readEnvLines path fs = Inr ls" and "single_line u"
    and "patchEnvFile path allow u a fs = (res, fs')"
  shows "(\<exists>e. res = Inl e \<and> data_at fs' path = data_at fs path) \<or>
    (res = Inr (buildEnvFields allow (envValuesFromLines (patched_lines u ls))) \<and>
     readEnvLines path fs' = Inr (patched_lines u ls))"
proof -
  let ?w = "writeFileAtomic path (render_lines (patched_lines u ls)) a fs"
  have ok: "list_all ln_ok (patched_lines u ls)"
    by (rule patched_ok[OF read_lines_ok[OF assms(2)] assms(3)])
  show ?thesis
  proof (cases "w_err ?w")
    case None
    then have "data_at (w_fs ?w) path = Some (render_lines (patched_lines u ls))"
      using writeFileAtomic_data[OF assms(1), of "render_lines (patched_lines u ls)" fs] by simp
    then have "readEnvLines path (w_fs ?w) = Inr (patched_lines u ls)" using ok by (rule readEnvLines_data)
    with None show ?thesis using assms(2,4)
      by (auto simp: patchEnvFile_def writeEnvLinesAtomic_def Let_def)
  next
    case (Some e)
    then have "data_at (w_fs ?w) path = data_at fs path"
      using writeFileAtomic_data[OF assms(1), of "render_lines (patched_lines u ls)" fs] by simp
    with Some show ?thesis using assms(2,4)
      by (auto simp: patchEnvFile_def writeEnvLinesAtomic_def Let_def)
  qed
qed

section \<open>Server env files after a patch\<close>

lemma validate_server_env_iff:
  assumes "readEnvLines path fs = Inr ls"
  shows "validateServerEnvFile t path fs = Inr vals \<longleftrightarrow>
    list_all line_admitted ls \<and> vals = envValuesFromLines ls \<and>
    (\<exists>l. filter (key_is ''SERVER_ID'') ls = [l] \<and> ln_Value l = tg_ID t)"
  using assms
  by (auto simp: validateServerEnvFile_def validateV1ServerDefinition_def Let_def find_None_iff find_Some_iff
      list_all_iff length_Suc_conv split: option.splits if_splits)

lemma allowed_keys:
  assumes "validateEnvPatch u allow = None" and "(k, v) \<in> set u"
  shows "k \<in> fst ` set allow"
  using assms gm_has_iff[of allow k] by (force simp: validateEnvPatch_def list_ex_iff split: if_splits)

definition server_key_ok :: "string \<Rightarrow> bool" where
  "server_key_ok k \<longleftrightarrow> isEnvKey k \<and> k \<noteq> ''SERVER_ID'' \<and> \<not> has_prefix k ''V2_'' \<and> k \<notin> set v2ServerDefinitionKeys"

lemma server_allowlist_keys: "list_all (\<lambda>p. server_key_ok (fst p)) serverEnvAllowlist"
  by code_simp

lemma line_admitted_kv: "ln_IsKV l \<Longrightarrow> line_admitted l \<longleftrightarrow>
    \<not> has_prefix (ln_Key l) ''V2_'' \<and> ln_Key l \<notin> set v2ServerDefinitionKeys"
  by (simp add: line_admitted_def)

lemma patched_line_origin:
  assumes "gm_ok u" and "l \<in> set (patched_lines u ls)"
  shows "l \<in> set ls \<or> (\<exists>k. gm_has u k \<and> key_is k l)"
proof (cases "ln_IsKV l \<and> gm_has u (ln_Key l)")
  case True
  then show ?thesis by (auto simp: key_is_def)
next
  case False
  then have "l \<in> set (filter (\<lambda>l. \<not> (ln_IsKV l \<and> gm_has u (ln_Key l))) (patched_lines u ls))"
    using assms(2) by simp
  then show ?thesis unfolding patched_others by simp
qed

lemma patched_admitted:
  assumes "gm_ok u" and "validateEnvPatch u serverEnvAllowlist = None" and "list_all line_admitted ls"
  shows "list_all line_admitted (patched_lines u ls)" and "map_of u ''SERVER_ID'' = None"
proof -
  have ok: "server_key_ok k" if h: "gm_has u k" for k
  proof -
    obtain v where "(k, v) \<in> set u" using h map_of_SomeD[of u k] by auto
    then show ?thesis
      using allowed_keys[OF assms(2)] server_allowlist_keys by (force simp: list_all_iff)
  qed
  then show "map_of u ''SERVER_ID'' = None" by (force simp: server_key_ok_def)
  have "line_admitted l" if "l \<in> set (patched_lines u ls)" for l
    using patched_line_origin[OF assms(1) that]
  proof
    assume "l \<in> set ls" then show ?thesis using assms(3) by (simp add: list_all_iff)
  next
    assume "\<exists>k. gm_has u k \<and> key_is k l"
    then obtain k where k: "gm_has u k" "ln_IsKV l" "ln_Key l = k" unfolding key_is_def by blast
    then show ?thesis using ok[OF k(1)] line_admitted_kv[OF k(2)] by (simp add: server_key_ok_def)
  qed
  then show "list_all line_admitted (patched_lines u ls)" by (simp add: list_all_iff)
qed

section \<open>Properties of env files\<close>

text \<open>
  C33. The exact effect of a patch. A patch of distinct env keys with single-line values
  that reports success leaves a file that reads back as follows: for an updated key the
  first of its lines carries the new value and any further line of that key is as before;
  a key that is not updated, a comment and any other line keep text and order; and the
  response shows the fields of exactly these lines. A patch that reports an error has left
  the contents alone.
\<close>

theorem env_patch_exact:
  assumes "ans_tmp a \<noteq> path" and "readEnvLines path fs = Inr ls" and "gm_ok u" and "single_line u"
    and "patchEnvFile path allow u a fs = (res, fs')"
  shows "case res of
      Inl e \<Rightarrow> data_at fs' path = data_at fs path
    | Inr flds \<Rightarrow> (\<exists>ls'. readEnvLines path fs' = Inr ls' \<and>
        flds = buildEnvFields allow (envValuesFromLines ls') \<and>
        (\<forall>k. filter (key_is k) ls' = (case map_of u k of
             None \<Rightarrow> filter (key_is k) ls
           | Some v \<Rightarrow> kv_line k v # drop 1 (filter (key_is k) ls))) \<and>
        filter (\<lambda>l. \<not> (ln_IsKV l \<and> gm_has u (ln_Key l))) ls' =
          filter (\<lambda>l. \<not> (ln_IsKV l \<and> gm_has u (ln_Key l))) ls)"
  using patch_file_cases[OF assms(1,2,4,5)]
proof
  assume "\<exists>e. res = Inl e \<and> data_at fs' path = data_at fs path"
  then show ?thesis by auto
next
  assume r: "res = Inr (buildEnvFields allow (envValuesFromLines (patched_lines u ls))) \<and>
    readEnvLines path fs' = Inr (patched_lines u ls)"
  show ?thesis
    unfolding r[THEN conjunct1] sum.case
    by (intro exI[of _ "patched_lines u ls"] conjI allI patched_key[OF assms(3)] patched_others)
      (simp_all add: r)
qed

definition ex_env_text :: string where
  "ex_env_text = ''# pep'' @ [newline] @ ''SERVER_ID=pep1'' @ [newline] @ ''SERVER_NAME=Che'' @ [newline]"

definition ex_env_files :: "string files" where
  "ex_env_files = [''/e'' \<mapsto> \<lparr>f_mode = 384, f_owner = (0, 0), f_content = Synced ex_env_text\<rparr>]"

definition ex_env_lines :: "envLine list" where
  "ex_env_lines = [\<lparr>ln_Raw = ''# pep'', ln_Key = [], ln_Value = [], ln_IsKV = False\<rparr>,
     kv_line ''SERVER_ID'' ''pep1'', kv_line ''SERVER_NAME'' ''Che'']"

lemma ex_env_read: "readEnvLines ''/e'' ex_env_files = Inr ex_env_lines"
  by code_simp

definition ex_update :: env where
  "ex_update = [(''SERVER_NAME'', ''Wei'')]"

lemma ex_patch: "fst (patchEnvFile ''/e'' serverEnvAllowlist ex_update (all_well ''/t'') ex_env_files) =
    Inr (buildEnvFields serverEnvAllowlist [(''SERVER_ID'', ''pep1''), (''SERVER_NAME'', ''Wei'')])"
  by code_simp

theorem env_patch_exact_witness:
  "\<exists>ls'. readEnvLines ''/e''
      (snd (patchEnvFile ''/e'' serverEnvAllowlist ex_update (all_well ''/t'') ex_env_files)) = Inr ls' \<and>
    filter (key_is ''SERVER_NAME'') ls' = [kv_line ''SERVER_NAME'' ''Wei'']"
proof -
  have "gm_ok ex_update" "single_line ex_update" "ans_tmp (all_well ''/t'') \<noteq> ''/e''"
    "map_of ex_update ''SERVER_NAME'' = Some ''Wei''"
    "drop 1 (filter (key_is ''SERVER_NAME'') ex_env_lines) = []"
    by code_simp+
  then show ?thesis
    using env_patch_exact[OF _ ex_env_read, of "all_well ''/t''" ex_update serverEnvAllowlist,
        OF _ _ _ surjective_pairing] ex_patch by fastforce
qed

text \<open>
  A patch keeps a server env file valid. When the file declares the target and only
  the keys of its stack version, an accepted patch with single-line values leaves a file
  that still does, with the values of the patch where a key had at most one line.
\<close>

theorem patch_keeps_server_env_valid:
  assumes "validateServerEnvFile t path fs = Inr vals" and "validateEnvPatch u serverEnvAllowlist = None"
    and "ans_tmp a \<noteq> path" and "gm_ok u" and "single_line u"
    and "patchEnvFile path allow u a fs = (res, fs')"
  shows "\<exists>vals'. validateServerEnvFile t path fs' = Inr vals' \<and> map_of vals' ''SERVER_ID'' = Some (tg_ID t) \<and>
    (\<forall>k v flds. res = Inr flds \<longrightarrow> map_of u k = Some v \<longrightarrow>
      (\<forall>ls. readEnvLines path fs = Inr ls \<longrightarrow> length (filter (key_is k) ls) \<le> 1 \<longrightarrow> map_of vals' k = Some v))"
proof -
  obtain ls where ls: "readEnvLines path fs = Inr ls"
    using assms(1) by (auto simp: validateServerEnvFile_def split: sum.splits)
  then obtain l where valid: "list_all line_admitted ls" "vals = envValuesFromLines ls"
      "filter (key_is ''SERVER_ID'') ls = [l]" "ln_Value l = tg_ID t"
    using assms(1) validate_server_env_iff[OF ls] by auto
  have id_val: "map_of (envValuesFromLines ks) ''SERVER_ID'' = Some (tg_ID t)"
    if "filter (key_is ''SERVER_ID'') ks = [l]" for ks
    using that valid(4) by (simp add: env_values_last)
  from patch_file_cases[OF assms(3) ls assms(5,6)] show ?thesis
  proof
    assume "\<exists>e. res = Inl e \<and> data_at fs' path = data_at fs path"
    then obtain e where e: "res = Inl e" "data_at fs' path = data_at fs path" by blast
    then have "readEnvLines path fs' = Inr ls" using ls by (auto simp: readEnvLines_def split: option.splits)
    then have "validateServerEnvFile t path fs' = Inr vals"
      using valid validate_server_env_iff by blast
    with e(1) show ?thesis using id_val[OF valid(3)] valid(2) by auto
  next
    assume r: "res = Inr (buildEnvFields allow (envValuesFromLines (patched_lines u ls))) \<and>
      readEnvLines path fs' = Inr (patched_lines u ls)"
    let ?ls = "patched_lines u ls"
    have "filter (key_is ''SERVER_ID'') ?ls = [l]"
      using patched_key[OF assms(4)] patched_admitted(2)[OF assms(4,2) valid(1)] valid(3) by simp
    then have "validateServerEnvFile t path fs' = Inr (envValuesFromLines ?ls)"
      "map_of (envValuesFromLines ?ls) ''SERVER_ID'' = Some (tg_ID t)"
      using validate_server_env_iff[of path fs' ?ls] r patched_admitted(1)[OF assms(4,2) valid(1)] valid(4)
        id_val by blast+
    moreover have "map_of (envValuesFromLines ?ls) k = Some v"
      if "map_of u k = Some v" "length (filter (key_is k) ls) \<le> 1" for k v
      using that by (simp add: env_values_last patched_key[OF assms(4)] kv_line_def)
    ultimately show ?thesis using ls by auto
  qed
qed

definition ex_env_target :: serverTarget where
  "ex_env_target = \<lparr>tg_ID = ''pep1'', tg_InternalKey = ''spep1'', tg_Project = ''opensamguk-spep1'',
     tg_EnvFile = ''/e''\<rparr>"

theorem patch_keeps_server_env_valid_witness:
  "\<exists>vals'. validateServerEnvFile ex_env_target ''/e''
     (snd (patchEnvFile ''/e'' serverEnvAllowlist ex_update (all_well ''/t'') ex_env_files)) = Inr vals' \<and>
     map_of vals' ''SERVER_ID'' = Some ''pep1''"
proof -
  have "validateServerEnvFile ex_env_target ''/e'' ex_env_files =
      Inr [(''SERVER_ID'', ''pep1''), (''SERVER_NAME'', ''Che'')]"
    "validateEnvPatch ex_update serverEnvAllowlist = None" "ans_tmp (all_well ''/t'') \<noteq> ''/e''"
    "gm_ok ex_update" "single_line ex_update" "tg_ID ex_env_target = ''pep1''"
    by code_simp+
  then show ?thesis
    using patch_keeps_server_env_valid[of ex_env_target "''/e''" ex_env_files _ ex_update "all_well ''/t''"
        serverEnvAllowlist, OF _ _ _ _ _ surjective_pairing] by fastforce
qed

text \<open>
  A value with a line break escapes the allowlist. An env request may set only keys of
  the allowlist, but nothing forbids a line break in a value: this accepted patch of
  SERVER_NAME writes a second SERVER_ID line into the server's file, after which the file
  is no longer valid for its server.
\<close>

theorem env_patch_injects_line:
  "let u = [(''SERVER_NAME'', ''Wei'' @ [newline] @ ''SERVER_ID=other'')];
       (res, fs') = patchEnvFile ''/e'' serverEnvAllowlist u (all_well ''/t'') ex_env_files
   in validateEnvPatch u serverEnvAllowlist = None \<and> \<not> gm_has serverEnvAllowlist ''SERVER_ID'' \<and> is_ok res \<and>
      readEnvValues ''/e'' fs' = Inr [(''SERVER_ID'', ''other''), (''SERVER_NAME'', ''Wei'')] \<and>
      \<not> is_ok (validateServerEnvFile ex_env_target ''/e'' fs')"
  by code_simp

text \<open>
  Responses do not depend on secrets. Two files that agree on every readable field of
  the allowlist, and on whether each write-only field is set and is empty, give the same
  response to an env read; and no response carries the value of a write-only field.
\<close>

theorem env_response_hides_secrets:
  assumes "readEnvLines path fs = Inr ls" and "readEnvLines path' fs' = Inr ls'" and "gm_ok allow"
    and "\<And>k spec. map_of allow k = Some spec \<Longrightarrow>
      (let v = map_of (envValuesFromLines ls) k; v' = map_of (envValuesFromLines ls') k in
       if es_WriteOnly spec then (v = None \<longleftrightarrow> v' = None) \<and> (v = Some [] \<longleftrightarrow> v' = Some []) else v = v')"
  shows "readEnvFields path allow fs = readEnvFields path' allow fs' \<and>
    (\<forall>flds k f. readEnvFields path allow fs = Inr flds \<longrightarrow> (k, f) \<in> set flds \<longrightarrow>
       k \<in> fst ` set allow \<and> (ef_WriteOnly f \<longrightarrow> ef_Value f = None))"
proof -
  let ?v = "envValuesFromLines ls" and ?v' = "envValuesFromLines ls'"
  have "env_field ?v k spec = env_field ?v' k spec" if "(k, spec) \<in> set allow" for k spec
    using assms(4)[of k spec] that assms(3)
    by (auto simp: env_field_def gm_str_def Let_def map_of_is_SomeI split: if_splits option.splits)
  then have "buildEnvFields allow ?v = buildEnvFields allow ?v'"
    by (auto simp: buildEnvFields_def gm_map_def)
  moreover have "k \<in> fst ` set allow \<and> (ef_WriteOnly f \<longrightarrow> ef_Value f = None)"
    if "(k, f) \<in> set (buildEnvFields allow ?v)" for k f
    using that by (force simp: buildEnvFields_def gm_map_def env_field_def)
  ultimately show ?thesis using assms(1,2) by (auto simp: readEnvFields_def)
qed

definition ex_secret_files :: "string \<Rightarrow> string files" where
  "ex_secret_files s = [''/e'' \<mapsto> \<lparr>f_mode = 384, f_owner = (0, 0),
     f_content = Synced (''ADMIN_PASSWORD='' @ s @ [newline])\<rparr>]"

theorem env_response_hides_secrets_witness:
  "readEnvFields ''/e'' sharedEnvAllowlist (ex_secret_files ''abc'') =
   readEnvFields ''/e'' sharedEnvAllowlist (ex_secret_files ''xyz'')"
proof -
  have r: "readEnvLines ''/e'' (ex_secret_files ''abc'') = Inr [kv_line ''ADMIN_PASSWORD'' ''abc'']"
    "readEnvLines ''/e'' (ex_secret_files ''xyz'') = Inr [kv_line ''ADMIN_PASSWORD'' ''xyz'']"
    "gm_ok sharedEnvAllowlist"
    "map_of sharedEnvAllowlist ''ADMIN_PASSWORD'' = Some \<lparr>es_WriteOnly = True\<rparr>"
    by code_simp+
  show ?thesis
    by (rule env_response_hides_secrets[OF r(1,2,3), THEN conjunct1])
      (use r(4) in \<open>auto simp: env_values_last key_is_def kv_line_def Let_def\<close>)
qed

end
