(* ===== verification/Json.thy ===== *)
theory Json
  imports GoText
begin

text \<open>
  What the deployer uses of Go's \<open>encoding/json\<close> on texts: the values of the format, the
  compact output of \<open>json.Marshal\<close> with its escapes, and the parser behind
  \<open>json.Unmarshal\<close>. The theorems are that the parser's fuel is enough for every text and
  that it reads back every printed value.
\<close>

section \<open>Values and output\<close>

datatype json = JNull | JBool bool | JNum string | JStr string | JArr "json list"
  | JObj "(string \<times> json) list"

text \<open>The length of the valid UTF-8 encoding a text starts with, 0 when there is none.\<close>

definition utf8_2 :: "char \<Rightarrow> char \<Rightarrow> bool" where
  "utf8_2 a b \<longleftrightarrow> in_bytes 194 223 a \<and> cont b"

definition utf8_3 :: "char \<Rightarrow> char \<Rightarrow> char \<Rightarrow> bool" where
  "utf8_3 a b c \<longleftrightarrow> (byte a = 224 \<and> in_bytes 160 191 b \<or> in_bytes 225 236 a \<and> cont b \<or>
     byte a = 237 \<and> in_bytes 128 159 b \<or> in_bytes 238 239 a \<and> cont b) \<and> cont c"

definition utf8_4 :: "char \<Rightarrow> char \<Rightarrow> char \<Rightarrow> char \<Rightarrow> bool" where
  "utf8_4 a b c d \<longleftrightarrow> (byte a = 240 \<and> in_bytes 144 191 b \<or> in_bytes 241 243 a \<and> cont b \<or>
     byte a = 244 \<and> in_bytes 128 143 b) \<and> cont c \<and> cont d"

fun utf8_len :: "string \<Rightarrow> nat" where
  "utf8_len [] = 0"
| "utf8_len (a # s) =
     (if byte a < 128 then 1
      else case s of
        [] \<Rightarrow> 0
      | b # s2 \<Rightarrow>
          if utf8_2 a b then 2
          else (case s2 of
            [] \<Rightarrow> 0
          | c # s3 \<Rightarrow>
              if utf8_3 a b c then 3
              else (case s3 of [] \<Rightarrow> 0 | d # s4 \<Rightarrow> if utf8_4 a b c d then 4 else 0)))"

definition hex_char :: "nat \<Rightarrow> char" where
  "hex_char n = char_of (if n < 10 then 48 + n else 87 + n)"

abbreviation backslash :: char where "backslash \<equiv> CHR 0x5C"
abbreviation quote :: char where "quote \<equiv> CHR 0x22"

definition escape_char :: "char \<Rightarrow> string" where
  "escape_char c =
     (if c = quote \<or> c = backslash then [backslash, c]
      else if byte c = 8 then [backslash, CHR ''b'']
      else if byte c = 12 then [backslash, CHR ''f'']
      else if byte c = 10 then [backslash, CHR ''n'']
      else if byte c = 13 then [backslash, CHR ''r'']
      else if byte c = 9 then [backslash, CHR ''t'']
      else if byte c < 32 \<or> c \<in> set ''<>&''
      then [backslash, CHR ''u'', CHR ''0'', CHR ''0'', hex_char (byte c div 16), hex_char (byte c mod 16)]
      else [c])"

function json_escape :: "string \<Rightarrow> string" where
  "json_escape [] = []"
| "json_escape (c # s) =
     (if byte c < 128 then escape_char c @ json_escape s
      else let n = utf8_len (c # s); ch = take n (c # s) in
        if n = 0 then backslash # ''ufffd'' @ json_escape s
        else (if ch = [CHR 0xE2, CHR 0x80, CHR 0xA8] then backslash # ''u2028''
              else if ch = [CHR 0xE2, CHR 0x80, CHR 0xA9] then backslash # ''u2029''
              else ch) @ json_escape (drop n (c # s)))"
  by pat_completeness auto
termination by (relation "measure length") auto

definition json_string :: "string \<Rightarrow> string" where
  "json_string s = quote # json_escape s @ [quote]"

fun json_text :: "json \<Rightarrow> string" where
  "json_text JNull = ''null''"
| "json_text (JBool b) = boolText b"
| "json_text (JNum s) = s"
| "json_text (JStr s) = json_string s"
| "json_text (JArr js) = ''['' @ join_with '','' (map json_text js) @ '']''"
| "json_text (JObj ms) = ''{'' @ join_with '','' (map (\<lambda>(k, v). json_string k @ '':'' @ json_text v) ms) @ ''}''"

section \<open>Parsing\<close>

definition skip_ws :: "string \<Rightarrow> string" where
  "skip_ws s = dropWhile (\<lambda>c. byte c \<in> {9, 10, 13, 32}) s"

definition hex_value :: "char \<Rightarrow> nat option" where
  "hex_value c =
     (if is_digit c then Some (byte c - 48)
      else if in_bytes 97 102 c then Some (byte c - 87)
      else if in_bytes 65 70 c then Some (byte c - 55) else None)"

fun hex4 :: "string \<Rightarrow> nat option" where
  "hex4 (a # b # c # d # s) =
     (case (hex_value a, hex_value b, hex_value c, hex_value d) of
        (Some x, Some y, Some z, Some w) \<Rightarrow> Some (((x * 16 + y) * 16 + z) * 16 + w)
      | _ \<Rightarrow> None)"
| "hex4 _ = None"

definition unescape :: "char \<Rightarrow> char option" where
  "unescape e = map_of
     [(quote, quote), (backslash, backslash), (CHR ''/'', CHR ''/''), (CHR ''b'', CHR 0x08),
      (CHR ''f'', CHR 0x0C), (CHR ''n'', CHR 0x0A), (CHR ''r'', CHR 0x0D), (CHR ''t'', CHR 0x09)] e"

definition low_surrogate :: "string \<Rightarrow> nat option" where
  "low_surrogate s =
     (if has_prefix s (backslash # ''u'')
      then Option.bind (hex4 (drop 2 s)) (\<lambda>u. if 56320 \<le> u \<and> u < 57344 then Some u else None)
      else None)"

definition prefixed :: "string \<Rightarrow> (string \<times> string) option \<Rightarrow> (string \<times> string) option" where
  "prefixed p r = map_option (\<lambda>(s, rest). (p @ s, rest)) r"

text \<open>The text after the opening quote; the string and what follows its closing quote.\<close>

function parse_string :: "string \<Rightarrow> (string \<times> string) option" where
  "parse_string [] = None"
| "parse_string (c # s) =
     (if c = quote then Some ([], s)
      else if c = backslash then
        (case s of
           [] \<Rightarrow> None
         | e # t \<Rightarrow>
             if e = CHR ''u'' then
               (case hex4 t of
                  None \<Rightarrow> None
                | Some u \<Rightarrow>
                    if 55296 \<le> u \<and> u < 56320 then
                      (case low_surrogate (drop 4 t) of
                         Some lo \<Rightarrow> prefixed (utf8_encode (65536 + (u - 55296) * 1024 + (lo - 56320)))
                                      (parse_string (drop 10 t))
                       | None \<Rightarrow> prefixed (utf8_encode 65533) (parse_string (drop 4 t)))
                    else prefixed (utf8_encode (if 56320 \<le> u \<and> u < 57344 then 65533 else u))
                           (parse_string (drop 4 t)))
             else (case unescape e of None \<Rightarrow> None | Some d \<Rightarrow> prefixed [d] (parse_string t)))
      else if byte c < 32 then None
      else let n = utf8_len (c # s) in
        if n = 0 then prefixed (utf8_encode 65533) (parse_string s)
        else prefixed (take n (c # s)) (parse_string (drop n (c # s))))"
  by pat_completeness auto
termination by (relation "measure length") auto

definition digits1 :: "string \<Rightarrow> (string \<times> string) option" where
  "digits1 s = (if takeWhile is_digit s = [] then None
                else Some (takeWhile is_digit s, dropWhile is_digit s))"

definition number_int :: "string \<Rightarrow> (string \<times> string) option" where
  "number_int s = (case s of CHR ''0'' # r \<Rightarrow> Some (''0'', r) | _ \<Rightarrow> digits1 s)"

definition number_frac :: "string \<Rightarrow> (string \<times> string) option" where
  "number_frac s = (case s of CHR ''.'' # r \<Rightarrow> prefixed ''.'' (digits1 r) | _ \<Rightarrow> Some ([], s))"

definition number_exp :: "string \<Rightarrow> (string \<times> string) option" where
  "number_exp s =
     (case s of
        e # r \<Rightarrow>
          if e \<in> set ''eE''
          then (case r of
              g # t \<Rightarrow> if g \<in> set ''+-'' then prefixed [e, g] (digits1 t) else prefixed [e] (digits1 r)
            | [] \<Rightarrow> None)
          else Some ([], s)
      | [] \<Rightarrow> Some ([], s))"

definition parse_number :: "string \<Rightarrow> (string \<times> string) option" where
  "parse_number s =
     (let (sign, s1) = (case s of CHR ''-'' # r \<Rightarrow> (''-'', r) | _ \<Rightarrow> ([], s)) in
      Option.bind (number_int s1) (\<lambda>(ds, s2).
      Option.bind (number_frac s2) (\<lambda>(fs, s3).
      map_option (\<lambda>(es, s4). (sign @ ds @ fs @ es, s4)) (number_exp s3))))"

definition parse_word :: "string \<Rightarrow> json \<Rightarrow> string \<Rightarrow> (json \<times> string) option" where
  "parse_word w j s = (if has_prefix s w then Some (j, drop (length w) s) else None)"

definition byte_after :: "char \<Rightarrow> string \<Rightarrow> string option" where
  "byte_after c s = (case skip_ws s of [] \<Rightarrow> None | d # t \<Rightarrow> if d = c then Some t else None)"

fun parse_value :: "nat \<Rightarrow> string \<Rightarrow> (json \<times> string) option"
  and parse_elems :: "nat \<Rightarrow> string \<Rightarrow> (json list \<times> string) option"
  and parse_members :: "nat \<Rightarrow> string \<Rightarrow> ((string \<times> json) list \<times> string) option" where
  "parse_value 0 s = None"
| "parse_value (Suc n) s =
     (case skip_ws s of
        [] \<Rightarrow> None
      | c # r \<Rightarrow>
          if c = quote then map_option (\<lambda>(v, t). (JStr v, t)) (parse_string r)
          else if c = CHR ''['' then
            (case byte_after CHR '']'' r of
               Some t \<Rightarrow> Some (JArr [], t)
             | None \<Rightarrow> map_option (\<lambda>(vs, t). (JArr vs, t)) (parse_elems n r))
          else if c = CHR ''{'' then
            (case byte_after CHR ''}'' r of
               Some t \<Rightarrow> Some (JObj [], t)
             | None \<Rightarrow> map_option (\<lambda>(ms, t). (JObj ms, t)) (parse_members n r))
          else if c = CHR ''t'' then parse_word ''true'' (JBool True) (c # r)
          else if c = CHR ''f'' then parse_word ''false'' (JBool False) (c # r)
          else if c = CHR ''n'' then parse_word ''null'' JNull (c # r)
          else map_option (\<lambda>(v, t). (JNum v, t)) (parse_number (c # r)))"
| "parse_elems 0 s = None"
| "parse_elems (Suc n) s =
     (case parse_value n s of
        None \<Rightarrow> None
      | Some (v, t) \<Rightarrow>
          (case skip_ws t of
             [] \<Rightarrow> None
           | c # u \<Rightarrow>
               if c = CHR '','' then map_option (\<lambda>(vs, r). (v # vs, r)) (parse_elems n u)
               else if c = CHR '']'' then Some ([v], u) else None))"
| "parse_members 0 s = None"
| "parse_members (Suc n) s =
     (case skip_ws s of
        [] \<Rightarrow> None
      | q # s1 \<Rightarrow>
          if q \<noteq> quote then None
          else case parse_string s1 of
            None \<Rightarrow> None
          | Some (k, s2) \<Rightarrow>
              (case skip_ws s2 of
                 [] \<Rightarrow> None
               | col # s3 \<Rightarrow>
                   if col \<noteq> CHR '':'' then None
                   else case parse_value n s3 of
                     None \<Rightarrow> None
                   | Some (v, t) \<Rightarrow>
                       (case skip_ws t of
                          [] \<Rightarrow> None
                        | c # u \<Rightarrow>
                            if c = CHR '','' then map_option (\<lambda>(ms, r). ((k, v) # ms, r)) (parse_members n u)
                            else if c = CHR ''}'' then Some ([(k, v)], u) else None)))"

text \<open>
  Each nesting level takes two units of fuel and at least one byte of the text, so twice
  the length is enough (\<open>parse_fuel_enough\<close>).
\<close>

definition parse_json :: "string \<Rightarrow> json option" where
  "parse_json s =
     (case parse_value (2 * length s) s of
        None \<Rightarrow> None
      | Some (v, r) \<Rightarrow> if skip_ws r = [] then Some v else None)"

section \<open>The fuel is enough\<close>

lemma skip_ws_length: "length (skip_ws s) \<le> length s"
  by (simp add: skip_ws_def length_dropWhile_le)

lemma prefixed_Some: "prefixed p r = Some (v, t) \<longleftrightarrow> (\<exists>w. r = Some (w, t) \<and> v = p @ w)"
  by (cases r) (auto simp: prefixed_def)

lemma parse_string_length: "parse_string s = Some (v, t) \<Longrightarrow> length t < length s"
proof (induction s arbitrary: v t rule: parse_string.induct)
  case (2 c s)
  show ?case
  proof (cases "c = quote \<or> c = backslash")
    case True
    then show ?thesis using "2.prems" "2.IH"(1-4)
      by (auto simp: prefixed_Some split: if_splits list.splits option.splits) (fastforce)+
  next
    case False
    then show ?thesis using "2.prems" "2.IH"(5,6)
      by (auto simp: prefixed_Some Let_def split: if_splits) fastforce+
  qed
qed simp

lemma digits1_length: "digits1 s = Some (v, t) \<Longrightarrow> length t < length s"
proof -
  assume "digits1 s = Some (v, t)"
  then have "takeWhile is_digit s \<noteq> []" "t = dropWhile is_digit s"
    by (auto simp: digits1_def split: if_splits)
  then show ?thesis using arg_cong[OF takeWhile_dropWhile_id[of is_digit s], of length]
    by (cases "takeWhile is_digit s") (simp_all del: takeWhile_dropWhile_id takeWhile_eq_Nil_iff)
qed

lemma number_int_length: "number_int s = Some (v, t) \<Longrightarrow> length t < length s"
  using digits1_length[of s]
  by (auto simp: number_int_def split: list.splits char.splits bool.splits)

lemma number_frac_length: "number_frac s = Some (v, t) \<Longrightarrow> length t \<le> length s"
  using digits1_length
  by (fastforce simp: number_frac_def prefixed_Some split: list.splits char.splits bool.splits)

lemma number_exp_length: "number_exp s = Some (v, t) \<Longrightarrow> length t \<le> length s"
  using digits1_length
  by (fastforce simp: number_exp_def prefixed_Some split: list.splits if_splits)

lemma parse_number_length: "parse_number s = Some (v, t) \<Longrightarrow> length t < length s"
proof -
  assume p: "parse_number s = Some (v, t)"
  obtain sign s1 where s1: "(case s of CHR ''-'' # r \<Rightarrow> (''-'', r) | _ \<Rightarrow> ([], s)) = (sign, s1)"
    by fastforce
  then have "length s1 \<le> length s" by (auto split: list.splits char.splits bool.splits)
  moreover have "length t < length s1"
    using p number_int_length number_frac_length number_exp_length
    by (fastforce simp: parse_number_def s1 bind_eq_Some_conv)
  ultimately show ?thesis by simp
qed

lemma parse_word_length: "w \<noteq> [] \<Longrightarrow> parse_word w j s = Some (v, t) \<Longrightarrow> length t < length s"
  by (auto simp: parse_word_def split: if_splits dest!: has_prefixE)

lemma skip_ws_Cons: "skip_ws s = c # r \<Longrightarrow> length r < length s"
  using skip_ws_length[of s] by simp

lemma byte_after_length: "byte_after c s = Some t \<Longrightarrow> length t < length s"
  using skip_ws_Cons[of s] by (auto simp: byte_after_def split: list.splits if_splits)

lemma parse_fuel:
  "parse_value n s = Some (v, t) \<Longrightarrow>
     length t < length s \<and> (\<forall>m. 2 * length s \<le> m \<longrightarrow> parse_value m s = Some (v, t))"
  "parse_elems n s = Some (vs, t) \<Longrightarrow>
     length t < length s \<and> (\<forall>m. 2 * length s + 1 \<le> m \<longrightarrow> parse_elems m s = Some (vs, t))"
  "parse_members n s = Some (ms, t) \<Longrightarrow>
     length t < length s \<and> (\<forall>m. 2 * length s + 1 \<le> m \<longrightarrow> parse_members m s = Some (ms, t))"
proof (induction n s and n s and n s arbitrary: v t and vs t and ms t
    rule: parse_value_parse_elems_parse_members.induct)
  case (2 n s)
  obtain c r where c: "skip_ws s = c # r"
    using "2.prems" by (auto split: list.splits)
  have r: "length r < length s" by (rule skip_ws_Cons[OF c])
  have cr: "length (c # r) \<le> length s" using r by simp
  note simps = parse_value.simps(2) c list.case
  consider (str) "c = quote" | (arr) "c = CHR ''[''" | (obj) "c = CHR ''{''"
    | (scalar) "c \<noteq> quote" "c \<noteq> CHR ''[''" "c \<noteq> CHR ''{''" by blast
  then show ?case
  proof cases
    case str
    then obtain w where w: "parse_string r = Some (w, t)" "v = JStr w" using "2.prems" unfolding simps by auto
    moreover have "parse_value m s = Some (v, t)" if "2 * length s \<le> m" for m
      using that r c w str by (cases m) simp_all
    ultimately show ?thesis using parse_string_length[of r] r by fastforce
  next
    case arr
    show ?thesis
    proof (cases "byte_after CHR '']'' r")
      case None
      obtain vs where e: "parse_elems n r = Some (vs, t)" "v = JArr vs"
        using "2.prems" arr None unfolding simps by auto
      have IH: "length t < length r" "\<And>m. 2 * length r + 1 \<le> m \<Longrightarrow> parse_elems m r = Some (vs, t)"
        using "2.IH"(1)[OF c _ arr None e(1)] arr by auto
      have "parse_value m s = Some (v, t)" if m: "2 * length s \<le> m" for m
      proof (cases m)
        case (Suc m')
        then have "parse_elems m' r = Some (vs, t)" using m r by (intro IH(2)) simp
        then show ?thesis using Suc arr None e(2) c by simp
      qed (use m r in simp)
      then show ?thesis using IH(1) r by auto
    next
      case (Some u)
      then have u: "u = t" "v = JArr []" using "2.prems" arr unfolding simps by auto
      have "parse_value m s = Some (v, t)" if "2 * length s \<le> m" for m
        using that r c u arr Some by (cases m) simp_all
      then show ?thesis using byte_after_length[OF Some] u r by auto
    qed
  next
    case obj
    show ?thesis
    proof (cases "byte_after CHR ''}'' r")
      case None
      obtain ms where e: "parse_members n r = Some (ms, t)" "v = JObj ms"
        using "2.prems" obj None unfolding simps by auto
      have IH: "length t < length r" "\<And>m. 2 * length r + 1 \<le> m \<Longrightarrow> parse_members m r = Some (ms, t)"
        using "2.IH"(2)[OF c _ _ obj None e(1)] obj by auto
      have "parse_value m s = Some (v, t)" if m: "2 * length s \<le> m" for m
      proof (cases m)
        case (Suc m')
        then have "parse_members m' r = Some (ms, t)" using m r by (intro IH(2)) simp
        then show ?thesis using Suc obj None e(2) c by simp
      qed (use m r in simp)
      then show ?thesis using IH(1) r by auto
    next
      case (Some u)
      then have u: "u = t" "v = JObj []" using "2.prems" obj unfolding simps by auto
      have "parse_value m s = Some (v, t)" if "2 * length s \<le> m" for m
        using that r c u obj Some by (cases m) simp_all
      then show ?thesis using byte_after_length[OF Some] u r by auto
    qed
  next
    case scalar
    have same: "parse_value (Suc m') s = parse_value (Suc n) s" for m'
      using scalar unfolding simps by simp
    have "parse_value m s = Some (v, t)" if "2 * length s \<le> m" for m
      using that r "2.prems" same by (cases m) simp_all
    moreover have "length t < length (c # r)"
      using "2.prems" scalar parse_number_length[of "c # r"] parse_word_length[of "''true''" _ "c # r"]
        parse_word_length[of "''false''" _ "c # r"] parse_word_length[of "''null''" _ "c # r"]
      unfolding simps by (simp split: if_splits) (metis option.inject prod.inject)+
    ultimately show ?thesis using cr by auto
  qed
next
  case (4 n s)
  obtain w u c x where p: "parse_value n s = Some (w, u)" "skip_ws u = c # x"
    using "4.prems" by (auto split: option.splits list.splits)
  have w: "length u < length s" "\<And>m. 2 * length s \<le> m \<Longrightarrow> parse_value m s = Some (w, u)"
    using "4.IH"(1)[OF p(1)] by auto
  have x: "length x < length s" using skip_ws_Cons[OF p(2)] w(1) by simp
  have "length t < length s"
  proof (cases "c = CHR '',''")
    case True
    then obtain ws where "parse_elems n x = Some (ws, t)" using "4.prems" p by auto
    then have "length t < length x" by (rule "4.IH"(2)[OF p(1) refl p(2) True, THEN conjunct1])
    then show ?thesis using x by simp
  next
    case False
    then show ?thesis using "4.prems" p x by (auto split: if_splits)
  qed
  moreover have "parse_elems m s = Some (vs, t)" if m: "2 * length s + 1 \<le> m" for m
  proof -
    obtain m' where m': "m = Suc m'" "2 * length s \<le> m'" "2 * length x + 1 \<le> m'"
      using m x by (cases m) auto
    show ?thesis
    proof (cases "c = CHR '',''")
      case True
      then obtain ws where ws: "parse_elems n x = Some (ws, t)" "vs = w # ws" using "4.prems" p by auto
      then have "parse_elems m' x = Some (ws, t)"
        using "4.IH"(2)[OF p(1) refl p(2) True ws(1)] m'(3) by blast
      then show ?thesis using True ws(2) m'(1) w(2)[OF m'(2)] p(2) by simp
    next
      case False
      then show ?thesis using "4.prems" p w(2)[OF m'(2)] m'(1) by simp
    qed
  qed
  ultimately show ?case by blast
next
  case (6 n s)
  obtain s1 k s2 s3 w u c x where p: "skip_ws s = quote # s1" "parse_string s1 = Some (k, s2)"
      "skip_ws s2 = CHR '':'' # s3" "parse_value n s3 = Some (w, u)" "skip_ws u = c # x"
    using "6.prems" by (auto split: option.splits list.splits if_splits)
  have l: "length s3 < length s"
    using skip_ws_Cons[OF p(1)] parse_string_length[OF p(2)] skip_ws_Cons[OF p(3)] by simp
  have w: "length u < length s3" "\<And>m. 2 * length s3 \<le> m \<Longrightarrow> parse_value m s3 = Some (w, u)"
    using "6.IH"(1)[OF p(1) _ p(2) refl p(3) _ p(4)] by auto
  have x: "length x < length s" using skip_ws_Cons[OF p(5)] w(1) l by simp
  have IH: "length t < length x \<and> (\<forall>m. 2 * length x + 1 \<le> m \<longrightarrow> parse_members m x = Some (ns, t))"
    if "c = CHR '',''" "parse_members n x = Some (ns, t)" for ns t
    by (rule "6.IH"(2)[OF p(1) _ p(2) refl p(3) _ p(4) refl p(5) that]) simp_all
  have "length t < length s"
  proof (cases "c = CHR '',''")
    case True
    then obtain ns where "parse_members n x = Some (ns, t)" using "6.prems" p by auto
    then have "length t < length x" by (rule IH[OF True, THEN conjunct1])
    then show ?thesis using x by simp
  next
    case False
    then show ?thesis using "6.prems" p x by (auto split: if_splits)
  qed
  moreover have "parse_members m s = Some (ms, t)" if m: "2 * length s + 1 \<le> m" for m
  proof -
    obtain m' where m': "m = Suc m'" "2 * length s3 \<le> m'" "2 * length x + 1 \<le> m'"
      using m x l by (cases m) auto
    show ?thesis
    proof (cases "c = CHR '',''")
      case True
      then obtain ns where ns: "parse_members n x = Some (ns, t)" "ms = (k, w) # ns"
        using "6.prems" p by auto
      then have "parse_members m' x = Some (ns, t)" using IH[OF True ns(1)] m'(3) by blast
      then show ?thesis using True ns(2) m'(1) w(2)[OF m'(2)] p by simp
    next
      case False
      then show ?thesis using "6.prems" p w(2)[OF m'(2)] m'(1) by simp
    qed
  qed
  ultimately show ?case by blast
qed simp_all

section \<open>Printed values are read back\<close>

function utf8_ok :: "string \<Rightarrow> bool" where
  "utf8_ok [] = True"
| "utf8_ok (c # s) =
     (if utf8_len (c # s) = 0 then False else utf8_ok (drop (utf8_len (c # s)) (c # s)))"
  by pat_completeness auto
termination by (relation "measure length") (auto simp del: utf8_len.simps)

fun json_ok :: "json \<Rightarrow> bool" where
  "json_ok JNull = True"
| "json_ok (JBool b) = True"
| "json_ok (JNum s) = (case atoi s of None \<Rightarrow> False | Some i \<Rightarrow> s = itoa i)"
| "json_ok (JStr s) = utf8_ok s"
| "json_ok (JArr js) = list_all json_ok js"
| "json_ok (JObj ms) = list_all (\<lambda>(k, v). utf8_ok k \<and> json_ok v) ms"

lemma ascii_utf8_ok: "list_all (\<lambda>c. byte c < 128) s \<Longrightarrow> utf8_ok s"
  by (induction s rule: utf8_ok.induct) auto

lemma hex_value_char: "n < 16 \<Longrightarrow> hex_value (hex_char n) = Some n"
  by (auto simp: hex_value_def hex_char_def go_defs in_bytes_def)

lemma byte_controls:
  "byte c = 8 \<longleftrightarrow> c = CHR 0x08" "byte c = 9 \<longleftrightarrow> c = CHR 0x09" "byte c = 10 \<longleftrightarrow> c = CHR 0x0A"
  "byte c = 12 \<longleftrightarrow> c = CHR 0x0C" "byte c = 13 \<longleftrightarrow> c = CHR 0x0D"
  using byte_inj[of c "CHR 0x08"] byte_inj[of c "CHR 0x09"] byte_inj[of c "CHR 0x0A"]
    byte_inj[of c "CHR 0x0C"] byte_inj[of c "CHR 0x0D"] by (simp_all add: byte_def)

lemma parse_escape_char:
  assumes "byte c < 128"
  shows "parse_string (escape_char c @ x) = prefixed [c] (parse_string x)"
proof (cases "c = quote \<or> c = backslash \<or> byte c \<in> {8, 12, 10, 13, 9}")
  case True
  then show ?thesis
    by (auto simp: escape_char_def byte_controls unescape_def)
next
  case False
  then have c: "c \<noteq> quote" "c \<noteq> backslash" "byte c \<noteq> 8" "byte c \<noteq> 12" "byte c \<noteq> 10" "byte c \<noteq> 13"
    "byte c \<noteq> 9" by auto
  show ?thesis
  proof (cases "byte c < 32 \<or> c \<in> set ''<>&''")
    case True
    have h: "hex4 (CHR ''0'' # CHR ''0'' # hex_char (byte c div 16) # hex_char (byte c mod 16) # x) = Some (byte c)"
      using assms by (simp add: hex_value_char) (simp add: hex_value_def is_digit_def in_bytes_def byte_def)
    have e: "escape_char c = [backslash, CHR ''u'', CHR ''0'', CHR ''0'', hex_char (byte c div 16), hex_char (byte c mod 16)]"
      using c True by (simp add: escape_char_def)
    have "utf8_encode (byte c) = [c]" using assms by (simp add: utf8_encode_def)
    then show ?thesis using h assms unfolding e by simp
  next
    case False
    then have "escape_char c = [c]" "32 \<le> byte c" using c by (auto simp: escape_char_def)
    then show ?thesis using c assms by simp
  qed
qed

lemma utf8_len_prefix: "0 < utf8_len s \<Longrightarrow> utf8_len (take (utf8_len s) s @ x) = utf8_len s"
  by (cases s rule: utf8_len.cases) (auto split: list.splits if_splits)

lemma utf8_len_le: "utf8_len s \<le> length s"
  by (cases s rule: utf8_len.cases) (auto split: list.splits if_splits)

lemma parse_line_separators:
  "parse_string (backslash # ''u2028'' @ x) = prefixed [CHR 0xE2, CHR 0x80, CHR 0xA8] (parse_string x)"
  "parse_string (backslash # ''u2029'' @ x) = prefixed [CHR 0xE2, CHR 0x80, CHR 0xA9] (parse_string x)"
proof -
  have "hex4 (''2028'' @ x) = Some 8232" "hex4 (''2029'' @ x) = Some 8233"
    by (simp_all add: hex_value_def is_digit_def in_bytes_def byte_def)
  moreover have "utf8_encode 8232 = [CHR 0xE2, CHR 0x80, CHR 0xA8]" "utf8_encode 8233 = [CHR 0xE2, CHR 0x80, CHR 0xA9]"
    by (simp_all add: utf8_encode_def char_of_eq_iff take_bit_eq_mod)
  ultimately show
    "parse_string (backslash # ''u2028'' @ x) = prefixed [CHR 0xE2, CHR 0x80, CHR 0xA8] (parse_string x)"
    "parse_string (backslash # ''u2029'' @ x) = prefixed [CHR 0xE2, CHR 0x80, CHR 0xA9] (parse_string x)"
    by simp_all
qed

lemma parse_chunk:
  assumes "\<not> byte c < 128" and "n = utf8_len (c # s)" and "n \<noteq> 0"
  shows "parse_string (take n (c # s) @ x) = prefixed (take n (c # s)) (parse_string x)"
proof -
  obtain t where t: "take n (c # s) = c # t" using assms(3) by (cases n) auto
  have len: "utf8_len (c # t @ x) = n" using utf8_len_prefix[of "c # s" x] assms t by simp
  have "length (c # t) = n" using utf8_len_le[of "c # s"] assms(2) t by (metis length_take min.absorb2)
  moreover have "c \<noteq> quote" "c \<noteq> backslash" using assms(1) by (auto simp: byte_def)
  ultimately show ?thesis using assms(1,3) len t by (auto simp: Let_def)
qed

lemma parse_escape: "utf8_ok s \<Longrightarrow> parse_string (json_escape s @ quote # rest) = Some (s, rest)"
proof (induction s rule: utf8_ok.induct)
  case (2 c s)
  let ?n = "utf8_len (c # s)" and ?ch = "take (utf8_len (c # s)) (c # s)"
  have n: "?n \<noteq> 0" and IH: "parse_string (json_escape (drop ?n (c # s)) @ quote # rest) = Some (drop ?n (c # s), rest)"
    using "2.prems" "2.IH" by (simp_all split: if_splits del: utf8_len.simps)
  have join: "?ch @ drop ?n (c # s) = c # s" by (rule append_take_drop_id)
  show ?case
  proof (cases "byte c < 128")
    case True
    then show ?thesis using IH by (simp add: parse_escape_char prefixed_def)
  next
    case False
    have "parse_string (json_escape (c # s) @ quote # rest) =
        prefixed ?ch (parse_string (json_escape (drop ?n (c # s)) @ quote # rest))"
      using False n parse_chunk[OF False refl n] parse_line_separators
      by (simp add: Let_def del: utf8_len.simps parse_string.simps)
    then show ?thesis unfolding IH by (simp add: prefixed_def join del: utf8_len.simps)
  qed
qed simp

text \<open>What may follow a value inside an array or object, or at the end of the text.\<close>

definition delim :: "string \<Rightarrow> bool" where
  "delim r \<longleftrightarrow> r = [] \<or> hd r \<in> {CHR '','', CHR '']'', CHR ''}''}"

lemma dec_no_leading_zero: "hd (dec n) = CHR ''0'' \<Longrightarrow> dec n = ''0''"
proof (induction n rule: dec.induct)
  case (1 n)
  show ?case
  proof (cases "n < 10")
    case True
    have "n = 0" if "digit_char n = CHR ''0''"
      using digit_value_char[OF True] by (simp add: that digit_value_def byte_def)
    with True "1.prems" show ?thesis by (subst dec.simps, subst (asm) dec.simps) (auto simp: digit_char_def)
  next
    case False
    then have "hd (dec n) = hd (dec (n div 10))" by (subst dec.simps) simp
    with "1.prems" "1.IH"[OF False] have "dec (n div 10) = ''0''" by simp
    then have "n div 10 = dec_value ''0''" by (metis dec_value_dec)
    with False show ?thesis by (simp add: dec_value_def digit_value_def byte_def)
  qed
qed

lemma takeWhile_digits: "list_all is_digit ds \<Longrightarrow> delim r \<Longrightarrow>
    takeWhile is_digit (ds @ r) = ds \<and> dropWhile is_digit (ds @ r) = r"
proof -
  assume d: "list_all is_digit ds" and r: "delim r"
  have "takeWhile is_digit r = [] \<and> dropWhile is_digit r = r"
    using r by (cases r) (auto simp: delim_def go_defs in_bytes_def byte_def)
  then show ?thesis using d by (simp add: list_all_iff takeWhile_append2 dropWhile_append2)
qed

lemma number_int_dec:
  assumes "delim r"
  shows "number_int (dec n @ r) = Some (dec n, r)"
proof (cases "hd (dec n) = CHR ''0''")
  case True
  then show ?thesis using dec_no_leading_zero[OF True] by (simp add: number_int_def)
next
  case False
  obtain d ds where d: "dec n = d # ds" using dec_nonempty[of n] by (cases "dec n") auto
  then have "number_int (dec n @ r) = digits1 (dec n @ r)"
    using False by (auto simp: number_int_def split: char.splits bool.splits)
  then show ?thesis using takeWhile_digits[OF dec_digits[of n] assms] by (simp add: digits1_def)
qed

lemma number_tail: "delim r \<Longrightarrow> number_frac r = Some ([], r) \<and> number_exp r = Some ([], r)"
  by (cases r) (auto simp: delim_def number_frac_def number_exp_def)

lemma parse_number_itoa:
  assumes "delim r"
  shows "parse_number (itoa i @ r) = Some (itoa i, r)"
proof -
  have "(case dec n @ r of CHR ''-'' # r \<Rightarrow> (''-'', r) | _ \<Rightarrow> ([], dec n @ r)) = ([], dec n @ r)" for n
    using dec_hd(1)[of n] dec_nonempty[of n]
    by (cases "dec n") (auto split: char.splits bool.splits)
  then show ?thesis
    using number_int_dec[OF assms] number_tail[OF assms]
    by (auto simp: parse_number_def itoa_def)
qed

lemma itoa_hd: "\<exists>c t. itoa i = c # t \<and> (is_digit c \<or> c = CHR ''-'')"
proof -
  have "\<exists>c t. dec n = c # t \<and> is_digit c" for n
    using dec_digits[of n] dec_nonempty[of n] by (cases "dec n") auto
  from this[of "nat i"] this[of "nat (- i)"] show ?thesis by (cases "i < 0") (auto simp: itoa_def)
qed

lemma json_text_hd:
  assumes "json_ok j"
  shows "\<exists>c t. json_text j = c # t \<and> byte c \<notin> {9, 10, 13, 32} \<and> c \<noteq> CHR '']'' \<and> c \<noteq> CHR ''}''"
proof (cases j)
  case (JNum x)
  then obtain i where "x = itoa i" using assms by (auto split: option.splits)
  then show ?thesis using itoa_hd[of i] JNum by (auto simp: go_defs in_bytes_def byte_def)
qed (simp_all add: json_string_def boolText_def byte_def)

lemma skip_ws_text: "json_ok j \<Longrightarrow> skip_ws (json_text j @ x) = json_text j @ x"
  using json_text_hd[of j] by (auto simp: skip_ws_def)

lemma skip_ws_delim: "delim r \<Longrightarrow> skip_ws r = r"
  by (cases r) (auto simp: delim_def skip_ws_def byte_def)

lemma parse_json_string: "utf8_ok v \<Longrightarrow> parse_value (Suc n) (json_string v @ r) = Some (JStr v, r)"
  by (simp add: json_string_def skip_ws_def byte_def parse_escape)

lemma number_value:
  assumes "delim r"
  shows "parse_value (Suc n) (itoa i @ r) = Some (JNum (itoa i), r)"
proof -
  obtain c t where c: "itoa i = c # t" "is_digit c \<or> c = CHR ''-''" using itoa_hd by blast
  then have "c \<notin> set (quote # ''[{tfn'')" "skip_ws (itoa i @ r) = c # t @ r"
    by (auto simp: go_defs in_bytes_def byte_def skip_ws_def)
  then show ?thesis using c parse_number_itoa[OF assms, of i] by simp
qed

definition reads :: "json \<Rightarrow> bool" where
  "reads j \<longleftrightarrow> (\<exists>n0. \<forall>n\<ge>n0. \<forall>r. delim r \<longrightarrow> parse_value n (json_text j @ r) = Some (j, r))"

lemma parse_elems_text:
  assumes "js \<noteq> []" and "list_all reads js"
  shows "\<exists>n0. \<forall>n\<ge>n0. \<forall>r. parse_elems n (join_with '','' (map json_text js) @ CHR '']'' # r) = Some (js, r)"
  using assms
proof (induction js)
  case (Cons j js)
  obtain n1 where n1: "\<And>n r. n1 \<le> n \<Longrightarrow> delim r \<Longrightarrow> parse_value n (json_text j @ r) = Some (j, r)"
    using Cons.prems(2) by (auto simp: reads_def)
  show ?case
  proof (cases js)
    case Nil
    have "parse_elems n (join_with '','' (map json_text (j # js)) @ CHR '']'' # r) = Some (j # js, r)"
      if "Suc n1 \<le> n" for n r
      using that n1[of "n - 1" "CHR '']'' # r"] Nil
      by (cases n) (simp_all add: delim_def skip_ws_def byte_def)
    then show ?thesis by blast
  next
    case (Cons k ks)
    then obtain n2 where n2: "\<And>n r. n2 \<le> n \<Longrightarrow>
        parse_elems n (join_with '','' (map json_text js) @ CHR '']'' # r) = Some (js, r)"
      using Cons.IH Cons.prems(2) by auto
    have "parse_elems n (join_with '','' (map json_text (j # js)) @ CHR '']'' # r) = Some (j # js, r)"
      if "Suc (max n1 n2) \<le> n" for n r
    proof -
      obtain m where m: "n = Suc m" "n1 \<le> m" "n2 \<le> m"
        using \<open>Suc (max n1 n2) \<le> n\<close> by (cases n) auto
      have t: "join_with '','' (map json_text (j # js)) @ CHR '']'' # r =
          json_text j @ CHR '','' # join_with '','' (map json_text js) @ CHR '']'' # r"
        using Cons by simp
      show ?thesis unfolding t m(1) using n1[OF m(2), of "CHR '','' # join_with '','' (map json_text js) @ CHR '']'' # r"]
        n2[OF m(3), of r] by (simp add: delim_def skip_ws_def byte_def)
    qed
    then show ?thesis by blast
  qed
qed simp

abbreviation member_text :: "string \<times> json \<Rightarrow> string" where
  "member_text \<equiv> \<lambda>(k, v). json_string k @ '':'' @ json_text v"

lemma parse_members_text:
  assumes "ms \<noteq> []" and "list_all (\<lambda>(k, v). utf8_ok k \<and> json_ok v \<and> reads v) ms"
  shows "\<exists>n0. \<forall>n\<ge>n0. \<forall>r. parse_members n (join_with '','' (map member_text ms) @ CHR ''}'' # r) = Some (ms, r)"
  using assms
proof (induction ms)
  case (Cons kv ms)
  obtain k v where kv: "kv = (k, v)" by (cases kv)
  then have k: "utf8_ok k" "json_ok v" "reads v" using Cons.prems(2) by auto
  obtain n1 where n1: "\<And>n r. n1 \<le> n \<Longrightarrow> delim r \<Longrightarrow> parse_value n (json_text v @ r) = Some (v, r)"
    using k(3) by (auto simp: reads_def)
  have head: "parse_members (Suc m) (json_string k @ CHR '':'' # json_text v @ x # r) =
      (if x = CHR '','' then map_option (\<lambda>(ms, r). ((k, v) # ms, r)) (parse_members m r)
       else if x = CHR ''}'' then Some ([(k, v)], r) else None)" (is "?l = _")
    if "n1 \<le> m" "x \<in> {CHR '','', CHR ''}''}" for m x r
  proof -
    have "parse_string (json_escape k @ quote # CHR '':'' # json_text v @ x # r) = Some (k, CHR '':'' # json_text v @ x # r)"
      by (rule parse_escape[OF k(1)])
    moreover have "parse_value m (json_text v @ x # r) = Some (v, x # r)"
      using n1[OF that(1), of "x # r"] that(2) by (auto simp: delim_def)
    moreover have "skip_ws (x # r) = x # r" using that(2) by (auto simp: skip_ws_def byte_def)
    moreover have "skip_ws (quote # y) = quote # y" "skip_ws (CHR '':'' # y) = CHR '':'' # y" for y
      by (simp_all add: skip_ws_def byte_def)
    ultimately show ?thesis by (simp add: json_string_def)
  qed
  show ?case
  proof (cases ms)
    case Nil
    have "parse_members n (join_with '','' (map member_text (kv # ms)) @ CHR ''}'' # r) = Some (kv # ms, r)"
      if "Suc n1 \<le> n" for n r
    proof -
      obtain m where m: "n = Suc m" "n1 \<le> m" using \<open>Suc n1 \<le> n\<close> by (cases n) auto
      show ?thesis using head[OF m(2), of "CHR ''}''" r] Nil kv m(1) by (simp del: parse_members.simps)
    qed
    then show ?thesis by blast
  next
    case (Cons k' ks)
    then obtain n2 where n2: "\<And>n r. n2 \<le> n \<Longrightarrow>
        parse_members n (join_with '','' (map member_text ms) @ CHR ''}'' # r) = Some (ms, r)"
      using Cons.IH Cons.prems(2) by auto
    have "parse_members n (join_with '','' (map member_text (kv # ms)) @ CHR ''}'' # r) = Some (kv # ms, r)"
      if "Suc (max n1 n2) \<le> n" for n r
    proof -
      obtain m where m: "n = Suc m" "n1 \<le> m" "n2 \<le> m"
        using \<open>Suc (max n1 n2) \<le> n\<close> by (cases n) auto
      have t: "join_with '','' (map member_text (kv # ms)) @ CHR ''}'' # r =
          json_string k @ CHR '':'' # json_text v @ CHR '','' # (join_with '','' (map member_text ms) @ CHR ''}'' # r)"
        using Cons kv by simp
      show ?thesis unfolding t m(1)
        using head[OF m(2), of "CHR '',''"] n2[OF m(3), of r] kv by (simp del: parse_members.simps)
    qed
    then show ?thesis by blast
  qed
qed simp

lemma reads_array:
  assumes "list_all json_ok js" and "list_all reads js"
  shows "reads (JArr js)"
proof (cases js)
  case Nil
  have "parse_value n (''[]'' @ r) = Some (JArr [], r)" if "1 \<le> n" for n r
    using that by (cases n) (simp_all add: skip_ws_def byte_def byte_after_def)
  then show ?thesis using Nil by (auto simp: reads_def)
next
  case (Cons j ks)
  let ?t = "join_with '','' (map json_text js)"
  obtain n0 where n0: "\<And>n r. n0 \<le> n \<Longrightarrow> parse_elems n (?t @ CHR '']'' # r) = Some (js, r)"
    using parse_elems_text[OF _ assms(2)] Cons by auto
  have "\<exists>u. ?t = json_text j @ u" using Cons by (cases ks) auto
  then have na: "byte_after CHR '']'' (?t @ x) = None" for x
    using json_text_hd[of j] skip_ws_text[of j] assms(1) Cons by (auto simp: byte_after_def)
  have "parse_value n (''['' @ ?t @ '']'' @ r) = Some (JArr js, r)" if "Suc n0 \<le> n" for n r
    using that n0[of "n - 1" r] na by (cases n) (simp_all add: skip_ws_def byte_def)
  then show ?thesis by (auto simp: reads_def)
qed

lemma reads_object:
  assumes "list_all (\<lambda>(k, v). utf8_ok k \<and> json_ok v \<and> reads v) ms"
  shows "reads (JObj ms)"
proof (cases ms)
  case Nil
  have "parse_value n (''{}'' @ r) = Some (JObj [], r)" if "1 \<le> n" for n r
    using that by (cases n) (simp_all add: skip_ws_def byte_def byte_after_def)
  then show ?thesis using Nil by (auto simp: reads_def)
next
  case (Cons kv ks)
  let ?t = "join_with '','' (map member_text ms)"
  obtain n0 where n0: "\<And>n r. n0 \<le> n \<Longrightarrow> parse_members n (?t @ CHR ''}'' # r) = Some (ms, r)"
    using parse_members_text[OF _ assms] Cons by auto
  have "\<exists>u. ?t = quote # u" using Cons by (cases kv; cases ks) (auto simp: json_string_def)
  then have na: "byte_after CHR ''}'' (?t @ x) = None" for x
    by (auto simp: byte_after_def skip_ws_def byte_def)
  have "parse_value n (''{'' @ ?t @ ''}'' @ r) = Some (JObj ms, r)" if "Suc n0 \<le> n" for n r
    using that n0[of "n - 1" r] na by (cases n) (simp_all add: skip_ws_def byte_def)
  then show ?thesis by (auto simp: reads_def)
qed

lemma scalar_reads:
  assumes "\<And>n r. delim r \<Longrightarrow> parse_value (Suc n) (json_text j @ r) = Some (j, r)"
  shows "reads j"
proof -
  have "parse_value n (json_text j @ r) = Some (j, r)" if "1 \<le> n" "delim r" for n r
    using that assms by (cases n) auto
  then show ?thesis by (auto simp: reads_def)
qed

lemma json_reads: "json_ok j \<Longrightarrow> reads j"
proof (induction j)
  case JNull
  show ?case by (rule scalar_reads) (simp add: skip_ws_def byte_def parse_word_def has_prefix_def)
next
  case (JBool b)
  show ?case
    by (rule scalar_reads) (cases b; simp add: boolText_def skip_ws_def byte_def parse_word_def has_prefix_def)
next
  case (JNum x)
  then obtain i where "x = itoa i" by (auto split: option.splits)
  then show ?case by (intro scalar_reads) (simp add: number_value del: parse_value.simps)
next
  case (JStr x)
  then show ?case by (intro scalar_reads) (simp add: parse_json_string del: parse_value.simps)
next
  case (JArr js)
  then show ?case by (intro reads_array) (auto simp: list_all_iff)
next
  case (JObj ms)
  have ok: "utf8_ok k \<and> json_ok v" if "(k, v) \<in> set ms" for k v
    using JObj.prems that unfolding json_ok.simps list_all_iff by (auto dest!: bspec)
  have "reads v" if kv: "(k, v) \<in> set ms" for k v
    by (rule JObj.IH[OF kv]) (simp_all add: ok[OF kv] snds.simps)
  with ok have "list_all (\<lambda>(k, v). utf8_ok k \<and> json_ok v \<and> reads v) ms" by (auto simp: list_all_iff)
  then show ?case by (rule reads_object)
qed

theorem parse_json_text:
  assumes "json_ok j"
  shows "parse_json (json_text j) = Some j"
proof -
  obtain n where "\<forall>r. delim r \<longrightarrow> parse_value n (json_text j @ r) = Some (j, r)"
    using json_reads[OF assms] unfolding reads_def by blast
  from this[THEN spec, of "[]"] have "parse_value n (json_text j @ []) = Some (j, [])"
    unfolding delim_def by blast
  then have n: "parse_value n (json_text j) = Some (j, [])" by (simp only: append_Nil2)
  have "parse_value (2 * length (json_text j)) (json_text j) = Some (j, [])"
    using parse_fuel(1)[OF n] by blast
  then show ?thesis by (simp add: parse_json_def skip_ws_def)
qed

end
