(* ===== verification/Registry.thy ===== *)
theory Registry
  imports EnvFileLaws Json
begin

text \<open>
  The server registry: the SERVER_REGISTRY_JSON line of the shared env file, its decoding,
  the canonical form of its entries, the operations that read, replace, remove and flag an
  entry, the entry computed from a server's env file, the port check of new servers, and
  the websocket allowlist rendered from the registry (battle_ws_allowlist.go).
\<close>

section \<open>Entries\<close>

text \<open>A nil map and an empty one are told apart, as \<open>reflect.DeepEqual\<close> does.\<close>

record registryEntry =
  re_ID :: string
  re_Name :: string
  re_Generation :: int
  re_ScenarioCode :: string
  re_GameAPIURL :: string
  re_GameEngineURL :: string
  re_DeployProject :: string
  re_Env :: "env option"
  re_RepairRequired :: bool

definition zero_entry :: registryEntry where
  "zero_entry = \<lparr>re_ID = [], re_Name = [], re_Generation = 0, re_ScenarioCode = [], re_GameAPIURL = [],
     re_GameEngineURL = [], re_DeployProject = [], re_Env = None, re_RepairRequired = False\<rparr>"

definition env_eq :: "env option \<Rightarrow> env option \<Rightarrow> bool" where
  "env_eq m m' =
     (case (m, m') of
        (None, None) \<Rightarrow> True
      | (Some e, Some e') \<Rightarrow> list_all (\<lambda>(k, v). map_of e k = map_of e' k) (e @ e')
      | _ \<Rightarrow> False)"

definition entry_eq :: "registryEntry \<Rightarrow> registryEntry \<Rightarrow> bool" where
  "entry_eq e e' \<longleftrightarrow> e\<lparr>re_Env := None\<rparr> = e'\<lparr>re_Env := None\<rparr> \<and> env_eq (re_Env e) (re_Env e')"

definition entries_eq :: "registryEntry list \<Rightarrow> registryEntry list \<Rightarrow> bool" where
  "entries_eq es es' \<longleftrightarrow> list_all2 entry_eq es es'"

section \<open>JSON of an entry\<close>

definition env_json :: "env \<Rightarrow> json" where
  "env_json m = JObj (map (\<lambda>k. (k, JStr (gm_str m k))) (sort (map fst m)))"

definition entry_json :: "registryEntry \<Rightarrow> json" where
  "entry_json e = JObj
     ([(''id'', JStr (re_ID e)), (''name'', JStr (re_Name e)), (''generation'', JNum (itoa (re_Generation e)))] @
      (if re_ScenarioCode e = [] then [] else [(''scenarioCode'', JStr (re_ScenarioCode e))]) @
      [(''gameApiUrl'', JStr (re_GameAPIURL e)), (''gameEngineUrl'', JStr (re_GameEngineURL e)),
       (''deployProject'', JStr (re_DeployProject e))] @
      (case re_Env e of None \<Rightarrow> [] | Some m \<Rightarrow> if m = [] then [] else [(''env'', env_json m)]) @
      (if re_RepairRequired e then [(''repairRequired'', JBool True)] else []))"

text \<open>
  \<open>json.Unmarshal\<close> into the struct: a key names the field with exactly this JSON name, or
  else the first one equal up to case folding; null leaves a field as it is (and makes a
  map nil), a value of another type is an error, an unknown key is ignored.
\<close>

fun json_fold :: "string \<Rightarrow> string" where
  "json_fold (a # b # c # s) =
     (if [a, b, c] = [CHR 0xE2, CHR 0x84, CHR 0xAA] then CHR ''k'' # json_fold s
      else if [a, b] = [CHR 0xC5, CHR 0xBF] then CHR ''s'' # json_fold (c # s)
      else lower_char a # json_fold (b # c # s))"
| "json_fold [a, b] = (if [a, b] = [CHR 0xC5, CHR 0xBF] then ''s'' else [lower_char a, lower_char b])"
| "json_fold [a] = [lower_char a]"
| "json_fold [] = []"

definition registryEntryJSONFields :: "string list" where
  "registryEntryJSONFields = [''id'', ''name'', ''generation'', ''scenarioCode'', ''gameApiUrl'',
     ''gameEngineUrl'', ''deployProject'', ''env'', ''repairRequired'']"

definition isRegistryEntryJSONField :: "string \<Rightarrow> bool" where
  "isRegistryEntryJSONField key \<longleftrightarrow> key \<in> set registryEntryJSONFields"

definition json_field :: "string list \<Rightarrow> string \<Rightarrow> string option" where
  "json_field names key =
     (if key \<in> set names then Some key else find (\<lambda>n. json_fold n = json_fold key) names)"

definition json_str :: "string \<Rightarrow> json \<Rightarrow> string option" where
  "json_str old j = (case j of JStr s \<Rightarrow> Some s | JNull \<Rightarrow> Some old | _ \<Rightarrow> None)"

definition json_int :: "int \<Rightarrow> json \<Rightarrow> int option" where
  "json_int old j = (case j of JNum s \<Rightarrow> atoi s | JNull \<Rightarrow> Some old | _ \<Rightarrow> None)"

definition json_bool :: "bool \<Rightarrow> json \<Rightarrow> bool option" where
  "json_bool old j = (case j of JBool b \<Rightarrow> Some b | JNull \<Rightarrow> Some old | _ \<Rightarrow> None)"

fun decode_env_members :: "env \<Rightarrow> (string \<times> json) list \<Rightarrow> env option" where
  "decode_env_members m [] = Some m"
| "decode_env_members m ((k, v) # ms) =
     Option.bind (json_str [] v) (\<lambda>s. decode_env_members (AList.update k s m) ms)"

definition json_env :: "env option \<Rightarrow> json \<Rightarrow> env option option" where
  "json_env old j =
     (case j of
        JNull \<Rightarrow> Some None
      | JObj ms \<Rightarrow> map_option Some (decode_env_members (case old of None \<Rightarrow> [] | Some m \<Rightarrow> m) ms)
      | _ \<Rightarrow> None)"

definition set_entry_field :: "registryEntry \<Rightarrow> string \<Rightarrow> json \<Rightarrow> registryEntry option" where
  "set_entry_field e name j =
     (if name = ''id'' then map_option (\<lambda>s. e\<lparr>re_ID := s\<rparr>) (json_str (re_ID e) j)
      else if name = ''name'' then map_option (\<lambda>s. e\<lparr>re_Name := s\<rparr>) (json_str (re_Name e) j)
      else if name = ''generation'' then map_option (\<lambda>i. e\<lparr>re_Generation := i\<rparr>) (json_int (re_Generation e) j)
      else if name = ''scenarioCode'' then map_option (\<lambda>s. e\<lparr>re_ScenarioCode := s\<rparr>) (json_str (re_ScenarioCode e) j)
      else if name = ''gameApiUrl'' then map_option (\<lambda>s. e\<lparr>re_GameAPIURL := s\<rparr>) (json_str (re_GameAPIURL e) j)
      else if name = ''gameEngineUrl'' then map_option (\<lambda>s. e\<lparr>re_GameEngineURL := s\<rparr>) (json_str (re_GameEngineURL e) j)
      else if name = ''deployProject'' then map_option (\<lambda>s. e\<lparr>re_DeployProject := s\<rparr>) (json_str (re_DeployProject e) j)
      else if name = ''env'' then map_option (\<lambda>m. e\<lparr>re_Env := m\<rparr>) (json_env (re_Env e) j)
      else map_option (\<lambda>b. e\<lparr>re_RepairRequired := b\<rparr>) (json_bool (re_RepairRequired e) j))"

fun decode_entry_members :: "registryEntry \<Rightarrow> (string \<times> json) list \<Rightarrow> registryEntry option" where
  "decode_entry_members e [] = Some e"
| "decode_entry_members e ((k, v) # ms) =
     (case json_field registryEntryJSONFields k of
        None \<Rightarrow> decode_entry_members e ms
      | Some name \<Rightarrow> Option.bind (set_entry_field e name v) (\<lambda>e'. decode_entry_members e' ms))"

text \<open>One raw element of the array: its entry and whether it has a key that is no field.\<close>

definition decode_raw_entry :: "json \<Rightarrow> (registryEntry \<times> bool) result" where
  "decode_raw_entry j =
     (case j of
        JNull \<Rightarrow> Inr (zero_entry, False)
      | JObj ms \<Rightarrow>
          (case decode_entry_members zero_entry ms of
             None \<Rightarrow> Inl (Err ''SERVER_REGISTRY_JSON entry does not parse'')
           | Some e \<Rightarrow> Inr (e, list_ex (\<lambda>(k, v). \<not> isRegistryEntryJSONField k) ms))
      | _ \<Rightarrow> Inl (Err ''SERVER_REGISTRY_JSON entry does not parse''))"

fun decode_raw_entries :: "json list \<Rightarrow> (registryEntry list \<times> bool) result" where
  "decode_raw_entries [] = Inr ([], False)"
| "decode_raw_entries (j # js) =
     (case decode_raw_entry j of
        Inl e \<Rightarrow> Inl e
      | Inr (e, rw) \<Rightarrow> map_sum id (\<lambda>(es, rw'). (e # es, rw \<or> rw')) (decode_raw_entries js))"

definition registry_value :: "string \<Rightarrow> (registryEntry list \<times> bool) result" where
  "registry_value value =
     (if trim_space value = [] then Inr ([], True)
      else case parse_json value of
        Some (JArr js) \<Rightarrow> decode_raw_entries js
      | Some JNull \<Rightarrow> Inr ([], False)
      | _ \<Rightarrow> Inl (Err ''SERVER_REGISTRY_JSON does not parse''))"

abbreviation registry_key :: string where "registry_key \<equiv> ''SERVER_REGISTRY_JSON''"

fun parse_assignments :: "registryEntry list \<Rightarrow> bool \<Rightarrow> envLine list \<Rightarrow> (registryEntry list \<times> bool) result" where
  "parse_assignments registry rewrite [] = Inr (registry, rewrite)"
| "parse_assignments registry rewrite (l # ls) =
     (case registry_value (ln_Value l) of
        Inl e \<Rightarrow> Inl e
      | Inr (es, rw) \<Rightarrow> parse_assignments es (rewrite \<or> rw) ls)"

definition parseRawRegistryEntries :: "envLine list \<Rightarrow> (registryEntry list \<times> bool) result" where
  "parseRawRegistryEntries lines =
     (let assignments = filter (key_is registry_key) lines in
      map_sum id (\<lambda>(es, rw). (es, rw \<or> 1 < length assignments)) (parse_assignments [] False assignments))"

section \<open>Canonical entries\<close>

text \<open>The allowlist in the order of \<open>json.Marshal\<close>'s map keys.\<close>

definition registryEnvAllowlist :: "string list" where
  "registryEnvAllowlist =
    [''GAME_API_PORT'', ''GAME_API_URL'', ''GATEWAY_API_URL'', ''IMAGE_TAG'', ''RESET_AUTORUN_USER_MINUTES'',
     ''RESET_AUTORUN_USER_OPTIONS'', ''RESET_BLOCK_GENERAL_CREATE'', ''RESET_EXTEND'', ''RESET_FICTION'',
     ''RESET_FIRST_TURN'', ''RESET_JOIN_MODE'', ''RESET_MAXGENERAL'', ''RESET_NPCMODE'',
     ''RESET_PRE_RESERVE_OPEN'', ''RESET_RESERVE_OPEN'', ''RESET_SHOW_IMG_LEVEL'', ''RESET_SYNC'',
     ''RESET_TOURNAMENT_TRIG'', ''RESET_TURNTERM'', ''SCENARIO_CODE'', ''SCENARIO_LOOKUP_DIR'',
     ''SCENARIO_SEED_ENABLED'', ''SERVER_GENERATION'', ''SERVER_NAME'', ''TURN_PROFILE_NAME'',
     ''WEB_GAME_PORT'', ''WEB_GAME_TAG'']"

definition sanitizeRegistryEnv :: "env \<Rightarrow> env option" where
  "sanitizeRegistryEnv values =
     (let out = map (\<lambda>k. (k, gm_str values k)) (filter (gm_has values) registryEnvAllowlist) in
      if out = [] then None else Some out)"

definition env_map :: "env option \<Rightarrow> env" where
  "env_map m = (case m of None \<Rightarrow> [] | Some e \<Rightarrow> e)"

fun canonical_loop :: "string list \<Rightarrow> registryEntry list \<Rightarrow> registryEntry list result" where
  "canonical_loop seen [] = Inr []"
| "canonical_loop seen (entry # es) =
     (case normalizeCreateServerID (re_ID entry) of
        Inl e \<Rightarrow> Inl (Err ''SERVER_REGISTRY_JSON has an invalid server id'')
      | Inr (sid, key) \<Rightarrow>
          if sid \<in> set seen then Inl (Err ''SERVER_REGISTRY_JSON has a duplicate server id'')
          else if re_DeployProject entry \<noteq> [] \<and> to_lower (re_DeployProject entry) \<noteq> projectForServerID sid
          then Inl (Err ''SERVER_REGISTRY_JSON has a deployProject of another id'')
          else map_sum id
            (Cons (entry\<lparr>re_ID := sid, re_DeployProject := projectForServerID sid,
                         re_Env := sanitizeRegistryEnv (env_map (re_Env entry))\<rparr>))
            (canonical_loop (sid # seen) es))"

definition canonicalRegistryEntries :: "registryEntry list \<Rightarrow> registryEntry list result" where
  "canonicalRegistryEntries registry = canonical_loop [] registry"

section \<open>Reading and writing\<close>

definition registry_line :: "registryEntry list \<Rightarrow> envLine" where
  "registry_line canonical = kv_line registry_key (json_text (JArr (map entry_json canonical)))"

fun replace_registry :: "envLine \<Rightarrow> bool \<Rightarrow> envLine list \<Rightarrow> envLine list" where
  "replace_registry r replaced [] = (if replaced then [] else [r])"
| "replace_registry r replaced (l # ls) =
     (if key_is registry_key l
      then (if replaced then replace_registry r True ls else r # replace_registry r True ls)
      else l # replace_registry r replaced ls)"

definition writeCanonicalRegistryLockedWithDurability ::
    "config \<Rightarrow> envLine list \<Rightarrow> registryEntry list \<Rightarrow> bool \<Rightarrow> answers \<Rightarrow> string files \<Rightarrow>
     err option \<times> string files" where
  "writeCanonicalRegistryLockedWithDurability c lines canonical durable a fs =
     (let ls = replace_registry (registry_line canonical) False lines;
          w = (if durable then writeEnvLinesAtomicDurable (sharedEnvFile c) ls a fs
               else writeEnvLinesAtomic (sharedEnvFile c) ls a fs)
      in (w_err w, w_fs w))"

definition writeRegistryLockedWithDurability ::
    "config \<Rightarrow> registryEntry list \<Rightarrow> bool \<Rightarrow> answers \<Rightarrow> string files \<Rightarrow> err option \<times> string files" where
  "writeRegistryLockedWithDurability c registry durable a fs =
     (case canonicalRegistryEntries registry of
        Inl e \<Rightarrow> (Some e, fs)
      | Inr canonical \<Rightarrow>
          (case readEnvLines (sharedEnvFile c) fs of
             Inl e \<Rightarrow> (Some e, fs)
           | Inr lines \<Rightarrow> writeCanonicalRegistryLockedWithDurability c lines canonical durable a fs))"

definition writeRegistry :: "config \<Rightarrow> registryEntry list \<Rightarrow> answers \<Rightarrow> string files \<Rightarrow> err option \<times> string files" where
  "writeRegistry c registry = writeRegistryLockedWithDurability c registry False"

definition readRegistry :: "config \<Rightarrow> answers \<Rightarrow> string files \<Rightarrow> registryEntry list result \<times> string files" where
  "readRegistry c a fs =
     (case readEnvLines (sharedEnvFile c) fs of
        Inl e \<Rightarrow> (Inl e, fs)
      | Inr lines \<Rightarrow>
          (case parseRawRegistryEntries lines of
             Inl e \<Rightarrow> (Inl e, fs)
           | Inr (registry, rawRewrite) \<Rightarrow>
               (case canonicalRegistryEntries registry of
                  Inl e \<Rightarrow> (Inl e, fs)
                | Inr canonical \<Rightarrow>
                    if rawRewrite \<or> \<not> entries_eq registry canonical
                    then (case writeCanonicalRegistryLockedWithDurability c lines canonical False a fs of
                        (Some e, fs') \<Rightarrow> (Inl e, fs')
                      | (None, fs') \<Rightarrow> (Inr canonical, fs'))
                    else (Inr canonical, fs))))"

section \<open>Operations\<close>

text \<open>
  Each operation reads the registry (which may rewrite it, with the answers \<open>a\<close>) and writes
  the next one (with the answers \<open>b\<close>), all under the lock of the shared env file.
\<close>

fun replace_entry :: "registryEntry \<Rightarrow> registryEntry list \<Rightarrow> registryEntry list" where
  "replace_entry e [] = [e]"
| "replace_entry e (r # rs) = (if re_ID r = re_ID e then e # rs else r # replace_entry e rs)"

definition upsertRegistryEntry ::
    "config \<Rightarrow> registryEntry \<Rightarrow> answers \<Rightarrow> answers \<Rightarrow> string files \<Rightarrow> err option \<times> string files" where
  "upsertRegistryEntry c entry a b fs =
     (case readRegistry c a fs of
        (Inl e, fs1) \<Rightarrow> (Some e, fs1)
      | (Inr registry, fs1) \<Rightarrow> writeRegistryLockedWithDurability c (replace_entry entry registry) False b fs1)"

definition setRegistryRepairRequired ::
    "config \<Rightarrow> string \<Rightarrow> bool \<Rightarrow> answers \<Rightarrow> answers \<Rightarrow> string files \<Rightarrow> err option \<times> string files" where
  "setRegistryRepairRequired c sid repairRequired a b fs =
     (case readRegistry c a fs of
        (Inl e, fs1) \<Rightarrow> (Some e, fs1)
      | (Inr registry, fs1) \<Rightarrow>
          (case find (\<lambda>r. re_ID r = sid) registry of
             None \<Rightarrow> (Some (Err ''updated server registry entry is unavailable''), fs1)
           | Some r \<Rightarrow> writeRegistryLockedWithDurability c
               (replace_entry (r\<lparr>re_RepairRequired := repairRequired\<rparr>) registry) True b fs1))"

definition removeRegistryEntry ::
    "config \<Rightarrow> string \<Rightarrow> answers \<Rightarrow> answers \<Rightarrow> string files \<Rightarrow>
     (registryEntry \<times> err option) \<times> string files" where
  "removeRegistryEntry c sid a b fs =
     (case readRegistry c a fs of
        (Inl e, fs1) \<Rightarrow> ((zero_entry, Some e), fs1)
      | (Inr registry, fs1) \<Rightarrow>
          let matching = filter (\<lambda>r. re_ID r = sid) registry;
              removed = (if matching = [] then zero_entry else last matching)
          in if re_ID removed = [] then ((zero_entry, None), fs1)
             else let (err, fs2) = writeRegistryLockedWithDurability c
                        (filter (\<lambda>r. re_ID r \<noteq> sid) registry) False b fs1
                  in ((removed, err), fs2))"

definition registryEntryByID :: "config \<Rightarrow> string \<Rightarrow> answers \<Rightarrow> string files \<Rightarrow> registryEntry result \<times> string files" where
  "registryEntryByID c sid a fs =
     (let (res, fs1) = readRegistry c a fs in
      (map_sum id (\<lambda>registry. case find (\<lambda>r. re_ID r = sid) registry of None \<Rightarrow> zero_entry | Some r \<Rightarrow> r) res, fs1))"

text \<open>A value of the env file that is blank leaves the entry's field as it is.\<close>

definition env_text :: "env \<Rightarrow> string \<Rightarrow> string \<Rightarrow> string" where
  "env_text values key current = (let v = trim_space (gm_str values key) in if v \<noteq> [] then v else current)"

definition registryEntryFromServerEnv :: "config \<Rightarrow> string \<Rightarrow> env \<Rightarrow> registryEntry \<Rightarrow> registryEntry" where
  "registryEntryFromServerEnv c sid values current =
     (let name = env_text values ''SERVER_NAME'' (re_Name current);
          generation = (case parseGeneration (gm_str values ''SERVER_GENERATION'') (re_Generation current) of
              Inl e \<Rightarrow> re_Generation current | Inr g \<Rightarrow> g);
          apiURL = env_text values ''GAME_API_URL'' (re_GameAPIURL current)
      in current\<lparr>re_ID := sid, re_DeployProject := projectForServerID sid,
           re_Name := (if name = [] then sid else name), re_Generation := generation,
           re_ScenarioCode := env_text values ''SCENARIO_CODE'' (re_ScenarioCode current),
           re_GameAPIURL := (if apiURL = [] then gameAPIURLFor c sid else apiURL),
           re_GameEngineURL := (if re_GameEngineURL current = [] then gameEngineURLFor c sid
                                else re_GameEngineURL current),
           re_Env := sanitizeRegistryEnv values\<rparr>)"

definition syncRegistryEntryFromEnv ::
    "config \<Rightarrow> string \<Rightarrow> string \<Rightarrow> answers \<Rightarrow> answers \<Rightarrow> string files \<Rightarrow>
     (bool \<times> err option) \<times> string files" where
  "syncRegistryEntryFromEnv c rawID envFile a b fs =
     (case normalizeCreateServerID rawID of
        Inl e \<Rightarrow> ((False, Some e), fs)
      | Inr (sid, key) \<Rightarrow>
          if fs (sharedEnvFile c) = None then ((False, None), fs)
          else case readEnvValues envFile fs of
            Inl e \<Rightarrow> ((False, Some e), fs)
          | Inr values \<Rightarrow>
              (case readRegistry c a fs of
                 (Inl e, fs1) \<Rightarrow> ((False, Some e), fs1)
               | (Inr registry, fs1) \<Rightarrow>
                   let current = (case find (\<lambda>r. re_ID r = sid) registry of None \<Rightarrow> zero_entry | Some r \<Rightarrow> r);
                       new = registryEntryFromServerEnv c sid values current
                   in if entry_eq current new then ((False, None), fs1)
                      else let (err, fs2) = writeRegistryLockedWithDurability c (replace_entry new registry) False b fs1
                           in ((True, err), fs2)))"

definition serverEnvPatchChangesRegistry ::
    "config \<Rightarrow> string \<Rightarrow> string \<Rightarrow> env \<Rightarrow> answers \<Rightarrow> string files \<Rightarrow> bool result \<times> string files" where
  "serverEnvPatchChangesRegistry c sid path updates a fs =
     (if fs (sharedEnvFile c) = None then (Inr False, fs)
      else case readEnvValues path fs of
        Inl e \<Rightarrow> (Inl e, fs)
      | Inr values \<Rightarrow>
          let new_values = foldl (\<lambda>m (k, v). AList.update k v m) values updates in
          (case registryEntryByID c sid a fs of
             (Inl e, fs1) \<Rightarrow> (Inl e, fs1)
           | (Inr current, fs1) \<Rightarrow>
               (Inr (\<not> entry_eq current (registryEntryFromServerEnv c sid new_values current)), fs1)))"

definition reconcileServerRegistry ::
    "config \<Rightarrow> serverTarget \<Rightarrow> answers \<Rightarrow> answers \<Rightarrow> answers \<Rightarrow> string files \<Rightarrow> err option \<times> string files" where
  "reconcileServerRegistry c target a b a' fs =
     (case validateServerTarget target fs of
        Inl e \<Rightarrow> (Some e, fs)
      | Inr values \<Rightarrow>
          (case syncRegistryEntryFromEnv c (tg_ID target) (tg_EnvFile target) a b fs of
             ((changed, Some e), fs1) \<Rightarrow> (Some e, fs1)
           | ((changed, None), fs1) \<Rightarrow>
               (case registryEntryByID c (tg_ID target) a' fs1 of
                  (Inl e, fs2) \<Rightarrow> (Some e, fs2)
                | (Inr entry, fs2) \<Rightarrow>
                    if re_ID entry = [] \<or> re_DeployProject entry \<noteq> tg_Project target
                    then (Some (Err ''server registry is inconsistent with its env file''), fs2)
                    else (None, fs2))))"

fun validate_entries :: "config \<Rightarrow> registryEntry list \<Rightarrow> string files \<Rightarrow> err option" where
  "validate_entries c [] fs = None"
| "validate_entries c (entry # es) fs =
     (case serverTargetForID c (re_ID entry) of
        Inl e \<Rightarrow> Some e
      | Inr target \<Rightarrow>
          if re_DeployProject entry \<noteq> tg_Project target
          then Some (Err ''registry project does not match server id'')
          else case validateServerTarget target fs of
            Inl e \<Rightarrow> Some e
          | Inr values \<Rightarrow> validate_entries c es fs)"

definition validateRegisteredServerTargets :: "config \<Rightarrow> answers \<Rightarrow> string files \<Rightarrow> err option \<times> string files" where
  "validateRegisteredServerTargets c a fs =
     (case readRegistry c a fs of
        (Inl e, fs1) \<Rightarrow> (Some e, fs1)
      | (Inr registry, fs1) \<Rightarrow> (validate_entries c registry fs1, fs1))"

text \<open>\<open>validateRunningServerRegistry\<close>, with the output of docker ps as an argument.\<close>

fun validate_projects :: "config \<Rightarrow> string list \<Rightarrow> string list \<Rightarrow> string list \<Rightarrow> string files \<Rightarrow> err option" where
  "validate_projects c registered seen [] fs = None"
| "validate_projects c registered seen (raw # raws) fs =
     (let project = trim_space raw in
      if project = [] \<or> project = sharedComposeProjectName \<or> project \<in> set seen
      then validate_projects c registered seen raws fs
      else if \<not> projectRe project then validate_projects c registered (project # seen) raws fs
      else case serverTargetForProject c project of
        Inl e \<Rightarrow> Some e
      | Inr target \<Rightarrow>
          if tg_ID target \<notin> set registered
          then Some (Err ''running server project is missing from SERVER_REGISTRY_JSON'')
          else case validateServerTarget target fs of
            Inl e \<Rightarrow> Some e
          | Inr values \<Rightarrow> validate_projects c registered (project # seen) raws fs)"

definition validateRunningServerRegistry ::
    "config \<Rightarrow> string result \<Rightarrow> answers \<Rightarrow> string files \<Rightarrow> err option \<times> string files" where
  "validateRunningServerRegistry c ps a fs =
     (case readRegistry c a fs of
        (Inl e, fs1) \<Rightarrow> (Some e, fs1)
      | (Inr registry, fs1) \<Rightarrow>
          (case ps of
             Inl e \<Rightarrow> (Some e, fs1)
           | Inr output \<Rightarrow>
               (validate_projects c (map re_ID registry) [] (split_on newline output) fs1, fs1)))"

section \<open>Ports of a new server\<close>

definition sharedOccupiedPorts :: "config \<Rightarrow> string files \<Rightarrow> env" where
  "sharedOccupiedPorts c fs =
     map (\<lambda>(k, d). (k, envOrValue (sharedEnvValue c k fs) d))
       [(''NGINX_HTTP_PORT'', ''80''), (''NGINX_HTTPS_PORT'', ''443''), (''GATEWAY_API_PORT'', ''18081''),
        (''WEB_GATEWAY_PORT'', ''3000''), (''GAME_API_PORT'', ''18080''), (''WEB_GAME_PORT'', ''3001'')]"

text \<open>The entries of the servers directory: a name and whether it is a directory.\<close>

definition other_server_env :: "string \<Rightarrow> string \<times> bool \<Rightarrow> bool" where
  "other_server_env newID entry \<longleftrightarrow>
     (let (name, isDir) = entry; key = trim_suffix name ''.env'' in
      \<not> isDir \<and> has_suffix name ''.env'' \<and> internalServerKeyRe key \<and> key \<noteq> internalServerKey newID)"

definition is_port_line :: "envLine \<Rightarrow> bool" where
  "is_port_line l \<longleftrightarrow> ln_IsKV l \<and> (ln_Key l = ''GAME_API_PORT'' \<or> ln_Key l = ''WEB_GAME_PORT'')"

fun ports_of_files :: "config \<Rightarrow> (string \<times> bool) list \<Rightarrow> env \<Rightarrow> string files \<Rightarrow> err option" where
  "ports_of_files c [] requested fs = None"
| "ports_of_files c ((name, isDir) # es) requested fs =
     (case readEnvLines (filepath_join [cf_serversDir c, name]) fs of
        Inl e \<Rightarrow> Some e
      | Inr lines \<Rightarrow>
          if list_ex (\<lambda>l. is_port_line l \<and> ln_Value l \<in> snd ` set requested) lines
          then Some (Err ''port is used by another server'')
          else ports_of_files c es requested fs)"

definition ensurePortsAvailable ::
    "config \<Rightarrow> string \<Rightarrow> env \<Rightarrow> (string \<times> bool) list result \<Rightarrow> string files \<Rightarrow> err option" where
  "ensurePortsAvailable c newID requested dir fs =
     (if list_ex (\<lambda>(k, port). port \<in> snd ` set requested) (sharedOccupiedPorts c fs)
      then Some (Err ''port is used by the shared stack'')
      else case dir of
        Inl e \<Rightarrow> if e = ErrNotExist then None else Some e
      | Inr entries \<Rightarrow> ports_of_files c (filter (other_server_env newID) entries) requested fs)"

section \<open>The websocket allowlist\<close>

definition battle_entry_ok :: "registryEntry \<Rightarrow> bool" where
  "battle_entry_ok entry \<longleftrightarrow> re_ID entry \<noteq> [] \<and> length (re_ID entry) \<le> maxPublicServerIDLength \<and>
     lower_alnum (re_ID entry) \<and> re_DeployProject entry = projectForServerID (re_ID entry) \<and>
     re_GameAPIURL entry = ''http://s'' @ re_ID entry @ ''-game-api:8081''"

fun allowlist_ids :: "string list \<Rightarrow> registryEntry list \<Rightarrow> string list result" where
  "allowlist_ids seen [] = Inr []"
| "allowlist_ids seen (entry # es) =
     (if \<not> battle_entry_ok entry \<or> re_ID entry \<in> set seen
      then Inl (Err ''battle websocket allowlist has an invalid registry entry'')
      else map_sum id (\<lambda>ids. if re_RepairRequired entry then ids else re_ID entry # ids)
             (allowlist_ids (re_ID entry # seen) es))"

definition allowlist_line :: "string \<Rightarrow> string" where
  "allowlist_line sid = sid @ '' http://s'' @ sid @ ''-game-api:8081;'' @ [newline]"

definition renderBattleWSAllowlist :: "registryEntry list \<Rightarrow> string result" where
  "renderBattleWSAllowlist entries =
     map_sum id (\<lambda>ids. concat (map allowlist_line (sort ids))) (allowlist_ids [] entries)"

definition battleWSAllowlistPath :: "config \<Rightarrow> string" where
  "battleWSAllowlistPath c =
     filepath_join [cf_composeDir c, ''infra'', ''nginx'', ''runtime'', ''battle-ws-allowlist.map'']"

text \<open>
  \<open>syncBattleWSAllowlist\<close>: the registry is read with the answers \<open>a\<close>, the map written with
  \<open>b\<close> and, after a failed test of the nginx configuration, restored with \<open>r\<close>; \<open>mkdir\<close>,
  \<open>chmod\<close>, \<open>tested\<close> and \<open>removed\<close> say whether those calls succeed. A map of the operator's
  that exists but cannot be read is an error before anything is written.
\<close>

definition set_mode :: "nat \<Rightarrow> string \<Rightarrow> string files \<Rightarrow> string files" where
  "set_mode m path fs = fs(path := map_option (\<lambda>f. f\<lparr>f_mode := m\<rparr>) (fs path))"

definition restore_allowlist ::
    "string \<Rightarrow> string option \<Rightarrow> bool \<Rightarrow> answers \<Rightarrow> string files \<Rightarrow> err option \<times> string files" where
  "restore_allowlist path previous removed r fs =
     (case previous of
        Some text' \<Rightarrow>
          let w = writeFileAtomicDurable path text' r fs in
          if w_err w \<noteq> None then (Some (Err ''nginx validation failed and allowlist restore failed''), w_fs w)
          else (Some (Err ''battle websocket nginx config validation failed''), set_mode 420 path (w_fs w))
      | None \<Rightarrow>
          if \<not> removed then (Some (Err ''nginx validation failed and allowlist remove failed''), fs)
          else (Some (Err ''battle websocket nginx config validation failed''), fs(path := None)))"

definition syncBattleWSAllowlist ::
    "config \<Rightarrow> bool \<Rightarrow> bool \<Rightarrow> bool \<Rightarrow> bool \<Rightarrow> answers \<Rightarrow> answers \<Rightarrow> answers \<Rightarrow> string files \<Rightarrow>
     (bool \<times> err option) \<times> string files" where
  "syncBattleWSAllowlist c mkdir chmod tested removed a b r fs =
     (let (registry, fs1) = readRegistry c a fs;
          rendered = (case registry of Inl e \<Rightarrow> Inl e | Inr es \<Rightarrow> renderBattleWSAllowlist es);
          degraded = (\<not> is_ok rendered);
          content = the_ok [] rendered;
          path = battleWSAllowlistPath c
      in if \<not> mkdir then ((degraded, Some (ErrIO ''mkdir'')), fs1)
         else if fs1 path \<noteq> None \<and> data_at fs1 path = None then ((degraded, Some (ErrIO ''read'')), fs1)
         else let w = writeFileAtomicDurable path content b fs1 in
           (case w_err w of
              Some e \<Rightarrow> ((degraded, Some e), w_fs w)
            | None \<Rightarrow>
                if \<not> chmod then ((degraded, Some (ErrIO ''chmod'')), w_fs w)
                else let fs2 = set_mode 420 path (w_fs w) in
                  if tested then ((degraded, None), fs2)
                  else let (err, fs3) = restore_allowlist path (data_at fs1 path) removed r fs2
                       in ((degraded, err), fs3)))"

end
