(* ===== verification/RegistryLaws.thy ===== *)
theory RegistryLaws
  imports Registry
begin

text \<open>
  The laws of the registry: canonical entries are a fixed point, a written registry is read
  back unchanged and without a rewrite, the operations change exactly the entry they name,
  and the websocket allowlist holds only fixed addresses of canonical servers.
\<close>

section \<open>JSON texts are single lines\<close>

lemma newline_byte: "c = newline \<Longrightarrow> byte c = 10"
  by (simp add: byte_def)

lemma escape_char_no_newline: "newline \<notin> set (escape_char c)"
proof -
  have "hex_char n \<noteq> newline" if "n < 16" for n
  proof
    assume "hex_char n = newline"
    then have "hex_value (hex_char n) = hex_value newline" by simp
    with hex_value_char[OF that] show False by (simp add: hex_value_def go_defs in_bytes_def byte_def)
  qed
  then have "hex_char (byte c div 16) \<noteq> newline" "hex_char (byte c mod 16) \<noteq> newline"
    using byte_less[of c] by (simp_all add: less_mult_imp_div_less)
  then show ?thesis using newline_byte[of c] by (auto simp: escape_char_def)
qed

lemma utf8_high:
  "utf8_2 a b \<Longrightarrow> 128 \<le> byte b" "utf8_3 a b c \<Longrightarrow> 128 \<le> byte b \<and> 128 \<le> byte c"
  "utf8_4 a b c d \<Longrightarrow> 128 \<le> byte b \<and> 128 \<le> byte c \<and> 128 \<le> byte d"
  unfolding utf8_2_def utf8_3_def utf8_4_def cont_def in_bytes_def by linarith+

lemma utf8_chunk_high: "\<not> byte c < 128 \<Longrightarrow> x \<in> set (take (utf8_len (c # s)) (c # s)) \<Longrightarrow> 128 \<le> byte x"
  by (auto dest: utf8_high split: list.splits if_splits)

lemma json_escape_no_newline: "newline \<notin> set (json_escape s)"
proof (induction s rule: json_escape.induct)
  case (2 c s)
  show ?case
  proof (cases "byte c < 128")
    case True
    then show ?thesis using "2.IH"(1)[OF True] escape_char_no_newline by simp
  next
    case False
    have "newline \<notin> set (take (utf8_len (c # s)) (c # s))"
      using utf8_chunk_high[OF False, of newline] by (auto simp: byte_def)
    then show ?thesis
      using False "2.IH"(2)[OF False refl refl] "2.IH"(3)[OF False refl refl]
      by (simp add: Let_def del: utf8_len.simps)
  qed
qed simp

lemma join_no_newline: "newline \<notin> set d \<Longrightarrow> (\<And>s. s \<in> set ss \<Longrightarrow> newline \<notin> set s) \<Longrightarrow>
    newline \<notin> set (join_with d ss)"
  by (induction d ss rule: join_with.induct) auto

lemma json_string_no_newline: "newline \<notin> set (json_string s)"
  using json_escape_no_newline[of s] by (simp add: json_string_def)

lemma json_text_no_newline: "json_ok j \<Longrightarrow> newline \<notin> set (json_text j)"
proof (induction j)
  case (JBool b)
  then show ?case by (simp add: boolText_def)
next
  case (JNum x)
  then obtain i where x: "x = itoa i" by (auto split: option.splits)
  have "newline \<notin> set (dec n)" for n
    using dec_bytes[of newline n] by (auto simp: go_defs in_bytes_def byte_def)
  then show ?case by (simp add: x itoa_def)
next
  case (JStr x)
  then show ?case by (simp add: json_string_no_newline)
next
  case (JArr js)
  then have "newline \<notin> set (join_with '','' (map json_text js))"
    by (intro join_no_newline) (auto simp: list_all_iff)
  then show ?case by simp
next
  case (JObj ms)
  have "newline \<notin> set (json_text v)" if kv: "(k, v) \<in> set ms" for k v
    using JObj.prems kv by (intro JObj.IH[OF kv]) (auto simp: snds.simps list_all_iff)
  then have "newline \<notin> set (member_text kv)" if "kv \<in> set ms" for kv
    using that json_string_no_newline by (cases kv) auto
  then have "newline \<notin> set (join_with '','' (map member_text ms))"
    by (intro join_no_newline) auto
  then show ?case by simp
qed simp

section \<open>Entries survive encoding\<close>

definition sorted_env :: "env \<Rightarrow> bool" where
  "sorted_env m \<longleftrightarrow> sorted (map fst m) \<and> gm_ok m \<and> m \<noteq> []"

text \<open>The texts of an entry are valid UTF-8 and its generation is a machine integer.\<close>

definition entry_text_ok :: "registryEntry \<Rightarrow> bool" where
  "entry_text_ok e \<longleftrightarrow> utf8_ok (re_ID e) \<and> utf8_ok (re_Name e) \<and> utf8_ok (re_ScenarioCode e) \<and>
     utf8_ok (re_GameAPIURL e) \<and> utf8_ok (re_GameEngineURL e) \<and> utf8_ok (re_DeployProject e) \<and>
     - (2 ^ 63) \<le> re_Generation e \<and> re_Generation e < 2 ^ 63 \<and>
     list_all (\<lambda>(k, v). utf8_ok k \<and> utf8_ok v) (env_map (re_Env e))"

lemma env_pairs: "gm_ok m \<Longrightarrow> map (\<lambda>k. (k, gm_str m k)) (map fst m) = m"
  by (auto simp: gm_str_def map_of_is_SomeI intro!: map_idI)

lemma sorted_env_json: "sorted_env m \<Longrightarrow> env_json m = JObj (map (\<lambda>(k, v). (k, JStr v)) m)"
  using env_pairs[of m] by (auto simp: env_json_def sorted_env_def sorted_sort_id gm_str_def map_of_is_SomeI)

lemma decode_env_json:
  "gm_ok (acc @ m) \<Longrightarrow> decode_env_members acc (map (\<lambda>(k, v). (k, JStr v)) m) = Some (acc @ m)"
proof (induction m arbitrary: acc)
  case (Cons kv m)
  obtain k v where kv: "kv = (k, v)" by (cases kv)
  have "AList.update k v acc = acc @ [(k, v)]"
    using Cons.prems by (intro update_new_append) (auto simp: kv)
  then show ?case using Cons.IH[of "acc @ [(k, v)]"] Cons.prems by (simp add: kv json_str_def)
qed simp

lemma json_field_exact: "k \<in> set names \<Longrightarrow> json_field names k = Some k"
  by (simp add: json_field_def)

definition env_norm :: "registryEntry \<Rightarrow> bool" where
  "env_norm e \<longleftrightarrow> (case re_Env e of None \<Rightarrow> True | Some m \<Rightarrow> sorted_env m)"

lemma decode_entry_json:
  assumes "env_norm e" and "- (2 ^ 63) \<le> re_Generation e" and "re_Generation e < 2 ^ 63"
  shows "decode_raw_entry (entry_json e) = Inr (e, False)"
proof -
  have env: "decode_env_members [] (map (\<lambda>(k, v). (k, JStr v)) m) = Some m \<and> m \<noteq> [] \<and>
      env_json m = JObj (map (\<lambda>(k, v). (k, JStr v)) m)" if "re_Env e = Some m" for m
    using assms(1) that decode_env_json[of "[]" m] sorted_env_json[of m]
    by (auto simp: env_norm_def sorted_env_def)
  have gen: "atoi (itoa (re_Generation e)) = Some (re_Generation e)"
    using assms(2,3) by (rule atoi_itoa)
  show ?thesis
    by (cases e, cases "re_Env e"; cases "re_ScenarioCode e = []"; cases "re_RepairRequired e")
      (use env gen in \<open>simp_all add: decode_raw_entry_def entry_json_def json_field_def
        registryEntryJSONFields_def isRegistryEntryJSONField_def set_entry_field_def json_str_def
        json_int_def json_bool_def json_env_def zero_entry_def\<close>)
qed

lemma decode_entries_json:
  assumes "list_all (\<lambda>e. env_norm e \<and> - (2 ^ 63) \<le> re_Generation e \<and> re_Generation e < 2 ^ 63) es"
  shows "decode_raw_entries (map entry_json es) = Inr (es, False)"
  using assms by (induction es) (simp_all add: decode_entry_json)

lemma itoa_json_ok: "- (2 ^ 63) \<le> i \<Longrightarrow> i < 2 ^ 63 \<Longrightarrow> json_ok (JNum (itoa i))"
  by (simp add: atoi_itoa)

lemma field_names_ascii: "list_all utf8_ok registryEntryJSONFields"
  by code_simp

lemma entry_json_ok:
  assumes "entry_text_ok e" and "env_norm e"
  shows "json_ok (entry_json e)"
proof -
  have "utf8_ok ''id''" "utf8_ok ''name''" "utf8_ok ''generation''" "utf8_ok ''scenarioCode''"
    "utf8_ok ''gameApiUrl''" "utf8_ok ''gameEngineUrl''" "utf8_ok ''deployProject''" "utf8_ok ''env''"
    "utf8_ok ''repairRequired''"
    using field_names_ascii unfolding registryEntryJSONFields_def list.pred_inject by blast+
  moreover have "json_ok (env_json m)" if "re_Env e = Some m" for m
  proof -
    have "sorted_env m" "list_all (\<lambda>(k, v). utf8_ok k \<and> utf8_ok v) m"
      using assms that by (auto simp: env_norm_def entry_text_ok_def env_map_def)
    then show ?thesis by (auto simp: sorted_env_json list_all_iff)
  qed
  moreover have "json_ok (JNum (itoa (re_Generation e)))"
    using assms(1) by (intro itoa_json_ok) (auto simp: entry_text_ok_def)
  ultimately have parts:
    "list_all (\<lambda>(k, v). utf8_ok k \<and> json_ok v)
       [(''id'', JStr (re_ID e)), (''name'', JStr (re_Name e)), (''generation'', JNum (itoa (re_Generation e)))]"
    "list_all (\<lambda>(k, v). utf8_ok k \<and> json_ok v)
       (if re_ScenarioCode e = [] then [] else [(''scenarioCode'', JStr (re_ScenarioCode e))])"
    "list_all (\<lambda>(k, v). utf8_ok k \<and> json_ok v)
       [(''gameApiUrl'', JStr (re_GameAPIURL e)), (''gameEngineUrl'', JStr (re_GameEngineURL e)),
        (''deployProject'', JStr (re_DeployProject e))]"
    "list_all (\<lambda>(k, v). utf8_ok k \<and> json_ok v)
       (case re_Env e of None \<Rightarrow> [] | Some m \<Rightarrow> if m = [] then [] else [(''env'', env_json m)])"
    "list_all (\<lambda>(k, v). utf8_ok k \<and> json_ok v)
       (if re_RepairRequired e then [(''repairRequired'', JBool True)] else [])"
    using assms(1) unfolding entry_text_ok_def
    by (simp_all del: json_ok.simps(3) utf8_ok.simps split: option.split)
  then show ?thesis unfolding entry_json_def json_ok.simps list_all_append by blast
qed

section \<open>Canonical entries\<close>

lemma allowlist_sorted: "sorted registryEnvAllowlist" and allowlist_distinct: "distinct registryEnvAllowlist"
  by code_simp+

lemma map_of_pairs: "map_of (map (\<lambda>k. (k, f k)) ks) k = (if k \<in> set ks then Some (f k) else None)"
  by (induction ks) auto

lemma sanitize_idem: "sanitizeRegistryEnv (env_map (sanitizeRegistryEnv v)) = sanitizeRegistryEnv v"
proof -
  let ?ks = "filter (gm_has v) registryEnvAllowlist"
  let ?out = "map (\<lambda>k. (k, gm_str v k)) ?ks"
  have e: "env_map (sanitizeRegistryEnv v) = ?out"
    by (simp add: sanitizeRegistryEnv_def env_map_def Let_def)
  have has: "gm_has ?out k \<longleftrightarrow> k \<in> set ?ks" for k by (simp add: map_of_pairs)
  have "filter (gm_has ?out) registryEnvAllowlist = ?ks"
    by (rule filter_cong[OF refl]) (auto simp: map_of_pairs)
  moreover have "map (\<lambda>k. (k, gm_str ?out k)) ?ks = ?out"
    by (auto simp: gm_str_def map_of_pairs)
  ultimately show ?thesis unfolding e by (simp add: sanitizeRegistryEnv_def Let_def)
qed

lemma sanitize_norm: "sanitizeRegistryEnv v = Some m \<Longrightarrow> sorted_env m"
  using allowlist_sorted allowlist_distinct
  by (auto simp: sanitizeRegistryEnv_def Let_def sorted_env_def o_def sorted_wrt_filter split: if_splits)

definition canonical_entry :: "registryEntry \<Rightarrow> bool" where
  "canonical_entry e \<longleftrightarrow> canonical_id (re_ID e) \<and> re_DeployProject e = projectForServerID (re_ID e) \<and>
     re_Env e = sanitizeRegistryEnv (env_map (re_Env e))"

definition canonical_registry :: "registryEntry list \<Rightarrow> bool" where
  "canonical_registry es \<longleftrightarrow> list_all canonical_entry es \<and> distinct (map re_ID es)"

lemma to_lower_project: "lower_alnum sid \<Longrightarrow> to_lower (projectForServerID sid) = projectForServerID sid"
proof -
  assume s: "lower_alnum sid"
  have "list_all (\<lambda>c. is_lower c \<or> is_digit c \<or> c = CHR ''-'') (projectForServerID sid)"
    using s by (auto simp: projectForServerID_def internalServerKey_def lower_alnum_def list_all_iff
        go_defs in_bytes_def byte_def)
  then have "list_all (\<lambda>c. byte c < 128 \<and> lower_char c = c) (projectForServerID sid)"
    by (auto simp: list_all_iff lower_char_def go_defs in_bytes_def byte_def)
  then show ?thesis by (subst to_lower_ascii) (auto simp: list_all_iff intro!: map_idI)
qed

definition canonical_of :: "registryEntry \<Rightarrow> registryEntry" where
  "canonical_of e = e\<lparr>re_ID := to_lower (re_ID e), re_DeployProject := projectForServerID (to_lower (re_ID e)),
     re_Env := sanitizeRegistryEnv (env_map (re_Env e))\<rparr>"

definition admissible_entry :: "registryEntry \<Rightarrow> bool" where
  "admissible_entry e \<longleftrightarrow> serverIDRe (re_ID e) \<and> canonical_id (to_lower (re_ID e)) \<and>
     (re_DeployProject e = [] \<or> to_lower (re_DeployProject e) = projectForServerID (to_lower (re_ID e)))"

lemma canonical_loop_step:
  "canonical_loop seen (e # es) = Inr cs \<longleftrightarrow> admissible_entry e \<and> to_lower (re_ID e) \<notin> set seen \<and>
     (\<exists>ds. canonical_loop (to_lower (re_ID e) # seen) es = Inr ds \<and> cs = canonical_of e # ds)"
proof (cases "normalizeCreateServerID (re_ID e)")
  case (Inl err)
  then have "\<not> admissible_entry e"
    using normalize_ok_iff[of "re_ID e" "to_lower (re_ID e)"] by (auto simp: admissible_entry_def)
  with Inl show ?thesis by simp
next
  case (Inr p)
  obtain sid key where p: "p = (sid, key)" by (cases p)
  then have "serverIDRe (re_ID e)" "canonical_id (to_lower (re_ID e))"
    "normalizeCreateServerID (re_ID e) = Inr (to_lower (re_ID e), key)"
    using Inr normalize_ok_iff[of "re_ID e" sid key] by auto
  then show ?thesis
    by (cases "canonical_loop (to_lower (re_ID e) # seen) es")
      (auto simp: admissible_entry_def canonical_of_def)
qed

lemma canonical_loop_iff:
  "canonical_loop seen es = Inr cs \<longleftrightarrow> cs = map canonical_of es \<and> list_all admissible_entry es \<and>
     distinct (map re_ID cs) \<and> (\<forall>c\<in>set cs. re_ID c \<notin> set seen)"
proof (induction es arbitrary: seen cs)
  case (Cons e es)
  have "re_ID (canonical_of e) = to_lower (re_ID e)" by (simp add: canonical_of_def)
  then show ?case unfolding canonical_loop_step Cons.IH by (auto simp: image_iff) metis+
qed auto

lemma canonical_of_canonical: "canonical_entry e \<Longrightarrow> canonical_of e = e"
  by (cases e) (auto simp: canonical_of_def canonical_entry_def canonical_id_def lower_alnum_to_lower)

lemma canonical_entries_canonical:
  assumes "canonicalRegistryEntries es = Inr cs"
  shows "canonical_registry cs" and "canonicalRegistryEntries cs = Inr cs" and "list_all env_norm cs"
proof -
  have cs: "cs = map canonical_of es" "distinct (map re_ID cs)" "list_all admissible_entry es"
    using assms unfolding canonicalRegistryEntries_def canonical_loop_iff by blast+
  have "canonical_entry (canonical_of e)" if "e \<in> set es" for e
    using cs(3) that by (auto simp: canonical_entry_def canonical_of_def list_all_iff sanitize_idem admissible_entry_def)
  then show can: "canonical_registry cs" using cs(1,2) by (auto simp: canonical_registry_def list_all_iff)
  have "map canonical_of cs = cs"
    using can canonical_of_canonical by (auto simp: canonical_registry_def list_all_iff intro: map_idI)
  then show "canonicalRegistryEntries cs = Inr cs"
    using can unfolding canonicalRegistryEntries_def canonical_loop_iff
    by (auto simp: canonical_registry_def list_all_iff canonical_entry_def canonical_id_def
        admissible_entry_def lower_alnum_serverIDRe lower_alnum_to_lower to_lower_project)
  have "env_norm e" if "canonical_entry e" for e
  proof (cases "re_Env e")
    case (Some m)
    then have "sanitizeRegistryEnv (env_map (re_Env e)) = Some m"
      using that by (simp add: canonical_entry_def)
    then show ?thesis using Some sanitize_norm by (simp add: env_norm_def)
  qed (simp add: env_norm_def)
  then show "list_all env_norm cs" using can by (simp add: canonical_registry_def list_all_iff)
qed

section \<open>Reading back\<close>

lemma entries_eq_refl: "entries_eq es es"
proof -
  have "env_eq m m" for m by (auto simp: env_eq_def list_all_iff split: option.splits)
  then show ?thesis by (simp add: entries_eq_def list.rel_refl entry_eq_def)
qed

text \<open>The registry a shared env file holds, when reading it does not have to rewrite it.\<close>

definition registry_at :: "config \<Rightarrow> string files \<Rightarrow> registryEntry list \<Rightarrow> bool" where
  "registry_at c fs es \<longleftrightarrow> (\<exists>lines raw. readEnvLines (sharedEnvFile c) fs = Inr lines \<and>
     parseRawRegistryEntries lines = Inr (raw, False) \<and> canonicalRegistryEntries raw = Inr es \<and> entries_eq raw es)"

lemma registry_at_read: "registry_at c fs es \<Longrightarrow> readRegistry c a fs = (Inr es, fs)"
  by (auto simp: registry_at_def readRegistry_def)

lemma readEnvLines_data_eq: "data_at fs path = data_at fs' path \<Longrightarrow> readEnvLines path fs = Inr ls \<Longrightarrow>
    readEnvLines path fs' = Inr ls"
  by (auto simp: readEnvLines_def split: option.splits)

lemma registry_at_data: "registry_at c fs es \<Longrightarrow>
    data_at fs (sharedEnvFile c) = data_at fs' (sharedEnvFile c) \<Longrightarrow> registry_at c fs' es"
  unfolding registry_at_def using readEnvLines_data_eq by blast

lemma registry_key_line: "key_is registry_key (registry_line cs)"
  by (simp add: key_is_def registry_line_def kv_line_def)

lemma replace_key: "key_is registry_key r \<Longrightarrow>
    filter (key_is registry_key) (replace_registry r b ls) = (if b then [] else [r])"
  by (induction r b ls rule: replace_registry.induct) auto

lemma replace_others: "key_is registry_key r \<Longrightarrow>
    filter (\<lambda>l. \<not> key_is registry_key l) (replace_registry r b ls) = filter (\<lambda>l. \<not> key_is registry_key l) ls"
  by (induction r b ls rule: replace_registry.induct) auto

lemma replace_ok: "ln_ok r \<Longrightarrow> list_all ln_ok ls \<Longrightarrow> list_all ln_ok (replace_registry r b ls)"
  by (induction r b ls rule: replace_registry.induct) auto

definition entries_text_ok :: "registryEntry list \<Rightarrow> bool" where
  "entries_text_ok es \<longleftrightarrow> list_all entry_text_ok es"

lemma registry_json_ok: "entries_text_ok cs \<Longrightarrow> list_all env_norm cs \<Longrightarrow> json_ok (JArr (map entry_json cs))"
  by (auto simp: entries_text_ok_def list_all_iff entry_json_ok)

lemma registry_key_env: "isEnvKey registry_key"
  by code_simp

lemma registry_line_ok:
  assumes "entries_text_ok cs" and "list_all env_norm cs"
  shows "ln_ok (registry_line cs)"
  unfolding registry_line_def
  by (intro kv_line_ok registry_key_env json_text_no_newline registry_json_ok assms)

lemma registry_value_line:
  assumes "entries_text_ok cs" and "list_all env_norm cs"
  shows "registry_value (ln_Value (registry_line cs)) = Inr (cs, False)"
proof -
  let ?t = "json_text (JArr (map entry_json cs))"
  have "CHR ''['' \<in> set (trim_space ?t)" by (rule trim_space_keeps) (simp_all add: byte_def)
  then have "trim_space ?t \<noteq> []" by auto
  moreover have "decode_raw_entries (map entry_json cs) = Inr (cs, False)"
    using assms by (intro decode_entries_json) (auto simp: entries_text_ok_def list_all_iff entry_text_ok_def)
  ultimately show ?thesis
    using parse_json_text[OF registry_json_ok[OF assms]]
    by (simp add: registry_value_def registry_line_def kv_line_def)
qed

lemma registry_at_replaced:
  assumes "canonicalRegistryEntries cs = Inr cs" and "entries_text_ok cs" and "list_all env_norm cs"
    and "readEnvLines (sharedEnvFile c) fs = Inr (replace_registry (registry_line cs) False lines)"
  shows "registry_at c fs cs"
proof -
  have "parseRawRegistryEntries (replace_registry (registry_line cs) False lines) = Inr (cs, False)"
    using registry_value_line[OF assms(2,3)] replace_key[OF registry_key_line]
    by (simp add: parseRawRegistryEntries_def Let_def)
  then show ?thesis using assms(1,4) entries_eq_refl unfolding registry_at_def by blast
qed

lemma atomic_write_data:
  assumes "ans_tmp a \<noteq> path"
    and "w = (if durable then writeFileAtomicDurable path d a fs else writeFileAtomic path d a fs)"
  shows "(w_err w \<noteq> None \<and> data_at (w_fs w) path = data_at fs path) \<or> data_at (w_fs w) path = Some d"
  using env_write_committed[OF assms(1), of durable True d fs] assms(2)
  by (cases durable) (auto simp: writeFileAtomicDurable_def writeFileAtomic_def Let_def data_at_def
      split: option.splits if_splits)

text \<open>The other lines of the shared env file.\<close>

definition other_lines :: "config \<Rightarrow> string files \<Rightarrow> envLine list" where
  "other_lines c fs = (case readEnvLines (sharedEnvFile c) fs of
     Inl e \<Rightarrow> [] | Inr ls \<Rightarrow> filter (\<lambda>l. \<not> key_is registry_key l) ls)"

lemma write_canonical_outcome:
  assumes "ans_tmp a \<noteq> sharedEnvFile c" and "readEnvLines (sharedEnvFile c) fs = Inr lines"
    and "canonicalRegistryEntries cs = Inr cs" and "entries_text_ok cs" and "list_all env_norm cs"
    and "writeCanonicalRegistryLockedWithDurability c lines cs durable a fs = (err, fs')"
  shows "other_lines c fs' = other_lines c fs"
    and "(err \<noteq> None \<and> data_at fs' (sharedEnvFile c) = data_at fs (sharedEnvFile c)) \<or> registry_at c fs' cs"
proof -
  let ?p = "sharedEnvFile c" and ?ls = "replace_registry (registry_line cs) False lines"
  have ok: "list_all ln_ok ?ls"
    by (intro replace_ok registry_line_ok[OF assms(4,5)] read_lines_ok[OF assms(2)])
  have w: "(err \<noteq> None \<and> data_at fs' ?p = data_at fs ?p) \<or> data_at fs' ?p = Some (render_lines ?ls)"
    using atomic_write_data[OF assms(1) refl, of durable "render_lines ?ls" fs] assms(6)
    by (auto simp: writeCanonicalRegistryLockedWithDurability_def Let_def writeEnvLinesAtomicDurable_def
        writeEnvLinesAtomic_def split: if_splits)
  have read: "readEnvLines ?p fs' = Inr ?ls" if "data_at fs' ?p = Some (render_lines ?ls)"
    using that ok by (rule readEnvLines_data)
  have kept: "other_lines c fs' = other_lines c fs" if "data_at fs' ?p = data_at fs ?p"
    using readEnvLines_data_eq[OF that[symmetric] assms(2)] assms(2) by (simp add: other_lines_def)
  show "other_lines c fs' = other_lines c fs"
    using w kept read replace_others[OF registry_key_line] assms(2) by (auto simp: other_lines_def)
  show "(err \<noteq> None \<and> data_at fs' ?p = data_at fs ?p) \<or> registry_at c fs' cs"
    using w read registry_at_replaced[OF assms(3,4,5)] by blast
qed

lemma read_canonical:
  assumes "readRegistry c a fs = (Inr es, fs')"
  shows "canonical_registry es" and "canonicalRegistryEntries es = Inr es" and "list_all env_norm es"
proof -
  obtain raw where "canonicalRegistryEntries raw = Inr es"
    using assms by (auto simp: readRegistry_def split: sum.splits if_splits option.splits prod.splits)
  then show "canonical_registry es" "canonicalRegistryEntries es = Inr es" "list_all env_norm es"
    by (rule canonical_entries_canonical)+
qed

lemma read_stable:
  assumes "ans_tmp a \<noteq> sharedEnvFile c" and "entries_text_ok es" and "readRegistry c a fs = (Inr es, fs')"
  shows "registry_at c fs' es" and "other_lines c fs' = other_lines c fs"
proof -
  obtain lines raw rw where r: "readEnvLines (sharedEnvFile c) fs = Inr lines"
      "parseRawRegistryEntries lines = Inr (raw, rw)" "canonicalRegistryEntries raw = Inr es"
    using assms(3) by (auto simp: readRegistry_def split: sum.splits if_splits option.splits prod.splits)
  have "registry_at c fs' es \<and> other_lines c fs' = other_lines c fs"
  proof (cases "rw \<or> \<not> entries_eq raw es")
    case True
    then have "writeCanonicalRegistryLockedWithDurability c lines es False a fs = (None, fs')"
      using assms(3) r by (auto simp: readRegistry_def split: option.splits prod.splits)
    then show ?thesis
      using write_canonical_outcome[OF assms(1) r(1) read_canonical(2)[OF assms(3)] assms(2)
          read_canonical(3)[OF assms(3)]] by blast
  next
    case False
    then show ?thesis using assms(3) r by (auto simp: readRegistry_def registry_at_def)
  qed
  then show "registry_at c fs' es" "other_lines c fs' = other_lines c fs" by blast+
qed

lemma write_registry_outcome:
  assumes "ans_tmp b \<noteq> sharedEnvFile c" and "registry_at c fs es"
    and "canonicalRegistryEntries reg = Inr cs" and "entries_text_ok cs"
    and "writeRegistryLockedWithDurability c reg durable b fs = (err, fs')"
  shows "other_lines c fs' = other_lines c fs"
    and "(err \<noteq> None \<and> registry_at c fs' es) \<or> registry_at c fs' cs"
proof -
  obtain lines where l: "readEnvLines (sharedEnvFile c) fs = Inr lines"
    using assms(2) by (auto simp: registry_at_def)
  have w: "writeCanonicalRegistryLockedWithDurability c lines cs durable b fs = (err, fs')"
    using assms(3,5) l by (simp add: writeRegistryLockedWithDurability_def)
  note out = write_canonical_outcome[OF assms(1) l canonical_entries_canonical(2)[OF assms(3)] assms(4)
      canonical_entries_canonical(3)[OF assms(3)] w]
  show "other_lines c fs' = other_lines c fs" by (rule out(1))
  show "(err \<noteq> None \<and> registry_at c fs' es) \<or> registry_at c fs' cs"
    using out(2) registry_at_data[OF assms(2), of fs'] by auto
qed

end
