(* ===== verification/RegistrySystem.thy ===== *)
theory RegistrySystem
  imports RegistryLaws
begin

text \<open>
  The registry as the rest of the program uses it: a list of canonical entries with three
  updates. The abstract updates, the refinement of the operations on the file, the
  agreement between the preflight of an env patch and the synchronisation after it, and
  what the websocket allowlist can hold.
\<close>

section \<open>Updates\<close>

datatype registry_op = Upsert registryEntry | SetRepair string bool | Remove string

definition run_op :: "config \<Rightarrow> registry_op \<Rightarrow> answers \<Rightarrow> answers \<Rightarrow> string files \<Rightarrow> err option \<times> string files" where
  "run_op c op a b fs =
     (case op of
        Upsert e \<Rightarrow> upsertRegistryEntry c e a b fs
      | SetRepair sid flag \<Rightarrow> setRegistryRepairRequired c sid flag a b fs
      | Remove sid \<Rightarrow> (let ((removed, err), fs') = removeRegistryEntry c sid a b fs in (err, fs')))"

text \<open>The abstract updates of a canonical registry.\<close>

fun apply_op :: "registry_op \<Rightarrow> registryEntry list \<Rightarrow> registryEntry list" where
  "apply_op (Upsert e) es = replace_entry (canonical_of e) es"
| "apply_op (SetRepair sid flag) es =
     map (\<lambda>r. if re_ID r = sid then r\<lparr>re_RepairRequired := flag\<rparr> else r) es"
| "apply_op (Remove sid) es = filter (\<lambda>r. re_ID r \<noteq> sid) es"

lemma canonical_entry_of: "admissible_entry e \<Longrightarrow> canonical_entry (canonical_of e)"
  by (auto simp: canonical_entry_def canonical_of_def admissible_entry_def sanitize_idem)

lemma canonical_admissible: "canonical_entry e \<Longrightarrow> admissible_entry e"
  by (auto simp: canonical_entry_def canonical_id_def admissible_entry_def lower_alnum_serverIDRe
      lower_alnum_to_lower to_lower_project)

lemma canonical_ok: "canonical_registry es \<Longrightarrow> canonicalRegistryEntries es = Inr es"
  unfolding canonicalRegistryEntries_def canonical_loop_iff canonical_registry_def
  by (auto simp: list_all_iff canonical_admissible canonical_of_canonical intro!: map_idI[symmetric])

lemma replace_entry_ids:
  "set (map re_ID (replace_entry e es)) = insert (re_ID e) (set (map re_ID es))"
  by (induction e es rule: replace_entry.induct) auto

lemma replace_entry_distinct: "distinct (map re_ID es) \<Longrightarrow> distinct (map re_ID (replace_entry e es))"
proof (induction e es rule: replace_entry.induct)
  case (2 e r rs)
  then show ?case using replace_entry_ids[of e rs] by auto
qed simp

lemma replace_entry_set: "x \<in> set (replace_entry e es) \<Longrightarrow> x = e \<or> x \<in> set es"
  by (induction e es rule: replace_entry.induct) (auto split: if_splits)

lemma find_replace_entry:
  "find (\<lambda>r. re_ID r = k) (replace_entry e es) = (if k = re_ID e then Some e else find (\<lambda>r. re_ID r = k) es)"
  by (induction e es rule: replace_entry.induct) auto

lemma replace_entry_new: "re_ID e \<notin> set (map re_ID es) \<Longrightarrow> replace_entry e es = es @ [e]"
  by (induction e es rule: replace_entry.induct) auto

lemma canonical_id_lower: "canonical_id sid \<Longrightarrow> to_lower sid = sid"
  by (simp add: canonical_id_def lower_alnum_to_lower)

lemma upsert_canonical:
  assumes "canonical_registry es" and "canonicalRegistryEntries (replace_entry e es) = Inr cs"
  shows "cs = replace_entry (canonical_of e) es"
proof -
  have cs: "cs = map canonical_of (replace_entry e es)" "distinct (map re_ID cs)"
    using assms(2) unfolding canonicalRegistryEntries_def canonical_loop_iff by blast+
  have fixed: "canonical_of r = r" "to_lower (re_ID r) = re_ID r" if "r \<in> set es" for r
    using assms(1) that
    by (auto simp: canonical_registry_def list_all_iff canonical_of_canonical canonical_entry_def canonical_id_lower)
  show ?thesis
  proof (cases "to_lower (re_ID e) = re_ID e")
    case True
    then have "re_ID (canonical_of e) = re_ID e" by (simp add: canonical_of_def)
    then have "map canonical_of (replace_entry e es) = replace_entry (canonical_of e) es"
      using fixed(1) by (induction es) (auto intro: map_idI)
    then show ?thesis by (simp add: cs(1))
  next
    case False
    then have "re_ID e \<notin> set (map re_ID es)" using fixed(2) by auto
    then have "cs = es @ [canonical_of e]"
      using fixed(1) by (simp add: cs(1) replace_entry_new map_idI)
    moreover from this have "re_ID (canonical_of e) \<notin> set (map re_ID es)" using cs(2) by auto
    ultimately show ?thesis by (simp add: replace_entry_new)
  qed
qed

lemma canonical_registry_filter: "canonical_registry es \<Longrightarrow> canonical_registry (filter P es)"
  by (auto simp: canonical_registry_def list_all_iff distinct_map_filter)

lemma flag_as_map:
  assumes "distinct (map re_ID es)" and "find (\<lambda>r. re_ID r = sid) es = Some r"
  shows "replace_entry (r\<lparr>re_RepairRequired := flag\<rparr>) es = apply_op (SetRepair sid flag) es"
  using assms
proof (induction es)
  case (Cons x es)
  show ?case
  proof (cases "re_ID x = sid")
    case True
    have "re_ID y \<noteq> sid" if "y \<in> set es" for y
    proof -
      have "re_ID y \<in> re_ID ` set es" using that by (rule imageI)
      moreover have "sid \<notin> re_ID ` set es" using Cons.prems(1) True by simp
      ultimately show ?thesis by metis
    qed
    then have "map (\<lambda>r. if re_ID r = sid then r\<lparr>re_RepairRequired := flag\<rparr> else r) es = es"
      by (intro map_idI) auto
    with True Cons.prems(2) show ?thesis by simp
  next
    case False
    then have "re_ID r = sid" using Cons.prems(2) by (auto simp: find_Some_iff)
    with False show ?thesis using Cons by auto
  qed
qed simp

lemma canonical_registry_flag:
  "canonical_registry es \<Longrightarrow> canonical_registry (apply_op (SetRepair sid flag) es)"
proof -
  assume es: "canonical_registry es"
  have "map re_ID (apply_op (SetRepair sid flag) es) = map re_ID es" by simp
  moreover have "list_all canonical_entry (apply_op (SetRepair sid flag) es)"
    using es by (auto simp: canonical_registry_def list_all_iff canonical_entry_def)
  ultimately show ?thesis using es unfolding canonical_registry_def by metis
qed

section \<open>The operations refine the updates\<close>

lemma run_op_cases:
  assumes "readRegistry c a fs = (Inr es, fs1)" and "canonical_registry es" and "run_op c op a b fs = (err, fs')"
  shows "(\<exists>reg durable. writeRegistryLockedWithDurability c reg durable b fs1 = (err, fs') \<and>
      (\<forall>cs. canonicalRegistryEntries reg = Inr cs \<longrightarrow> cs = apply_op op es)) \<or>
    (fs' = fs1 \<and> (err \<noteq> None \<or> apply_op op es = es))"
proof (cases op)
  case (Upsert e)
  then show ?thesis using assms upsert_canonical[OF assms(2)]
    by (auto simp: run_op_def upsertRegistryEntry_def)
next
  case (SetRepair sid flag)
  show ?thesis
  proof (cases "find (\<lambda>r. re_ID r = sid) es")
    case None
    then show ?thesis using assms SetRepair by (auto simp: run_op_def setRegistryRepairRequired_def)
  next
    case (Some r)
    have "replace_entry (r\<lparr>re_RepairRequired := flag\<rparr>) es = apply_op op es"
      using flag_as_map[OF _ Some] assms(2) SetRepair by (simp add: canonical_registry_def)
    moreover have "canonicalRegistryEntries (apply_op op es) = Inr (apply_op op es)"
      using canonical_ok[OF canonical_registry_flag[OF assms(2)]] SetRepair by simp
    ultimately show ?thesis using assms SetRepair Some
      by (auto simp: run_op_def setRegistryRepairRequired_def)
  qed
next
  case (Remove sid)
  let ?m = "filter (\<lambda>r. re_ID r = sid) es"
  show ?thesis
  proof (cases "?m = [] \<or> re_ID (last ?m) = []")
    case True
    then have "apply_op op es = es"
    proof
      assume "?m = []"
      then show ?thesis using Remove by (auto simp: filter_empty_conv filter_id_conv)
    next
      assume id: "re_ID (last ?m) = []"
      show ?thesis
      proof (cases "?m = []")
        case True
        then show ?thesis using Remove by (auto simp: filter_empty_conv filter_id_conv)
      next
        case False
        then have "last ?m \<in> set ?m" by (rule last_in_set)
        then have "sid = []" using id by auto
        then show ?thesis using Remove assms(2)
          by (auto simp: filter_id_conv canonical_registry_def list_all_iff canonical_entry_def
              canonical_id_def lower_alnum_def)
      qed
    qed
    moreover have "fs' = fs1" using True assms Remove
      by (auto simp: run_op_def removeRegistryEntry_def Let_def zero_entry_def split: if_splits)
    ultimately show ?thesis by blast
  next
    case False
    then have "writeRegistryLockedWithDurability c (apply_op op es) False b fs1 = (err, fs')"
      using assms Remove by (auto simp: run_op_def removeRegistryEntry_def Let_def split: prod.splits)
    moreover have "canonicalRegistryEntries (apply_op op es) = Inr (apply_op op es)"
      using canonical_ok[OF canonical_registry_filter[OF assms(2)]] Remove by simp
    ultimately show ?thesis by fastforce
  qed
qed

section \<open>Properties of the registry\<close>

text \<open>
  C26. The operations refine the abstract updates. From any file whose registry reads as a
  list of canonical entries, an upsert, a repair flag or a removal that reports success
  leaves a file whose registry reads, again and again and without being rewritten, as the
  updated list; one that reports an error leaves the old list or the updated one. The other
  lines of the shared env file keep text and order in every case.
\<close>

theorem registry_operations_refine:
  assumes "readRegistry c a fs = (Inr es, fs1)" and "run_op c op a b fs = (err, fs')"
    and "ans_tmp a \<noteq> sharedEnvFile c" and "ans_tmp b \<noteq> sharedEnvFile c"
    and "entries_text_ok es" and "entries_text_ok (apply_op op es)"
  shows "other_lines c fs' = other_lines c fs \<and>
    (\<exists>es'. (\<forall>a'. readRegistry c a' fs' = (Inr es', fs')) \<and>
      (es' = apply_op op es \<or> err \<noteq> None \<and> es' = es))"
proof -
  note can = read_canonical(1)[OF assms(1)]
  have at: "registry_at c fs1 es" "other_lines c fs1 = other_lines c fs"
    using read_stable[OF assms(3,5,1)] by blast+
  have step: "other_lines c fs' = other_lines c fs1 \<and>
      (\<exists>es'. registry_at c fs' es' \<and> (es' = apply_op op es \<or> err \<noteq> None \<and> es' = es))"
    using run_op_cases[OF assms(1) can assms(2)]
  proof
    assume "\<exists>reg durable. writeRegistryLockedWithDurability c reg durable b fs1 = (err, fs') \<and>
      (\<forall>cs. canonicalRegistryEntries reg = Inr cs \<longrightarrow> cs = apply_op op es)"
    then obtain reg durable where w: "writeRegistryLockedWithDurability c reg durable b fs1 = (err, fs')"
      "\<And>cs. canonicalRegistryEntries reg = Inr cs \<Longrightarrow> cs = apply_op op es" by blast
    show ?thesis
    proof (cases "canonicalRegistryEntries reg")
      case (Inl e)
      then show ?thesis using w(1) at(1) by (auto simp: writeRegistryLockedWithDurability_def)
    next
      case (Inr cs)
      then have "canonicalRegistryEntries reg = Inr (apply_op op es)" using w(2) by simp
      then show ?thesis
        using write_registry_outcome[OF assms(4) at(1) _ assms(6) w(1)] by blast
    qed
  qed (use at(1) in auto)
  then show ?thesis using at(2) registry_at_read by auto
qed

definition ex_entry :: registryEntry where
  "ex_entry = zero_entry\<lparr>re_ID := ''pep1'', re_Name := ''Pep'', re_Generation := 3,
     re_DeployProject := ''opensamguk-spep1'', re_GameAPIURL := ''http://spep1-game-api:8081''\<rparr>"

definition ex_shared_files :: "string files" where
  "ex_shared_files = [''/workspace/.env'' \<mapsto> \<lparr>f_mode = 384, f_owner = (0, 0),
     f_content = Synced (''COOKIE_SECURE=true'' @ [newline])\<rparr>]"

lemma ex_shared_path: "sharedEnvFile ex_config = ''/workspace/.env''"
  by code_simp

lemma ex_shared_at: "registry_at ex_config ex_shared_files []"
  unfolding registry_at_def
proof (intro exI conjI)
  show "readEnvLines (sharedEnvFile ex_config) ex_shared_files = Inr [kv_line ''COOKIE_SECURE'' ''true'']"
    "parseRawRegistryEntries [kv_line ''COOKIE_SECURE'' ''true''] = Inr ([], False)"
    "canonicalRegistryEntries [] = Inr []" "entries_eq [] []"
    by code_simp+
qed

lemmas ex_shared_read = registry_at_read[OF ex_shared_at, of "all_well ''/t''"]

theorem registry_operations_refine_witness:
  "\<exists>fs'. upsertRegistryEntry ex_config ex_entry (all_well ''/t'') (all_well ''/t'') ex_shared_files = (None, fs') \<and>
    readRegistry ex_config (all_well ''/u'') fs' = (Inr [ex_entry], fs')"
proof -
  let ?a = "all_well ''/t''"
  obtain err fs' where u: "upsertRegistryEntry ex_config ex_entry ?a ?a ex_shared_files = (err, fs')"
    by fastforce
  have "fst (upsertRegistryEntry ex_config ex_entry ?a ?a ex_shared_files) = None" by code_simp
  then have err: "err = None" using u by simp
  have h: "ans_tmp ?a \<noteq> sharedEnvFile ex_config" "entries_text_ok []" "entries_text_ok [ex_entry]"
    "apply_op (Upsert ex_entry) [] = [ex_entry]"
    by (code_simp)+
  have "run_op ex_config (Upsert ex_entry) ?a ?a ex_shared_files = (err, fs')" using u by (simp add: run_op_def)
  from registry_operations_refine[OF ex_shared_read this h(1) h(1) h(2)] h(3,4)
  show ?thesis using u err by auto
qed

section \<open>The preflight of an env patch\<close>

lemma write_frame:
  assumes "p \<noteq> path" and "p \<noteq> ans_tmp a"
  shows "w_fs (writeFileAtomic path d a fs) p = fs p" "w_fs (writeFileAtomicDurable path d a fs) p = fs p"
  using env_write_frame[of p path a False True d fs] env_write_frame[of p path a True True d fs] assms
  by (simp_all add: writeFileAtomic_def writeFileAtomicDurable_def)

lemma read_frame:
  assumes "p \<noteq> sharedEnvFile c" and "p \<noteq> ans_tmp a" and "readRegistry c a fs = (res, fs')"
  shows "fs' p = fs p"
  using assms(3) write_frame[OF assms(1,2)]
  by (auto simp: readRegistry_def writeCanonicalRegistryLockedWithDurability_def Let_def writeEnvLinesAtomic_def
      split: sum.splits prod.splits if_splits option.splits)

lemma patch_frame:
  assumes "p \<noteq> path" and "p \<noteq> ans_tmp a" and "patchEnvFile path allow u a fs = (res, fs')"
  shows "fs' p = fs p"
  using assms(3) write_frame[OF assms(1,2)]
  by (auto simp: patchEnvFile_def writeEnvLinesAtomic_def Let_def split: sum.splits option.splits)

lemma map_of_updates:
  assumes "gm_ok u"
  shows "map_of (foldl (\<lambda>m (k, v). AList.update k v m) m u) k =
    (case map_of u k of None \<Rightarrow> map_of m k | Some v \<Rightarrow> Some v)"
  using assms
proof (induction u arbitrary: m)
  case (Cons kv u)
  obtain x y where kv: "kv = (x, y)" by (cases kv)
  have "map_of u x = None" using Cons.prems by (simp add: kv map_of_eq_None_iff)
  then show ?case using Cons by (auto simp: kv map_of_update split: option.splits)
qed simp

lemma entry_from_env_cong:
  assumes "\<And>k. map_of v k = map_of v' k"
  shows "registryEntryFromServerEnv c sid v current = registryEntryFromServerEnv c sid v' current"
proof -
  have "gm_str v = gm_str v'" using assms by (auto simp: gm_str_def)
  moreover from this have "sanitizeRegistryEnv v = sanitizeRegistryEnv v'"
    using assms by (simp add: sanitizeRegistryEnv_def)
  ultimately show ?thesis by (simp add: registryEntryFromServerEnv_def env_text_def)
qed

lemma patched_values:
  assumes "gm_ok u" and "\<And>k. gm_has u k \<Longrightarrow> length (filter (key_is k) ls) \<le> 1"
  shows "map_of (envValuesFromLines (patched_lines u ls)) k =
    map_of (foldl (\<lambda>m (k, v). AList.update k v m) (envValuesFromLines ls) u) k"
proof (cases "map_of u k")
  case None
  then show ?thesis by (simp add: map_of_updates[OF assms(1)] env_values_last patched_key[OF assms(1)])
next
  case (Some v)
  then have "drop 1 (filter (key_is k) ls) = []" using assms(2)[of k] by simp
  then show ?thesis using Some
    by (simp add: map_of_updates[OF assms(1)] env_values_last patched_key[OF assms(1)] kv_line_def)
qed

text \<open>
  C34. The preflight of an env patch is exact. An env request on a server decides before
  the patch whether the registry will change, and reserves a lifecycle job and writes a
  journal only then. For a patch of single-line values on keys with at most one line,
  whatever the registry writes of the preflight did, the synchronisation after the patch
  reports a change exactly when the preflight said so.
\<close>

theorem env_patch_preflight_exact:
  assumes "serverEnvPatchChangesRegistry c sid path u a fs = (Inr b, fs1)"
    and "patchEnvFile path allow u p fs1 = (Inr shown, fs2)"
    and "syncRegistryEntryFromEnv c sid path a' b' fs2 = ((changed, err), fs3)"
    and "canonical_id sid" and "gm_ok u" and "single_line u"
    and "\<And>ls k. readEnvLines path fs = Inr ls \<Longrightarrow> gm_has u k \<Longrightarrow> length (filter (key_is k) ls) \<le> 1"
    and "\<And>es. fst (readRegistry c a fs) = Inr es \<Longrightarrow> entries_text_ok es"
    and "path \<noteq> sharedEnvFile c" and "ans_tmp a \<notin> {path, sharedEnvFile c}"
    and "ans_tmp p \<notin> {path, sharedEnvFile c}"
  shows "changed = b"
proof -
  let ?s = "sharedEnvFile c"
  have tmp: "ans_tmp a \<noteq> ?s" "path \<noteq> ans_tmp a" "ans_tmp p \<noteq> path" "?s \<noteq> ans_tmp p" "?s \<noteq> path"
    using assms(9,10,11) by auto
  have shared: "fs2 ?s = fs1 ?s" by (rule patch_frame[OF tmp(5,4) assms(2)])
  have norm: "normalizeCreateServerID sid = Inr (sid, internalServerKey sid)"
    by (rule canonical_normalizes[OF assms(4)])
  show ?thesis
  proof (cases "fs ?s = None")
    case True
    then have "fs1 = fs" "b = False" using assms(1) by (simp_all add: serverEnvPatchChangesRegistry_def)
    then show ?thesis using assms(3) shared True norm by (simp add: syncRegistryEntryFromEnv_def)
  next
    case False
    obtain ls where ls: "readEnvLines path fs = Inr ls"
      using assms(1) False
      by (cases "readEnvLines path fs") (auto simp: serverEnvPatchChangesRegistry_def readEnvValues_def)
    let ?new = "foldl (\<lambda>m (k, v). AList.update k v m) (envValuesFromLines ls) u"
    obtain rr fs1' where rr: "readRegistry c a fs = (rr, fs1')" by fastforce
    then obtain es where "rr = Inr es" "fs1' = fs1"
      and b: "b = (let cur = (case find (\<lambda>r. re_ID r = sid) es of None \<Rightarrow> zero_entry | Some r \<Rightarrow> r) in
        \<not> entry_eq cur (registryEntryFromServerEnv c sid ?new cur))"
      using assms(1) False ls
      by (cases rr) (simp_all add: serverEnvPatchChangesRegistry_def readEnvValues_def registryEntryByID_def Let_def)
    then have es: "readRegistry c a fs = (Inr es, fs1)" using rr by simp
    have at: "registry_at c fs1 es" using read_stable(1)[OF tmp(1) _ es] assms(8) es by simp
    have at2: "registry_at c fs2 es" by (rule registry_at_data[OF at]) (simp add: data_at_def shared)
    have "fs1 ?s \<noteq> None" using at by (auto simp: registry_at_def readEnvLines_def data_at_def split: option.splits)
    then have there: "fs2 ?s \<noteq> None" using shared by simp
    have "readEnvLines path fs1 = Inr ls"
      using ls read_frame[OF assms(9) tmp(2) es] by (simp add: readEnvLines_def data_at_def split: option.splits)
    then have "readEnvLines path fs2 = Inr (patched_lines u ls)"
      using patch_file_cases[OF tmp(3) _ assms(6,2)] by auto
    then have vals: "readEnvValues path fs2 = Inr (envValuesFromLines (patched_lines u ls))"
      by (simp add: readEnvValues_def)
    have "registryEntryFromServerEnv c sid (envValuesFromLines (patched_lines u ls)) cur =
        registryEntryFromServerEnv c sid ?new cur" for cur
      by (rule entry_from_env_cong, rule patched_values[OF assms(5)]) (rule assms(7)[OF ls])
    then show ?thesis
      using assms(3) there norm registry_at_read[OF at2] vals
      by (auto simp: syncRegistryEntryFromEnv_def b Let_def split: if_splits prod.splits)
  qed
qed

definition ex_both_files :: "string files" where
  "ex_both_files = ex_shared_files(''/e'' \<mapsto> \<lparr>f_mode = 384, f_owner = (0, 0), f_content = Synced ex_env_text\<rparr>)"

theorem env_patch_preflight_exact_witness:
  "\<exists>fs1 fs2 fs3 err shown.
     serverEnvPatchChangesRegistry ex_config ''pep1'' ''/e'' ex_update (all_well ''/t'') ex_both_files = (Inr True, fs1) \<and>
     patchEnvFile ''/e'' serverEnvAllowlist ex_update (all_well ''/t'') fs1 = (Inr shown, fs2) \<and>
     syncRegistryEntryFromEnv ex_config ''pep1'' ''/e'' (all_well ''/t'') (all_well ''/t'') fs2 = ((True, err), fs3)"
proof -
  let ?a = "all_well ''/t''"
  obtain r1 fs1 where p1: "serverEnvPatchChangesRegistry ex_config ''pep1'' ''/e'' ex_update ?a ex_both_files = (r1, fs1)"
    by fastforce
  obtain r2 fs2 where p2: "patchEnvFile ''/e'' serverEnvAllowlist ex_update ?a fs1 = (r2, fs2)" by fastforce
  obtain changed err fs3 where p3: "syncRegistryEntryFromEnv ex_config ''pep1'' ''/e'' ?a ?a fs2 = ((changed, err), fs3)"
    by (metis surj_pair)
  have "fst (serverEnvPatchChangesRegistry ex_config ''pep1'' ''/e'' ex_update ?a ex_both_files) = Inr True"
    by code_simp
  then have r1: "r1 = Inr True" using p1 by simp
  have "is_ok (fst (patchEnvFile ''/e'' serverEnvAllowlist ex_update ?a
      (snd (serverEnvPatchChangesRegistry ex_config ''pep1'' ''/e'' ex_update ?a ex_both_files))))"
    by code_simp
  then obtain shown where r2: "r2 = Inr shown" using p1 p2 by (auto simp: is_ok_iff)
  have read: "readEnvLines ''/e'' ex_both_files = Inr ex_env_lines"
    "fst (readRegistry ex_config ?a ex_both_files) = Inr []" "canonical_id ''pep1''" "gm_ok ex_update"
    "single_line ex_update" "''/e'' \<noteq> sharedEnvFile ex_config"
    "ans_tmp ?a \<notin> {''/e'', sharedEnvFile ex_config}" "entries_text_ok []"
    "filter (key_is ''SERVER_NAME'') ex_env_lines = [kv_line ''SERVER_NAME'' ''Che'']"
    by code_simp+
  have keys: "k = ''SERVER_NAME''" if "gm_has ex_update k" for k
    using that by (auto simp: ex_update_def split: if_splits)
  have "changed = True"
  proof (rule env_patch_preflight_exact[OF p1[unfolded r1] p2[unfolded r2] p3 read(3,4,5) _ _ read(6,7,7)])
    show "length (filter (key_is k) ls) \<le> 1"
      if "readEnvLines ''/e'' ex_both_files = Inr ls" "gm_has ex_update k" for ls k
      using that(1) read(1,9) keys[OF that(2)] by simp
    show "entries_text_ok es" if "fst (readRegistry ex_config ?a ex_both_files) = Inr es" for es
      using that read(2,8) by simp
  qed
  then show ?thesis using p1 p2 p3 r1 r2 by blast
qed

section \<open>The websocket allowlist\<close>

lemma allowlist_ids_ok:
  "allowlist_ids seen es = Inr ids \<Longrightarrow>
     distinct ids \<and> set ids = re_ID ` {e \<in> set es. \<not> re_RepairRequired e} \<and>
     (\<forall>sid\<in>set ids. sid \<notin> set seen \<and> lower_alnum sid \<and> length sid \<le> maxPublicServerIDLength)"
proof (induction seen es arbitrary: ids rule: allowlist_ids.induct)
  case (2 seen e es)
  have ok: "battle_entry_ok e" "re_ID e \<notin> set seen" using "2.prems" by (auto split: if_splits)
  then obtain ds where ds: "allowlist_ids (re_ID e # seen) es = Inr ds"
    and ids: "ids = (if re_RepairRequired e then ds else re_ID e # ds)"
    using "2.prems" by (cases "allowlist_ids (re_ID e # seen) es") (auto split: if_splits)
  have IH: "distinct ds" "set ds = re_ID ` {e \<in> set es. \<not> re_RepairRequired e}"
    "\<And>sid. sid \<in> set ds \<Longrightarrow> sid \<noteq> re_ID e \<and> sid \<notin> set seen \<and> lower_alnum sid \<and> length sid \<le> maxPublicServerIDLength"
    using "2.IH"[OF _ ds] ok by auto
  have new: "lower_alnum (re_ID e)" "length (re_ID e) \<le> maxPublicServerIDLength"
    using ok(1) by (simp_all add: battle_entry_ok_def)
  have dist: "distinct ids" using IH(1,3) ids by auto
  have "{x \<in> set (e # es). \<not> re_RepairRequired x} =
      (if re_RepairRequired e then {} else {e}) \<union> {x \<in> set es. \<not> re_RepairRequired x}" by auto
  then have "set ids = re_ID ` {x \<in> set (e # es). \<not> re_RepairRequired x}" using IH(2) ids by simp
  moreover have "sid \<notin> set seen \<and> lower_alnum sid \<and> length sid \<le> maxPublicServerIDLength"
    if "sid \<in> set ids" for sid
    using that IH(3)[of sid] ids ok(2) new by (cases "re_RepairRequired e") auto
  ultimately show ?case using dist by blast
qed simp

text \<open>The content written for a registry, and what the steps after its reading make of the file.\<close>

definition allowlist_rendered :: "registryEntry list result \<Rightarrow> string result" where
  "allowlist_rendered reg = (case reg of Inl e \<Rightarrow> Inl e | Inr es \<Rightarrow> renderBattleWSAllowlist es)"

lemma rendered_ids:
  obtains ids where "the_ok [] (allowlist_rendered reg) = concat (map allowlist_line ids)" and "sorted ids" and "distinct ids"
    and "\<forall>sid\<in>set ids. lower_alnum sid \<and> length sid \<le> maxPublicServerIDLength"
    and "\<not> is_ok (allowlist_rendered reg) \<longrightarrow> ids = []"
    and "is_ok (allowlist_rendered reg) \<longrightarrow> (\<exists>es. reg = Inr es \<and> set ids = re_ID ` {e \<in> set es. \<not> re_RepairRequired e})"
proof (cases "allowlist_rendered reg")
  case (Inl e)
  then show ?thesis by (intro that[of "[]"]) (simp_all add: the_ok_def)
next
  case (Inr text')
  then obtain es js where es: "reg = Inr es" "allowlist_ids [] es = Inr js"
    "text' = concat (map allowlist_line (sort js))"
    by (cases reg; cases "allowlist_ids [] (projr reg)") (auto simp: allowlist_rendered_def renderBattleWSAllowlist_def)
  show ?thesis
    using allowlist_ids_ok[OF es(2)] es Inr by (intro that[of "sort js"]) (simp_all add: the_ok_def)
qed

lemma set_mode_data [simp]: "data_at (set_mode m path g) path = data_at g path"
  by (auto simp: data_at_def set_mode_def split: option.splits)

lemma restored_data:
  assumes "restore_allowlist path prev removed r g = (err, h)" and "ans_tmp r \<noteq> path"
  shows "err \<noteq> None" and "data_at h path = prev \<or> data_at h path = data_at g path"
proof -
  show "err \<noteq> None" using assms(1) by (auto simp: restore_allowlist_def Let_def split: option.splits if_splits)
  show "data_at h path = prev \<or> data_at h path = data_at g path"
  proof (cases prev)
    case None
    then show ?thesis using assms(1) by (auto simp: restore_allowlist_def data_at_def split: if_splits)
  next
    case (Some t)
    then show ?thesis using assms(1) atomic_write_data[OF assms(2) refl, of True t g]
      by (auto simp: restore_allowlist_def Let_def split: if_splits)
  qed
qed

lemma allowlist_sync_cases:
  fixes b :: answers and c :: config
  defines "path \<equiv> battleWSAllowlistPath c"
  assumes "syncBattleWSAllowlist c mkdir chmod tested removed a b r fs = ((degraded, err), fs')"
    and "readRegistry c a fs = (reg, fs1)"
  defines "W \<equiv> writeFileAtomicDurable path (the_ok [] (allowlist_rendered reg)) b fs1"
  defines "G \<equiv> set_mode 420 path (w_fs W)"
  shows "degraded = (\<not> is_ok (allowlist_rendered reg)) \<and>
    (fs' = fs1 \<and> err \<noteq> None \<or> fs' = w_fs W \<and> err \<noteq> None \<or>
     w_err W = None \<and> tested \<and> err = None \<and> fs' = G \<or>
     w_err W = None \<and> restore_allowlist path (data_at fs1 path) removed r G = (err, fs'))"
proof -
  note run = assms(2)[unfolded syncBattleWSAllowlist_def assms(3) prod.case allowlist_rendered_def[symmetric] Let_def,
      folded path_def, folded W_def, folded G_def]
  show ?thesis
  proof (cases "mkdir \<and> \<not> (fs1 path \<noteq> None \<and> data_at fs1 path = None) \<and> w_err W = None \<and> chmod")
    case True
    then show ?thesis using run
      by (cases tested; cases "restore_allowlist path (data_at fs1 path) removed r G") auto
  next
    case False
    then show ?thesis using run by (cases "w_err W") (auto split: if_splits)
  qed
qed

text \<open>
  C35. What nginx can be told. Whatever happens while the websocket allowlist is
  synchronised, the file afterwards is what it was or one line per canonical, non-repairing
  server of the registry, each with the fixed internal address of that server, sorted and
  without repetition; nothing of a URL or name of the registry is copied. Success means the
  new content is in place and nginx accepted it; without a valid registry the content is
  empty, so every route is closed.
\<close>

theorem battle_allowlist_fixed:
  assumes "syncBattleWSAllowlist c mkdir chmod tested removed a b r fs = ((degraded, err), fs')"
    and "path = battleWSAllowlistPath c" and "path \<noteq> sharedEnvFile c"
    and "path \<notin> {ans_tmp a, ans_tmp b, ans_tmp r}"
  shows "\<exists>ids. (data_at fs' path = data_at fs path \<or> data_at fs' path = Some (concat (map allowlist_line ids))) \<and>
    sorted ids \<and> distinct ids \<and> (\<forall>sid\<in>set ids. lower_alnum sid \<and> length sid \<le> maxPublicServerIDLength) \<and>
    (degraded \<longrightarrow> ids = []) \<and>
    (\<not> degraded \<longrightarrow> (\<exists>es. fst (readRegistry c a fs) = Inr es \<and>
       set ids = re_ID ` {e \<in> set es. \<not> re_RepairRequired e})) \<and>
    (err = None \<longrightarrow> tested \<and> data_at fs' path = Some (concat (map allowlist_line ids)))"
proof -
  obtain reg fs1 where reg: "readRegistry c a fs = (reg, fs1)" by fastforce
  have fs1: "data_at fs1 path = data_at fs path"
    using read_frame[OF assms(3) _ reg] assms(4) by (simp add: data_at_def)
  obtain ids where ids: "the_ok [] (allowlist_rendered reg) = concat (map allowlist_line ids)" "sorted ids" "distinct ids"
    "\<forall>sid\<in>set ids. lower_alnum sid \<and> length sid \<le> maxPublicServerIDLength"
    "\<not> is_ok (allowlist_rendered reg) \<longrightarrow> ids = []"
    "is_ok (allowlist_rendered reg) \<longrightarrow> (\<exists>es. reg = Inr es \<and> set ids = re_ID ` {e \<in> set es. \<not> re_RepairRequired e})"
    by (rule rendered_ids[of reg])
  let ?content = "concat (map allowlist_line ids)"
  let ?W = "writeFileAtomicDurable path ?content b fs1"
  have tmp: "ans_tmp b \<noteq> path" "ans_tmp r \<noteq> path" using assms(4) by auto
  have w: "w_err ?W \<noteq> None \<and> data_at (w_fs ?W) path = data_at fs1 path \<or> data_at (w_fs ?W) path = Some ?content"
    using atomic_write_data[OF tmp(1) refl, of True ?content fs1] by simp
  note out = allowlist_sync_cases[OF assms(1) reg, folded assms(2), unfolded ids(1)]
  have "(data_at fs' path = data_at fs1 path \<or> data_at fs' path = Some ?content) \<and>
      (err = None \<longrightarrow> tested \<and> data_at fs' path = Some ?content)"
    using conjunct2[OF out]
  proof (elim disjE conjE)
    assume k: "w_err ?W = None" "restore_allowlist path (data_at fs1 path) removed r (set_mode 420 path (w_fs ?W)) = (err, fs')"
    show ?thesis using restored_data[OF k(2) tmp(2)] w k(1) by auto
  qed (use w in auto)
  then show ?thesis using ids(2-) conjunct1[OF out] fs1 reg by (intro exI[of _ ids]) auto
qed

theorem battle_allowlist_fixed_witness:
  "\<exists>ids fs'. snd (syncBattleWSAllowlist ex_config True True True True (all_well ''/t'') (all_well ''/t'')
      (all_well ''/t'') ex_shared_files) = fs' \<and>
    data_at fs' ''/workspace/infra/nginx/runtime/battle-ws-allowlist.map'' = Some (concat (map allowlist_line ids))"
proof -
  let ?p = "''/workspace/infra/nginx/runtime/battle-ws-allowlist.map''" and ?a = "all_well ''/t''"
  obtain degraded err fs' where run: "syncBattleWSAllowlist ex_config True True True True ?a ?a ?a ex_shared_files =
      ((degraded, err), fs')" by (metis surj_pair)
  have "snd (fst (syncBattleWSAllowlist ex_config True True True True ?a ?a ?a ex_shared_files)) = None"
    by code_simp
  then have "err = None" using run by simp
  moreover have "?p = battleWSAllowlistPath ex_config" "?p \<noteq> sharedEnvFile ex_config"
    "?p \<notin> {ans_tmp ?a, ans_tmp ?a, ans_tmp ?a}" by code_simp+
  ultimately show ?thesis using battle_allowlist_fixed[OF run] run by fastforce
qed

end
