(* ===== verification/SpaceBudget.thy ===== *)
theory SpaceBudget
  imports GoText
begin

text \<open>
  reset_space_budget.go: the disk and inode budget of a reset. Every quantity is a Go
  \<open>uint64\<close>, a 64-bit word, and a missing one is a nil pointer, \<open>None\<close>. The sums are checked
  before each addition, so that the comparison with what is free is the comparison of the
  natural numbers; the lemmas say so.
\<close>

section \<open>Budgets and observations\<close>

type_synonym uint64 = "64 word"

record resetSpaceBudget =
  sb_CandidateUnpackedBytes :: "uint64 option"
  sb_BackupBytes :: "uint64 option"
  sb_RecoveryBytes :: "uint64 option"
  sb_TemporaryBytes :: "uint64 option"
  sb_NewFileCount :: "uint64 option"
  sb_InodeReserve :: "uint64 option"

record resetSpaceObservation =
  so_AvailableBytes :: "uint64 option"
  so_AvailableInodes :: "uint64 option"

record resetSpaceRequirement =
  sr_Bytes :: uint64
  sr_Inodes :: uint64

definition resetDiskReserveBytes :: uint64 where
  "resetDiskReserveBytes = 10 * 1024 * 1024 * 1024"

section \<open>Checked sums\<close>

abbreviation max_uint64 :: uint64 where
  "max_uint64 \<equiv> - 1"

fun checked_sum :: "uint64 \<Rightarrow> uint64 list \<Rightarrow> uint64 result" where
  "checked_sum acc [] = Inr acc"
| "checked_sum acc (value # values) =
     (if value > max_uint64 - acc then Inl (Err ''reset space budget exceeds supported range'')
      else checked_sum (acc + value) values)"

definition checkedResetSpaceSum :: "uint64 list \<Rightarrow> uint64 result" where
  "checkedResetSpaceSum values = checked_sum 0 values"

definition resetRequiredSpace :: "resetSpaceBudget \<Rightarrow> resetSpaceRequirement result" where
  "resetRequiredSpace budget =
     (case (sb_CandidateUnpackedBytes budget, sb_BackupBytes budget, sb_RecoveryBytes budget,
            sb_TemporaryBytes budget, sb_NewFileCount budget, sb_InodeReserve budget) of
        (Some candidate, Some backup, Some recovery, Some temporary, Some files', Some reserve) \<Rightarrow>
          (case checkedResetSpaceSum [candidate, backup, recovery, temporary, resetDiskReserveBytes] of
             Inl e \<Rightarrow> Inl e
           | Inr bytes \<Rightarrow>
               (case checkedResetSpaceSum [files', reserve] of
                  Inl e \<Rightarrow> Inl e
                | Inr inodes \<Rightarrow> Inr \<lparr>sr_Bytes = bytes, sr_Inodes = inodes\<rparr>))
      | _ \<Rightarrow> Inl (Err ''reset space budget is incomplete''))"

definition verifyResetSpaceBudget :: "resetSpaceBudget \<Rightarrow> resetSpaceObservation \<Rightarrow> err option" where
  "verifyResetSpaceBudget budget observed =
     (case resetRequiredSpace budget of
        Inl e \<Rightarrow> Some e
      | Inr required \<Rightarrow>
          (case (so_AvailableBytes observed, so_AvailableInodes observed) of
             (Some bytes, Some inodes) \<Rightarrow>
               if bytes < sr_Bytes required then Some (Err ''reset disk space is insufficient'')
               else if inodes < sr_Inodes required then Some (Err ''reset inode space is insufficient'')
               else None
           | _ \<Rightarrow> Some (Err ''reset space observation is incomplete'')))"

definition verifyResetRemainingSpace ::
    "uint64 option \<Rightarrow> uint64 option \<Rightarrow> uint64 option \<Rightarrow> uint64 option \<Rightarrow> resetSpaceObservation \<Rightarrow> err option" where
  "verifyResetRemainingSpace recoveryBytes unfinishedTemporaryBytes newFileCount inodeReserve observed =
     verifyResetSpaceBudget
       \<lparr>sb_CandidateUnpackedBytes = Some 0, sb_BackupBytes = Some 0, sb_RecoveryBytes = recoveryBytes,
        sb_TemporaryBytes = unfinishedTemporaryBytes, sb_NewFileCount = newFileCount,
        sb_InodeReserve = inodeReserve\<rparr> observed"

section \<open>Exactness\<close>

lemma uint64_less: "unat (x :: uint64) < 2 ^ 64"
  using unsigned_less[of x, where ?'a = nat] by simp

lemma unat_max_uint64: "unat max_uint64 = 2 ^ 64 - 1"
  unfolding unsigned_minus_1_eq_mask by (simp add: mask_eq_exp_minus_1)

lemma max_uint64_minus_less:
  fixes v t :: uint64
  shows "v > max_uint64 - t \<longleftrightarrow> 2 ^ 64 \<le> unat t + unat v"
proof -
  have "unat (max_uint64 - t) = 2 ^ 64 - 1 - unat t"
    by (simp add: unat_sub unat_max_uint64)
  moreover have "unat t < 2 ^ 64" using uint64_less by blast
  ultimately show ?thesis unfolding word_less_nat_alt by (simp, linarith)
qed

lemma checked_sum_exact:
  "checked_sum t vs = Inr r \<longleftrightarrow>
     unat t + sum_list (map unat vs) < 2 ^ 64 \<and> unat r = unat t + sum_list (map unat vs)"
proof (induction vs arbitrary: t)
  case Nil
  show ?case using uint64_less[of t] by (auto simp: word_unat_eq_iff)
next
  case (Cons v vs)
  show ?case
  proof (cases "v > max_uint64 - t")
    case True
    with max_uint64_minus_less[of t v] show ?thesis by simp
  next
    case False
    then have "unat t + unat v < 2 ^ 64" using max_uint64_minus_less[of t v] by simp
    then have "unat (t + v) = unat t + unat v" by (subst unat_add_lem[symmetric]) simp
    with False Cons.IH[of "t + v"] show ?thesis by (simp add: add.assoc)
  qed
qed

lemma checked_sum_fails:
  "checked_sum t vs = Inl e \<Longrightarrow> 2 ^ 64 \<le> unat t + sum_list (map unat vs)"
proof (induction vs arbitrary: t)
  case (Cons v vs)
  show ?case
  proof (cases "v > max_uint64 - t")
    case True
    with max_uint64_minus_less[of t v] show ?thesis by simp
  next
    case False
    then have "unat t + unat v < 2 ^ 64" using max_uint64_minus_less[of t v] by simp
    then have "unat (t + v) = unat t + unat v" by (subst unat_add_lem[symmetric]) simp
    with False Cons show ?thesis by (fastforce simp: add.assoc)
  qed
qed simp

lemma reserve_value: "unat resetDiskReserveBytes = 10737418240"
  by (simp add: resetDiskReserveBytes_def)

lemma required_space_iff:
  "resetRequiredSpace b = Inr r \<longleftrightarrow>
     (\<exists>c k v t n i. b = \<lparr>sb_CandidateUnpackedBytes = Some c, sb_BackupBytes = Some k,
         sb_RecoveryBytes = Some v, sb_TemporaryBytes = Some t, sb_NewFileCount = Some n,
         sb_InodeReserve = Some i\<rparr> \<and>
       unat c + unat k + unat v + unat t + 10737418240 < 2 ^ 64 \<and> unat n + unat i < 2 ^ 64 \<and>
       unat (sr_Bytes r) = unat c + unat k + unat v + unat t + 10737418240 \<and>
       unat (sr_Inodes r) = unat n + unat i)"
proof (cases b)
  case (fields c k v t n i)
  show ?thesis
  proof (cases "c = None \<or> k = None \<or> v = None \<or> t = None \<or> n = None \<or> i = None")
    case True
    then show ?thesis
      by (auto simp: fields resetRequiredSpace_def split: option.splits)
  next
    case False
    then obtain c' k' v' t' n' i' where s: "c = Some c'" "k = Some k'" "v = Some v'" "t = Some t'"
      "n = Some n'" "i = Some i'" by auto
    have "resetRequiredSpace b = Inr r \<longleftrightarrow>
        checkedResetSpaceSum [c', k', v', t', resetDiskReserveBytes] = Inr (sr_Bytes r) \<and>
        checkedResetSpaceSum [n', i'] = Inr (sr_Inodes r)"
      by (cases r) (auto simp: fields s resetRequiredSpace_def split: sum.splits)
    also have "\<dots> \<longleftrightarrow> unat c' + unat k' + unat v' + unat t' + 10737418240 < 2 ^ 64 \<and>
        unat n' + unat i' < 2 ^ 64 \<and>
        unat (sr_Bytes r) = unat c' + unat k' + unat v' + unat t' + 10737418240 \<and>
        unat (sr_Inodes r) = unat n' + unat i'"
      unfolding checkedResetSpaceSum_def checked_sum_exact by (simp add: reserve_value) linarith
    finally show ?thesis by (simp add: fields s)
  qed
qed

text \<open>
  C39. The space check is exact. A reset passes the check exactly when no figure is missing,
  neither sum exceeds 64 bits, and what is free covers the true sums, with ten GiB of disk
  in reserve: nothing wraps around to a small requirement.
\<close>

theorem space_budget_exact:
  "verifyResetSpaceBudget b o' = None \<longleftrightarrow>
     (\<exists>c k v t n i ab ai. b = \<lparr>sb_CandidateUnpackedBytes = Some c, sb_BackupBytes = Some k,
         sb_RecoveryBytes = Some v, sb_TemporaryBytes = Some t, sb_NewFileCount = Some n,
         sb_InodeReserve = Some i\<rparr> \<and>
       o' = \<lparr>so_AvailableBytes = Some ab, so_AvailableInodes = Some ai\<rparr> \<and>
       unat c + unat k + unat v + unat t + 10 * 1024 ^ 3 \<le> unat ab \<and> unat n + unat i \<le> unat ai)"
proof (cases "resetRequiredSpace b")
  case (Inl e)
  have "\<not> (\<exists>c k v t n i ab ai. b = \<lparr>sb_CandidateUnpackedBytes = Some c, sb_BackupBytes = Some k,
         sb_RecoveryBytes = Some v, sb_TemporaryBytes = Some t, sb_NewFileCount = Some n,
         sb_InodeReserve = Some i\<rparr> \<and>
       o' = \<lparr>so_AvailableBytes = Some ab, so_AvailableInodes = Some ai\<rparr> \<and>
       unat c + unat k + unat v + unat t + 10 * 1024 ^ 3 \<le> unat ab \<and> unat n + unat i \<le> unat ai)"
  proof clarify
    fix c k v t n i and ab ai :: uint64
    assume b: "b = \<lparr>sb_CandidateUnpackedBytes = Some c, sb_BackupBytes = Some k,
         sb_RecoveryBytes = Some v, sb_TemporaryBytes = Some t, sb_NewFileCount = Some n,
         sb_InodeReserve = Some i\<rparr>"
      and le: "unat c + unat k + unat v + unat t + 10 * 1024 ^ 3 \<le> unat ab" "unat n + unat i \<le> unat ai"
    have lt: "unat ab < 2 ^ 64" "unat ai < 2 ^ 64" using uint64_less by blast+
    obtain e' where "checkedResetSpaceSum [c, k, v, t, resetDiskReserveBytes] = Inl e' \<or>
        checkedResetSpaceSum [n, i] = Inl e'"
      using Inl by (auto simp: b resetRequiredSpace_def split: sum.splits)
    then have "2 ^ 64 \<le> unat c + unat k + unat v + unat t + 10737418240 \<or> 2 ^ 64 \<le> unat n + unat i"
      using checked_sum_fails[of 0 "[c, k, v, t, resetDiskReserveBytes]" e'] checked_sum_fails[of 0 "[n, i]" e']
      unfolding checkedResetSpaceSum_def by (auto simp: reserve_value add.assoc simp del: checked_sum.simps)
    with le lt show False by auto
  qed
  then show ?thesis by (simp only: verifyResetSpaceBudget_def Inl sum.case) blast
next
  case (Inr r)
  then obtain c k v t n i where b: "b = \<lparr>sb_CandidateUnpackedBytes = Some c, sb_BackupBytes = Some k,
         sb_RecoveryBytes = Some v, sb_TemporaryBytes = Some t, sb_NewFileCount = Some n,
         sb_InodeReserve = Some i\<rparr>"
    and r: "unat (sr_Bytes r) = unat c + unat k + unat v + unat t + 10737418240"
      "unat (sr_Inodes r) = unat n + unat i"
    unfolding required_space_iff by blast
  show ?thesis
    by (cases o', simp only: verifyResetSpaceBudget_def Inr sum.case)
      (auto simp: b r word_less_nat_alt not_less split: option.splits if_splits)
qed

lemma remaining_space_exact:
  "verifyResetRemainingSpace v t n i o' = None \<Longrightarrow>
   \<exists>v' t' n' i' ab ai. v = Some v' \<and> t = Some t' \<and> n = Some n' \<and> i = Some i' \<and>
     so_AvailableBytes o' = Some ab \<and> so_AvailableInodes o' = Some ai \<and>
     resetDiskReserveBytes \<le> ab"
proof -
  assume "verifyResetRemainingSpace v t n i o' = None"
  then obtain r ab ai where r: "resetRequiredSpace \<lparr>sb_CandidateUnpackedBytes = Some 0,
      sb_BackupBytes = Some 0, sb_RecoveryBytes = v, sb_TemporaryBytes = t, sb_NewFileCount = n,
      sb_InodeReserve = i\<rparr> = Inr r"
    and o': "so_AvailableBytes o' = Some ab" "so_AvailableInodes o' = Some ai" "\<not> ab < sr_Bytes r"
    by (auto simp: verifyResetRemainingSpace_def verifyResetSpaceBudget_def
        split: sum.splits option.splits if_splits)
  from r obtain v' t' n' i' where "v = Some v'" "t = Some t'" "n = Some n'" "i = Some i'"
    "10737418240 \<le> unat (sr_Bytes r)"
    unfolding required_space_iff by auto
  with o' show ?thesis by (auto simp: word_less_nat_alt word_le_nat_alt reserve_value)
qed

end
