(* ===== verification/Sha256.thy ===== *)
theory Sha256
  imports GoText
begin

text \<open>
  SHA-256 and its lower-case hexadecimal form, as the fingerprints of lifecycle requests and
  the evidence of a reset use them (Go's \<open>crypto/sha256\<close> and \<open>encoding/hex\<close>). Words have 32
  bits and wrap. The lemmas: the padded message is a whole number of blocks, and a
  fingerprint is always 64 lower-case hexadecimal digits.
\<close>

type_synonym w32 = "32 word"

text \<open>
  The constants are the first 32 bits of the fractional parts of the cube roots of the first
  64 primes, and of the square roots of the first 8 (those up to 311 and up to 19). The root
  is taken bit by bit, of the number shifted so far that the wanted bits are its last 32.
\<close>

definition root_floor :: "nat \<Rightarrow> int \<Rightarrow> int" where
  "root_floor k n = foldl (\<lambda>r i. if (r + 2 ^ i) ^ k \<le> n then r + 2 ^ i else r) 0 (rev [0..<36])"

definition primes_to :: "int \<Rightarrow> int list" where
  "primes_to n = filter (\<lambda>p. list_all (\<lambda>d. p mod d \<noteq> 0) [2..p - 1]) [2..n]"

definition root_word :: "nat \<Rightarrow> int \<Rightarrow> w32" where
  "root_word k p = of_int (root_floor k (p * 2 ^ (32 * k)))"

definition sha_k :: "w32 list" where
  "sha_k = map (root_word 3) (primes_to 311)"

definition sha_init :: "w32 list" where
  "sha_init = map (root_word 2) (primes_to 19)"

lemma length_sha_init: "length sha_init = 8"
proof -
  have "length (primes_to 19) = 8" by code_simp
  then show ?thesis by (simp add: sha_init_def)
qed

definition rotr :: "nat \<Rightarrow> w32 \<Rightarrow> w32" where
  "rotr n x = drop_bit n x OR push_bit (32 - n) x"

definition big_sigma0 :: "w32 \<Rightarrow> w32" where
  "big_sigma0 x = rotr 2 x XOR rotr 13 x XOR rotr 22 x"

definition big_sigma1 :: "w32 \<Rightarrow> w32" where
  "big_sigma1 x = rotr 6 x XOR rotr 11 x XOR rotr 25 x"

definition small_sigma0 :: "w32 \<Rightarrow> w32" where
  "small_sigma0 x = rotr 7 x XOR rotr 18 x XOR drop_bit 3 x"

definition small_sigma1 :: "w32 \<Rightarrow> w32" where
  "small_sigma1 x = rotr 17 x XOR rotr 19 x XOR drop_bit 10 x"

text \<open>The padding: a one bit, zeros, and the length in bits as eight bytes, big-endian.\<close>

definition length_bytes :: "64 word \<Rightarrow> w32 list" where
  "length_bytes n = map (\<lambda>i. ucast (drop_bit i n AND 255)) [56, 48, 40, 32, 24, 16, 8, 0]"

definition sha_pad :: "w32 list \<Rightarrow> w32 list" where
  "sha_pad bs = bs @ [128] @ replicate ((119 - length bs mod 64) mod 64) 0 @
     length_bytes (8 * of_nat (length bs))"

fun be_words :: "w32 list \<Rightarrow> w32 list" where
  "be_words (a # b # c # d # bs) = (((a * 256 + b) * 256 + c) * 256 + d) # be_words bs"
| "be_words _ = []"

text \<open>The message schedule, kept newest first: word t from the words t-2, t-7, t-15 and t-16.\<close>

fun schedule :: "nat \<Rightarrow> w32 list \<Rightarrow> w32 list" where
  "schedule 0 ws = rev ws"
| "schedule (Suc n) ws =
     schedule n ((small_sigma1 (ws ! 1) + ws ! 6 + small_sigma0 (ws ! 14) + ws ! 15) # ws)"

fun sha_round :: "w32 list \<Rightarrow> w32 \<times> w32 \<Rightarrow> w32 list" where
  "sha_round [a, b, c, d, e, f, g, h] (k, w) =
     (let t1 = h + big_sigma1 e + ((e AND f) XOR (NOT e AND g)) + k + w;
          t2 = big_sigma0 a + ((a AND b) XOR (a AND c) XOR (b AND c))
      in [t1 + t2, a, b, c, d + t1, e, f, g])"
| "sha_round vs kw = vs"

definition sha_block :: "w32 list \<Rightarrow> w32 list \<Rightarrow> w32 list" where
  "sha_block hs block =
     map2 (+) hs (foldl sha_round hs (zip sha_k (schedule 48 (rev block))))"

function sha_blocks :: "w32 list \<Rightarrow> w32 list \<Rightarrow> w32 list" where
  "sha_blocks hs ws = (if length ws < 16 then hs else sha_blocks (sha_block hs (take 16 ws)) (drop 16 ws))"
  by pat_completeness auto
termination by (relation "measure (\<lambda>(hs, ws). length ws)") auto

declare sha_blocks.simps [simp del]

definition sha256_words :: "w32 list \<Rightarrow> w32 list" where
  "sha256_words bs = sha_blocks sha_init (be_words (sha_pad bs))"

definition hex_digit :: "nat \<Rightarrow> char" where
  "hex_digit n = (if n < 10 then char_of (48 + n) else char_of (87 + n))"

definition hex_word :: "w32 \<Rightarrow> string" where
  "hex_word w = map (\<lambda>i. hex_digit (unat (drop_bit i w AND 15))) [28, 24, 20, 16, 12, 8, 4, 0]"

text \<open>\<open>hex.EncodeToString\<close> of \<open>sha256.Sum256\<close>.\<close>

definition sha256_hex :: "string \<Rightarrow> string" where
  "sha256_hex text' = concat (map hex_word (sha256_words (map (\<lambda>c. of_nat (byte c)) text')))"

lemma sha_pad_tail:
  assumes "m < 64"
  shows "m + 9 + (119 - m) mod 64 = (if m < 56 then 64 else 128 :: nat)"
proof (cases "m < 56")
  case True
  then have eq: "119 - m = (55 - m) + 64" by simp
  have "(119 - m) mod 64 = 55 - m" unfolding eq by simp
  with True show ?thesis by simp
next
  case False
  with assms show ?thesis by simp
qed

lemma length_sha_pad: "length (sha_pad bs) mod 64 = 0"
proof -
  have "length (sha_pad bs) = length bs + 9 + (119 - length bs mod 64) mod 64"
    by (simp add: sha_pad_def length_bytes_def)
  also have "\<dots> = 64 * (length bs div 64) + (length bs mod 64 + 9 + (119 - length bs mod 64) mod 64)"
    by simp
  also have "\<dots> = 64 * (length bs div 64) + (if length bs mod 64 < 56 then 64 else 128)"
    by (subst sha_pad_tail) simp_all
  finally show ?thesis by simp
qed

lemma length_sha_round: "length hs = 8 \<Longrightarrow> length (sha_round hs kw) = 8"
  by (induction hs kw rule: sha_round.induct) (simp_all add: Let_def)

lemma length_rounds: "length hs = 8 \<Longrightarrow> length (foldl sha_round hs kws) = 8"
  by (induction kws arbitrary: hs) (simp_all add: length_sha_round)

lemma length_sha_blocks: "length hs = 8 \<Longrightarrow> length (sha_blocks hs ws) = 8"
proof (induction hs ws rule: sha_blocks.induct)
  case (1 hs ws)
  then show ?case
    by (subst sha_blocks.simps) (simp add: sha_block_def length_rounds)
qed

lemma hex_digit_class: "n < 16 \<Longrightarrow> is_lower_hex (hex_digit n)"
  by (auto simp: hex_digit_def is_lower_hex_def is_digit_def in_bytes_def)

lemma hex_word_class: "hex_string 8 (hex_word w)"
proof -
  have "unat (x AND 15) < 16" for x :: w32
    using word_and_le1[of x 15] by (simp add: word_le_nat_alt)
  then show ?thesis by (simp add: hex_string_def hex_word_def hex_digit_class)
qed

lemma concat_hex_words: "hex_string (8 * length ws) (concat (map hex_word ws))"
  using hex_word_class by (induction ws) (auto simp: hex_string_def)

lemma sha256_hex_string: "hex_string 64 (sha256_hex text')"
proof -
  have "length (sha256_words (map (\<lambda>c. of_nat (byte c)) text')) = 8"
    by (simp add: sha256_words_def length_sha_blocks length_sha_init)
  then show ?thesis using concat_hex_words[of "sha256_words (map (\<lambda>c. of_nat (byte c)) text')"]
    by (simp add: sha256_hex_def)
qed

end
