(* ===== verification/ResetTarget.thy ===== *)
theory ResetTarget
  imports Registry Sha256
begin

text \<open>
  What a reset sets: the settings of a request (reset_settings.go and \<open>resetEnvUpdates\<close>),
  the target computed from them and the server's env file, its normal form
  (\<open>normalizeResetLifecycleTarget\<close>, reset_image_pins.go, reset_storage_pins.go), the patch
  that applies it, and the fingerprint of a reset. The lemmas are in \<open>ResetTargetLaws\<close>.

  A Go map that is ranged over is read in the order of its list; the first error is then
  one of the errors Go could return.
\<close>

section \<open>Requests and explicit settings\<close>

record resetServerRequest =
  rq_StorageImageDigests :: env
  rq_ApprovalPlanSHA256 :: string
  rq_ExecutionReceiptSHA256 :: string
  rq_ID :: string
  rq_OperationID :: string
  rq_MaintenanceLease :: string
  rq_Confirm :: string
  rq_ImageTag :: string
  rq_WebGameTag :: string
  rq_ImageDigests :: env
  rq_Generation :: string
  rq_ServerName :: "string option"
  rq_MaxGeneral :: "int option"
  rq_FirstTurn :: "string option"
  rq_ScenarioLookupDir :: "string option"
  rq_ScenarioCode :: string
  rq_ScenarioSeedEnabled :: "bool option"
  rq_TurnTerm :: string
  rq_Sync :: string
  rq_Fiction :: string
  rq_Extend :: string
  rq_BlockGeneralCreate :: string
  rq_NPCMode :: string
  rq_ShowImgLevel :: string
  rq_AutorunUserOptions :: "string list"
  rq_AutorunUserMinutes :: string
  rq_JoinMode :: string
  rq_TournamentTrig :: string
  rq_ReserveOpen :: string
  rq_PreReserveOpen :: string

definition zero_reset_request :: resetServerRequest where
  "zero_reset_request = \<lparr>rq_StorageImageDigests = [], rq_ApprovalPlanSHA256 = [],
     rq_ExecutionReceiptSHA256 = [], rq_ID = [], rq_OperationID = [], rq_MaintenanceLease = [],
     rq_Confirm = [], rq_ImageTag = [], rq_WebGameTag = [], rq_ImageDigests = [], rq_Generation = [],
     rq_ServerName = None, rq_MaxGeneral = None, rq_FirstTurn = None, rq_ScenarioLookupDir = None,
     rq_ScenarioCode = [], rq_ScenarioSeedEnabled = None, rq_TurnTerm = [], rq_Sync = [],
     rq_Fiction = [], rq_Extend = [], rq_BlockGeneralCreate = [], rq_NPCMode = [], rq_ShowImgLevel = [],
     rq_AutorunUserOptions = [], rq_AutorunUserMinutes = [], rq_JoinMode = [], rq_TournamentTrig = [],
     rq_ReserveOpen = [], rq_PreReserveOpen = []\<rparr>"

definition server_name_ok :: "string \<Rightarrow> bool" where
  "server_name_ok name \<longleftrightarrow> name \<noteq> [] \<and> trim_space name = name \<and> length (runes name) \<le> 100 \<and>
     \<not> list_ex rune_is_control (runes name)"

definition opt_all :: "('a \<Rightarrow> bool) \<Rightarrow> 'a option \<Rightarrow> bool" where
  "opt_all P v \<longleftrightarrow> (case v of None \<Rightarrow> True | Some x \<Rightarrow> P x)"

lemma opt_all_simps [simp]: "opt_all P None" "opt_all P (Some x) = P x"
  by (simp_all add: opt_all_def)

definition optional_setting :: "string \<Rightarrow> ('a \<Rightarrow> string) \<Rightarrow> 'a option \<Rightarrow> env \<Rightarrow> env" where
  "optional_setting key show' v m = (case v of None \<Rightarrow> m | Some x \<Rightarrow> AList.update key (show' x) m)"

definition explicitResetSettings :: "resetServerRequest \<Rightarrow> env result" where
  "explicitResetSettings req =
     (if \<not> opt_all server_name_ok (rq_ServerName req) then Inl (Err ''reset server name is invalid'')
      else if \<not> opt_all (\<lambda>n. 1 \<le> n \<and> n \<le> 9999) (rq_MaxGeneral req)
      then Inl (Err ''reset maxGeneral must be an integer from 1 to 9999'')
      else if \<not> opt_all (\<lambda>p. p = ''immediate'' \<or> p = ''scheduled'') (rq_FirstTurn req)
      then Inl (Err ''reset firstTurn must be immediate or scheduled'')
      else if \<not> opt_all isExactScenarioLookupDir (rq_ScenarioLookupDir req)
      then Inl (Err ''reset scenario lookup must be empty or /data/scenarios'')
      else Inr (optional_setting ''SCENARIO_LOOKUP_DIR'' id (rq_ScenarioLookupDir req)
                 (optional_setting ''RESET_FIRST_TURN'' id (rq_FirstTurn req)
                   (optional_setting ''RESET_MAXGENERAL'' itoa (rq_MaxGeneral req)
                     (optional_setting ''SERVER_NAME'' id (rq_ServerName req) [])))))"

definition validateExplicitResetTargetSettings :: "env \<Rightarrow> unit result" where
  "validateExplicitResetTargetSettings values =
     bind_r (case map_of values ''RESET_MAXGENERAL'' of
         None \<Rightarrow> Inr None
       | Some text' \<Rightarrow>
           if text' = [] \<or> \<not> list_all is_digit text' \<or> atoi text' = None
           then Inl (Err ''reset maxGeneral is invalid'') else Inr (atoi text'))
       (\<lambda>maxGeneral. map_sum id (\<lambda>_. ()) (explicitResetSettings (zero_reset_request
          \<lparr>rq_ServerName := map_of values ''SERVER_NAME'', rq_MaxGeneral := maxGeneral,
           rq_FirstTurn := map_of values ''RESET_FIRST_TURN'',
           rq_ScenarioLookupDir := map_of values ''SCENARIO_LOOKUP_DIR''\<rparr>)))"

section \<open>The updates a request asks for\<close>

fun put_safe :: "(string \<times> string) list \<Rightarrow> env \<Rightarrow> env result" where
  "put_safe [] values = Inr values"
| "put_safe ((key, raw) # kvs) values =
     (let value = trim_space raw in
      if value = [] then put_safe kvs values
      else if contains_any value [CHR 0x0D, newline] then Inl (Err ''reset option is invalid'')
      else put_safe kvs (AList.update key value values))"

fun clean_options :: "string list \<Rightarrow> string list result" where
  "clean_options [] = Inr []"
| "clean_options (raw # raws) =
     (let option' = trim_space raw in
      if option' = [] then clean_options raws
      else if \<not> isSafeToken option' then Inl (Err ''autorun option is invalid'')
      else map_sum id (Cons option') (clean_options raws))"

definition text_options :: "resetServerRequest \<Rightarrow> (string \<times> string) list" where
  "text_options req =
     [(''RESET_TURNTERM'', rq_TurnTerm req), (''RESET_SYNC'', rq_Sync req),
      (''RESET_FICTION'', rq_Fiction req), (''RESET_EXTEND'', rq_Extend req),
      (''RESET_BLOCK_GENERAL_CREATE'', rq_BlockGeneralCreate req), (''RESET_NPCMODE'', rq_NPCMode req),
      (''RESET_SHOW_IMG_LEVEL'', rq_ShowImgLevel req),
      (''RESET_AUTORUN_USER_MINUTES'', rq_AutorunUserMinutes req), (''RESET_JOIN_MODE'', rq_JoinMode req),
      (''RESET_TOURNAMENT_TRIG'', rq_TournamentTrig req), (''RESET_RESERVE_OPEN'', rq_ReserveOpen req),
      (''RESET_PRE_RESERVE_OPEN'', rq_PreReserveOpen req)]"

definition scenario_updates :: "resetServerRequest \<Rightarrow> env \<Rightarrow> env result" where
  "scenario_updates req values =
     bind_r (if rq_ScenarioCode req = [] then Inr values
         else if \<not> isSafeToken (rq_ScenarioCode req) then Inl (Err ''scenario code is invalid'')
         else Inr (AList.update ''SCENARIO_SEED_ENABLED'' ''true''
                (AList.update ''SCENARIO_CODE'' (trim_space (rq_ScenarioCode req)) values)))
       (\<lambda>m. let m1 = optional_setting ''SCENARIO_SEED_ENABLED'' boolText (rq_ScenarioSeedEnabled req) m in
          if trim_space (rq_Generation req) = [] then Inr m1
          else map_sum id (\<lambda>g. AList.update ''SERVER_GENERATION'' (itoa g) m1)
                 (parseGeneration (rq_Generation req) 1))"

definition resetEnvUpdates :: "resetServerRequest \<Rightarrow> env result" where
  "resetEnvUpdates req =
     bind_r (explicitResetSettings req) (\<lambda>explicit.
     bind_r (scenario_updates req explicit) (\<lambda>scenario.
     bind_r (put_safe (text_options req) scenario) (\<lambda>values.
       if rq_AutorunUserOptions req = [] then Inr values
       else map_sum id (\<lambda>clean. AList.update ''RESET_AUTORUN_USER_OPTIONS'' (join_with '','' clean) values)
              (clean_options (rq_AutorunUserOptions req)))))"

section \<open>Targets\<close>

text \<open>
  A nil map and an empty one are the same list here: they have the same JSON (the fields
  are \<open>omitempty\<close>), the same length and the same lookups.
\<close>

record resetLifecycleTarget =
  rt_StorageImageDigests :: env
  rt_ScenarioCode :: string
  rt_Generation :: int
  rt_ScenarioSeedEnabled :: bool
  rt_Updates :: env
  rt_ImageDigests :: env

definition resetLifecycleUpdateKeys :: "string list" where
  "resetLifecycleUpdateKeys =
    [''GAME_POSTGRES_IMAGE'', ''GAME_REDIS_IMAGE'', ''SERVER_NAME'', ''RESET_MAXGENERAL'',
     ''RESET_FIRST_TURN'', ''SCENARIO_LOOKUP_DIR'', ''IMAGE_TAG'', ''WEB_GAME_TAG'', ''SCENARIO_CODE'',
     ''SCENARIO_SEED_ENABLED'', ''SERVER_GENERATION'', ''RESET_TURNTERM'', ''RESET_SYNC'',
     ''RESET_FICTION'', ''RESET_EXTEND'', ''RESET_BLOCK_GENERAL_CREATE'', ''RESET_NPCMODE'',
     ''RESET_SHOW_IMG_LEVEL'', ''RESET_AUTORUN_USER_OPTIONS'', ''RESET_AUTORUN_USER_MINUTES'',
     ''RESET_JOIN_MODE'', ''RESET_TOURNAMENT_TRIG'', ''RESET_RESERVE_OPEN'', ''RESET_PRE_RESERVE_OPEN'']"

definition isResetLifecycleUpdateKey :: "string \<Rightarrow> bool" where
  "isResetLifecycleUpdateKey key \<longleftrightarrow> key \<in> set resetLifecycleUpdateKeys"

definition resetImageServices :: "string list" where
  "resetImageServices = [''game-api'', ''game-engine'', ''web-game'']"

definition resetStorageServices :: "string list" where
  "resetStorageServices = [''game-postgres'', ''game-redis'']"

definition hasResetImagePins :: "resetLifecycleTarget \<Rightarrow> bool" where
  "hasResetImagePins target \<longleftrightarrow> gm_has (rt_Updates target) ''IMAGE_TAG'' \<or>
     gm_has (rt_Updates target) ''WEB_GAME_TAG'' \<or> rt_ImageDigests target \<noteq> []"

definition normalizeResetImageDigests :: "env \<Rightarrow> env result" where
  "normalizeResetImageDigests pins =
     (if length pins \<noteq> length resetImageServices
      then Inl (Err ''maintenance reset requires exactly three image digests'')
      else if \<not> list_all (\<lambda>s. resetManifestDigest (gm_str pins s)) resetImageServices
      then Inl (Err ''maintenance reset image digest is invalid'')
      else Inr (map (\<lambda>s. (s, gm_str pins s)) resetImageServices))"

definition normalizeResetImageTarget :: "resetLifecycleTarget \<Rightarrow> resetLifecycleTarget result" where
  "normalizeResetImageTarget target =
     (let tag = gm_str (rt_Updates target) ''IMAGE_TAG'' in
      if \<not> hasResetImagePins target then Inr target
      else if \<not> gitSHA40 tag \<or> tag \<noteq> gm_str (rt_Updates target) ''WEB_GAME_TAG''
      then Inl (Err ''maintenance reset requires matching immutable image tags'')
      else map_sum id (\<lambda>pins. target\<lparr>rt_ImageDigests := pins\<rparr>)
             (normalizeResetImageDigests (rt_ImageDigests target)))"

definition normalizeResetStorageImageDigests :: "env \<Rightarrow> env result" where
  "normalizeResetStorageImageDigests pins =
     (if length pins \<noteq> 2 then Inl (Err ''reset requires both immutable storage image digests'')
      else if \<not> list_all (\<lambda>s. resetManifestDigest (gm_str pins s)) resetStorageServices
      then Inl (Err ''reset storage image digest is invalid'')
      else Inr (map (\<lambda>s. (s, gm_str pins s)) resetStorageServices))"

definition resetStorageReference :: "string \<Rightarrow> string \<Rightarrow> string" where
  "resetStorageReference service digest =
     (if service = ''game-postgres'' then ''postgres:16-alpine@'' @ digest
      else if service = ''game-redis'' then ''redis:7-alpine@'' @ digest else [])"

definition storage_key :: "string \<Rightarrow> string" where
  "storage_key service = (if service = ''game-redis'' then ''GAME_REDIS_IMAGE'' else ''GAME_POSTGRES_IMAGE'')"

text \<open>Binding a key to a value it must have: absent, it is set; present, it must be equal.\<close>

definition bind_update :: "string \<Rightarrow> string \<Rightarrow> string \<Rightarrow> env \<Rightarrow> env result" where
  "bind_update msg key expected m =
     (case map_of m key of
        None \<Rightarrow> Inr (AList.update key expected m)
      | Some current \<Rightarrow> if current \<noteq> expected then Inl (Err msg) else Inr (AList.update key expected m))"

fun bind_storage :: "env \<Rightarrow> string list \<Rightarrow> env \<Rightarrow> env result" where
  "bind_storage pins [] m = Inr m"
| "bind_storage pins (service # services) m =
     bind_r (bind_update ''storage reference conflicts with the bound digest'' (storage_key service)
               (resetStorageReference service (gm_str pins service)) m)
       (\<lambda>m'. bind_storage pins services m')"

definition normalizeResetStorageTarget :: "resetLifecycleTarget \<Rightarrow> resetLifecycleTarget result" where
  "normalizeResetStorageTarget target =
     (if rt_StorageImageDigests target = [] \<and> \<not> gm_has (rt_Updates target) ''GAME_POSTGRES_IMAGE'' \<and>
         \<not> gm_has (rt_Updates target) ''GAME_REDIS_IMAGE''
      then Inr target
      else bind_r (normalizeResetStorageImageDigests (rt_StorageImageDigests target)) (\<lambda>pins.
        if \<not> hasResetImagePins target
        then Inl (Err ''storage pins require the same immutable app reset target'')
        else map_sum id (\<lambda>m. target\<lparr>rt_Updates := m, rt_StorageImageDigests := pins\<rparr>)
               (bind_storage pins resetStorageServices (rt_Updates target))))"

fun normalize_updates :: "env \<Rightarrow> env result" where
  "normalize_updates [] = Inr []"
| "normalize_updates ((key, raw) # kvs) =
     (let value = trim_space raw in
      if \<not> isResetLifecycleUpdateKey key then Inl (Err ''reset target contains an unsupported field'')
      else if contains_any value [CHR 0x0D, newline] then Inl (Err ''reset target field is invalid'')
      else if (key = ''IMAGE_TAG'' \<or> key = ''WEB_GAME_TAG'') \<and> \<not> gitSHA40 value
      then Inl (Err ''reset image pin is invalid'')
      else map_sum id (Cons (key, value)) (normalize_updates kvs))"

definition canonical_updates :: "string \<Rightarrow> int \<Rightarrow> env \<Rightarrow> env result" where
  "canonical_updates scenario generation m =
     (let conflict = ''reset target field conflicts with its normalized value'' in
      bind_r (bind_update conflict ''SCENARIO_CODE'' scenario m) (\<lambda>m1.
      bind_r (bind_update conflict ''SCENARIO_SEED_ENABLED'' ''true'' m1) (\<lambda>m2.
        bind_update conflict ''SERVER_GENERATION'' (itoa generation) m2)))"

definition normalizeResetLifecycleTarget :: "resetLifecycleTarget \<Rightarrow> resetLifecycleTarget result" where
  "normalizeResetLifecycleTarget target =
     bind_r (validateExplicitResetTargetSettings (rt_Updates target)) (\<lambda>_.
       let scenario = trim_space (rt_ScenarioCode target) in
       if \<not> isSafeToken scenario then Inl (Err ''reset scenario code is invalid'')
       else bind_r (parseGeneration (itoa (rt_Generation target)) 1) (\<lambda>generation.
         if \<not> rt_ScenarioSeedEnabled target then Inl (Err ''reset requires SCENARIO_SEED_ENABLED=true'')
         else bind_r (normalize_updates (rt_Updates target)) (\<lambda>updates.
           bind_r (canonical_updates scenario generation updates) (\<lambda>updates'.
             bind_r (normalizeResetImageTarget (target\<lparr>rt_ScenarioCode := scenario,
                       rt_Generation := generation, rt_Updates := updates'\<rparr>))
               normalizeResetStorageTarget))))"

definition is_image_pin :: "string \<times> string \<Rightarrow> bool" where
  "is_image_pin kv \<longleftrightarrow> fst kv = ''IMAGE_TAG'' \<or> fst kv = ''WEB_GAME_TAG''"

definition normalizeResetLifecycleJournalTarget :: "resetLifecycleTarget \<Rightarrow> resetLifecycleTarget result" where
  "normalizeResetLifecycleJournalTarget target =
     (if rt_ImageDigests target \<noteq> [] \<or> \<not> hasResetImagePins target
      then normalizeResetLifecycleTarget target
      else let pins = map (\<lambda>(k, v). (k, trim_space v)) (filter is_image_pin (rt_Updates target)) in
        if \<not> list_all (\<lambda>(k, v). gitSHA40 v) pins then Inl (Err ''legacy reset image pin is invalid'')
        else map_sum id
          (\<lambda>t. t\<lparr>rt_Updates := foldl (\<lambda>m (k, v). AList.update k v m) (rt_Updates t) pins\<rparr>)
          (normalizeResetLifecycleTarget
            (target\<lparr>rt_Updates := filter (\<lambda>kv. \<not> is_image_pin kv) (rt_Updates target)\<rparr>)))"

section \<open>The target of an env file\<close>

definition resetRuntimeExpectationFor :: "env \<Rightarrow> (string \<times> int) result" where
  "resetRuntimeExpectationFor values =
     (let scenarioCode = trim_space (envOrValue (gm_str values ''SCENARIO_CODE'') ''scenario_1010'') in
      if \<not> isSafeToken scenarioCode then Inl (Err ''reset scenario code is invalid'')
      else if to_lower (trim_space (envOrValue (gm_str values ''SCENARIO_SEED_ENABLED'') ''true'')) \<noteq> ''true''
      then Inl (Err ''reset requires SCENARIO_SEED_ENABLED=true'')
      else map_sum id (Pair scenarioCode) (parseGeneration (gm_str values ''SERVER_GENERATION'') 1))"

definition default_value :: "string \<Rightarrow> string \<Rightarrow> env \<Rightarrow> env" where
  "default_value key value m = (if trim_space (gm_str m key) = [] then AList.update key value m else m)"

definition only_when_requested :: "string \<Rightarrow> bool" where
  "only_when_requested key \<longleftrightarrow> key \<in> set [''SERVER_NAME'', ''RESET_MAXGENERAL'', ''RESET_FIRST_TURN'',
     ''SCENARIO_LOOKUP_DIR'', ''IMAGE_TAG'', ''WEB_GAME_TAG'', ''GAME_POSTGRES_IMAGE'', ''GAME_REDIS_IMAGE'']"

definition target_update :: "env \<Rightarrow> env \<Rightarrow> string \<Rightarrow> string option" where
  "target_update requested values key =
     (if only_when_requested key \<and> \<not> gm_has requested key then None
      else case map_of values key of
        None \<Rightarrow> None
      | Some raw \<Rightarrow>
          let value = trim_space raw in
          if value = [] \<and> \<not> gm_has requested key then None else Some value)"

definition target_values :: "env \<Rightarrow> env \<Rightarrow> env" where
  "target_values current requested =
     default_value ''SERVER_GENERATION'' ''1''
       (default_value ''SCENARIO_SEED_ENABLED'' ''true''
         (default_value ''SCENARIO_CODE'' ''scenario_1010''
           (foldl (\<lambda>m (k, v). AList.update k v m) current requested)))"

definition resetLifecycleTargetForEnvWithImageDigests ::
    "string \<Rightarrow> env \<Rightarrow> env \<Rightarrow> string files \<Rightarrow> resetLifecycleTarget result" where
  "resetLifecycleTargetForEnvWithImageDigests envFile requested digests fs =
     bind_r (readEnvValues envFile fs) (\<lambda>current.
       if \<not> list_all (\<lambda>(k, v). isResetLifecycleUpdateKey k) requested
       then Inl (Err ''reset target contains an unsupported field'')
       else let values = target_values current requested in
         bind_r (resetRuntimeExpectationFor values) (\<lambda>(scenario, generation).
           normalizeResetLifecycleTarget
             \<lparr>rt_StorageImageDigests = [], rt_ScenarioCode = scenario, rt_Generation = generation,
              rt_ScenarioSeedEnabled = True,
              rt_Updates = List.map_filter (\<lambda>k. map_option (Pair k) (target_update requested values k))
                             resetLifecycleUpdateKeys,
              rt_ImageDigests = digests\<rparr>))"

definition resetLifecycleTargetForEnv :: "string \<Rightarrow> env \<Rightarrow> string files \<Rightarrow> resetLifecycleTarget result" where
  "resetLifecycleTargetForEnv envFile requested =
     resetLifecycleTargetForEnvWithImageDigests envFile requested []"

definition resetLifecycleTargetForEnvWithStorageDigests ::
    "string \<Rightarrow> env \<Rightarrow> env \<Rightarrow> env \<Rightarrow> string files \<Rightarrow> resetLifecycleTarget result" where
  "resetLifecycleTargetForEnvWithStorageDigests envFile updates digests storage fs =
     (if list_ex (\<lambda>(k, v). k = ''GAME_POSTGRES_IMAGE'' \<or> k = ''GAME_REDIS_IMAGE'') updates
      then Inl (Err ''storage reference must come from typed digest pins'')
      else bind_r (resetLifecycleTargetForEnvWithImageDigests envFile updates digests fs) (\<lambda>target.
        normalizeResetLifecycleTarget (target\<lparr>rt_StorageImageDigests := storage\<rparr>)))"

section \<open>Applying a target\<close>

definition applyResetLifecycleTarget ::
    "string \<Rightarrow> resetLifecycleTarget \<Rightarrow> answers \<Rightarrow> string files \<Rightarrow> err option \<times> string files" where
  "applyResetLifecycleTarget envFile target a fs =
     (case normalizeResetLifecycleTarget target of
        Inl e \<Rightarrow> (Some e, fs)
      | Inr normalized \<Rightarrow>
          (case patchEnvFile envFile (specs [] (map fst (rt_Updates normalized))) (rt_Updates normalized) a fs of
             (Inl e, fs') \<Rightarrow> (Some e, fs')
           | (Inr _, fs') \<Rightarrow> (None, fs')))"

definition applyResetUpdates :: "string \<Rightarrow> env \<Rightarrow> answers \<Rightarrow> string files \<Rightarrow> err option \<times> string files" where
  "applyResetUpdates envFile values a fs =
     (case resetLifecycleTargetForEnv envFile values fs of
        Inl e \<Rightarrow> (Some e, fs)
      | Inr target \<Rightarrow> applyResetLifecycleTarget envFile target a fs)"

definition applyResetOptions ::
    "string \<Rightarrow> resetServerRequest \<Rightarrow> answers \<Rightarrow> string files \<Rightarrow> err option \<times> string files" where
  "applyResetOptions envFile req a fs =
     (case resetEnvUpdates req of
        Inl e \<Rightarrow> (Some e, fs)
      | Inr values \<Rightarrow> applyResetUpdates envFile values a fs)"

section \<open>Fingerprints\<close>

definition env_member :: "string \<Rightarrow> env \<Rightarrow> (string \<times> json) list" where
  "env_member key m = (if m = [] then [] else [(key, env_json m)])"

definition target_json :: "resetLifecycleTarget \<Rightarrow> json" where
  "target_json target = JObj
     (env_member ''storageImageDigests'' (rt_StorageImageDigests target) @
      [(''scenarioCode'', JStr (rt_ScenarioCode target)), (''generation'', JNum (itoa (rt_Generation target))),
       (''scenarioSeedEnabled'', JBool (rt_ScenarioSeedEnabled target))] @
      env_member ''updates'' (rt_Updates target) @ env_member ''imageDigests'' (rt_ImageDigests target))"

definition reset_request_json :: "string \<Rightarrow> resetLifecycleTarget \<Rightarrow> json" where
  "reset_request_json sid target = JObj [(''id'', JStr sid), (''target'', target_json target)]"

definition resetRequestFingerprint :: "string \<Rightarrow> resetLifecycleTarget \<Rightarrow> string" where
  "resetRequestFingerprint sid target = sha256_hex (json_text (reset_request_json sid target))"

record resetExecutionEvidenceRefs =
  ev_ApprovalPlanSHA :: string
  ev_ExecutionReceiptSHA :: string

definition normalizeResetExecutionEvidenceRefs ::
    "resetExecutionEvidenceRefs \<Rightarrow> resetExecutionEvidenceRefs result" where
  "normalizeResetExecutionEvidenceRefs refs =
     (if ev_ApprovalPlanSHA refs = [] \<and> ev_ExecutionReceiptSHA refs = [] then Inr refs
      else if \<not> resetEvidenceSHA (ev_ApprovalPlanSHA refs) \<or> \<not> resetEvidenceSHA (ev_ExecutionReceiptSHA refs)
      then Inl ErrResetExecutionEvidence else Inr refs)"

definition resetExecutionRequestFingerprint ::
    "string \<Rightarrow> resetLifecycleTarget \<Rightarrow> resetExecutionEvidenceRefs \<Rightarrow> string result" where
  "resetExecutionRequestFingerprint sid target refs =
     bind_r (normalizeResetExecutionEvidenceRefs refs) (\<lambda>refs.
       Inr (if ev_ApprovalPlanSHA refs = [] then resetRequestFingerprint sid target
            else sha256_hex (json_text (JObj [(''id'', JStr sid), (''target'', target_json target),
              (''approvalPlanSha256'', JStr (ev_ApprovalPlanSHA refs)),
              (''executionReceiptSha256'', JStr (ev_ExecutionReceiptSHA refs))]))))"

section \<open>Candidate images\<close>

text \<open>
  \<open>docker image inspect\<close> is an argument: its output for an image reference, or a failure.
  Go's decoder takes the three members by name and ignores others.
\<close>

record image_info =
  im_RepoDigests :: "string list"
  im_OS :: string
  im_Architecture :: string

definition json_strs :: "json \<Rightarrow> string list option" where
  "json_strs j = (case j of JNull \<Rightarrow> Some [] | JArr js \<Rightarrow> those (map (json_str []) js) | _ \<Rightarrow> None)"

definition set_image_field :: "image_info \<Rightarrow> string \<Rightarrow> json \<Rightarrow> image_info option" where
  "set_image_field i name j =
     (if name = ''repoDigests'' then map_option (\<lambda>ds. i\<lparr>im_RepoDigests := ds\<rparr>) (json_strs j)
      else if name = ''os'' then map_option (\<lambda>s. i\<lparr>im_OS := s\<rparr>) (json_str (im_OS i) j)
      else map_option (\<lambda>s. i\<lparr>im_Architecture := s\<rparr>) (json_str (im_Architecture i) j))"

fun decode_image_members :: "image_info \<Rightarrow> (string \<times> json) list \<Rightarrow> image_info option" where
  "decode_image_members i [] = Some i"
| "decode_image_members i ((k, v) # ms) =
     (case json_field [''repoDigests'', ''os'', ''architecture''] k of
        None \<Rightarrow> decode_image_members i ms
      | Some name \<Rightarrow> Option.bind (set_image_field i name v) (\<lambda>i'. decode_image_members i' ms))"

definition decode_image_info :: "string \<Rightarrow> image_info option" where
  "decode_image_info text' =
     (let zero = \<lparr>im_RepoDigests = [], im_OS = [], im_Architecture = []\<rparr> in
      case parse_json text' of
        Some (JObj ms) \<Rightarrow> decode_image_members zero ms
      | Some JNull \<Rightarrow> Some zero
      | _ \<Rightarrow> None)"

definition verify_image :: "(string \<Rightarrow> string result) \<Rightarrow> string \<Rightarrow> string list \<Rightarrow> unit result" where
  "verify_image inspect reference expected =
     (case inspect reference of
        Inl e \<Rightarrow> Inl (Err ''candidate image inspection is unavailable'')
      | Inr out \<Rightarrow>
          (case decode_image_info out of
             None \<Rightarrow> Inl (Err ''candidate image platform is unverified'')
           | Some i \<Rightarrow>
               if im_OS i \<noteq> ''linux'' \<or> im_Architecture i \<noteq> ''amd64''
               then Inl (Err ''candidate image platform is unverified'')
               else require (list_ex (\<lambda>d. d \<in> set expected) (im_RepoDigests i))
                      ''candidate image digest is unverified''))"

fun verify_images :: "(string \<Rightarrow> string result) \<Rightarrow> (string \<times> string list) list \<Rightarrow> unit result" where
  "verify_images inspect [] = Inr ()"
| "verify_images inspect ((reference, expected) # rs) =
     bind_r (verify_image inspect reference expected) (\<lambda>_. verify_images inspect rs)"

definition storage_candidates :: "env \<Rightarrow> (string \<times> string list) list" where
  "storage_candidates pins = map (\<lambda>service.
     let name = (if service = ''game-redis'' then ''redis'' else ''postgres''); digest = gm_str pins service in
     (resetStorageReference service digest, [name @ ''@'' @ digest, ''docker.io/library/'' @ name @ ''@'' @ digest]))
     resetStorageServices"

definition verifyResetCandidateStorageImages ::
    "(string \<Rightarrow> string result) \<Rightarrow> resetLifecycleTarget \<Rightarrow> unit result" where
  "verifyResetCandidateStorageImages inspect target =
     (if rt_StorageImageDigests target = [] then Inr ()
      else bind_r (normalizeResetStorageImageDigests (rt_StorageImageDigests target))
             (\<lambda>pins. verify_images inspect (storage_candidates pins)))"

definition verifyResetCandidateImages ::
    "(string \<Rightarrow> string result) \<Rightarrow> string \<Rightarrow> resetLifecycleTarget \<Rightarrow> string files \<Rightarrow> unit result" where
  "verifyResetCandidateImages inspect envFile target fs =
     (case readEnvValues envFile fs of
        Inl e \<Rightarrow> Inl (Err ''candidate image registry settings are unavailable'')
      | Inr values \<Rightarrow>
          let registry = envOrValue (gm_str values ''GHCR_REGISTRY'') ''ghcr.io'';
              owner = envOrValue (gm_str values ''GHCR_OWNER'') ''peppone-choi'';
              repository = registry @ ''/'' @ owner @ ''/opensamguk''
          in if registry \<noteq> ''ghcr.io'' \<or> \<not> resetImageOwner owner
             then Inl (Err ''candidate image registry settings are invalid'')
             else bind_r (verify_images inspect (map (\<lambda>service.
                   (repository @ '':'' @ service @ ''-'' @ gm_str (rt_Updates target) ''IMAGE_TAG'',
                    [repository @ ''@'' @ gm_str (rt_ImageDigests target) service])) resetImageServices))
               (\<lambda>_. verifyResetCandidateStorageImages inspect target))"

end
