(* ===== verification/ResetTargetLaws.thy ===== *)
theory ResetTargetLaws
  imports ResetTarget RegistryLaws
begin

text \<open>
  The laws of reset targets: what a normalised target looks like, that normalising it again
  changes nothing, that applying it to an env file makes the file expect exactly the target,
  and that the text a reset is fingerprinted by determines the request.
\<close>

section \<open>Printable texts\<close>

definition printable :: "string \<Rightarrow> bool" where
  "printable s \<longleftrightarrow> list_all (\<lambda>c. 32 < byte c \<and> byte c < 128) s"

lemma printable_append [simp]: "printable (s @ t) \<longleftrightarrow> printable s \<and> printable t"
  by (simp add: printable_def)

lemma printable_trim: "printable s \<Longrightarrow> trim_space s = s"
proof (cases s)
  case Nil
  show ?thesis unfolding Nil by code_simp
next
  case (Cons c t)
  assume p: "printable s"
  then have "no_leading_space s" using Cons by (intro no_leading_space_hd) (auto simp: printable_def)
  then show ?thesis
    using p no_trailing_space_last[of s] by (simp add: trim_space_def trim_left_id trim_right_id printable_def)
qed

lemma printable_no_break: "printable s \<Longrightarrow> \<not> contains_any s [CHR 0x0D, newline]"
  by (auto simp: printable_def contains_any_def list_all_iff list_ex_iff byte_def)

lemma digits_printable: "list_all is_digit s \<Longrightarrow> printable s"
  by (auto simp: printable_def list_all_iff is_digit_def in_bytes_def)

lemma safe_token_printable: "isSafeToken s \<Longrightarrow> printable s"
  by (auto simp: isSafeToken_def printable_def list_all_iff go_defs)

lemma hex_printable: "hex_string n s \<Longrightarrow> printable s"
  by (auto simp: hex_string_def printable_def list_all_iff go_defs)

lemma literals_printable: "printable ''sha256:''" "printable ''postgres:16-alpine@''"
  "printable ''redis:7-alpine@''" "printable ''true''" "printable ''immediate''"
  "printable ''scheduled''" "printable ''/data/scenarios''" "printable []"
  by code_simp+

lemma digest_printable: "resetManifestDigest d \<Longrightarrow> printable d"
proof -
  assume "resetManifestDigest d"
  then obtain h where d: "d = ''sha256:'' @ h" "hex_string 64 (drop 7 d)"
    unfolding resetManifestDigest_def by (auto dest!: has_prefixE)
  then have "hex_string 64 h" by simp
  then show ?thesis using literals_printable(1) hex_printable unfolding d(1) printable_append by blast
qed

lemma storage_reference_printable: "resetManifestDigest d \<Longrightarrow> printable (resetStorageReference s d)"
  using digest_printable[of d] literals_printable
  unfolding resetStorageReference_def by (simp del: append.simps split: if_split)

section \<open>Decimal generations\<close>

lemma atoi_itoa_iff: "atoi (itoa i) = (if - (2 ^ 63) \<le> i \<and> i < 2 ^ 63 then Some i else None)"
  using dec_digits dec_hd by (auto simp: atoi_def itoa_def Let_def)

lemma itoa_printable: "0 \<le> i \<Longrightarrow> printable (itoa i)"
  using dec_digits by (simp add: itoa_def digits_printable)

lemma itoa_nonempty [simp]: "itoa i \<noteq> []"
  by (simp add: itoa_def)

lemma parse_generation_itoa:
  "parseGeneration (itoa g) d = Inr g' \<longleftrightarrow> g' = g \<and> 0 \<le> g \<and> g < 2 ^ 63"
proof (cases "0 \<le> g")
  case True
  then show ?thesis
    by (auto simp: parseGeneration_def printable_trim itoa_printable atoi_itoa_iff)
next
  case False
  have "printable ''-''" by (simp add: printable_def byte_def)
  then have "printable (''-'' @ dec (nat (- g)))"
    unfolding printable_append using dec_digits digits_printable by blast
  then have "printable (itoa g)" using False by (simp add: itoa_def)
  with False show ?thesis
    by (auto simp: parseGeneration_def printable_trim atoi_itoa_iff split: if_splits)
qed

section \<open>Normal updates\<close>

definition update_ok :: "string \<times> string \<Rightarrow> bool" where
  "update_ok kv \<longleftrightarrow> isResetLifecycleUpdateKey (fst kv) \<and> trim_space (snd kv) = snd kv \<and>
     \<not> contains_any (snd kv) [CHR 0x0D, newline] \<and> (is_image_pin kv \<longrightarrow> gitSHA40 (snd kv))"

definition updates_ok :: "env \<Rightarrow> bool" where
  "updates_ok m \<longleftrightarrow> gm_ok m \<and> list_all update_ok m"

lemma normalize_updates_Cons:
  "update_ok (k, trim_space v) \<Longrightarrow>
     normalize_updates ((k, v) # m) = map_sum id (Cons (k, trim_space v)) (normalize_updates m)"
  "\<not> update_ok (k, trim_space v) \<Longrightarrow> normalize_updates ((k, v) # m) \<noteq> Inr m'"
  unfolding update_ok_def is_image_pin_def normalize_updates.simps Let_def fst_conv snd_conv trim_space_idem
  subgoal by (simp only: if_False if_True simp_thms split: if_split) blast
  subgoal
    by (cases "isResetLifecycleUpdateKey k"; cases "contains_any (trim_space v) [CHR 0x0D, newline]";
        cases "k = ''IMAGE_TAG'' \<or> k = ''WEB_GAME_TAG''"; cases "gitSHA40 (trim_space v)") simp_all
  done

lemma normalize_updates_iff:
  "normalize_updates m = Inr m' \<longleftrightarrow>
     m' = map (\<lambda>(k, v). (k, trim_space v)) m \<and> list_all update_ok m'"
proof (induction m arbitrary: m')
  case (Cons kv m)
  obtain k v where kv: "kv = (k, v)" by (cases kv)
  show ?case
  proof (cases "update_ok (k, trim_space v)")
    case True
    show ?thesis unfolding kv normalize_updates_Cons(1)[OF True] map_sum_ok Cons.IH
      using True by auto
  next
    case False
    then show ?thesis using normalize_updates_Cons(2)[OF False, of m m'] by (auto simp: kv)
  qed
qed auto

lemma update_same: "map_of m k = Some v \<Longrightarrow> AList.update k v m = m"
  by (induction m) (auto split: if_splits)

lemma set_update_subset: "set (AList.update k v m) \<subseteq> insert (k, v) (set m)"
  by (induction m) auto

lemma updates_ok_update: "updates_ok m \<Longrightarrow> update_ok (k, v) \<Longrightarrow> updates_ok (AList.update k v m)"
  using set_update_subset[of k v m] by (auto simp: updates_ok_def list_all_iff)

lemma updates_ok_normal: "updates_ok m \<Longrightarrow> normalize_updates m = Inr m"
  unfolding normalize_updates_iff by (auto simp: updates_ok_def list_all_iff update_ok_def intro!: map_idI[symmetric])

lemma normal_updates_ok: "gm_ok m \<Longrightarrow> normalize_updates m = Inr m' \<Longrightarrow> updates_ok m'"
  unfolding normalize_updates_iff by (auto simp: updates_ok_def comp_def split_beta)

lemma normalized_lookup: "normalize_updates m = Inr m' \<Longrightarrow> map_of m' k = map_option trim_space (map_of m k)"
  unfolding normalize_updates_iff by (induction m arbitrary: m') auto

lemma bind_update_iff:
  "bind_update msg k v m = Inr m' \<longleftrightarrow> m' = AList.update k v m \<and> (map_of m k = None \<or> map_of m k = Some v)"
  by (auto simp: bind_update_def split: option.splits)

lemma bind_storage_iff:
  "bind_storage pins resetStorageServices m = Inr m' \<longleftrightarrow>
     (\<exists>p r. p = resetStorageReference ''game-postgres'' (gm_str pins ''game-postgres'') \<and>
       r = resetStorageReference ''game-redis'' (gm_str pins ''game-redis'') \<and>
       m' = AList.update ''GAME_REDIS_IMAGE'' r (AList.update ''GAME_POSTGRES_IMAGE'' p m) \<and>
       (map_of m ''GAME_POSTGRES_IMAGE'' = None \<or> map_of m ''GAME_POSTGRES_IMAGE'' = Some p) \<and>
       (map_of m ''GAME_REDIS_IMAGE'' = None \<or> map_of m ''GAME_REDIS_IMAGE'' = Some r))"
  by (auto simp: resetStorageServices_def bind_r_ok bind_update_iff storage_key_def map_of_update)

section \<open>Explicit settings\<close>

definition explicit_keys :: "string list" where
  "explicit_keys = [''SERVER_NAME'', ''RESET_MAXGENERAL'', ''RESET_FIRST_TURN'', ''SCENARIO_LOOKUP_DIR'']"

lemma explicit_cong:
  assumes "\<And>k. k \<in> set explicit_keys \<Longrightarrow> map_of m k = map_of m' k"
  shows "validateExplicitResetTargetSettings m = validateExplicitResetTargetSettings m'"
  using assms by (simp add: validateExplicitResetTargetSettings_def explicit_keys_def)

lemma explicit_settings_ok:
  "is_ok (explicitResetSettings req) \<longleftrightarrow> opt_all server_name_ok (rq_ServerName req) \<and>
     opt_all (\<lambda>n. 1 \<le> n \<and> n \<le> 9999) (rq_MaxGeneral req) \<and>
     opt_all (\<lambda>p. p = ''immediate'' \<or> p = ''scheduled'') (rq_FirstTurn req) \<and>
     opt_all isExactScenarioLookupDir (rq_ScenarioLookupDir req)"
  unfolding explicitResetSettings_def by (simp only: is_ok_simps simp_thms split: if_split) blast

lemma explicit_request_ok:
  "is_ok (explicitResetSettings (zero_reset_request
       \<lparr>rq_ServerName := a, rq_MaxGeneral := n, rq_FirstTurn := b, rq_ScenarioLookupDir := c\<rparr>)) \<longleftrightarrow>
     opt_all server_name_ok a \<and> opt_all (\<lambda>n. 1 \<le> n \<and> n \<le> 9999) n \<and>
     opt_all (\<lambda>p. p = ''immediate'' \<or> p = ''scheduled'') b \<and> opt_all isExactScenarioLookupDir c"
  by (simp add: explicit_settings_ok)

lemma explicit_trimmed:
  assumes "validateExplicitResetTargetSettings m = Inr u" and "k \<in> set explicit_keys"
    and "map_of m k = Some v"
  shows "trim_space v = v"
proof -
  obtain n where n: "(case map_of m ''RESET_MAXGENERAL'' of None \<Rightarrow> Inr None
       | Some text' \<Rightarrow> if text' = [] \<or> \<not> list_all is_digit text' \<or> atoi text' = None
           then Inl (Err ''reset maxGeneral is invalid'') else Inr (atoi text')) = Inr n"
    and e: "is_ok (explicitResetSettings (zero_reset_request
          \<lparr>rq_ServerName := map_of m ''SERVER_NAME'', rq_MaxGeneral := n,
           rq_FirstTurn := map_of m ''RESET_FIRST_TURN'',
           rq_ScenarioLookupDir := map_of m ''SCENARIO_LOOKUP_DIR''\<rparr>))"
    using assms(1) unfolding validateExplicitResetTargetSettings_def bind_r_ok map_sum_ok is_ok_iff
    by blast
  have lit: "trim_space ''immediate'' = ''immediate''" "trim_space ''scheduled'' = ''scheduled''"
    "trim_space ''/data/scenarios'' = ''/data/scenarios''" "trim_space [] = []"
    using literals_printable printable_trim by blast+
  have ok: "opt_all server_name_ok (map_of m ''SERVER_NAME'')"
    "opt_all (\<lambda>p. p = ''immediate'' \<or> p = ''scheduled'') (map_of m ''RESET_FIRST_TURN'')"
    "opt_all isExactScenarioLookupDir (map_of m ''SCENARIO_LOOKUP_DIR'')"
    subgoal by (rule e[unfolded explicit_request_ok, THEN conjunct1])
    subgoal by (rule e[unfolded explicit_request_ok, THEN conjunct2, THEN conjunct2, THEN conjunct1])
    subgoal by (rule e[unfolded explicit_request_ok, THEN conjunct2, THEN conjunct2, THEN conjunct2])
    done
  have "k = ''SERVER_NAME'' \<or> k = ''RESET_MAXGENERAL'' \<or> k = ''RESET_FIRST_TURN'' \<or> k = ''SCENARIO_LOOKUP_DIR''"
    using assms(2) by (simp add: explicit_keys_def)
  then consider "k = ''SERVER_NAME''" | "k = ''RESET_MAXGENERAL''" | "k = ''RESET_FIRST_TURN''"
    | "k = ''SCENARIO_LOOKUP_DIR''" by satx
  then show ?thesis
  proof cases
    case 1
    then show ?thesis using ok(1) assms(3) by (simp add: server_name_ok_def)
  next
    case 2
    then have "list_all is_digit v" using n assms(3) by (simp split: if_splits)
    then show ?thesis by (intro printable_trim digits_printable)
  next
    case 3
    then have "v = ''immediate'' \<or> v = ''scheduled''" using ok(2) assms(3) by simp
    with lit show ?thesis by metis
  next
    case 4
    then have "v = [] \<or> v = ''/data/scenarios''" using ok(3) assms(3) by (simp add: isExactScenarioLookupDir_def)
    with lit show ?thesis by metis
  qed
qed

section \<open>Normal targets\<close>

definition service_pins :: "string list \<Rightarrow> env \<Rightarrow> bool" where
  "service_pins services pins \<longleftrightarrow> map fst pins = services \<and> list_all (\<lambda>(s, d). resetManifestDigest d) pins"

definition images_ok :: "resetLifecycleTarget \<Rightarrow> bool" where
  "images_ok t \<longleftrightarrow>
     (if rt_ImageDigests t = [] then \<not> gm_has (rt_Updates t) ''IMAGE_TAG'' \<and> \<not> gm_has (rt_Updates t) ''WEB_GAME_TAG''
      else service_pins resetImageServices (rt_ImageDigests t) \<and>
        (\<exists>tag. gitSHA40 tag \<and> map_of (rt_Updates t) ''IMAGE_TAG'' = Some tag \<and>
               map_of (rt_Updates t) ''WEB_GAME_TAG'' = Some tag))"

definition storage_ok :: "resetLifecycleTarget \<Rightarrow> bool" where
  "storage_ok t \<longleftrightarrow>
     (if rt_StorageImageDigests t = []
      then \<not> gm_has (rt_Updates t) ''GAME_POSTGRES_IMAGE'' \<and> \<not> gm_has (rt_Updates t) ''GAME_REDIS_IMAGE''
      else service_pins resetStorageServices (rt_StorageImageDigests t) \<and> rt_ImageDigests t \<noteq> [] \<and>
        list_all (\<lambda>s. map_of (rt_Updates t) (storage_key s) =
            Some (resetStorageReference s (gm_str (rt_StorageImageDigests t) s))) resetStorageServices)"

definition scenario_ok :: "resetLifecycleTarget \<Rightarrow> bool" where
  "scenario_ok t \<longleftrightarrow> isSafeToken (rt_ScenarioCode t) \<and> 0 \<le> rt_Generation t \<and> rt_Generation t < 2 ^ 63 \<and>
     rt_ScenarioSeedEnabled t \<and> map_of (rt_Updates t) ''SCENARIO_CODE'' = Some (rt_ScenarioCode t) \<and>
     map_of (rt_Updates t) ''SCENARIO_SEED_ENABLED'' = Some ''true'' \<and>
     map_of (rt_Updates t) ''SERVER_GENERATION'' = Some (itoa (rt_Generation t))"

text \<open>The type of a normalised target.\<close>

definition reset_target_ok :: "resetLifecycleTarget \<Rightarrow> bool" where
  "reset_target_ok t \<longleftrightarrow> updates_ok (rt_Updates t) \<and> scenario_ok t \<and>
     validateExplicitResetTargetSettings (rt_Updates t) = Inr () \<and> images_ok t \<and> storage_ok t"

lemma pins_rebuilt: "distinct services \<Longrightarrow> service_pins services pins \<Longrightarrow> map (\<lambda>s. (s, gm_str pins s)) services = pins"
  using env_pairs[of pins] by (auto simp: service_pins_def)

lemma built_pins:
  "distinct services \<Longrightarrow> list_all (\<lambda>s. resetManifestDigest (gm_str pins s)) services \<Longrightarrow>
   service_pins services (map (\<lambda>s. (s, gm_str pins s)) services)"
  by (simp add: service_pins_def comp_def list_all_iff)

lemma gm_str_built: "s \<in> set services \<Longrightarrow> gm_str (map (\<lambda>s. (s, gm_str pins s)) services) s = gm_str pins s"
  by (simp add: gm_str_def map_of_map_restrict comp_def)

lemma services_distinct: "distinct resetImageServices" "distinct resetStorageServices"
  by code_simp+

lemma pin_valid: "service_pins services pins \<Longrightarrow> s \<in> set services \<Longrightarrow> distinct services \<Longrightarrow>
    resetManifestDigest (gm_str pins s)"
proof -
  assume a: "service_pins services pins" "s \<in> set services" "distinct services"
  then have "(s, gm_str pins s) \<in> set pins"
    using pins_rebuilt[of services pins] by (metis (mono_tags, lifting) image_eqI image_set)
  with a(1) show ?thesis by (auto simp: service_pins_def list_all_iff)
qed

lemma image_digests_iff:
  "normalizeResetImageDigests pins = Inr pins' \<longleftrightarrow>
     length pins = 3 \<and> pins' = map (\<lambda>s. (s, gm_str pins s)) resetImageServices \<and>
     service_pins resetImageServices pins'"
  using services_distinct(1) unfolding normalizeResetImageDigests_def
  by (auto simp: service_pins_def list_all_iff resetImageServices_def)

lemma storage_digests_iff:
  "normalizeResetStorageImageDigests pins = Inr pins' \<longleftrightarrow>
     length pins = 2 \<and> pins' = map (\<lambda>s. (s, gm_str pins s)) resetStorageServices \<and>
     service_pins resetStorageServices pins'"
  using services_distinct(2) unfolding normalizeResetStorageImageDigests_def
  by (auto simp: service_pins_def list_all_iff resetStorageServices_def)

lemma gitSHA40_nonempty: "gitSHA40 s \<Longrightarrow> s \<noteq> []"
  by (auto simp: gitSHA40_def hex_string_def)

lemma gm_str_nonempty: "gm_str m k \<noteq> [] \<Longrightarrow> map_of m k = Some (gm_str m k)"
  by (auto simp: gm_str_def split: option.splits)

lemma image_target_ok:
  assumes "normalizeResetImageTarget t = Inr t'"
  shows "images_ok t' \<and> (\<exists>pins. t' = t\<lparr>rt_ImageDigests := pins\<rparr>)"
proof (cases "hasResetImagePins t")
  case False
  then show ?thesis using assms
    by (auto simp: normalizeResetImageTarget_def images_ok_def hasResetImagePins_def Let_def
        intro: exI[of _ "rt_ImageDigests t"])
next
  case True
  then obtain pins where p: "normalizeResetImageDigests (rt_ImageDigests t) = Inr pins"
    and t': "t' = t\<lparr>rt_ImageDigests := pins\<rparr>"
    and tag: "gitSHA40 (gm_str (rt_Updates t) ''IMAGE_TAG'')"
      "gm_str (rt_Updates t) ''IMAGE_TAG'' = gm_str (rt_Updates t) ''WEB_GAME_TAG''"
    using assms
    by (cases "normalizeResetImageDigests (rt_ImageDigests t)")
      (auto simp: normalizeResetImageTarget_def Let_def split: if_splits)
  have "pins \<noteq> []" using p unfolding image_digests_iff by (auto simp: resetImageServices_def)
  then show ?thesis
    using p tag gm_str_nonempty[of "rt_Updates t" "''IMAGE_TAG''"] gm_str_nonempty[of "rt_Updates t" "''WEB_GAME_TAG''"]
      gitSHA40_nonempty unfolding image_digests_iff t' by (auto simp: images_ok_def)
qed

lemma storage_target_ok:
  assumes "normalizeResetStorageTarget t = Inr t'" and "updates_ok (rt_Updates t)" and "images_ok t"
  shows "storage_ok t' \<and> updates_ok (rt_Updates t') \<and>
    (\<exists>m pins. t' = t\<lparr>rt_Updates := m, rt_StorageImageDigests := pins\<rparr>) \<and>
    (\<forall>k. k \<noteq> ''GAME_POSTGRES_IMAGE'' \<longrightarrow> k \<noteq> ''GAME_REDIS_IMAGE'' \<longrightarrow>
         map_of (rt_Updates t') k = map_of (rt_Updates t) k)"
proof (cases "rt_StorageImageDigests t = [] \<and> \<not> gm_has (rt_Updates t) ''GAME_POSTGRES_IMAGE'' \<and>
         \<not> gm_has (rt_Updates t) ''GAME_REDIS_IMAGE''")
  case True
  then have "t' = t" using assms(1) by (simp add: normalizeResetStorageTarget_def)
  moreover have "storage_ok t" using True unfolding storage_ok_def by simp
  moreover have "\<exists>m pins. t = t\<lparr>rt_Updates := m, rt_StorageImageDigests := pins\<rparr>"
    by (intro exI[of _ "rt_Updates t"] exI[of _ "rt_StorageImageDigests t"]) simp
  ultimately show ?thesis using assms(2) by blast
next
  case False
  then obtain pins where p: "normalizeResetStorageImageDigests (rt_StorageImageDigests t) = Inr pins"
    and k: "(if \<not> hasResetImagePins t
        then Inl (Err ''storage pins require the same immutable app reset target'')
        else map_sum id (\<lambda>m. t\<lparr>rt_Updates := m, rt_StorageImageDigests := pins\<rparr>)
               (bind_storage pins resetStorageServices (rt_Updates t))) = Inr t'"
    using assms(1) unfolding normalizeResetStorageTarget_def if_not_P[OF False] bind_r_ok by blast
  have i: "hasResetImagePins t" using k by (cases "hasResetImagePins t") simp_all
  obtain m where m: "bind_storage pins resetStorageServices (rt_Updates t) = Inr m"
    and t': "t' = t\<lparr>rt_Updates := m, rt_StorageImageDigests := pins\<rparr>"
    using k i unfolding map_sum_ok by (auto simp only: not_True_eq_False if_False map_sum_ok)
  have pins: "service_pins resetStorageServices pins" using p unfolding storage_digests_iff by blast
  then have "resetManifestDigest (gm_str pins s)" if "s \<in> set resetStorageServices" for s
    using pin_valid services_distinct(2) that by blast
  then have ref: "printable (resetStorageReference s (gm_str pins s))" if "s \<in> set resetStorageServices" for s
    using storage_reference_printable that by blast
  have upd: "update_ok (storage_key s, resetStorageReference s (gm_str pins s))"
    if "s \<in> set resetStorageServices" for s
    using ref[OF that] printable_trim printable_no_break
    by (auto simp: update_ok_def storage_key_def isResetLifecycleUpdateKey_def resetLifecycleUpdateKeys_def
        is_image_pin_def)
  have keys: "update_ok (''GAME_POSTGRES_IMAGE'', resetStorageReference ''game-postgres'' (gm_str pins ''game-postgres''))"
    "update_ok (''GAME_REDIS_IMAGE'', resetStorageReference ''game-redis'' (gm_str pins ''game-redis''))"
    using upd[of "''game-postgres''"] upd[of "''game-redis''"]
    by (simp_all add: resetStorageServices_def storage_key_def)
  have m_eq: "m = AList.update ''GAME_REDIS_IMAGE'' (resetStorageReference ''game-redis'' (gm_str pins ''game-redis''))
      (AList.update ''GAME_POSTGRES_IMAGE'' (resetStorageReference ''game-postgres'' (gm_str pins ''game-postgres''))
        (rt_Updates t))"
    using m unfolding bind_storage_iff by blast
  have "updates_ok m" unfolding m_eq using keys assms(2) by (intro updates_ok_update)
  moreover have "rt_ImageDigests t \<noteq> []"
    using assms(3) i by (auto simp: images_ok_def hasResetImagePins_def split: if_splits)
  moreover have "pins \<noteq> []" using pins by (auto simp: service_pins_def resetStorageServices_def)
  moreover have "map_of m (storage_key s) = Some (resetStorageReference s (gm_str pins s))"
    if "s \<in> set resetStorageServices" for s
    using that by (auto simp: m_eq resetStorageServices_def storage_key_def map_of_update)
  moreover have "map_of m k = map_of (rt_Updates t) k"
    if "k \<noteq> ''GAME_POSTGRES_IMAGE''" "k \<noteq> ''GAME_REDIS_IMAGE''" for k
    using that by (simp add: m_eq map_of_update)
  moreover have "t\<lparr>rt_Updates := m, rt_StorageImageDigests := pins\<rparr> =
      t\<lparr>rt_Updates := m, rt_StorageImageDigests := pins\<rparr>" ..
  ultimately show ?thesis
    using pins unfolding t' storage_ok_def list_all_iff by auto
qed


lemma canonical_updates_iff:
  "canonical_updates sc g m = Inr m' \<longleftrightarrow>
     m' = AList.update ''SERVER_GENERATION'' (itoa g) (AList.update ''SCENARIO_SEED_ENABLED'' ''true''
            (AList.update ''SCENARIO_CODE'' sc m)) \<and>
     (map_of m ''SCENARIO_CODE'' = None \<or> map_of m ''SCENARIO_CODE'' = Some sc) \<and>
     (map_of m ''SCENARIO_SEED_ENABLED'' = None \<or> map_of m ''SCENARIO_SEED_ENABLED'' = Some ''true'') \<and>
     (map_of m ''SERVER_GENERATION'' = None \<or> map_of m ''SERVER_GENERATION'' = Some (itoa g))"
  unfolding canonical_updates_def Let_def bind_r_ok bind_update_iff by (auto simp: map_of_update)

lemma canonical_keys_ok:
  assumes "isSafeToken sc" and "0 \<le> g"
  shows "update_ok (''SCENARIO_CODE'', sc)" and "update_ok (''SCENARIO_SEED_ENABLED'', ''true'')"
    and "update_ok (''SERVER_GENERATION'', itoa g)"
proof -
  have key: "isResetLifecycleUpdateKey ''SCENARIO_CODE''" "isResetLifecycleUpdateKey ''SCENARIO_SEED_ENABLED''"
    "isResetLifecycleUpdateKey ''SERVER_GENERATION''"
    by (simp_all add: isResetLifecycleUpdateKey_def resetLifecycleUpdateKeys_def)
  have "printable sc" "printable ''true''" "printable (itoa g)"
    using safe_token_printable[OF assms(1)] literals_printable itoa_printable[OF assms(2)] by blast+
  with key show "update_ok (''SCENARIO_CODE'', sc)" "update_ok (''SCENARIO_SEED_ENABLED'', ''true'')"
    "update_ok (''SERVER_GENERATION'', itoa g)"
    unfolding update_ok_def is_image_pin_def by (simp_all add: printable_trim printable_no_break)
qed

lemma normalize_target_steps:
  "normalizeResetLifecycleTarget t = Inr t' \<longleftrightarrow>
     validateExplicitResetTargetSettings (rt_Updates t) = Inr () \<and>
     isSafeToken (trim_space (rt_ScenarioCode t)) \<and> 0 \<le> rt_Generation t \<and> rt_Generation t < 2 ^ 63 \<and>
     rt_ScenarioSeedEnabled t \<and>
     (\<exists>m m' t1. normalize_updates (rt_Updates t) = Inr m \<and>
       canonical_updates (trim_space (rt_ScenarioCode t)) (rt_Generation t) m = Inr m' \<and>
       normalizeResetImageTarget (t\<lparr>rt_ScenarioCode := trim_space (rt_ScenarioCode t), rt_Updates := m'\<rparr>) = Inr t1 \<and>
       normalizeResetStorageTarget t1 = Inr t')"
  (is "?n = Inr t' \<longleftrightarrow> ?r")
proof -
  have gen: "rt_Generation t = g \<Longrightarrow> t\<lparr>rt_ScenarioCode := c, rt_Generation := g, rt_Updates := m\<rparr> =
      t\<lparr>rt_ScenarioCode := c, rt_Updates := m\<rparr>" for c g m by (cases t) simp
  show ?thesis
  proof
    assume n: "?n = Inr t'"
    then have seed: "rt_ScenarioSeedEnabled t" and tok: "isSafeToken (trim_space (rt_ScenarioCode t))"
      unfolding normalizeResetLifecycleTarget_def Let_def bind_r_ok
      by (simp_all add: bind_r_ok split: if_split_asm)
    from n show ?r
      unfolding normalizeResetLifecycleTarget_def Let_def
      by (auto simp: seed tok bind_r_ok parse_generation_itoa gen)
  next
    assume ?r
    then show "?n = Inr t'"
      unfolding normalizeResetLifecycleTarget_def Let_def
      by (auto simp: bind_r_ok parse_generation_itoa gen)
  qed
qed

lemma normalized_target_ok:
  assumes "normalizeResetLifecycleTarget t = Inr t'" and "gm_ok (rt_Updates t)"
  shows "reset_target_ok t'"
proof -
  let ?sc = "trim_space (rt_ScenarioCode t)"
  obtain m m' t1 where ex: "validateExplicitResetTargetSettings (rt_Updates t) = Inr ()"
    and sc: "isSafeToken ?sc" "0 \<le> rt_Generation t" "rt_Generation t < 2 ^ 63" "rt_ScenarioSeedEnabled t"
    and m: "normalize_updates (rt_Updates t) = Inr m"
    and m': "canonical_updates ?sc (rt_Generation t) m = Inr m'"
    and t1: "normalizeResetImageTarget (t\<lparr>rt_ScenarioCode := ?sc, rt_Updates := m'\<rparr>) = Inr t1"
    and t': "normalizeResetStorageTarget t1 = Inr t'"
    using assms(1) unfolding normalize_target_steps by blast
  have m'_eq: "m' = AList.update ''SERVER_GENERATION'' (itoa (rt_Generation t))
      (AList.update ''SCENARIO_SEED_ENABLED'' ''true'' (AList.update ''SCENARIO_CODE'' ?sc m))"
    using m' unfolding canonical_updates_iff by blast
  have "updates_ok m'"
    unfolding m'_eq using canonical_keys_ok[OF sc(1,2)] normal_updates_ok[OF assms(2) m]
    by (intro updates_ok_update)
  moreover obtain d where t1_eq: "t1 = t\<lparr>rt_ScenarioCode := ?sc, rt_Updates := m', rt_ImageDigests := d\<rparr>"
    and im: "images_ok t1" using image_target_ok[OF t1] by auto
  ultimately have "updates_ok (rt_Updates t1)" by simp
  from storage_target_ok[OF t' this im] obtain m2 p where st: "storage_ok t'" "updates_ok (rt_Updates t')"
    and t'_eq: "t' = t1\<lparr>rt_Updates := m2, rt_StorageImageDigests := p\<rparr>"
    and same: "\<And>k. k \<noteq> ''GAME_POSTGRES_IMAGE'' \<Longrightarrow> k \<noteq> ''GAME_REDIS_IMAGE'' \<Longrightarrow>
      map_of (rt_Updates t') k = map_of m' k" by (auto simp: t1_eq)
  have "validateExplicitResetTargetSettings (rt_Updates t') = Inr ()"
  proof -
    have "map_of (rt_Updates t') k = map_of (rt_Updates t) k" if k: "k \<in> set explicit_keys" for k
    proof -
      have "map_of (rt_Updates t') k = map_of m k"
        using k same[of k] unfolding m'_eq explicit_keys_def by (auto simp: map_of_update)
      also have "\<dots> = map_of (rt_Updates t) k"
        using explicit_trimmed[OF ex k] unfolding normalized_lookup[OF m]
        by (cases "map_of (rt_Updates t) k") auto
      finally show ?thesis .
    qed
    then show ?thesis using explicit_cong[of "rt_Updates t'" "rt_Updates t"] ex by metis
  qed
  moreover have "images_ok t'"
  proof -
    have "rt_ImageDigests t' = rt_ImageDigests t1" "rt_Updates t1 = m'" by (simp_all add: t'_eq t1_eq)
    then show ?thesis
      using im same[of "''IMAGE_TAG''"] same[of "''WEB_GAME_TAG''"] unfolding images_ok_def
      by (simp split: if_split_asm)
  qed
  moreover have "scenario_ok t'"
    using sc same unfolding scenario_ok_def by (simp add: t'_eq t1_eq m'_eq map_of_update)
  ultimately show ?thesis using st by (simp add: reset_target_ok_def)
qed

lemma normal_target_fixed:
  assumes "reset_target_ok t"
  shows "normalizeResetLifecycleTarget t = Inr t"
proof -
  have u: "updates_ok (rt_Updates t)" and sc: "scenario_ok t" and im: "images_ok t" and st: "storage_ok t"
    and ex: "validateExplicitResetTargetSettings (rt_Updates t) = Inr ()"
    using assms by (simp_all add: reset_target_ok_def)
  have tr: "trim_space (rt_ScenarioCode t) = rt_ScenarioCode t"
    using sc safe_token_printable printable_trim by (auto simp: scenario_ok_def)
  have "canonical_updates (rt_ScenarioCode t) (rt_Generation t) (rt_Updates t) = Inr (rt_Updates t)"
    using sc unfolding canonical_updates_iff by (simp add: scenario_ok_def update_same)
  moreover have "normalizeResetImageTarget t = Inr t"
  proof (cases "rt_ImageDigests t = []")
    case True
    then show ?thesis using im by (simp add: images_ok_def normalizeResetImageTarget_def hasResetImagePins_def)
  next
    case False
    then have p: "service_pins resetImageServices (rt_ImageDigests t)"
      and tag: "\<exists>tag. gitSHA40 tag \<and> map_of (rt_Updates t) ''IMAGE_TAG'' = Some tag \<and>
               map_of (rt_Updates t) ''WEB_GAME_TAG'' = Some tag"
      using im by (simp_all add: images_ok_def)
    have "length (map fst (rt_ImageDigests t)) = 3"
      using p by (simp add: service_pins_def resetImageServices_def del: length_map)
    then have "normalizeResetImageDigests (rt_ImageDigests t) = Inr (rt_ImageDigests t)"
      using p pins_rebuilt[OF services_distinct(1) p] unfolding image_digests_iff by simp
    then show ?thesis using tag
      by (auto simp: normalizeResetImageTarget_def gm_str_def Let_def)
  qed
  moreover have "normalizeResetStorageTarget t = Inr t"
  proof (cases "rt_StorageImageDigests t = []")
    case True
    then show ?thesis using st by (simp add: storage_ok_def normalizeResetStorageTarget_def)
  next
    case False
    then have p: "service_pins resetStorageServices (rt_StorageImageDigests t)" "rt_ImageDigests t \<noteq> []"
      and r: "\<And>s. s \<in> set resetStorageServices \<Longrightarrow> map_of (rt_Updates t) (storage_key s) =
          Some (resetStorageReference s (gm_str (rt_StorageImageDigests t) s))"
      using st by (simp_all add: storage_ok_def list_all_iff)
    have "length (map fst (rt_StorageImageDigests t)) = 2"
      using p by (simp add: service_pins_def resetStorageServices_def del: length_map)
    then have n: "normalizeResetStorageImageDigests (rt_StorageImageDigests t) = Inr (rt_StorageImageDigests t)"
      using p pins_rebuilt[OF services_distinct(2) p(1)] unfolding storage_digests_iff by simp
    have "bind_storage (rt_StorageImageDigests t) resetStorageServices (rt_Updates t) = Inr (rt_Updates t)"
      using r[of "''game-postgres''"] r[of "''game-redis''"] unfolding bind_storage_iff
      by (simp add: resetStorageServices_def storage_key_def update_same)
    with n p(2) False show ?thesis
      by (simp add: normalizeResetStorageTarget_def hasResetImagePins_def)
  qed
  ultimately show ?thesis
    using ex sc updates_ok_normal[OF u] unfolding normalize_target_steps tr
    by (auto simp: scenario_ok_def)
qed


section \<open>The normal form\<close>


definition ex_tag :: string where "ex_tag = replicate 40 CHR ''a''"
definition ex_digest :: "char \<Rightarrow> string" where "ex_digest c = ''sha256:'' @ replicate 64 c"

definition ex_reset_target :: resetLifecycleTarget where
  "ex_reset_target = \<lparr>rt_StorageImageDigests = [(''game-redis'', ex_digest CHR ''1''), (''game-postgres'', ex_digest CHR ''2'')],
     rt_ScenarioCode = '' scenario_3190'', rt_Generation = 7, rt_ScenarioSeedEnabled = True,
     rt_Updates = [(''IMAGE_TAG'', ex_tag @ '' ''), (''WEB_GAME_TAG'', ex_tag), (''RESET_TURNTERM'', '' 60'')],
     rt_ImageDigests = [(''web-game'', ex_digest CHR ''3''), (''game-api'', ex_digest CHR ''4''), (''game-engine'', ex_digest CHR ''5'')]\<rparr>"

definition ex_reset_normal :: resetLifecycleTarget where
  "ex_reset_normal = \<lparr>rt_StorageImageDigests = [(''game-postgres'', ex_digest CHR ''2''), (''game-redis'', ex_digest CHR ''1'')],
     rt_ScenarioCode = ''scenario_3190'', rt_Generation = 7, rt_ScenarioSeedEnabled = True,
     rt_Updates = [(''IMAGE_TAG'', ex_tag), (''WEB_GAME_TAG'', ex_tag), (''RESET_TURNTERM'', ''60''),
       (''SCENARIO_CODE'', ''scenario_3190''), (''SCENARIO_SEED_ENABLED'', ''true''), (''SERVER_GENERATION'', ''7''),
       (''GAME_POSTGRES_IMAGE'', ''postgres:16-alpine@'' @ ex_digest CHR ''2''),
       (''GAME_REDIS_IMAGE'', ''redis:7-alpine@'' @ ex_digest CHR ''1'')],
     rt_ImageDigests = [(''game-api'', ex_digest CHR ''4''), (''game-engine'', ex_digest CHR ''5''), (''web-game'', ex_digest CHR ''3'')]\<rparr>"

lemma ex_reset_normalizes: "normalizeResetLifecycleTarget ex_reset_target = Inr ex_reset_normal"
  by code_simp


section \<open>Applying a target\<close>

lemma update_keys_env: "list_all isEnvKey resetLifecycleUpdateKeys"
  by code_simp

lemma updates_single_line: "updates_ok m \<Longrightarrow> single_line m"
proof -
  assume m: "updates_ok m"
  have "isEnvKey k \<and> newline \<notin> set v" if "(k, v) \<in> set m" for k v
  proof -
    have ok: "update_ok (k, v)" using m that by (auto simp: updates_ok_def list_all_iff)
    have "k \<in> set resetLifecycleUpdateKeys" "\<not> contains_any v [CHR 0x0D, newline]"
      using ok unfolding update_ok_def isResetLifecycleUpdateKey_def by simp_all
    then show ?thesis using update_keys_env unfolding list_all_iff contains_any_def list_ex_iff by auto
  qed
  then show ?thesis by (auto simp: single_line_def list_all_iff)
qed

lemma patched_value:
  assumes "gm_ok u" and "map_of u k = Some v" and "length (filter (key_is k) ls) \<le> 1"
  shows "map_of (envValuesFromLines (patched_lines u ls)) k = Some v"
  using assms by (simp add: env_values_last patched_key kv_line_def)

text \<open>
  C38. An applied target is what the file then expects. When a target has been applied to
  an env file without error, the file reads back with every update of the normalised target
  as its value, for keys the file had at most one line for; in particular the runtime that
  the verification of a reset expects from this file has the target's scenario code and
  generation.
\<close>

theorem reset_target_applied:
  assumes "readEnvLines path fs = Inr ls" and "ans_tmp a \<noteq> path" and "gm_ok (rt_Updates t)"
    and "applyResetLifecycleTarget path t a fs = (None, fs')"
    and "\<And>k. k \<in> {''SCENARIO_CODE'', ''SCENARIO_SEED_ENABLED'', ''SERVER_GENERATION''} \<Longrightarrow>
      length (filter (key_is k) ls) \<le> 1"
  shows "\<exists>t' vals. normalizeResetLifecycleTarget t = Inr t' \<and> readEnvValues path fs' = Inr vals \<and>
    resetRuntimeExpectationFor vals = Inr (rt_ScenarioCode t', rt_Generation t') \<and>
    (\<forall>k v. map_of (rt_Updates t') k = Some v \<longrightarrow> length (filter (key_is k) ls) \<le> 1 \<longrightarrow> map_of vals k = Some v)"
proof -
  obtain t' where t': "normalizeResetLifecycleTarget t = Inr t'"
    using assms(4) by (auto simp: applyResetLifecycleTarget_def split: sum.splits)
  obtain res where p: "patchEnvFile path (specs [] (map fst (rt_Updates t'))) (rt_Updates t') a fs = (Inr res, fs')"
    using assms(4) t' by (auto simp: applyResetLifecycleTarget_def split: sum.splits prod.splits)
  have ok: "reset_target_ok t'" by (rule normalized_target_ok[OF t' assms(3)])
  then have u: "updates_ok (rt_Updates t')" "gm_ok (rt_Updates t')" and sc: "scenario_ok t'"
    by (simp_all add: reset_target_ok_def updates_ok_def)
  let ?vals = "envValuesFromLines (patched_lines (rt_Updates t') ls)"
  have vals: "readEnvValues path fs' = Inr ?vals"
    using patch_file_cases[OF assms(2,1) updates_single_line[OF u(1)] p] by (simp add: readEnvValues_def)
  have each: "map_of ?vals k = Some v"
    if "map_of (rt_Updates t') k = Some v" "length (filter (key_is k) ls) \<le> 1" for k v
    using patched_value[OF u(2) that] .
  have "gm_str ?vals ''SCENARIO_CODE'' = rt_ScenarioCode t'" "gm_str ?vals ''SCENARIO_SEED_ENABLED'' = ''true''"
    "gm_str ?vals ''SERVER_GENERATION'' = itoa (rt_Generation t')"
    using sc each assms(5) by (simp_all add: scenario_ok_def gm_str_def)
  moreover have "trim_space (rt_ScenarioCode t') = rt_ScenarioCode t'" "rt_ScenarioCode t' \<noteq> []"
    using sc safe_token_printable printable_trim by (auto simp: scenario_ok_def isSafeToken_def)
  moreover have "to_lower (trim_space (envOrValue ''true'' ''true'')) = ''true''" by code_simp
  ultimately have "resetRuntimeExpectationFor ?vals = Inr (rt_ScenarioCode t', rt_Generation t')"
    using sc parse_generation_itoa[of "rt_Generation t'" 1 "rt_Generation t'"]
    by (simp add: resetRuntimeExpectationFor_def envOrValue_def scenario_ok_def Let_def)
  with t' vals each show ?thesis by blast
qed

definition ex_simple_target :: resetLifecycleTarget where
  "ex_simple_target = \<lparr>rt_StorageImageDigests = [], rt_ScenarioCode = ''scenario_1010'', rt_Generation = 2,
     rt_ScenarioSeedEnabled = True, rt_Updates = [(''RESET_TURNTERM'', ''60'')], rt_ImageDigests = []\<rparr>"

lemma ex_applied: "fst (applyResetLifecycleTarget ''/e'' ex_simple_target (all_well ''/t'') ex_env_files) = None"
  by code_simp

theorem reset_target_applied_witness:
  "\<exists>vals. readEnvValues ''/e'' (snd (applyResetLifecycleTarget ''/e'' ex_simple_target (all_well ''/t'') ex_env_files)) = Inr vals \<and>
     resetRuntimeExpectationFor vals = Inr (''scenario_1010'', 2)"
proof -
  have n: "map_sum id (\<lambda>t. (rt_ScenarioCode t, rt_Generation t)) (normalizeResetLifecycleTarget ex_simple_target) =
      Inr (''scenario_1010'', 2)"
    by code_simp
  have one: "length (filter (key_is k) ex_env_lines) \<le> 1"
    if "k \<in> {''SCENARIO_CODE'', ''SCENARIO_SEED_ENABLED'', ''SERVER_GENERATION''}" for k
  proof -
    have "list_all (\<lambda>k. length (filter (key_is k) ex_env_lines) \<le> 1)
        [''SCENARIO_CODE'', ''SCENARIO_SEED_ENABLED'', ''SERVER_GENERATION'']" by code_simp
    with that show ?thesis by (auto simp: list_all_iff)
  qed
  have "applyResetLifecycleTarget ''/e'' ex_simple_target (all_well ''/t'') ex_env_files =
      (None, snd (applyResetLifecycleTarget ''/e'' ex_simple_target (all_well ''/t'') ex_env_files))"
    using ex_applied by (metis prod.collapse)
  moreover have "ans_tmp (all_well ''/t'') \<noteq> ''/e''" "gm_ok (rt_Updates ex_simple_target)" by code_simp+
  ultimately show ?thesis
    using reset_target_applied[OF ex_env_read, of "all_well ''/t''" ex_simple_target] one n by fastforce
qed

section \<open>The text of a fingerprint\<close>

definition map_text_ok :: "env \<Rightarrow> bool" where
  "map_text_ok m \<longleftrightarrow> gm_ok m \<and> list_all (\<lambda>(k, v). utf8_ok k \<and> utf8_ok v) m"

definition target_text_ok :: "resetLifecycleTarget \<Rightarrow> bool" where
  "target_text_ok t \<longleftrightarrow> map_text_ok (rt_StorageImageDigests t) \<and> map_text_ok (rt_Updates t) \<and>
     map_text_ok (rt_ImageDigests t) \<and> utf8_ok (rt_ScenarioCode t) \<and>
     - (2 ^ 63) \<le> rt_Generation t \<and> rt_Generation t < 2 ^ 63"

definition same_target :: "resetLifecycleTarget \<Rightarrow> resetLifecycleTarget \<Rightarrow> bool" where
  "same_target t t' \<longleftrightarrow> map_of (rt_StorageImageDigests t) = map_of (rt_StorageImageDigests t') \<and>
     rt_ScenarioCode t = rt_ScenarioCode t' \<and> rt_Generation t = rt_Generation t' \<and>
     rt_ScenarioSeedEnabled t = rt_ScenarioSeedEnabled t' \<and> map_of (rt_Updates t) = map_of (rt_Updates t') \<and>
     map_of (rt_ImageDigests t) = map_of (rt_ImageDigests t')"

lemma sorted_keys_eq:
  assumes "gm_ok m" and "gm_ok m'" and "map_of m = map_of m'"
  shows "sort (map fst m) = sort (map fst m')"
proof -
  have "set (map fst m) = set (map fst m')" using assms(3) dom_map_of_conv_image_fst[of m]
      dom_map_of_conv_image_fst[of m'] by simp
  then show ?thesis using assms by (intro sorted_distinct_set_unique) auto
qed

lemma env_json_iff:
  assumes "gm_ok m" and "gm_ok m'"
  shows "env_json m = env_json m' \<longleftrightarrow> map_of m = map_of m'"
proof
  assume "map_of m = map_of m'"
  then show "env_json m = env_json m'"
    using sorted_keys_eq[OF assms] by (simp add: env_json_def gm_str_def)
next
  assume "env_json m = env_json m'"
  then have eq: "map (\<lambda>k. (k, JStr (gm_str m k))) (sort (map fst m)) =
      map (\<lambda>k. (k, JStr (gm_str m' k))) (sort (map fst m'))" by (simp add: env_json_def)
  then have keys: "sort (map fst m) = sort (map fst m')"
    by (metis (no_types, lifting) comp_apply fst_conv map_idI map_map)
  then have ks: "fst ` set m = fst ` set m'" by (metis list.set_map set_sort)
  have "\<forall>k\<in>fst ` set m'. gm_str m k = gm_str m' k" using eq unfolding keys by simp
  then have "gm_str m k = gm_str m' k" if "k \<in> fst ` set m" for k
    using ks that by blast
  then show "map_of m = map_of m'"
  proof (intro ext)
    fix k
    show "map_of m k = map_of m' k"
    proof (cases "k \<in> fst ` set m")
      case True
      then have "gm_has m k" "gm_has m' k" using ks unfolding gm_has_iff by blast+
      then show ?thesis using \<open>\<And>k. k \<in> fst ` set m \<Longrightarrow> gm_str m k = gm_str m' k\<close>[OF True]
        by (auto simp only: gm_str_def not_None_eq option.case)
    next
      case False
      then have "\<not> gm_has m k" "\<not> gm_has m' k" using ks unfolding gm_has_iff by blast+
      then show ?thesis by simp
    qed
  qed
qed

lemma env_member_iff:
  assumes "gm_ok m" and "gm_ok m'"
  shows "env_member key m = env_member key m' \<longleftrightarrow> map_of m = map_of m'"
proof -
  have "m = [] \<longleftrightarrow> map_of m = Map.empty" for m :: env by (cases m) (auto simp: fun_eq_iff)
  then show ?thesis using env_json_iff[OF assms] by (auto simp: env_member_def)
qed

lemma target_json_iff:
  assumes "target_text_ok t" and "target_text_ok t'"
  shows "target_json t = target_json t' \<longleftrightarrow> same_target t t'"
proof -
  let ?mid = "\<lambda>t. [(''scenarioCode'', JStr (rt_ScenarioCode t)), (''generation'', JNum (itoa (rt_Generation t))),
       (''scenarioSeedEnabled'', JBool (rt_ScenarioSeedEnabled t))]"
  have len: "length (env_member key m) \<le> 1" "list_all (\<lambda>(k, v). k = key) (env_member key m)" for key m
    by (simp_all add: env_member_def)
  have num: "itoa (rt_Generation t) = itoa (rt_Generation t') \<longleftrightarrow> rt_Generation t = rt_Generation t'"
    using assms by (metis atoi_itoa_iff option.inject target_text_ok_def)
  have parts: "gm_ok (rt_StorageImageDigests t)" "gm_ok (rt_StorageImageDigests t')" "gm_ok (rt_Updates t)"
    "gm_ok (rt_Updates t')" "gm_ok (rt_ImageDigests t)" "gm_ok (rt_ImageDigests t')"
    using assms by (auto simp: target_text_ok_def map_text_ok_def)
  have "target_json t = target_json t' \<longleftrightarrow>
      env_member ''storageImageDigests'' (rt_StorageImageDigests t) =
        env_member ''storageImageDigests'' (rt_StorageImageDigests t') \<and> ?mid t = ?mid t' \<and>
      env_member ''updates'' (rt_Updates t) = env_member ''updates'' (rt_Updates t') \<and>
      env_member ''imageDigests'' (rt_ImageDigests t) = env_member ''imageDigests'' (rt_ImageDigests t')"
    unfolding target_json_def env_member_def by auto
  then show ?thesis
    unfolding env_member_iff[OF parts(1,2)] env_member_iff[OF parts(3,4)] env_member_iff[OF parts(5,6)]
    by (auto simp: same_target_def num)
qed

lemma env_json_ok: "map_text_ok m \<Longrightarrow> json_ok (env_json m)"
  by (auto simp: env_json_def map_text_ok_def list_all_iff gm_str_def map_of_is_SomeI)


lemma env_member_ok: "utf8_ok key \<Longrightarrow> map_text_ok m \<Longrightarrow> list_all (\<lambda>(k, v). utf8_ok k \<and> json_ok v) (env_member key m)"
  using env_json_ok[of m] by (simp add: env_member_def del: utf8_ok.simps)

lemma reset_field_names: "list_all utf8_ok [''id'', ''target'', ''storageImageDigests'', ''scenarioCode'',
    ''generation'', ''scenarioSeedEnabled'', ''updates'', ''imageDigests'']"
  by code_simp

lemma request_json_ok:
  assumes "utf8_ok sid" and "target_text_ok t"
  shows "json_ok (reset_request_json sid t)"
proof -
  have "json_ok (JNum (itoa (rt_Generation t)))"
    using assms(2) by (simp add: atoi_itoa_iff target_text_ok_def)
  moreover have "list_all (\<lambda>(k, v). utf8_ok k \<and> json_ok v) (env_member ''storageImageDigests'' (rt_StorageImageDigests t))"
    "list_all (\<lambda>(k, v). utf8_ok k \<and> json_ok v) (env_member ''updates'' (rt_Updates t))"
    "list_all (\<lambda>(k, v). utf8_ok k \<and> json_ok v) (env_member ''imageDigests'' (rt_ImageDigests t))"
    using assms(2) reset_field_names unfolding list.pred_inject target_text_ok_def
    by (auto intro!: env_member_ok simp del: utf8_ok.simps)
  ultimately show ?thesis
    using assms reset_field_names unfolding list.pred_inject
    by (simp add: reset_request_json_def target_json_def target_text_ok_def del: utf8_ok.simps json_ok.simps(3))
qed

text \<open>
  A fingerprint stands for one request. The text that is hashed determines the server id
  and the target up to the order of its maps, and a reordered target has the same
  fingerprint, which always is one the operation store accepts.
\<close>

theorem reset_fingerprint_text:
  assumes "utf8_ok sid" and "utf8_ok sid'" and "target_text_ok t" and "target_text_ok t'"
  shows "(json_text (reset_request_json sid t) = json_text (reset_request_json sid' t') \<longleftrightarrow>
      sid = sid' \<and> same_target t t') \<and>
    (same_target t t' \<longrightarrow> resetRequestFingerprint sid t = resetRequestFingerprint sid t') \<and>
    durableOperationFingerprintRe (resetRequestFingerprint sid t)"
proof -
  have json: "reset_request_json sid t = reset_request_json sid' t' \<longleftrightarrow> sid = sid' \<and> same_target t t'" for sid sid'
    unfolding reset_request_json_def using target_json_iff[OF assms(3,4)] by auto
  have "json_text (reset_request_json sid t) = json_text (reset_request_json sid' t') \<longleftrightarrow>
      reset_request_json sid t = reset_request_json sid' t'"
    using parse_json_text[OF request_json_ok[OF assms(1,3)]] parse_json_text[OF request_json_ok[OF assms(2,4)]]
    by (metis option.inject)
  moreover have "resetRequestFingerprint sid t = resetRequestFingerprint sid t'" if "same_target t t'"
  proof -
    have "target_json t = target_json t'" using that target_json_iff[OF assms(3,4)] by blast
    then show ?thesis by (simp add: resetRequestFingerprint_def reset_request_json_def)
  qed
  ultimately show ?thesis using json
    by (simp add: resetRequestFingerprint_def durableOperationFingerprintRe_def sha256_hex_string)
qed

theorem reset_fingerprint_text_witness:
  "durableOperationFingerprintRe (resetRequestFingerprint ''pep1'' ex_reset_normal) \<and>
   json_text (reset_request_json ''pep1'' ex_reset_normal) \<noteq> json_text (reset_request_json ''pep2'' ex_reset_normal)"
proof -
  have "utf8_ok ''pep1''" "utf8_ok ''pep2''" "target_text_ok ex_reset_normal" by code_simp+
  then show ?thesis using reset_fingerprint_text[of "''pep1''" "''pep2''" ex_reset_normal ex_reset_normal] by simp
qed

end
