(* ===== verification/GoTime.thy ===== *)
theory GoTime
  imports Json
begin

text \<open>
  Times as the evidence of a reset carries them: an instant with the offset of its zone,
  its JSON text (RFC 3339 with the shortest fraction), and the seconds since 1970 of an
  instant. Instants count nanoseconds from the first of January of year 1, UTC.
\<close>

record go_time =
  gt_instant :: time
  gt_offset :: int

definition unix_epoch :: int where "unix_epoch = 62135596800"

text \<open>Go counts seconds in 64 bits, which wrap around.\<close>

definition wrap64 :: "int \<Rightarrow> int" where
  "wrap64 i = (i + 2 ^ 63) mod 2 ^ 64 - 2 ^ 63"

definition unix_of :: "time \<Rightarrow> int" where
  "unix_of t = wrap64 (t div second - unix_epoch)"

definition of_unix :: "int \<Rightarrow> time" where
  "of_unix s = wrap64 (s + unix_epoch) * second"

text \<open>Year, month and day of a number of days from the first of January of year 1.\<close>

definition civil_from_days :: "int \<Rightarrow> int \<times> int \<times> int" where
  "civil_from_days days =
     (let z = days + 306; era = z div 146097; doe = z mod 146097;
          yoe = (doe - doe div 1460 + doe div 36524 - doe div 146096) div 365;
          doy = doe - (365 * yoe + yoe div 4 - yoe div 100);
          mp = (5 * doy + 2) div 153;
          d = doy - (153 * mp + 2) div 5 + 1;
          m = (if mp < 10 then mp + 3 else mp - 9)
      in (yoe + era * 400 + (if m \<le> 2 then 1 else 0), m, d))"

definition padded :: "nat \<Rightarrow> int \<Rightarrow> string" where
  "padded n i = (let s = itoa i in replicate (n - length s) CHR ''0'' @ s)"

definition fraction_text :: "int \<Rightarrow> string" where
  "fraction_text nanos =
     (if nanos = 0 then []
      else ''.'' @ rev (dropWhile (\<lambda>c. c = CHR ''0'') (rev (padded 9 nanos))))"

definition zone_text :: "int \<Rightarrow> string" where
  "zone_text offset =
     (let minutes = \<bar>offset\<bar> div 60 in
      if offset = 0 then ''Z''
      else (if offset < 0 then ''-'' else ''+'') @ padded 2 (minutes div 60) @ '':'' @ padded 2 (minutes mod 60))"

definition rfc3339 :: "go_time \<Rightarrow> string" where
  "rfc3339 t =
     (let local = gt_instant t + gt_offset t * second; secs = local div second;
          (y, m, d) = civil_from_days (secs div 86400); s = secs mod 86400
      in padded 4 y @ ''-'' @ padded 2 m @ ''-'' @ padded 2 d @ ''T'' @ padded 2 (s div 3600) @ '':'' @
         padded 2 (s div 60 mod 60) @ '':'' @ padded 2 (s mod 60) @ fraction_text (local mod second) @
         zone_text (gt_offset t))"

definition time_json :: "go_time \<Rightarrow> json" where
  "time_json t = JStr (rfc3339 t)"

section \<open>Reading times\<close>

text \<open>Days from the first of January of year 1, and the length of a month.\<close>

definition days_from_civil :: "int \<Rightarrow> int \<Rightarrow> int \<Rightarrow> int" where
  "days_from_civil y m d =
     (let y' = (if m \<le> 2 then y - 1 else y); yoe = y' mod 400;
          doy = (153 * (if m > 2 then m - 3 else m + 9) + 2) div 5 + d - 1
      in y' div 400 * 146097 + (yoe * 365 + yoe div 4 - yoe div 100 + doy) - 306)"

definition days_in :: "int \<Rightarrow> int \<Rightarrow> int" where
  "days_in y m =
     (if m = 2 then (if y mod 4 = 0 \<and> (y mod 100 \<noteq> 0 \<or> y mod 400 = 0) then 29 else 28)
      else if m \<in> {4, 6, 9, 11} then 30 else 31)"

definition take_digits :: "nat \<Rightarrow> string \<Rightarrow> (int \<times> string) option" where
  "take_digits n s = (if n \<le> length s \<and> list_all is_digit (take n s)
     then Some (int (dec_value (take n s)), drop n s) else None)"

definition take_byte :: "char \<Rightarrow> string \<Rightarrow> string option" where
  "take_byte c s = (case s of [] \<Rightarrow> None | d # t \<Rightarrow> if d = c then Some t else None)"

text \<open>An hour may have one digit; a fraction may follow a comma, and counts to the nanosecond.\<close>

definition take_hour :: "string \<Rightarrow> (int \<times> string) option" where
  "take_hour s = (case take_digits 2 s of Some r \<Rightarrow> Some r | None \<Rightarrow> take_digits 1 s)"

definition take_fraction :: "string \<Rightarrow> int \<times> string" where
  "take_fraction s =
     (if 2 \<le> length s \<and> hd s \<in> set ''.,'' \<and> is_digit (s ! 1)
      then let ds = takeWhile is_digit (tl s); kept = take 9 ds in
        (int (dec_value kept) * 10 ^ (9 - length kept), dropWhile is_digit (tl s))
      else (0, s))"

definition take_zone :: "string \<Rightarrow> int option" where
  "take_zone s =
     (if s = ''Z'' then Some 0
      else if length s \<noteq> 6 \<or> s ! 3 \<noteq> CHR '':'' \<or> hd s \<notin> set ''+-'' then None
      else Option.bind (take_digits 2 (take 2 (drop 1 s))) (\<lambda>(h, _).
        Option.bind (take_digits 2 (drop 4 s)) (\<lambda>(m, _).
          if 24 < h \<or> 60 < m then None
          else Some ((if hd s = CHR ''-'' then - 1 else 1) * (h * 60 + m) * 60))))"

text \<open>\<open>time.Time.UnmarshalJSON\<close> on the text of the string, which it does not unescape.\<close>

definition parse_rfc3339 :: "string \<Rightarrow> go_time option" where
  "parse_rfc3339 s0 =
     Option.bind (take_digits 4 s0) (\<lambda>(y, s1). Option.bind (take_byte CHR ''-'' s1) (\<lambda>s2.
     Option.bind (take_digits 2 s2) (\<lambda>(m, s3). Option.bind (take_byte CHR ''-'' s3) (\<lambda>s4.
     Option.bind (take_digits 2 s4) (\<lambda>(d, s5). Option.bind (take_byte CHR ''T'' s5) (\<lambda>s6.
     Option.bind (take_hour s6) (\<lambda>(h, s7). Option.bind (take_byte CHR '':'' s7) (\<lambda>s8.
     Option.bind (take_digits 2 s8) (\<lambda>(mi, s9). Option.bind (take_byte CHR '':'' s9) (\<lambda>s10.
     Option.bind (take_digits 2 s10) (\<lambda>(sec, s11). let (nanos, s12) = take_fraction s11 in
     Option.bind (take_zone s12) (\<lambda>offset.
       if m < 1 \<or> 12 < m \<or> d < 1 \<or> days_in y m < d \<or> 23 < h \<or> 59 < mi \<or> 59 < sec then None
       else Some \<lparr>gt_instant = (days_from_civil y m d * 86400 + h * 3600 + mi * 60 + sec - offset) * second + nanos,
              gt_offset = offset\<rparr>))))))))))))"

lemma wrap64_id: "- (2 ^ 63) \<le> i \<Longrightarrow> i < 2 ^ 63 \<Longrightarrow> wrap64 i = i"
  by (simp add: wrap64_def)

lemma unix_of_unix: "- (2 ^ 63) \<le> s \<Longrightarrow> s < 2 ^ 63 \<Longrightarrow> unix_of (of_unix s) = s"
proof -
  assume s: "- (2 ^ 63) \<le> s" "s < 2 ^ 63"
  have "unix_of (of_unix s) = wrap64 (wrap64 (s + unix_epoch) - unix_epoch)"
    by (simp add: unix_of_def of_unix_def go_defs)
  also have "\<dots> = wrap64 s" by (simp add: wrap64_def algebra_simps mod_simps)
  finally show ?thesis using wrap64_id[OF s] by simp
qed

lemma of_unix_small: "0 \<le> s \<Longrightarrow> s < 2 ^ 62 \<Longrightarrow> of_unix s = (s + unix_epoch) * second"
  by (simp add: of_unix_def wrap64_id unix_epoch_def)

end
