(* ===== verification/ResetJournal.thy ===== *)
theory ResetJournal
  imports ResetTargetLaws SpaceBudget GoTime OperationStoreSystem
begin

text \<open>
  reset_execution_journal.go: the execution record a native reset leaves in its lifecycle
  journal. Its attestations, one per phase, form a chain: each carries the hash of the one
  before, and its own hash covers the identity of the request. The lemmas unfold the
  validation loop into the chain it checks.
\<close>

section \<open>Attestations\<close>

record resetExecutionPhaseSnapshot =
  sn_ObservedAt :: go_time
  sn_ServerID :: string
  sn_OperationID :: string
  sn_TargetFingerprint :: string
  sn_PublicationState :: string
  sn_PublicationRevision :: string
  sn_WriterFreezeReceiptSHA :: string
  sn_WriterFreezeHeld :: bool

record resetExecutionSpaceSnapshot =
  sp_Device :: uint64
  sp_AvailableBytes :: uint64
  sp_AvailableInodes :: uint64

record resetExecutionAttestation =
  at_Phase :: string
  at_PreviousSHA :: string
  at_StartedAt :: go_time
  at_CompletedAt :: go_time
  at_Snapshot :: resetExecutionPhaseSnapshot
  at_Space :: resetExecutionSpaceSnapshot
  at_SHA :: string

record resetExecutionJournal =
  rx_Version :: int
  rx_AcceptedAtUnix :: int
  rx_Evidence :: resetExecutionEvidenceRefs
  rx_TargetFingerprint :: string
  rx_RequestFingerprint :: string
  rx_Attestations :: "resetExecutionAttestation list"

definition str_member :: "string \<Rightarrow> string \<Rightarrow> (string \<times> json) list" where
  "str_member key s = (if s = [] then [] else [(key, JStr s)])"

definition uint64_json :: "uint64 \<Rightarrow> json" where
  "uint64_json w = JNum (itoa (uint w))"

definition evidence_json :: "resetExecutionEvidenceRefs \<Rightarrow> json" where
  "evidence_json r = JObj (str_member ''approvalPlanSha256'' (ev_ApprovalPlanSHA r) @
     str_member ''executionReceiptSha256'' (ev_ExecutionReceiptSHA r))"

definition snapshot_json :: "resetExecutionPhaseSnapshot \<Rightarrow> json" where
  "snapshot_json s = JObj
     [(''ObservedAt'', time_json (sn_ObservedAt s)), (''ServerID'', JStr (sn_ServerID s)),
      (''OperationID'', JStr (sn_OperationID s)), (''TargetFingerprint'', JStr (sn_TargetFingerprint s)),
      (''PublicationState'', JStr (sn_PublicationState s)),
      (''PublicationRevision'', JStr (sn_PublicationRevision s)),
      (''WriterFreezeReceiptSHA'', JStr (sn_WriterFreezeReceiptSHA s)),
      (''WriterFreezeHeld'', JBool (sn_WriterFreezeHeld s))]"

definition attestation_json :: "resetExecutionAttestation \<Rightarrow> json" where
  "attestation_json a = JObj
     ([(''phase'', JStr (at_Phase a))] @ str_member ''previousSha256'' (at_PreviousSHA a) @
      [(''startedAt'', time_json (at_StartedAt a)), (''completedAt'', time_json (at_CompletedAt a)),
       (''snapshot'', snapshot_json (at_Snapshot a)),
       (''space'', JObj [(''device'', uint64_json (sp_Device (at_Space a))),
          (''availableBytes'', uint64_json (sp_AvailableBytes (at_Space a))),
          (''availableInodes'', uint64_json (sp_AvailableInodes (at_Space a)))]),
       (''sha256'', JStr (at_SHA a))])"

definition attestation_identity_json :: "resetExecutionJournal \<Rightarrow> resetExecutionAttestation \<Rightarrow> json" where
  "attestation_identity_json r a = JObj
     [(''acceptedAtUnix'', JNum (itoa (rx_AcceptedAtUnix r))), (''evidence'', evidence_json (rx_Evidence r)),
      (''targetFingerprint'', JStr (rx_TargetFingerprint r)),
      (''requestFingerprint'', JStr (rx_RequestFingerprint r)), (''attestation'', attestation_json a)]"

definition resetExecutionAttestationSHA :: "resetExecutionJournal \<Rightarrow> resetExecutionAttestation \<Rightarrow> string" where
  "resetExecutionAttestationSHA r a = sha256_hex (json_text (attestation_identity_json r (a\<lparr>at_SHA := []\<rparr>)))"

section \<open>Validation\<close>

definition reset_phases :: "string list" where
  "reset_phases = [''prepared'', ''before-journal'', ''before-down'']"

definition resetPreflightMaxAge :: duration where
  "resetPreflightMaxAge = 30 * second"

definition canonical_revision :: "string \<Rightarrow> bool" where
  "canonical_revision s \<longleftrightarrow> (case atoi s of None \<Rightarrow> False | Some n \<Rightarrow> 0 < n \<and> itoa n = s)"

text \<open>What an attestation must say by itself, and what its times must be.\<close>

definition attestation_ok :: "resetExecutionJournal \<Rightarrow> string \<Rightarrow> resetExecutionAttestation \<Rightarrow> bool" where
  "attestation_ok r opid a \<longleftrightarrow> (let s = at_Snapshot a in
     sn_ServerID s = ''pep'' \<and> sn_OperationID s = opid \<and> sn_TargetFingerprint s = rx_TargetFingerprint r \<and>
     sn_PublicationState s = ''VERIFYING'' \<and> canonical_revision (sn_PublicationRevision s) \<and>
     sn_WriterFreezeHeld s \<and> resetEvidenceSHA (sn_WriterFreezeReceiptSHA s) \<and>
     resetDiskReserveBytes \<le> sp_AvailableBytes (at_Space a) \<and> sp_AvailableInodes (at_Space a) \<noteq> 0 \<and>
     resetEvidenceSHA (at_SHA a) \<and> at_SHA a = resetExecutionAttestationSHA r a)"

definition attestation_times_ok :: "time \<Rightarrow> resetExecutionAttestation \<Rightarrow> bool" where
  "attestation_times_ok previous a \<longleftrightarrow>
     (let started = gt_instant (at_StartedAt a); completed = gt_instant (at_CompletedAt a);
          observed = gt_instant (sn_ObservedAt (at_Snapshot a)) in
      \<not> started < previous \<and> \<not> completed < started \<and> \<not> observed < started \<and> \<not> observed > completed \<and>
      \<not> completed - started \<ge> resetPreflightMaxAge)"

fun attestation_chain ::
    "resetExecutionJournal \<Rightarrow> string \<Rightarrow> string list \<Rightarrow> string \<Rightarrow> time \<Rightarrow> (string \<times> string) option \<Rightarrow>
     resetExecutionAttestation list \<Rightarrow> unit result" where
  "attestation_chain r opid phases previous completion same [] = Inr ()"
| "attestation_chain r opid [] previous completion same (a # as) = Inl ErrResetExecutionEvidence"
| "attestation_chain r opid (phase # phases) previous completion same (a # as) =
     (let pair = (sn_PublicationRevision (at_Snapshot a), sn_WriterFreezeReceiptSHA (at_Snapshot a)) in
      if at_Phase a \<noteq> phase \<or> at_PreviousSHA a \<noteq> previous \<or> \<not> attestation_times_ok completion a \<or>
         \<not> attestation_ok r opid a \<or> (same \<noteq> None \<and> same \<noteq> Some pair)
      then Inl ErrResetExecutionEvidence
      else attestation_chain r opid phases (at_SHA a) (gt_instant (at_CompletedAt a)) (Some pair) as)"

definition validateResetExecutionJournal ::
    "resetExecutionJournal \<Rightarrow> string \<Rightarrow> resetLifecycleTarget \<Rightarrow> unit result" where
  "validateResetExecutionJournal r opid target =
     (if rx_Version r \<noteq> 1 \<or> rx_AcceptedAtUnix r \<le> 0 \<or> \<not> lifecycleJobIDRe opid \<or>
         ev_ApprovalPlanSHA (rx_Evidence r) = [] \<or> ev_ExecutionReceiptSHA (rx_Evidence r) = [] \<or>
         rx_TargetFingerprint r \<noteq> resetRequestFingerprint ''pep'' target
      then Inl ErrResetExecutionEvidence
      else case resetExecutionRequestFingerprint ''pep'' target (rx_Evidence r) of
        Inl e \<Rightarrow> Inl ErrResetExecutionEvidence
      | Inr fp \<Rightarrow>
          if rx_RequestFingerprint r \<noteq> fp \<or> rx_Attestations r = [] \<or> 3 < length (rx_Attestations r)
          then Inl ErrResetExecutionEvidence
          else attestation_chain r opid reset_phases [] (of_unix (rx_AcceptedAtUnix r)) None (rx_Attestations r))"

text \<open>\<open>validateResetExecutionOperation\<close>: the record must be of the reservation, and of its time.\<close>

definition validateResetExecutionOperation ::
    "op_store option \<Rightarrow> resetExecutionJournal \<Rightarrow> string \<Rightarrow> unit result" where
  "validateResetExecutionOperation st r opid =
     (case st of
        None \<Rightarrow> Inl ErrResetExecutionEvidence
      | Some s \<Rightarrow>
          (case Lookup opid s of
             None \<Rightarrow> Inl ErrResetExecutionEvidence
           | Some op \<Rightarrow>
               if op_kind op \<noteq> KindReset \<or> op_subjectID op \<noteq> ''pep'' \<or>
                  op_fingerprint op \<noteq> rx_RequestFingerprint r \<or> unix_of (op_createdAt op) \<noteq> rx_AcceptedAtUnix r
               then Inl ErrResetExecutionEvidence else Inr ()))"

section \<open>The chain\<close>

definition chain_link :: "resetExecutionAttestation \<Rightarrow> resetExecutionAttestation \<Rightarrow> bool" where
  "chain_link a b \<longleftrightarrow> at_PreviousSHA b = at_SHA a \<and>
     gt_instant (at_CompletedAt a) \<le> gt_instant (at_StartedAt b) \<and>
     sn_PublicationRevision (at_Snapshot a) = sn_PublicationRevision (at_Snapshot b) \<and>
     sn_WriterFreezeReceiptSHA (at_Snapshot a) = sn_WriterFreezeReceiptSHA (at_Snapshot b)"

definition attestation_sound :: "resetExecutionJournal \<Rightarrow> string \<Rightarrow> resetExecutionAttestation \<Rightarrow> bool" where
  "attestation_sound r opid a \<longleftrightarrow> attestation_ok r opid a \<and>
     gt_instant (at_StartedAt a) \<le> gt_instant (sn_ObservedAt (at_Snapshot a)) \<and>
     gt_instant (sn_ObservedAt (at_Snapshot a)) \<le> gt_instant (at_CompletedAt a) \<and>
     gt_instant (at_CompletedAt a) - gt_instant (at_StartedAt a) < resetPreflightMaxAge"

fun chained :: "resetExecutionAttestation list \<Rightarrow> bool" where
  "chained (a # b # as) \<longleftrightarrow> chain_link a b \<and> chained (b # as)"
| "chained _ \<longleftrightarrow> True"

lemma chain_iff:
  "attestation_chain r opid phases previous completion same as = Inr () \<longleftrightarrow>
     length as \<le> length phases \<and> map at_Phase as = take (length as) phases \<and>
     list_all (attestation_sound r opid) as \<and> chained as \<and>
     (as \<noteq> [] \<longrightarrow> at_PreviousSHA (hd as) = previous \<and> completion \<le> gt_instant (at_StartedAt (hd as)) \<and>
       (same = None \<or> same = Some (sn_PublicationRevision (at_Snapshot (hd as)),
                                  sn_WriterFreezeReceiptSHA (at_Snapshot (hd as)))))"
proof (induction r opid phases previous completion same as rule: attestation_chain.induct)
  case (3 r opid phase phases previous completion same a as)
  let ?pair = "(sn_PublicationRevision (at_Snapshot a), sn_WriterFreezeReceiptSHA (at_Snapshot a))"
  let ?bad = "at_Phase a \<noteq> phase \<or> at_PreviousSHA a \<noteq> previous \<or> \<not> attestation_times_ok completion a \<or>
         \<not> attestation_ok r opid a \<or> (same \<noteq> None \<and> same \<noteq> Some ?pair)"
  have sound: "attestation_ok r opid a \<and> attestation_times_ok completion a \<longleftrightarrow>
      attestation_sound r opid a \<and> completion \<le> gt_instant (at_StartedAt a)"
    by (auto simp: attestation_sound_def attestation_times_ok_def Let_def)
  show ?case
  proof (cases ?bad)
    case True
    then show ?thesis using sound by (auto simp: Let_def)
  next
    case False
    have "chained (a # as) \<longleftrightarrow> chained as \<and> (as \<noteq> [] \<longrightarrow> chain_link a (hd as))"
      by (cases as) auto
    moreover have "attestation_chain r opid (phase # phases) previous completion same (a # as) =
        attestation_chain r opid phases (at_SHA a) (gt_instant (at_CompletedAt a)) (Some ?pair) as"
      by (simp only: attestation_chain.simps Let_def if_not_P[OF False])
    moreover have "same = None \<or> same = Some ?pair" "at_Phase a = phase" "at_PreviousSHA a = previous"
      "attestation_sound r opid a" "completion \<le> gt_instant (at_StartedAt a)"
      using False sound by blast+
    ultimately show ?thesis using "3.IH"[OF refl False]
      by (simp add: chain_link_def)
  qed
qed simp_all

lemma validated_journal_iff:
  "validateResetExecutionJournal r opid target = Inr () \<longleftrightarrow>
     rx_Version r = 1 \<and> 0 < rx_AcceptedAtUnix r \<and> lifecycleJobIDRe opid \<and>
     ev_ApprovalPlanSHA (rx_Evidence r) \<noteq> [] \<and> ev_ExecutionReceiptSHA (rx_Evidence r) \<noteq> [] \<and>
     rx_TargetFingerprint r = resetRequestFingerprint ''pep'' target \<and>
     resetExecutionRequestFingerprint ''pep'' target (rx_Evidence r) = Inr (rx_RequestFingerprint r) \<and>
     rx_Attestations r \<noteq> [] \<and> length (rx_Attestations r) \<le> 3 \<and>
     attestation_chain r opid reset_phases [] (of_unix (rx_AcceptedAtUnix r)) None (rx_Attestations r) = Inr ()"
  by (auto simp: validateResetExecutionJournal_def split: sum.splits if_splits)

text \<open>The number of attestations does not enter any of the checks of one of them.\<close>

lemma attestation_sound_identity [simp]:
  "attestation_sound (r\<lparr>rx_Attestations := as\<rparr>) opid a = attestation_sound r opid a"
  by (simp add: attestation_sound_def attestation_ok_def resetExecutionAttestationSHA_def
      attestation_identity_json_def)

lemma chained_take: "chained as \<Longrightarrow> chained (take n as)"
proof (induction as arbitrary: n rule: chained.induct)
  case (1 a b as)
  then have "chained (take m (b # as))" for m by simp
  from this[of "n - 1"] 1 show ?case by (cases n; cases "n - 1") auto
qed (auto simp: take_Cons split: nat.splits)

text \<open>
  C36. A validated execution record is a chain of hashes. Its one to three attestations are
  those of the first phases in their order; each is bound by its own hash to the request,
  observed between its start and its end, within thirty seconds and with the disk reserve
  free; each carries the hash of the one before and starts after it has ended, from the time
  of acceptance on; publication revision and writer freeze are the same in all. Every
  non-empty prefix of the record is valid as well, so that the record is valid after each
  phase.
\<close>

theorem execution_record_chain:
  assumes "validateResetExecutionJournal r opid target = Inr ()"
  shows "map at_Phase (rx_Attestations r) = take (length (rx_Attestations r)) reset_phases \<and>
    list_all (attestation_sound r opid) (rx_Attestations r) \<and> chained (rx_Attestations r) \<and>
    at_PreviousSHA (hd (rx_Attestations r)) = [] \<and>
    of_unix (rx_AcceptedAtUnix r) \<le> gt_instant (at_StartedAt (hd (rx_Attestations r))) \<and>
    (\<forall>n>0. validateResetExecutionJournal (r\<lparr>rx_Attestations := take n (rx_Attestations r)\<rparr>) opid target = Inr ())"
proof -
  have ne: "rx_Attestations r \<noteq> []" and len: "length (rx_Attestations r) \<le> 3"
    and c: "attestation_chain r opid reset_phases [] (of_unix (rx_AcceptedAtUnix r)) None (rx_Attestations r) = Inr ()"
    using assms unfolding validated_journal_iff by blast+
  note chain = c[unfolded chain_iff]
  have start: "of_unix (rx_AcceptedAtUnix r) \<le> gt_instant (at_StartedAt (hd (rx_Attestations r)))"
    using chain ne by blast
  have "validateResetExecutionJournal (r\<lparr>rx_Attestations := take n (rx_Attestations r)\<rparr>) opid target = Inr ()"
    if "0 < n" for n
  proof -
    have hd: "hd (take n (rx_Attestations r)) = hd (rx_Attestations r)" "take n (rx_Attestations r) \<noteq> []"
      using that ne by (auto simp: hd_take)
    have "list_all (attestation_sound r opid) (take n (rx_Attestations r))"
      using chain by (auto simp: list_all_iff dest: in_set_takeD)
    moreover have "map at_Phase (take n (rx_Attestations r)) = take (length (take n (rx_Attestations r))) reset_phases"
      using chain by (metis length_map length_take min.commute take_map take_take)
    moreover have "list_all (attestation_sound (r\<lparr>rx_Attestations := take n (rx_Attestations r)\<rparr>) opid) bs =
        list_all (attestation_sound r opid) bs" for bs by (simp add: list_all_iff)
    ultimately show ?thesis
      using assms chain hd len chained_take[of "rx_Attestations r" n]
      unfolding validated_journal_iff chain_iff by (simp add: hd) linarith?
  qed
  then show ?thesis using chain ne start by blast
qed


definition ex_refs :: resetExecutionEvidenceRefs where
  "ex_refs = \<lparr>ev_ApprovalPlanSHA = replicate 64 CHR ''b'', ev_ExecutionReceiptSHA = replicate 64 CHR ''c''\<rparr>"

definition ex_opid :: string where "ex_opid = replicate 32 CHR ''d''"

definition ex_reset_record_base :: resetExecutionJournal where
  "ex_reset_record_base = \<lparr>rx_Version = 1, rx_AcceptedAtUnix = 1700000000, rx_Evidence = ex_refs,
     rx_TargetFingerprint = resetRequestFingerprint ''pep'' ex_reset_normal,
     rx_RequestFingerprint = the_ok [] (resetExecutionRequestFingerprint ''pep'' ex_reset_normal ex_refs),
     rx_Attestations = []\<rparr>"

definition ex_unsigned :: "resetExecutionJournal \<Rightarrow> string \<Rightarrow> string \<Rightarrow> int \<Rightarrow> resetExecutionAttestation" where
  "ex_unsigned r phase previous start = \<lparr>at_Phase = phase, at_PreviousSHA = previous,
     at_StartedAt = \<lparr>gt_instant = of_unix start, gt_offset = 0\<rparr>,
     at_CompletedAt = \<lparr>gt_instant = of_unix (start + 5), gt_offset = 0\<rparr>,
     at_Snapshot = \<lparr>sn_ObservedAt = \<lparr>gt_instant = of_unix (start + 1), gt_offset = 0\<rparr>, sn_ServerID = ''pep'',
       sn_OperationID = ex_opid, sn_TargetFingerprint = rx_TargetFingerprint r,
       sn_PublicationState = ''VERIFYING'', sn_PublicationRevision = ''12'',
       sn_WriterFreezeReceiptSHA = replicate 64 CHR ''e'', sn_WriterFreezeHeld = True\<rparr>,
     at_Space = \<lparr>sp_Device = 1, sp_AvailableBytes = resetDiskReserveBytes, sp_AvailableInodes = 9\<rparr>,
     at_SHA = []\<rparr>"

definition ex_attestation :: "resetExecutionJournal \<Rightarrow> string \<Rightarrow> string \<Rightarrow> int \<Rightarrow> resetExecutionAttestation" where
  "ex_attestation r phase previous start = (ex_unsigned r phase previous start)
     \<lparr>at_SHA := resetExecutionAttestationSHA r (ex_unsigned r phase previous start)\<rparr>"

definition ex_first :: resetExecutionAttestation where
  "ex_first = ex_attestation ex_reset_record_base ''prepared'' [] 1700000001"

definition ex_second :: resetExecutionAttestation where
  "ex_second = ex_attestation ex_reset_record_base ''before-journal'' (at_SHA ex_first) 1700000007"

definition ex_reset_record :: resetExecutionJournal where
  "ex_reset_record = ex_reset_record_base\<lparr>rx_Attestations := [ex_first, ex_second]\<rparr>"

lemma attestation_sha_self [simp]:
  "resetExecutionAttestationSHA r (a\<lparr>at_SHA := x\<rparr>) = resetExecutionAttestationSHA r a"
  "resetExecutionAttestationSHA (r\<lparr>rx_Attestations := as\<rparr>) a = resetExecutionAttestationSHA r a"
  by (simp_all add: resetExecutionAttestationSHA_def attestation_identity_json_def)

lemma ex_attestation_fields:
  "at_Phase (ex_attestation r p q s) = p" "at_PreviousSHA (ex_attestation r p q s) = q"
  "at_StartedAt (ex_attestation r p q s) = \<lparr>gt_instant = of_unix s, gt_offset = 0\<rparr>"
  "at_CompletedAt (ex_attestation r p q s) = \<lparr>gt_instant = of_unix (s + 5), gt_offset = 0\<rparr>"
  "at_Snapshot (ex_attestation r p q s) = at_Snapshot (ex_unsigned r p q s)"
  "at_Space (ex_attestation r p q s) = at_Space (ex_unsigned r p q s)"
  by (simp_all add: ex_attestation_def) (simp_all add: ex_unsigned_def)

lemma ex_attestation_sound:
  assumes "0 \<le> s" and "s < 2 ^ 61"
  shows "attestation_sound (r\<lparr>rx_Attestations := as\<rparr>) ex_opid (ex_attestation r p q s)"
proof -
  have "canonical_revision ''12''" "resetEvidenceSHA (replicate 64 CHR ''e'')" by code_simp+
  moreover have "at_SHA (ex_attestation r p q s) = resetExecutionAttestationSHA r (ex_attestation r p q s)"
    by (simp add: ex_attestation_def)
  moreover have "resetEvidenceSHA (resetExecutionAttestationSHA r (ex_attestation r p q s))"
    by (simp add: resetEvidenceSHA_def resetExecutionAttestationSHA_def sha256_hex_string)
  ultimately show ?thesis unfolding attestation_sound_identity
    by (simp add: attestation_sound_def attestation_ok_def ex_attestation_fields Let_def)
      (use assms in \<open>simp add: ex_unsigned_def of_unix_small go_defs resetPreflightMaxAge_def\<close>)
qed

lemma ex_attestation_linked:
  assumes "0 \<le> s" and "s + 5 \<le> s'" and "s' < 2 ^ 61"
  shows "chain_link (ex_attestation r p q s) (ex_attestation r p' (at_SHA (ex_attestation r p q s)) s')"
  by (simp add: chain_link_def ex_attestation_fields)
    (use assms in \<open>simp add: ex_unsigned_def of_unix_small go_defs\<close>)

lemma ex_reset_record_valid: "validateResetExecutionJournal ex_reset_record ex_opid ex_reset_normal = Inr ()"
proof -
  have "lifecycleJobIDRe ex_opid" "resetEvidenceSHA (ev_ApprovalPlanSHA ex_refs)"
    "resetEvidenceSHA (ev_ExecutionReceiptSHA ex_refs)" "ev_ApprovalPlanSHA ex_refs \<noteq> []" "ev_ExecutionReceiptSHA ex_refs \<noteq> []"
    by code_simp+
  then have "is_ok (resetExecutionRequestFingerprint ''pep'' ex_reset_normal ex_refs)"
    by (simp add: resetExecutionRequestFingerprint_def normalizeResetExecutionEvidenceRefs_def)
  then have fp: "resetExecutionRequestFingerprint ''pep'' ex_reset_normal ex_refs =
      Inr (the_ok [] (resetExecutionRequestFingerprint ''pep'' ex_reset_normal ex_refs))"
    by (auto simp: is_ok_iff the_ok_def)
  have "chain_link ex_first ex_second"
    unfolding ex_first_def ex_second_def by (rule ex_attestation_linked) simp_all
  then have "attestation_chain ex_reset_record ex_opid reset_phases [] (of_unix 1700000000) None [ex_first, ex_second] = Inr ()"
    using ex_attestation_sound unfolding chain_iff
    by (simp add: ex_reset_record_def ex_first_def ex_second_def)
      (simp add: ex_attestation_fields reset_phases_def of_unix_small go_defs)
  then show ?thesis
    using fp \<open>lifecycleJobIDRe ex_opid\<close> \<open>ev_ApprovalPlanSHA ex_refs \<noteq> []\<close> \<open>ev_ExecutionReceiptSHA ex_refs \<noteq> []\<close>
    unfolding validated_journal_iff by (simp add: ex_reset_record_def ex_reset_record_base_def)
qed

theorem execution_record_chain_witness:
  "chained [ex_first, ex_second] \<and>
   validateResetExecutionJournal (ex_reset_record\<lparr>rx_Attestations := [ex_first]\<rparr>) ex_opid ex_reset_normal = Inr ()"
proof -
  have as: "rx_Attestations ex_reset_record = [ex_first, ex_second]" by (simp add: ex_reset_record_def)
  have "\<forall>n>0. validateResetExecutionJournal (ex_reset_record\<lparr>rx_Attestations := take n [ex_first, ex_second]\<rparr>) ex_opid
      ex_reset_normal = Inr ()" "chained [ex_first, ex_second]"
    using execution_record_chain[OF ex_reset_record_valid] unfolding as by blast+
  from this(1)[rule_format, of 1] this(2) show ?thesis by simp
qed

end
