(* ===== verification/Journal.thy ===== *)
theory Journal
  imports ResetJournal Lifecycle RegistrySystem
begin

text \<open>
  The lifecycle journal of main.go: the file that names the mutation in progress, so that a
  restart can repair it, with its fence in the coordinator. A journal file is the decoded
  document, or undecodable; writing it replaces invalid UTF-8 in the values of a reset
  target, the only free texts of a document, as \<open>json.Marshal\<close> does. The theory also holds
  the state of the whole deployer, which the handlers of the later theories change.
\<close>

section \<open>Documents\<close>

record webGameDeployTarget =
  wt_Tag :: string
  wt_Digest :: string
  wt_ExpectedWebGameTag :: string
  wt_ExpectedWorldID :: int
  wt_ExpectedGeneration :: int

record lifecycleJournal =
  lj_Version :: int
  lj_Operation :: string
  lj_OperationID :: string
  lj_OperationKind :: lifecycleKind
  lj_Stage :: string
  lj_ServerID :: string
  lj_Project :: string
  lj_ResetTarget :: "resetLifecycleTarget option"
  lj_ResetExecution :: "resetExecutionJournal option"
  lj_WebGameTarget :: "webGameDeployTarget option"

datatype journal_file = JournalDoc lifecycleJournal | JournalBad

definition coerce_utf8 :: "string \<Rightarrow> string" where
  "coerce_utf8 s = concat (map utf8_encode (runes s))"

definition coerced_target :: "resetLifecycleTarget \<Rightarrow> resetLifecycleTarget" where
  "coerced_target t = t\<lparr>rt_Updates := gm_map (\<lambda>k v. coerce_utf8 v) (rt_Updates t)\<rparr>"

definition journal_doc :: "lifecycleJournal \<Rightarrow> journal_file" where
  "journal_doc j = JournalDoc (j\<lparr>lj_ResetTarget := map_option coerced_target (lj_ResetTarget j)\<rparr>)"

definition lifecycleJournalVersion :: int where "lifecycleJournalVersion = 1"
definition lifecycleJournalStagePrepared :: string where "lifecycleJournalStagePrepared = ''prepared''"
definition lifecycleJournalStageEnv :: string where "lifecycleJournalStageEnv = ''env-updated''"
definition lifecycleJournalStageRegistry :: string where "lifecycleJournalStageRegistry = ''registry-synced''"
definition lifecycleJournalStageDown :: string where "lifecycleJournalStageDown = ''down-pending''"

lemmas journal_consts [go_defs] = lifecycleJournalVersion_def lifecycleJournalStagePrepared_def
  lifecycleJournalStageEnv_def lifecycleJournalStageRegistry_def lifecycleJournalStageDown_def

definition isLifecycleJournalOperation :: "string \<Rightarrow> bool" where
  "isLifecycleJournalOperation operation \<longleftrightarrow>
     operation \<in> set [''create'', ''delete'', ''deploy'', ''deploy-web'', ''patch'', ''reset'']"

definition isLifecycleJournalStage :: "string \<Rightarrow> bool" where
  "isLifecycleJournalStage stage \<longleftrightarrow>
     stage \<in> set [[], lifecycleJournalStagePrepared, lifecycleJournalStageEnv, lifecycleJournalStageRegistry,
                 lifecycleJournalStageDown]"

definition validateLifecycleJournalOperationLink :: "string \<Rightarrow> string \<Rightarrow> lifecycleKind \<Rightarrow> unit result" where
  "validateLifecycleJournalOperationLink operation operationID kind =
     (let want = (if operation = ''create'' then KindCreate else if operation = ''delete'' then KindClose
                  else if operation = ''reset'' then KindReset else KindNone)
      in if operationID = [] \<and> kind = KindNone then Inr ()
         else if \<not> lifecycleJobIDRe operationID then Inl (Err ''lifecycle journal operation id is invalid'')
         else if want = KindNone \<or> kind \<noteq> want then Inl (Err ''lifecycle journal operation kind is invalid'')
         else Inr ())"

definition in_int32 :: "int \<Rightarrow> bool" where
  "in_int32 i \<longleftrightarrow> 0 < i \<and> i \<le> 2147483647"

definition validateWebGameDeployTarget :: "webGameDeployTarget option \<Rightarrow> unit result" where
  "validateWebGameDeployTarget target =
     require (case target of
         None \<Rightarrow> False
       | Some t \<Rightarrow> in_int32 (wt_ExpectedWorldID t) \<and> in_int32 (wt_ExpectedGeneration t) \<and> gitSHA40 (wt_Tag t) \<and>
           webGameDigestRE (wt_Digest t) \<and>
           (tagRe (wt_ExpectedWebGameTag t) \<or> webGamePinnedTagRE (wt_ExpectedWebGameTag t)))
       ''web deployment requires a commit SHA, sha256 digest and expected current web pin''"

definition validateJournalWebGameTarget :: "string \<Rightarrow> webGameDeployTarget option \<Rightarrow> unit result" where
  "validateJournalWebGameTarget operation target =
     (if operation = ''deploy-web'' then validateWebGameDeployTarget target
      else require (target = None) ''only a web deployment journal can carry a web target'')"

definition validateLifecycleResetExecution :: "lifecycleJournal \<Rightarrow> unit result" where
  "validateLifecycleResetExecution j =
     (case lj_ResetExecution j of
        None \<Rightarrow> Inr ()
      | Some x \<Rightarrow>
          (case lj_ResetTarget j of
             None \<Rightarrow> Inl ErrResetExecutionEvidence
           | Some t \<Rightarrow>
               if lj_Operation j \<noteq> ''reset'' \<or> lj_OperationKind j \<noteq> KindReset \<or> lj_ServerID j \<noteq> ''pep'' \<or>
                  rt_ScenarioCode t \<noteq> ''scenario_3190'' \<or> length (rx_Attestations x) < 2
               then Inl ErrResetExecutionEvidence
               else if lj_Stage j = lifecycleJournalStageDown \<and> length (rx_Attestations x) \<noteq> 3
               then Inl ErrResetExecutionEvidence
               else validateResetExecutionJournal x (lj_OperationID j) t))"

section \<open>The state of the deployer\<close>

text \<open>
  The op store with the coordinator and its jobs, the env files, and the journal file. The
  coordinator's view of the journal file is brought up to date after each change of it.
\<close>

record site =
  si_world :: world
  si_env :: "string files"
  si_journal :: "journal_file files"

abbreviation site_coord :: "site \<Rightarrow> coord" where
  "site_coord s \<equiv> wd_coord (si_world s)"

abbreviation journal_path :: "site \<Rightarrow> string" where
  "journal_path s \<equiv> co_journalPath (site_coord s)"

definition on_coord :: "(coord \<Rightarrow> coord) \<Rightarrow> site \<Rightarrow> site" where
  "on_coord f s = s\<lparr>si_world := map_coord f (si_world s)\<rparr>"

definition put_journal :: "journal_file files \<Rightarrow> site \<Rightarrow> site" where
  "put_journal fs s = on_coord
     (\<lambda>c. c\<lparr>co_present := (co_present c)(co_journalPath c := (fs (co_journalPath c) \<noteq> None))\<rparr>)
     (s\<lparr>si_journal := fs\<rparr>)"

section \<open>Writing, reading and clearing\<close>

text \<open>The answers of one write: whether the directory can be made, and those of the write.\<close>

type_synonym write_env = "bool \<times> answers"

definition writeLifecycleJournalRecord :: "lifecycleJournal \<Rightarrow> write_env \<Rightarrow> (site, unit) operation" where
  "writeLifecycleJournalRecord j e s =
     (if nativeMutationBlocked (site_coord s) then (Inl ErrMaintenanceClosed, s)
      else case validateLifecycleResetExecution j of
        Inl err \<Rightarrow> (Inl err, s)
      | Inr _ \<Rightarrow>
          if \<not> fst e then (Inl (ErrIO ''mkdirAll''), s)
          else let w = writeFileAtomicDurable (journal_path s) (journal_doc j) (snd e) (si_journal s)
               in (no_error (w_err w), put_journal (w_fs w) s))"

definition writeLifecycleJournalWithResetTarget ::
    "string \<Rightarrow> serverTarget \<Rightarrow> resetLifecycleTarget option \<Rightarrow> string \<Rightarrow> lifecycleKind \<Rightarrow>
     webGameDeployTarget option \<Rightarrow> write_env \<Rightarrow> (site, unit) operation" where
  "writeLifecycleJournalWithResetTarget operation target resetTarget operationID kind webTarget e s =
     (if journal_path s = [] then (Inl (Err ''lifecycle journal path is unavailable''), s)
      else if si_journal s (journal_path s) \<noteq> None
      then (Inl (Err ''lifecycle recovery journal is already present''), s)
      else if \<not> isLifecycleJournalOperation operation
      then (Inl (Err ''unsupported lifecycle journal operation''), s)
      else if operation \<noteq> ''reset'' \<and> resetTarget \<noteq> None
      then (Inl (Err ''only reset journals can carry a reset target''), s)
      else case bind_r (validateJournalWebGameTarget operation webTarget)
                  (\<lambda>_. validateLifecycleJournalOperationLink operation operationID kind) of
        Inl err \<Rightarrow> (Inl err, s)
      | Inr _ \<Rightarrow> bind_op
          (writeLifecycleJournalRecord
            \<lparr>lj_Version = lifecycleJournalVersion, lj_Operation = operation, lj_OperationID = operationID,
             lj_OperationKind = kind, lj_Stage = lifecycleJournalStagePrepared, lj_ServerID = tg_ID target,
             lj_Project = tg_Project target, lj_ResetTarget = resetTarget, lj_ResetExecution = None,
             lj_WebGameTarget = webTarget\<rparr> e)
          (\<lambda>_ s'. (Inr (), on_coord markLifecycleJournalPending s')) s)"

definition writeLifecycleJournal :: "string \<Rightarrow> serverTarget \<Rightarrow> write_env \<Rightarrow> (site, unit) operation" where
  "writeLifecycleJournal operation target =
     writeLifecycleJournalWithResetTarget operation target None [] KindNone None"

definition writeLinkedLifecycleJournal ::
    "string \<Rightarrow> serverTarget \<Rightarrow> string \<Rightarrow> lifecycleKind \<Rightarrow> write_env \<Rightarrow> (site, unit) operation" where
  "writeLinkedLifecycleJournal operation target operationID kind =
     writeLifecycleJournalWithResetTarget operation target None operationID kind None"

definition writeLinkedResetLifecycleJournal ::
    "serverTarget \<Rightarrow> resetLifecycleTarget \<Rightarrow> string \<Rightarrow> lifecycleKind \<Rightarrow> write_env \<Rightarrow> (site, unit) operation" where
  "writeLinkedResetLifecycleJournal target resetTarget operationID kind e s =
     (case normalizeResetLifecycleTarget resetTarget of
        Inl err \<Rightarrow> (Inl err, s)
      | Inr normalized \<Rightarrow>
          writeLifecycleJournalWithResetTarget ''reset'' target (Some normalized) operationID kind None e s)"

definition writeResetLifecycleJournal ::
    "serverTarget \<Rightarrow> resetLifecycleTarget \<Rightarrow> write_env \<Rightarrow> (site, unit) operation" where
  "writeResetLifecycleJournal target resetTarget = writeLinkedResetLifecycleJournal target resetTarget [] KindNone"

text \<open>What a decoded document must satisfy, with the reset target normalised.\<close>

definition check_journal :: "config \<Rightarrow> lifecycleJournal \<Rightarrow> lifecycleJournal result" where
  "check_journal cfg j =
     (if lj_Version j \<noteq> lifecycleJournalVersion \<or> \<not> isLifecycleJournalOperation (lj_Operation j) \<or>
         \<not> isLifecycleJournalStage (lj_Stage j)
      then Inl (Err ''lifecycle journal is invalid'')
      else bind_r (validateJournalWebGameTarget (lj_Operation j) (lj_WebGameTarget j)) (\<lambda>_.
        bind_r (validateLifecycleJournalOperationLink (lj_Operation j) (lj_OperationID j) (lj_OperationKind j)) (\<lambda>_.
        case serverTargetForID cfg (lj_ServerID j) of
          Inl err \<Rightarrow> Inl (Err ''lifecycle journal target is invalid'')
        | Inr target \<Rightarrow>
            if tg_Project target \<noteq> lj_Project j then Inl (Err ''lifecycle journal target is invalid'')
            else if lj_Operation j \<noteq> ''reset'' \<and> lj_ResetTarget j \<noteq> None
            then Inl (Err ''lifecycle journal has an invalid reset target'')
            else bind_r (case lj_ResetTarget j of
                None \<Rightarrow> Inr None
              | Some t \<Rightarrow> map_sum id Some (normalizeResetLifecycleJournalTarget t)) (\<lambda>normalized.
              let j' = j\<lparr>lj_ServerID := tg_ID target, lj_Project := tg_Project target,
                         lj_ResetTarget := normalized\<rparr>
              in bind_r (validateLifecycleResetExecution j') (\<lambda>_. Inr j')))))"

definition read_journal_at :: "config \<Rightarrow> string \<Rightarrow> journal_file files \<Rightarrow> lifecycleJournal option result" where
  "read_journal_at cfg path fs =
     (if path = [] then Inl (Err ''lifecycle journal path is unavailable'')
      else if fs path = None then Inr None
      else case data_at fs path of
        None \<Rightarrow> Inl (ErrIO ''read'')
      | Some JournalBad \<Rightarrow> Inl (Err ''lifecycle journal does not parse'')
      | Some (JournalDoc j) \<Rightarrow> map_sum id Some (check_journal cfg j))"

definition readLifecycleJournal :: "config \<Rightarrow> site \<Rightarrow> lifecycleJournal option result" where
  "readLifecycleJournal cfg s = read_journal_at cfg (journal_path s) (si_journal s)"

definition advanceLifecycleJournal :: "config \<Rightarrow> string \<Rightarrow> write_env \<Rightarrow> (site, unit) operation" where
  "advanceLifecycleJournal cfg stage e s =
     (if \<not> isLifecycleJournalStage stage then (Inl (Err ''unsupported lifecycle journal stage''), s)
      else case readLifecycleJournal cfg s of
        Inl err \<Rightarrow> (Inl err, s)
      | Inr None \<Rightarrow> (Inl (Err ''lifecycle recovery journal is unavailable''), s)
      | Inr (Some j) \<Rightarrow> bind_op (writeLifecycleJournalRecord (j\<lparr>lj_Stage := stage\<rparr>) e)
          (\<lambda>_ s'. (Inr (), on_coord markLifecycleJournalPending s')) s)"

text \<open>The answers of a removal: of the unlink, and of the sync of the directory after it.\<close>

type_synonym remove_env = "bool \<times> bool"

definition clearLifecycleJournal :: "remove_env \<Rightarrow> (site, unit) operation" where
  "clearLifecycleJournal e s =
     (if nativeMutationBlocked (site_coord s) then (Inl ErrMaintenanceClosed, s)
      else if journal_path s = [] then (Inl (Err ''lifecycle journal path is unavailable''), s)
      else if si_journal s (journal_path s) = None then (Inr (), on_coord clearLifecycleJournalPending s)
      else if \<not> fst e then (Inl (ErrIO ''remove''), s)
      else let s' = put_journal ((si_journal s)(journal_path s := None)) s in
        if \<not> snd e then (Inl (ErrIO ''syncDirectory''), s')
        else (Inr (), on_coord clearLifecycleJournalPending s'))"

definition settleSucceededLifecycleJournal :: "config \<Rightarrow> remove_env \<Rightarrow> (site, unit) operation" where
  "settleSucceededLifecycleJournal cfg e s =
     (case readLifecycleJournal cfg s of
        Inl err \<Rightarrow> (Inl err, s)
      | Inr j \<Rightarrow>
          if opt_all (\<lambda>j. lj_ResetExecution j = None) j then clearLifecycleJournal e s
          else (Inl ErrResetExecutionEvidence, s))"

text \<open>
  The end of a claimed durable job with this settlement of the journal: the file is cleared
  only after the transition of a succeeded operation has been confirmed.
\<close>

definition site_clear :: "config \<Rightarrow> remove_env \<Rightarrow> site \<Rightarrow> world \<Rightarrow> bool \<times> world" where
  "site_clear cfg e s w =
     (let (r, s') = settleSucceededLifecycleJournal cfg e (s\<lparr>si_world := w\<rparr>) in (is_ok r, si_world s'))"

definition durable_job_end_site ::
    "config \<Rightarrow> remove_env \<Rightarrow> lease_id \<Rightarrow> string \<Rightarrow> string \<Rightarrow> lifecycleKind \<Rightarrow> bool \<Rightarrow> call_env \<Rightarrow> time \<Rightarrow>
     site \<Rightarrow> site" where
  "durable_job_end_site cfg re l jid opid k failed e now s =
     (let out = work_outcome k failed (lease_cancelled l (si_world s)) (journalOnDisk (site_coord s));
          (err, w1) = transitionDurableLifecycleOperation opid (we_transition out) (we_http out)
                        (we_message out) e (si_world s);
          fs = (if err = None \<and> we_transition out = JobSucceeded
                then si_journal (snd (settleSucceededLifecycleJournal cfg re (s\<lparr>si_world := w1\<rparr>)))
                else si_journal s)
      in s\<lparr>si_world := durable_job_end (site_clear cfg re s) l jid opid k failed e now (si_world s),
           si_journal := fs\<rparr>)"

end
