(* ===== verification/JournalLaws.thy ===== *)
theory JournalLaws
  imports Journal
begin

text \<open>
  The laws of the lifecycle journal: a written journal is read back by this process and by
  the one after a crash, a change of stage changes nothing else, and the fence of the
  coordinator is lifted only when the file is gone. The locale \<open>mutation_journal\<close> is what a
  handler relies on that brackets its work between a journal and its removal.
\<close>

section \<open>The interface\<close>

text \<open>
  A handler writes the journal, works, and clears it. When the work keeps the journal and
  the fence, a failure after the write leaves the fence up; only the clearing lifts it, and
  then no journal is left.
\<close>

locale mutation_journal =
  fixes rd :: "'s \<Rightarrow> 'd option result"
    and fenced :: "'s \<Rightarrow> bool"
    and good :: "'s \<Rightarrow> bool"
    and wr :: "'d \<Rightarrow> 'e \<Rightarrow> ('s, unit) operation"
    and wr_ok :: "'d \<Rightarrow> 'e \<Rightarrow> 's \<Rightarrow> bool"
    and clr :: "'r \<Rightarrow> ('s, unit) operation"
  assumes wr_done: "good s \<Longrightarrow> wr_ok d e s \<Longrightarrow> wr d e s = (Inr (), t) \<Longrightarrow>
      good t \<and> rd t = Inr (Some d) \<and> fenced t"
    and clr_done: "good s \<Longrightarrow> clr r s = (Inr (), t) \<Longrightarrow> rd t = Inr None"
    and clr_stopped: "good s \<Longrightarrow> clr r s = (Inl x, t) \<Longrightarrow> fenced t = fenced s"
begin

definition covered :: "('d \<Rightarrow> bool) \<Rightarrow> 's \<Rightarrow> bool" where
  "covered J s \<longleftrightarrow> good s \<and> fenced s \<and> (\<exists>d. rd s = Inr (Some d) \<and> J d)"

lemma written_covers: "good s \<Longrightarrow> wr_ok d e s \<Longrightarrow> wr d e s = (Inr (), t) \<Longrightarrow> J d \<Longrightarrow> covered J t"
  using wr_done unfolding covered_def by blast

lemma bracketed_work:
  assumes "covered J (snd (work s))"
    and "bind_op work (\<lambda>x. bind_op (fail_with f (clr r)) (\<lambda>_. lift_op (\<lambda>_. Inr (g x)))) s = (res, t)"
  shows "(case res of Inl _ \<Rightarrow> fenced t | Inr _ \<Rightarrow> rd t = Inr None)"
  using assms(2)
proof (cases rule: bind_op_cases)
  case (stopped e)
  then show ?thesis using assms(1) by (simp add: covered_def)
next
  case (goes_on x u)
  then have u: "covered J u" using assms(1) by simp
  from goes_on(2) show ?thesis
  proof (cases rule: bind_op_cases)
    case (stopped e)
    then obtain e' where "clr r u = (Inl e', t)" by (auto simp: fail_with_failed)
    then show ?thesis using clr_stopped u stopped(2) by (auto simp: covered_def)
  next
    case (goes_on y v)
    then have "clr r u = (Inr (), v)" by (simp add: fail_with_ok)
    then show ?thesis using clr_done u goes_on(2) by (auto simp: covered_def lift_op_def)
  qed
qed

end

section \<open>Files\<close>

lemma durable_data: "ans_tmp a \<noteq> path \<Longrightarrow>
    data_at (w_fs (writeFileAtomicDurable path d a fs)) path =
      (if w_committed (writeFileAtomicDurable path d a fs) then Some d else data_at fs path)"
  by (rule durable_writer.data_after)

lemma durable_done: "w_err (writeFileAtomicDurable path d a fs) = None \<Longrightarrow> ans_tmp a \<noteq> path \<Longrightarrow>
    data_at (w_fs (writeFileAtomicDurable path d a fs)) path = Some d"
  using durable_writer.success_committed durable_data by metis

lemma data_present: "data_at fs p = Some d \<Longrightarrow> fs p \<noteq> None"
  by (auto simp: data_at_def split: option.splits)

lemma coord_on_coord [simp]: "site_coord (on_coord f s) = f (site_coord s)"
  "si_env (on_coord f s) = si_env s" "si_journal (on_coord f s) = si_journal s"
  "wd_store (si_world (on_coord f s)) = wd_store (si_world s)"
  "wd_files (si_world (on_coord f s)) = wd_files (si_world s)"
  by (simp_all add: on_coord_def map_coord_def)

lemma put_journal_simps [simp]:
  "si_journal (put_journal fs s) = fs" "si_env (put_journal fs s) = si_env s"
  "site_coord (put_journal fs s) = (site_coord s)\<lparr>co_present := (co_present (site_coord s))
     (journal_path s := (fs (journal_path s) \<noteq> None))\<rparr>"
  "wd_store (si_world (put_journal fs s)) = wd_store (si_world s)"
  "wd_files (si_world (put_journal fs s)) = wd_files (si_world s)"
  by (simp_all add: put_journal_def on_coord_def map_coord_def)

lemma pending_simps [simp]:
  "co_journalPath (markLifecycleJournalPending c) = co_journalPath c"
  "co_journalPending (markLifecycleJournalPending c)"
  "co_journalPath (clearLifecycleJournalPending c) = co_journalPath c"
  "\<not> co_journalPending (clearLifecycleJournalPending c)"
  by (simp_all add: markLifecycleJournalPending_def clearLifecycleJournalPending_def Let_def)

section \<open>Journals that read back\<close>

definition target_utf8 :: "resetLifecycleTarget \<Rightarrow> bool" where
  "target_utf8 t \<longleftrightarrow> list_all (\<lambda>(k, v). valid_utf8 v) (rt_Updates t)"

text \<open>A document that the reader accepts as it is.\<close>

definition journal_normal :: "config \<Rightarrow> lifecycleJournal \<Rightarrow> bool" where
  "journal_normal cfg j \<longleftrightarrow> check_journal cfg j = Inr j \<and> opt_all target_utf8 (lj_ResetTarget j)"

lemma coerced_valid: "target_utf8 t \<Longrightarrow> coerced_target t = t"
  by (cases t) (auto simp: target_utf8_def coerced_target_def gm_map_def coerce_utf8_def valid_utf8_def
      list_all_iff intro!: map_idI)

lemma journal_doc_normal: "opt_all target_utf8 (lj_ResetTarget j) \<Longrightarrow> journal_doc j = JournalDoc j"
  by (cases j; cases "lj_ResetTarget j") (auto simp: journal_doc_def coerced_valid)

lemma read_normal:
  assumes "journal_normal cfg j" and "data_at fs path = Some (journal_doc j)" and "path \<noteq> []"
  shows "read_journal_at cfg path fs = Inr (Some j)"
  using assms data_present[OF assms(2)]
  by (simp add: read_journal_at_def journal_normal_def journal_doc_normal)

lemma journal_target_fixed: "reset_target_ok t \<Longrightarrow> normalizeResetLifecycleJournalTarget t = Inr t"
  using normal_target_fixed[of t]
  by (auto simp: normalizeResetLifecycleJournalTarget_def reset_target_ok_def images_ok_def hasResetImagePins_def
      split: if_splits)

text \<open>The document a handler writes is of this kind.\<close>

lemma new_journal_normal:
  assumes "isLifecycleJournalOperation operation" and "canonical_id sid"
    and "opt_all (\<lambda>t. reset_target_ok t \<and> target_utf8 t) rt" and "operation \<noteq> ''reset'' \<longrightarrow> rt = None"
    and "validateJournalWebGameTarget operation web = Inr ()"
    and "validateLifecycleJournalOperationLink operation opid k = Inr ()"
  shows "journal_normal cfg \<lparr>lj_Version = 1, lj_Operation = operation, lj_OperationID = opid, lj_OperationKind = k,
    lj_Stage = ''prepared'', lj_ServerID = sid, lj_Project = projectForServerID sid, lj_ResetTarget = rt,
    lj_ResetExecution = None, lj_WebGameTarget = web\<rparr>"
proof -
  have "isLifecycleJournalStage ''prepared''" by code_simp
  then show ?thesis using assms target_for_canonical[OF assms(2), of cfg]
    by (cases rt) (auto simp: journal_normal_def check_journal_def validateLifecycleResetExecution_def
        lifecycleJournalVersion_def target_of_def journal_target_fixed Let_def)
qed

section \<open>Writing\<close>

lemma write_record_done:
  assumes "writeLifecycleJournalRecord j e s = (Inr u, t)" and "ans_tmp (snd e) \<noteq> journal_path s"
  shows "data_at (si_journal t) (journal_path t) = Some (journal_doc j)" and "journal_path t = journal_path s"
    and "si_env t = si_env s" and "\<not> nativeMutationBlocked (site_coord s)"
    and "validateLifecycleResetExecution j = Inr ()"
    and "site_coord t = (site_coord s)\<lparr>co_present := (co_present (site_coord s))(journal_path s := True)\<rparr>"
proof -
  let ?w = "writeFileAtomicDurable (journal_path s) (journal_doc j) (snd e) (si_journal s)"
  have t: "t = put_journal (w_fs ?w) s" and err: "w_err ?w = None"
    and g: "\<not> nativeMutationBlocked (site_coord s)" "validateLifecycleResetExecution j = Inr ()"
    using assms(1) by (auto simp: writeLifecycleJournalRecord_def Let_def split: if_splits sum.splits)
  have d: "data_at (w_fs ?w) (journal_path s) = Some (journal_doc j)" by (rule durable_done[OF err assms(2)])
  then show "data_at (si_journal t) (journal_path t) = Some (journal_doc j)" by (simp add: t)
  show "site_coord t = (site_coord s)\<lparr>co_present := (co_present (site_coord s))(journal_path s := True)\<rparr>"
    using data_present[OF d] by (simp add: t)
  show "journal_path t = journal_path s" "si_env t = si_env s" by (simp_all add: t)
  show "\<not> nativeMutationBlocked (site_coord s)" "validateLifecycleResetExecution j = Inr ()" by (rule g)+
qed

lemma write_record_stopped:
  assumes "writeLifecycleJournalRecord j e s = (Inl x, t)" and "ans_tmp (snd e) \<noteq> journal_path s"
  shows "data_at (si_journal t) (journal_path s) \<in> {data_at (si_journal s) (journal_path s), Some (journal_doc j)}"
    and "co_journalPending (site_coord t) = co_journalPending (site_coord s)"
    and "journal_path t = journal_path s" and "si_env t = si_env s"
  using assms(1) durable_data[OF assms(2), of "journal_doc j" "si_journal s"]
  by (auto simp: writeLifecycleJournalRecord_def Let_def split: if_splits sum.splits)

text \<open>
  C23. A written journal is read back, by this process and by the one after a crash. When the
  write of a journal for a canonical server succeeds, the reader returns exactly its document
  at the first stage, the fence is up, and a coordinator started on these files is closed
  behind it. While it is being written, a crash leaves a file that reads as before, or as
  this document.
\<close>

theorem journal_read_back:
  assumes "writeLifecycleJournalWithResetTarget operation (target_of cfg sid) rt opid k web e s = (Inr u, t)"
    and "canonical_id sid" and "opt_all (\<lambda>t. reset_target_ok t \<and> target_utf8 t) rt"
    and "ans_tmp (snd e) \<noteq> journal_path s"
  shows "\<exists>j. j = \<lparr>lj_Version = 1, lj_Operation = operation, lj_OperationID = opid, lj_OperationKind = k,
      lj_Stage = ''prepared'', lj_ServerID = sid, lj_Project = projectForServerID sid, lj_ResetTarget = rt,
      lj_ResetExecution = None, lj_WebGameTarget = web\<rparr> \<and>
    readLifecycleJournal cfg t = Inr (Some j) \<and> co_journalPending (site_coord t) \<and>
    co_closed (newOperationCoordinator (co_markerPath (site_coord t)) (journal_path t) None (co_present (site_coord t))) \<and>
    (\<forall>g\<in>set (w_trace (writeFileAtomicDurable (journal_path s) (journal_doc j) (snd e) (si_journal s))).
      data_at g (journal_path s) = None \<or> read_journal_at cfg (journal_path s) g = Inr (Some j))"
proof -
  let ?j = "\<lparr>lj_Version = 1, lj_Operation = operation, lj_OperationID = opid, lj_OperationKind = k,
      lj_Stage = ''prepared'', lj_ServerID = sid, lj_Project = projectForServerID sid, lj_ResetTarget = rt,
      lj_ResetExecution = None, lj_WebGameTarget = web\<rparr>"
  have checks: "journal_path s \<noteq> []" "si_journal s (journal_path s) = None" "isLifecycleJournalOperation operation"
    "operation \<noteq> ''reset'' \<longrightarrow> rt = None"
    and v: "bind_r (validateJournalWebGameTarget operation web)
      (\<lambda>_. validateLifecycleJournalOperationLink operation opid k) = Inr ()"
    and w: "bind_op (writeLifecycleJournalRecord ?j e) (\<lambda>_ s'. (Inr (), on_coord markLifecycleJournalPending s')) s
      = (Inr u, t)"
    using assms(1) unfolding writeLifecycleJournalWithResetTarget_def
    by (auto simp: target_of_def journal_consts split: if_split_asm sum.split_asm)
  then have v': "validateJournalWebGameTarget operation web = Inr ()"
    "validateLifecycleJournalOperationLink operation opid k = Inr ()"
    by (auto simp: bind_r_ok)
  obtain s1 where s1: "writeLifecycleJournalRecord ?j e s = (Inr (), s1)" and t: "t = on_coord markLifecycleJournalPending s1"
    using w by (auto simp: bind_op_ok)
  note wr = write_record_done[OF s1 assms(4)]
  have n: "journal_normal cfg ?j" by (rule new_journal_normal[OF checks(3) assms(2,3) checks(4) v'])
  have "readLifecycleJournal cfg t = Inr (Some ?j)"
    unfolding readLifecycleJournal_def t using read_normal[OF n wr(1)] wr(2) checks(1) by simp
  moreover have "co_present (site_coord t) (journal_path t)"
    using wr(6) by (simp add: t markLifecycleJournalPending_def Let_def)
  then have "co_closed (newOperationCoordinator (co_markerPath (site_coord t)) (journal_path t) None (co_present (site_coord t)))"
    using checks(1) wr(2) by (simp add: newOperationCoordinator_def Let_def stateFilePresent_def t)
  moreover have "data_at g (journal_path s) = None \<or> read_journal_at cfg (journal_path s) g = Inr (Some ?j)"
    if "g \<in> set (w_trace (writeFileAtomicDurable (journal_path s) (journal_doc ?j) (snd e) (si_journal s)))" for g
    using durable_writer.trace_data[OF assms(4) that] read_normal[OF n _ checks(1)] checks(2)
    by (auto simp: data_at_def)
  ultimately show ?thesis by (auto simp: t)
qed


section \<open>A state for the examples\<close>

definition ex_site_coord :: coord where
  "ex_site_coord = newOperationCoordinator ''/m'' ''/j'' None (\<lambda>_. False)"

definition ex_site :: "string files \<Rightarrow> site" where
  "ex_site env = \<lparr>si_world = \<lparr>wd_store = None, wd_files = (\<lambda>_. None), wd_coord = ex_site_coord\<rparr>,
     si_env = env, si_journal = (\<lambda>_. None)\<rparr>"

lemma ex_site_simps [simp]:
  "journal_path (ex_site env) = ''/j''" "si_env (ex_site env) = env" "si_journal (ex_site env) = (\<lambda>_. None)"
  "co_gate (site_coord (ex_site env)) = None" "\<not> co_journalPending (site_coord (ex_site env))"
  by (simp_all add: ex_site_def ex_site_coord_def newOperationCoordinator_def stateFilePresent_def)

definition journal_well :: write_env where
  "journal_well = (True, all_well ''/t'')"

lemma well_write: "w_err (writeFileAtomicDurable ''/j'' d (all_well ''/t'') (\<lambda>_. None)) = None"
  by (simp add: writeFileAtomicDurable_def writeFileAtomicWithDurabilityResult_def writer_simps all_well_def
      atomicWriteAttrs_def)

lemma ex_patch_journal:
  "\<exists>t. writeLifecycleJournalWithResetTarget ''patch'' (target_of ex_config ''pep1'') None [] KindNone None journal_well
     (ex_site env) = (Inr (), t)"
proof -
  have "isLifecycleJournalOperation ''patch''" by code_simp
  then show ?thesis
    by (simp add: writeLifecycleJournalWithResetTarget_def validateJournalWebGameTarget_def
        validateLifecycleJournalOperationLink_def Let_def require_def writeLifecycleJournalRecord_def bind_op_def
        nativeMutationBlocked_def validateLifecycleResetExecution_def journal_well_def well_write no_error_def)
qed

theorem journal_read_back_witness:
  "\<exists>t. readLifecycleJournal ex_config t = Inr (Some \<lparr>lj_Version = 1, lj_Operation = ''patch'', lj_OperationID = [],
     lj_OperationKind = KindNone, lj_Stage = ''prepared'', lj_ServerID = ''pep1'', lj_Project = ''opensamguk-spep1'',
     lj_ResetTarget = None, lj_ResetExecution = None, lj_WebGameTarget = None\<rparr>) \<and> co_journalPending (site_coord t)"
proof -
  obtain t where t: "writeLifecycleJournalWithResetTarget ''patch'' (target_of ex_config ''pep1'') None [] KindNone None
      journal_well (ex_site (\<lambda>_. None)) = (Inr (), t)" using ex_patch_journal by blast
  have id: "canonical_id ''pep1''" by code_simp
  have "opt_all (\<lambda>t. reset_target_ok t \<and> target_utf8 t) None"
    "ans_tmp (snd journal_well) \<noteq> journal_path (ex_site (\<lambda>_. None))"
    by (simp_all add: journal_well_def all_well_def)
  from journal_read_back[OF t id this] show ?thesis
    by (auto simp: projectForServerID_def internalServerKey_def)
qed

section \<open>Stages\<close>

lemma check_stage:
  assumes "check_journal cfg j = Inr j" and "isLifecycleJournalStage stage"
    and "validateLifecycleResetExecution (j\<lparr>lj_Stage := stage\<rparr>) = Inr ()"
  shows "check_journal cfg (j\<lparr>lj_Stage := stage\<rparr>) = Inr (j\<lparr>lj_Stage := stage\<rparr>)"
proof -
  obtain tgt normalized where c: "lj_Version j = lifecycleJournalVersion" "isLifecycleJournalOperation (lj_Operation j)"
    "validateJournalWebGameTarget (lj_Operation j) (lj_WebGameTarget j) = Inr ()"
    "validateLifecycleJournalOperationLink (lj_Operation j) (lj_OperationID j) (lj_OperationKind j) = Inr ()"
    "serverTargetForID cfg (lj_ServerID j) = Inr tgt" "tg_Project tgt = lj_Project j"
    "\<not> (lj_Operation j \<noteq> ''reset'' \<and> lj_ResetTarget j \<noteq> None)"
    "(case lj_ResetTarget j of None \<Rightarrow> Inr None
      | Some t \<Rightarrow> map_sum id Some (normalizeResetLifecycleJournalTarget t)) = Inr normalized"
    and j: "j\<lparr>lj_ServerID := tg_ID tgt, lj_Project := tg_Project tgt, lj_ResetTarget := normalized\<rparr> = j"
    using assms(1) unfolding check_journal_def
    by (auto simp: bind_r_ok Let_def split: if_split_asm sum.split_asm)
  have f: "tg_ID tgt = lj_ServerID j" "normalized = lj_ResetTarget j"
    using arg_cong[OF j, of lj_ServerID] arg_cong[OF j, of lj_ResetTarget] by simp_all
  then have "j\<lparr>lj_Stage := stage, lj_ServerID := tg_ID tgt, lj_Project := tg_Project tgt, lj_ResetTarget := normalized\<rparr> =
      j\<lparr>lj_Stage := stage\<rparr>" using c(6) by (cases j) simp
  then show ?thesis using c assms(2,3) by (simp add: check_journal_def)
qed

lemma advance_done:
  assumes "advanceLifecycleJournal cfg stage e s = (Inr u, t)"
    and "readLifecycleJournal cfg s = Inr (Some j)" and "journal_normal cfg j"
    and "ans_tmp (snd e) \<noteq> journal_path s"
  shows "readLifecycleJournal cfg t = Inr (Some (j\<lparr>lj_Stage := stage\<rparr>)) \<and> journal_normal cfg (j\<lparr>lj_Stage := stage\<rparr>) \<and>
    co_journalPending (site_coord t) \<and> journal_path t = journal_path s \<and> si_env t = si_env s"
proof -
  obtain s1 where s1: "writeLifecycleJournalRecord (j\<lparr>lj_Stage := stage\<rparr>) e s = (Inr (), s1)"
    and t: "t = on_coord markLifecycleJournalPending s1" and st: "isLifecycleJournalStage stage"
    using assms(1,2) by (auto simp: advanceLifecycleJournal_def bind_op_ok split: if_splits)
  have p: "journal_path s \<noteq> []"
    using assms(2) by (auto simp: readLifecycleJournal_def read_journal_at_def)
  note wr = write_record_done[OF s1 assms(4)]
  have n: "journal_normal cfg (j\<lparr>lj_Stage := stage\<rparr>)"
    using check_stage[OF _ st wr(5)] assms(3) by (simp add: journal_normal_def)
  show ?thesis using read_normal[OF n wr(1)] p wr(2,3) n by (simp add: t readLifecycleJournal_def)
qed

lemma advance_stopped:
  assumes "advanceLifecycleJournal cfg stage e s = (Inl x, t)" and "journal_normal cfg j"
    and "readLifecycleJournal cfg s = Inr (Some j)" and "data_at (si_journal s) (journal_path s) = Some (journal_doc j)"
    and "ans_tmp (snd e) \<noteq> journal_path s"
  shows "\<exists>st. readLifecycleJournal cfg t = Inr (Some (j\<lparr>lj_Stage := st\<rparr>)) \<and> journal_normal cfg (j\<lparr>lj_Stage := st\<rparr>) \<and>
    data_at (si_journal t) (journal_path t) = Some (journal_doc (j\<lparr>lj_Stage := st\<rparr>)) \<and>
    co_journalPending (site_coord t) = co_journalPending (site_coord s) \<and> si_env t = si_env s \<and>
    journal_path t = journal_path s"
proof -
  have p: "journal_path s \<noteq> []" using assms(3) by (auto simp: readLifecycleJournal_def read_journal_at_def)
  consider (same) "t = s" | (wrote) r where "writeLifecycleJournalRecord (j\<lparr>lj_Stage := stage\<rparr>) e s = (Inl r, t)"
    "validateLifecycleResetExecution (j\<lparr>lj_Stage := stage\<rparr>) = Inr ()" "isLifecycleJournalStage stage"
  proof (cases "isLifecycleJournalStage stage")
    case False
    then have "t = s" using assms(1) by (simp add: advanceLifecycleJournal_def)
    then show thesis by (rule same)
  next
    case True
    then obtain r where w: "writeLifecycleJournalRecord (j\<lparr>lj_Stage := stage\<rparr>) e s = (Inl r, t)"
      using assms(1,3) by (auto simp: advanceLifecycleJournal_def bind_op_def split: prod.splits sum.splits)
    show thesis
    proof (cases "validateLifecycleResetExecution (j\<lparr>lj_Stage := stage\<rparr>)")
      case (Inl y)
      then have "t = s" using w by (auto simp: writeLifecycleJournalRecord_def split: if_splits)
      then show thesis by (rule same)
    next
      case (Inr y)
      then show thesis using wrote[OF w _ True] by simp
    qed
  qed
  then show ?thesis
  proof cases
    case same
    then show ?thesis using assms(2,3,4) by (intro exI[of _ "lj_Stage j"]) simp
  next
    case wrote
    note wr = write_record_stopped[OF wrote(1) assms(5)]
    have n: "journal_normal cfg (j\<lparr>lj_Stage := stage\<rparr>)"
      using check_stage[OF _ wrote(3,2)] assms(2) by (simp add: journal_normal_def)
    have "data_at (si_journal t) (journal_path s) = Some (journal_doc (j\<lparr>lj_Stage := lj_Stage j\<rparr>)) \<or>
        data_at (si_journal t) (journal_path s) = Some (journal_doc (j\<lparr>lj_Stage := stage\<rparr>))"
      using wr(1) assms(4) by auto
    moreover have "journal_normal cfg (j\<lparr>lj_Stage := lj_Stage j\<rparr>)" using assms(2) by simp
    ultimately obtain st where "journal_normal cfg (j\<lparr>lj_Stage := st\<rparr>)"
      "data_at (si_journal t) (journal_path s) = Some (journal_doc (j\<lparr>lj_Stage := st\<rparr>))"
      using n by blast
    then show ?thesis using read_normal p wr by (auto simp: readLifecycleJournal_def)
  qed
qed

section \<open>Clearing\<close>

lemma journal_cleared:
  "(case clearLifecycleJournal e s of
      (Inl x, t) \<Rightarrow> co_journalPending (site_coord t) = co_journalPending (site_coord s) \<and>
        co_closed (site_coord t) = co_closed (site_coord s)
    | (Inr u, t) \<Rightarrow> readLifecycleJournal cfg t = Inr None \<and> \<not> co_journalPending (site_coord t)) \<and>
   si_env (snd (clearLifecycleJournal e s)) = si_env s \<and>
   wd_files (si_world (snd (clearLifecycleJournal e s))) = wd_files (si_world s)"
  by (auto simp: clearLifecycleJournal_def Let_def readLifecycleJournal_def read_journal_at_def
      clearLifecycleJournalPending_def split: if_splits)


text \<open>
  The fence is lifted only when the journal is gone. A clearing that reports an error
  leaves the fence and the closure of the coordinator as they were, even when the file could
  be removed but the removal not synced; one that reports success leaves no journal to read.
  It never touches an env file or the operation store.
\<close>

theorem journal_clear_lifts_fence_last:
  "(case clearLifecycleJournal e s of
      (Inl x, t) \<Rightarrow> co_journalPending (site_coord t) = co_journalPending (site_coord s) \<and>
        co_closed (site_coord t) = co_closed (site_coord s)
    | (Inr u, t) \<Rightarrow> readLifecycleJournal cfg t = Inr None \<and> \<not> co_journalPending (site_coord t)) \<and>
   si_env (snd (clearLifecycleJournal e s)) = si_env s \<and>
   wd_files (si_world (snd (clearLifecycleJournal e s))) = wd_files (si_world s)"
  by (rule journal_cleared)

section \<open>The journal as a bracket\<close>

text \<open>A document as the argument of the write: only the id and the project of the target are used.\<close>

definition write_new_journal :: "lifecycleJournal \<Rightarrow> write_env \<Rightarrow> (site, unit) operation" where
  "write_new_journal d = writeLifecycleJournalWithResetTarget (lj_Operation d)
     \<lparr>tg_ID = lj_ServerID d, tg_InternalKey = [], tg_Project = lj_Project d, tg_EnvFile = []\<rparr>
     (lj_ResetTarget d) (lj_OperationID d) (lj_OperationKind d) (lj_WebGameTarget d)"

definition new_document :: "config \<Rightarrow> lifecycleJournal \<Rightarrow> write_env \<Rightarrow> site \<Rightarrow> bool" where
  "new_document cfg d e s \<longleftrightarrow> journal_normal cfg d \<and> lj_Version d = 1 \<and> lj_Stage d = ''prepared'' \<and>
     lj_ResetExecution d = None \<and> ans_tmp (snd e) \<noteq> journal_path s"

definition journal_good :: "config \<Rightarrow> site \<Rightarrow> bool" where
  "journal_good cfg s \<longleftrightarrow> (\<forall>d. readLifecycleJournal cfg s = Inr (Some d) \<longrightarrow>
     journal_normal cfg d \<and> data_at (si_journal s) (journal_path s) = Some (journal_doc d))"

lemma write_as_document:
  "writeLifecycleJournalWithResetTarget operation target rt opid k web =
   write_new_journal \<lparr>lj_Version = 1, lj_Operation = operation, lj_OperationID = opid, lj_OperationKind = k,
     lj_Stage = ''prepared'', lj_ServerID = tg_ID target, lj_Project = tg_Project target, lj_ResetTarget = rt,
     lj_ResetExecution = None, lj_WebGameTarget = web\<rparr>"
  by (intro ext) (simp only: write_new_journal_def writeLifecycleJournalWithResetTarget_def
      lifecycleJournal.simps serverTarget.simps)

lemma new_document_written:
  assumes "new_document cfg d e s" and "write_new_journal d e s = (Inr u, t)"
  shows "readLifecycleJournal cfg t = Inr (Some d)" "co_journalPending (site_coord t)"
    "data_at (si_journal t) (journal_path t) = Some (journal_doc d)" "journal_path t = journal_path s" "si_env t = si_env s"
proof -
  have n: "journal_normal cfg d" "lj_Version d = 1" "lj_Stage d = ''prepared''" "lj_ResetExecution d = None"
    "ans_tmp (snd e) \<noteq> journal_path s" using assms(1) by (simp_all add: new_document_def)
  have d: "\<lparr>lj_Version = lifecycleJournalVersion, lj_Operation = lj_Operation d, lj_OperationID = lj_OperationID d,
      lj_OperationKind = lj_OperationKind d, lj_Stage = lifecycleJournalStagePrepared, lj_ServerID = lj_ServerID d,
      lj_Project = lj_Project d, lj_ResetTarget = lj_ResetTarget d, lj_ResetExecution = None,
      lj_WebGameTarget = lj_WebGameTarget d\<rparr> = d"
    using n by (cases d) (simp add: journal_consts)
  have p: "journal_path s \<noteq> []"
    and w: "bind_op (writeLifecycleJournalRecord d e) (\<lambda>_ s'. (Inr (), on_coord markLifecycleJournalPending s')) s = (Inr u, t)"
    using assms(2) unfolding write_new_journal_def writeLifecycleJournalWithResetTarget_def serverTarget.simps d
    by (simp_all split: if_split_asm sum.split_asm)
  obtain s1 where s1: "writeLifecycleJournalRecord d e s = (Inr (), s1)" and t: "t = on_coord markLifecycleJournalPending s1"
    using w by (auto simp: bind_op_ok)
  note wr = write_record_done[OF s1 n(5)]
  show "readLifecycleJournal cfg t = Inr (Some d)" "co_journalPending (site_coord t)"
    "data_at (si_journal t) (journal_path t) = Some (journal_doc d)" "journal_path t = journal_path s" "si_env t = si_env s"
    using wr(1,2,3) read_normal[OF n(1) wr(1)] p by (simp_all add: t readLifecycleJournal_def)
qed

interpretation lifecycle_journal: mutation_journal "readLifecycleJournal cfg"
  "\<lambda>s. co_journalPending (site_coord s)" "journal_good cfg" write_new_journal "new_document cfg" clearLifecycleJournal
  for cfg
proof unfold_locales
  fix s t d and e :: write_env and r x
  show "journal_good cfg t \<and> readLifecycleJournal cfg t = Inr (Some d) \<and> co_journalPending (site_coord t)"
    if "new_document cfg d e s" "write_new_journal d e s = (Inr (), t)"
    using new_document_written[OF that] that(1) by (simp add: journal_good_def new_document_def)
  show "readLifecycleJournal cfg t = Inr None" if "clearLifecycleJournal r s = (Inr (), t)"
    using journal_cleared[where e = r and s = s and cfg = cfg] that by simp
  show "co_journalPending (site_coord t) = co_journalPending (site_coord s)" if "clearLifecycleJournal r s = (Inl x, t)"
    using journal_cleared[where e = r and s = s and cfg = cfg] that by simp
qed

definition about :: "lifecycleJournal \<Rightarrow> lifecycleJournal \<Rightarrow> bool" where
  "about d j \<longleftrightarrow> j\<lparr>lj_Stage := lj_Stage d\<rparr> = d"

lemma about_stage [simp]: "about d (j\<lparr>lj_Stage := st\<rparr>) = about d j"
  by (simp add: about_def)

lemma covered_env [simp]:
  "lifecycle_journal.covered cfg J (s\<lparr>si_env := env\<rparr>) = lifecycle_journal.covered cfg J s"
  by (simp add: lifecycle_journal.covered_def journal_good_def readLifecycleJournal_def)

lemma advance_covers:
  assumes "lifecycle_journal.covered cfg (about d) s" and "ans_tmp (snd e) \<noteq> journal_path s"
  shows "lifecycle_journal.covered cfg (about d) (snd (advanceLifecycleJournal cfg stage e s))"
proof -
  obtain j where j: "readLifecycleJournal cfg s = Inr (Some j)" "about d j" "journal_normal cfg j"
    "data_at (si_journal s) (journal_path s) = Some (journal_doc j)" "co_journalPending (site_coord s)"
    using assms(1) by (auto simp: lifecycle_journal.covered_def journal_good_def)
  obtain r t where a: "advanceLifecycleJournal cfg stage e s = (r, t)" by fastforce
  show ?thesis
  proof (cases r)
    case (Inr u)
    note d = advance_done[OF a[unfolded Inr] j(1,3) assms(2)]
    have "data_at (si_journal t) (journal_path t) = Some (journal_doc (j\<lparr>lj_Stage := stage\<rparr>))"
      using a Inr j(1) write_record_done(1,2)[OF _ assms(2)]
      by (auto simp: advanceLifecycleJournal_def bind_op_ok split: if_splits)
    then show ?thesis using d j(2) by (simp add: a lifecycle_journal.covered_def journal_good_def)
  next
    case (Inl x)
    from advance_stopped[OF a[unfolded Inl] j(3,1,4) assms(2)] j(2,5)
    show ?thesis by (auto simp: a lifecycle_journal.covered_def journal_good_def)
  qed
qed


section \<open>The end of a durable job\<close>

lemma store_kept:
  "wd_store (map_coord f w) = wd_store w" "wd_files (map_coord f w) = wd_files w"
  "wd_store (with_jobs g w) = wd_store w" "wd_files (with_jobs g w) = wd_files w"
  by (simp_all add: map_coord_def with_jobs_def)

lemma settle_store:
  "wd_store (si_world (snd (settleSucceededLifecycleJournal cfg e s))) = wd_store (si_world s) \<and>
   wd_files (si_world (snd (settleSucceededLifecycleJournal cfg e s))) = wd_files (si_world s)"
  by (auto simp: settleSucceededLifecycleJournal_def clearLifecycleJournal_def Let_def split: sum.splits)

lemma job_end_store:
  assumes "\<And>w. wd_store (snd (clear w)) = wd_store w \<and> wd_files (snd (clear w)) = wd_files w"
    and "transitionDurableLifecycleOperation opid
      (we_transition (work_outcome k failed (lease_cancelled l w) (journalOnDisk (wd_coord w))))
      (we_http (work_outcome k failed (lease_cancelled l w) (journalOnDisk (wd_coord w))))
      (we_message (work_outcome k failed (lease_cancelled l w) (journalOnDisk (wd_coord w)))) e w = (err, w1)"
  shows "durable_record (durable_job_end clear l jid opid k failed e now w) x = durable_record w1 x"
proof -
  have c: "wd_store w' = wd_store w1 \<and> wd_files w' = wd_files w1" if "clear w1 = (b, w')" for b w'
    using assms(1)[of w1] that by simp
  show ?thesis
    by (cases "clear w1") (auto simp: durable_job_end_def Let_def assms(2) durable_record_def store_kept dest: c)
qed

text \<open>
  C12. The journal outlives the operation until success is durable. When the end of a claimed
  durable job has removed the lifecycle journal, the record of the operation that a crash
  would reopen to has succeeded; a failed, cancelled or unconfirmed operation keeps the
  journal for recovery.
\<close>

theorem journal_kept_until_success_durable:
  assumes "world_store_ok (si_world s) e" and "opid \<noteq> []" and "si_journal s (journal_path s) \<noteq> None"
    and "si_journal (durable_job_end_site cfg re l jid opid k failed e now s) (journal_path s) = None"
  shows "\<not> failed \<and> (\<exists>r. durable_record (si_world (durable_job_end_site cfg re l jid opid k failed e now s)) opid = Some r \<and>
    op_status r = JobSucceeded \<and> op_httpStatus r = 200)"
proof -
  let ?out = "work_outcome k failed (lease_cancelled l (si_world s)) (journalOnDisk (site_coord s))"
  obtain err w1 where t: "transitionDurableLifecycleOperation opid (we_transition ?out) (we_http ?out) (we_message ?out) e
      (si_world s) = (err, w1)" by fastforce
  have "err = None \<and> we_transition ?out = JobSucceeded"
    using assms(3,4) t by (auto simp: durable_job_end_site_def Let_def split: if_splits)
  then have err: "err = None" and out: "we_transition ?out = JobSucceeded" by simp_all
  then have ok: "\<not> failed" "we_http ?out = 200" "we_message ?out = durableOperationSuccessMessage k"
    by (auto simp: work_outcome_def split: if_splits)
  obtain msg where "durableOperationPublicMessage (we_message ?out) = Inr msg"
    unfolding ok(3) by (cases k) (simp_all add: durableOperationSuccessMessage_def)
  from confirmed_transition[OF assms(1,2) this t[unfolded err]]
  obtain r where r: "durable_record w1 opid = Some r" "has_outcome r JobSucceeded 200 msg"
    unfolding out ok(2) by blast
  have "durable_record (si_world (durable_job_end_site cfg re l jid opid k failed e now s)) opid = durable_record w1 opid"
    using job_end_store[of "site_clear cfg re s", OF _ t] settle_store[where s = "s\<lparr>si_world := w\<rparr>" for w]
    by (simp add: durable_job_end_site_def Let_def t site_clear_def split_beta)
  with r ok(1) show ?thesis by (auto simp: has_outcome_def)
qed


definition ex_patch_doc :: lifecycleJournal where
  "ex_patch_doc = \<lparr>lj_Version = 1, lj_Operation = ''patch'', lj_OperationID = [], lj_OperationKind = KindNone,
     lj_Stage = ''prepared'', lj_ServerID = ''pep1'', lj_Project = ''opensamguk-spep1'', lj_ResetTarget = None,
     lj_ResetExecution = None, lj_WebGameTarget = None\<rparr>"

lemma ex_patch_normal: "journal_normal ex_config ex_patch_doc"
proof -
  have "isLifecycleJournalOperation ''patch''" "canonical_id ''pep1''" by code_simp+
  then have "journal_normal ex_config \<lparr>lj_Version = 1, lj_Operation = ''patch'', lj_OperationID = [],
      lj_OperationKind = KindNone, lj_Stage = ''prepared'', lj_ServerID = ''pep1'', lj_Project = projectForServerID ''pep1'',
      lj_ResetTarget = None, lj_ResetExecution = None, lj_WebGameTarget = None\<rparr>"
    by (intro new_journal_normal)
      (simp_all add: validateJournalWebGameTarget_def validateLifecycleJournalOperationLink_def require_def Let_def)
  then show ?thesis by (simp add: ex_patch_doc_def projectForServerID_def internalServerKey_def)
qed

theorem journal_kept_until_success_durable_witness:
  "\<exists>s r. durable_record (si_world (durable_job_end_site ex_config (True, True) 1 [] ex_id KindReset False
      (7, (all_well ''tmp'')\<lparr>ans_syncdir := False\<rparr>) 9 s)) ex_id = Some r \<and> op_status r = JobSucceeded"
proof -
  let ?e = "(7, (all_well ''tmp'')\<lparr>ans_syncdir := False\<rparr>) :: call_env"
  obtain w :: world where w: "wd_store w = Some (ex_store\<lparr>st_operations := [(ex_id, stamp_record 5 ex_record)]\<rparr>)"
    "wd_coord w = ex_site_coord" "good (ex_store\<lparr>st_operations := [(ex_id, stamp_record 5 ex_record)]\<rparr>) (wd_files w)"
    "wd_files w ''tmp'' = None" by (rule ex_world)
  let ?f = "\<lparr>f_mode = 384, f_owner = (0, 0), f_content = Synced (journal_doc ex_patch_doc)\<rparr>"
  let ?s = "\<lparr>si_world = w, si_env = (\<lambda>_. None), si_journal = (\<lambda>_. None)(''/j'' \<mapsto> ?f)\<rparr>"
  let ?done = "durable_job_end_site ex_config (True, True) 1 [] ex_id KindReset False ?e 9 ?s"
  have c: "co_journalPath ex_site_coord = ''/j''" "co_leases ex_site_coord = (\<lambda>_. None)" "co_gate ex_site_coord = None"
    "\<not> journalOnDisk ex_site_coord"
    by (simp_all add: ex_site_coord_def newOperationCoordinator_def stateFilePresent_def)
  obtain w' where w': "transitionDurableLifecycleOperation ex_id JobSucceeded 200 IdResetSucceeded ?e w = (None, w')"
    using ex_world_transition[OF w(1,4)] by blast
  have ok: "world_store_ok w ?e" using w by (simp add: world_store_ok_def all_well_def ex_store_def)
  have wc: "wd_coord w' = ex_site_coord" using transition_durable_life(1)[OF ok w'] w(2) by simp
  have out: "work_outcome KindReset False (lease_cancelled 1 w) (journalOnDisk (wd_coord w)) =
      \<lparr>we_status = JobSucceeded, we_transition = JobSucceeded, we_http = 200, we_message = IdResetSucceeded\<rparr>"
    by (simp add: work_outcome_def lease_cancelled_def w(2) c durableOperationSuccessMessage_def)
  have "read_journal_at ex_config ''/j'' (si_journal ?s) = Inr (Some ex_patch_doc)"
    by (rule read_normal[OF ex_patch_normal]) (simp_all add: data_at_def)
  then have rd: "readLifecycleJournal ex_config (?s\<lparr>si_world := w'\<rparr>) = Inr (Some ex_patch_doc)"
    by (simp add: readLifecycleJournal_def wc c)
  have "si_journal (snd (settleSucceededLifecycleJournal ex_config (True, True) (?s\<lparr>si_world := w'\<rparr>))) ''/j'' = None"
    unfolding settleSucceededLifecycleJournal_def rd
    by (simp add: ex_patch_doc_def clearLifecycleJournal_def nativeMutationBlocked_def wc c Let_def)
  then have "si_journal ?done (journal_path ?s) = None"
    unfolding durable_job_end_site_def Let_def site.simps out work_end.simps w' by (simp add: w(2) c)
  then have "\<exists>r. durable_record (si_world ?done) ex_id = Some r \<and> op_status r = JobSucceeded"
    using journal_kept_until_success_durable[of ?s ?e ex_id ex_config "(True, True)" 1 "[]" KindReset False 9] ok
    by (simp add: w(2) c ex_id_def) blast
  then show ?thesis by blast
qed

end
