(* ===== verification/Handler.thy ===== *)
theory Handler
  imports JournalLaws
begin

text \<open>
  What the request handlers and workers share: replies, the calls of docker, operations on
  the state of the deployer, and runs. A run is a state with the answers that every later
  call of the outside world will get, a clock, and the docker commands issued so far, each
  with the state it was issued in.
\<close>

section \<open>Replies\<close>

record 'b reply =
  rp_status :: int
  rp_retryAfter :: bool
  rp_body :: "string + 'b"

definition error_reply :: "int \<Rightarrow> string \<Rightarrow> 'b reply" where
  "error_reply status text' = \<lparr>rp_status = status, rp_retryAfter = False, rp_body = Inl text'\<rparr>"

definition ok_reply :: "'b \<Rightarrow> 'b reply" where
  "ok_reply body = \<lparr>rp_status = 200, rp_retryAfter = False, rp_body = Inr body\<rparr>"

definition admission_reply :: "err \<Rightarrow> 'b reply" where
  "admission_reply e = (let h = writeMutationAdmissionError e in
     \<lparr>rp_status = he_status h, rp_retryAfter = he_retryAfter h, rp_body = Inl (he_text h)\<rparr>)"

section \<open>Decoding a struct\<close>

text \<open>
  \<open>json.Unmarshal\<close> into a struct: members whose name is no field are ignored, null leaves the
  struct as it is, a member of the wrong type is an error.
\<close>

fun decode_members ::
    "string list \<Rightarrow> ('r \<Rightarrow> string \<Rightarrow> json \<Rightarrow> 'r option) \<Rightarrow> 'r \<Rightarrow> (string \<times> json) list \<Rightarrow> 'r option" where
  "decode_members names put r [] = Some r"
| "decode_members names put r ((k, v) # ms) =
     (case json_field names k of
        None \<Rightarrow> decode_members names put r ms
      | Some name \<Rightarrow> Option.bind (put r name v) (\<lambda>r'. decode_members names put r' ms))"

definition decode_struct ::
    "string list \<Rightarrow> ('r \<Rightarrow> string \<Rightarrow> json \<Rightarrow> 'r option) \<Rightarrow> 'r \<Rightarrow> json \<Rightarrow> 'r option" where
  "decode_struct names put r j =
     (case j of JObj ms \<Rightarrow> decode_members names put r ms | JNull \<Rightarrow> Some r | _ \<Rightarrow> None)"

definition unmarshal_struct ::
    "string list \<Rightarrow> ('r \<Rightarrow> string \<Rightarrow> json \<Rightarrow> 'r option) \<Rightarrow> 'r \<Rightarrow> string \<Rightarrow> 'r option" where
  "unmarshal_struct names put r text' = Option.bind (parse_json text') (decode_struct names put r)"

section \<open>Docker and staged files\<close>

text \<open>Docker answers a command with its output, or fails.\<close>

type_synonym docker = "string list \<Rightarrow> string result"

definition server_compose :: "config \<Rightarrow> string \<Rightarrow> string \<Rightarrow> string list \<Rightarrow> string list" where
  "server_compose cfg project envFile command =
     [''compose'', ''-p'', project, ''--env-file'', envFile, ''-f'', cf_composeServer cfg] @ command"

text \<open>
  A staged copy of an env file: the name of the temporary file or none, whether it can be
  written, closed, given its mode and removed, and the answers of the patch of the copy.
\<close>

record stage_calls =
  sc_name :: "string option"
  sc_write :: bool
  sc_close :: bool
  sc_chmod :: bool
  sc_remove :: bool
  sc_patch :: answers

definition drop_temp :: "stage_calls \<Rightarrow> string \<Rightarrow> string files \<Rightarrow> string files" where
  "drop_temp sc name fs = (if sc_remove sc then fs(name := None) else fs)"

text \<open>
  The three makers of such a copy share their steps: read the file, create the temporary
  file, write, close, give it its mode where the maker does, and change the copy. A copy that
  could not be finished is removed at once; the other by the caller. The result is its name.
\<close>

definition stage_copy ::
    "string \<Rightarrow> bool \<Rightarrow> (string \<Rightarrow> answers \<Rightarrow> string files \<Rightarrow> unit result \<times> string files) \<Rightarrow> stage_calls \<Rightarrow>
     string files \<Rightarrow> string result \<times> string files" where
  "stage_copy envFile sets_mode change sc fs =
     (case data_at fs envFile of
        None \<Rightarrow> (Inl (ErrIO ''read''), fs)
      | Some data \<Rightarrow>
          (case sc_name sc of
             None \<Rightarrow> (Inl (ErrIO ''createTemp''), fs)
           | Some name \<Rightarrow>
               if fs name \<noteq> None then (Inl (ErrIO ''createTemp''), fs)
               else
                 let temp = (\<lambda>c. fs(name \<mapsto> \<lparr>f_mode = 384, f_owner = (0, 0), f_content = c\<rparr>)) in
                 if \<not> sc_write sc then (Inl (ErrIO ''write''), drop_temp sc name (temp Partial))
                 else if \<not> sc_close sc then (Inl (ErrIO ''close''), drop_temp sc name (temp (Written data)))
                 else if sets_mode \<and> \<not> sc_chmod sc
                 then (Inl (ErrIO ''chmod''), drop_temp sc name (temp (Written data)))
                 else case change name (sc_patch sc) (temp (Written data)) of
                   (Inl e, fs') \<Rightarrow> (Inl e, drop_temp sc name fs')
                 | (Inr _, fs') \<Rightarrow> (Inr name, fs')))"

definition patch_copy :: "env \<Rightarrow> string \<Rightarrow> answers \<Rightarrow> string files \<Rightarrow> unit result \<times> string files" where
  "patch_copy updates name a fs =
     (let (r, fs') = patchEnvFile name serverEnvAllowlist updates a fs in (map_sum id (\<lambda>_. ()) r, fs'))"

lemma stage_copy_frame:
  assumes "\<And>n fs. p \<noteq> n \<Longrightarrow> snd (change n (sc_patch sc) fs) p = fs p" and "sc_name sc \<noteq> Some p"
  shows "snd (stage_copy envFile m change sc fs) p = fs p"
  using assms
  by (auto simp: stage_copy_def drop_temp_def Let_def split: option.split sum.split prod.splits) (metis snd_conv fun_upd_other)+

lemma stage_copy_name: "fst (stage_copy envFile m change sc fs) = Inr n \<Longrightarrow> sc_name sc = Some n"
  by (auto simp: stage_copy_def Let_def split: option.splits sum.splits prod.splits if_splits)

lemma patch_copy_frame: "p \<noteq> ans_tmp a \<Longrightarrow> p \<noteq> n \<Longrightarrow> snd (patch_copy u n a fs) p = fs p"
  using patch_frame[of p n a serverEnvAllowlist u fs, OF _ _ surjective_pairing] by (auto simp: patch_copy_def split_beta)

section \<open>Operations on the state\<close>

definition env_op :: "(string files \<Rightarrow> 'a result \<times> string files) \<Rightarrow> (site, 'a) operation" where
  "env_op f s = (let (r, fs) = f (si_env s) in (r, s\<lparr>si_env := fs\<rparr>))"

definition env_check :: "(string files \<Rightarrow> 'a result) \<Rightarrow> (site, 'a) operation" where
  "env_check f = lift_op (\<lambda>s. f (si_env s))"

abbreviation stop :: "int \<Rightarrow> string \<Rightarrow> (site, 'a) operation \<Rightarrow> site \<Rightarrow> ('b reply + 'a) \<times> site" where
  "stop status text' \<equiv> fail_with (error_reply status text')"

definition world_op :: "(world \<Rightarrow> err option \<times> world) \<Rightarrow> (site, unit) operation" where
  "world_op f s = (let (e, w) = f (si_world s) in (no_error e, s\<lparr>si_world := w\<rparr>))"

text \<open>What holds after a sequence that stops at the first failure.\<close>

lemma bind_op_after:
  assumes "P (snd (m s))" and "\<And>x t. m s = (Inr x, t) \<Longrightarrow> P (snd (k x t))"
  shows "P (snd (bind_op m k s))"
  using assms by (cases "m s"; cases "fst (m s)") (auto simp: bind_op_def)

section \<open>Runs\<close>

text \<open>
  The answers of one call: whether the context of the lease is found cancelled, docker, an
  HTTP request for a URL, the time since the last call, whether a plain system call (stat,
  mkdir, remove) succeeds, those of up to three writes of files, of a removal that is synced,
  of a staged copy, and of the transition of a durable record.
\<close>

record calls =
  ca_cancelled :: bool
  ca_docker :: "string list \<Rightarrow> string \<times> err option"
  ca_http :: "string \<Rightarrow> (int \<times> string) result"
  ca_elapsed :: nat
  ca_ok :: bool
  ca_write :: write_env
  ca_write2 :: answers
  ca_write3 :: answers
  ca_remove :: remove_env
  ca_stage :: stage_calls
  ca_store :: call_env
  ca_rand :: "nat \<Rightarrow> string option"
  ca_dir :: "(string \<times> bool) list result"

record run =
  rn_site :: site
  rn_now :: time
  rn_calls :: "nat \<Rightarrow> calls"
  rn_log :: "(string list \<times> site) list"

definition next_call :: "run \<Rightarrow> calls" where
  "next_call r = rn_calls r 0"

definition tick :: "run \<Rightarrow> run" where
  "tick r = r\<lparr>rn_now := rn_now r + int (ca_elapsed (next_call r)), rn_calls := (\<lambda>n. rn_calls r (Suc n))\<rparr>"

text \<open>A call that may change the state, one that only observes, and one that needs no answer.\<close>

definition act :: "(calls \<Rightarrow> site \<Rightarrow> 'a \<times> site) \<Rightarrow> run \<Rightarrow> 'a \<times> run" where
  "act f r = (let (x, s) = f (next_call r) (rn_site r) in (x, (tick r)\<lparr>rn_site := s\<rparr>))"

definition observe :: "(calls \<Rightarrow> site \<Rightarrow> 'a) \<Rightarrow> run \<Rightarrow> 'a \<times> run" where
  "observe f = act (\<lambda>c s. (f c s, s))"

definition look :: "(site \<Rightarrow> 'a) \<Rightarrow> run \<Rightarrow> 'a \<times> run" where
  "look f r = (f (rn_site r), r)"

text \<open>\<open>ctx.Err()\<close> as a check.\<close>

definition not_cancelled :: "(run, unit) operation" where
  "not_cancelled = observe (\<lambda>c s. require (\<not> ca_cancelled c) ''context canceled'')"

text \<open>
  \<open>runDockerContext\<close>: a cancelled context stops the call before docker is asked; a context
  cancelled during the call makes it fail, which is one of docker's possible answers.
\<close>

definition runDockerContextWithEnvironment :: "string list \<Rightarrow> run \<Rightarrow> (string \<times> err option) \<times> run" where
  "runDockerContextWithEnvironment args r =
     (if ca_cancelled (next_call r) then (([], Some (Err ''context canceled'')), tick r)
      else (ca_docker (next_call r) args, (tick r)\<lparr>rn_log := rn_log r @ [(args, rn_site r)]\<rparr>))"

definition docker_result :: "string \<times> err option \<Rightarrow> string result" where
  "docker_result x = (case snd x of None \<Rightarrow> Inr (fst x) | Some e \<Rightarrow> Inl e)"

definition run_docker :: "string list \<Rightarrow> (run, string) operation" where
  "run_docker args r = (let (x, r') = runDockerContextWithEnvironment args r in (docker_result x, r'))"

definition dockerPreflight :: "(run, unit) operation" where
  "dockerPreflight r =
     (case run_docker [''version'', ''--format'', ''{{.Server.Version}}''] r of
        (Inl e, r') \<Rightarrow> (Inl ErrDockerUnreachable, r')
      | (Inr out, r') \<Rightarrow> (Inr (), r'))"

end
