(* ===== verification/WebDeploy.thy ===== *)
theory WebDeploy
  imports Handler
begin

text \<open>
  web_game_deploy.go: the scoped deployment of the web image of one server. The request
  names the commit, the digest and the pin it expects to replace; the handler checks this
  twice around the pull, journals the deployment, writes the pin, recreates the container,
  verifies the running image and clears the journal; the repair after a crash does the rest
  of these steps. Docker is an argument: its answer to an argument list at each call.
\<close>

section \<open>Requests and preconditions\<close>

record webGameDeployRequest =
  wr_Project :: string
  wr_target :: webGameDeployTarget

record webGameDeployResponse =
  wp_Project :: string
  wp_Service :: string
  wp_Tag :: string
  wp_Digest :: string
  wp_OK :: bool

definition zero_web_request :: webGameDeployRequest where
  "zero_web_request = \<lparr>wr_Project = [], wr_target = \<lparr>wt_Tag = [], wt_Digest = [], wt_ExpectedWebGameTag = [],
     wt_ExpectedWorldID = 0, wt_ExpectedGeneration = 0\<rparr>\<rparr>"

definition on_target :: "(webGameDeployTarget \<Rightarrow> webGameDeployTarget) \<Rightarrow> webGameDeployRequest \<Rightarrow> webGameDeployRequest" where
  "on_target f r = r\<lparr>wr_target := f (wr_target r)\<rparr>"

definition set_web_field :: "webGameDeployRequest \<Rightarrow> string \<Rightarrow> json \<Rightarrow> webGameDeployRequest option" where
  "set_web_field r name j = (let t = wr_target r in
     if name = ''project'' then map_option (\<lambda>s. r\<lparr>wr_Project := s\<rparr>) (json_str (wr_Project r) j)
     else if name = ''tag'' then map_option (\<lambda>s. on_target (\<lambda>t. t\<lparr>wt_Tag := s\<rparr>) r) (json_str (wt_Tag t) j)
     else if name = ''digest'' then map_option (\<lambda>s. on_target (\<lambda>t. t\<lparr>wt_Digest := s\<rparr>) r) (json_str (wt_Digest t) j)
     else if name = ''expectedWebGameTag''
     then map_option (\<lambda>s. on_target (\<lambda>t. t\<lparr>wt_ExpectedWebGameTag := s\<rparr>) r) (json_str (wt_ExpectedWebGameTag t) j)
     else if name = ''expectedWorldId''
     then map_option (\<lambda>i. on_target (\<lambda>t. t\<lparr>wt_ExpectedWorldID := i\<rparr>) r) (json_int (wt_ExpectedWorldID t) j)
     else map_option (\<lambda>i. on_target (\<lambda>t. t\<lparr>wt_ExpectedGeneration := i\<rparr>) r) (json_int (wt_ExpectedGeneration t) j))"

text \<open>A member whose name is no field is an error: the decoder disallows unknown fields.\<close>

fun decode_web_members :: "webGameDeployRequest \<Rightarrow> (string \<times> json) list \<Rightarrow> webGameDeployRequest option" where
  "decode_web_members r [] = Some r"
| "decode_web_members r ((k, v) # ms) =
     Option.bind (json_field [''project'', ''tag'', ''digest'', ''expectedWebGameTag'', ''expectedWorldId'',
                              ''expectedGeneration''] k)
       (\<lambda>name. Option.bind (set_web_field r name v) (\<lambda>r'. decode_web_members r' ms))"

definition decode_web_request :: "string \<Rightarrow> webGameDeployRequest option" where
  "decode_web_request body =
     (if 2 ^ 16 < length body then None
      else case parse_json body of
        Some (JObj ms) \<Rightarrow> decode_web_members zero_web_request ms
      | Some JNull \<Rightarrow> Some zero_web_request
      | _ \<Rightarrow> None)"

definition web_pin :: "webGameDeployTarget \<Rightarrow> string" where
  "web_pin t = wt_Tag t @ ''@'' @ wt_Digest t"

definition web_scoped_keys :: "string list" where
  "web_scoped_keys = [''WEB_GAME_TAG'', ''IMAGE_TAG'', ''OPENSAMGUK_WORLD_ID'', ''SERVER_GENERATION'']"

definition validateWebGameEnvUniqueness :: "string \<Rightarrow> string files \<Rightarrow> unit result" where
  "validateWebGameEnvUniqueness envFile fs =
     bind_r (readEnvLines envFile fs) (\<lambda>lines.
       require (distinct (filter (\<lambda>k. k \<in> set web_scoped_keys) (map ln_Key (filter ln_IsKV lines))))
         ''duplicate scoped web deployment configuration'')"

definition readWebGamePin :: "string \<Rightarrow> string files \<Rightarrow> string result" where
  "readWebGamePin envFile fs =
     bind_r (validateWebGameEnvUniqueness envFile fs) (\<lambda>_.
     bind_r (readEnvValues envFile fs) (\<lambda>values.
       Inr (envOrValue (envOrValue (gm_str values ''WEB_GAME_TAG'') (gm_str values ''IMAGE_TAG'')) ''latest'')))"

definition registered_as_approved :: "config \<Rightarrow> serverTarget \<Rightarrow> webGameDeployTarget \<Rightarrow> env \<Rightarrow> registryEntry \<Rightarrow> bool" where
  "registered_as_approved cfg target approved values entry \<longleftrightarrow>
     \<not> (re_DeployProject entry \<noteq> tg_Project target \<or> re_Generation entry \<noteq> wt_ExpectedGeneration approved \<or>
        re_RepairRequired entry \<or>
        re_GameAPIURL entry \<noteq> envOrValue (gm_str values ''GAME_API_URL'') (gameAPIURLFor cfg (tg_ID target)) \<or>
        re_GameEngineURL entry \<noteq> gameEngineURLFor cfg (tg_ID target))"

definition requireRegisteredWebGameTarget ::
    "config \<Rightarrow> serverTarget \<Rightarrow> webGameDeployTarget \<Rightarrow> string files \<Rightarrow> unit result" where
  "requireRegisteredWebGameTarget cfg target approved fs =
     bind_r (validateWebGameEnvUniqueness (tg_EnvFile target) fs) (\<lambda>_.
     bind_r (validateServerTarget target fs) (\<lambda>values.
     bind_r (require (atoi (envOrValue (gm_str values ''OPENSAMGUK_WORLD_ID'') ''1'') = Some (wt_ExpectedWorldID approved))
               ''approved process world does not match server configuration'') (\<lambda>_.
     bind_r (require (atoi (envOrValue (gm_str values ''SERVER_GENERATION'') ''1'') = Some (wt_ExpectedGeneration approved))
               ''approved server generation does not match server configuration'') (\<lambda>_.
     bind_r (readEnvLines (sharedEnvFile cfg) fs) (\<lambda>lines.
     bind_r (parseRawRegistryEntries lines) (\<lambda>(registry, rewrite).
     bind_r (canonicalRegistryEntries registry) (\<lambda>entries.
       case find (\<lambda>entry. re_ID entry = tg_ID target) entries of
         None \<Rightarrow> Inl (Err ''server is not registered'')
       | Some entry \<Rightarrow> require (registered_as_approved cfg target approved values entry)
           ''registered target differs from the approved server'')))))))"

definition requireExpectedWebGamePin ::
    "config \<Rightarrow> serverTarget \<Rightarrow> webGameDeployTarget \<Rightarrow> string files \<Rightarrow> unit result" where
  "requireExpectedWebGamePin cfg target approved fs =
     bind_r (requireRegisteredWebGameTarget cfg target approved fs) (\<lambda>_.
     bind_r (readWebGamePin (tg_EnvFile target) fs) (\<lambda>pin.
       require (pin = wt_ExpectedWebGameTag approved)
         ''current web image pin differs from the approved expected pin''))"

section \<open>The pin\<close>

definition set_pin_line :: "string \<Rightarrow> envLine \<Rightarrow> envLine" where
  "set_pin_line pin l = (if key_is ''WEB_GAME_TAG'' l
     then l\<lparr>ln_Value := pin, ln_Raw := ''WEB_GAME_TAG='' @ pin\<rparr> else l)"

definition pinned_lines :: "string \<Rightarrow> envLine list \<Rightarrow> envLine list" where
  "pinned_lines pin lines = map (set_pin_line pin) lines @
     (if list_ex (key_is ''WEB_GAME_TAG'') lines then [] else [kv_line ''WEB_GAME_TAG'' pin])"

definition writeWebGamePinDurable :: "string \<Rightarrow> string \<Rightarrow> answers \<Rightarrow> string files \<Rightarrow> unit result \<times> string files" where
  "writeWebGamePinDurable envFile pin a fs =
     (case bind_r (require (webGamePinnedTagRE pin) ''invalid durable web image pin'') (\<lambda>_.
         bind_r (validateWebGameEnvUniqueness envFile fs) (\<lambda>_. readEnvLines envFile fs)) of
        Inl e \<Rightarrow> (Inl e, fs)
      | Inr lines \<Rightarrow>
          let w = writeEnvLinesAtomicDurable envFile (pinned_lines pin lines) a fs in (no_error (w_err w), w_fs w))"

definition tempWebGamePinEnvFile ::
    "string \<Rightarrow> string \<Rightarrow> stage_calls \<Rightarrow> string files \<Rightarrow> string result \<times> string files" where
  "tempWebGamePinEnvFile envFile pin = stage_copy envFile False (patch_copy [(''WEB_GAME_TAG'', pin)])"

section \<open>Docker calls\<close>

definition pullWebGame :: "config \<Rightarrow> docker \<Rightarrow> string \<Rightarrow> string \<Rightarrow> string files \<Rightarrow> unit result" where
  "pullWebGame cfg docker project envFile fs =
     bind_r (validateDockerServerTarget cfg project envFile True fs) (\<lambda>_.
       map_sum id (\<lambda>_. ()) (docker (server_compose cfg project envFile [''pull'', ''web-game''])))"

definition upWebGame :: "config \<Rightarrow> docker \<Rightarrow> string \<Rightarrow> string \<Rightarrow> string files \<Rightarrow> unit result" where
  "upWebGame cfg docker project envFile fs =
     bind_r (validateDockerServerTarget cfg project envFile False fs) (\<lambda>_.
       map_sum id (\<lambda>_. ()) (docker (server_compose cfg project envFile
         [''up'', ''-d'', ''--force-recreate'', ''--no-deps'', ''--no-build'', ''--pull'', ''never'', ''web-game''])))"

definition web_repository :: "env \<Rightarrow> string" where
  "web_repository values = envOrValue (gm_str values ''GHCR_REGISTRY'') ''ghcr.io'' @ ''/'' @
     envOrValue (gm_str values ''GHCR_OWNER'') ''peppone-choi'' @ ''/opensamguk''"

definition image_matches_pin :: "env \<Rightarrow> string \<Rightarrow> string \<Rightarrow> bool" where
  "image_matches_pin values pin actual \<longleftrightarrow>
     actual = web_repository values @ '':web-game-'' @ pin \<or>
     opt_all (\<lambda>digest. actual = web_repository values @ ''@'' @ digest) (snd (cut_at CHR ''@'' pin)) \<and>
       snd (cut_at CHR ''@'' pin) \<noteq> None"

definition verifyWebGamePin :: "docker \<Rightarrow> serverTarget \<Rightarrow> string \<Rightarrow> string files \<Rightarrow> unit result" where
  "verifyWebGamePin docker target pin fs =
     bind_r (readEnvValues (tg_EnvFile target) fs) (\<lambda>values.
     bind_r (docker [''inspect'', internalServerKey (tg_ID target) @ ''-web-game'', ''--format'', ''{{.Config.Image}}''])
       (\<lambda>out. require (image_matches_pin values pin (trim_space out))
          ''running web image does not match the scoped desired pin''))"

section \<open>The handler\<close>

text \<open>
  The answers of one deployment: of docker at the pull, the recreation and the inspection,
  whether the context of the lease is found cancelled at its two checks, and of the writes.
\<close>

record web_calls =
  wc_stage :: stage_calls
  wc_pull :: docker
  wc_cancelled1 :: bool
  wc_journal :: write_env
  wc_cancelled2 :: bool
  wc_pin :: answers
  wc_advance :: write_env
  wc_up :: docker
  wc_inspect :: docker
  wc_clear :: remove_env

text \<open>Up to the journal nothing but the temporary copy is changed.\<close>

definition web_checks ::
    "config \<Rightarrow> serverTarget \<Rightarrow> webGameDeployTarget \<Rightarrow> web_calls \<Rightarrow> string \<Rightarrow> site \<Rightarrow> ('b reply + unit) \<times> site" where
  "web_checks cfg target req wc temp =
     bind_op (stop 500 ''web image pull failed; desired pin unchanged''
                (env_check (pullWebGame cfg (wc_pull wc) (tg_Project target) temp))) (\<lambda>_.
     bind_op (stop 409 ''web deployment precondition changed''
                (env_check (requireExpectedWebGamePin cfg target req))) (\<lambda>_.
       stop 503 ''web deployment cancelled'' (lift_op (\<lambda>_. require (\<not> wc_cancelled1 wc) ''cancelled''))))"

definition web_journal ::
    "serverTarget \<Rightarrow> webGameDeployTarget \<Rightarrow> web_calls \<Rightarrow> site \<Rightarrow> ('b reply + unit) \<times> site" where
  "web_journal target req wc = stop 503 ''could not persist scoped web recovery journal''
     (writeLifecycleJournalWithResetTarget ''deploy-web'' target None [] KindNone (Some req) (wc_journal wc))"

definition web_work ::
    "config \<Rightarrow> serverTarget \<Rightarrow> webGameDeployTarget \<Rightarrow> web_calls \<Rightarrow> site \<Rightarrow> ('b reply + unit) \<times> site" where
  "web_work cfg target req wc =
     bind_op (stop 503 ''web deployment cancelled; scoped recovery required''
                (lift_op (\<lambda>_. require (\<not> wc_cancelled2 wc) ''cancelled''))) (\<lambda>_.
     bind_op (stop 500 ''web pin write failed; scoped recovery required''
                (env_op (writeWebGamePinDurable (tg_EnvFile target) (web_pin req) (wc_pin wc)))) (\<lambda>_.
     bind_op (stop 500 ''web pin journal update failed; scoped recovery required''
                (advanceLifecycleJournal cfg lifecycleJournalStageEnv (wc_advance wc))) (\<lambda>_.
     bind_op (stop 500 ''web recreate failed; scoped recovery required''
                (env_check (upWebGame cfg (wc_up wc) (tg_Project target) (tg_EnvFile target)))) (\<lambda>_.
       stop 500 ''web image verification failed; scoped recovery required''
         (env_check (verifyWebGamePin (wc_inspect wc) target (web_pin req)))))))"

definition web_journaled_work ::
    "config \<Rightarrow> serverTarget \<Rightarrow> webGameDeployTarget \<Rightarrow> web_calls \<Rightarrow> site \<Rightarrow>
     (webGameDeployResponse reply + webGameDeployResponse reply) \<times> site" where
  "web_journaled_work cfg target req wc =
     bind_op (web_work cfg target req wc) (\<lambda>x.
     bind_op (stop 500 ''web recovery journal settlement failed'' (clearLifecycleJournal (wc_clear wc))) (\<lambda>_.
       lift_op (\<lambda>_. Inr (ok_reply \<lparr>wp_Project = tg_Project target, wp_Service = ''web-game'',
         wp_Tag = wt_Tag req, wp_Digest = wt_Digest req, wp_OK = True\<rparr>))))"

text \<open>The deferred removal of the temporary file comes after everything else.\<close>

definition after_temp :: "stage_calls \<Rightarrow> string \<Rightarrow> ('a \<times> site) \<Rightarrow> 'a \<times> site" where
  "after_temp sc temp r = (fst r, (snd r)\<lparr>si_env := drop_temp sc temp (si_env (snd r))\<rparr>)"

definition web_leased ::
    "config \<Rightarrow> serverTarget \<Rightarrow> webGameDeployTarget \<Rightarrow> web_calls \<Rightarrow> site \<Rightarrow>
     (webGameDeployResponse reply + webGameDeployResponse reply) \<times> site" where
  "web_leased cfg target req wc =
     bind_op (stop 409 ''web deployment precondition failed''
                (env_check (requireExpectedWebGamePin cfg target req))) (\<lambda>_.
     bind_op (stop 500 ''could not prepare web image pin''
                (env_op (tempWebGamePinEnvFile (tg_EnvFile target) (web_pin req) (wc_stage wc)))) (\<lambda>temp s.
       after_temp (wc_stage wc) temp
         (bind_op (web_checks cfg target req wc temp) (\<lambda>_.
          bind_op (web_journal target req wc) (\<lambda>_. web_journaled_work cfg target req wc)) s)))"

definition handleWebGameDeploy ::
    "config \<Rightarrow> bool \<Rightarrow> string \<Rightarrow> bool \<Rightarrow> web_calls \<Rightarrow> site \<Rightarrow> webGameDeployResponse reply outcome \<times> site" where
  "handleWebGameDeploy cfg isPost body dockerOK wc s =
     (if \<not> isPost then (Return (error_reply 405 ''POST only''), s)
      else case decode_web_request body of
        None \<Rightarrow> (Return (error_reply 400 ''invalid web deployment request''), s)
      | Some r \<Rightarrow>
          (case bind_r (serverTargetForProject cfg (wr_Project r)) (\<lambda>target.
                  map_sum id (\<lambda>_. target) (validateWebGameDeployTarget (Some (wr_target r)))) of
             Inl e \<Rightarrow> (Return (error_reply 400 ''invalid web deployment target or pin''), s)
           | Inr target \<Rightarrow>
               (case beginMutation dockerOK [] (site_coord s) of
                  (Wait, cancel, c) \<Rightarrow> (Wait, on_coord (\<lambda>_. c) s)
                | (Return (Inl e), cancel, c) \<Rightarrow> (Return (admission_reply e), on_coord (\<lambda>_. c) s)
                | (Return (Inr l), cancel, c) \<Rightarrow>
                    let (res, s') = web_leased cfg target (wr_target r) wc (on_coord (\<lambda>_. c) s)
                    in (Return (case res of Inl rep \<Rightarrow> rep | Inr rep \<Rightarrow> rep), on_coord (lease_done l) s'))))"

section \<open>Repair\<close>

definition repairWebGameDeploy ::
    "config \<Rightarrow> serverTarget \<Rightarrow> lifecycleJournal \<Rightarrow> docker \<Rightarrow> docker \<Rightarrow> string files \<Rightarrow> unit result" where
  "repairWebGameDeploy cfg target j docker_up docker_inspect fs =
     bind_r (validateWebGameDeployTarget (lj_WebGameTarget j)) (\<lambda>_.
       case lj_WebGameTarget j of
         None \<Rightarrow> Inl (Err ''web deployment requires a commit SHA, sha256 digest and expected current web pin'')
       | Some approved \<Rightarrow>
           bind_r (requireRegisteredWebGameTarget cfg target approved fs) (\<lambda>_.
           bind_r (readWebGamePin (tg_EnvFile target) fs) (\<lambda>pin.
             if pin = wt_ExpectedWebGameTag approved \<and> pin \<noteq> web_pin approved \<and>
                lj_Stage j = lifecycleJournalStagePrepared
             then verifyWebGamePin docker_inspect target pin fs
             else if pin \<noteq> web_pin approved
             then Inl (Err ''web recovery desired pin differs from the journal target'')
             else bind_r (upWebGame cfg docker_up (tg_Project target) (tg_EnvFile target) fs)
                    (\<lambda>_. verifyWebGamePin docker_inspect target (web_pin approved) fs))))"

end
