(* ===== verification/WebDeployLaws.thy ===== *)
theory WebDeployLaws
  imports WebDeploy
begin

text \<open>
  The laws of the web deployment: the exact effect of the durable pin, what a reply of the
  handler says about the env file, the journal and the fence, and what a repair has verified.
\<close>

section \<open>The pin\<close>

lemma pin_printable:
  assumes "webGamePinnedTagRE pin"
  shows "newline \<notin> set pin" and "pin \<noteq> []"
proof -
  have p: "printable (take 40 pin)" "printable (drop 48 pin)"
    using assms hex_printable by (auto simp: webGamePinnedTagRE_def)
  obtain r where r: "drop 40 pin = ''@sha256:'' @ r"
    using assms by (auto simp: webGamePinnedTagRE_def dest!: has_prefixE)
  have "drop 48 pin = drop 8 (drop 40 pin)" by simp
  then have "drop 48 pin = r" by (simp add: r)
  then have pin: "pin = take 40 pin @ ''@sha256:'' @ drop 48 pin"
    using r append_take_drop_id[of 40 pin] by metis
  have "printable ''@sha256:''" by code_simp
  with p have "printable pin" by (subst pin) (simp only: printable_append)
  then show "newline \<notin> set pin" by (auto simp: printable_def list_all_iff byte_def)
  show "pin \<noteq> []" using pin by auto
qed

lemma set_pin_is_kv: "key_is ''WEB_GAME_TAG'' l \<Longrightarrow> set_pin_line pin l = kv_line ''WEB_GAME_TAG'' pin"
  by (cases l) (simp add: set_pin_line_def kv_line_def key_is_def)

lemma set_pin_other: "\<not> key_is ''WEB_GAME_TAG'' l \<Longrightarrow> set_pin_line pin l = l"
  by (simp add: set_pin_line_def)

lemma key_is_kv_line [simp]: "key_is k (kv_line k' v) \<longleftrightarrow> k = k'"
  by (auto simp: key_is_def kv_line_def)

lemma key_is_set_pin [simp]: "key_is k (set_pin_line pin l) = key_is k l"
  by (cases "key_is ''WEB_GAME_TAG'' l") (simp add: set_pin_is_kv, auto simp: key_is_def set_pin_line_def)

lemma pinned_others:
  "filter (\<lambda>l. \<not> key_is ''WEB_GAME_TAG'' l) (pinned_lines pin ls) = filter (\<lambda>l. \<not> key_is ''WEB_GAME_TAG'' l) ls"
proof -
  have "filter (\<lambda>l. \<not> key_is ''WEB_GAME_TAG'' l) (map (set_pin_line pin) ls) = filter (\<lambda>l. \<not> key_is ''WEB_GAME_TAG'' l) ls"
    by (induction ls) (auto simp: set_pin_other)
  then show ?thesis by (simp add: pinned_lines_def)
qed

lemma pinned_key:
  assumes "length (filter (key_is ''WEB_GAME_TAG'') ls) \<le> 1"
  shows "filter (key_is ''WEB_GAME_TAG'') (pinned_lines pin ls) = [kv_line ''WEB_GAME_TAG'' pin]"
proof -
  have "filter (key_is ''WEB_GAME_TAG'') (map (set_pin_line pin) ls) =
      map (\<lambda>_. kv_line ''WEB_GAME_TAG'' pin) (filter (key_is ''WEB_GAME_TAG'') ls)"
    by (induction ls) (auto simp: set_pin_is_kv)
  moreover have "list_ex (key_is ''WEB_GAME_TAG'') ls \<longleftrightarrow> filter (key_is ''WEB_GAME_TAG'') ls \<noteq> []"
    by (simp add: list_ex_iff filter_empty_conv)
  ultimately show ?thesis using assms
    by (cases "filter (key_is ''WEB_GAME_TAG'') ls") (auto simp: pinned_lines_def)
qed

lemma pinned_ok:
  assumes "list_all ln_ok ls" and "webGamePinnedTagRE pin"
  shows "list_all ln_ok (pinned_lines pin ls)"
proof -
  have "isEnvKey ''WEB_GAME_TAG''" by code_simp
  then have kv: "ln_ok (kv_line ''WEB_GAME_TAG'' pin)" by (rule kv_line_ok) (rule pin_printable(1)[OF assms(2)])
  then have "ln_ok (set_pin_line pin l)" if "ln_ok l" for l
    using that by (cases "key_is ''WEB_GAME_TAG'' l") (simp_all add: set_pin_is_kv set_pin_other)
  with assms(1) kv show ?thesis by (auto simp: pinned_lines_def list_all_iff)
qed

lemma distinct_count: "distinct xs \<longleftrightarrow> (\<forall>k. count_list xs k \<le> 1)"
proof (induction xs)
  case (Cons x xs)
  show ?case
  proof
    assume "distinct (x # xs)"
    then show "\<forall>k. count_list (x # xs) k \<le> 1" using Cons by (simp add: count_list_0_iff)
  next
    assume c: "\<forall>k. count_list (x # xs) k \<le> 1"
    have "count_list xs k \<le> 1" for k using spec[OF c, of k] by (cases "x = k") simp_all
    moreover have "count_list xs x = 0" using spec[OF c, of x] by simp
    ultimately show "distinct (x # xs)" using Cons by (simp add: count_list_0_iff)
  qed
qed simp

text \<open>The scoped keys are set at most once, and stay so.\<close>

definition scoped_once :: "envLine list \<Rightarrow> bool" where
  "scoped_once ls \<longleftrightarrow> (\<forall>k\<in>set web_scoped_keys. length (filter (key_is k) ls) \<le> 1)"

lemma scoped_distinct:
  "distinct (filter (\<lambda>k. k \<in> set web_scoped_keys) (map ln_Key (filter ln_IsKV ls))) \<longleftrightarrow> scoped_once ls"
proof -
  let ?ks = "filter (\<lambda>k. k \<in> set web_scoped_keys) (map ln_Key (filter ln_IsKV ls))"
  have e: "key_is k = (\<lambda>l. ln_IsKV l \<and> ln_Key l = k)" for k by (rule ext) (simp add: key_is_def)
  have c: "count_list ?ks k = (if k \<in> set web_scoped_keys then length (filter (key_is k) ls) else 0)" for k
    unfolding e by (induction ls) auto
  have "distinct ?ks \<longleftrightarrow> (\<forall>k. count_list ?ks k \<le> 1)"
    by (simp only: distinct_count[of ?ks])
  then show ?thesis unfolding c scoped_once_def by auto
qed

lemma uniqueness_iff:
  "validateWebGameEnvUniqueness envFile fs = Inr u \<longleftrightarrow> (\<exists>ls. readEnvLines envFile fs = Inr ls \<and> scoped_once ls)"
  by (auto simp: validateWebGameEnvUniqueness_def bind_r_ok scoped_distinct)

lemma pinned_scoped:
  assumes "scoped_once ls"
  shows "scoped_once (pinned_lines pin ls)"
proof -
  have "length (filter (key_is k) (pinned_lines pin ls)) \<le> 1" if k: "k \<in> set web_scoped_keys" for k
  proof (cases "k = ''WEB_GAME_TAG''")
    case True
    have "length (filter (key_is ''WEB_GAME_TAG'') ls) \<le> 1" using assms k True by (simp add: scoped_once_def)
    from pinned_key[OF this] show ?thesis by (simp add: True)
  next
    case False
    have f: "filter (key_is k) xs = filter (key_is k) (filter (\<lambda>l. \<not> key_is ''WEB_GAME_TAG'' l) xs)" for xs
      using False by (induction xs) (auto simp: key_is_def)
    have "length (filter (key_is k) ls) \<le> 1" using assms k by (simp add: scoped_once_def)
    then show ?thesis by (subst f) (simp only: pinned_others f[symmetric])
  qed
  then show ?thesis by (simp add: scoped_once_def)
qed

lemma pin_value:
  assumes "readEnvLines envFile fs = Inr (pinned_lines pin ls)" and "scoped_once ls" and "pin \<noteq> []"
  shows "readWebGamePin envFile fs = Inr pin"
proof -
  have k: "filter (key_is ''WEB_GAME_TAG'') (pinned_lines pin ls) = [kv_line ''WEB_GAME_TAG'' pin]"
    using assms(2) by (intro pinned_key) (simp add: scoped_once_def web_scoped_keys_def)
  have u: "validateWebGameEnvUniqueness envFile fs = Inr ()"
    using assms(1) pinned_scoped[OF assms(2)] by (simp add: uniqueness_iff)
  have "map_of (envValuesFromLines (pinned_lines pin ls)) ''WEB_GAME_TAG'' = Some pin"
    unfolding env_values_last k by (simp add: kv_line_def)
  then show ?thesis
    using assms(1,3) u by (simp add: readWebGamePin_def readEnvValues_def gm_str_def envOrValue_def)
qed

lemma pinned_values:
  "k \<noteq> ''WEB_GAME_TAG'' \<Longrightarrow>
   map_of (envValuesFromLines (pinned_lines pin ls)) k = map_of (envValuesFromLines ls) k"
proof -
  assume k: "k \<noteq> ''WEB_GAME_TAG''"
  have f: "filter (key_is k) xs = filter (key_is k) (filter (\<lambda>l. \<not> key_is ''WEB_GAME_TAG'' l) xs)" for xs
    using k by (induction xs) (auto simp: key_is_def)
  have "filter (key_is k) (pinned_lines pin ls) = filter (key_is k) ls"
    by (subst f) (simp only: pinned_others f[symmetric])
  then show ?thesis by (simp only: env_values_last)
qed

lemma durable_lines:
  assumes "ans_tmp a \<noteq> path" and "list_all ln_ok ls"
  shows "data_at (w_fs (writeEnvLinesAtomicDurable path ls a fs)) path = data_at fs path \<or>
     readEnvLines path (w_fs (writeEnvLinesAtomicDurable path ls a fs)) = Inr ls"
    and "w_err (writeEnvLinesAtomicDurable path ls a fs) = None \<Longrightarrow>
     readEnvLines path (w_fs (writeEnvLinesAtomicDurable path ls a fs)) = Inr ls"
  using durable_data[OF assms(1), of "render_lines ls" fs] durable_done[OF _ assms(1), of "render_lines ls" fs]
    readEnvLines_data[OF _ assms(2)]
  by (auto simp: writeEnvLinesAtomicDurable_def split: if_splits)

lemma pin_write_cases:
  assumes "ans_tmp a \<noteq> envFile" and "writeWebGamePinDurable envFile pin a fs = (res, fs')"
  shows "(\<exists>e. res = Inl e \<and> data_at fs' envFile = data_at fs envFile) \<or>
    (\<exists>ls. readEnvLines envFile fs = Inr ls \<and> scoped_once ls \<and> webGamePinnedTagRE pin \<and>
      readEnvLines envFile fs' = Inr (pinned_lines pin ls))"
proof (cases "bind_r (require (webGamePinnedTagRE pin) ''invalid durable web image pin'') (\<lambda>_.
         bind_r (validateWebGameEnvUniqueness envFile fs) (\<lambda>_. readEnvLines envFile fs))")
  case (Inl e)
  then show ?thesis using assms(2) by (auto simp add: writeWebGamePinDurable_def)
next
  case (Inr ls)
  then have c: "webGamePinnedTagRE pin" "readEnvLines envFile fs = Inr ls" "scoped_once ls"
    by (auto simp: bind_r_ok uniqueness_iff)
  let ?w = "writeEnvLinesAtomicDurable envFile (pinned_lines pin ls) a fs"
  have w: "res = no_error (w_err ?w)" "fs' = w_fs ?w"
    using assms(2) unfolding writeWebGamePinDurable_def Inr by (simp_all add: Let_def)
  note d = durable_lines[OF assms(1) pinned_ok[OF read_lines_ok[OF c(2)] c(1)], of fs]
  show ?thesis
  proof (cases "w_err ?w")
    case None
    then show ?thesis using d(2) c w by auto
  next
    case (Some e)
    then show ?thesis using d(1) c w by (auto simp: no_error_def)
  qed
qed

lemma web_pin_written:
  assumes "ans_tmp a \<noteq> envFile" and "fst (writeWebGamePinDurable envFile pin a fs) = Inr u"
  shows "readWebGamePin envFile (snd (writeWebGamePinDurable envFile pin a fs)) = Inr pin"
proof -
  obtain res fs' where w: "writeWebGamePinDurable envFile pin a fs = (res, fs')" by fastforce
  then obtain ls where "readEnvLines envFile fs' = Inr (pinned_lines pin ls)" "scoped_once ls" "webGamePinnedTagRE pin"
    using pin_write_cases[OF assms(1) w] assms(2) by auto
  then show ?thesis using pin_value pin_printable(2) w by simp
qed

text \<open>
  The durable pin changes one line. When it is reported as written, the env file read back
  has exactly one pin line, with the pin, the other lines are those from before in their
  order, and every other key has its old value; the reader of the pin returns it. When an
  error is reported, the file is as before or already in that state. A file that sets a
  scoped key twice is refused unchanged.
\<close>

theorem web_pin_exact:
  assumes "ans_tmp a \<noteq> envFile" and "writeWebGamePinDurable envFile pin a fs = (res, fs')"
  shows "case res of
      Inl e \<Rightarrow> data_at fs' envFile = data_at fs envFile \<or> readWebGamePin envFile fs' = Inr pin
    | Inr u \<Rightarrow> (\<exists>ls ls'. readEnvLines envFile fs = Inr ls \<and> readEnvLines envFile fs' = Inr ls' \<and>
        filter (key_is ''WEB_GAME_TAG'') ls' = [kv_line ''WEB_GAME_TAG'' pin] \<and>
        filter (\<lambda>l. \<not> key_is ''WEB_GAME_TAG'' l) ls' = filter (\<lambda>l. \<not> key_is ''WEB_GAME_TAG'' l) ls \<and>
        (\<forall>k. k \<noteq> ''WEB_GAME_TAG'' \<longrightarrow> map_of (envValuesFromLines ls') k = map_of (envValuesFromLines ls) k) \<and>
        readWebGamePin envFile fs' = Inr pin)"
proof (cases res)
  case (Inl e)
  then show ?thesis using pin_write_cases[OF assms] pin_value pin_printable(2) by auto
next
  case (Inr u)
  then obtain ls where ls: "readEnvLines envFile fs = Inr ls" "scoped_once ls" "webGamePinnedTagRE pin"
    "readEnvLines envFile fs' = Inr (pinned_lines pin ls)"
    using pin_write_cases[OF assms] by auto
  have "filter (key_is ''WEB_GAME_TAG'') (pinned_lines pin ls) = [kv_line ''WEB_GAME_TAG'' pin]"
    using ls(2) by (intro pinned_key) (simp add: scoped_once_def web_scoped_keys_def)
  then show ?thesis
    using Inr ls pinned_others pinned_values pin_value[OF ls(4,2)] pin_printable(2)[OF ls(3)] by auto
qed

theorem web_pin_exact_witness:
  "readWebGamePin ''/e'' (snd (writeWebGamePinDurable ''/e'' (ex_tag @ ''@'' @ ex_digest CHR ''b'') (all_well ''/t'')
     ex_env_files)) = Inr (ex_tag @ ''@'' @ ex_digest CHR ''b'')"
proof -
  let ?w = "writeWebGamePinDurable ''/e'' (ex_tag @ ''@'' @ ex_digest CHR ''b'') (all_well ''/t'') ex_env_files"
  have ok: "fst ?w = Inr ()" and n: "ans_tmp (all_well ''/t'') \<noteq> ''/e''" by code_simp+
  have w: "?w = (Inr (), snd ?w)" unfolding ok[symmetric] by (rule surjective_pairing)
  show ?thesis using web_pin_exact[OF n w] by auto
qed

section \<open>The handler\<close>

lemma begin_keeps:
  assumes "beginMutation ok [] c = (r, cancel, c')"
  shows "co_journalPath c' = co_journalPath c \<and> co_journalPending c' = co_journalPending c"
  using assms by (auto simp: beginMutation_def begin_try_def new_lease_def Let_def split: if_splits)

lemma lease_done_keeps [simp]:
  "co_journalPath (lease_done l c) = co_journalPath c" "co_journalPending (lease_done l c) = co_journalPending c"
  by (auto simp: lease_done_def cancel_ctx_def Let_def split: option.splits)

lemma env_op_snd: "snd (env_op f s) = s\<lparr>si_env := snd (f (si_env s))\<rparr>"
  by (simp add: env_op_def split_beta)

lemma env_op_ok: "env_op f s = (Inr y, t) \<longleftrightarrow> fst (f (si_env s)) = Inr y \<and> t = s\<lparr>si_env := snd (f (si_env s))\<rparr>"
  by (auto simp: env_op_def split_beta)

lemma env_check_ok [simp]: "env_check f s = (Inr y, t) \<longleftrightarrow> f (si_env s) = Inr y \<and> t = s"
  by (simp add: env_check_def)

lemma env_check_snd [simp]: "snd (env_check f s) = s"
  by (simp add: env_check_def)

text \<open>The document of a web deployment.\<close>

definition web_document :: "serverTarget \<Rightarrow> webGameDeployTarget \<Rightarrow> lifecycleJournal" where
  "web_document target req = \<lparr>lj_Version = 1, lj_Operation = ''deploy-web'', lj_OperationID = [],
     lj_OperationKind = KindNone, lj_Stage = ''prepared'', lj_ServerID = tg_ID target, lj_Project = tg_Project target,
     lj_ResetTarget = None, lj_ResetExecution = None, lj_WebGameTarget = Some req\<rparr>"

lemma web_document_normal:
  assumes "canonical_id sid" and "validateWebGameDeployTarget (Some req) = Inr ()"
  shows "journal_normal cfg (web_document (target_of cfg sid) req)"
proof -
  have "isLifecycleJournalOperation ''deploy-web''" by code_simp
  then have "journal_normal cfg \<lparr>lj_Version = 1, lj_Operation = ''deploy-web'', lj_OperationID = [], lj_OperationKind = KindNone,
    lj_Stage = ''prepared'', lj_ServerID = sid, lj_Project = projectForServerID sid, lj_ResetTarget = None,
    lj_ResetExecution = None, lj_WebGameTarget = Some req\<rparr>"
    using assms by (intro new_journal_normal)
      (simp_all add: validateJournalWebGameTarget_def validateLifecycleJournalOperationLink_def Let_def)
  then show ?thesis by (simp add: web_document_def target_of_def)
qed

lemma advance_covers':
  "advanceLifecycleJournal cfg stage e s = (r, t) \<Longrightarrow> lifecycle_journal.covered cfg (about d) s \<Longrightarrow>
   ans_tmp (snd e) \<noteq> journal_path s \<Longrightarrow> lifecycle_journal.covered cfg (about d) t"
  using advance_covers[of cfg d s e stage] by simp

lemma web_work_covered:
  assumes "lifecycle_journal.covered cfg (about d) s" and "ans_tmp (snd (wc_advance wc)) \<noteq> journal_path s"
  shows "lifecycle_journal.covered cfg (about d) (snd (web_work cfg target req wc s))"
  unfolding web_work_def
proof (rule bind_op_after; (rule bind_op_after)?; (rule bind_op_after)?; (rule bind_op_after)?)
qed (use assms in \<open>auto simp: fail_with_ok env_op_ok env_op_snd intro!: advance_covers elim!: advance_covers'\<close>)

text \<open>After the work the pin is in the file and has been verified, and nothing else of it has changed.\<close>

lemma web_work_done:
  assumes "web_work cfg target req wc s = (Inr u, t)" and "ans_tmp (wc_pin wc) \<noteq> tg_EnvFile target"
    and "readLifecycleJournal cfg s = Inr (Some d)" and "journal_normal cfg d"
    and "ans_tmp (snd (wc_advance wc)) \<noteq> journal_path s"
  shows "readWebGamePin (tg_EnvFile target) (si_env t) = Inr (web_pin req)"
    and "verifyWebGamePin (wc_inspect wc) target (web_pin req) (si_env t) = Inr ()"
proof -
  let ?s = "s\<lparr>si_env := snd (writeWebGamePinDurable (tg_EnvFile target) (web_pin req) (wc_pin wc) (si_env s))\<rparr>"
  have w: "fst (writeWebGamePinDurable (tg_EnvFile target) (web_pin req) (wc_pin wc) (si_env s)) = Inr ()"
    and a: "advanceLifecycleJournal cfg lifecycleJournalStageEnv (wc_advance wc) ?s = (Inr (), t)"
    and v: "verifyWebGamePin (wc_inspect wc) target (web_pin req) (si_env t) = Inr ()"
    using assms(1) by (auto simp: web_work_def bind_op_ok fail_with_ok env_op_ok)
  have "readLifecycleJournal cfg ?s = Inr (Some d)" using assms(3) by (simp add: readLifecycleJournal_def)
  from advance_done[OF a this assms(4)] assms(5) have "si_env t = si_env ?s" by simp
  moreover have "readWebGamePin (tg_EnvFile target) (si_env ?s) = Inr (web_pin req)"
    using web_pin_written[OF assms(2)] w by (simp add: surjective_pairing[symmetric])
  ultimately show "readWebGamePin (tg_EnvFile target) (si_env t) = Inr (web_pin req)" by simp
  show "verifyWebGamePin (wc_inspect wc) target (web_pin req) (si_env t) = Inr ()" by (rule v)
qed

text \<open>The temporary names a deployment is given are not those of the env file and the journal.\<close>

definition web_names_apart :: "web_calls \<Rightarrow> serverTarget \<Rightarrow> site \<Rightarrow> bool" where
  "web_names_apart wc target s \<longleftrightarrow>
     sc_name (wc_stage wc) \<noteq> Some (tg_EnvFile target) \<and> ans_tmp (sc_patch (wc_stage wc)) \<noteq> tg_EnvFile target \<and>
     ans_tmp (wc_pin wc) \<noteq> tg_EnvFile target \<and>
     ans_tmp (snd (wc_journal wc)) \<noteq> journal_path s \<and> ans_tmp (snd (wc_advance wc)) \<noteq> journal_path s"

lemma web_checks_snd [simp]: "snd (web_checks cfg target req wc temp s) = s"
  unfolding web_checks_def by (rule bind_op_after; (rule bind_op_after)?) (auto simp: fail_with_ok)

lemma journal_write_failed_env:
  assumes "writeLifecycleJournalWithResetTarget operation target rt opid k web e s = (Inl x, t)"
    and "ans_tmp (snd e) \<noteq> journal_path s"
  shows "si_env t = si_env s"
  using assms(1) write_record_stopped(4)[OF _ assms(2)]
  unfolding writeLifecycleJournalWithResetTarget_def
  by (auto simp: bind_op_def split: if_split_asm sum.split_asm prod.split_asm)

lemma web_journal_covers:
  assumes "web_journal target req wc s = (Inr u, t)" and "target = target_of cfg sid" and "canonical_id sid"
    and "validateWebGameDeployTarget (Some req) = Inr ()" and "journal_good cfg s"
    and "ans_tmp (snd (wc_journal wc)) \<noteq> journal_path s"
  shows "lifecycle_journal.covered cfg (about (web_document target req)) t" and "journal_path t = journal_path s"
    and "si_env t = si_env s" and "readLifecycleJournal cfg t = Inr (Some (web_document target req))"
proof -
  have n: "journal_normal cfg (web_document target req)" using web_document_normal assms(2-4) by simp
  then have d: "new_document cfg (web_document target req) (wc_journal wc) s"
    using assms(6) by (simp add: new_document_def web_document_def)
  have w: "write_new_journal (web_document target req) (wc_journal wc) s = (Inr (), t)"
    using assms(1) by (auto simp: web_journal_def fail_with_ok write_as_document web_document_def)
  show "lifecycle_journal.covered cfg (about (web_document target req)) t"
    by (rule lifecycle_journal.written_covers[OF assms(5) d w]) (simp add: about_def)
  show "journal_path t = journal_path s" "si_env t = si_env s"
    "readLifecycleJournal cfg t = Inr (Some (web_document target req))"
    using new_document_written[OF d w] by simp_all
qed

lemma web_journaled_work_outcome:
  assumes "web_journaled_work cfg target req wc s = (res, t)" and "journal_normal cfg d"
    and "lifecycle_journal.covered cfg (about d) s" and "readLifecycleJournal cfg s = Inr (Some d)"
    and "ans_tmp (wc_pin wc) \<noteq> tg_EnvFile target" and "ans_tmp (snd (wc_advance wc)) \<noteq> journal_path s"
  shows "case res of Inl _ \<Rightarrow> co_journalPending (site_coord t)
    | Inr rep \<Rightarrow> rp_status rep = 200 \<and> readLifecycleJournal cfg t = Inr None \<and>
        readWebGamePin (tg_EnvFile target) (si_env t) = Inr (web_pin req) \<and>
        verifyWebGamePin (wc_inspect wc) target (web_pin req) (si_env t) = Inr ()"
proof -
  note b = lifecycle_journal.bracketed_work[OF web_work_covered[OF assms(3,6)] assms(1)[unfolded web_journaled_work_def]]
  show ?thesis
  proof (cases res)
    case (Inl e)
    then show ?thesis using b by simp
  next
    case (Inr rep)
    then have "\<exists>u. web_work cfg target req wc s = (Inr () :: webGameDeployResponse reply + unit, u) \<and>
        clearLifecycleJournal (wc_clear wc) u = (Inr (), t)"
      and r: "rp_status rep = 200"
      using assms(1) by (auto simp: web_journaled_work_def bind_op_ok fail_with_ok ok_reply_def)
    then obtain u where u: "web_work cfg target req wc s = (Inr () :: webGameDeployResponse reply + unit, u)"
      and c: "clearLifecycleJournal (wc_clear wc) u = (Inr (), t)" by blast
    have "si_env t = si_env u" using journal_cleared[where e = "wc_clear wc" and s = u] c by simp
    then show ?thesis using b Inr r web_work_done[OF u assms(5,4,2,6)] by simp
  qed
qed

lemma error_reply_status [simp]: "rp_status (error_reply n msg) = n"
  by (simp add: error_reply_def)

lemma admission_reply_status [simp]: "rp_status (admission_reply e) \<noteq> 200"
  by (cases e) (simp_all add: admission_reply_def writeMutationAdmissionError_def Let_def)

lemma web_errors:
  "web_checks cfg target req wc temp s = (Inl e, t) \<Longrightarrow> rp_status e \<noteq> 200"
  "web_journal target req wc s = (Inl e, t) \<Longrightarrow> rp_status e \<noteq> 200"
  "web_work cfg target req wc s = (Inl e, t) \<Longrightarrow> rp_status e \<noteq> 200"
  by (auto simp: web_checks_def web_journal_def web_work_def fail_with_failed elim!: bind_op_cases)

lemma web_journaled_errors:
  "web_journaled_work cfg target req wc s = (Inl e, t) \<Longrightarrow> rp_status e \<noteq> 200"
  by (auto simp: web_journaled_work_def fail_with_failed lift_op_def elim!: bind_op_cases dest: web_errors)

text \<open>The part under the journal, and the part with the staged copy.\<close>

lemma web_inner_outcome:
  assumes "bind_op (web_checks cfg target req wc temp) (\<lambda>_.
      bind_op (web_journal target req wc) (\<lambda>_. web_journaled_work cfg target req wc)) s = (res, t)"
    and "target = target_of cfg sid" and "canonical_id sid"
    and "validateWebGameDeployTarget (Some req) = Inr ()" and "journal_good cfg s" and "web_names_apart wc target s"
  shows "case res of
      Inl rep \<Rightarrow> rp_status rep \<noteq> 200 \<and> (co_journalPending (site_coord t) \<or> si_env t = si_env s)
    | Inr rep \<Rightarrow> rp_status rep = 200 \<and> readLifecycleJournal cfg t = Inr None \<and>
        readWebGamePin (tg_EnvFile target) (si_env t) = Inr (web_pin req) \<and>
        verifyWebGamePin (wc_inspect wc) target (web_pin req) (si_env t) = Inr ()"
  using assms(1)
proof (cases rule: bind_op_cases)
  case (stopped e)
  have "t = s" using arg_cong[OF stopped(1), of snd] by simp
  then show ?thesis using stopped(2) web_errors(1)[OF stopped(1)] by simp
next
  case (goes_on x s1)
  have s1: "s1 = s" using arg_cong[OF goes_on(1), of snd] by simp
  from goes_on(2) show ?thesis unfolding s1
  proof (cases rule: bind_op_cases)
    case (stopped e)
    then obtain x where "writeLifecycleJournalWithResetTarget ''deploy-web'' target None [] KindNone (Some req)
        (wc_journal wc) s = (Inl x, t)" by (auto simp: web_journal_def fail_with_failed)
    then have "si_env t = si_env s"
      using journal_write_failed_env assms(6) by (simp add: web_names_apart_def)
    then show ?thesis using stopped(2) web_errors(2)[OF stopped(1)] by simp
  next
    case (goes_on y u)
    have "ans_tmp (snd (wc_journal wc)) \<noteq> journal_path s" using assms(6) by (simp add: web_names_apart_def)
    note j = web_journal_covers[OF goes_on(1) assms(2-5) this]
    have "journal_normal cfg (web_document target req)" using web_document_normal assms(2-4) by simp
    from web_journaled_work_outcome[OF goes_on(2) this j(1,4)] assms(6) j(2)
    show ?thesis using goes_on(2) web_journaled_errors
      by (cases res) (simp_all add: web_names_apart_def)
  qed
qed

lemma drop_temp_frame: "sc_name sc = Some n \<Longrightarrow> sc_name sc \<noteq> Some p \<Longrightarrow> drop_temp sc n fs p = fs p"
  by (auto simp: drop_temp_def)

lemma env_file_only:
  assumes "fs' p = fs p"
  shows "readWebGamePin p fs' = readWebGamePin p fs" and "readEnvValues p fs' = readEnvValues p fs"
proof -
  have l: "readEnvLines p fs' = readEnvLines p fs" using assms by (simp add: readEnvLines_def data_at_def)
  then show "readEnvValues p fs' = readEnvValues p fs" by (simp add: readEnvValues_def)
  then show "readWebGamePin p fs' = readWebGamePin p fs"
    using l by (simp add: readWebGamePin_def validateWebGameEnvUniqueness_def)
qed

lemma web_leased_outcome:
  assumes "web_leased cfg target req wc s = (res, t)" and "target = target_of cfg sid" and "canonical_id sid"
    and "validateWebGameDeployTarget (Some req) = Inr ()" and "journal_good cfg s" and "web_names_apart wc target s"
  shows "case res of
      Inl rep \<Rightarrow> rp_status rep \<noteq> 200 \<and>
        (co_journalPending (site_coord t) \<or> si_env t (tg_EnvFile target) = si_env s (tg_EnvFile target))
    | Inr rep \<Rightarrow> rp_status rep = 200 \<and> readLifecycleJournal cfg t = Inr None \<and>
        readWebGamePin (tg_EnvFile target) (si_env t) = Inr (web_pin req) \<and>
        verifyWebGamePin (wc_inspect wc) target (web_pin req) (si_env t) = Inr ()"
  using assms(1) unfolding web_leased_def
proof (cases rule: bind_op_cases)
  case (stopped e)
  then show ?thesis by (auto simp: fail_with_failed dest!: arg_cong[of _ _ snd])
next
  case (goes_on x s0)
  then have s0: "s0 = s" by (simp add: fail_with_ok)
  let ?p = "tg_EnvFile target" and ?copy = "tempWebGamePinEnvFile (tg_EnvFile target) (web_pin req) (wc_stage wc) (si_env s)"
  have copy: "snd ?copy ?p = si_env s ?p" unfolding tempWebGamePinEnvFile_def
    by (rule stage_copy_frame) (use assms(6) patch_copy_frame in \<open>auto simp: web_names_apart_def\<close>)
  from goes_on(2) show ?thesis unfolding s0
  proof (cases rule: bind_op_cases)
    case (stopped e)
    then have "rp_status e = 500" "snd (env_op (tempWebGamePinEnvFile ?p (web_pin req) (wc_stage wc)) s) = t"
      by (auto simp: fail_with_failed)
    then show ?thesis using stopped(2) copy by (auto simp: env_op_snd)
  next
    case (goes_on temp s1)
    then have s1: "s1 = s\<lparr>si_env := snd ?copy\<rparr>" and n: "sc_name (wc_stage wc) = Some temp"
      by (auto simp: fail_with_ok env_op_ok tempWebGamePinEnvFile_def dest: stage_copy_name)
    obtain res0 t0 where i: "bind_op (web_checks cfg target req wc temp) (\<lambda>_.
      bind_op (web_journal target req wc) (\<lambda>_. web_journaled_work cfg target req wc)) s1 = (res0, t0)" by fastforce
    have t: "res = res0" "t = t0\<lparr>si_env := drop_temp (wc_stage wc) temp (si_env t0)\<rparr>"
      using goes_on(2) i by (simp_all add: after_temp_def)
    have g: "journal_good cfg s1" "web_names_apart wc target s1"
      using assms(5,6) by (simp_all add: s1 journal_good_def readLifecycleJournal_def web_names_apart_def)
    have "si_env t ?p = si_env t0 ?p" using drop_temp_frame[OF n] assms(6) by (simp add: t web_names_apart_def)
    note f = env_file_only[where p = ?p and fs' = "si_env t" and fs = "si_env t0", OF this]
    have v: "verifyWebGamePin (wc_inspect wc) target (web_pin req) (si_env t) =
        verifyWebGamePin (wc_inspect wc) target (web_pin req) (si_env t0)" by (simp add: verifyWebGamePin_def f(2))
    have "readLifecycleJournal cfg t = readLifecycleJournal cfg t0" by (simp add: t readLifecycleJournal_def)
    then show ?thesis
      using web_inner_outcome[OF i assms(2-4) g] \<open>si_env t ?p = si_env t0 ?p\<close> copy v f(1)
      by (cases res0) (auto simp: t(1) s1, auto simp: t(2))
  qed
qed


text \<open>An example deployment in which every step succeeds.\<close>

definition ex_web_target :: webGameDeployTarget where
  "ex_web_target = \<lparr>wt_Tag = ex_tag, wt_Digest = ex_digest CHR ''b'', wt_ExpectedWebGameTag = ''v1'',
     wt_ExpectedWorldID = 1, wt_ExpectedGeneration = 1\<rparr>"

definition ex_web_body :: string where
  "ex_web_body = json_text (JObj [(''project'', JStr ''opensamguk-spep1''), (''tag'', JStr ex_tag),
     (''digest'', JStr (ex_digest CHR ''b'')), (''expectedWebGameTag'', JStr ''v1''),
     (''expectedWorldId'', JNum ''1''), (''expectedGeneration'', JNum ''1'')])"

lemma ex_web_decoded:
  "decode_web_request ex_web_body = Some \<lparr>wr_Project = ''opensamguk-spep1'', wr_target = ex_web_target\<rparr>"
proof -
  let ?j = "JObj [(''project'', JStr ''opensamguk-spep1''), (''tag'', JStr ex_tag),
     (''digest'', JStr (ex_digest CHR ''b'')), (''expectedWebGameTag'', JStr ''v1''),
     (''expectedWorldId'', JNum ''1''), (''expectedGeneration'', JNum ''1'')]"
  have "json_ok ?j" by code_simp
  then have "parse_json ex_web_body = Some ?j" unfolding ex_web_body_def by (rule parse_json_text)
  moreover have "length ex_web_body < 1000" by code_simp
  moreover have "(case ?j of JObj ms \<Rightarrow> decode_web_members zero_web_request ms | _ \<Rightarrow> None) =
      Some \<lparr>wr_Project = ''opensamguk-spep1'', wr_target = ex_web_target\<rparr>" by code_simp
  ultimately show ?thesis by (simp add: decode_web_request_def)
qed

definition ex_web_calls :: web_calls where
  "ex_web_calls = (let docker = (\<lambda>args. Inr (''ghcr.io/peppone-choi/opensamguk@'' @ ex_digest CHR ''b'')) in
     \<lparr>wc_stage = \<lparr>sc_name = Some ''/workspace/servers/w.env'', sc_write = True, sc_close = True, sc_chmod = True,
        sc_remove = True, sc_patch = all_well ''/t1''\<rparr>, wc_pull = docker, wc_cancelled1 = False,
      wc_journal = journal_well, wc_cancelled2 = False, wc_pin = all_well ''/t2'', wc_advance = journal_well,
      wc_up = docker, wc_inspect = docker, wc_clear = (True, True)\<rparr>)"


section \<open>Repair\<close>

text \<open>A repair that succeeds has verified the running image against the pin of the env file.\<close>

lemma web_repair_verified:
  assumes "repairWebGameDeploy cfg target j docker_up docker_inspect fs = Inr ()"
  shows "\<exists>approved pin. lj_WebGameTarget j = Some approved \<and> readWebGamePin (tg_EnvFile target) fs = Inr pin \<and>
    (pin = web_pin approved \<or>
     pin = wt_ExpectedWebGameTag approved \<and> lj_Stage j = lifecycleJournalStagePrepared) \<and>
    verifyWebGamePin docker_inspect target pin fs = Inr ()"
  using assms by (auto simp: repairWebGameDeploy_def bind_r_ok split: option.splits if_splits)

end
