(* ===== verification/Stack.thy ===== *)
theory Stack
  imports Handler EnvFileLaws
begin

text \<open>
  The compose calls of main.go on the stack of one server and on the shared stack. Each
  checks the server's env file against its project before docker is asked; the destructive
  one refuses the shared project. The texts docker prints are kept where a reply shows them.
\<close>

section \<open>Lists of services\<close>

definition sharedRegistryReloadServices :: "string list" where
  "sharedRegistryReloadServices = [''web-gateway'', ''nginx'']"

definition withoutService :: "string list \<Rightarrow> string \<Rightarrow> string list" where
  "withoutService values' remove = filter (\<lambda>v. v \<noteq> remove) values'"

fun append_new :: "string list \<Rightarrow> string list \<Rightarrow> string list" where
  "append_new out [] = out"
| "append_new out (v # vs) = (if v = [] \<or> v \<in> set out then append_new out vs else append_new (out @ [v]) vs)"

definition appendUnique :: "string list \<Rightarrow> string list list \<Rightarrow> string list" where
  "appendUnique values' additions = foldl append_new (append_new [] values') additions"

section \<open>The stack of a server\<close>

definition check_env :: "(string files \<Rightarrow> 'a result) \<Rightarrow> (run, 'a) operation" where
  "check_env f = look (\<lambda>s. f (si_env s))"

text \<open>A change of the env files that reports an error or none.\<close>

definition change_env :: "(calls \<Rightarrow> string files \<Rightarrow> err option \<times> string files) \<Rightarrow> (run, unit) operation" where
  "change_env f = act (\<lambda>c s. let (e, fs) = f c (si_env s) in (no_error e, s\<lparr>si_env := fs\<rparr>))"

definition drop_value :: "(run, 'a) operation \<Rightarrow> (run, unit) operation" where
  "drop_value m = bind_op m (\<lambda>_. look (\<lambda>_. Inr ()))"

definition upServerStack :: "config \<Rightarrow> string \<Rightarrow> string \<Rightarrow> (run, unit) operation" where
  "upServerStack cfg project envFile =
     bind_op (check_env (validateDockerServerTarget cfg project envFile False)) (\<lambda>_.
       drop_value (run_docker (server_compose cfg project envFile [''up'', ''-d''])))"

definition down_command :: "config \<Rightarrow> string \<Rightarrow> string \<Rightarrow> string list" where
  "down_command cfg project envFile =
     server_compose cfg project envFile [''down'', ''--volumes'', ''--remove-orphans'']"

definition downServerStack :: "config \<Rightarrow> string \<Rightarrow> string \<Rightarrow> (run, unit) operation" where
  "downServerStack cfg project envFile =
     (if project = sharedComposeProjectName
      then look (\<lambda>_. Inl (Err ''down is refused on the shared project''))
      else bind_op (check_env (validateDockerServerTarget cfg project envFile False)) (\<lambda>_.
        drop_value (run_docker (down_command cfg project envFile))))"

text \<open>
  \<open>pullResetCandidate\<close>: the candidate images are verified, and pulled when they are not yet
  there, through a staged copy of the env file that already has the target's settings. The
  copy is removed at the end; the env file itself is not touched. One answer of docker serves
  the inspections of all images.
\<close>

definition image_format :: string where
  "image_format = ''{\"repoDigests\":{{json .RepoDigests}},\"os\":{{json .Os}},\"architecture\":{{json .Architecture}}}''"

definition inspect_image :: "calls \<Rightarrow> string \<Rightarrow> string result" where
  "inspect_image c reference =
     (if ca_cancelled c then Inl (Err ''context canceled'')
      else docker_result (ca_docker c [''image'', ''inspect'', ''--format'', image_format, reference]))"

definition verify_candidates :: "string \<Rightarrow> resetLifecycleTarget \<Rightarrow> (run, unit) operation" where
  "verify_candidates staged target =
     observe (\<lambda>c s. verifyResetCandidateImages (inspect_image c) staged target (si_env s))"

definition pull_services :: "resetLifecycleTarget \<Rightarrow> string list" where
  "pull_services target = [''game-engine'', ''game-api'', ''web-game''] @
     (if rt_StorageImageDigests target \<noteq> [] then [''game-postgres'', ''game-redis''] else [])"

definition pull_staged :: "config \<Rightarrow> serverTarget \<Rightarrow> resetLifecycleTarget \<Rightarrow> string \<Rightarrow> (run, unit) operation" where
  "pull_staged cfg target resetTarget staged =
     bind_op (check_env (validateDockerServerTarget cfg (tg_Project target) staged True)) (\<lambda>_ r.
       case verify_candidates staged resetTarget r of
         (Inr _, r1) \<Rightarrow> (Inr (), r1)
       | (Inl _, r1) \<Rightarrow>
           bind_op (run_docker (server_compose cfg (tg_Project target) staged (''pull'' # pull_services resetTarget)))
             (\<lambda>_. verify_candidates staged resetTarget) r1)"

definition drop_staged :: "stage_calls \<Rightarrow> string \<Rightarrow> 'a \<times> run \<Rightarrow> 'a \<times> run" where
  "drop_staged sc staged xr = (let (x, r) = xr; s = rn_site r in
     (x, r\<lparr>rn_site := s\<lparr>si_env := drop_temp sc staged (si_env s)\<rparr>\<rparr>))"

definition pullResetCandidate :: "config \<Rightarrow> serverTarget \<Rightarrow> resetLifecycleTarget \<Rightarrow> (run, unit) operation" where
  "pullResetCandidate cfg target resetTarget =
     (case normalizeResetLifecycleTarget resetTarget of
        Inl e \<Rightarrow> look (\<lambda>_. Inl e)
      | Inr rt \<Rightarrow>
          bind_op (look (\<lambda>_. require (hasResetImagePins rt) ''candidate pull requires approved image pins'')) (\<lambda>_.
          bind_op (check_env (validateServerTarget target)) (\<lambda>_ r.
            let sc = ca_stage (next_call r) in
            bind_op
              (act (\<lambda>c s. let (x, fs) = stage_copy (tg_EnvFile target) False
                     (\<lambda>name a fs. let (e, fs') = applyResetLifecycleTarget name rt a fs in (no_error e, fs')) sc (si_env s)
                   in (x, s\<lparr>si_env := fs\<rparr>)))
              (\<lambda>staged r. drop_staged sc staged (pull_staged cfg target rt staged r)) r)))"

section \<open>The shared stack\<close>

definition shared_compose :: "config \<Rightarrow> string list \<Rightarrow> string list" where
  "shared_compose cfg command =
     [''compose'', ''--env-file'', sharedEnvFile cfg, ''-f'', cf_composeShared cfg] @ command"

text \<open>
  The answers of \<open>syncBattleWSAllowlist\<close>: making the directory, the mode, the test of the nginx
  configuration, and the removal of a new map after a failed test.
\<close>

definition sync_allowlist :: "config \<Rightarrow> (run, bool) operation" where
  "sync_allowlist cfg =
     (if \<not> cf_battleWSAllowlistEnabled cfg then look (\<lambda>_. Inr False)
      else act (\<lambda>c s. let ((degraded, e), fs) = syncBattleWSAllowlist cfg (fst (ca_write c)) (fst (ca_remove c)) (ca_ok c)
                 (snd (ca_remove c)) (snd (ca_write c)) (ca_write2 c) (ca_write3 c) (si_env s)
               in (case e of None \<Rightarrow> Inr degraded | Some x \<Rightarrow> Inl x, s\<lparr>si_env := fs\<rparr>)))"

definition reloadSharedRegistry :: "config \<Rightarrow> (run, unit) operation" where
  "reloadSharedRegistry cfg =
     bind_op (sync_allowlist cfg) (\<lambda>degraded.
     bind_op (run_docker (shared_compose cfg ([''up'', ''-d'', ''--no-deps''] @
                withoutService sharedRegistryReloadServices ''nginx''))) (\<lambda>_.
     bind_op (run_docker (shared_compose cfg [''kill'', ''--signal'', ''HUP'', ''nginx''])) (\<lambda>_.
       look (\<lambda>_. require (\<not> degraded) ''battle websocket registry unavailable; route disabled''))))"

section \<open>Stateless services\<close>

definition with_detail :: "string \<Rightarrow> string \<Rightarrow> string \<times> err option \<Rightarrow> string \<times> err option" where
  "with_detail failed done' x = (case x of
     (out, Some e) \<Rightarrow> (failed @ [CHR 0x0A] @ out, Some e)
   | (out, None) \<Rightarrow> (done' @ [CHR 0x0A] @ out, None))"

definition checked_docker ::
    "config \<Rightarrow> string \<Rightarrow> string \<Rightarrow> bool \<Rightarrow> string list \<Rightarrow> string \<Rightarrow> string \<Rightarrow> run \<Rightarrow> (string \<times> err option) \<times> run" where
  "checked_docker cfg project envFile staged command failed done' r =
     (case validateDockerServerTarget cfg project envFile staged (si_env (rn_site r)) of
        Inl e \<Rightarrow> (([], Some e), r)
      | Inr _ \<Rightarrow>
          let (x, r') = runDockerContextWithEnvironment (server_compose cfg project envFile command) r
          in (with_detail failed done' x, r'))"

definition pullStateless :: "config \<Rightarrow> string \<Rightarrow> string \<Rightarrow> run \<Rightarrow> (string \<times> err option) \<times> run" where
  "pullStateless cfg project envFile =
     checked_docker cfg project envFile True (''pull'' # cf_statelessServices cfg) ''=== pull failed ==='' ''=== pull ===''"

definition upStateless :: "config \<Rightarrow> string \<Rightarrow> string \<Rightarrow> run \<Rightarrow> (string \<times> err option) \<times> run" where
  "upStateless cfg project envFile =
     checked_docker cfg project envFile False
       ([''up'', ''-d'', ''--force-recreate'', ''--no-deps''] @ cf_statelessServices cfg)
       (CHR 0x0A # ''=== up failed ==='') (CHR 0x0A # ''=== up ==='')"

definition bounceStateless :: "config \<Rightarrow> string \<Rightarrow> string \<Rightarrow> run \<Rightarrow> (string \<times> err option) \<times> run" where
  "bounceStateless cfg project envFile r =
     (case pullStateless cfg project envFile r of
        ((pulled, Some e), r1) \<Rightarrow> ((pulled, Some e), r1)
      | ((pulled, None), r1) \<Rightarrow>
          let ((upped, e), r2) = upStateless cfg project envFile r1 in ((pulled @ [CHR 0x0A] @ upped, e), r2))"

text \<open>The image tag of the stateless services, in the env file and in a staged copy.\<close>

definition tag_updates :: "string \<Rightarrow> env" where
  "tag_updates tag = [(''IMAGE_TAG'', tag), (''WEB_GAME_TAG'', tag)]"

definition writeImageTag :: "config \<Rightarrow> string \<Rightarrow> string \<Rightarrow> answers \<Rightarrow> string files \<Rightarrow> unit result \<times> string files" where
  "writeImageTag cfg project tag a fs =
     (case validateDockerServerTarget cfg project (envFileFor cfg project) False fs of
        Inl e \<Rightarrow> (Inl e, fs)
      | Inr target \<Rightarrow> patch_copy (tag_updates tag) (tg_EnvFile target) a fs)"

definition tempImageTagEnvFile :: "string \<Rightarrow> string \<Rightarrow> stage_calls \<Rightarrow> string files \<Rightarrow> string result \<times> string files" where
  "tempImageTagEnvFile envFile tag = stage_copy envFile True (patch_copy (tag_updates tag))"

section \<open>The destructive command\<close>

lemma docker_logged:
  assumes "run_docker args r = (x, t)"
  shows "rn_site t = rn_site r" and "rn_log t = rn_log r \<or> rn_log t = rn_log r @ [(args, rn_site r)]"
    and "x = Inr out \<Longrightarrow> rn_log t = rn_log r @ [(args, rn_site r)]"
  using assms
  by (auto simp: run_docker_def runDockerContextWithEnvironment_def tick_def docker_result_def split: if_splits)

lemma drop_value_cases:
  assumes "drop_value m r = (x, t)"
  obtains e where "m r = (Inl e, t)" "x = Inl e" | v where "m r = (Inr v, t)" "x = Inr ()"
  using assms by (auto simp: drop_value_def bind_op_def look_def split: prod.splits sum.splits)

lemma docker_target_ok:
  "validateDockerServerTarget cfg project envFile False fs = Inr target \<longleftrightarrow>
     serverTargetForProject cfg project = Inr target \<and> filepath_clean envFile = filepath_clean (tg_EnvFile target) \<and>
     (\<exists>vals. validateServerEnvFile target envFile fs = Inr vals)"
  by (auto simp: validateDockerServerTarget_def split: sum.splits)

lemma down_at:
  "downServerStack cfg project envFile r =
     (if project = sharedComposeProjectName then (Inl (Err ''down is refused on the shared project''), r)
      else case validateDockerServerTarget cfg project envFile False (si_env (rn_site r)) of
        Inl e \<Rightarrow> (Inl e, r)
      | Inr _ \<Rightarrow> drop_value (run_docker (down_command cfg project envFile)) r)"
  by (simp add: downServerStack_def check_env_def look_def bind_op_def split: sum.splits)

lemma down_own_stack:
  assumes "downServerStack cfg project envFile r = (x, t)"
  shows "rn_site t = rn_site r \<and>
    (rn_log t = rn_log r \<and> \<not> is_ok x \<or>
     (\<exists>sid vals. rn_log t = rn_log r @ [(down_command cfg project envFile, rn_site r)] \<and>
        project \<noteq> sharedComposeProjectName \<and> canonical_id sid \<and> project = projectForServerID sid \<and>
        filepath_clean envFile = filepath_clean (serverEnvFileForID cfg sid) \<and>
        validateServerEnvFile (target_of cfg sid) envFile (si_env (rn_site r)) = Inr vals \<and>
        map_of vals ''SERVER_ID'' = Some sid))"
proof (intro conjI)
  let ?v = "validateDockerServerTarget cfg project envFile False (si_env (rn_site r))"
  show "rn_site t = rn_site r"
    using assms by (auto simp: down_at elim!: drop_value_cases dest: docker_logged(1) split: if_splits sum.splits)
  show "rn_log t = rn_log r \<and> \<not> is_ok x \<or>
     (\<exists>sid vals. rn_log t = rn_log r @ [(down_command cfg project envFile, rn_site r)] \<and>
        project \<noteq> sharedComposeProjectName \<and> canonical_id sid \<and> project = projectForServerID sid \<and>
        filepath_clean envFile = filepath_clean (serverEnvFileForID cfg sid) \<and>
        validateServerEnvFile (target_of cfg sid) envFile (si_env (rn_site r)) = Inr vals \<and>
        map_of vals ''SERVER_ID'' = Some sid)"
  proof (cases "project = sharedComposeProjectName \<or> \<not> is_ok ?v")
    case True
    then show ?thesis using assms by (auto simp: down_at is_ok_iff split: sum.splits if_splits)
  next
    case False
    then obtain target where v: "?v = Inr target" by (auto simp: is_ok_def split: sum.splits)
    then obtain sid vals where sid: "canonical_id sid" "project = projectForServerID sid" "target = target_of cfg sid"
      and e: "filepath_clean envFile = filepath_clean (tg_EnvFile target)"
        "validateServerEnvFile target envFile (si_env (rn_site r)) = Inr vals"
      unfolding docker_target_ok target_for_project_iff by blast
    from e(2) obtain ls where ls: "readEnvLines envFile (si_env (rn_site r)) = Inr ls"
      by (auto simp: validateServerEnvFile_def split: sum.splits)
    from e(2)[unfolded validate_server_env_iff[OF ls]] have "map_of vals ''SERVER_ID'' = Some sid"
      by (auto simp: env_values_last sid(3) target_of_def)
    moreover have "drop_value (run_docker (down_command cfg project envFile)) r = (x, t)"
      using assms False v by (simp add: down_at)
    then have "rn_log t = rn_log r @ [(down_command cfg project envFile, rn_site r)] \<or> rn_log t = rn_log r \<and> \<not> is_ok x"
      by (elim drop_value_cases) (use docker_logged(2,3) in \<open>fastforce simp: is_ok_def\<close>)+
    ultimately show ?thesis using sid e False by (auto simp: target_of_def)
  qed
qed

text \<open>
  C2. Volumes are destroyed only for a proven server. Taking a stack down either does not
  reach docker and leaves everything as it was, or asks docker for exactly one command, for a
  project that is not the shared one and is the canonical project of a server, with that
  server's own env file, which declares exactly this server; and a success has asked.
\<close>

theorem down_only_own_stack:
  assumes "downServerStack cfg project envFile r = (x, t)"
  shows "rn_site t = rn_site r \<and>
    (rn_log t = rn_log r \<and> \<not> is_ok x \<or>
     (\<exists>sid vals. rn_log t = rn_log r @ [(down_command cfg project envFile, rn_site r)] \<and>
        project \<noteq> sharedComposeProjectName \<and> canonical_id sid \<and> project = projectForServerID sid \<and>
        filepath_clean envFile = filepath_clean (serverEnvFileForID cfg sid) \<and>
        validateServerEnvFile (target_of cfg sid) envFile (si_env (rn_site r)) = Inr vals \<and>
        map_of vals ''SERVER_ID'' = Some sid))"
  by (rule down_own_stack[OF assms])

text \<open>Answers for the examples: docker and the services answer, every write works.\<close>

definition ex_calls :: "(string list \<Rightarrow> string \<times> err option) \<Rightarrow> (string \<Rightarrow> (int \<times> string) result) \<Rightarrow> calls" where
  "ex_calls docker http = \<lparr>ca_cancelled = False, ca_docker = docker, ca_http = http, ca_elapsed = 1, ca_ok = True,
     ca_write = journal_well, ca_write2 = all_well ''/t2'', ca_write3 = all_well ''/t3'', ca_remove = (True, True),
     ca_stage = \<lparr>sc_name = Some ''/workspace/servers/stage.env'', sc_write = True, sc_close = True, sc_chmod = True,
       sc_remove = True, sc_patch = all_well ''/t1''\<rparr>, ca_store = (0, all_well ''/t4''), ca_rand = (\<lambda>n. Some (replicate 32 CHR ''a'')), ca_dir = Inr []\<rparr>"

definition ex_run :: "calls \<Rightarrow> string files \<Rightarrow> run" where
  "ex_run c env = \<lparr>rn_site = ex_site env, rn_now = 0, rn_calls = (\<lambda>_. c), rn_log = []\<rparr>"

definition ex_server_env :: "string files" where
  "ex_server_env = [''/workspace/servers/spep1.env'' \<mapsto> \<lparr>f_mode = 384, f_owner = (0, 0), f_content = Synced ex_env_text\<rparr>]"

theorem down_only_own_stack_witness:
  "\<exists>sid. ''opensamguk-spep1'' = projectForServerID sid \<and>
     rn_log (snd (downServerStack ex_config ''opensamguk-spep1'' ''/workspace/servers/spep1.env''
       (ex_run (ex_calls (\<lambda>_. ([], None)) (\<lambda>_. Inl (Err []))) ex_server_env))) \<noteq> []"
proof -
  let ?r = "ex_run (ex_calls (\<lambda>_. ([], None)) (\<lambda>_. Inl (Err []))) ex_server_env"
  let ?d = "downServerStack ex_config ''opensamguk-spep1'' ''/workspace/servers/spep1.env'' ?r"
  have "is_ok (fst ?d)" by code_simp
  with down_only_own_stack[of ex_config "''opensamguk-spep1''" "''/workspace/servers/spep1.env''" ?r, OF surjective_pairing]
  show ?thesis by fastforce
qed

end
