(* ===== verification/Steps.thy ===== *)
theory Steps
  imports Stack
begin

text \<open>
  The steps of the server operations of main.go as operations on a run: the registry, the env
  files, the journal and the operation store, each with the answers of its own call. The
  lemmas say which parts of the state a step leaves alone.
\<close>

section \<open>Registry\<close>

definition entry_by_id :: "config \<Rightarrow> string \<Rightarrow> (run, registryEntry) operation" where
  "entry_by_id cfg sid = act (\<lambda>c s. let (x, fs) = registryEntryByID cfg sid (snd (ca_write c)) (si_env s) in
     (x, s\<lparr>si_env := fs\<rparr>))"

definition sync_entry :: "config \<Rightarrow> serverTarget \<Rightarrow> (run, unit) operation" where
  "sync_entry cfg target = change_env (\<lambda>c fs.
     let ((changed, e), fs') = syncRegistryEntryFromEnv cfg (tg_ID target) (tg_EnvFile target) (snd (ca_write c)) (ca_write2 c) fs
     in (e, fs'))"

definition reconcile :: "config \<Rightarrow> serverTarget \<Rightarrow> (run, unit) operation" where
  "reconcile cfg target =
     change_env (\<lambda>c. reconcileServerRegistry cfg target (snd (ca_write c)) (ca_write2 c) (ca_write3 c))"

definition set_repair :: "config \<Rightarrow> string \<Rightarrow> bool \<Rightarrow> (run, unit) operation" where
  "set_repair cfg sid flag =
     change_env (\<lambda>c. setRegistryRepairRequired cfg sid flag (snd (ca_write c)) (ca_write2 c))"

definition remove_entry :: "config \<Rightarrow> string \<Rightarrow> (run, registryEntry) operation" where
  "remove_entry cfg sid = act (\<lambda>c s.
     let ((entry, e), fs) = removeRegistryEntry cfg sid (snd (ca_write c)) (ca_write2 c) (si_env s)
     in (case e of None \<Rightarrow> Inr entry | Some x \<Rightarrow> Inl x, s\<lparr>si_env := fs\<rparr>))"

section \<open>Env files\<close>

text \<open>\<open>os.Stat\<close>: whether the file is there, or another error than its absence.\<close>

definition stat_env :: "serverTarget \<Rightarrow> (run, bool result) operation" where
  "stat_env target = observe (\<lambda>c s.
     Inr (if ca_ok c then Inr (si_env s (tg_EnvFile target) \<noteq> None) else Inl (ErrIO ''stat'')))"

definition remove_env_file :: "serverTarget \<Rightarrow> (run, unit) operation" where
  "remove_env_file target = act (\<lambda>c s.
     if si_env s (tg_EnvFile target) = None then (Inr (), s)
     else if \<not> ca_ok c then (Inl (ErrIO ''remove''), s)
     else (Inr (), s\<lparr>si_env := (si_env s)(tg_EnvFile target := None)\<rparr>))"

definition valid_target :: "serverTarget \<Rightarrow> (run, env) operation" where
  "valid_target target = check_env (validateServerTarget target)"

definition apply_target :: "serverTarget \<Rightarrow> resetLifecycleTarget \<Rightarrow> (run, unit) operation" where
  "apply_target target rt = change_env (\<lambda>c. applyResetLifecycleTarget (tg_EnvFile target) rt (snd (ca_write c)))"

section \<open>Journal and operations\<close>

definition site_op :: "(calls \<Rightarrow> (site, 'a) operation) \<Rightarrow> (run, 'a) operation" where
  "site_op f = act f"

definition advance :: "config \<Rightarrow> string \<Rightarrow> (run, unit) operation" where
  "advance cfg stage = site_op (\<lambda>c. advanceLifecycleJournal cfg stage (ca_write c))"

definition clear_journal :: "(run, unit) operation" where
  "clear_journal = site_op (\<lambda>c. clearLifecycleJournal (ca_remove c))"

definition transition :: "string \<Rightarrow> lifecycleJobStatus \<Rightarrow> int \<Rightarrow> message_id \<Rightarrow> (run, unit) operation" where
  "transition opid st http mid = act (\<lambda>c s.
     let (e, w) = transitionDurableLifecycleOperation opid st http mid (ca_store c) (si_world s)
     in (no_error e, s\<lparr>si_world := w\<rparr>))"

definition on_run_coord :: "(coord \<Rightarrow> coord) \<Rightarrow> run \<Rightarrow> run" where
  "on_run_coord f r = r\<lparr>rn_site := on_coord f (rn_site r)\<rparr>"

text \<open>\<open>markResetRepairRequired\<close> after a failed step; the cause is reported in any case.\<close>

definition markResetRepairRequired :: "config \<Rightarrow> string \<Rightarrow> err \<Rightarrow> run \<Rightarrow> err \<times> run" where
  "markResetRepairRequired cfg sid cause r =
     (case set_repair cfg sid True r of
        (Inl e, r') \<Rightarrow> (Err ''could not durably persist reset repair-required state'', r')
      | (Inr _, r') \<Rightarrow> (cause, r'))"

definition or_repair :: "config \<Rightarrow> serverTarget \<Rightarrow> (run, 'a) operation \<Rightarrow> (run, unit) operation" where
  "or_repair cfg target m r =
     (case m r of
        (Inr _, r') \<Rightarrow> (Inr (), r')
      | (Inl e, r') \<Rightarrow> let (e', r'') = markResetRepairRequired cfg (tg_ID target) e r' in (Inl e', r''))"

definition resetTargetRequiresD101Execution :: "resetLifecycleTarget \<Rightarrow> bool" where
  "resetTargetRequiresD101Execution target \<longleftrightarrow>
     rt_ScenarioCode target = ''scenario_3190'' \<or> rt_StorageImageDigests target \<noteq> []"

end
