(* ===== verification/Verify.thy ===== *)
theory Verify
  imports Steps
begin

text \<open>
  The verification of a reset in main.go: the health and data of the server's services, and
  of the shared stack after a reload, are polled until they are as expected or a deadline has
  passed. The lemmas: the polling ends, and what a successful verification has seen.
\<close>

section \<open>Requests\<close>

definition maxVerificationResponseBytes :: nat where
  "maxVerificationResponseBytes = 262144"

text \<open>A response that is longer than the limit is an error.\<close>

definition getVerificationURL :: "string \<Rightarrow> (run, int \<times> string) operation" where
  "getVerificationURL endpoint = observe (\<lambda>c s.
     bind_r (ca_http c endpoint) (\<lambda>(status, body).
       if maxVerificationResponseBytes < length body
       then Inl (Err ''verification response exceeds the bounded read limit'') else Inr (status, body)))"

definition health_status :: "string \<Rightarrow> string option" where
  "health_status = unmarshal_struct [''status''] (\<lambda>r name. json_str r) []"

definition expectHealth :: "string \<Rightarrow> string \<Rightarrow> (run, unit) operation" where
  "expectHealth endpoint expectedStatus =
     bind_op (getVerificationURL endpoint) (\<lambda>(status, body). look (\<lambda>_.
       if status \<noteq> 200 then Inl (Err ''health endpoint returned another status'')
       else case health_status body of
         None \<Rightarrow> Inl (Err ''health endpoint returned an invalid response'')
       | Some h \<Rightarrow> require (h = expectedStatus) ''health endpoint reported another status''))"

definition expectHTTPReady :: "string \<Rightarrow> (run, unit) operation" where
  "expectHTTPReady endpoint =
     bind_op (getVerificationURL endpoint) (\<lambda>(status, body). look (\<lambda>_.
       require (\<not> (status < 200 \<or> status \<ge> 400)) ''readiness endpoint returned another status''))"

text \<open>\<open>/api/front-info\<close>: a flag, and the scenario and generation of the running game.\<close>

record front_info =
  fi_Result :: bool
  fi_Scenario :: string
  fi_Generation :: "int option"

definition set_front_global :: "front_info \<Rightarrow> string \<Rightarrow> json \<Rightarrow> front_info option" where
  "set_front_global r name j =
     (if name = ''scenario'' then map_option (\<lambda>s. r\<lparr>fi_Scenario := s\<rparr>) (json_str (fi_Scenario r) j)
      else if j = JNull then Some (r\<lparr>fi_Generation := None\<rparr>)
      else map_option (\<lambda>i. r\<lparr>fi_Generation := Some i\<rparr>) (json_int 0 j))"

definition set_front_field :: "front_info \<Rightarrow> string \<Rightarrow> json \<Rightarrow> front_info option" where
  "set_front_field r name j =
     (if name = ''result'' then map_option (\<lambda>b. r\<lparr>fi_Result := b\<rparr>) (json_bool (fi_Result r) j)
      else decode_struct [''scenario'', ''generation''] set_front_global r j)"

definition decode_front_info :: "string \<Rightarrow> front_info option" where
  "decode_front_info = unmarshal_struct [''result'', ''global''] set_front_field
     \<lparr>fi_Result = False, fi_Scenario = [], fi_Generation = None\<rparr>"

definition front_matches :: "string \<times> int \<Rightarrow> int \<times> string \<Rightarrow> unit result" where
  "front_matches expected response = (let (status, body) = response in
     if status \<noteq> 200 then Inl (Err ''reset data endpoint returned another status'')
     else case decode_front_info body of
       None \<Rightarrow> Inl (Err ''reset data endpoint returned an invalid response'')
     | Some f \<Rightarrow> require (fi_Result f \<and> fi_Scenario f = fst expected \<and> fi_Generation f = Some (snd expected))
         ''game-api did not expose the reset scenario and generation'')"

section \<open>Polling\<close>

definition resetVerificationDuration :: "config \<Rightarrow> duration" where
  "resetVerificationDuration cfg =
     (if cf_resetVerifyTimeout cfg > 0 then cf_resetVerifyTimeout cfg else 2 * minute)"

definition resetVerificationPoll :: "config \<Rightarrow> duration" where
  "resetVerificationPoll cfg =
     (if cf_resetVerifyPollInterval cfg > 0 then cf_resetVerifyPollInterval cfg else second)"

definition pause :: "duration \<Rightarrow> run \<Rightarrow> run" where
  "pause d r = r\<lparr>rn_now := rn_now r + d\<rparr>"

text \<open>
  The loop of \<open>awaitVerification\<close>. Its context ends with that of the caller or at the deadline;
  a pause that is cut short by this is followed by the same exit. A loop that never exits is
  None.
\<close>

partial_function (option) await_loop ::
    "time \<Rightarrow> duration \<Rightarrow> (run, unit) operation \<Rightarrow> err option \<Rightarrow> run \<Rightarrow> (unit result \<times> run) option" where
  "await_loop deadline poll check previous r =
     (if ca_cancelled (next_call r) \<or> rn_now (tick r) \<ge> deadline
      then Some (Inl (case previous of Some e \<Rightarrow> e | None \<Rightarrow> Err ''verification context ended''), tick r)
      else case check (tick r) of
        (Inr _, r1) \<Rightarrow> Some (Inr (), r1)
      | (Inl e, r1) \<Rightarrow> await_loop deadline poll check (Some e) (pause poll r1))"

declare await_loop.simps [code]

definition awaitVerification :: "config \<Rightarrow> (run, unit) operation \<Rightarrow> run \<Rightarrow> (unit result \<times> run) option" where
  "awaitVerification cfg check r =
     await_loop (rn_now r + resetVerificationDuration cfg) (resetVerificationPoll cfg) check None r"

definition await_or_hang :: "config \<Rightarrow> (run, unit) operation \<Rightarrow> (run, unit) operation" where
  "await_or_hang cfg check r =
     (case awaitVerification cfg check r of Some x \<Rightarrow> x | None \<Rightarrow> (Inl (Err ''does not end''), r))"

section \<open>The two verifications\<close>

definition runtime_check :: "config \<Rightarrow> serverTarget \<Rightarrow> string \<times> int \<Rightarrow> (run, unit) operation" where
  "runtime_check cfg target expected =
     bind_op (expectHealth (gameEngineURLFor cfg (tg_ID target) @ ''/actuator/health/readiness'') ''UP'') (\<lambda>_.
     bind_op (expectHealth (gameAPIURLFor cfg (tg_ID target) @ ''/health'') ''up'') (\<lambda>_.
     bind_op (expectHTTPReady (webGameURLFor (tg_ID target) @ ''/'')) (\<lambda>_.
     bind_op (getVerificationURL (gameAPIURLFor cfg (tg_ID target) @ ''/api/front-info'')) (\<lambda>response.
       look (\<lambda>_. front_matches expected response)))))"

definition target_expectation :: "serverTarget \<Rightarrow> (run, string \<times> int) operation" where
  "target_expectation target = check_env (\<lambda>fs. bind_r (validateServerTarget target fs) resetRuntimeExpectationFor)"

definition verifyResetRuntime :: "config \<Rightarrow> serverTarget \<Rightarrow> (run, unit) operation" where
  "verifyResetRuntime cfg target =
     bind_op (target_expectation target) (\<lambda>expected. await_or_hang cfg (runtime_check cfg target expected))"

definition final_entry :: "serverTarget \<Rightarrow> string \<times> int \<Rightarrow> registryEntry \<Rightarrow> bool" where
  "final_entry target expected entry \<longleftrightarrow>
     \<not> (re_ID entry \<noteq> tg_ID target \<or> re_DeployProject entry \<noteq> tg_Project target \<or> re_RepairRequired entry \<or>
        re_ScenarioCode entry \<noteq> fst expected \<or> re_Generation entry \<noteq> snd expected)"

definition trim_slashes :: "string \<Rightarrow> string" where
  "trim_slashes s = rev (dropWhile (\<lambda>c. c = CHR ''/'') (rev s))"

definition registry_check :: "config \<Rightarrow> serverTarget \<Rightarrow> string \<times> int \<Rightarrow> (run, unit) operation" where
  "registry_check cfg target expected =
     bind_op (entry_by_id cfg (tg_ID target)) (\<lambda>entry.
     bind_op (look (\<lambda>_. require (final_entry target expected entry)
       ''shared registry is not the final verified reset state'')) (\<lambda>_.
     bind_op (expectHealth (trim_slashes (defaultGatewayAPIURL cfg) @ ''/actuator/health/readiness'') ''UP'') (\<lambda>_.
     bind_op (expectHTTPReady ''http://web-gateway:3000/'') (\<lambda>_.
       expectHealth ''http://nginx/health'' ''up''))))"

definition verifySharedRegistryReload :: "config \<Rightarrow> serverTarget \<Rightarrow> (run, unit) operation" where
  "verifySharedRegistryReload cfg target =
     bind_op (target_expectation target) (\<lambda>expected. await_or_hang cfg (registry_check cfg target expected))"

section \<open>Time and answers\<close>

text \<open>Along a run the clock never goes back, and the answers are those of a later call.\<close>

definition later_run :: "run \<Rightarrow> run \<Rightarrow> bool" where
  "later_run r t \<longleftrightarrow> rn_now r \<le> rn_now t \<and> (\<exists>k. \<forall>n. rn_calls t n = rn_calls r (n + k))"

lemma later_refl [simp]: "later_run r r"
  by (auto simp: later_run_def intro: exI[of _ 0])

lemma later_trans: "later_run r s \<Longrightarrow> later_run s t \<Longrightarrow> later_run r t"
  unfolding later_run_def by (metis add.assoc order_trans)

lemma later_tick: "later_run r (tick r)"
  by (auto simp: later_run_def tick_def intro: exI[of _ 1])

lemma later_site [simp]: "later_run r (t\<lparr>rn_site := s\<rparr>) = later_run r t" "later_run r (t\<lparr>rn_log := l\<rparr>) = later_run r t"
  by (simp_all add: later_run_def)

lemma later_bind:
  assumes "\<And>r. later_run r (snd (m r))" and "\<And>x r. later_run r (snd (k x r))"
  shows "later_run r (snd (bind_op m k r))"
  by (rule bind_op_keeps[where R = later_run]) (use assms later_trans in auto)

lemma later_look: "later_run r (snd (look f r))"
  by (simp add: look_def)

lemma later_act: "later_run r (snd (act f r))"
  by (simp add: act_def split_beta later_tick)

lemma later_observe: "later_run r (snd (observe f r))"
  unfolding observe_def by (rule later_act)

lemmas later_rules = later_bind later_look later_act later_observe

lemma check_later:
  "later_run r (snd (runtime_check cfg target expected r))"
  "later_run r (snd (registry_check cfg target expected r))"
  unfolding runtime_check_def registry_check_def expectHealth_def expectHTTPReady_def getVerificationURL_def entry_by_id_def
  by (auto intro!: later_rules)

section \<open>The polling ends\<close>

text \<open>The same loop with a bound on the number of checks.\<close>

fun await_rounds ::
    "nat \<Rightarrow> time \<Rightarrow> duration \<Rightarrow> (run, unit) operation \<Rightarrow> err option \<Rightarrow> run \<Rightarrow> (unit result \<times> run) option" where
  "await_rounds 0 deadline poll check previous r = None"
| "await_rounds (Suc n) deadline poll check previous r =
     (if ca_cancelled (next_call r) \<or> rn_now (tick r) \<ge> deadline
      then Some (Inl (case previous of Some e \<Rightarrow> e | None \<Rightarrow> Err ''verification context ended''), tick r)
      else case check (tick r) of
        (Inr _, r1) \<Rightarrow> Some (Inr (), r1)
      | (Inl e, r1) \<Rightarrow> await_rounds n deadline poll check (Some e) (pause poll r1))"

lemma rounds_loop: "await_rounds n d p check previous r = Some x \<Longrightarrow> await_loop d p check previous r = Some x"
proof (induction n d p check previous r rule: await_rounds.induct)
  case (2 n d p check previous r)
  then show ?case by (subst await_loop.simps) (auto split: if_splits prod.splits sum.splits)
qed simp

lemma rounds_end:
  assumes "0 < p" and "\<And>r. later_run r (snd (check r))" and "d - rn_now r < int n * p"
  shows "\<exists>x. await_rounds (Suc n) d p check previous r = Some x"
  using assms(3)
proof (induction n arbitrary: previous r)
  case 0
  then have "rn_now (tick r) \<ge> d" using later_tick[of r] by (simp add: later_run_def)
  then show ?case by simp
next
  case (Suc n)
  obtain res r1 where c: "check (tick r) = (res, r1)" by fastforce
  show ?case
  proof (cases "ca_cancelled (next_call r) \<or> rn_now (tick r) \<ge> d")
    case True
    then show ?thesis by simp
  next
    case False
    have "rn_now r \<le> rn_now r1"
      using assms(2)[of "tick r"] later_tick[of r] c by (auto simp: later_run_def)
    then have "d - rn_now (pause p r1) < int n * p" using Suc.prems by (simp add: pause_def algebra_simps)
    from Suc.IH[OF this] False c show ?thesis by (cases res) (auto simp del: await_rounds.simps(2) simp: await_rounds.simps(2)[of "Suc n"])
  qed
qed

definition max_rounds :: "config \<Rightarrow> nat" where
  "max_rounds cfg = nat (resetVerificationDuration cfg div resetVerificationPoll cfg) + 2"

lemma poll_positive: "0 < resetVerificationPoll cfg" "0 < resetVerificationDuration cfg"
  by (auto simp: resetVerificationPoll_def resetVerificationDuration_def)

lemma await_ends:
  assumes "\<And>r. later_run r (snd (check r))"
  shows "\<exists>x. awaitVerification cfg check r = Some x \<and>
    await_rounds (max_rounds cfg) (rn_now r + resetVerificationDuration cfg) (resetVerificationPoll cfg) check None r = Some x"
proof -
  let ?d = "resetVerificationDuration cfg" and ?p = "resetVerificationPoll cfg"
  let ?n = "nat (?d div ?p) + 1" and ?stop = "rn_now r + ?d"
  have "?d mod ?p < ?p" and "0 \<le> ?d div ?p"
    using poll_positive[of cfg] by (simp_all add: pos_imp_zdiv_nonneg_iff)
  moreover note div_mult_mod_eq[of ?d ?p]
  ultimately have "?d < ?d div ?p * ?p + ?p" by linarith
  with \<open>0 \<le> ?d div ?p\<close> have "?stop - rn_now r < int ?n * ?p" by (simp add: distrib_right)
  from rounds_end[OF poll_positive(1) assms this] obtain x
    where "await_rounds (Suc ?n) ?stop ?p check None r = Some x" by blast
  moreover from rounds_loop[OF this] have "awaitVerification cfg check r = Some x"
    by (simp add: awaitVerification_def)
  ultimately show ?thesis by (auto simp: max_rounds_def simp del: await_rounds.simps)
qed

text \<open>
  C20. A reset verification always ends. Whatever the services answer, and however slowly, the
  polling of the runtime and of the shared registry returns, after at most as many checks as
  poll intervals fit into its bounded duration, and two more.
\<close>

theorem reset_verification_ends:
  "(\<exists>x. awaitVerification cfg (runtime_check cfg target expected) r = Some x \<and>
      await_rounds (max_rounds cfg) (rn_now r + resetVerificationDuration cfg) (resetVerificationPoll cfg)
        (runtime_check cfg target expected) None r = Some x) \<and>
   (\<exists>x. awaitVerification cfg (registry_check cfg target expected) r = Some x \<and>
      await_rounds (max_rounds cfg) (rn_now r + resetVerificationDuration cfg) (resetVerificationPoll cfg)
        (registry_check cfg target expected) None r = Some x)"
  using await_ends[of "runtime_check cfg target expected" cfg r, OF check_later(1)]
    await_ends[of "registry_check cfg target expected" cfg r, OF check_later(2)] by blast

text \<open>What every call, pause and check keeps, the polling keeps.\<close>

lemma rounds_keep:
  assumes "await_rounds n d p check previous r = Some x" and "\<And>r. R r (tick r)" and "\<And>r. R r (pause p r)"
    and "\<And>r. R r (snd (check r))" and "\<And>r s t. R r s \<Longrightarrow> R s t \<Longrightarrow> R r t"
  shows "R r (snd x)"
  using assms(1)
proof (induction n arbitrary: previous r)
  case (Suc n)
  obtain res r1 where c: "check (tick r) = (res, r1)" by fastforce
  then have r1: "R r r1" using assms(2,4)[of r] assms(4)[of "tick r"] assms(5) by (metis snd_conv)
  show ?case
  proof (cases "ca_cancelled (next_call r) \<or> rn_now (tick r) \<ge> d \<or> is_ok res")
    case True
    then show ?thesis using Suc.prems r1 assms(2)[of r] by (auto simp: c is_ok_iff split: if_splits)
  next
    case False
    then obtain e where "await_rounds n d p check (Some e) (pause p r1) = Some x"
      using Suc.prems c by (cases res) (auto split: if_splits)
    from Suc.IH[OF this] show ?thesis using r1 assms(3)[of r1] assms(5) by metis
  qed
qed simp

lemma await_keeps:
  assumes "\<And>r. later_run r (snd (check r))" and "\<And>r. R r (tick r)" and "\<And>d r. R r (pause d r)"
    and "\<And>r. R r (snd (check r))" and "\<And>r s t. R r s \<Longrightarrow> R s t \<Longrightarrow> R r t"
  shows "R r (snd (await_or_hang cfg check r))"
proof -
  obtain x where "awaitVerification cfg check r = Some x"
    "await_rounds (max_rounds cfg) (rn_now r + resetVerificationDuration cfg) (resetVerificationPoll cfg) check None r = Some x"
    using await_ends[of check cfg r, OF assms(1)] by blast
  with rounds_keep[OF this(2), of R] assms(2-5) show ?thesis by (simp add: await_or_hang_def)
qed

section \<open>What a verification has seen\<close>

lemma rounds_success:
  assumes "await_rounds n d p check previous r = Some (Inr (), t)" and "\<And>r. later_run r (snd (check r))" and "0 < p"
  shows "\<exists>r0. later_run r r0 \<and> check r0 = (Inr (), t)"
  using assms(1)
proof (induction n arbitrary: previous r)
  case (Suc n)
  obtain res r1 where c: "check (tick r) = (res, r1)" by fastforce
  show ?case
  proof (cases res)
    case (Inl e)
    with Suc.prems c have "await_rounds n d p check (Some e) (pause p r1) = Some (Inr (), t)" by (simp split: if_splits)
    from Suc.IH[OF this] obtain r0 where r0: "later_run (pause p r1) r0" "check r0 = (Inr (), t)" by blast
    have "later_run r1 (pause p r1)" using assms(3) by (auto simp: later_run_def pause_def intro: exI[of _ 0])
    moreover have "later_run r r1" using assms(2)[of "tick r"] c later_trans[OF later_tick] by auto
    ultimately show ?thesis using r0 later_trans by blast
  next
    case (Inr u)
    with Suc.prems c have "check (tick r) = (Inr (), t)" by (simp split: if_splits)
    then show ?thesis using later_tick by blast
  qed
qed simp

lemma await_success:
  assumes "await_or_hang cfg check r = (Inr (), t)" and "\<And>r. later_run r (snd (check r))"
  shows "\<exists>r0. later_run r r0 \<and> check r0 = (Inr (), t)"
proof -
  obtain x where x: "awaitVerification cfg check r = Some x"
    "await_rounds (max_rounds cfg) (rn_now r + resetVerificationDuration cfg) (resetVerificationPoll cfg) check None r = Some x"
    using await_ends[of check cfg r, OF assms(2)] by blast
  with assms(1) have "x = (Inr (), t)" by (simp add: await_or_hang_def)
  with rounds_success[OF _ assms(2) poll_positive(1)] x(2) show ?thesis by blast
qed

lemma observe_is: "observe f r = (f (next_call r) (rn_site r), tick r)"
  by (simp add: observe_def act_def tick_def)

lemma getVerificationURL_ok:
  "getVerificationURL url r = (Inr (st, body), t) \<longleftrightarrow>
     ca_http (next_call r) url = Inr (st, body) \<and> length body \<le> maxVerificationResponseBytes \<and> t = tick r"
  by (auto simp: getVerificationURL_def observe_is bind_r_def split: sum.splits prod.splits if_splits)

lemma expectHealth_ok:
  "expectHealth url h r = (Inr (), t) \<longleftrightarrow>
     (\<exists>body. ca_http (next_call r) url = Inr (200, body) \<and> length body \<le> maxVerificationResponseBytes \<and>
        health_status body = Some h \<and> t = tick r)"
  by (auto simp: expectHealth_def bind_op_ok getVerificationURL_ok look_def require_def
      split: if_splits option.splits)

lemma expectHTTPReady_ok:
  "expectHTTPReady url r = (Inr (), t) \<longleftrightarrow>
     (\<exists>st body. ca_http (next_call r) url = Inr (st, body) \<and> length body \<le> maxVerificationResponseBytes \<and>
        200 \<le> st \<and> st < 400 \<and> t = tick r)"
  by (auto simp: expectHTTPReady_def bind_op_ok getVerificationURL_ok look_def require_def split: if_splits)

lemma front_matches_ok:
  "front_matches expected (st, body) = Inr () \<longleftrightarrow> st = 200 \<and> decode_front_info body =
     Some \<lparr>fi_Result = True, fi_Scenario = fst expected, fi_Generation = Some (snd expected)\<rparr>"
  by (auto simp: front_matches_def require_def split: option.splits if_splits)

text \<open>What four consecutive calls, from the n-th on, have to answer.\<close>

definition reset_seen :: "config \<Rightarrow> string \<Rightarrow> string \<times> int \<Rightarrow> (nat \<Rightarrow> calls) \<Rightarrow> nat \<Rightarrow> bool" where
  "reset_seen cfg sid expected answers n \<longleftrightarrow> (\<exists>engine api st page front.
     ca_http (answers n) (gameEngineURLFor cfg sid @ ''/actuator/health/readiness'') = Inr (200, engine) \<and>
     health_status engine = Some ''UP'' \<and>
     ca_http (answers (n + 1)) (gameAPIURLFor cfg sid @ ''/health'') = Inr (200, api) \<and>
     health_status api = Some ''up'' \<and>
     ca_http (answers (n + 2)) (webGameURLFor sid @ ''/'') = Inr (st, page) \<and> 200 \<le> st \<and> st < 400 \<and>
     ca_http (answers (n + 3)) (gameAPIURLFor cfg sid @ ''/api/front-info'') = Inr (200, front) \<and>
     decode_front_info front =
       Some \<lparr>fi_Result = True, fi_Scenario = fst expected, fi_Generation = Some (snd expected)\<rparr>)"

lemma next_tick [simp]: "rn_calls (tick r) n = rn_calls r (Suc n)" "rn_site (tick r) = rn_site r"
  by (simp_all add: tick_def)

lemma runtime_check_ok:
  assumes "runtime_check cfg target expected r = (Inr (), t)"
  shows "reset_seen cfg (tg_ID target) expected (rn_calls r) 0"
  using assms unfolding runtime_check_def reset_seen_def
  by (fastforce simp: bind_op_ok expectHealth_ok expectHTTPReady_ok getVerificationURL_ok look_def
      front_matches_ok next_call_def eval_nat_numeral)

lemma later_seen:
  assumes "later_run r r0" and "reset_seen cfg sid expected (rn_calls r0) 0"
  shows "\<exists>n. reset_seen cfg sid expected (rn_calls r) n"
proof -
  from assms(1) obtain k where "\<forall>n. rn_calls r0 n = rn_calls r (n + k)" by (auto simp: later_run_def)
  with assms(2) have "reset_seen cfg sid expected (rn_calls r) k"
    by (simp add: reset_seen_def add.commute[of k])
  then show ?thesis by blast
qed

text \<open>
  C17. A verified reset is running. When the verification of a reset succeeds, the server's env
  file is the server's own and names a scenario and a generation, and in four consecutive
  answers the engine and the API were up, the server's page was ready, and the front info
  reported a valid result with exactly that scenario and generation.
\<close>

theorem reset_verified:
  assumes "verifyResetRuntime cfg target r = (Inr (), t)"
  shows "\<exists>vals expected n. validateServerTarget target (si_env (rn_site r)) = Inr vals \<and>
    resetRuntimeExpectationFor vals = Inr expected \<and>
    reset_seen cfg (tg_ID target) expected (rn_calls r) n"
proof -
  from assms obtain vals expected
    where v: "validateServerTarget target (si_env (rn_site r)) = Inr vals" "resetRuntimeExpectationFor vals = Inr expected"
      and w: "await_or_hang cfg (runtime_check cfg target expected) r = (Inr (), t)"
    by (auto simp: verifyResetRuntime_def target_expectation_def check_env_def look_def bind_op_ok bind_r_ok)
  from await_success[OF w check_later(1)] obtain r0
    where "later_run r r0" "runtime_check cfg target expected r0 = (Inr (), t)" by blast
  with v later_seen runtime_check_ok show ?thesis by blast
qed

definition ex_front :: json where
  "ex_front = JObj [(''result'', JBool True),
     (''global'', JObj [(''scenario'', JStr ''scenario_1010''), (''generation'', JNum ''1'')])]"

definition ex_http :: "string \<Rightarrow> (int \<times> string) result" where
  "ex_http url = Inr (200, if has_suffix url ''readiness'' then json_text (JObj [(''status'', JStr ''UP'')])
     else if has_suffix url ''health'' then json_text (JObj [(''status'', JStr ''up'')]) else json_text ex_front)"

lemma ex_status:
  "health_status (json_text (JObj [(''status'', JStr ''UP'')])) = Some ''UP''"
  "health_status (json_text (JObj [(''status'', JStr ''up'')])) = Some ''up''"
  "decode_front_info (json_text ex_front) =
     Some \<lparr>fi_Result = True, fi_Scenario = ''scenario_1010'', fi_Generation = Some 1\<rparr>"
proof -
  have ok: "json_ok (JObj [(''status'', JStr ''UP'')])" "json_ok (JObj [(''status'', JStr ''up'')])" "json_ok ex_front"
    by code_simp+
  have "decode_struct [''status''] (\<lambda>r name. json_str r) [] (JObj [(''status'', JStr ''UP'')]) = Some ''UP''"
    "decode_struct [''status''] (\<lambda>r name. json_str r) [] (JObj [(''status'', JStr ''up'')]) = Some ''up''"
    "decode_struct [''result'', ''global''] set_front_field \<lparr>fi_Result = False, fi_Scenario = [], fi_Generation = None\<rparr> ex_front
       = Some \<lparr>fi_Result = True, fi_Scenario = ''scenario_1010'', fi_Generation = Some 1\<rparr>"
    by code_simp+
  with ok[THEN parse_json_text] show
    "health_status (json_text (JObj [(''status'', JStr ''UP'')])) = Some ''UP''"
    "health_status (json_text (JObj [(''status'', JStr ''up'')])) = Some ''up''"
    "decode_front_info (json_text ex_front) =
       Some \<lparr>fi_Result = True, fi_Scenario = ''scenario_1010'', fi_Generation = Some 1\<rparr>"
    by (simp_all add: health_status_def decode_front_info_def unmarshal_struct_def)
qed

theorem reset_verified_witness:
  "\<exists>n. reset_seen ex_config ''pep1'' (''scenario_1010'', 1)
     (rn_calls (ex_run (ex_calls (\<lambda>_. ([], None)) ex_http) ex_server_env)) n"
proof -
  let ?r = "ex_run (ex_calls (\<lambda>_. ([], None)) ex_http) ex_server_env" and ?t = "target_of ex_config ''pep1''"
  let ?u = "''http://spep1-'' :: string"
  have v: "validateServerTarget ?t ex_server_env = Inr [(''SERVER_ID'', ''pep1''), (''SERVER_NAME'', ''Che'')]"
    "resetRuntimeExpectationFor [(''SERVER_ID'', ''pep1''), (''SERVER_NAME'', ''Che'')] = Inr (''scenario_1010'', 1)"
    by code_simp+
  have u: "ex_http (gameEngineURLFor ex_config ''pep1'' @ ''/actuator/health/readiness'') = Inr (200, json_text (JObj [(''status'', JStr ''UP'')]))"
    "ex_http (gameAPIURLFor ex_config ''pep1'' @ ''/health'') = Inr (200, json_text (JObj [(''status'', JStr ''up'')]))"
    "ex_http (webGameURLFor ''pep1'' @ ''/'') = Inr (200, json_text ex_front)"
    "ex_http (gameAPIURLFor ex_config ''pep1'' @ ''/api/front-info'') = Inr (200, json_text ex_front)"
    by code_simp+
  have "length (json_text (JObj [(''status'', JStr ''UP'')])) \<le> 99" "length (json_text ex_front) \<le> 99"
    "length (json_text (JObj [(''status'', JStr ''up'')])) \<le> 99" by code_simp+
  then have l: "length (json_text (JObj [(''status'', JStr ''UP'')])) \<le> maxVerificationResponseBytes"
    "length (json_text (JObj [(''status'', JStr ''up'')])) \<le> maxVerificationResponseBytes"
    "length (json_text ex_front) \<le> maxVerificationResponseBytes"
    unfolding maxVerificationResponseBytes_def by linarith+
  have c: "rn_calls ?r n = ex_calls (\<lambda>_. ([], None)) ex_http" "ca_http (rn_calls ?r n) = ex_http"
    "\<not> ca_cancelled (rn_calls ?r n)" "rn_now (tick ?r) = 1" "ca_elapsed (rn_calls ?r n) = 1" for n
    by (simp_all add: ex_run_def ex_calls_def tick_def next_call_def)
  let ?t4 = "tick (tick (tick (tick (tick ?r))))"
  have "runtime_check ex_config ?t (''scenario_1010'', 1) (tick ?r) = (Inr (), ?t4)"
    using u l ex_status by (simp add: runtime_check_def bind_op_ok expectHealth_ok expectHTTPReady_ok getVerificationURL_ok look_def
      front_matches_ok next_call_def c(2) target_of_def)
  moreover have "rn_now ?r + resetVerificationDuration ex_config = 2 * minute"
    by (simp add: ex_run_def resetVerificationDuration_def ex_config_def)
  ultimately have "await_or_hang ex_config (runtime_check ex_config ?t (''scenario_1010'', 1)) ?r = (Inr (), ?t4)"
    by (simp add: await_or_hang_def awaitVerification_def await_loop.simps c(3,4) next_call_def minute_def second_def)
  then have "verifyResetRuntime ex_config ?t ?r = (Inr (), ?t4)"
    using v by (simp add: verifyResetRuntime_def target_expectation_def check_env_def look_def bind_op_def ex_run_def)
  from reset_verified[OF this] show ?thesis using v by (simp add: ex_run_def target_of_def)
qed

end
