(* ===== verification/Recovery.thy ===== *)
theory Recovery
  imports Verify WebDeployLaws
begin

text \<open>
  The repair of an interrupted operation from its journal (main.go): the checks of the linked
  operation, the replay of each kind of operation, and the settlement. A repair is one
  \<open>run\<close>; a part that returns early through an error is a failed operation.
\<close>

section \<open>The linked operation\<close>

definition recovery_fingerprint :: "lifecycleJournal \<Rightarrow> resetLifecycleTarget \<Rightarrow> string" where
  "recovery_fingerprint j t = (case lj_ResetExecution j of
     None \<Rightarrow> resetRequestFingerprint (lj_ServerID j) t
   | Some x \<Rightarrow> rx_RequestFingerprint x)"

definition linked_operation :: "lifecycleJournal \<Rightarrow> site \<Rightarrow> op_record option result" where
  "linked_operation j s =
     (if lj_OperationID j = [] then Inr None
      else case wd_store (si_world s) of
        None \<Rightarrow> Inl (Err ''linked lifecycle operation store is unavailable'')
      | Some st \<Rightarrow>
          (case Lookup (lj_OperationID j) st of
             None \<Rightarrow> Inl (Err ''linked lifecycle operation identity is invalid'')
           | Some rec \<Rightarrow>
               if op_kind rec \<noteq> lj_OperationKind j \<or> op_subjectID rec \<noteq> lj_ServerID j
               then Inl (Err ''linked lifecycle operation identity is invalid'')
               else if \<not> opt_all (\<lambda>x. is_ok (validateResetExecutionOperation (Some st) x (lj_OperationID j)))
                           (lj_ResetExecution j)
               then Inl ErrResetExecutionEvidence
               else if op_status rec = JobSucceeded \<and>
                 \<not> opt_all (\<lambda>t. op_fingerprint rec = recovery_fingerprint j t) (lj_ResetTarget j)
               then Inl (Err ''completed reset operation target is invalid'')
               else Inr (Some rec)))"

text \<open>The deferred mark of an operation whose repair failed before it was settled.\<close>

definition or_recovery_required :: "lifecycleJournal \<Rightarrow> (run, 'a) operation \<Rightarrow> (run, 'a) operation" where
  "or_recovery_required j m r =
     (case m r of
        (Inr x, r') \<Rightarrow> (Inr x, r')
      | (Inl e, r') \<Rightarrow>
          if lj_OperationID j = [] then (Inl e, r')
          else (case transition (lj_OperationID j) JobRecoveryRequired 202 IdRecoveryRequired r' of
             (Inl e', r'') \<Rightarrow> (Inl (Err ''persist recovery-required operation''), r'')
           | (Inr _, r'') \<Rightarrow> (Inl e, r'')))"

definition recovery_target :: "config \<Rightarrow> lifecycleJournal \<Rightarrow> serverTarget result" where
  "recovery_target cfg j =
     (case serverTargetForID cfg (lj_ServerID j) of
        Inl e \<Rightarrow> Inl (Err ''lifecycle recovery target is invalid'')
      | Inr target \<Rightarrow>
          if tg_Project target \<noteq> lj_Project j then Inl (Err ''lifecycle recovery target is invalid'') else Inr target)"

section \<open>A finished operation\<close>

definition reset_env_matches :: "resetLifecycleTarget option \<Rightarrow> env \<Rightarrow> bool" where
  "reset_env_matches rt values =
     opt_all (\<lambda>t. list_all (\<lambda>(k, v). map_of values k = Some v) (rt_Updates t)) rt"

definition verifySucceededLifecycleJournal :: "config \<Rightarrow> lifecycleJournal \<Rightarrow> serverTarget \<Rightarrow> (run, unit) operation" where
  "verifySucceededLifecycleJournal cfg j target =
     (if lj_Operation j = ''create'' then
        bind_op (valid_target target) (\<lambda>_.
        bind_op (entry_by_id cfg (tg_ID target)) (\<lambda>entry. look (\<lambda>_.
          require (\<not> (re_ID entry = [] \<or> re_DeployProject entry \<noteq> tg_Project target))
            ''completed create postcondition is unavailable'')))
      else if lj_Operation j = ''delete'' then
        bind_op (stat_env target) (\<lambda>st.
        bind_op (look (\<lambda>_. bind_r st (\<lambda>present. require (\<not> present) ''completed close retained its server env''))) (\<lambda>_.
        bind_op (entry_by_id cfg (tg_ID target)) (\<lambda>entry. look (\<lambda>_.
          require (re_ID entry = []) ''completed close retained its registry entry''))))
      else if lj_Operation j = ''reset'' then
        bind_op (valid_target target) (\<lambda>values.
        bind_op (look (\<lambda>_. require (reset_env_matches (lj_ResetTarget j) values)
          ''completed reset env does not match its journal target'')) (\<lambda>_.
        bind_op (verifyResetRuntime cfg target) (\<lambda>_.
        bind_op (reconcile cfg target) (\<lambda>_.
        bind_op (set_repair cfg (tg_ID target) False) (\<lambda>_.
          verifySharedRegistryReload cfg target)))))
      else look (\<lambda>_. Inl (Err ''linked lifecycle journal operation is invalid'')))"

definition settle_completed :: "config \<Rightarrow> lifecycleJournal \<Rightarrow> serverTarget \<Rightarrow> (run, unit) operation" where
  "settle_completed cfg j target =
     (if lj_ResetExecution j \<noteq> None
      then site_op (\<lambda>c. settleSucceededLifecycleJournal cfg (ca_remove c))
      else bind_op (verifySucceededLifecycleJournal cfg j target) (\<lambda>_. clear_journal))"

section \<open>Preparing the repair of a reset\<close>

definition before_mutation :: "lifecycleJournal \<Rightarrow> bool" where
  "before_mutation j \<longleftrightarrow> lj_Stage j = [] \<or> lj_Stage j = lifecycleJournalStagePrepared"

text \<open>The journal with the target of this attempt, which the file does not get.\<close>

definition with_effective_target ::
    "lifecycleJournal \<Rightarrow> serverTarget \<Rightarrow> string files \<Rightarrow> lifecycleJournal result" where
  "with_effective_target j target fs =
     (if lj_Operation j = ''reset'' \<and> lj_ResetTarget j = None
      then if before_mutation j
        then Inl (Err ''reset recovery target is unavailable before destructive mutation'')
        else map_sum id (\<lambda>t. j\<lparr>lj_ResetTarget := Some t\<rparr>) (resetLifecycleTargetForEnv (tg_EnvFile target) [] fs)
      else Inr j)"

definition check_reset_target :: "resetLifecycleTarget option \<Rightarrow> unit result" where
  "check_reset_target rt = (case rt of
     None \<Rightarrow> Inr ()
   | Some t \<Rightarrow>
       if resetTargetRequiresD101Execution t
       then Inl (Err ''D101 reset recovery requires linked execution evidence; automatic replay is closed'')
       else map_sum id (\<lambda>_. ()) (normalizeResetLifecycleTarget t))"

definition check_env_file :: "lifecycleJournal \<Rightarrow> serverTarget \<Rightarrow> (run, unit) operation" where
  "check_env_file j target = bind_op (stat_env target) (\<lambda>st. case st of
     Inl e \<Rightarrow> look (\<lambda>_. Inl e)
   | Inr True \<Rightarrow> drop_value (valid_target target)
   | Inr False \<Rightarrow> look (\<lambda>_. require (lj_Operation j = ''create'' \<or> lj_Operation j = ''delete'') ''server env is absent''))"

definition prepareResetRecovery :: "config \<Rightarrow> lifecycleJournal \<Rightarrow> serverTarget \<Rightarrow> (run, unit) operation" where
  "prepareResetRecovery cfg j target =
     bind_op (check_env (\<lambda>fs. case lj_ResetTarget j of
         Some t \<Rightarrow> Inr t
       | None \<Rightarrow>
           if before_mutation j then Inl (Err ''reset recovery target is unavailable before destructive mutation'')
           else resetLifecycleTargetForEnv (tg_EnvFile target) [] fs)) (\<lambda>rt.
     bind_op (valid_target target) (\<lambda>_.
     bind_op (apply_target target rt) (\<lambda>_.
       if before_mutation j then advance cfg lifecycleJournalStageEnv
       else bind_op (valid_target target) (\<lambda>values.
         drop_value (look (\<lambda>_. resetRuntimeExpectationFor values))))))"

section \<open>Replaying\<close>

text \<open>The result says whether there was nothing to recover.\<close>

definition up_server :: "config \<Rightarrow> serverTarget \<Rightarrow> (run, unit) operation" where
  "up_server cfg target = upServerStack cfg (tg_Project target) (tg_EnvFile target)"

definition down_server :: "config \<Rightarrow> serverTarget \<Rightarrow> (run, unit) operation" where
  "down_server cfg target = downServerStack cfg (tg_Project target) (tg_EnvFile target)"

definition done_with :: "bool \<Rightarrow> (run, bool) operation" where
  "done_with b = look (\<lambda>_. Inr b)"

definition repair_create :: "config \<Rightarrow> serverTarget \<Rightarrow> (run, bool) operation" where
  "repair_create cfg target =
     bind_op (stat_env target) (\<lambda>st.
     bind_op (entry_by_id cfg (tg_ID target)) (\<lambda>entry.
       if st = Inr False \<and> re_ID entry = [] then done_with True
       else
         bind_op (look (\<lambda>_. bind_r st (\<lambda>present. require present ''server env is absent''))) (\<lambda>_.
         bind_op (valid_target target) (\<lambda>_.
         bind_op (if re_ID entry = [] then sync_entry cfg target else look (\<lambda>_. Inr ())) (\<lambda>_.
         bind_op (up_server cfg target) (\<lambda>_.
         bind_op (reloadSharedRegistry cfg) (\<lambda>_. done_with False)))))))"

definition repair_reset_prepare :: "config \<Rightarrow> lifecycleJournal \<Rightarrow> serverTarget \<Rightarrow> (run, unit) operation" where
  "repair_reset_prepare cfg j target =
     bind_op (case lj_ResetTarget j of
         Some t \<Rightarrow> if hasResetImagePins t then pullResetCandidate cfg target t else look (\<lambda>_. Inr ())
       | None \<Rightarrow> look (\<lambda>_. Inr ())) (\<lambda>_.
     bind_op (prepareResetRecovery cfg j target) (\<lambda>_.
     bind_op (reconcile cfg target) (\<lambda>_.
       set_repair cfg (tg_ID target) True)))"

text \<open>From here on a failure marks the server in the registry.\<close>

definition repair_reset_replace :: "config \<Rightarrow> serverTarget \<Rightarrow> (run, unit) operation" where
  "repair_reset_replace cfg target =
     bind_op (or_repair cfg target (advance cfg lifecycleJournalStageDown)) (\<lambda>_.
     bind_op (or_repair cfg target (down_server cfg target)) (\<lambda>_.
     bind_op (or_repair cfg target (up_server cfg target)) (\<lambda>_.
     bind_op (or_repair cfg target (verifyResetRuntime cfg target)) (\<lambda>_.
     bind_op (or_repair cfg target (reconcile cfg target)) (\<lambda>_.
     bind_op (or_repair cfg target (set_repair cfg (tg_ID target) False)) (\<lambda>_.
     bind_op (or_repair cfg target (reloadSharedRegistry cfg)) (\<lambda>_.
       or_repair cfg target (verifySharedRegistryReload cfg target))))))))"

definition repair_patch :: "config \<Rightarrow> serverTarget \<Rightarrow> (run, unit) operation" where
  "repair_patch cfg target = bind_op (reconcile cfg target) (\<lambda>_. reloadSharedRegistry cfg)"

text \<open>The two docker commands of the repair of a web deployment get one set of answers.\<close>

definition repair_web :: "config \<Rightarrow> lifecycleJournal \<Rightarrow> serverTarget \<Rightarrow> (run, unit) operation" where
  "repair_web cfg j target = observe (\<lambda>c s.
     let docker = (\<lambda>args. if ca_cancelled c then Inl (Err ''context canceled'') else docker_result (ca_docker c args))
     in repairWebGameDeploy cfg target j docker docker (si_env s))"

definition repair_deploy :: "config \<Rightarrow> serverTarget \<Rightarrow> (run, unit) operation" where
  "repair_deploy cfg target = bind_op (valid_target target) (\<lambda>_ r.
     case upStateless cfg (tg_Project target) (tg_EnvFile target) r of
       ((out, Some e), r') \<Rightarrow> (Inl e, r')
     | ((out, None), r') \<Rightarrow> (Inr (), r'))"

definition repair_delete :: "config \<Rightarrow> serverTarget \<Rightarrow> (run, unit) operation" where
  "repair_delete cfg target =
     bind_op (stat_env target) (\<lambda>st.
     bind_op (case st of
         Inl e \<Rightarrow> look (\<lambda>_. Inl e)
       | Inr False \<Rightarrow> look (\<lambda>_. Inr ())
       | Inr True \<Rightarrow>
           bind_op (valid_target target) (\<lambda>_.
           bind_op (down_server cfg target) (\<lambda>_. remove_env_file target))) (\<lambda>_.
     bind_op (remove_entry cfg (tg_ID target)) (\<lambda>_. reloadSharedRegistry cfg)))"

definition replay :: "config \<Rightarrow> lifecycleJournal \<Rightarrow> serverTarget \<Rightarrow> (run, bool) operation" where
  "replay cfg j target =
     (let op = lj_Operation j; ok = (\<lambda>m. bind_op m (\<lambda>_. done_with False)) in
      if op = ''create'' then repair_create cfg target
      else if op = ''reset''
      then ok (bind_op (repair_reset_prepare cfg j target) (\<lambda>_. repair_reset_replace cfg target))
      else if op = ''patch'' then ok (repair_patch cfg target)
      else if op = ''deploy-web'' then ok (repair_web cfg j target)
      else if op = ''deploy'' then ok (repair_deploy cfg target)
      else if op = ''delete'' then ok (repair_delete cfg target)
      else done_with False)"

section \<open>The repair\<close>

definition settle_replayed :: "lifecycleJournal \<Rightarrow> bool \<Rightarrow> (run, unit) operation" where
  "settle_replayed j nothing =
     (if lj_OperationID j = [] then look (\<lambda>_. Inr ())
      else if nothing then transition (lj_OperationID j) JobCancelled 409 IdCancelled
      else transition (lj_OperationID j) JobSucceeded 200 (durableOperationSuccessMessage (lj_OperationKind j)))"

definition replay_unsettled :: "config \<Rightarrow> lifecycleJournal \<Rightarrow> serverTarget \<Rightarrow> (run, unit) operation" where
  "replay_unsettled cfg j target =
     bind_op (or_recovery_required j
       (bind_op (check_env (with_effective_target j target)) (\<lambda>j'.
        bind_op (look (\<lambda>_. check_reset_target (lj_ResetTarget j'))) (\<lambda>_.
        bind_op (check_env_file j' target) (\<lambda>_.
        bind_op dockerPreflight (\<lambda>_.
        bind_op (replay cfg j' target) (\<lambda>nothing. settle_replayed j nothing)))))))
     (\<lambda>_. clear_journal)"

definition repair_journal :: "config \<Rightarrow> lifecycleJournal \<Rightarrow> op_record option \<Rightarrow> (run, unit) operation" where
  "repair_journal cfg j found =
     bind_op (or_recovery_required j (look (\<lambda>_. recovery_target cfg j))) (\<lambda>target.
       if map_option op_status found = Some JobSucceeded then settle_completed cfg j target
       else replay_unsettled cfg j target)"

definition repair_leased :: "config \<Rightarrow> (run, unit) operation" where
  "repair_leased cfg =
     bind_op (look (readLifecycleJournal cfg)) (\<lambda>j. case j of
       None \<Rightarrow> look (\<lambda>_. Inl (Err ''lifecycle recovery journal is unavailable''))
     | Some j \<Rightarrow> bind_op (look (linked_operation j)) (\<lambda>found. repair_journal cfg j found))"

text \<open>A refused lease is reported, unless docker cannot be reached either; a lease is given back.\<close>

definition repairLifecycleJournal :: "config \<Rightarrow> run \<Rightarrow> unit result outcome \<times> run" where
  "repairLifecycleJournal cfg r =
     (let (lease, c) = beginRecovery_try (site_coord (rn_site r)); r0 = on_run_coord (\<lambda>_. c) r in
      case lease of
        Wait \<Rightarrow> (Wait, r0)
      | Return (Inl e) \<Rightarrow>
          (case dockerPreflight r0 of (Inl e', r1) \<Rightarrow> (Return (Inl e'), r1) | (Inr _, r1) \<Rightarrow> (Return (Inl e), r1))
      | Return (Inr l) \<Rightarrow>
          let (x, r1) = repair_leased cfg r0 in (Return x, on_run_coord (lease_done l) r1))"

text \<open>\<open>recoverDurableLifecycleOperations\<close> at startup, with one retry of the store.\<close>

definition recover_store :: "string \<Rightarrow> call_env \<Rightarrow> world \<Rightarrow> err option \<times> world" where
  "recover_store opid e w =
     (case wd_store w of
        None \<Rightarrow> (Some (Err ''durable operation store unavailable''), w)
      | Some s \<Rightarrow> let (err, s', fs) = Recover opid (fst e) (snd e) s (wd_files w) in (err, put_store (s', fs) w))"

definition recoverDurableLifecycleOperations :: "config \<Rightarrow> call_env \<Rightarrow> call_env \<Rightarrow> (site, unit) operation" where
  "recoverDurableLifecycleOperations cfg e e' s =
     (case readLifecycleJournal cfg s of
        Inl err \<Rightarrow> (Inl (Err ''read lifecycle journal for operation recovery''), s)
      | Inr j \<Rightarrow>
          let opid = (case j of None \<Rightarrow> [] | Some j \<Rightarrow> lj_OperationID j);
              (err, w) = recover_store opid e (si_world s)
          in case err of
            None \<Rightarrow> (Inr (), s\<lparr>si_world := w\<rparr>)
          | Some _ \<Rightarrow> let (err', w') = recover_store opid e' w in
              (if err' = None then Inr () else Inl (Err ''recover durable lifecycle operations''), s\<lparr>si_world := w'\<rparr>))"

end
