(* ===== verification/GuardedRuns.thy ===== *)
theory GuardedRuns
  imports Verify JournalLaws
begin

text \<open>
  A logic for runs that follows the docker log, for the question when volumes are destroyed:
  calm operations keep the journal and the coordinator and never take a stack down; the
  others are described by what must hold before and what then holds. A fence is what an
  operation must have established before it takes a stack down: its journal on disk, and a
  condition on the coordinator.
\<close>

section \<open>Calm operations\<close>

named_theorems calm_rules \<open>operations that keep the journal and take no stack down\<close>

definition is_down :: "config \<Rightarrow> string list \<Rightarrow> bool" where
  "is_down cfg args \<longleftrightarrow> (\<exists>project envFile. args = down_command cfg project envFile)"

definition calm_step :: "config \<Rightarrow> run \<Rightarrow> run \<Rightarrow> bool" where
  "calm_step cfg r t \<longleftrightarrow>
     site_coord (rn_site t) = site_coord (rn_site r) \<and> si_journal (rn_site t) = si_journal (rn_site r) \<and>
     (\<exists>k. \<forall>n. rn_calls t n = rn_calls r (n + k)) \<and>
     (\<exists>ext. rn_log t = rn_log r @ ext \<and> (\<forall>(a, s) \<in> set ext. \<not> is_down cfg a))"

definition calm :: "config \<Rightarrow> (run, 'a) operation \<Rightarrow> bool" where
  "calm cfg m \<longleftrightarrow> (\<forall>r. calm_step cfg r (snd (m r)))"

lemma calm_refl [simp]: "calm_step cfg r r"
  by (auto simp: calm_step_def intro: exI[of _ 0])

lemma calm_trans:
  assumes "calm_step cfg r s" and "calm_step cfg s t"
  shows "calm_step cfg r t"
proof -
  obtain k l e f where "\<forall>n. rn_calls s n = rn_calls r (n + k)" "\<forall>n. rn_calls t n = rn_calls s (n + l)"
    "rn_log s = rn_log r @ e" "rn_log t = rn_log s @ f"
    "\<forall>(a, s) \<in> set e. \<not> is_down cfg a" "\<forall>(a, s) \<in> set f. \<not> is_down cfg a"
    using assms unfolding calm_step_def by blast
  then have "\<forall>n. rn_calls t n = rn_calls r (n + (l + k))" "rn_log t = rn_log r @ (e @ f)"
    "\<forall>(a, s) \<in> set (e @ f). \<not> is_down cfg a" by (auto simp: add.assoc)
  then show ?thesis using assms unfolding calm_step_def by metis
qed

lemma calm_tick: "calm_step cfg r (tick r)"
  by (auto simp: calm_step_def tick_def intro: exI[of _ 1])

lemma calmI: "(\<And>r. calm_step cfg r (snd (m r))) \<Longrightarrow> calm cfg m"
  by (simp add: calm_def)

lemma calmD: "calm cfg m \<Longrightarrow> m r = (x, t) \<Longrightarrow> calm_step cfg r t"
  by (metis calm_def snd_conv)

lemma calm_bind [calm_rules]: "calm cfg m \<Longrightarrow> (\<And>x. calm cfg (k x)) \<Longrightarrow> calm cfg (bind_op m k)"
  unfolding calm_def by (blast intro: bind_op_keeps[where R = "calm_step cfg"] calm_trans calm_refl)

lemma calm_look [calm_rules]: "calm cfg (look f)"
  by (simp add: calm_def look_def)

lemma calm_act:
  assumes "\<And>c s. site_coord (snd (f c s)) = site_coord s \<and> si_journal (snd (f c s)) = si_journal s"
  shows "calm cfg (act f)"
proof (rule calmI)
  fix r
  have "calm_step cfg (tick r) ((tick r)\<lparr>rn_site := snd (f (next_call r) (rn_site r))\<rparr>)"
    using assms[of "next_call r" "rn_site r"] by (auto simp: calm_step_def intro: exI[of _ 0])
  then show "calm_step cfg r (snd (act f r))" using calm_trans[OF calm_tick] by (simp add: act_def split_beta)
qed

lemma calm_observe [calm_rules]: "calm cfg (observe f)"
  unfolding observe_def by (rule calm_act) simp

lemma calm_check_env [calm_rules]: "calm cfg (check_env f)"
  unfolding check_env_def by (rule calm_look)

lemma calm_change_env [calm_rules]: "calm cfg (change_env f)"
  unfolding change_env_def by (rule calm_act) (simp add: split_beta)

lemma calm_drop [calm_rules]: "calm cfg m \<Longrightarrow> calm cfg (drop_value m)"
  unfolding drop_value_def by (intro calm_rules)

lemma calm_if [calm_rules]: "calm cfg m \<Longrightarrow> calm cfg m' \<Longrightarrow> calm cfg (if b then m else m')"
  by simp

lemma calm_option [calm_rules]:
  "calm cfg m \<Longrightarrow> (\<And>x. calm cfg (f x)) \<Longrightarrow> calm cfg (case v of None \<Rightarrow> m | Some x \<Rightarrow> f x)"
  by (cases v) simp_all

lemma calm_sum [calm_rules]:
  "(\<And>x. calm cfg (f x)) \<Longrightarrow> (\<And>x. calm cfg (g x)) \<Longrightarrow> calm cfg (case v of Inl x \<Rightarrow> f x | Inr x \<Rightarrow> g x)"
  by (cases v) simp_all

lemma calm_transition [calm_rules]: "calm cfg (transition opid st http mid)"
  unfolding transition_def
  by (rule calm_act) (simp add: transitionDurableLifecycleOperation_def put_store_def split_beta split: option.splits)

text \<open>After a failed operation a calm one may follow.\<close>

lemma calm_or_repair [calm_rules]: "calm cfg m \<Longrightarrow> calm cfg (or_repair cfg target m)"
proof (rule calmI)
  fix r
  assume m: "calm cfg m"
  have s: "calm cfg (set_repair cfg (tg_ID target) True)" unfolding set_repair_def by (intro calm_rules)
  obtain x t where x: "m r = (x, t)" by fastforce
  obtain y u where y: "set_repair cfg (tg_ID target) True t = (y, u)" by fastforce
  have "calm_step cfg r t" "calm_step cfg r u" using calmD[OF m x] calmD[OF s y] calm_trans by blast+
  then show "calm_step cfg r (snd (or_repair cfg target m r))"
    using x y by (cases x; cases y) (simp_all add: or_repair_def markResetRepairRequired_def)
qed

section \<open>Docker commands\<close>

lemma not_down:
  "c \<noteq> ''down'' \<Longrightarrow> \<not> is_down cfg (server_compose cfg project envFile (c # cs))"
  "\<not> is_down cfg (shared_compose cfg cs)"
  "\<not> is_down cfg (''version'' # cs)"
  by (auto simp: is_down_def down_command_def server_compose_def shared_compose_def)

lemma calm_docker: "\<not> is_down cfg args \<Longrightarrow> calm cfg (run_docker args)"
proof (rule calmI)
  fix r
  assume "\<not> is_down cfg args"
  then have "calm_step cfg (tick r) ((tick r)\<lparr>rn_log := rn_log r @ [(args, rn_site r)]\<rparr>)"
    by (auto simp: calm_step_def tick_def intro: exI[of _ 0])
  then show "calm_step cfg r (snd (run_docker args r))"
    using calm_trans[OF calm_tick] calm_tick by (simp add: run_docker_def runDockerContextWithEnvironment_def)
qed

lemma calm_commands [calm_rules]:
  "c \<noteq> ''down'' \<Longrightarrow> calm cfg (run_docker (server_compose cfg project envFile (c # cs)))"
  "calm cfg (run_docker (shared_compose cfg cs))"
  by (intro calm_docker not_down; assumption)+

lemma calm_preflight [calm_rules]: "calm cfg dockerPreflight"
proof -
  have "calm cfg (run_docker [''version'', ''--format'', ''{{.Server.Version}}''])" by (intro calm_docker not_down)
  then show ?thesis
    unfolding calm_def dockerPreflight_def by (auto split: prod.splits sum.splits) (metis snd_conv)+
qed

lemma calm_up [calm_rules]: "calm cfg (upServerStack cfg project envFile)"
  unfolding upServerStack_def by (intro calm_rules) simp

lemma calm_reload [calm_rules]: "calm cfg (reloadSharedRegistry cfg)"
  unfolding reloadSharedRegistry_def sync_allowlist_def
  by (intro calm_rules calm_act) (simp_all add: split_beta)

lemma calm_await [calm_rules]:
  assumes "calm cfg check" and "\<And>r. later_run r (snd (check r))"
  shows "calm cfg (await_or_hang cfg check)"
proof (rule calmI)
  fix r
  have "calm_step cfg r (pause d r)" for d r by (auto simp: calm_step_def pause_def intro: exI[of _ 0])
  then show "calm_step cfg r (snd (await_or_hang cfg check r))"
    using assms(1)
    by (intro await_keeps[where R = "calm_step cfg", OF assms(2) calm_tick _ _ calm_trans]) (simp_all add: calm_def)
qed

lemma calm_entry [calm_rules]: "calm cfg (entry_by_id cfg sid)" "calm cfg (remove_entry cfg sid)"
  "calm cfg (remove_env_file target)"
  unfolding entry_by_id_def remove_entry_def remove_env_file_def by (rule calm_act, simp add: split_beta)+

lemmas calm_steps = sync_entry_def reconcile_def set_repair_def stat_env_def valid_target_def apply_target_def

lemma calm_registry [calm_rules]:
  "calm cfg (sync_entry cfg target)" "calm cfg (reconcile cfg target)" "calm cfg (set_repair cfg sid flag)"
  "calm cfg (stat_env target)" "calm cfg (valid_target target)" "calm cfg (apply_target target rt)"
  unfolding calm_steps by (intro calm_rules)+

lemma calm_check [calm_rules]:
  "calm cfg (runtime_check cfg target expected)" "calm cfg (registry_check cfg target expected)"
  unfolding runtime_check_def registry_check_def expectHealth_def expectHTTPReady_def getVerificationURL_def split_beta
  by (intro calm_rules)+

lemma calm_verify [calm_rules]:
  "calm cfg (verifyResetRuntime cfg target)" "calm cfg (verifySharedRegistryReload cfg target)"
  unfolding verifyResetRuntime_def verifySharedRegistryReload_def target_expectation_def
  by (intro calm_rules check_later)+

lemma calm_pull_staged: "calm cfg (pull_staged cfg target rt staged)"
proof -
  have v: "calm cfg (verify_candidates staged rt)" unfolding verify_candidates_def by (rule calm_observe)
  have "calm cfg (\<lambda>r. case verify_candidates staged rt r of
      (Inr _, r1) \<Rightarrow> (Inr (), r1)
    | (Inl _, r1) \<Rightarrow> bind_op (run_docker (server_compose cfg (tg_Project target) staged (''pull'' # pull_services rt)))
        (\<lambda>_. verify_candidates staged rt) r1)"
  proof (rule calmI)
    fix r
    obtain x t where x: "verify_candidates staged rt r = (x, t)" by fastforce
    have "calm cfg (bind_op (run_docker (server_compose cfg (tg_Project target) staged (''pull'' # pull_services rt)))
        (\<lambda>_. verify_candidates staged rt))" by (intro calm_rules v) simp
    then show "calm_step cfg r (snd (case verify_candidates staged rt r of
        (Inr _, r1) \<Rightarrow> (Inr (), r1)
      | (Inl _, r1) \<Rightarrow> bind_op (run_docker (server_compose cfg (tg_Project target) staged (''pull'' # pull_services rt)))
          (\<lambda>_. verify_candidates staged rt) r1))"
      using calmD[OF v x] x calm_trans by (cases x) (auto simp: calm_def)
  qed
  then show ?thesis unfolding pull_staged_def by (intro calm_bind calm_check_env)
qed

lemma calm_drop_staged: "calm cfg m \<Longrightarrow> calm cfg (\<lambda>r. drop_staged sc staged (m r))"
proof (rule calmI)
  fix r
  assume m: "calm cfg m"
  obtain x t where x: "m r = (x, t)" by fastforce
  have "calm_step cfg t (snd (drop_staged sc staged (x, t)))"
    by (auto simp: drop_staged_def calm_step_def Let_def intro: exI[of _ 0])
  then show "calm_step cfg r (snd (drop_staged sc staged (m r)))" using calm_trans[OF calmD[OF m x]] x by simp
qed

lemma calm_answers: "(\<And>c. calm cfg (m c)) \<Longrightarrow> calm cfg (\<lambda>r. m (ca_stage (next_call r)) r)"
  by (simp add: calm_def)

lemma calm_pull [calm_rules]: "calm cfg (pullResetCandidate cfg target rt)"
proof -
  have "calm cfg (\<lambda>r. bind_op
      (act (\<lambda>c s. let (x, fs) = stage_copy (tg_EnvFile target) False
           (\<lambda>name a fs. let (e, fs') = applyResetLifecycleTarget name t a fs in (no_error e, fs')) (ca_stage (next_call r)) (si_env s)
         in (x, s\<lparr>si_env := fs\<rparr>)))
      (\<lambda>staged r'. drop_staged (ca_stage (next_call r)) staged (pull_staged cfg target t staged r')) r)" for t
    by (rule calm_answers) (intro calm_bind calm_act calm_drop_staged calm_pull_staged, simp add: split_beta Let_def)
  then show ?thesis unfolding pullResetCandidate_def Let_def by (intro calm_sum calm_look calm_bind calm_check_env)
qed

section \<open>Guarded operations\<close>

text \<open>
  From a run with I, every docker command of the operation is issued under P, and after a
  success with result v the run has J v.
\<close>

definition logged :: "(string list \<Rightarrow> site \<Rightarrow> bool) \<Rightarrow> run \<Rightarrow> run \<Rightarrow> bool" where
  "logged P r t \<longleftrightarrow> (\<exists>ext. rn_log t = rn_log r @ ext \<and> (\<forall>(a, s) \<in> set ext. P a s))"

definition guarded ::
    "(string list \<Rightarrow> site \<Rightarrow> bool) \<Rightarrow> (run \<Rightarrow> bool) \<Rightarrow> (run, 'a) operation \<Rightarrow> ('a \<Rightarrow> run \<Rightarrow> bool) \<Rightarrow> bool" where
  "guarded P I m J \<longleftrightarrow> (\<forall>r x t. I r \<longrightarrow> m r = (x, t) \<longrightarrow> logged P r t \<and> (\<forall>v. x = Inr v \<longrightarrow> J v t))"

lemma guardedI:
  "(\<And>r x t. I r \<Longrightarrow> m r = (x, t) \<Longrightarrow> logged P r t \<and> (\<forall>v. x = Inr v \<longrightarrow> J v t)) \<Longrightarrow> guarded P I m J"
  unfolding guarded_def by blast

lemma guardedD:
  assumes "guarded P I m J" and "I r" and "m r = (x, t)"
  shows "logged P r t" and "x = Inr v \<Longrightarrow> J v t"
  using assms unfolding guarded_def by blast+

lemma logged_refl [simp]: "logged P r r"
  by (simp add: logged_def)

lemma logged_trans:
  assumes "logged P r s" and "logged P s t"
  shows "logged P r t"
proof -
  obtain e f where "rn_log s = rn_log r @ e" "rn_log t = rn_log s @ f"
    "\<forall>(a, s) \<in> set e. P a s" "\<forall>(a, s) \<in> set f. P a s" using assms unfolding logged_def by blast
  then show ?thesis unfolding logged_def by (intro exI[of _ "e @ f"]) auto
qed

lemma guarded_bind:
  assumes "guarded P I m J" and "\<And>v. guarded P (J v) (k v) K"
  shows "guarded P I (bind_op m k) K"
proof (rule guardedI)
  fix r x t
  assume i: "I r" and b: "bind_op m k r = (x, t)"
  from b show "logged P r t \<and> (\<forall>v. x = Inr v \<longrightarrow> K v t)"
  proof (cases rule: bind_op_cases)
    case (stopped e)
    then show ?thesis using guardedD(1)[OF assms(1) i] by simp
  next
    case (goes_on v s1)
    have "J v s1" by (rule guardedD(2)[OF assms(1) i goes_on(1) refl])
    from guardedD[OF assms(2) this goes_on(2)] guardedD(1)[OF assms(1) i goes_on(1)]
    show ?thesis by (auto intro: logged_trans)
  qed
qed

lemma guarded_weaken:
  assumes "guarded P I m J" and "\<And>r. I' r \<Longrightarrow> I r" and "\<And>v r. J v r \<Longrightarrow> J' v r"
  shows "guarded P I' m J'"
  by (rule guardedI) (use assms(2,3) guardedD[OF assms(1)] in blast)

text \<open>After a failed guarded operation, a calm step.\<close>

lemma guarded_then_calm:
  assumes "guarded P I m J" and "\<And>r t. calm_step cfg r t \<Longrightarrow> logged P r t"
    and "\<And>r v t. m r = (Inr v, t) \<Longrightarrow> m' r = (Inr (f v), t)"
    and "\<And>r e t. m r = (Inl e, t) \<Longrightarrow> \<exists>e' t'. m' r = (Inl e', t') \<and> calm_step cfg t t'"
  shows "guarded P I m' (\<lambda>u r. \<exists>v. u = f v \<and> J v r)"
proof (rule guardedI)
  fix r y t'
  assume i: "I r" and m': "m' r = (y, t')"
  obtain x t where x: "m r = (x, t)" by fastforce
  note g = guardedD[OF assms(1) i x]
  show "logged P r t' \<and> (\<forall>v. y = Inr v \<longrightarrow> (\<exists>v'. v = f v' \<and> J v' t'))"
  proof (cases x)
    case (Inl a)
    then obtain e where "y = Inl e" "calm_step cfg t t'" using assms(4)[of r a t] x m' by auto
    then show ?thesis using logged_trans[OF g(1) assms(2)] by simp
  next
    case (Inr v)
    then show ?thesis using assms(3)[of r v t] x m' g by auto
  qed
qed

lemma guarded_calm:
  assumes "calm cfg m" and "\<And>r t. calm_step cfg r t \<Longrightarrow> logged P r t"
    and "\<And>r t. calm_step cfg r t \<Longrightarrow> I r \<Longrightarrow> I t"
  shows "guarded P I m (\<lambda>_. I)"
  by (rule guardedI) (use assms(2,3) calmD[OF assms(1)] in blast)

section \<open>Fences\<close>

text \<open>A condition on the coordinator that the writes of the journal keep.\<close>

definition steady :: "(coord \<Rightarrow> bool) \<Rightarrow> bool" where
  "steady K \<longleftrightarrow> (\<forall>c p. K c \<longrightarrow> K (markLifecycleJournalPending (c\<lparr>co_present := p\<rparr>)))"

lemma steady_closed: "steady co_closed"
  by (simp add: steady_def markLifecycleJournalPending_def Let_def)

lemma steady_active: "steady (\<lambda>c. co_active c = Some l)"
  by (simp add: steady_def markLifecycleJournalPending_def Let_def)

definition fenced :: "config \<Rightarrow> (coord \<Rightarrow> bool) \<Rightarrow> lifecycleJournal \<Rightarrow> (string \<Rightarrow> bool) \<Rightarrow> run \<Rightarrow> bool" where
  "fenced cfg K j stages r \<longleftrightarrow>
     (let s = rn_site r in
      journal_good cfg s \<and> K (site_coord s) \<and> co_journalPending (site_coord s) \<and>
      (\<exists>j'. readLifecycleJournal cfg s = Inr (Some j') \<and> about j j' \<and> stages (lj_Stage j')) \<and>
      (\<forall>n. ans_tmp (snd (ca_write (rn_calls r n))) \<noteq> journal_path s))"

definition down_allowed :: "config \<Rightarrow> (coord \<Rightarrow> bool) \<Rightarrow> lifecycleJournal \<Rightarrow> serverTarget \<Rightarrow> string list \<Rightarrow> site \<Rightarrow> bool" where
  "down_allowed cfg K j target args s \<longleftrightarrow>
     args = down_command cfg (tg_Project target) (tg_EnvFile target) \<and>
     (lj_Operation j = ''reset'' \<or> lj_Operation j = ''delete'') \<and>
     opt_all (\<lambda>t. \<not> resetTargetRequiresD101Execution t) (lj_ResetTarget j) \<and>
     K (site_coord s) \<and> co_journalPending (site_coord s) \<and>
     (\<exists>j'. readLifecycleJournal cfg s = Inr (Some j') \<and> about j j' \<and>
        (lj_Operation j = ''reset'' \<longrightarrow> lj_Stage j' = lifecycleJournalStageDown)) \<and>
     (\<exists>vals. validateServerTarget target (si_env s) = Inr vals)"

abbreviation downs :: "config \<Rightarrow> (coord \<Rightarrow> bool) \<Rightarrow> lifecycleJournal \<Rightarrow> serverTarget \<Rightarrow> string list \<Rightarrow> site \<Rightarrow> bool" where
  "downs cfg K j target args s \<equiv> is_down cfg args \<longrightarrow> down_allowed cfg K j target args s"

lemma calm_logged: "calm_step cfg r t \<Longrightarrow> logged (downs cfg K j target) r t"
  unfolding calm_step_def logged_def by fast

lemma calm_fenced: "calm_step cfg r t \<Longrightarrow> fenced cfg K j st r \<Longrightarrow> fenced cfg K j st t"
  by (auto simp: calm_step_def fenced_def journal_good_def readLifecycleJournal_def Let_def)

lemma fenced_calm: "calm cfg m \<Longrightarrow> guarded (downs cfg K j target) (fenced cfg K j st) m (\<lambda>_. fenced cfg K j st)"
  by (rule guarded_calm) (auto intro: calm_logged calm_fenced)

lemma fenced_advance:
  assumes "steady K"
  shows "guarded (downs cfg K j target) (fenced cfg K j st) (advance cfg stage) (\<lambda>_. fenced cfg K j ((=) stage))"
proof (rule guardedI)
  fix r x t
  assume f: "fenced cfg K j st r" and a: "advance cfg stage r = (x, t)"
  let ?e = "ca_write (next_call r)" and ?s = "rn_site r"
  obtain j' where j': "readLifecycleJournal cfg ?s = Inr (Some j')" "about j j'" "journal_good cfg ?s"
    "K (site_coord ?s)" and tmp: "\<And>n. ans_tmp (snd (ca_write (rn_calls r n))) \<noteq> journal_path ?s"
    using f by (auto simp: fenced_def Let_def)
  from tmp[of 0] have t0: "ans_tmp (snd ?e) \<noteq> journal_path ?s" by (simp add: next_call_def)
  obtain s1 where s1: "advanceLifecycleJournal cfg stage ?e ?s = (x, s1)" and t: "t = (tick r)\<lparr>rn_site := s1\<rparr>"
    using a by (auto simp: advance_def site_op_def act_def split: prod.splits)
  have "logged (downs cfg K j target) r t" by (auto simp: t logged_def tick_def)
  moreover have "fenced cfg K j ((=) stage) t" if "x = Inr v" for v
  proof -
    have n: "journal_normal cfg j'" using j'(1,3) by (simp add: journal_good_def)
    note d = advance_done[OF s1[unfolded that] j'(1) n t0]
    have "data_at (si_journal s1) (journal_path s1) = Some (journal_doc (j'\<lparr>lj_Stage := stage\<rparr>))"
      using s1 that j'(1) write_record_done(1,2)[OF _ t0]
      by (auto simp: advanceLifecycleJournal_def bind_op_ok split: if_splits)
    moreover have "K (site_coord s1)"
    proof -
      obtain s2 where "writeLifecycleJournalRecord (j'\<lparr>lj_Stage := stage\<rparr>) ?e ?s = (Inr (), s2)"
        "s1 = on_coord markLifecycleJournalPending s2"
        using s1[unfolded \<open>x = Inr v\<close>] j'(1) by (auto simp: advanceLifecycleJournal_def bind_op_ok split: if_splits)
      then show ?thesis using write_record_done(6)[OF _ t0] assms j'(4) by (simp add: steady_def)
    qed
    ultimately show ?thesis
      using d j'(2) tmp by (auto simp: t fenced_def journal_good_def Let_def readLifecycleJournal_def)
  qed
  ultimately show "logged (downs cfg K j target) r t \<and> (\<forall>v. x = Inr v \<longrightarrow> fenced cfg K j ((=) stage) t)" by blast
qed

lemma calm_set_repair: "set_repair cfg sid flag r = (x, t) \<Longrightarrow> calm_step cfg r t"
  by (rule calmD[OF calm_registry(3)])

lemma fenced_or_repair:
  assumes "guarded (downs cfg K j target) I m J"
  shows "guarded (downs cfg K j target) I (or_repair cfg target' m) (\<lambda>_ r. \<exists>v. J v r)"
proof (rule guarded_weaken[OF guarded_then_calm[OF assms calm_logged]])
  fix r and e :: err and t
  assume "m r = (Inl e, t)"
  then show "\<exists>e' t'. or_repair cfg target' m r = (Inl e', t') \<and> calm_step cfg t t'"
    by (cases "set_repair cfg (tg_ID target') True t")
      (auto simp: or_repair_def markResetRepairRequired_def dest: calm_set_repair split: sum.splits)
qed (auto simp: or_repair_def)

lemma fenced_down:
  assumes "target = target_of cfg sid" and "canonical_id sid"
    and "lj_Operation j = ''reset'' \<and> st = (=) lifecycleJournalStageDown \<or> lj_Operation j = ''delete''"
    and "opt_all (\<lambda>t. \<not> resetTargetRequiresD101Execution t) (lj_ResetTarget j)"
  shows "guarded (downs cfg K j target) (fenced cfg K j st) (downServerStack cfg project (tg_EnvFile target))
    (\<lambda>_. fenced cfg K j st)"
proof (rule guardedI)
  fix r x t
  assume f: "fenced cfg K j st r" and d: "downServerStack cfg project (tg_EnvFile target) r = (x, t)"
  let ?c = "down_command cfg (tg_Project target) (tg_EnvFile target)"
  have s: "rn_site t = rn_site r" and l: "rn_log t = rn_log r \<or> rn_log t = rn_log r @ [(?c, rn_site r)] \<and>
      (\<exists>vals. validateServerTarget target (si_env (rn_site r)) = Inr vals)"
    using down_own_stack[OF d] assms(1,2)
    by (auto simp: target_of_def validateServerTarget_def clean_env_file_inj)
  have "down_allowed cfg K j target ?c (rn_site r)" if "validateServerTarget target (si_env (rn_site r)) = Inr vals" for vals
    using f assms(3,4) that by (auto simp: down_allowed_def fenced_def Let_def)
  then have "logged (downs cfg K j target) r t" using l by (auto simp: logged_def)
  moreover have "rn_calls t = rn_calls r \<or> rn_calls t = (\<lambda>n. rn_calls r (Suc n))"
    using d by (auto simp: down_at run_docker_def runDockerContextWithEnvironment_def tick_def
        split: if_splits sum.splits elim!: drop_value_cases)
  then have "fenced cfg K j st t" using f s by (auto simp: fenced_def Let_def)
  ultimately show "logged (downs cfg K j target) r t \<and> (\<forall>v. x = Inr v \<longrightarrow> fenced cfg K j st t)" by blast
qed

abbreviation any_stage :: "string \<Rightarrow> bool" where
  "any_stage \<equiv> \<lambda>_. True"

lemma fenced_any: "fenced cfg K j st r \<Longrightarrow> fenced cfg K j any_stage r"
  by (auto simp: fenced_def Let_def)

lemma guarded_assume: "(F \<Longrightarrow> guarded P I m J) \<Longrightarrow> guarded P (\<lambda>r. F \<and> I r) m J"
  unfolding guarded_def by blast

lemma any_calm: "calm cfg m \<Longrightarrow> guarded (downs cfg K j target) (fenced cfg K j st) m (\<lambda>_. fenced cfg K j any_stage)"
  by (rule guarded_weaken[OF fenced_calm]) (auto intro: fenced_any)

lemma any_advance: "steady K \<Longrightarrow>
    guarded (downs cfg K j target) (fenced cfg K j st) (advance cfg stage) (\<lambda>_. fenced cfg K j any_stage)"
  by (rule guarded_weaken[OF fenced_advance]) (auto intro: fenced_any)

lemma guarded_seq: "guarded P I m (\<lambda>_. I) \<Longrightarrow> (\<And>v. guarded P I (k v) J) \<Longrightarrow> guarded P I (bind_op m k) J"
  by (rule guarded_bind)

lemma repair_step:
  assumes "calm cfg m"
  shows "guarded (downs cfg K j target) (fenced cfg K j st) (or_repair cfg target m) (\<lambda>_. fenced cfg K j st)"
  by (intro fenced_calm calm_rules assms)

end
