(* ===== verification/RecoveryLaws.thy ===== *)
theory RecoveryLaws
  imports Recovery GuardedRuns
begin

text \<open>
  When the repair of a journal destroys volumes, and how a repair ends.
\<close>

section \<open>The repair\<close>

lemma calm_stateless [calm_rules]: "calm cfg (repair_deploy cfg target)"
proof -
  have "calm_step cfg r (snd (upStateless cfg project envFile r))" for project envFile r
  proof -
    let ?c = "[''up'', ''-d'', ''--force-recreate'', ''--no-deps''] @ cf_statelessServices cfg"
    have "calm cfg (run_docker (server_compose cfg project envFile ?c))" by (simp add: calm_commands)
    then have "calm_step cfg r (snd (runDockerContextWithEnvironment (server_compose cfg project envFile ?c) r))"
      by (auto simp: calm_def run_docker_def split_beta)
    then show ?thesis by (auto simp: upStateless_def checked_docker_def split_beta split: sum.splits)
  qed
  then have "calm cfg (\<lambda>r. case upStateless cfg (tg_Project target) (tg_EnvFile target) r of
      ((out, Some e), r') \<Rightarrow> (Inl e, r') | ((out, None), r') \<Rightarrow> (Inr (), r'))"
    by (auto simp: calm_def split: prod.splits option.splits) (metis snd_conv)+
  then show ?thesis unfolding repair_deploy_def by (intro calm_rules)
qed

lemma calm_web [calm_rules]: "calm cfg (repair_web cfg j target)" "calm cfg (repair_patch cfg target)"
  "calm cfg (repair_create cfg target)"
  unfolding repair_web_def repair_patch_def repair_create_def up_server_def done_with_def
  by (intro calm_rules)+

lemma fenced_or_recovery:
  assumes "guarded (downs cfg co_closed j target) I m J"
  shows "guarded (downs cfg co_closed j target) I (or_recovery_required j' m) J"
proof (rule guarded_weaken[OF guarded_then_calm[OF assms calm_logged]])
  fix r and e :: err and t
  assume m: "m r = (Inl e, t)"
  obtain x t' where t': "transition (lj_OperationID j') JobRecoveryRequired 202 IdRecoveryRequired t = (x, t')" by fastforce
  with calmD[OF calm_transition t'] m show "\<exists>e' t'. or_recovery_required j' m r = (Inl e', t') \<and> calm_step cfg t t'"
    by (cases x) (auto simp: or_recovery_required_def)
qed (auto simp: or_recovery_required_def)

lemma fenced_prepare:
  "guarded (downs cfg co_closed j target) (fenced cfg co_closed j any_stage) (prepareResetRecovery cfg j' target) (\<lambda>_. fenced cfg co_closed j any_stage)"
proof -
  have end_step: "guarded (downs cfg co_closed j target) (fenced cfg co_closed j any_stage)
    (if before_mutation j' then advance cfg lifecycleJournalStageEnv
     else bind_op (valid_target target) (\<lambda>vals. drop_value (look (\<lambda>_. resetRuntimeExpectationFor vals))))
    (\<lambda>_. fenced cfg co_closed j any_stage)"
  proof (cases "before_mutation j'")
    case True
    then show ?thesis by (simp add: any_advance[OF steady_closed])
  next
    case False
    then show ?thesis by (simp, intro any_calm calm_rules)
  qed
  show ?thesis unfolding prepareResetRecovery_def
    by (intro guarded_seq end_step; rule fenced_calm; intro calm_rules)
qed

lemma fenced_reset:
  assumes "target = target_of cfg sid" and "canonical_id sid" and "lj_Operation j = ''reset''"
    and "opt_all (\<lambda>t. \<not> resetTargetRequiresD101Execution t) (lj_ResetTarget j)"
  shows "guarded (downs cfg co_closed j target) (fenced cfg co_closed j any_stage)
    (bind_op (repair_reset_prepare cfg j' target) (\<lambda>_. repair_reset_replace cfg target)) (\<lambda>_ _. True)"
proof -
  note down = guarded_weaken[OF fenced_or_repair[OF fenced_down[where st = "(=) lifecycleJournalStageDown", OF assms(1,2) _ assms(4)]]]
  note advanced = guarded_weaken[OF fenced_or_repair[OF fenced_advance[OF steady_closed]]]
  let ?D = "fenced cfg co_closed j ((=) lifecycleJournalStageDown)" and ?P = "downs cfg co_closed j target"
  have prepared: "guarded ?P (fenced cfg co_closed j any_stage) (repair_reset_prepare cfg j' target) (\<lambda>_. fenced cfg co_closed j any_stage)"
    unfolding repair_reset_prepare_def
    by (intro guarded_seq fenced_prepare; rule fenced_calm; intro calm_rules)
  have at_down: "guarded ?P (fenced cfg co_closed j any_stage) (or_repair cfg target (advance cfg lifecycleJournalStageDown)) (\<lambda>_. ?D)"
    by (rule advanced) auto
  have downed: "guarded ?P ?D (or_repair cfg target (down_server cfg target)) (\<lambda>_. ?D)"
    unfolding down_server_def by (rule down) (use assms(3) in auto)
  have "guarded ?P (fenced cfg co_closed j any_stage)
    (bind_op (repair_reset_prepare cfg j' target) (\<lambda>_. repair_reset_replace cfg target)) (\<lambda>_. ?D)"
    unfolding repair_reset_replace_def up_server_def
    by (rule guarded_bind[OF prepared], rule guarded_bind[OF at_down], rule guarded_bind[OF downed])
      (intro guarded_seq repair_step calm_rules)
  then show ?thesis by (rule guarded_weaken) auto
qed

lemma fenced_delete:
  assumes "target = target_of cfg sid" and "canonical_id sid" and "lj_Operation j = ''delete''"
    and "opt_all (\<lambda>t. \<not> resetTargetRequiresD101Execution t) (lj_ResetTarget j)"
  shows "guarded (downs cfg co_closed j target) (fenced cfg co_closed j any_stage) (repair_delete cfg target) (\<lambda>_. fenced cfg co_closed j any_stage)"
proof -
  let ?P = "downs cfg co_closed j target" and ?I = "fenced cfg co_closed j any_stage"
  have down: "guarded ?P ?I (down_server cfg target) (\<lambda>_. ?I)" using assms unfolding down_server_def by (intro fenced_down) auto
  have cases: "guarded ?P ?I (case st of Inl e \<Rightarrow> look (\<lambda>_. Inl e) | Inr False \<Rightarrow> look (\<lambda>_. Inr ())
       | Inr True \<Rightarrow> bind_op (valid_target target) (\<lambda>_. bind_op (down_server cfg target) (\<lambda>_. remove_env_file target)))
     (\<lambda>_. ?I)" for st :: "bool result"
  proof (cases "st = Inr True")
    case True
    show ?thesis by (simp add: True, intro guarded_seq down; rule fenced_calm; intro calm_rules)
  next
    case False
    then show ?thesis by (cases st) (auto intro: fenced_calm calm_rules split: bool.split)
  qed
  show ?thesis unfolding repair_delete_def
    by (intro guarded_seq cases; rule fenced_calm; intro calm_rules)
qed

lemma guarded_done: "guarded P I m J \<Longrightarrow> guarded P I (bind_op m (\<lambda>_. done_with b)) (\<lambda>_ _. True)"
  by (rule guarded_bind) (auto simp: done_with_def look_def guarded_def)

lemma fenced_replay:
  assumes "target = target_of cfg sid" and "canonical_id sid" and "lj_Operation j' = lj_Operation j"
    and "opt_all (\<lambda>t. \<not> resetTargetRequiresD101Execution t) (lj_ResetTarget j)"
  shows "guarded (downs cfg co_closed j target) (fenced cfg co_closed j any_stage) (replay cfg j' target) (\<lambda>_ _. True)"
proof -
  let ?P = "downs cfg co_closed j target" and ?I = "fenced cfg co_closed j any_stage"
  have quiet: "guarded ?P ?I m (\<lambda>_ _. True)" if "calm cfg m" for m :: "(run, bool) operation"
    by (rule guarded_weaken[OF fenced_calm[OF that]]) auto
  have quiet': "guarded ?P ?I (bind_op m (\<lambda>_. done_with False)) (\<lambda>_ _. True)" if "calm cfg m" for m :: "(run, unit) operation"
    by (rule guarded_done[OF fenced_calm[OF that]])
  have "calm cfg (done_with False)" unfolding done_with_def by (rule calm_look)
  then show ?thesis
    unfolding replay_def Let_def assms(3)
    by (auto intro!: quiet quiet' guarded_done[OF fenced_delete[OF assms(1,2) _ assms(4)]]
        guarded_done[OF fenced_reset[OF assms(1,2) _ assms(4)]] intro: calm_rules)
qed

lemma effective_operation: "with_effective_target j target fs = Inr j' \<Longrightarrow> lj_Operation j' = lj_Operation j \<and>
    (lj_ResetTarget j \<noteq> None \<longrightarrow> lj_ResetTarget j' = lj_ResetTarget j)"
  by (auto simp: with_effective_target_def map_sum_ok split: if_splits)

lemma checked_target: "check_reset_target rt = Inr () \<Longrightarrow> opt_all (\<lambda>t. \<not> resetTargetRequiresD101Execution t) rt"
  by (auto simp: check_reset_target_def split: option.splits if_splits)

lemma logs_nothing: "guarded (downs cfg co_closed j target) I (site_op f) (\<lambda>_ _. True)"
  by (rule guardedI) (auto simp: site_op_def act_def logged_def tick_def split: prod.splits)

lemma fenced_check_env: "guarded (downs cfg co_closed j target) (fenced cfg co_closed j st) (check_env f) (\<lambda>v r. (\<exists>fs. f fs = Inr v) \<and> fenced cfg co_closed j st r)"
  by (rule guardedI) (auto simp: check_env_def look_def)

lemma fenced_look: "guarded (downs cfg co_closed j target) (fenced cfg co_closed j st) (look f) (\<lambda>v r. (\<exists>s. f s = Inr v) \<and> fenced cfg co_closed j st r)"
  by (rule guardedI) (auto simp: look_def)

lemma fenced_unsettled:
  assumes "target = target_of cfg sid" and "canonical_id sid"
  shows "guarded (downs cfg co_closed j target) (fenced cfg co_closed j any_stage) (replay_unsettled cfg j target) (\<lambda>_ _. True)"
proof -
  let ?P = "downs cfg co_closed j target" and ?I = "fenced cfg co_closed j any_stage"
  have settle: "guarded ?P (\<lambda>_. True) (settle_replayed j b) (\<lambda>_ _. True)" for b
  proof -
    have c: "calm cfg (settle_replayed j b)" unfolding settle_replayed_def by (intro calm_rules)
    show ?thesis by (rule guarded_calm[OF c]) (auto intro: calm_logged)
  qed
  have replayed: "guarded ?P (\<lambda>r. (\<exists>s. check_reset_target (lj_ResetTarget j') = Inr v) \<and> ?I r)
      (bind_op (check_env_file j' target) (\<lambda>_. bind_op dockerPreflight (\<lambda>_.
         bind_op (replay cfg j' target) (\<lambda>nothing. settle_replayed j nothing)))) (\<lambda>_ _. True)"
    if "\<exists>fs. with_effective_target j target fs = Inr j'" for j' v
  proof (rule guarded_assume)
    assume "\<exists>s. check_reset_target (lj_ResetTarget j') = Inr v"
    then have "opt_all (\<lambda>t. \<not> resetTargetRequiresD101Execution t) (lj_ResetTarget j)"
      using checked_target that effective_operation by (cases "lj_ResetTarget j") fastforce+
    from fenced_replay[OF assms _ this] that effective_operation
    have r: "guarded ?P ?I (replay cfg j' target) (\<lambda>_ _. True)" by blast
    have "calm cfg (check_env_file j' target)" unfolding check_env_file_def
      by (intro calm_rules) (simp split: bool.split, intro conjI impI calm_rules)
    then show "guarded ?P ?I (bind_op (check_env_file j' target) (\<lambda>_. bind_op dockerPreflight (\<lambda>_.
         bind_op (replay cfg j' target) (\<lambda>nothing. settle_replayed j nothing)))) (\<lambda>_ _. True)"
      by (intro guarded_seq[OF fenced_calm] calm_rules guarded_bind[OF r settle])
  qed
  have checked: "guarded ?P (\<lambda>r. (\<exists>fs. with_effective_target j target fs = Inr j') \<and> ?I r)
      (bind_op (look (\<lambda>_. check_reset_target (lj_ResetTarget j'))) (\<lambda>_. bind_op (check_env_file j' target) (\<lambda>_.
         bind_op dockerPreflight (\<lambda>_. bind_op (replay cfg j' target) (\<lambda>nothing. settle_replayed j nothing)))))
      (\<lambda>_ _. True)" for j'
    by (rule guarded_assume, rule guarded_bind[OF fenced_look replayed])
  show ?thesis unfolding replay_unsettled_def clear_journal_def
    by (rule guarded_bind[OF fenced_or_recovery[OF guarded_bind[OF fenced_check_env checked]] logs_nothing])
qed

lemma fenced_completed:
  "guarded (downs cfg co_closed j target) (fenced cfg co_closed j any_stage) (settle_completed cfg j target) (\<lambda>_ _. True)"
proof (cases "lj_ResetExecution j = None")
  case True
  have c: "calm cfg (verifySucceededLifecycleJournal cfg j target)"
    unfolding verifySucceededLifecycleJournal_def by (intro calm_rules)
  show ?thesis unfolding settle_completed_def clear_journal_def
    by (simp add: True, rule guarded_bind[OF fenced_calm[OF c] logs_nothing])
next
  case False
  then show ?thesis by (simp add: settle_completed_def logs_nothing)
qed

lemma fenced_repair:
  assumes "recovery_target cfg j = Inr target"
  shows "guarded (downs cfg co_closed j target) (fenced cfg co_closed j any_stage) (repair_journal cfg j found) (\<lambda>_ _. True)"
proof -
  obtain sid where t: "target = target_of cfg sid" "canonical_id sid"
    using assms by (auto simp: recovery_target_def target_for_id_iff split: sum.splits if_splits)
  have "guarded (downs cfg co_closed j target) (\<lambda>r. (\<exists>s :: site. recovery_target cfg j = Inr target') \<and> fenced cfg co_closed j any_stage r)
      (if map_option op_status found = Some JobSucceeded then settle_completed cfg j target'
       else replay_unsettled cfg j target') (\<lambda>_ _. True)" for target'
    using assms fenced_completed fenced_unsettled[OF t] by (intro guarded_assume) auto
  then show ?thesis unfolding repair_journal_def
    by (rule guarded_bind[OF fenced_or_recovery[OF fenced_look]])
qed

lemma recovery_lease:
  assumes "beginRecovery_try c = (Return (Inr l), c')"
  shows "co_closed c' \<and> co_journalPending c' \<and> co_journalPath c' = co_journalPath c"
  using assms by (auto simp: beginRecovery_try_def new_lease_def Let_def split: if_splits)

lemma recovery_refused:
  assumes "beginRecovery_try c = (o', c')" and "\<forall>l. o' \<noteq> Return (Inr l)"
  shows "c' = c"
  using assms by (auto simp: beginRecovery_try_def new_lease_def Let_def split: if_splits)

lemma calm_log: "calm_step cfg r t \<Longrightarrow> (args, s) \<in> set (drop (length (rn_log r)) (rn_log t)) \<Longrightarrow> \<not> is_down cfg args"
  by (auto simp: calm_step_def)

lemma repair_downs:
  assumes "repairLifecycleJournal cfg r = (Return x, t)" and "journal_good cfg (rn_site r)"
    and "\<And>n. ans_tmp (snd (ca_write (rn_calls r n))) \<noteq> journal_path (rn_site r)"
    and "(args, s) \<in> set (drop (length (rn_log r)) (rn_log t))" and "is_down cfg args"
  shows "\<exists>j target. readLifecycleJournal cfg (rn_site r) = Inr (Some j) \<and> recovery_target cfg j = Inr target \<and>
    down_allowed cfg co_closed j target args s"
proof -
  obtain lease c where b: "beginRecovery_try (site_coord (rn_site r)) = (lease, c)" by fastforce
  let ?r = "on_run_coord (\<lambda>_. c) r"
  have same: "readLifecycleJournal cfg (rn_site ?r) = readLifecycleJournal cfg (rn_site r)"
    if "co_journalPath c = journal_path (rn_site r)"
    using that by (simp add: on_run_coord_def readLifecycleJournal_def on_coord_def map_coord_def)
  have log: "rn_log ?r = rn_log r" "rn_calls ?r = rn_calls r" by (simp_all add: on_run_coord_def)
  show ?thesis
  proof (cases "\<exists>l. lease = Return (Inr l)")
    case False
    then obtain y t1 where "dockerPreflight ?r = (y, t1)" "t = t1"
      using assms(1) b by (auto simp: repairLifecycleJournal_def Let_def split: outcome.splits sum.splits prod.splits)
    from calm_log[OF calmD[OF calm_preflight this(1)]] this(2) assms(4,5) log show ?thesis by fastforce
  next
    case True
    then obtain l where l: "lease = Return (Inr l)" by blast
    note c = recovery_lease[OF b[unfolded l]]
    obtain y t1 where m: "repair_leased cfg ?r = (y, t1)" by fastforce
    have t1: "rn_log t = rn_log t1" using assms(1) b l m by (auto simp: repairLifecycleJournal_def on_run_coord_def)
    have path: "co_journalPath c = journal_path (rn_site r)" using c by simp
    from assms(4) log t1 have new: "(args, s) \<in> set (drop (length (rn_log ?r)) (rn_log t1))" by simp
    show ?thesis
    proof (cases "\<exists>j found. readLifecycleJournal cfg (rn_site r) = Inr (Some j) \<and> linked_operation j (rn_site ?r) = Inr found")
      case False
      then have "t1 = ?r" using m same[OF path]
        by (auto simp: repair_leased_def look_def bind_op_def split: sum.splits option.splits)
      then show ?thesis using new by simp
    next
      case True
      then obtain j found where j: "readLifecycleJournal cfg (rn_site r) = Inr (Some j)"
        "linked_operation j (rn_site ?r) = Inr found" by blast
      then have w: "repair_journal cfg j found ?r = (y, t1)"
        using m same[OF path] by (simp add: repair_leased_def look_def bind_op_def)
      have "fenced cfg co_closed j any_stage ?r"
        using c assms(2,3) j(1) same[OF path]
        by (auto simp: fenced_def Let_def journal_good_def log about_def)
          (simp_all add: on_run_coord_def on_coord_def map_coord_def)
      show ?thesis
      proof (cases "recovery_target cfg j")
        case (Inl e)
        have "calm cfg (\<lambda>r. or_recovery_required j (look (\<lambda>_. recovery_target cfg j)) r)"
          using calmD[OF calm_transition] Inl
          by (fastforce simp: calm_def or_recovery_required_def look_def split: prod.splits sum.splits)
        moreover have "repair_journal cfg j found ?r = (y, t1) \<Longrightarrow>
            \<exists>z. or_recovery_required j (look (\<lambda>_. recovery_target cfg j)) ?r = (z, t1)"
          using Inl by (auto simp: repair_journal_def bind_op_def or_recovery_required_def look_def
              split: prod.splits sum.splits if_splits)
        ultimately show ?thesis using calm_log[OF calmD _] w new assms(5) by metis
      next
        case (Inr target)
        from guardedD(1)[OF fenced_repair[OF Inr] \<open>fenced cfg co_closed j any_stage ?r\<close> w] new assms(5)
        have "down_allowed cfg co_closed j target args s" by (auto simp: logged_def)
        then show ?thesis using j(1) Inr by blast
      qed
    qed
  qed
qed

text \<open>
  C5. A repair destroys volumes only under its fence. Whatever the journal, the env files,
  docker and the services say, and wherever the repair of an interrupted operation stops: if
  it asks docker to take a stack down with its volumes, then it does so for the server of the
  journal, with its env file, which declares this server; the journal is about a deletion, or
  about a reset and has the stage down-pending on disk at that moment; the operation
  coordinator is closed with the recovery fence up; and the reset is none that requires
  linked execution evidence.
\<close>

theorem repair_destroys_under_fence:
  assumes "repairLifecycleJournal cfg r = (Return x, t)" and "journal_good cfg (rn_site r)"
    and "\<And>n. ans_tmp (snd (ca_write (rn_calls r n))) \<noteq> journal_path (rn_site r)"
    and "(args, s) \<in> set (drop (length (rn_log r)) (rn_log t))" and "is_down cfg args"
  shows "\<exists>j target. readLifecycleJournal cfg (rn_site r) = Inr (Some j) \<and> recovery_target cfg j = Inr target \<and>
    down_allowed cfg co_closed j target args s"
  by (rule repair_downs[OF assms])

section \<open>The end of a repair\<close>

text \<open>Only a successful clearing lifts the fence.\<close>

definition keeps_fence :: "(run, 'a) operation \<Rightarrow> bool" where
  "keeps_fence m \<longleftrightarrow> (\<forall>r. co_journalPending (site_coord (rn_site r)) \<longrightarrow>
     co_journalPending (site_coord (rn_site (snd (m r)))))"

named_theorems fence_rules \<open>operations that never lift the recovery fence\<close>

lemma calm_keeps [fence_rules]: "calm cfg m \<Longrightarrow> keeps_fence m"
  by (auto simp: calm_def calm_step_def keeps_fence_def)

lemma bind_keeps [fence_rules]: "keeps_fence m \<Longrightarrow> (\<And>x. keeps_fence (k x)) \<Longrightarrow> keeps_fence (bind_op m k)"
  unfolding keeps_fence_def
  by (intro allI, rule bind_op_keeps[where R = "\<lambda>r t. co_journalPending (site_coord (rn_site r)) \<longrightarrow>
      co_journalPending (site_coord (rn_site t))"]) auto

lemma repair_keeps [fence_rules]: "keeps_fence m \<Longrightarrow> keeps_fence (or_repair cfg target m)"
  unfolding keeps_fence_def or_repair_def markResetRepairRequired_def
  using calm_set_repair by (fastforce simp: calm_step_def split: prod.splits sum.splits)

lemma recovery_keeps [fence_rules]: "keeps_fence m \<Longrightarrow> keeps_fence (or_recovery_required j m)"
  unfolding keeps_fence_def or_recovery_required_def
  using calmD[OF calm_transition] by (fastforce simp: calm_step_def split: prod.splits sum.splits)

lemma advance_keeps [fence_rules]: "keeps_fence (advance cfg stage)"
  by (auto simp: keeps_fence_def advance_def site_op_def act_def advanceLifecycleJournal_def bind_op_def
      writeLifecycleJournalRecord_def markLifecycleJournalPending_def Let_def split: prod.splits sum.splits option.splits if_splits)

lemma down_keeps [fence_rules]: "keeps_fence (down_server cfg target)"
  using down_own_stack[of cfg "tg_Project target" "tg_EnvFile target"]
  by (simp add: keeps_fence_def down_server_def) (metis prod.collapse)

lemma replay_keeps: "keeps_fence (replay cfg j target)"
proof -
  note calm = calm_keeps[where cfg = cfg]
  note steps = bind_keeps repair_keeps advance_keeps down_keeps
  have end_step: "keeps_fence (if before_mutation j then advance cfg lifecycleJournalStageEnv
     else bind_op (valid_target target) (\<lambda>vals. drop_value (look (\<lambda>_. resetRuntimeExpectationFor vals))))"
    using advance_keeps by (simp, intro impI calm calm_rules)
  have reset: "keeps_fence (bind_op (repair_reset_prepare cfg j target) (\<lambda>_. repair_reset_replace cfg target))"
    unfolding repair_reset_prepare_def prepareResetRecovery_def repair_reset_replace_def up_server_def
    by (intro steps end_step; rule calm; intro calm_rules)
  have gone: "keeps_fence (case st of Inl e \<Rightarrow> look (\<lambda>_. Inl e) | Inr False \<Rightarrow> look (\<lambda>_. Inr ())
       | Inr True \<Rightarrow> bind_op (valid_target target) (\<lambda>_. bind_op (down_server cfg target) (\<lambda>_. remove_env_file target)))"
    for st :: "bool result"
    by (cases "st = Inr True"; (simp, intro steps)?) (auto intro: calm calm_rules split: sum.split bool.split)
  have delete: "keeps_fence (repair_delete cfg target)"
    unfolding repair_delete_def by (intro bind_keeps gone; rule calm; intro calm_rules)
  have d: "keeps_fence (done_with b)" for b unfolding done_with_def by (rule calm, rule calm_look)
  have ok: "keeps_fence (bind_op m (\<lambda>_. done_with False))" if "keeps_fence m" for m :: "(run, unit) operation"
    by (rule bind_keeps[OF that d])
  show ?thesis
    by (simp add: replay_def Let_def ok[OF reset] ok[OF delete] d ok[OF calm[OF calm_web(1)]] ok[OF calm[OF calm_web(2)]]
        calm[OF calm_web(3)] ok[OF calm[OF calm_stateless]])
qed

definition fence_outcome :: "config \<Rightarrow> unit result \<Rightarrow> run \<Rightarrow> bool" where
  "fence_outcome cfg x t \<longleftrightarrow>
     (if is_ok x then readLifecycleJournal cfg (rn_site t) = Inr None \<and> \<not> co_journalPending (site_coord (rn_site t))
      else co_journalPending (site_coord (rn_site t)))"

lemma cleared_outcome:
  assumes "clear_journal r = (x, t)" and "co_journalPending (site_coord (rn_site r))"
  shows "fence_outcome cfg x t"
  using assms journal_cleared[where e = "ca_remove (next_call r)" and s = "rn_site r" and cfg = cfg]
  by (auto simp: clear_journal_def site_op_def act_def fence_outcome_def split: prod.splits sum.splits)

lemma kept_outcome: "keeps_fence m \<Longrightarrow> m r = (Inl e, t) \<Longrightarrow> co_journalPending (site_coord (rn_site r)) \<Longrightarrow>
    fence_outcome cfg (Inl e) t"
  unfolding keeps_fence_def fence_outcome_def by (metis is_ok_simps(2) snd_conv)

lemma worked_outcome:
  assumes "keeps_fence m" and "bind_op m (\<lambda>_. clear_journal) r = (x, t)" and "co_journalPending (site_coord (rn_site r))"
  shows "fence_outcome cfg x t"
  using assms(2)
proof (cases rule: bind_op_cases)
  case (stopped e)
  then show ?thesis using kept_outcome[OF assms(1) _ assms(3)] by simp
next
  case (goes_on y s)
  then have "co_journalPending (site_coord (rn_site s))" using assms(1,3) unfolding keeps_fence_def by (metis snd_conv)
  then show ?thesis using cleared_outcome goes_on(2) by simp
qed

lemma unsettled_keeps: "keeps_fence (or_recovery_required j (bind_op (check_env (with_effective_target j target)) (\<lambda>j'.
    bind_op (look (\<lambda>_. check_reset_target (lj_ResetTarget j'))) (\<lambda>_. bind_op (check_env_file j' target) (\<lambda>_.
    bind_op dockerPreflight (\<lambda>_. bind_op (replay cfg j' target) (\<lambda>nothing. settle_replayed j nothing)))))))"
proof -
  note calm = calm_keeps[where cfg = cfg]
  have settle: "calm cfg (settle_replayed j b)" for b unfolding settle_replayed_def by (intro calm_rules)
  have env: "calm cfg (check_env_file j' target)" for j' unfolding check_env_file_def
    by (intro calm_rules) (simp split: bool.split, intro conjI impI calm_rules)
  show ?thesis
    by (intro recovery_keeps bind_keeps replay_keeps calm[OF settle] calm[OF env]; rule calm; intro calm_rules)
qed

lemma completed_outcome:
  assumes "settle_completed cfg j target r = (x, t)" and "co_journalPending (site_coord (rn_site r))"
  shows "fence_outcome cfg x t"
proof (cases "lj_ResetExecution j = None")
  case True
  have "calm cfg (verifySucceededLifecycleJournal cfg j target)"
    unfolding verifySucceededLifecycleJournal_def by (intro calm_rules)
  from worked_outcome[OF calm_keeps[OF this] _ assms(2)] show ?thesis
    using assms(1) True by (simp add: settle_completed_def)
next
  case False
  then show ?thesis
    using assms journal_cleared[where e = "ca_remove (next_call r)" and s = "rn_site r" and cfg = cfg]
    by (auto simp: settle_completed_def site_op_def act_def fence_outcome_def settleSucceededLifecycleJournal_def
        split: prod.splits sum.splits if_splits)
qed

lemma leased_outcome:
  assumes "repair_leased cfg r = (x, t)" and "co_journalPending (site_coord (rn_site r))"
  shows "fence_outcome cfg x t"
proof -
  have fetch: "keeps_fence (or_recovery_required j (look (\<lambda>_. recovery_target cfg j)))" for j
    by (intro recovery_keeps calm_keeps[where cfg = cfg] calm_rules)
  have "fence_outcome cfg x t" if m: "repair_journal cfg j found r = (x, t)" for j found
    using m[unfolded repair_journal_def]
  proof (cases rule: bind_op_cases)
    case (stopped e)
    then show ?thesis using kept_outcome[OF fetch _ assms(2)] by simp
  next
    case (goes_on target s)
    then have "co_journalPending (site_coord (rn_site s))" using fetch assms(2) unfolding keeps_fence_def by (metis snd_conv)
    then show ?thesis using goes_on(2) completed_outcome worked_outcome[OF unsettled_keeps]
      by (auto simp: replay_unsettled_def split: if_splits)
  qed
  then show ?thesis
    using assms by (auto simp: repair_leased_def look_def bind_op_def fence_outcome_def split: sum.splits option.splits)
qed

text \<open>
  C13. How a repair ends. A repair that returns success has removed the journal and lifted the
  recovery fence, so ordinary operations are admitted again; one that returns an error leaves
  the fence up, unless it never got the lease and changed nothing of the coordinator.
\<close>

theorem repair_ends_with_fence_or_cleared:
  assumes "repairLifecycleJournal cfg r = (Return x, t)"
  shows "if is_ok x
    then readLifecycleJournal cfg (rn_site t) = Inr None \<and> \<not> co_journalPending (site_coord (rn_site t))
    else co_journalPending (site_coord (rn_site t)) \<or> site_coord (rn_site t) = site_coord (rn_site r)"
proof -
  obtain lease c where b: "beginRecovery_try (site_coord (rn_site r)) = (lease, c)" by fastforce
  let ?r = "on_run_coord (\<lambda>_. c) r"
  have coord: "site_coord (rn_site ?r) = c" by (simp add: on_run_coord_def)
  show ?thesis
  proof (cases "\<exists>l. lease = Return (Inr l)")
    case False
    then obtain y where y: "dockerPreflight ?r = (y, t)" "\<not> is_ok x"
      using assms b by (auto simp: repairLifecycleJournal_def Let_def split: outcome.splits sum.splits prod.splits)
    have "site_coord (rn_site t) = c" using calmD[OF calm_preflight y(1)] coord by (auto simp: calm_step_def)
    moreover have "c = site_coord (rn_site r)" using recovery_refused[OF b] False by blast
    ultimately show ?thesis using y(2) by simp
  next
    case True
    then obtain l where l: "lease = Return (Inr l)" by blast
    obtain y t1 where m: "repair_leased cfg ?r = (y, t1)" by fastforce
    have "fence_outcome cfg y t1" by (rule leased_outcome[OF m]) (use recovery_lease[OF b[unfolded l]] coord in simp)
    moreover have "x = y" "t = on_run_coord (lease_done l) t1" using assms b l m by (simp_all add: repairLifecycleJournal_def Let_def)
    ultimately show ?thesis
      by (auto simp: fence_outcome_def on_run_coord_def readLifecycleJournal_def split: if_splits)
  qed
qed

text \<open>The repair of an interrupted deletion.\<close>

definition ex_delete_doc :: lifecycleJournal where
  "ex_delete_doc = ex_patch_doc\<lparr>lj_Operation := ''delete''\<rparr>"

definition ex_fenced_site :: site where
  "ex_fenced_site = \<lparr>si_world = \<lparr>wd_store = None, wd_files = (\<lambda>_. None),
       wd_coord = newOperationCoordinator ''/m'' ''/j'' None (\<lambda>p. p = ''/j'')\<rparr>,
     si_env = ex_server_env,
     si_journal = (\<lambda>_. None)(''/j'' \<mapsto> \<lparr>f_mode = 384, f_owner = (0, 0), f_content = Synced (journal_doc ex_delete_doc)\<rparr>)\<rparr>"

definition ex_fenced_run :: run where
  "ex_fenced_run = \<lparr>rn_site = ex_fenced_site, rn_now = 0,
     rn_calls = (\<lambda>_. ex_calls (\<lambda>_. ([], None)) (\<lambda>_. Inl (Err []))), rn_log = []\<rparr>"

theorem repair_destroys_under_fence_witness:
  "\<exists>args s. (args, s) \<in> set (rn_log (snd (repairLifecycleJournal ex_config ex_fenced_run))) \<and>
     down_allowed ex_config co_closed ex_delete_doc (target_of ex_config ''pep1'') args s"
proof -
  let ?t = "repairLifecycleJournal ex_config ex_fenced_run"
  have l: "map fst (rn_log (snd ?t)) =
      [[''version'', ''--format'', ''{{.Server.Version}}''],
       down_command ex_config ''opensamguk-spep1'' ''/workspace/servers/spep1.env'']" by code_simp
  have f: "case fst ?t of Return _ \<Rightarrow> True | Wait \<Rightarrow> False" by code_simp
  have rd: "readLifecycleJournal ex_config (rn_site ex_fenced_run) = Inr (Some ex_delete_doc)" by code_simp
  have tg: "recovery_target ex_config ex_delete_doc = Inr (target_of ex_config ''pep1'')" by code_simp
  have n: "journal_normal ex_config ex_delete_doc" by code_simp
  have g: "journal_good ex_config (rn_site ex_fenced_run)"
    using rd n by (simp add: journal_good_def) (simp add: ex_fenced_run_def ex_fenced_site_def data_at_def newOperationCoordinator_def Let_def)
  have tmp: "ans_tmp (snd (ca_write (rn_calls ex_fenced_run n))) \<noteq> journal_path (rn_site ex_fenced_run)" for n
    by (simp add: ex_fenced_run_def ex_calls_def journal_well_def all_well_def ex_fenced_site_def newOperationCoordinator_def Let_def)
  obtain x where x: "?t = (Return x, snd ?t)" using f by (cases ?t) (auto split: outcome.splits)
  obtain a s where a: "rn_log (snd ?t) = [a, (down_command ex_config ''opensamguk-spep1'' ''/workspace/servers/spep1.env'', s)]"
    using l by (auto simp: map_eq_Cons_conv)
  have e: "rn_log ex_fenced_run = []" by (simp add: ex_fenced_run_def)
  have "is_down ex_config (down_command ex_config ''opensamguk-spep1'' ''/workspace/servers/spep1.env'')"
    unfolding is_down_def by blast
  from repair_destroys_under_fence[OF x g tmp _ this, of s] show ?thesis
    using a rd tg e by auto
qed

theorem repair_ends_with_fence_or_cleared_witness:
  "co_journalPending (site_coord (rn_site (snd (repairLifecycleJournal ex_config ex_fenced_run)))) \<or>
   site_coord (rn_site (snd (repairLifecycleJournal ex_config ex_fenced_run))) = site_coord (rn_site ex_fenced_run)"
proof -
  let ?t = "repairLifecycleJournal ex_config ex_fenced_run"
  have "case fst ?t of Return x \<Rightarrow> \<not> is_ok x | Wait \<Rightarrow> False" by code_simp
  then obtain x where "?t = (Return x, snd ?t)" "\<not> is_ok x" by (cases ?t) (auto split: outcome.splits)
  with repair_ends_with_fence_or_cleared[OF this(1)] show ?thesis by simp
qed

end
