(* ===== verification/ServerSteps.thy ===== *)
theory ServerSteps
  imports Verify
begin

text \<open>
  What the handlers that create, delete and reset a server share (main.go): the preparation
  and its deferred settlement, the reservation of the durable operation and of the job, the
  lease, and the end of the worker. A handler runs its worker to the end; the jobs of other
  requests are not part of its run.
\<close>

section \<open>Answers\<close>

type_synonym answer = "lifecycle_response \<times> int"

definition failed_response :: "string \<Rightarrow> string \<Rightarrow> string \<Rightarrow> string \<Rightarrow> string \<Rightarrow> lifecycle_response" where
  "failed_response sid name project opid text' = \<lparr>lr_ok = False, lr_id = sid, lr_name = name,
     lr_project = project, lr_jobID = [], lr_operationID = opid, lr_operationStatus = StatusOther [],
     lr_restartRequired = False, lr_affectedServices = [], lr_detail = DetailText text'\<rparr>"

text \<open>A refusal by a text and a status, and those of the failures of a reservation and of a lease.\<close>

definition refusal :: "string \<Rightarrow> string \<Rightarrow> string \<Rightarrow> string \<Rightarrow> string \<Rightarrow> int \<Rightarrow> answer" where
  "refusal sid name project opid text' status = (failed_response sid name project opid text', status)"

definition preparation_refusal :: "string \<Rightarrow> string \<Rightarrow> string \<Rightarrow> string \<Rightarrow> err \<Rightarrow> answer" where
  "preparation_refusal sid name project opid e =
     (if e = ErrLifecycleOperationConflict
      then refusal sid [] [] opid ''operationId was already used for another request'' 409
      else let (text', status) = lifecyclePreparationFailure e in refusal sid name project opid text' status)"

definition reservation_refusal :: "string \<Rightarrow> string \<Rightarrow> string \<Rightarrow> string \<Rightarrow> err \<Rightarrow> answer" where
  "reservation_refusal sid name project opid e =
     (if e = ErrLifecycleOperationConflict
      then refusal sid [] [] opid ''operationId was already used for another request'' 409
      else let (text', status) = lifecycleJobReservationFailure e in refusal sid name project opid text' status)"

definition job_refusal :: "string \<Rightarrow> string \<Rightarrow> string \<Rightarrow> string \<Rightarrow> err \<Rightarrow> answer" where
  "job_refusal sid name project opid e =
     (let (text', status) = lifecycleJobReservationFailure e in refusal sid name project opid text' status)"

definition admission_refusal :: "string \<Rightarrow> string \<Rightarrow> string \<Rightarrow> string \<Rightarrow> err \<Rightarrow> answer" where
  "admission_refusal sid name project opid e =
     (let (text', status) = mutationAdmissionFailure e in refusal sid name project opid text' status)"

definition replayed :: "string \<Rightarrow> string \<Rightarrow> op_record \<Rightarrow> string \<Rightarrow> answer" where
  "replayed name project record jid =
     ((lifecycleOperationReplay record jid ''the same request was already accepted'')
        \<lparr>lr_name := name, lr_project := project\<rparr>, 200)"

section \<open>Preparation and settlement\<close>

text \<open>What a handler that returns before its worker has started leaves to its deferred function.\<close>

record rejection =
  rj_answer :: answer
  rj_reserved :: bool
  rj_lease :: "lease_id option"
  rj_settled :: bool
  rj_message :: message_id
  rj_keepJob :: bool

datatype halt = Blocked | Rejected rejection

definition reject :: "answer \<Rightarrow> bool \<Rightarrow> message_id \<Rightarrow> halt" where
  "reject a reserved mid = Rejected \<lparr>rj_answer = a, rj_reserved = reserved, rj_lease = None, rj_settled = True,
     rj_message = mid, rj_keepJob = False\<rparr>"

definition fails_as :: "(err \<Rightarrow> halt) \<Rightarrow> (run, 'a) operation \<Rightarrow> run \<Rightarrow> (halt + 'a) \<times> run" where
  "fails_as f m r = (let (x, r') = m r in (map_sum f id x, r'))"

definition jobs_of :: "run \<Rightarrow> job_manager" where
  "jobs_of r = (case co_jobs (site_coord (rn_site r)) of None \<Rightarrow> newLifecycleJobManager | Some m \<Rightarrow> m)"

definition on_jobs :: "(job_manager \<Rightarrow> job_manager) \<Rightarrow> run \<Rightarrow> run" where
  "on_jobs f = on_run_coord (\<lambda>c. c\<lparr>co_jobs := map_option f (co_jobs c)\<rparr>)"

definition prepare_phase ::
    "lifecycleKind \<Rightarrow> string \<Rightarrow> string \<Rightarrow> string \<Rightarrow> string \<Rightarrow> run \<Rightarrow>
     (prep_id option \<times> reserve_result) outcome \<times> run" where
  "prepare_phase k opid sid fp token r =
     (let s = rn_site r; c = site_coord s;
          (o', w) = prepareLifecycleOperation (markerOnDisk c) (journalOnDisk c) k opid sid fp token
             (ca_store (rn_calls r 0)) (ca_store (rn_calls r 1)) (ca_store (rn_calls r 2)) (si_world s)
      in (o', (tick (tick (tick r)))\<lparr>rn_site := s\<lparr>si_world := w\<rparr>\<rparr>))"

definition settle_rejection :: "string \<Rightarrow> prep_id \<Rightarrow> rejection \<Rightarrow> run \<Rightarrow> answer \<times> run" where
  "settle_rejection opid p rj r =
     (let s = rn_site r;
          (err, w) = (if rj_reserved rj
             then settleRejectedDurableLifecycleOperation opid (snd (rj_answer rj)) (rj_message rj) (rj_lease rj)
                    (ca_store (next_call r)) (si_world s)
             else (None, si_world s));
          answer = (if err = None then rj_answer rj
             else (rejectedDurableOperationSettlementResponse (fst (rj_answer rj)) opid (rj_message rj), 503));
          settled = (rj_settled rj \<and> err = None);
          release = (\<lambda>c. case rj_lease rj of None \<Rightarrow> c | Some l \<Rightarrow> lease_done l c)
      in (answer, (tick r)\<lparr>rn_site := on_coord
            (\<lambda>c. release (complete p settled (if settled then c else markPreparationSettlementPending c)))
            (s\<lparr>si_world := w\<rparr>)\<rparr>))"

definition deferred :: "string \<Rightarrow> prep_id \<Rightarrow> (run \<Rightarrow> (halt + answer) \<times> run) \<Rightarrow> run \<Rightarrow> answer outcome \<times> run" where
  "deferred opid p body r =
     (case body r of
        (Inr a, r1) \<Rightarrow> (Return a, r1)
      | (Inl Blocked, r1) \<Rightarrow> (Wait, r1)
      | (Inl (Rejected rj), r1) \<Rightarrow> let (a, r2) = settle_rejection opid p rj r1 in (Return a, r2))"

definition with_preparation ::
    "lifecycleKind \<Rightarrow> string \<Rightarrow> string \<Rightarrow> string \<Rightarrow> string \<Rightarrow> (err \<Rightarrow> answer) \<Rightarrow> (op_record \<Rightarrow> string \<Rightarrow> answer) \<Rightarrow>
     (prep_id \<Rightarrow> run \<Rightarrow> (halt + answer) \<times> run) \<Rightarrow> run \<Rightarrow>
     answer outcome \<times> run" where
  "with_preparation k opid sid fp token failed replay' body r =
     (case prepare_phase k opid sid fp token r of
        (Wait, r1) \<Rightarrow> (Wait, r1)
      | (Return (p, rv), r1) \<Rightarrow>
          (case rv_err rv of
             Some e \<Rightarrow> (Return (failed e), r1)
           | None \<Rightarrow>
               if rv_existing rv then (Return (replay' (rv_record rv) (jobIDForOperation opid (jobs_of r1))), r1)
               else case p of
                 None \<Rightarrow> (Return (failed (Err ''no preparation'')), r1)
               | Some p \<Rightarrow> deferred opid p (body p) r1))"

section \<open>Reservations\<close>

text \<open>The durable operation: none without an id, a replay of an existing one, or a new record.\<close>

definition reserve_durable ::
    "lifecycleKind \<Rightarrow> string \<Rightarrow> string \<Rightarrow> string \<Rightarrow> message_id \<Rightarrow> (err \<Rightarrow> answer) \<Rightarrow> (op_record \<Rightarrow> string \<Rightarrow> answer) \<Rightarrow>
     run \<Rightarrow> (halt + op_record option) \<times> run" where
  "reserve_durable k opid sid fp mid failed replay' r =
     (if opid = [] then (Inr None, r)
      else
        let s = rn_site r;
            (rv, w) = reserveDurableLifecycleOperation opid k sid fp (ca_store (next_call r)) (si_world s);
            r1 = (tick r)\<lparr>rn_site := s\<lparr>si_world := w\<rparr>\<rparr>
        in case rv_err rv of
          Some e \<Rightarrow> (Inl (reject (failed e) False mid), r1)
        | None \<Rightarrow>
            if rv_existing rv
            then (Inl (reject (replay' (rv_record rv) (jobIDForOperation opid (jobs_of r1))) False mid), r1)
            else (Inr (Some (rv_record rv)), r1))"

definition reserve_job ::
    "lifecycleKind \<Rightarrow> string \<Rightarrow> string \<Rightarrow> op_record option \<Rightarrow> message_id \<Rightarrow> (err \<Rightarrow> answer) \<Rightarrow>
     (op_record \<Rightarrow> string \<Rightarrow> answer) \<Rightarrow> run \<Rightarrow> (halt + string) \<times> run" where
  "reserve_job k opid fp record mid failed replay' r =
     (let c = next_call r; m = jobs_of r;
          (res, m') = (if opid = [] then map_prod (map_sum id (\<lambda>jid. (jid, False))) id (reserve (rn_now r) (ca_rand c) m)
             else reserveWithOperation opid fp k (rn_now r) (ca_rand c) m);
          r1 = on_jobs (\<lambda>_. m') (tick r)
      in case res of
        Inl e \<Rightarrow> (Inl (reject (failed e) (record \<noteq> None) mid), r1)
      | Inr (jid, existing) \<Rightarrow>
          if existing
          then (Inl (reject (replay' (case record of None \<Rightarrow> zero_op_record | Some x \<Rightarrow> x) jid) (record \<noteq> None) mid), r1)
          else (Inr jid, r1))"

section \<open>The lease and the worker\<close>

definition begin_prepared :: "prep_id \<Rightarrow> string \<Rightarrow> run \<Rightarrow> lease_id result outcome \<times> run" where
  "begin_prepared p jid r =
     (case dockerPreflight r of
        (Inl e, r1) \<Rightarrow> (Return (Inl ErrDockerUnreachable), r1)
      | (Inr _, r1) \<Rightarrow>
          let c = site_coord (rn_site r1) in
          case co_preps c p of
            None \<Rightarrow> (Return (Inl ErrMaintenanceClosed), r1)
          | Some pr \<Rightarrow>
              let (o', c') = beginPreparedLifecycle True (markerOnDisk c) (journalOnDisk c) p pr jid c
              in (o', on_run_coord (\<lambda>_. c') r1))"

text \<open>
  A refused lease cancels the durable operation; an operation whose cancellation cannot be
  stored is not settled. \<open>drop\<close> is what the handler does with the job.
\<close>

definition claim_worker ::
    "prep_id \<Rightarrow> lifecycleKind \<Rightarrow> string \<Rightarrow> string \<Rightarrow> string \<Rightarrow> op_record option \<Rightarrow> message_id \<Rightarrow> (err \<Rightarrow> answer) \<Rightarrow>
     (job_manager \<Rightarrow> job_manager) \<Rightarrow> run \<Rightarrow> (halt + lease_id) \<times> run" where
  "claim_worker p k opid sid jid record mid failed drop' r =
     (case begin_prepared p jid (on_jobs (bindOperationSubject jid k sid) r) of
        (Wait, r1) \<Rightarrow> (Inl Blocked, r1)
      | (Return (Inr l), r1) \<Rightarrow> (Inr l, r1)
      | (Return (Inl e), r1) \<Rightarrow>
          let (x, r2) = transition opid JobCancelled 409 IdCancelled (on_jobs drop' r1) in
          (Inl (Rejected \<lparr>rj_answer = failed e, rj_reserved = (record \<noteq> None), rj_lease = None,
             rj_settled = is_ok x, rj_message = mid, rj_keepJob = (e = ErrLifecycleJobNotPending)\<rparr>), r2))"

definition start_worker ::
    "lease_id \<Rightarrow> string \<Rightarrow> string \<Rightarrow> op_record option \<Rightarrow> message_id \<Rightarrow> answer \<Rightarrow> run \<Rightarrow> (halt + unit) \<times> run" where
  "start_worker l jid opid record mid failed r =
     (let s = rn_site r;
          (err, w) = startClaimedDurable jid opid (ca_store (next_call r)) (rn_now r) (si_world s);
          r1 = (tick r)\<lparr>rn_site := s\<lparr>si_world := w\<rparr>\<rparr>
      in case err of
        None \<Rightarrow> (Inr (), r1)
      | Some _ \<Rightarrow> (Inl (Rejected \<lparr>rj_answer = failed, rj_reserved = (record \<noteq> None), rj_lease = Some l,
           rj_settled = True, rj_message = mid, rj_keepJob = True\<rparr>), r1))"

definition end_work ::
    "config \<Rightarrow> lease_id \<Rightarrow> string \<Rightarrow> string \<Rightarrow> lifecycleKind \<Rightarrow> 'a result \<Rightarrow> run \<Rightarrow> run" where
  "end_work cfg l jid opid k x r =
     (let c = next_call r in
      (tick r)\<lparr>rn_site := durable_job_end_site cfg (ca_remove c) l jid opid k (\<not> is_ok x) (ca_store c) (rn_now r)
         (rn_site r)\<rparr>)"

definition run_worker ::
    "config \<Rightarrow> lease_id \<Rightarrow> string \<Rightarrow> string \<Rightarrow> lifecycleKind \<Rightarrow> (run, unit) operation \<Rightarrow> answer \<Rightarrow> run \<Rightarrow>
     (halt + answer) \<times> run" where
  "run_worker cfg l jid opid k work a r = (let (x, r1) = work r in (Inr a, end_work cfg l jid opid k x r1))"

text \<open>After the lease the entry is looked up again; a stale job is finished and removed.\<close>

definition stale_released ::
    "lease_id \<Rightarrow> string \<Rightarrow> (run \<Rightarrow> (halt + 'a) \<times> run) \<Rightarrow> run \<Rightarrow> (halt + 'a) \<times> run" where
  "stale_released l jid m r =
     (case m r of
        (Inl (Rejected rj), r1) \<Rightarrow> (Inl (Rejected (rj\<lparr>rj_lease := Some l\<rparr>)),
           on_jobs (discard jid) (on_jobs (finish_job jid JobCancelled (rn_now r1)) r1))
      | (x, r1) \<Rightarrow> (x, r1))"

definition affected_services :: "string list" where
  "affected_services = sharedRegistryReloadServices @ [''server-stack'']"

text \<open>The answer to a started operation; its job may have gone on meanwhile.\<close>

definition started_response ::
    "string \<Rightarrow> string \<Rightarrow> string \<Rightarrow> string \<Rightarrow> string \<Rightarrow> string \<Rightarrow> lifecycleJobStatus \<Rightarrow> lifecycle_response" where
  "started_response sid name project jid opid text' status = \<lparr>lr_ok = True, lr_id = sid, lr_name = name,
     lr_project = project, lr_jobID = jid, lr_operationID = opid,
     lr_operationStatus = (if opid = [] then StatusOther [] else status), lr_restartRequired = True,
     lr_affectedServices = affected_services, lr_detail = DetailText text'\<rparr>"

definition job_status :: "string \<Rightarrow> run \<Rightarrow> lifecycleJobStatus" where
  "job_status jid r = (case fst (lookup_job jid (rn_now r) (jobs_of r)) of
     None \<Rightarrow> JobPending | Some x \<Rightarrow> jr_status x)"

section \<open>Journals of the workers\<close>

definition new_journal :: "string \<Rightarrow> serverTarget \<Rightarrow> string \<Rightarrow> lifecycleKind \<Rightarrow> (run, unit) operation" where
  "new_journal operation' target opid k = site_op (\<lambda>c.
     if opid \<noteq> [] then writeLinkedLifecycleJournal operation' target opid k (ca_write c)
     else writeLifecycleJournal operation' target (ca_write c))"

definition new_reset_journal ::
    "serverTarget \<Rightarrow> resetLifecycleTarget \<Rightarrow> string \<Rightarrow> lifecycleKind \<Rightarrow> (run, unit) operation" where
  "new_reset_journal target rt opid k = site_op (\<lambda>c.
     if opid \<noteq> [] then writeLinkedResetLifecycleJournal target rt opid k (ca_write c)
     else writeResetLifecycleJournal target rt (ca_write c))"

end
