(* ===== verification/ServerOps.thy ===== *)
theory ServerOps
  imports ServerSteps Recovery
begin

text \<open>
  Creating, deleting and resetting a server (main.go): the normalisation and the fingerprint
  of the requests, the handlers up to the start of their workers, and the workers.
\<close>

section \<open>Creation requests\<close>

record createServerRequest =
  cr_ID :: string
  cr_OperationID :: string
  cr_MaintenanceLease :: string
  cr_Name :: string
  cr_Generation :: string
  cr_ImageTag :: string
  cr_GameAPIPort :: string
  cr_WebGamePort :: string
  cr_ScenarioCode :: string
  cr_ScenarioSeedEnabled :: "bool option"

record normalizedCreateServerRequest =
  nc_ID :: string
  nc_InternalKey :: string
  nc_Name :: string
  nc_Generation :: int
  nc_ImageTag :: string
  nc_GameAPIPort :: string
  nc_WebGamePort :: string
  nc_ScenarioCode :: string
  nc_ScenarioSeedEnabled :: bool
  nc_JWTPublicKey :: string
  nc_JWTLegacySecret :: string
  nc_JWTLegacyAcceptUntil :: string
  nc_InternalServiceToken :: string

definition line_breaks :: string where
  "line_breaks = [CHR 0x0D, newline]"

definition requested_tag :: "config \<Rightarrow> createServerRequest \<Rightarrow> string files \<Rightarrow> string" where
  "requested_tag cfg req fs =
     (let tag = trim_space (cr_ImageTag req);
          tag' = (if tag = [] then sharedEnvValue cfg ''IMAGE_TAG'' fs else tag)
      in if tag' = [] then ''latest'' else tag')"

definition shared_single_line :: "config \<Rightarrow> string \<Rightarrow> string files \<Rightarrow> string result" where
  "shared_single_line cfg key fs =
     (let v = sharedEnvValue cfg key fs in
      if contains_any v line_breaks then Inl (Err ''shared value is invalid'') else Inr v)"

definition normalizeCreateServerRequest ::
    "config \<Rightarrow> createServerRequest \<Rightarrow> string files \<Rightarrow> normalizedCreateServerRequest result" where
  "normalizeCreateServerRequest cfg req fs =
     bind_r (normalizeCreateServerID (cr_ID req)) (\<lambda>(sid, key).
     let name = trim_space (cr_Name req) in
     bind_r (require (\<not> (name = [] \<or> contains_any name line_breaks)) ''server name is invalid'') (\<lambda>_.
     bind_r (parseGeneration (cr_Generation req) 1) (\<lambda>generation.
     let imageTag = requested_tag cfg req fs in
     bind_r (require (tagRe imageTag) ''image tag is invalid'') (\<lambda>_.
     let api = trim_space (cr_GameAPIPort req); web = trim_space (cr_WebGamePort req) in
     bind_r (require (isPort api \<and> isPort web) ''ports must be numbers from 1 to 65535'') (\<lambda>_.
     bind_r (if api = web then Inl ErrCreatePortsEqual else Inr ()) (\<lambda>_.
     let code = (let c = trim_space (cr_ScenarioCode req) in if c = [] then ''scenario_1010'' else c) in
     bind_r (require (isSafeToken code) ''scenario code is invalid'') (\<lambda>_.
     let jwt = sharedEnvValue cfg ''JWT_PUBLIC_KEY'' fs in
     bind_r (require (\<not> (jwt = [] \<or> contains_any jwt line_breaks)) ''shared JWT_PUBLIC_KEY is required'') (\<lambda>_.
     bind_r (shared_single_line cfg ''JWT_LEGACY_SECRET'' fs) (\<lambda>legacy.
     bind_r (shared_single_line cfg ''JWT_LEGACY_ACCESS_ACCEPT_UNTIL'' fs) (\<lambda>until'.
     bind_r (shared_single_line cfg ''INTERNAL_SERVICE_TOKEN'' fs) (\<lambda>token.
       Inr \<lparr>nc_ID = sid, nc_InternalKey = key, nc_Name = name, nc_Generation = generation,
         nc_ImageTag = imageTag, nc_GameAPIPort = api, nc_WebGamePort = web, nc_ScenarioCode = code,
         nc_ScenarioSeedEnabled = (case cr_ScenarioSeedEnabled req of None \<Rightarrow> True | Some b \<Rightarrow> b),
         nc_JWTPublicKey = jwt, nc_JWTLegacySecret = legacy, nc_JWTLegacyAcceptUntil = until',
         nc_InternalServiceToken = token\<rparr>)))))))))))"

definition closeRequestFingerprint :: "string \<Rightarrow> string" where
  "closeRequestFingerprint sid = sha256_hex (''close:'' @ sid)"

definition create_request_json :: "normalizedCreateServerRequest \<Rightarrow> json" where
  "create_request_json n = JObj
     [(''id'', JStr (nc_ID n)), (''name'', JStr (nc_Name n)), (''generation'', JNum (itoa (nc_Generation n))),
      (''imageTag'', JStr (nc_ImageTag n)), (''gameApiPort'', JStr (nc_GameAPIPort n)),
      (''webGamePort'', JStr (nc_WebGamePort n)), (''scenarioCode'', JStr (nc_ScenarioCode n)),
      (''scenarioSeedEnabled'', JBool (nc_ScenarioSeedEnabled n))]"

definition createRequestFingerprint :: "normalizedCreateServerRequest \<Rightarrow> string" where
  "createRequestFingerprint n = sha256_hex (json_text (create_request_json n))"

definition create_env_values :: "config \<Rightarrow> normalizedCreateServerRequest \<Rightarrow> string \<Rightarrow> string files \<Rightarrow> env" where
  "create_env_values cfg n password fs =
     [(''SERVER_ID'', nc_ID n), (''OPENSAMGUK_WORLD_ID'', ''1''), (''GHCR_REGISTRY'', ''ghcr.io''),
      (''GHCR_OWNER'', cf_ghcrOwner cfg), (''IMAGE_TAG'', nc_ImageTag n), (''SERVER_NAME'', nc_Name n),
      (''SERVER_GENERATION'', itoa (nc_Generation n)), (''GAME_API_PORT'', nc_GameAPIPort n),
      (''WEB_GAME_PORT'', nc_WebGamePort n), (''GAME_POSTGRES_DB'', ''sammo''), (''GAME_POSTGRES_USER'', ''sammo''),
      (''GAME_POSTGRES_PASSWORD'', password), (''JWT_PUBLIC_KEY'', nc_JWTPublicKey n),
      (''JWT_LEGACY_SECRET'', nc_JWTLegacySecret n),
      (''JWT_LEGACY_ACCESS_ACCEPT_UNTIL'', nc_JWTLegacyAcceptUntil n),
      (''INTERNAL_SERVICE_TOKEN'', nc_InternalServiceToken n), (''TURN_PROFILE_NAME'', ''che:scenario_2''),
      (''SCENARIO_SEED_ENABLED'', boolText (nc_ScenarioSeedEnabled n)), (''SCENARIO_CODE'', nc_ScenarioCode n),
      (''GAME_API_URL'', gameAPIURLFor cfg (nc_ID n)),
      (''GATEWAY_API_URL'', envOrValue (sharedEnvValue cfg ''GATEWAY_API_URL'' fs) (defaultGatewayAPIURL cfg))]"

definition create_env_lines :: "config \<Rightarrow> normalizedCreateServerRequest \<Rightarrow> string \<Rightarrow> string files \<Rightarrow> envLine list" where
  "create_env_lines cfg n password fs = map (\<lambda>(k, v). kv_line k v) (create_env_values cfg n password fs)"

definition create_entry :: "config \<Rightarrow> normalizedCreateServerRequest \<Rightarrow> envLine list \<Rightarrow> registryEntry" where
  "create_entry cfg n lines = zero_entry\<lparr>re_ID := nc_ID n, re_Name := nc_Name n, re_Generation := nc_Generation n,
     re_ScenarioCode := nc_ScenarioCode n, re_GameAPIURL := gameAPIURLFor cfg (nc_ID n),
     re_GameEngineURL := gameEngineURLFor cfg (nc_ID n), re_DeployProject := projectForServerID (nc_ID n),
     re_Env := sanitizeRegistryEnv (envValuesFromLines lines)\<rparr>"

definition create_target :: "config \<Rightarrow> normalizedCreateServerRequest \<Rightarrow> serverTarget" where
  "create_target cfg n = \<lparr>tg_ID = nc_ID n, tg_InternalKey = nc_InternalKey n,
     tg_Project = projectForServerID (nc_ID n), tg_EnvFile = serverEnvFileForID cfg (nc_ID n)\<rparr>"

section \<open>Creating\<close>

definition ports_free :: "config \<Rightarrow> normalizedCreateServerRequest \<Rightarrow> (run, unit) operation" where
  "ports_free cfg n = observe (\<lambda>c s. no_error (ensurePortsAvailable cfg (nc_ID n)
     [(''GAME_API_PORT'', nc_GameAPIPort n), (''WEB_GAME_PORT'', nc_WebGamePort n)] (ca_dir c) (si_env s)))"

definition env_absent :: "serverTarget \<Rightarrow> (run, unit) operation" where
  "env_absent target = bind_op (stat_env target) (\<lambda>st. look (\<lambda>_.
     bind_r st (\<lambda>present. require (\<not> present) ''server env already exists'')))"

definition upsert_entry :: "config \<Rightarrow> registryEntry \<Rightarrow> (run, unit) operation" where
  "upsert_entry cfg entry = change_env (\<lambda>c. upsertRegistryEntry cfg entry (snd (ca_write c)) (ca_write2 c))"

definition write_new_env :: "serverTarget \<Rightarrow> envLine list \<Rightarrow> (run, unit) operation" where
  "write_new_env target lines r =
     (case change_env (\<lambda>c fs. let w = writeEnvLinesAtomic (tg_EnvFile target) lines (ca_write2 c) fs
                             in (w_err w, w_fs w)) r of
        (Inr _, r1) \<Rightarrow> (Inr (), r1)
      | (Inl e, r1) \<Rightarrow> let (_, r2) = clear_journal r1 in (Inl e, r2))"

definition make_servers_dir :: "(run, unit) operation" where
  "make_servers_dir = observe (\<lambda>c s. if ca_ok c then Inr () else Inl (ErrIO ''mkdirAll''))"

definition create_setup ::
    "config \<Rightarrow> normalizedCreateServerRequest \<Rightarrow> envLine list \<Rightarrow> string \<Rightarrow> (run, unit) operation" where
  "create_setup cfg n lines opid = (let target = create_target cfg n in
     bind_op not_cancelled (\<lambda>_. bind_op make_servers_dir (\<lambda>_. bind_op (env_absent target) (\<lambda>_.
     bind_op (ports_free cfg n) (\<lambda>_. bind_op not_cancelled (\<lambda>_.
     bind_op (new_journal ''create'' target opid KindCreate) (\<lambda>_.
     bind_op (write_new_env target lines) (\<lambda>_. bind_op not_cancelled (\<lambda>_.
       upsert_entry cfg (create_entry cfg n lines))))))))))"

text \<open>The shared stack is reloaded also after a failed start; the first error is reported.\<close>

definition create_start :: "config \<Rightarrow> normalizedCreateServerRequest \<Rightarrow> (run, unit) operation" where
  "create_start cfg n r =
     (let target = create_target cfg n;
          (a, r1) = upServerStack cfg (tg_Project target) (tg_EnvFile target) r;
          (b, r2) = reloadSharedRegistry cfg r1
      in (bind_r a (\<lambda>_. b), r2))"

definition create_checked ::
    "config \<Rightarrow> normalizedCreateServerRequest \<Rightarrow> op_record option \<Rightarrow> run \<Rightarrow> (halt + envLine list) \<times> run" where
  "create_checked cfg n record =
     (let refuse = (\<lambda>text' status e. reject (refusal (nc_ID n) [] [] [] text' status) (record \<noteq> None) IdCreatePreparationFailed);
          target = create_target cfg n in
      bind_op (fails_as (refuse ''port is in use'' 409) (ports_free cfg n)) (\<lambda>_.
      bind_op (fails_as (refuse ''server env could not be checked'' 500) (stat_env target)) (\<lambda>st.
      bind_op (fails_as (refuse ''server env could not be checked'' 500) (look (\<lambda>_. st))) (\<lambda>present.
      bind_op (fails_as (refuse ''server already exists'' 409) (look (\<lambda>_. require (\<not> present) ''present''))) (\<lambda>_.
      bind_op (fails_as (refuse ''password could not be generated'' 500)
                (observe (\<lambda>c s. case ca_rand c 0 of None \<Rightarrow> Inl (ErrIO ''randomHex'') | Some w \<Rightarrow> Inr w))) (\<lambda>password.
        fails_as (refuse [] 500) (look (\<lambda>s. Inr (create_env_lines cfg n password (si_env s))))))))))"

definition create_worker ::
    "config \<Rightarrow> normalizedCreateServerRequest \<Rightarrow> envLine list \<Rightarrow> string \<Rightarrow> string \<Rightarrow> lease_id \<Rightarrow> run \<Rightarrow>
     (halt + answer) \<times> run" where
  "create_worker cfg n lines opid jid l r =
     (let project = projectForServerID (nc_ID n); (x, r1) = create_setup cfg n lines opid r in
      case x of
        Inl e \<Rightarrow> (Inr (refusal (nc_ID n) (nc_Name n) project [] ''the server could not be prepared'' 500),
          end_work cfg l jid opid KindCreate x r1)
      | Inr _ \<Rightarrow>
          let a = started_response (nc_ID n) (nc_Name n) project jid opid ''server creation started'' (job_status jid r1);
              (y, r2) = create_start cfg n r1
          in (Inr (a, 200), end_work cfg l jid opid KindCreate y r2))"

text \<open>The deferred removal of the job of a creation that was not claimed.\<close>

definition discarding :: "string \<Rightarrow> (run \<Rightarrow> (halt + 'a) \<times> run) \<Rightarrow> run \<Rightarrow> (halt + 'a) \<times> run" where
  "discarding jid m r =
     (case m r of
        (Inl (Rejected rj), r1) \<Rightarrow> (Inl (Rejected rj), if rj_keepJob rj then r1 else on_jobs (discard jid) r1)
      | (x, r1) \<Rightarrow> (x, r1))"

definition create_body ::
    "config \<Rightarrow> normalizedCreateServerRequest \<Rightarrow> string \<Rightarrow> string \<Rightarrow> prep_id \<Rightarrow> run \<Rightarrow> (halt + answer) \<times> run" where
  "create_body cfg n fp opid p =
     (let sid = nc_ID n; project = projectForServerID sid;
          mid = IdCreatePreparationFailed; again = replayed (nc_Name n) project in
      bind_op (reserve_durable KindCreate opid sid fp mid (reservation_refusal sid [] [] opid) again) (\<lambda>record.
      bind_op (reserve_job KindCreate opid fp record mid (job_refusal sid [] [] opid) again) (\<lambda>jid.
        discarding jid
          (bind_op (create_checked cfg n record) (\<lambda>lines.
           bind_op (claim_worker p KindCreate opid sid jid record mid (admission_refusal sid [] [] []) id) (\<lambda>l.
           bind_op (start_worker l jid opid record mid
               (refusal sid (nc_Name n) project opid ''the server could not be prepared'' 500)) (\<lambda>_.
             create_worker cfg n lines opid jid l)))))))"

definition createServerWithMaintenanceLease ::
    "config \<Rightarrow> createServerRequest \<Rightarrow> string \<Rightarrow> run \<Rightarrow> answer outcome \<times> run" where
  "createServerWithMaintenanceLease cfg req token r =
     (case normalizeLifecycleOperationID (cr_OperationID req) of
        Inl e \<Rightarrow> (Return (refusal [] [] [] [] ''operationId is invalid'' 400), r)
      | Inr opid \<Rightarrow>
          (case normalizeCreateServerRequest cfg req (si_env (rn_site r)) of
             Inl e \<Rightarrow> (Return (refusal [] [] [] [] ''the request is invalid''
                        (if e = ErrCreatePortsEqual then 409 else 400)), r)
           | Inr n \<Rightarrow> let fp = createRequestFingerprint n in
               with_preparation KindCreate opid (nc_ID n) fp token (preparation_refusal (nc_ID n) [] [] opid)
                 (replayed (nc_Name n) (projectForServerID (nc_ID n))) (create_body cfg n fp opid) r))"

section \<open>Deleting\<close>

text \<open>The registry entry of the server, which must belong to its project, and its env file.\<close>

definition known_server ::
    "config \<Rightarrow> serverTarget \<Rightarrow> (string \<Rightarrow> int \<Rightarrow> err \<Rightarrow> halt) \<Rightarrow> run \<Rightarrow> (halt + registryEntry) \<times> run" where
  "known_server cfg target refuse =
     bind_op (fails_as (refuse ''registry lookup failed'' 500) (entry_by_id cfg (tg_ID target))) (\<lambda>entry.
     bind_op (fails_as (refuse ''unknown server'' 404) (look (\<lambda>_. require (re_ID entry \<noteq> []) []))) (\<lambda>_.
     bind_op (fails_as (refuse ''registry project and server id differ'' 409)
                (look (\<lambda>_. require (re_DeployProject entry = tg_Project target) []))) (\<lambda>_.
     bind_op (fails_as (refuse ''server env identity is invalid'' 409) (valid_target target)) (\<lambda>_.
       fails_as (refuse [] 500) (look (\<lambda>_. Inr entry))))))"

definition delete_work :: "config \<Rightarrow> serverTarget \<Rightarrow> string \<Rightarrow> (run, unit) operation" where
  "delete_work cfg target opid =
     bind_op (new_journal ''delete'' target opid KindClose) (\<lambda>_.
     bind_op (advance cfg lifecycleJournalStageDown) (\<lambda>_.
     bind_op (downServerStack cfg (tg_Project target) (tg_EnvFile target)) (\<lambda>_.
     bind_op not_cancelled (\<lambda>_. bind_op (remove_env_file target) (\<lambda>_.
     bind_op not_cancelled (\<lambda>_. bind_op (remove_entry cfg (tg_ID target)) (\<lambda>_.
     bind_op not_cancelled (\<lambda>_. reloadSharedRegistry cfg))))))))"

definition delete_body ::
    "config \<Rightarrow> serverTarget \<Rightarrow> string \<Rightarrow> string \<Rightarrow> string \<Rightarrow> prep_id \<Rightarrow> run \<Rightarrow> (halt + answer) \<times> run" where
  "delete_body cfg target fp confirm opid p =
     (let sid = tg_ID target; mid = IdClosePreparationFailed in
      bind_op (reserve_durable KindClose opid sid fp mid (reservation_refusal sid [] [] opid)
                (replayed [] (tg_Project target))) (\<lambda>record.
      let refuse = (\<lambda>text' status e. reject (refusal sid [] [] [] text' status) (record \<noteq> None) mid) in
      bind_op (fails_as (\<lambda>e. reject (refusal sid [] [] [] ''delete confirmation does not match'' 400) (record \<noteq> None)
                  IdRequestValidationFailed) (look (\<lambda>_. require (confirm = ''DELETE '' @ sid) []))) (\<lambda>_.
      bind_op (known_server cfg target refuse) (\<lambda>entry.
      let name = re_Name entry; project = re_DeployProject entry in
      bind_op (reserve_job KindClose opid fp record mid (job_refusal sid name project opid) (replayed name project)) (\<lambda>jid.
      bind_op (claim_worker p KindClose opid sid jid record mid (admission_refusal sid name project [])
                (discard jid)) (\<lambda>l.
      bind_op (stale_released l jid (known_server cfg target refuse)) (\<lambda>entry.
      let name = re_Name entry; project = re_DeployProject entry in
      bind_op (start_worker l jid opid record mid
                 (refusal sid name project opid ''the server could not be deleted'' 500)) (\<lambda>_ r.
        run_worker cfg l jid opid KindClose (delete_work cfg target opid)
          (started_response sid name project jid opid ''server deletion started'' (job_status jid r), 200) r))))))))"

definition deleteServer :: "config \<Rightarrow> string \<Rightarrow> string \<Rightarrow> string \<Rightarrow> run \<Rightarrow> answer outcome \<times> run" where
  "deleteServer cfg rawID confirm opid r =
     (case serverTargetForID cfg rawID of
        Inl e \<Rightarrow> (Return (refusal [] [] [] [] ''server id is invalid'' 400), r)
      | Inr target \<Rightarrow> let fp = closeRequestFingerprint (tg_ID target) in
          with_preparation KindClose opid (tg_ID target) fp []
            (preparation_refusal (tg_ID target) [] [] opid) (replayed [] (tg_Project target))
            (delete_body cfg target fp confirm opid) r)"

section \<open>Resetting\<close>

text \<open>The checks of the request alone; the last one is the form of the operation id.\<close>

definition reset_request_refused :: "resetServerRequest \<Rightarrow> string \<Rightarrow> string \<Rightarrow> (string \<times> int) option" where
  "reset_request_refused req token sid =
     (if rq_Confirm req \<noteq> ''RESET '' @ sid then Some (''reset confirmation does not match'', 400)
      else if rq_StorageImageDigests req \<noteq> [] then
        (if \<not> is_ok (normalizeResetStorageImageDigests (rq_StorageImageDigests req))
         then Some (''storage image pins are invalid'', 400)
         else Some (''storage image pins need the complete execution evidence path'', 503))
      else if rq_ApprovalPlanSHA256 req \<noteq> [] \<or> rq_ExecutionReceiptSHA256 req \<noteq> [] then
        (if \<not> is_ok (normalizeResetExecutionEvidenceRefs \<lparr>ev_ApprovalPlanSHA = rq_ApprovalPlanSHA256 req,
               ev_ExecutionReceiptSHA = rq_ExecutionReceiptSHA256 req\<rparr>)
         then Some (''execution evidence is invalid'', 400)
         else Some (''execution evidence is not connected yet'', 503))
      else if rq_ScenarioCode req = ''scenario_3190'' \<and> token = []
      then Some (''a 3190 reset needs the verified maintenance path'', 400)
      else if token = [] \<and> (rq_ImageTag req \<noteq> [] \<or> rq_WebGameTag req \<noteq> [] \<or> rq_ImageDigests req \<noteq> [])
      then Some (''image pins can only be changed by a maintenance reset'', 400)
      else if token \<noteq> [] \<and> (sid \<noteq> ''pep'' \<or> rq_OperationID req = [] \<or> rq_ScenarioCode req \<noteq> ''scenario_990002'' \<or>
          \<not> gitSHA40 (rq_ImageTag req) \<or> rq_ImageTag req \<noteq> rq_WebGameTag req)
      then Some (''a maintenance reset needs exact candidate pins and an operation id'', 400)
      else if token \<noteq> [] \<and> \<not> is_ok (normalizeResetImageDigests (rq_ImageDigests req))
      then Some (''image digests are invalid'', 400)
      else if \<not> is_ok (normalizeLifecycleOperationID (rq_OperationID req)) then Some (''operationId is invalid'', 400)
      else None)"

definition reset_updates :: "resetServerRequest \<Rightarrow> string \<Rightarrow> env result" where
  "reset_updates req token = map_sum id (\<lambda>u. if token = [] then u
       else AList.update ''WEB_GAME_TAG'' (rq_WebGameTag req) (AList.update ''IMAGE_TAG'' (rq_ImageTag req) u))
     (resetEnvUpdates req)"

text \<open>What is checked against the server before the preparation.\<close>

definition reset_checked ::
    "config \<Rightarrow> serverTarget \<Rightarrow> resetServerRequest \<Rightarrow> string \<Rightarrow> run \<Rightarrow>
     (halt + registryEntry \<times> resetLifecycleTarget) \<times> run" where
  "reset_checked cfg target req token =
     (let sid = tg_ID target;
          refuse = (\<lambda>text' status e. reject (refusal sid [] [] [] text' status) False IdNone);
          refuse_named = (\<lambda>entry text' status e.
             reject (refusal sid (re_Name entry) (re_DeployProject entry) [] text' status) False IdNone) in
      bind_op (fails_as (refuse ''server env identity is invalid'' 409) (valid_target target)) (\<lambda>_.
      bind_op (fails_as (refuse ''reset options are invalid'' 400) (look (\<lambda>_. reset_updates req token))) (\<lambda>updates.
      bind_op (known_server cfg target refuse) (\<lambda>entry.
      bind_op (fails_as (refuse_named entry ''server env could not be checked'' 500) (stat_env target)) (\<lambda>st.
      bind_op (fails_as (refuse_named entry ''server env could not be checked'' 500)
                 (look (\<lambda>_. bind_r st (\<lambda>present. require present ''absent'')))) (\<lambda>_.
      bind_op (fails_as (refuse_named entry ''the reset target is invalid'' 400)
                 (check_env (resetLifecycleTargetForEnvWithImageDigests (tg_EnvFile target) updates
                    (rq_ImageDigests req)))) (\<lambda>rt.
      bind_op (fails_as (refuse ''a 3190 reset needs the verified maintenance path'' 400)
                 (look (\<lambda>_. require (\<not> resetTargetRequiresD101Execution rt) []))) (\<lambda>_.
        fails_as (refuse [] 500) (look (\<lambda>_. Inr (entry, rt)))))))))))"

text \<open>\<open>failAfterIrreversible\<close> of the worker.\<close>

definition irreversibly :: "config \<Rightarrow> serverTarget \<Rightarrow> (run, 'a) operation \<Rightarrow> (run, 'a) operation" where
  "irreversibly cfg target m r =
     (case m r of
        (Inr x, r1) \<Rightarrow> (Inr x, r1)
      | (Inl e, r1) \<Rightarrow>
          (case set_repair cfg (tg_ID target) True r1 of
             (Inl e', r2) \<Rightarrow> (Inl (Err ''reset crossed the volume removal and could not persist repair-required''), r2)
           | (Inr _, r2) \<Rightarrow> (Inl (Err ''reset crossed the volume removal and was marked repair-required''), r2)))"

definition up_twice :: "config \<Rightarrow> string \<Rightarrow> string \<Rightarrow> (run, unit) operation" where
  "up_twice cfg project envFile r =
     (case upServerStack cfg project envFile r of
        (Inr _, r1) \<Rightarrow> (Inr (), r1)
      | (Inl e, r1) \<Rightarrow> upServerStack cfg project envFile r1)"

definition reset_prepare ::
    "config \<Rightarrow> serverTarget \<Rightarrow> resetLifecycleTarget \<Rightarrow> string \<Rightarrow> string \<Rightarrow> (run, registryEntry) operation" where
  "reset_prepare cfg target rt token opid =
     bind_op not_cancelled (\<lambda>_. bind_op (valid_target target) (\<lambda>_.
     bind_op (if token \<noteq> [] then pullResetCandidate cfg target rt else look (\<lambda>_. Inr ())) (\<lambda>_.
     bind_op (new_reset_journal target rt opid KindReset) (\<lambda>_.
     bind_op (apply_target target rt) (\<lambda>_.
     bind_op (advance cfg lifecycleJournalStageEnv) (\<lambda>_.
     bind_op (sync_entry cfg target) (\<lambda>_.
     bind_op (advance cfg lifecycleJournalStageRegistry) (\<lambda>_.
     bind_op (entry_by_id cfg (tg_ID target)) (\<lambda>entry.
     bind_op (look (\<lambda>_. require (re_ID entry \<noteq> []) ''updated server registry entry is unavailable'')) (\<lambda>_.
     bind_op not_cancelled (\<lambda>_.
     bind_op (advance cfg lifecycleJournalStageDown) (\<lambda>_. look (\<lambda>_. Inr entry)))))))))))))"

definition reset_replace :: "config \<Rightarrow> serverTarget \<Rightarrow> registryEntry \<Rightarrow> (run, unit) operation" where
  "reset_replace cfg target entry =
     (let project = re_DeployProject entry; envFile = tg_EnvFile target in
      irreversibly cfg target
        (bind_op (downServerStack cfg project envFile) (\<lambda>_. bind_op not_cancelled (\<lambda>_.
         bind_op (up_twice cfg project envFile) (\<lambda>_.
         bind_op (verifyResetRuntime cfg target) (\<lambda>_. bind_op (reconcile cfg target) (\<lambda>_.
         bind_op (set_repair cfg (tg_ID target) False) (\<lambda>_. bind_op (reloadSharedRegistry cfg) (\<lambda>_.
           verifySharedRegistryReload cfg target)))))))))"

definition reset_work ::
    "config \<Rightarrow> serverTarget \<Rightarrow> resetLifecycleTarget \<Rightarrow> string \<Rightarrow> string \<Rightarrow> (run, unit) operation" where
  "reset_work cfg target rt token opid =
     bind_op (reset_prepare cfg target rt token opid) (reset_replace cfg target)"

definition reset_body ::
    "config \<Rightarrow> serverTarget \<Rightarrow> registryEntry \<Rightarrow> resetLifecycleTarget \<Rightarrow> string \<Rightarrow> string \<Rightarrow> string \<Rightarrow> prep_id \<Rightarrow>
     run \<Rightarrow> (halt + answer) \<times> run" where
  "reset_body cfg target entry rt fp token opid p =
     (let sid = tg_ID target; name = re_Name entry; project = re_DeployProject entry;
          mid = IdResetPreparationFailed in
      bind_op (reserve_durable KindReset opid sid fp mid (reservation_refusal sid name project opid)
                (replayed name project)) (\<lambda>record.
      bind_op (reserve_job KindReset opid fp record mid (job_refusal sid name project opid) (replayed name project)) (\<lambda>jid.
      bind_op (claim_worker p KindReset opid sid jid record mid (admission_refusal sid name project opid)
                (discard jid)) (\<lambda>l.
      bind_op (start_worker l jid opid record mid
                 (refusal sid name project opid ''the server could not be reset'' 500)) (\<lambda>_.
        run_worker cfg l jid opid KindReset (reset_work cfg target rt token opid)
          (started_response sid name project jid opid ''server reset started'' JobPending, 200))))))"

definition resetServerWithMaintenanceLease ::
    "config \<Rightarrow> string \<Rightarrow> resetServerRequest \<Rightarrow> string \<Rightarrow> run \<Rightarrow> answer outcome \<times> run" where
  "resetServerWithMaintenanceLease cfg rawID req token r =
     (case serverTargetForID cfg rawID of
        Inl e \<Rightarrow> (Return (refusal [] [] [] [] ''server id is invalid'' 400), r)
      | Inr target \<Rightarrow>
          (case reset_request_refused req token (tg_ID target) of
             Some (text', status) \<Rightarrow> (Return (refusal (tg_ID target) [] [] [] text' status), r)
           | None \<Rightarrow>
               (case reset_checked cfg target req token r of
                  (Inl (Rejected rj), r1) \<Rightarrow> (Return (rj_answer rj), r1)
                | (Inl Blocked, r1) \<Rightarrow> (Wait, r1)
                | (Inr (entry, rt), r1) \<Rightarrow>
                    let opid = the_ok [] (normalizeLifecycleOperationID (rq_OperationID req));
                        fp = resetRequestFingerprint (tg_ID target) rt in
                    with_preparation KindReset opid (tg_ID target) fp token
                      (preparation_refusal (tg_ID target) (re_Name entry) (re_DeployProject entry) opid)
                      (replayed (re_Name entry) (re_DeployProject entry)) (reset_body cfg target entry rt fp token opid) r1)))"

end
