(* ===== verification/HandlerRuns.thy ===== *)
theory HandlerRuns
  imports ServerSteps GuardedRuns CoordinatorSystem
begin

text \<open>
  How a handler passes through its preparation, its reservations, its lease and its worker.
  A triple has one condition for a result and one for an early return; the states between are
  described by who occupies the coordinator and by the docker log since the handler began.
\<close>

section \<open>Triples\<close>

definition triple ::
    "(run \<Rightarrow> bool) \<Rightarrow> (run \<Rightarrow> ('e + 'a) \<times> run) \<Rightarrow> ('a \<Rightarrow> run \<Rightarrow> bool) \<Rightarrow> ('e \<Rightarrow> run \<Rightarrow> bool) \<Rightarrow> bool" where
  "triple I m J E \<longleftrightarrow> (\<forall>r x t. I r \<longrightarrow> m r = (x, t) \<longrightarrow> (case x of Inl e \<Rightarrow> E e t | Inr v \<Rightarrow> J v t))"

lemma tripleI:
  "(\<And>r x t. I r \<Longrightarrow> m r = (x, t) \<Longrightarrow> case x of Inl e \<Rightarrow> E e t | Inr v \<Rightarrow> J v t) \<Longrightarrow> triple I m J E"
  unfolding triple_def by blast

lemma tripleD: "triple I m J E \<Longrightarrow> I r \<Longrightarrow> m r = (x, t) \<Longrightarrow> case x of Inl e \<Rightarrow> E e t | Inr v \<Rightarrow> J v t"
  unfolding triple_def by blast

lemma triple_bind: "triple I m J E \<Longrightarrow> (\<And>v. triple (J v) (k v) K E) \<Longrightarrow> triple I (bind_op m k) K E"
  unfolding triple_def bind_op_def by (fastforce split: sum.splits prod.splits)

lemma triple_weaken:
  assumes "triple I m J E" and "\<And>r. I' r \<Longrightarrow> I r" and "\<And>v r. J v r \<Longrightarrow> J' v r" and "\<And>e r. E e r \<Longrightarrow> E' e r"
  shows "triple I' m J' E'"
proof (rule tripleI)
  fix r x t
  assume "I' r" "m r = (x, t)"
  from tripleD[OF assms(1) assms(2)[OF this(1)] this(2)] show "case x of Inl e \<Rightarrow> E' e t | Inr v \<Rightarrow> J' v t"
    using assms(3,4) by (auto split: sum.splits)
qed

section \<open>Quiet steps\<close>

text \<open>The part of the coordinator that says who occupies it; a quiet step leaves it alone.\<close>

definition seat :: "coord \<Rightarrow> lease_id option \<times> prep_id option \<times> (lease_id \<Rightarrow> lease option) \<times> (prep_id \<Rightarrow> prep option)" where
  "seat c = (co_active c, co_preparing c, co_leases c, co_preps c)"

definition quiet_step :: "config \<Rightarrow> run \<Rightarrow> run \<Rightarrow> bool" where
  "quiet_step cfg r t \<longleftrightarrow>
     seat (site_coord (rn_site t)) = seat (site_coord (rn_site r)) \<and> journal_path (rn_site t) = journal_path (rn_site r) \<and>
     (\<exists>k. \<forall>n. rn_calls t n = rn_calls r (n + k)) \<and>
     (\<exists>ext. rn_log t = rn_log r @ ext \<and> (\<forall>(a, s) \<in> set ext. \<not> is_down cfg a))"

lemma calm_quiet: "calm_step cfg r t \<Longrightarrow> quiet_step cfg r t"
  by (auto simp: calm_step_def quiet_step_def)

lemma quiet_refl [simp]: "quiet_step cfg r r"
  by (auto simp: quiet_step_def intro: exI[of _ 0])

lemma quiet_trans:
  assumes "quiet_step cfg r s" and "quiet_step cfg s t"
  shows "quiet_step cfg r t"
proof -
  obtain k l e f where "\<forall>n. rn_calls s n = rn_calls r (n + k)" "\<forall>n. rn_calls t n = rn_calls s (n + l)"
    "rn_log s = rn_log r @ e" "rn_log t = rn_log s @ f"
    "\<forall>(a, s) \<in> set e. \<not> is_down cfg a" "\<forall>(a, s) \<in> set f. \<not> is_down cfg a"
    using assms unfolding quiet_step_def by blast
  then have "\<forall>n. rn_calls t n = rn_calls r (n + (l + k))" "rn_log t = rn_log r @ (e @ f)"
    "\<forall>(a, s) \<in> set (e @ f). \<not> is_down cfg a" by (auto simp: add.assoc)
  then show ?thesis using assms unfolding quiet_step_def by metis
qed

lemma quiet_coord: "seat (f (site_coord (rn_site r))) = seat (site_coord (rn_site r)) \<Longrightarrow>
    co_journalPath (f (site_coord (rn_site r))) = journal_path (rn_site r) \<Longrightarrow> quiet_step cfg r (on_run_coord f r)"
  by (auto simp: quiet_step_def on_run_coord_def intro: exI[of _ 0])

lemma quiet_jobs: "quiet_step cfg r (on_jobs f r)"
  unfolding on_jobs_def by (rule quiet_coord) (simp_all add: seat_def)

lemma quiet_world:
  assumes "wd_coord w = site_coord (rn_site r)"
  shows "quiet_step cfg r ((tick r)\<lparr>rn_site := (rn_site r)\<lparr>si_world := w\<rparr>\<rparr>)"
  using assms by (auto simp: quiet_step_def tick_def intro: exI[of _ 1])

lemma quiet_tick: "quiet_step cfg r (tick r)"
  by (rule calm_quiet[OF calm_tick])

definition quiet_stable :: "config \<Rightarrow> (run \<Rightarrow> bool) \<Rightarrow> bool" where
  "quiet_stable cfg I \<longleftrightarrow> (\<forall>r t. quiet_step cfg r t \<longrightarrow> I r \<longrightarrow> I t)"

lemma stableD: "quiet_stable cfg I \<Longrightarrow> quiet_step cfg r t \<Longrightarrow> I r \<Longrightarrow> I t"
  unfolding quiet_stable_def by blast

section \<open>Who occupies the coordinator\<close>

definition clean :: "config \<Rightarrow> (string list \<Rightarrow> site \<Rightarrow> bool) \<Rightarrow> nat \<Rightarrow> run \<Rightarrow> bool" where
  "clean cfg D n r \<longleftrightarrow> n \<le> length (rn_log r) \<and> (\<forall>(a, s) \<in> set (drop n (rn_log r)). is_down cfg a \<longrightarrow> D a s)"

definition apart :: "run \<Rightarrow> bool" where
  "apart r \<longleftrightarrow> (\<forall>n. ans_tmp (snd (ca_write (rn_calls r n))) \<noteq> journal_path (rn_site r))"

definition prepared_run ::
    "config \<Rightarrow> (string list \<Rightarrow> site \<Rightarrow> bool) \<Rightarrow> nat \<Rightarrow> prep_id \<Rightarrow> lease_id option \<Rightarrow> run \<Rightarrow> bool" where
  "prepared_run cfg D n p a r \<longleftrightarrow> clean cfg D n r \<and> apart r \<and>
     (let c = site_coord (rn_site r) in
      co_active c = a \<and> co_preparing c = Some p \<and> (\<exists>pr. co_preps c p = Some pr \<and> \<not> pr_done pr))"

definition held :: "lease_id \<Rightarrow> coord \<Rightarrow> bool" where
  "held l c \<longleftrightarrow> co_active c = Some l \<and> co_preparing c = None \<and> (\<exists>ls. co_leases c l = Some ls \<and> \<not> ls_done ls)"

definition holding :: "config \<Rightarrow> (string list \<Rightarrow> site \<Rightarrow> bool) \<Rightarrow> nat \<Rightarrow> lease_id \<Rightarrow> run \<Rightarrow> bool" where
  "holding cfg D n l r \<longleftrightarrow> clean cfg D n r \<and> apart r \<and> held l (site_coord (rn_site r))"

definition idle :: "config \<Rightarrow> (string list \<Rightarrow> site \<Rightarrow> bool) \<Rightarrow> nat \<Rightarrow> run \<Rightarrow> bool" where
  "idle cfg D n r \<longleftrightarrow> clean cfg D n r \<and> co_active (site_coord (rn_site r)) = None \<and> co_preparing (site_coord (rn_site r)) = None"

lemma clean_ext:
  assumes "clean cfg D n r" and "rn_log t = rn_log r @ ext" and "\<forall>(a, s) \<in> set ext. is_down cfg a \<longrightarrow> D a s"
  shows "clean cfg D n t"
  using assms by (auto simp: clean_def)

lemma stable_parts: "quiet_stable cfg (clean cfg D n)" "quiet_stable cfg apart"
proof -
  have "clean cfg D n t" if "quiet_step cfg r t" "clean cfg D n r" for r t
    using that clean_ext[OF that(2)] by (fastforce simp: quiet_step_def)
  then show "quiet_stable cfg (clean cfg D n)" unfolding quiet_stable_def by blast
qed (auto simp: quiet_stable_def quiet_step_def apart_def)

lemma stable_seat:
  assumes "\<And>c c'. seat c' = seat c \<Longrightarrow> K c \<Longrightarrow> K c'"
  shows "quiet_stable cfg (\<lambda>r. clean cfg D n r \<and> apart r \<and> K (site_coord (rn_site r)))"
proof -
  have "clean cfg D n t \<and> apart t \<and> K (site_coord (rn_site t))"
    if q: "quiet_step cfg r t" and r: "clean cfg D n r \<and> apart r \<and> K (site_coord (rn_site r))" for r t
  proof -
    have "seat (site_coord (rn_site t)) = seat (site_coord (rn_site r))" using q by (simp add: quiet_step_def)
    from assms[OF this] show ?thesis
      using stableD[OF stable_parts(1) q] stableD[OF stable_parts(2) q] r by blast
  qed
  then show ?thesis unfolding quiet_stable_def by blast
qed

lemma stable_holding [simp]: "quiet_stable cfg (holding cfg D n l)"
  unfolding holding_def[abs_def]
  by (rule stable_seat[where K = "held l"]) (simp add: seat_def held_def)

lemma stable_prepared [simp]: "quiet_stable cfg (prepared_run cfg D n p a)"
  unfolding prepared_run_def[abs_def] Let_def
  by (rule stable_seat[where K = "\<lambda>c. co_active c = a \<and> co_preparing c = Some p \<and>
      (\<exists>pr. co_preps c p = Some pr \<and> \<not> pr_done pr)"]) (simp add: seat_def)

text \<open>Early returns: without a lease in the state I, or with the lease that is held.\<close>

definition rejected :: "(run \<Rightarrow> bool) \<Rightarrow> halt \<Rightarrow> run \<Rightarrow> bool" where
  "rejected I h t \<longleftrightarrow> (case h of Blocked \<Rightarrow> True | Rejected rj \<Rightarrow> rj_lease rj = None \<and> I t)"

definition left ::
    "config \<Rightarrow> (string list \<Rightarrow> site \<Rightarrow> bool) \<Rightarrow> nat \<Rightarrow> prep_id \<Rightarrow> lease_id option \<Rightarrow> halt \<Rightarrow> run \<Rightarrow> bool" where
  "left cfg D n p a h t \<longleftrightarrow> (case h of Blocked \<Rightarrow> True
     | Rejected rj \<Rightarrow> (case rj_lease rj of None \<Rightarrow> prepared_run cfg D n p a t | Some l \<Rightarrow> holding cfg D n l t))"

lemma rejected_left: "rejected (prepared_run cfg D n p a) h t \<Longrightarrow> left cfg D n p a h t"
  by (auto simp: rejected_def left_def split: halt.splits)

section \<open>The phases of a handler\<close>

named_theorems phase_rules \<open>phases that keep a stable state\<close>

definition refusing :: "('e \<Rightarrow> halt) \<Rightarrow> bool" where
  "refusing f \<longleftrightarrow> (\<forall>e. \<exists>rj. f e = Rejected rj \<and> rj_lease rj = None)"

lemma refusing_reject [simp]: "refusing (\<lambda>e. reject (a e) (b e) (c e))"
  by (simp add: refusing_def reject_def)

lemma reject_lease: "rejected I (reject a b c) t \<longleftrightarrow> I t"
  by (simp add: rejected_def reject_def)

lemma triple_calm: "calm cfg m \<Longrightarrow> quiet_stable cfg I \<Longrightarrow> triple I m (\<lambda>_. I) (\<lambda>_. I)"
  by (rule tripleI) (auto split: sum.split intro: stableD calm_quiet dest: calmD)

lemma fails_as_triple [phase_rules]:
  assumes "quiet_stable cfg I" and "refusing f" and "calm cfg m"
  shows "triple I (fails_as f m) (\<lambda>_. I) (rejected I)"
proof (rule tripleI)
  fix r x t
  assume i: "I r" and f: "fails_as f m r = (x, t)"
  obtain y where "m r = (y, t)" "x = map_sum f id y" using f by (auto simp: fails_as_def split: prod.splits)
  moreover have "I t" using stableD[OF assms(1) calm_quiet[OF calmD[OF assms(3)]] i] calculation(1) by blast
  ultimately show "case x of Inl h \<Rightarrow> rejected I h t | Inr v \<Rightarrow> I t"
  proof (cases y)
    case (Inl e)
    obtain rj where "f e = Rejected rj" "rj_lease rj = None" using assms(2) unfolding refusing_def by blast
    then show ?thesis using \<open>I t\<close> \<open>x = map_sum f id y\<close> Inl by (simp add: rejected_def)
  qed (use \<open>I t\<close> \<open>x = map_sum f id y\<close> in simp)
qed

lemma reserve_durable_triple [phase_rules]:
  assumes "quiet_stable cfg I"
  shows "triple I (reserve_durable k opid sid fp mid failed again) (\<lambda>_. I) (rejected I)"
proof (rule tripleI)
  fix r x t
  assume i: "I r" and f: "reserve_durable k opid sid fp mid failed again r = (x, t)"
  show "case x of Inl h \<Rightarrow> rejected I h t | Inr v \<Rightarrow> I t"
  proof (cases "opid = []")
    case True
    then show ?thesis using f i by (auto simp: reserve_durable_def)
  next
    case False
    obtain rv w where w: "reserveDurableLifecycleOperation opid k sid fp (ca_store (next_call r)) (si_world (rn_site r)) = (rv, w)"
      by fastforce
    have "wd_coord w = site_coord (rn_site r)"
      using w by (auto simp: reserveDurableLifecycleOperation_def put_store_def Let_def split: option.splits prod.splits if_splits)
    from stableD[OF assms quiet_world[OF this] i] show ?thesis
      using f w False by (auto simp: reserve_durable_def Let_def reject_lease split: option.splits if_splits)
  qed
qed

lemma reserve_job_triple [phase_rules]:
  assumes "quiet_stable cfg I"
  shows "triple I (reserve_job k opid fp record mid failed again) (\<lambda>_. I) (rejected I)"
proof (rule tripleI)
  fix r x t
  assume i: "I r" and f: "reserve_job k opid fp record mid failed again r = (x, t)"
  have "I (on_jobs m (tick r))" for m
    by (rule stableD[OF assms quiet_trans[OF quiet_tick quiet_jobs] i])
  then show "case x of Inl h \<Rightarrow> rejected I h t | Inr v \<Rightarrow> I t"
    using f by (auto simp: reserve_job_def Let_def reject_lease split: prod.splits sum.splits if_splits)
qed

section \<open>The lease and the worker\<close>

lemma promote_seat:
  assumes "promote marker journal p pr jid c = (Return x, c')"
  shows "co_journalPath c' = co_journalPath c \<and>
    (case x of Inl e \<Rightarrow> seat c' = seat c | Inr l \<Rightarrow> held l c')"
proof -
  have o': "seat (observe_files marker journal c) = seat c" "co_journalPath (observe_files marker journal c) = co_journalPath c"
    by (simp_all add: observe_files_def seat_def Let_def)
  show ?thesis
  proof (cases "blocksPromotion (co_gate c) p")
    case True
    then show ?thesis using assms by (auto simp: promote_def)
  next
    case False
    then have "promote_try p pr jid (observe_files marker journal c) = (Return x, c')"
      using assms by (simp add: promote_def)
    then show ?thesis
      using o' by (auto simp: promote_try_def new_lease_def claim_job_def consume_lease_def held_def Let_def
          split: if_splits option.splits prod.splits)
  qed
qed

lemma begin_prepared_left:
  assumes "prepared_run cfg D n p a r" and "begin_prepared p jid r = (Return x, t)"
  shows "case x of Inl e \<Rightarrow> prepared_run cfg D n p a t | Inr l \<Rightarrow> holding cfg D n l t"
proof -
  obtain y r1 where d: "dockerPreflight r = (y, r1)" by fastforce
  have w: "prepared_run cfg D n p a r1"
    by (rule stableD[OF stable_prepared calm_quiet[OF calmD[OF calm_preflight d]] assms(1)])
  then obtain pr where pr: "co_preps (site_coord (rn_site r1)) p = Some pr" by (auto simp: prepared_run_def Let_def)
  show ?thesis
  proof (cases y)
    case (Inl e)
    then show ?thesis using assms(2) d w by (auto simp: begin_prepared_def)
  next
    case (Inr u)
    let ?c = "site_coord (rn_site r1)"
    obtain c' where b: "promote (markerOnDisk ?c) (journalOnDisk ?c) p pr jid ?c = (Return x, c')"
      and t: "t = on_run_coord (\<lambda>_. c') r1"
      using assms(2) d pr Inr by (auto simp: begin_prepared_def beginPreparedLifecycle_def Let_def split: prod.splits)
    note k = promote_seat[OF b]
    show ?thesis
    proof (cases x)
      case (Inl e)
      then have "quiet_step cfg r1 t" using k unfolding t by (intro quiet_coord) simp_all
      from stableD[OF stable_prepared this w] show ?thesis using Inl by simp
    next
      case (Inr l)
      have "clean cfg D n t" "apart t" using w k by (auto simp: t prepared_run_def clean_def apart_def on_run_coord_def)
      then show ?thesis using k Inr by (simp add: holding_def t on_run_coord_def)
    qed
  qed
qed

lemma claim_worker_triple:
  "triple (prepared_run cfg D n p a) (claim_worker p k opid sid jid record mid failed drop')
     (\<lambda>l. holding cfg D n l) (left cfg D n p a)"
proof (rule tripleI)
  fix r x t
  assume w: "prepared_run cfg D n p a r" and c: "claim_worker p k opid sid jid record mid failed drop' r = (x, t)"
  let ?r = "on_jobs (bindOperationSubject jid k sid) r"
  obtain y r1 where b: "begin_prepared p jid ?r = (y, r1)" by fastforce
  have w1: "prepared_run cfg D n p a ?r" by (rule stableD[OF stable_prepared quiet_jobs w])
  show "case x of Inl h \<Rightarrow> left cfg D n p a h t | Inr l \<Rightarrow> holding cfg D n l t"
  proof (cases y)
    case Wait
    then show ?thesis using c b by (auto simp: claim_worker_def left_def)
  next
    case (Return z)
    note l = begin_prepared_left[OF w1 b[unfolded Return]]
    show ?thesis
    proof (cases z)
      case (Inr v)
      then show ?thesis using c b l Return by (auto simp: claim_worker_def)
    next
      case (Inl e)
      obtain v r2 where v: "transition opid JobCancelled 409 IdCancelled (on_jobs drop' r1) = (v, r2)" by fastforce
      have "quiet_step cfg r1 r2" by (rule quiet_trans[OF quiet_jobs calm_quiet[OF calmD[OF calm_transition v]]])
      from stableD[OF stable_prepared this] l Inl have "prepared_run cfg D n p a r2" by simp
      then show ?thesis using c b v Return Inl by (auto simp: claim_worker_def left_def)
    qed
  qed
qed

lemma transition_coord: "wd_coord (snd (transitionDurableLifecycleOperation opid st http mid e w)) = wd_coord w"
  by (simp add: transitionDurableLifecycleOperation_def put_store_def split_beta split: option.split)

lemma start_worker_triple:
  "triple (holding cfg D n l) (start_worker l jid opid record mid failed) (\<lambda>_. holding cfg D n l) (left cfg D n p a)"
proof (rule tripleI)
  fix r x t
  assume h: "holding cfg D n l r" and s: "start_worker l jid opid record mid failed r = (x, t)"
  obtain err w where w: "startClaimedDurable jid opid (ca_store (next_call r)) (rn_now r) (si_world (rn_site r)) = (err, w)"
    by fastforce
  have c: "seat (wd_coord w) = seat (site_coord (rn_site r))" "co_journalPath (wd_coord w) = journal_path (rn_site r)"
    using w transition_coord[of opid JobRunning 202 IdNone "ca_store (next_call r)" "si_world (rn_site r)"]
    by (auto simp: startClaimedDurable_def with_jobs_def map_coord_def seat_def split: prod.splits option.splits)
  have t: "t = (tick r)\<lparr>rn_site := (rn_site r)\<lparr>si_world := w\<rparr>\<rparr>"
    using s w by (auto simp: start_worker_def Let_def split: option.splits)
  have "quiet_step cfg r t" using c by (auto simp: t quiet_step_def tick_def intro: exI[of _ 1])
  from stableD[OF stable_holding this h] show "case x of Inl h \<Rightarrow> left cfg D n p a h t | Inr v \<Rightarrow> holding cfg D n l t"
    using s w by (auto simp: start_worker_def Let_def left_def split: option.splits)
qed

text \<open>What a worker leaves of the seat, and the end of its work.\<close>

definition sit_step :: "run \<Rightarrow> run \<Rightarrow> bool" where
  "sit_step r t \<longleftrightarrow> seat (site_coord (rn_site t)) = seat (site_coord (rn_site r)) \<and> (\<exists>ext. rn_log t = rn_log r @ ext)"

definition sits :: "(run \<Rightarrow> 'x \<times> run) \<Rightarrow> bool" where
  "sits m \<longleftrightarrow> (\<forall>r. sit_step r (snd (m r)))"

definition quiet :: "config \<Rightarrow> (run \<Rightarrow> 'x \<times> run) \<Rightarrow> bool" where
  "quiet cfg m \<longleftrightarrow> (\<forall>r. quiet_step cfg r (snd (m r)))"

named_theorems quiet_rules \<open>operations that leave the seat alone and take no stack down\<close>
named_theorems sit_rules \<open>operations that leave the seat alone\<close>

lemma sitsD: "sits m \<Longrightarrow> m r = (x, t) \<Longrightarrow> sit_step r t"
  unfolding sits_def by (metis snd_conv)

lemma quietD: "quiet cfg m \<Longrightarrow> m r = (x, t) \<Longrightarrow> quiet_step cfg r t"
  unfolding quiet_def by (metis snd_conv)

lemma sit_trans: "sit_step r s \<Longrightarrow> sit_step s t \<Longrightarrow> sit_step r t"
  unfolding sit_step_def by (metis append.assoc)

lemma sit_quiet: "quiet_step cfg r t \<Longrightarrow> sit_step r t"
  by (auto simp: quiet_step_def sit_step_def)

lemma quiet_calm: "calm cfg m \<Longrightarrow> quiet cfg m"
  unfolding calm_def quiet_def by (blast intro: calm_quiet)

lemma sits_quiet: "quiet cfg m \<Longrightarrow> sits m"
  unfolding sits_def quiet_def by (blast intro: sit_quiet)

lemma quiet_bind [quiet_rules]: "quiet cfg m \<Longrightarrow> (\<And>v. quiet cfg (k v)) \<Longrightarrow> quiet cfg (bind_op m k)"
  unfolding quiet_def by (intro allI, rule bind_op_keeps[where R = "quiet_step cfg"]) (auto intro: quiet_trans)

lemma sits_bind [sit_rules]: "sits m \<Longrightarrow> (\<And>v. sits (k v)) \<Longrightarrow> sits (bind_op m k)"
  unfolding sits_def
  by (intro allI, rule bind_op_keeps[where R = sit_step]) (auto intro: sit_trans simp: sit_step_def)

lemma seat_flags [simp]: "seat (c\<lparr>co_present := q\<rparr>) = seat c" "seat (markLifecycleJournalPending c) = seat c"
  "seat (clearLifecycleJournalPending c) = seat c" "seat (markPreparationSettlementPending c) = seat c"
  "seat (c\<lparr>co_jobs := js\<rparr>) = seat c"
  by (simp_all add: seat_def markLifecycleJournalPending_def clearLifecycleJournalPending_def
      markPreparationSettlementPending_def Let_def)

lemma seat_put [simp]: "seat (site_coord (put_journal fs s)) = seat (site_coord s)"
  by (simp add: put_journal_def on_coord_def map_coord_def)

lemma seat_record: "seat (site_coord (snd (writeLifecycleJournalRecord j e s))) = seat (site_coord s)"
  by (simp add: writeLifecycleJournalRecord_def Let_def split: sum.split)

lemma seat_marked:
  "seat (site_coord (snd (bind_op (writeLifecycleJournalRecord j e)
     (\<lambda>_ s'. (Inr (), on_coord markLifecycleJournalPending s')) s))) = seat (site_coord s)"
  using seat_record[of j e s]
  by (cases "writeLifecycleJournalRecord j e s"; cases "fst (writeLifecycleJournalRecord j e s)")
    (auto simp: bind_op_def on_coord_def map_coord_def)

lemma seat_new [simp]:
  "seat (site_coord (snd (writeLifecycleJournalWithResetTarget operation target rt opid k web e s))) = seat (site_coord s)"
  by (simp add: writeLifecycleJournalWithResetTarget_def seat_marked split: sum.split)

lemma seat_journal [simp]:
  "seat (site_coord (snd (writeLinkedResetLifecycleJournal target rt' opid k e s))) = seat (site_coord s)"
  "seat (site_coord (snd (advanceLifecycleJournal cfg stage e s))) = seat (site_coord s)"
  "seat (site_coord (snd (clearLifecycleJournal re s))) = seat (site_coord s)"
  by (simp add: writeLinkedResetLifecycleJournal_def split: sum.split)
    (simp add: advanceLifecycleJournal_def seat_marked split: sum.split option.split,
     simp add: clearLifecycleJournal_def Let_def)

lemma path_put [simp]: "journal_path (put_journal fs s) = journal_path s"
  by (simp add: put_journal_def on_coord_def map_coord_def)

lemma path_marked [simp]:
  "journal_path (snd (bind_op (writeLifecycleJournalRecord j e)
     (\<lambda>_ s'. (Inr (), on_coord markLifecycleJournalPending s')) s)) = journal_path s"
proof -
  have "journal_path (snd (writeLifecycleJournalRecord j e s)) = journal_path s"
    by (simp add: writeLifecycleJournalRecord_def Let_def split: sum.split)
  then show ?thesis
    by (cases "writeLifecycleJournalRecord j e s"; cases "fst (writeLifecycleJournalRecord j e s)") (auto simp: bind_op_def)
qed

lemma path_new [simp]:
  "journal_path (snd (writeLifecycleJournalWithResetTarget operation target rt opid k web e s)) = journal_path s"
  by (simp add: writeLifecycleJournalWithResetTarget_def split: sum.split)

lemma path_journal [simp]:
  "journal_path (snd (writeLinkedResetLifecycleJournal target rt' opid k e s)) = journal_path s"
  "journal_path (snd (advanceLifecycleJournal cfg stage e s)) = journal_path s"
  "journal_path (snd (clearLifecycleJournal re s)) = journal_path s"
  by (simp add: writeLinkedResetLifecycleJournal_def split: sum.split)
    (simp add: advanceLifecycleJournal_def split: sum.split option.split,
     simp add: clearLifecycleJournal_def Let_def)

lemma quiet_site:
  assumes "\<And>c s. seat (site_coord (snd (f c s))) = seat (site_coord s) \<and> journal_path (snd (f c s)) = journal_path s"
  shows "quiet cfg (site_op f)"
proof -
  have "quiet_step cfg (tick r) ((tick r)\<lparr>rn_site := snd (f (next_call r) (rn_site r))\<rparr>)" for r
    using assms[of "next_call r" "rn_site r"] by (auto simp: quiet_step_def tick_def intro: exI[of _ 0])
  then show ?thesis using quiet_trans[OF quiet_tick]
    by (simp add: quiet_def site_op_def act_def split_beta)
qed

lemma quiet_journal [quiet_rules]: "quiet cfg (advance cfg' stage)" "quiet cfg (new_journal operation target opid k)"
  "quiet cfg (new_reset_journal target rt opid k)" "quiet cfg clear_journal"
  unfolding advance_def new_journal_def new_reset_journal_def clear_journal_def
  by (rule quiet_site, simp add: writeLinkedLifecycleJournal_def writeLifecycleJournal_def writeResetLifecycleJournal_def)+

lemma sits_down [sit_rules]: "sits (downServerStack cfg project envFile)"
proof -
  have "sit_step r t" if "downServerStack cfg project envFile r = (x, t)" for r x t
    using down_own_stack[OF that] by (auto simp: sit_step_def)
  then show ?thesis unfolding sits_def by (metis prod.collapse)
qed

lemma lease_done_held: "held l c \<Longrightarrow> co_active (lease_done l c) = None \<and> co_preparing (lease_done l c) = None"
  by (auto simp: held_def lease_done_def Let_def)

lemma seat_settle [simp]: "seat (site_coord (snd (settleSucceededLifecycleJournal cfg re s))) = seat (site_coord s)"
  by (simp add: settleSucceededLifecycleJournal_def split: sum.split)

lemma seat_clear [simp]: "seat (wd_coord (snd (site_clear cfg re s w))) = seat (wd_coord w)"
  using seat_settle[of cfg re "s\<lparr>si_world := w\<rparr>"] by (simp add: site_clear_def split_beta)

lemma job_end_coord:
  assumes "\<And>w. seat (wd_coord (snd (clear w))) = seat (wd_coord w)"
  obtains c where "seat c = seat (wd_coord w)"
    and "wd_coord (durable_job_end clear l jid opid k failed e now w) = lease_done l c"
proof -
  obtain err w1 where t: "transitionDurableLifecycleOperation opid
      (we_transition (work_outcome k failed (lease_cancelled l w) (journalOnDisk (wd_coord w))))
      (we_http (work_outcome k failed (lease_cancelled l w) (journalOnDisk (wd_coord w))))
      (we_message (work_outcome k failed (lease_cancelled l w) (journalOnDisk (wd_coord w)))) e w = (err, w1)" by fastforce
  have w1: "wd_coord w1 = wd_coord w" using transition_coord t by (metis snd_conv)
  obtain b w2 where c: "clear w1 = (b, w2)" by fastforce
  have w2: "seat (wd_coord w2) = seat (wd_coord w1)" using assms[of w1] c by simp
  show ?thesis
    by (rule that) (auto simp: durable_job_end_def Let_def t c w1 w2 with_jobs_def map_coord_def)
qed

lemma end_work_idle:
  assumes "clean cfg D n r" and "held l (site_coord (rn_site r))"
  shows "idle cfg D n (end_work cfg l jid opid k x r)"
proof -
  let ?t = "end_work cfg l jid opid k x r" and ?c = "next_call r"
  obtain c where c: "seat c = seat (site_coord (rn_site r))" and t: "site_coord (rn_site ?t) = lease_done l c"
  proof (rule job_end_coord[OF seat_clear])
    fix c
    assume "seat c = seat (site_coord (rn_site r))" and "wd_coord (durable_job_end (site_clear cfg (ca_remove ?c) (rn_site r))
      l jid opid k (\<not> is_ok x) (ca_store ?c) (rn_now r) (si_world (rn_site r))) = lease_done l c"
    then show thesis by (intro that) (simp_all add: end_work_def Let_def durable_job_end_site_def split_beta)
  qed
  have "held l c" using c assms(2) by (simp add: seat_def held_def)
  moreover have "rn_log ?t = rn_log r" by (simp add: end_work_def Let_def tick_def)
  ultimately show ?thesis using assms(1) lease_done_held by (auto simp: idle_def clean_def t)
qed

lemma run_worker_triple:
  assumes "sits work" and "\<And>r x t. holding cfg D n l r \<Longrightarrow> work r = (x, t) \<Longrightarrow> clean cfg D n t"
  shows "triple (holding cfg D n l) (run_worker cfg l jid opid k work a) (\<lambda>_. idle cfg D n) (left cfg D n p a')"
proof (rule tripleI)
  fix r x t
  assume h: "holding cfg D n l r" and w: "run_worker cfg l jid opid k work a r = (x, t)"
  obtain y r1 where y: "work r = (y, r1)" by fastforce
  have "held l (site_coord (rn_site r1))" using sitsD[OF assms(1) y] h by (simp add: holding_def held_def seat_def sit_step_def)
  from end_work_idle[OF assms(2)[OF h y] this]
  show "case x of Inl e \<Rightarrow> left cfg D n p a' e t | Inr v \<Rightarrow> idle cfg D n t"
    using w y by (auto simp: run_worker_def)
qed

lemma stale_released_triple:
  assumes "triple (holding cfg D n l) m (\<lambda>_. holding cfg D n l) (rejected (holding cfg D n l))"
  shows "triple (holding cfg D n l) (stale_released l jid m) (\<lambda>_. holding cfg D n l) (left cfg D n p a)"
proof (rule tripleI)
  fix r x t
  assume h: "holding cfg D n l r" and s: "stale_released l jid m r = (x, t)"
  obtain y r1 where y: "m r = (y, r1)" by fastforce
  note k = tripleD[OF assms h y]
  show "case x of Inl e \<Rightarrow> left cfg D n p a e t | Inr v \<Rightarrow> holding cfg D n l t"
  proof (cases "\<exists>rj. y = Inl (Rejected rj)")
    case True
    then obtain rj where rj: "y = Inl (Rejected rj)" "holding cfg D n l r1" using k by (auto simp: rejected_def)
    have "holding cfg D n l (on_jobs f (on_jobs g r1))" for f g
      by (rule stableD[OF stable_holding quiet_trans[OF quiet_jobs quiet_jobs] rj(2)])
    then show ?thesis using s y rj by (auto simp: stale_released_def left_def)
  next
    case False
    then show ?thesis using s y k by (cases y) (auto simp: stale_released_def left_def rejected_def split: halt.splits)
  qed
qed

section \<open>The settlement of an early return\<close>

definition ended ::
    "config \<Rightarrow> (string list \<Rightarrow> site \<Rightarrow> bool) \<Rightarrow> nat \<Rightarrow> lease_id option \<Rightarrow> prep_id option \<Rightarrow> run \<Rightarrow> bool" where
  "ended cfg D n a q r \<longleftrightarrow> clean cfg D n r \<and> co_active (site_coord (rn_site r)) \<in> {a, None} \<and>
     co_preparing (site_coord (rn_site r)) \<in> {q, None}"

lemma settle_rejected_coord: "wd_coord (snd (settleRejectedDurableLifecycleOperation opid http mid l e w)) = wd_coord w"
  by (auto simp: settleRejectedDurableLifecycleOperation_def transition_coord split: option.split)

lemma settle_ends:
  assumes "left cfg D n p a (Rejected rj) r"
  shows "ended cfg D n a q (snd (settle_rejection opid p rj r))"
proof -
  let ?t = "snd (settle_rejection opid p rj r)" and ?c = "site_coord (rn_site r)"
  obtain err w where w: "(if rj_reserved rj
      then settleRejectedDurableLifecycleOperation opid (snd (rj_answer rj)) (rj_message rj) (rj_lease rj)
             (ca_store (next_call r)) (si_world (rn_site r)) else (None, si_world (rn_site r))) = (err, w)" by fastforce
  have wc: "wd_coord w = ?c" using w settle_rejected_coord by (metis snd_conv)
  obtain c b where c: "seat c = seat ?c" and
    t: "site_coord (rn_site ?t) = (case rj_lease rj of None \<Rightarrow> (\<lambda>c. c) | Some l \<Rightarrow> lease_done l) (complete p b c)"
    by (rule that[of "if rj_settled rj \<and> err = None then ?c else markPreparationSettlementPending ?c" "rj_settled rj \<and> err = None"])
      (simp_all add: settle_rejection_def Let_def w on_coord_def map_coord_def wc split: option.split)
  have log: "rn_log ?t = rn_log r" by (simp add: settle_rejection_def Let_def split_beta tick_def)
  show ?thesis
  proof (cases "rj_lease rj")
    case None
    then have k: "prepared_run cfg D n p a r" using assms by (simp add: left_def)
    then have "co_active (complete p b c) = a" "co_preparing (complete p b c) = None"
      using c by (auto simp: prepared_run_def Let_def complete_def seat_def)
    then show ?thesis using k log None by (simp add: ended_def t clean_def prepared_run_def)
  next
    case (Some l)
    then have k: "holding cfg D n l r" using assms by (simp add: left_def)
    have "held l (complete p b c)"
      using k c by (auto simp: holding_def held_def complete_def seat_def Let_def split: option.split)
    from lease_done_held[OF this] show ?thesis using k log Some by (simp add: ended_def t clean_def holding_def)
  qed
qed

lemma deferred_ends:
  assumes "triple (prepared_run cfg D n p a) body (\<lambda>_. idle cfg D n) (left cfg D n p a)"
    and "prepared_run cfg D n p a r" and "deferred opid p body r = (Return x, t)"
  shows "ended cfg D n a q t"
proof -
  obtain y r1 where y: "body r = (y, r1)" by fastforce
  note k = tripleD[OF assms(1,2) y]
  show ?thesis
  proof (cases y)
    case (Inr v)
    then show ?thesis using assms(3) y k by (auto simp: deferred_def ended_def idle_def)
  next
    case (Inl h)
    then obtain rj where rj: "h = Rejected rj" using assms(3) y by (cases h) (auto simp: deferred_def)
    have "t = snd (settle_rejection opid p rj r1)"
      using assms(3) y Inl rj by (auto simp: deferred_def split: prod.splits)
    then show ?thesis using settle_ends k Inl rj by simp
  qed
qed

section \<open>The preparation\<close>

lemma prepare_prepared:
  assumes "prepare marker journal i token c = (Return x, c')"
  shows "co_journalPath c' = co_journalPath c \<and> co_active c' = co_active c \<and>
    (case x of Inl e \<Rightarrow> co_preparing c' = co_preparing c
     | Inr p \<Rightarrow> co_preparing c' = Some p \<and> (\<exists>pr. co_preps c' p = Some pr \<and> \<not> pr_done pr))"
  using assms by (auto simp: prepare_def prepare_try_def new_prep_def observe_files_def Let_def split: if_splits)

lemma complete_gone:
  assumes "co_preparing c = Some p" and "\<exists>pr. co_preps c p = Some pr \<and> \<not> pr_done pr"
  shows "co_preparing (complete p b c) = None" and "co_active (complete p b c) = co_active c"
    and "co_journalPath (complete p b c) = co_journalPath c"
  using assms by (auto simp: complete_def Let_def)

lemma prepared_handed:
  assumes "prepared_lifecycle p k opid sid fp e1 e2 w = ((q, rv), w')"
    and "co_preparing (wd_coord w) = Some p" and "\<exists>pr. co_preps (wd_coord w) p = Some pr \<and> \<not> pr_done pr"
  shows "co_active (wd_coord w') = co_active (wd_coord w) \<and> co_journalPath (wd_coord w') = co_journalPath (wd_coord w) \<and>
    (if q = None then co_preparing (wd_coord w') = None
     else q = Some p \<and> wd_coord w' = wd_coord w \<and> rv = nothing_reserved)"
proof -
  obtain rv1 w1 where r: "replayDurableLifecycleOperation opid k sid fp e1 w = (rv1, w1)" by fastforce
  have c1: "wd_coord w1 = wd_coord w" using reserve_keeps_coord(2)[of opid k sid fp e1 w] r by simp
  obtain rec err w2 where t: "reserve_tombstone (cancelled_record opid k sid fp) e2 w1 = (rec, err, w2)"
    by (cases "reserve_tombstone (cancelled_record opid k sid fp) e2 w1") auto
  have c2: "wd_coord w2 = wd_coord w"
    using reserve_keeps_coord(3)[of "cancelled_record opid k sid fp" e2 w1] t c1 by simp
  show ?thesis
    using assms(1) r t c1 c2 complete_gone[OF assms(2,3)]
    by (auto simp: prepared_lifecycle_def map_coord_def Let_def split: if_splits option.splits)
qed

lemma prepare_phase_left:
  assumes "prepare_phase k opid sid fp token r = (Return (q, rv), t)"
    and "clean cfg D n r" and "apart r"
  shows "case q of
      None \<Rightarrow> ended cfg D n (co_active (site_coord (rn_site r))) (co_preparing (site_coord (rn_site r))) t
    | Some p \<Rightarrow> prepared_run cfg D n p (co_active (site_coord (rn_site r))) t \<and> rv = nothing_reserved"
proof -
  let ?c = "site_coord (rn_site r)" and ?e = "ca_store (rn_calls r 0)"
  obtain w where p: "prepareLifecycleOperation (markerOnDisk ?c) (journalOnDisk ?c) k opid sid fp token ?e
      (ca_store (rn_calls r 1)) (ca_store (rn_calls r 2)) (si_world (rn_site r)) = (Return (q, rv), w)"
    and t: "t = (tick (tick (tick r)))\<lparr>rn_site := (rn_site r)\<lparr>si_world := w\<rparr>\<rparr>"
    using assms(1) by (auto simp: prepare_phase_def Let_def split: prod.splits)
  have log: "clean cfg D n t" using assms(2) by (simp add: t clean_def tick_def)
  have apart: "apart t" if "co_journalPath (wd_coord w) = co_journalPath ?c"
    using assms(3) that by (simp add: t apart_def tick_def)
  obtain rv1 w1 where r: "replayDurableLifecycleOperation opid k sid fp ?e (si_world (rn_site r)) = (rv1, w1)" by fastforce
  have c1: "wd_coord w1 = ?c" using reserve_keeps_coord(2)[of opid k sid fp ?e "si_world (rn_site r)"] r by simp
  show ?thesis
  proof (cases "answered rv1")
    case True
    then show ?thesis using p r c1 log by (auto simp: prepareLifecycleOperation_def ended_def t)
  next
    case False
    obtain o' c where c: "prepare (markerOnDisk ?c) (journalOnDisk ?c)
      \<lparr>pi_kind = k, pi_operationID = opid, pi_subjectID = sid, pi_fingerprint = fp\<rparr> token ?c = (o', c)" by fastforce
    then obtain x where x: "o' = Return x" using p r c1 False by (cases o') (auto simp: prepareLifecycleOperation_def)
    note k = prepare_prepared[OF c[unfolded x]]
    show ?thesis
    proof (cases x)
      case (Inl e)
      then show ?thesis using p r c c1 x False k log by (auto simp: prepareLifecycleOperation_def ended_def t)
    next
      case (Inr p')
      then have "prepared_lifecycle p' k opid sid fp (ca_store (rn_calls r 1)) (ca_store (rn_calls r 2)) (w1\<lparr>wd_coord := c\<rparr>)
          = ((q, rv), w)"
        using p r c c1 x False by (auto simp: prepareLifecycleOperation_def split: prod.splits)
      from prepared_handed[OF this] k Inr show ?thesis
        using log apart by (auto simp: ended_def prepared_run_def Let_def t split: option.splits)
    qed
  qed
qed

lemma with_preparation_ends:
  assumes "\<And>p a. triple (prepared_run cfg D n p a) (body p) (\<lambda>_. idle cfg D n) (left cfg D n p a)"
    and "with_preparation k opid sid fp token failed again body r = (Return x, t)" and "clean cfg D n r" and "apart r"
  shows "ended cfg D n (co_active (site_coord (rn_site r))) (co_preparing (site_coord (rn_site r))) t"
proof -
  obtain y r1 where y: "prepare_phase k opid sid fp token r = (y, r1)" by fastforce
  then obtain q rv where q: "y = Return (q, rv)" using assms(2) by (cases y) (auto simp: with_preparation_def)
  note k = prepare_phase_left[OF y[unfolded q] assms(3,4)]
  show ?thesis
  proof (cases q)
    case None
    then show ?thesis using assms(2) y q k by (auto simp: with_preparation_def split: option.splits if_splits)
  next
    case (Some p)
    then have "deferred opid p (body p) r1 = (Return x, t)"
      using assms(2) y q k by (auto simp: with_preparation_def nothing_reserved_def)
    from deferred_ends[OF assms(1) _ this] k Some show ?thesis by simp
  qed
qed

end
