(* ===== verification/ServerOpsLaws.thy ===== *)
theory ServerOpsLaws
  imports ServerOps HandlerRuns
begin

text \<open>
  When the handlers destroy volumes, and how they leave the coordinator. Each worker is
  followed under the journal it has written; each handler is a chain of phases that keep the
  preparation, then the lease, and an end that gives both back.
\<close>

section \<open>The journal of a worker\<close>

definition worker_document :: "string \<Rightarrow> serverTarget \<Rightarrow> resetLifecycleTarget option \<Rightarrow> string \<Rightarrow> lifecycleKind \<Rightarrow> lifecycleJournal" where
  "worker_document operation target rt opid k = \<lparr>lj_Version = 1, lj_Operation = operation, lj_OperationID = opid,
     lj_OperationKind = (if opid = [] then KindNone else k), lj_Stage = ''prepared'', lj_ServerID = tg_ID target,
     lj_Project = tg_Project target, lj_ResetTarget = rt, lj_ResetExecution = None, lj_WebGameTarget = None\<rparr>"

definition leased :: "coord \<Rightarrow> bool" where
  "leased c \<longleftrightarrow> co_active c \<noteq> None"

lemma steady_leased: "steady leased"
  by (simp add: steady_def leased_def markLifecycleJournalPending_def Let_def)

definition ready :: "run \<Rightarrow> bool" where
  "ready r \<longleftrightarrow> apart r \<and> leased (site_coord (rn_site r))"

lemma holding_ready: "holding cfg D n l r \<Longrightarrow> ready r"
  by (simp add: holding_def held_def ready_def leased_def)

lemma ready_calm: "calm_step cfg r t \<Longrightarrow> ready r \<Longrightarrow> ready t"
  by (auto simp: calm_step_def ready_def apart_def)

lemma ready_seq:
  assumes "calm cfg m" and "\<And>v. guarded (downs cfg K j target) ready (k v) J"
  shows "guarded (downs cfg K j target) ready (bind_op m k) J"
  by (rule guarded_bind[OF guarded_calm[OF assms(1)] assms(2)]) (auto intro: calm_logged ready_calm)

lemma calm_not_cancelled [calm_rules]: "calm cfg not_cancelled"
  unfolding not_cancelled_def by (rule calm_observe)

text \<open>The first write of a journal puts the worker under its own journal.\<close>

lemma journal_write_fenced:
  assumes "lj_Version d = 1" and "lj_Stage d = ''prepared''" and "lj_ResetExecution d = None"
    and "\<And>e s t u. write_new_journal d e s = (Inr u, t) \<Longrightarrow> journal_normal cfg d"
  shows "guarded P ready (site_op (\<lambda>c. write_new_journal d (ca_write c))) (\<lambda>_. fenced cfg leased d any_stage)"
proof (rule guardedI)
  fix r x t
  assume i: "ready r" and m: "site_op (\<lambda>c. write_new_journal d (ca_write c)) r = (x, t)"
  let ?e = "ca_write (next_call r)" and ?s = "rn_site r"
  obtain s1 where s1: "write_new_journal d ?e ?s = (x, s1)" and t: "t = (tick r)\<lparr>rn_site := s1\<rparr>"
    using m by (auto simp: site_op_def act_def split: prod.splits)
  have "fenced cfg leased d any_stage t" if v: "x = Inr v" for v
  proof -
    note w = s1[unfolded v]
    have n: "new_document cfg d ?e ?s"
      using assms(1-3) assms(4)[OF w] i by (auto simp: new_document_def ready_def apart_def next_call_def)
    note k = new_document_written[OF n w]
    have "seat (site_coord s1) = seat (site_coord ?s)"
      using seat_new[of "lj_Operation d"] w unfolding write_new_journal_def by (metis snd_conv)
    then have "leased (site_coord s1)" using i by (simp add: ready_def leased_def seat_def)
    moreover have "journal_normal cfg d" using n by (simp add: new_document_def)
    ultimately show ?thesis
      using k i by (auto simp: fenced_def Let_def t journal_good_def about_def ready_def apart_def tick_def readLifecycleJournal_def)
  qed
  moreover have "logged P r t" by (auto simp: t logged_def tick_def)
  ultimately show "logged P r t \<and> (\<forall>v. x = Inr v \<longrightarrow> fenced cfg leased d any_stage t)" by blast
qed

lemma worker_document_normal:
  assumes "write_new_journal (worker_document operation target rt opid k) e s = (Inr u, t)"
    and "target = target_of cfg sid" and "canonical_id sid" and "opt_all (\<lambda>t. reset_target_ok t \<and> target_utf8 t) rt"
  shows "journal_normal cfg (worker_document operation target rt opid k)"
proof -
  let ?k = "if opid = [] then KindNone else k"
  have checks: "isLifecycleJournalOperation operation" "operation \<noteq> ''reset'' \<longrightarrow> rt = None"
    "validateJournalWebGameTarget operation None = Inr ()"
    "validateLifecycleJournalOperationLink operation opid ?k = Inr ()"
    using assms(1) by (auto simp: write_new_journal_def worker_document_def writeLifecycleJournalWithResetTarget_def
        bind_r_ok split: if_splits sum.splits)
  from new_journal_normal[OF checks(1) assms(3,4) checks(2-4)]
  show ?thesis by (simp add: worker_document_def assms(2) target_of_def)
qed

lemma document_consts: "lj_Version (worker_document operation target rt opid k) = 1"
  "lj_Stage (worker_document operation target rt opid k) = ''prepared''"
  "lj_ResetExecution (worker_document operation target rt opid k) = None"
  "lj_Operation (worker_document operation target rt opid k) = operation"
  "lj_ResetTarget (worker_document operation target rt opid k) = rt"
  by (simp_all add: worker_document_def)

lemma new_journal_fenced:
  assumes "target = target_of cfg sid" and "canonical_id sid"
  shows "guarded P ready (new_journal operation target opid k)
    (\<lambda>_. fenced cfg leased (worker_document operation target None opid k) any_stage)"
proof -
  have "new_journal operation target opid k =
      site_op (\<lambda>c. write_new_journal (worker_document operation target None opid k) (ca_write c))"
    by (simp add: new_journal_def writeLinkedLifecycleJournal_def writeLifecycleJournal_def write_as_document worker_document_def)
  moreover have "guarded P ready (site_op (\<lambda>c. write_new_journal (worker_document operation target None opid k) (ca_write c)))
      (\<lambda>_. fenced cfg leased (worker_document operation target None opid k) any_stage)"
    by (rule journal_write_fenced[OF document_consts(1-3)], erule worker_document_normal[OF _ assms]) simp
  ultimately show ?thesis by simp
qed

lemma new_reset_journal_fenced:
  assumes "target = target_of cfg sid" and "canonical_id sid" and "reset_target_ok rt" and "target_utf8 rt"
  shows "guarded P ready (new_reset_journal target rt opid k)
    (\<lambda>_. fenced cfg leased (worker_document ''reset'' target (Some rt) opid k) any_stage)"
proof -
  have "new_reset_journal target rt opid k =
      site_op (\<lambda>c. write_new_journal (worker_document ''reset'' target (Some rt) opid k) (ca_write c))"
    using normal_target_fixed[OF assms(3)]
    by (intro ext) (simp add: new_reset_journal_def site_op_def act_def writeLinkedResetLifecycleJournal_def
        writeResetLifecycleJournal_def write_as_document worker_document_def)
  moreover have "guarded P ready (site_op (\<lambda>c. write_new_journal (worker_document ''reset'' target (Some rt) opid k) (ca_write c)))
      (\<lambda>_. fenced cfg leased (worker_document ''reset'' target (Some rt) opid k) any_stage)"
    by (rule journal_write_fenced[OF document_consts(1-3)], erule worker_document_normal[OF _ assms(1,2)]) (simp add: assms(3,4))
  ultimately show ?thesis by simp
qed

section \<open>The workers\<close>

abbreviation under_journal :: "config \<Rightarrow> lifecycleJournal \<Rightarrow> serverTarget \<Rightarrow> string list \<Rightarrow> site \<Rightarrow> bool" where
  "under_journal cfg d target args s \<equiv> is_down cfg args \<longrightarrow> down_allowed cfg leased d target args s"

lemma delete_guarded:
  fixes opid :: string
  assumes "target = target_of cfg sid" and "canonical_id sid"
  defines "d \<equiv> worker_document ''delete'' target None opid KindClose"
  shows "guarded (under_journal cfg d target) ready (delete_work cfg target opid) (\<lambda>_ _. True)"
proof -
  let ?I = "fenced cfg leased d any_stage" and ?P = "under_journal cfg d target"
  have down: "guarded ?P ?I (downServerStack cfg (tg_Project target) (tg_EnvFile target)) (\<lambda>_. ?I)"
    by (rule fenced_down[OF assms(1,2)]) (simp_all add: d_def document_consts)
  have adv: "guarded ?P ?I (advance cfg lifecycleJournalStageDown) (\<lambda>_. ?I)" by (rule any_advance[OF steady_leased])
  have "guarded ?P ready (delete_work cfg target opid) (\<lambda>_. ?I)"
    unfolding delete_work_def
    by (rule guarded_bind[OF new_journal_fenced[OF assms(1,2), where operation = "''delete''" and opid = opid and k = KindClose,
          folded d_def]], intro guarded_seq adv down; rule fenced_calm; intro calm_rules)
  then show ?thesis by (rule guarded_weaken) auto
qed

text \<open>A failure behind the point of no return is followed by calm steps.\<close>

lemma calm_irreversibly [calm_rules]: "calm cfg m \<Longrightarrow> calm cfg (irreversibly cfg target m)"
proof (rule calmI)
  fix r
  assume m: "calm cfg m"
  obtain x t where x: "m r = (x, t)" by fastforce
  obtain y u where y: "set_repair cfg (tg_ID target) True t = (y, u)" by fastforce
  have "calm_step cfg r t" "calm_step cfg r u" using calmD[OF m x] calm_set_repair[OF y] calm_trans by blast+
  then show "calm_step cfg r (snd (irreversibly cfg target m r))"
    using x y by (cases x; cases y) (simp_all add: irreversibly_def)
qed

lemma irreversibly_guarded:
  assumes "guarded (downs cfg K j target) I m J"
  shows "guarded (downs cfg K j target) I (irreversibly cfg target' m) J"
proof (rule guarded_weaken[OF guarded_then_calm[OF assms calm_logged]])
  fix r and e :: err and t
  assume m: "m r = (Inl e, t)"
  obtain y u where y: "set_repair cfg (tg_ID target') True t = (y, u)" by fastforce
  then show "\<exists>e' t'. irreversibly cfg target' m r = (Inl e', t') \<and> calm_step cfg t t'"
    using m calm_set_repair[OF y] by (cases y) (auto simp: irreversibly_def)
qed (auto simp: irreversibly_def)

lemma calm_up_twice [calm_rules]: "calm cfg (up_twice cfg project envFile)"
proof (rule calmI)
  fix r
  obtain x t where x: "upServerStack cfg project envFile r = (x, t)" by fastforce
  obtain y u where y: "upServerStack cfg project envFile t = (y, u)" by fastforce
  have "calm_step cfg r t" "calm_step cfg r u" using calmD[OF calm_up x] calmD[OF calm_up y] calm_trans by blast+
  then show "calm_step cfg r (snd (up_twice cfg project envFile r))" using x y by (cases x) (simp_all add: up_twice_def)
qed

lemma reset_guarded:
  fixes opid :: string
  assumes "target = target_of cfg sid" and "canonical_id sid" and "reset_target_ok rt" and "target_utf8 rt"
    and "\<not> resetTargetRequiresD101Execution rt"
  defines "d \<equiv> worker_document ''reset'' target (Some rt) opid KindReset"
  shows "guarded (under_journal cfg d target) ready (reset_work cfg target rt token opid) (\<lambda>_ _. True)"
proof -
  let ?I = "fenced cfg leased d any_stage" and ?D = "fenced cfg leased d ((=) lifecycleJournalStageDown)"
  let ?P = "under_journal cfg d target"
  have written: "guarded ?P ready (new_reset_journal target rt opid KindReset) (\<lambda>_. ?I)"
    unfolding d_def by (rule new_reset_journal_fenced[OF assms(1-4)])
  have adv: "guarded ?P ?I (advance cfg stage) (\<lambda>_. ?I)" for stage by (rule any_advance[OF steady_leased])
  have at_down: "guarded ?P ?I (advance cfg lifecycleJournalStageDown) (\<lambda>_. ?D)" by (rule fenced_advance[OF steady_leased])
  have pull: "calm cfg (if token \<noteq> [] then pullResetCandidate cfg target rt else look (\<lambda>_. Inr ()))" by (intro calm_rules)
  have prepared: "guarded ?P ready (reset_prepare cfg target rt token opid) (\<lambda>_. ?D)"
    unfolding reset_prepare_def
    by (rule ready_seq[OF calm_not_cancelled], rule ready_seq[OF calm_registry(5)], rule ready_seq[OF pull],
        rule guarded_bind[OF written])
      (intro guarded_seq[OF fenced_calm] guarded_seq[OF adv] guarded_bind[OF at_down] fenced_calm calm_rules)
  have down: "guarded ?P ?D (downServerStack cfg project (tg_EnvFile target)) (\<lambda>_. ?D)" for project
    by (rule fenced_down[OF assms(1,2)]) (simp_all add: d_def document_consts assms(5))
  have replaced: "guarded ?P ?D (reset_replace cfg target entry) (\<lambda>_. ?D)" for entry
    unfolding reset_replace_def Let_def
    by (intro irreversibly_guarded guarded_bind[OF down]; intro fenced_calm calm_rules)
  have "guarded ?P ready (reset_work cfg target rt token opid) (\<lambda>_. ?D)"
    unfolding reset_work_def by (rule guarded_bind[OF prepared replaced])
  then show ?thesis by (rule guarded_weaken) auto
qed

lemma sits_irreversibly [sit_rules]: "sits m \<Longrightarrow> sits (irreversibly cfg target m)"
proof -
  assume m: "sits m"
  have "sit_step r (snd (irreversibly cfg target m r))" for r
  proof -
    obtain x t where x: "m r = (x, t)" by fastforce
    obtain y u where y: "set_repair cfg (tg_ID target) True t = (y, u)" by fastforce
    have "sit_step r t" "sit_step r u"
      using sitsD[OF m x] sit_quiet[OF calm_quiet[OF calm_set_repair[OF y]]] sit_trans by blast+
    then show ?thesis using x y by (cases x; cases y) (simp_all add: irreversibly_def)
  qed
  then show ?thesis by (simp add: sits_def)
qed

lemma workers_sit: "sits (delete_work cfg target opid)" "sits (reset_work cfg target rt token opid)"
proof -
  note calm = sits_quiet[OF quiet_calm[where cfg = cfg]] and journal = sits_quiet[OF quiet_journal(1)]
    sits_quiet[OF quiet_journal(2)] sits_quiet[OF quiet_journal(3)]
  show "sits (delete_work cfg target opid)"
    unfolding delete_work_def by (intro sits_bind sits_down journal; rule calm; intro calm_rules)
  have "sits (reset_prepare cfg target rt token opid)"
    unfolding reset_prepare_def by (intro sits_bind journal; rule calm; intro calm_rules)
  moreover have "sits (reset_replace cfg target entry)" for entry
    unfolding reset_replace_def Let_def by (intro sits_irreversibly sits_bind sits_down; rule calm; intro calm_rules)
  ultimately show "sits (reset_work cfg target rt token opid)" unfolding reset_work_def by (rule sits_bind)
qed

section \<open>The phases of the handlers\<close>

lemma phase:
  assumes "triple (prepared_run cfg D n p a) m J (rejected (prepared_run cfg D n p a))"
  shows "triple (prepared_run cfg D n p a) m J (left cfg D n p a)"
  by (rule triple_weaken[OF assms]) (auto intro: rejected_left)

lemma triple_assume: "(b \<Longrightarrow> triple I m J E) \<Longrightarrow> triple (\<lambda>r. b \<and> I r) m J E"
  unfolding triple_def by blast

lemma required_triple:
  assumes "quiet_stable cfg I" and "refusing f"
  shows "triple I (fails_as f (look (\<lambda>_. require b msg))) (\<lambda>_ r. b \<and> I r) (rejected I)"
proof (rule tripleI)
  fix r x t
  assume i: "I r" and f: "fails_as f (look (\<lambda>_. require b msg)) r = (x, t)"
  show "case x of Inl e \<Rightarrow> rejected I e t | Inr v \<Rightarrow> b \<and> I t"
    using tripleD[OF fails_as_triple[OF assms calm_look] i f] f
    by (auto simp: fails_as_def look_def require_def split: if_splits)
qed

lemma known_server_triple [phase_rules]:
  assumes "quiet_stable cfg I" and "\<And>text' status. refusing (refuse text' status)"
  shows "triple I (known_server cfg target refuse) (\<lambda>_. I) (rejected I)"
  unfolding known_server_def
  by (intro triple_bind[OF fails_as_triple[OF assms(1,2)]] fails_as_triple[OF assms(1,2)]; intro calm_rules)

lemma guarded_clean:
  assumes "guarded (under_journal cfg d target) ready m J" and "\<And>args s. down_allowed cfg leased d target args s \<Longrightarrow> D args s"
    and "holding cfg D n l r" and "m r = (x, t)"
  shows "clean cfg D n t"
proof -
  obtain ext where ext: "rn_log t = rn_log r @ ext" "\<forall>(a, s) \<in> set ext. under_journal cfg d target a s"
    using guardedD(1)[OF assms(1) holding_ready[OF assms(3)] assms(4)] unfolding logged_def by blast
  have "clean cfg D n r" using assms(3) by (simp add: holding_def)
  from clean_ext[OF this ext(1)] show ?thesis using ext(2) assms(2) by blast
qed

lemma delete_body_triple:
  assumes "target = target_of cfg sid" and "canonical_id sid"
    and "\<And>args s. confirm = ''DELETE '' @ tg_ID target \<Longrightarrow>
      down_allowed cfg leased (worker_document ''delete'' target None opid KindClose) target args s \<Longrightarrow> D args s"
  shows "triple (prepared_run cfg D n p a) (delete_body cfg target fp confirm opid p) (\<lambda>_. idle cfg D n) (left cfg D n p a)"
proof -
  have work: "clean cfg D n t"
    if "confirm = ''DELETE '' @ tg_ID target" "holding cfg D n l r" "delete_work cfg target opid r = (x, t)" for l r x t
    by (rule guarded_clean[OF delete_guarded[OF assms(1,2)] assms(3)[OF that(1)] that(2,3)])
  have known: "triple I (known_server cfg target (\<lambda>text' status e. reject (a' text' status) b m)) (\<lambda>_. I) (rejected I)"
    if "quiet_stable cfg I" for I a' b m by (rule known_server_triple[OF that]) simp
  have started: "triple (holding cfg D n l) (\<lambda>r. run_worker cfg l jid opid KindClose (delete_work cfg target opid) (f r) r)
      (\<lambda>_. idle cfg D n) (left cfg D n p a)" if c: "confirm = ''DELETE '' @ tg_ID target" for l jid f
    by (rule tripleI) (rule tripleD[OF run_worker_triple[OF workers_sit(1) work[OF c]]])
  show ?thesis
    unfolding delete_body_def Let_def
    by (intro triple_bind[OF phase[OF reserve_durable_triple[OF stable_prepared]]]
          triple_bind[OF phase[OF required_triple[OF stable_prepared refusing_reject]]],
        rule triple_assume, intro triple_bind[OF phase[OF known[OF stable_prepared]]]
          triple_bind[OF phase[OF reserve_job_triple[OF stable_prepared]]] triple_bind[OF claim_worker_triple]
          triple_bind[OF stale_released_triple[OF known[OF stable_holding]]] triple_bind[OF start_worker_triple] started)
qed

lemma reset_body_triple:
  assumes "\<And>l r x t. holding cfg D n l r \<Longrightarrow> reset_work cfg target rt token opid r = (x, t) \<Longrightarrow> clean cfg D n t"
  shows "triple (prepared_run cfg D n p a) (reset_body cfg target entry rt fp token opid p) (\<lambda>_. idle cfg D n) (left cfg D n p a)"
  unfolding reset_body_def Let_def
  by (intro triple_bind[OF phase[OF reserve_durable_triple[OF stable_prepared]]] triple_bind[OF phase[OF reserve_job_triple[OF stable_prepared]]]
      triple_bind[OF claim_worker_triple] triple_bind[OF start_worker_triple] run_worker_triple[OF workers_sit(2) assms])

lemma reset_checked_triple:
  assumes "quiet_stable cfg I"
  shows "triple I (reset_checked cfg target req token) (\<lambda>_. I) (rejected I)"
proof -
  have known: "triple I (known_server cfg target (\<lambda>text' status e. reject (a' text' status) b m)) (\<lambda>_. I) (rejected I)"
    for a' b m by (rule known_server_triple[OF assms]) simp
  show ?thesis
    unfolding reset_checked_def Let_def
    by (intro triple_bind[OF fails_as_triple[OF assms refusing_reject]] triple_bind[OF known]
        fails_as_triple[OF assms refusing_reject]; intro calm_rules)
qed

section \<open>Creation\<close>

lemma calm_ports [calm_rules]: "calm cfg (ports_free cfg' n)" "calm cfg make_servers_dir" "calm cfg (upsert_entry cfg' e)"
  unfolding ports_free_def make_servers_dir_def upsert_entry_def by (intro calm_rules)+

lemma calm_absent [calm_rules]: "calm cfg (env_absent target)"
  unfolding env_absent_def by (intro calm_rules)

lemma quiet_new_env: "quiet cfg (write_new_env target lines)"
proof -
  have "quiet_step cfg r (snd (write_new_env target lines r))" for r
  proof -
    let ?w = "change_env (\<lambda>c fs. let w = writeEnvLinesAtomic (tg_EnvFile target) lines (ca_write2 c) fs in (w_err w, w_fs w))"
    obtain x t where x: "?w r = (x, t)" by fastforce
    obtain y u where y: "clear_journal t = (y, u)" by fastforce
    have "quiet_step cfg r t" by (rule calm_quiet[OF calmD[OF calm_change_env x]])
    moreover have "quiet_step cfg t u" by (rule quietD[OF quiet_journal(4) y])
    ultimately show ?thesis using quiet_trans x y by (cases x) (auto simp: write_new_env_def)
  qed
  then show ?thesis by (simp add: quiet_def)
qed

lemma quiet_setup: "quiet cfg (create_setup cfg n lines opid)"
  unfolding create_setup_def Let_def
  by (intro quiet_bind quiet_new_env quiet_journal; rule quiet_calm; intro calm_rules)

lemma quiet_start: "quiet cfg (create_start cfg n)"
proof -
  have "quiet_step cfg r (snd (create_start cfg n r))" for r
  proof -
    obtain x t where x: "upServerStack cfg (tg_Project (create_target cfg n)) (tg_EnvFile (create_target cfg n)) r = (x, t)" by fastforce
    obtain y u where y: "reloadSharedRegistry cfg t = (y, u)" by fastforce
    have "calm_step cfg r u" using calmD[OF calm_up x] calmD[OF calm_reload y] calm_trans by blast
    then show ?thesis using calm_quiet x y by (simp add: create_start_def Let_def)
  qed
  then show ?thesis by (simp add: quiet_def)
qed

lemma create_worker_triple:
  "triple (holding cfg D n l) (create_worker cfg q lines opid jid l) (\<lambda>_. idle cfg D n) (left cfg D n p a)"
proof (rule tripleI)
  fix r v t
  assume h: "holding cfg D n l r" and w: "create_worker cfg q lines opid jid l r = (v, t)"
  obtain x r1 where x: "create_setup cfg q lines opid r = (x, r1)" by fastforce
  obtain y r2 where y: "create_start cfg q r1 = (y, r2)" by fastforce
  have h1: "holding cfg D n l r1" by (rule stableD[OF stable_holding quietD[OF quiet_setup x] h])
  have h2: "holding cfg D n l r2" by (rule stableD[OF stable_holding quietD[OF quiet_start y] h1])
  show "case v of Inl e \<Rightarrow> left cfg D n p a e t | Inr b \<Rightarrow> idle cfg D n t"
    using w x y h1 h2 by (cases x) (auto simp: create_worker_def Let_def holding_def intro: end_work_idle)
qed

lemma discarding_triple:
  assumes "triple I m J (left cfg D n p a)"
  shows "triple I (discarding jid m) J (left cfg D n p a)"
proof (rule tripleI)
  fix r x t
  assume i: "I r" and d: "discarding jid m r = (x, t)"
  obtain y r1 where y: "m r = (y, r1)" by fastforce
  note k = tripleD[OF assms i y]
  have "left cfg D n p a h (on_jobs f r1)" if "left cfg D n p a h r1" for h f
    using that stableD[OF stable_prepared quiet_jobs] stableD[OF stable_holding quiet_jobs]
    by (auto simp: left_def split: halt.splits option.splits)
  then show "case x of Inl e \<Rightarrow> left cfg D n p a e t | Inr v \<Rightarrow> J v t"
    using d y k by (cases y) (auto simp: discarding_def split: halt.splits if_splits)
qed

lemma create_checked_triple:
  assumes "quiet_stable cfg I"
  shows "triple I (create_checked cfg n record) (\<lambda>_. I) (rejected I)"
  unfolding create_checked_def Let_def
  by (intro triple_bind[OF fails_as_triple[OF assms refusing_reject]] fails_as_triple[OF assms refusing_reject];
      intro calm_rules)

lemma create_body_triple:
  "triple (prepared_run cfg D n p a) (create_body cfg q fp opid p) (\<lambda>_. idle cfg D n) (left cfg D n p a)"
  unfolding create_body_def Let_def
  by (intro triple_bind[OF phase[OF reserve_durable_triple[OF stable_prepared]]] triple_bind[OF phase[OF reserve_job_triple[OF stable_prepared]]]
      discarding_triple triple_bind[OF phase[OF create_checked_triple[OF stable_prepared]]] triple_bind[OF claim_worker_triple]
      triple_bind[OF start_worker_triple] create_worker_triple)

section \<open>Properties of the handlers\<close>

lemma clean_start: "clean cfg D (length (rn_log r)) r"
  by (simp add: clean_def)

lemma ended_same: "clean cfg D n r \<Longrightarrow> ended cfg D n (co_active (site_coord (rn_site r))) (co_preparing (site_coord (rn_site r))) r"
  by (simp add: ended_def)

lemma delete_ends:
  assumes "deleteServer cfg rawID confirm opid r = (Return a, t)" and "apart r"
    and "\<And>target args s. serverTargetForID cfg rawID = Inr target \<Longrightarrow> confirm = ''DELETE '' @ tg_ID target \<Longrightarrow>
      down_allowed cfg leased (worker_document ''delete'' target None opid KindClose) target args s \<Longrightarrow> D args s"
  shows "ended cfg D (length (rn_log r)) (co_active (site_coord (rn_site r))) (co_preparing (site_coord (rn_site r))) t"
proof (cases "serverTargetForID cfg rawID")
  case (Inl e)
  then show ?thesis using assms(1) ended_same[OF clean_start] by (auto simp: deleteServer_def)
next
  case (Inr target)
  then obtain sid where "target = target_of cfg sid" "canonical_id sid" by (auto simp: target_for_id_iff)
  note body = delete_body_triple[OF this assms(3)[OF Inr]]
  show ?thesis using assms(1) Inr with_preparation_ends[OF body _ clean_start assms(2)] by (simp add: deleteServer_def Let_def)
qed

lemma create_ends:
  assumes "createServerWithMaintenanceLease cfg req token r = (Return a, t)" and "apart r"
  shows "ended cfg D (length (rn_log r)) (co_active (site_coord (rn_site r))) (co_preparing (site_coord (rn_site r))) t"
  using assms(1) ended_same[OF clean_start] with_preparation_ends[OF create_body_triple _ clean_start assms(2)]
  by (auto simp: createServerWithMaintenanceLease_def Let_def split: sum.splits)

lemma fails_as_ok: "fails_as f m r = (Inr v, t) \<longleftrightarrow> m r = (Inr v, t)"
  by (cases "m r"; cases "fst (m r)") (auto simp: fails_as_def)

lemma reset_checked_target:
  assumes "reset_checked cfg target req token r = (Inr (entry, rt), t)"
  shows "reset_target_ok rt" and "\<not> resetTargetRequiresD101Execution rt"
proof -
  obtain updates fs where t: "resetLifecycleTargetForEnvWithImageDigests (tg_EnvFile target) updates (rq_ImageDigests req) fs = Inr rt"
    and "\<not> resetTargetRequiresD101Execution rt"
    using assms by (auto simp: reset_checked_def Let_def bind_op_ok fails_as_ok check_env_def look_def require_ok)
  then show "\<not> resetTargetRequiresD101Execution rt" by simp
  have "gm_ok (List.map_filter (\<lambda>k. map_option (Pair k) (f k)) resetLifecycleUpdateKeys)" for f :: "string \<Rightarrow> string option"
  proof -
    have "map fst (List.map_filter (\<lambda>k. map_option (Pair k) (f k)) ks) = filter (\<lambda>k. f k \<noteq> None) ks" for ks
      by (induction ks) (auto simp: map_filter_simps split: option.split)
    moreover have "distinct resetLifecycleUpdateKeys" by code_simp
    ultimately show ?thesis by simp
  qed
  then show "reset_target_ok rt"
    using t by (auto simp: resetLifecycleTargetForEnvWithImageDigests_def bind_r_ok Let_def split: if_splits prod.splits
        intro: normalized_target_ok)
qed

lemma reset_ends:
  assumes "resetServerWithMaintenanceLease cfg rawID req token r = (Return a, t)" and "apart r"
    and "\<And>target entry rt r1 n l r2 x t2. serverTargetForID cfg rawID = Inr target \<Longrightarrow>
      reset_request_refused req token (tg_ID target) = None \<Longrightarrow>
      reset_checked cfg target req token r = (Inr (entry, rt), r1) \<Longrightarrow> holding cfg D n l r2 \<Longrightarrow>
      reset_work cfg target rt token (the_ok [] (normalizeLifecycleOperationID (rq_OperationID req))) r2 = (x, t2) \<Longrightarrow>
      clean cfg D n t2"
  shows "ended cfg D (length (rn_log r)) (co_active (site_coord (rn_site r))) (co_preparing (site_coord (rn_site r))) t"
proof (cases "\<exists>target. serverTargetForID cfg rawID = Inr target \<and> reset_request_refused req token (tg_ID target) = None")
  case False
  then have "t = r" using assms(1) by (auto simp: resetServerWithMaintenanceLease_def split: sum.splits option.splits)
  then show ?thesis using ended_same[OF clean_start] by simp
next
  case True
  then obtain target where tg: "serverTargetForID cfg rawID = Inr target" "reset_request_refused req token (tg_ID target) = None"
    by blast
  let ?I = "\<lambda>t. clean cfg D (length (rn_log r)) t \<and> apart t \<and> seat (site_coord (rn_site t)) = seat (site_coord (rn_site r))"
  have "quiet_stable cfg ?I" by (rule stable_seat) simp
  note checked = tripleD[OF reset_checked_triple[OF this], of r]
  obtain y r1 where y: "reset_checked cfg target req token r = (y, r1)" by fastforce
  have i: "?I r" using assms(2) clean_start by simp
  show ?thesis
  proof (cases y)
    case (Inl h)
    then have "rejected ?I h r1" using checked[OF i y] by simp
    then show ?thesis using assms(1) tg y Inl
      by (auto simp: resetServerWithMaintenanceLease_def rejected_def ended_def seat_def split: halt.splits)
  next
    case (Inr v)
    obtain entry rt where v: "v = (entry, rt)" by fastforce
    have i1: "?I r1" using checked[OF i y] Inr by simp
    note body = reset_body_triple[OF assms(3)[OF tg y[unfolded Inr v]]]
    note ends = with_preparation_ends[where r = r1 and n = "length (rn_log r)", OF body _ conjunct1[OF i1] conjunct1[OF conjunct2[OF i1]]]
    have "ended cfg D (length (rn_log r)) (co_active (site_coord (rn_site r1))) (co_preparing (site_coord (rn_site r1))) t"
      using assms(1) tg y Inr v by (intro ends) (auto simp: resetServerWithMaintenanceLease_def Let_def)
    then show ?thesis using i1 by (simp add: seat_def)
  qed
qed

text \<open>Every refusal of the checks of a reset is an answer that is not ok.\<close>

definition not_ok :: "halt \<Rightarrow> bool" where
  "not_ok h \<longleftrightarrow> (\<exists>rj. h = Rejected rj \<and> \<not> lr_ok (fst (rj_answer rj)))"

lemma not_ok_refusal: "not_ok (reject (refusal sid name project opid text' status) b mid)"
  by (simp add: not_ok_def reject_def refusal_def failed_response_def)

lemma fails_not_ok:
  assumes "\<And>e. not_ok (f e)"
  shows "triple (\<lambda>_. True) (fails_as f m) (\<lambda>_ _. True) (\<lambda>h _. not_ok h)"
proof (rule tripleI)
  fix r x t
  assume "fails_as f m r = (x, t)"
  then show "case x of Inl h \<Rightarrow> not_ok h | Inr v \<Rightarrow> True"
    using assms by (cases "m r"; cases "fst (m r)") (auto simp: fails_as_def)
qed

lemma known_not_ok:
  assumes "\<And>text' status e. not_ok (refuse text' status e)"
  shows "triple (\<lambda>_. True) (known_server cfg target refuse) (\<lambda>_ _. True) (\<lambda>h _. not_ok h)"
  unfolding known_server_def by (intro triple_bind[OF fails_not_ok] fails_not_ok assms)

lemma reset_checked_refusal:
  "triple (\<lambda>_. True) (reset_checked cfg target req token) (\<lambda>_ _. True) (\<lambda>h _. not_ok h)"
  unfolding reset_checked_def Let_def
  by (intro triple_bind[OF fails_not_ok] triple_bind[OF known_not_ok] fails_not_ok not_ok_refusal)

lemma reset_checked_known:
  assumes "reset_checked cfg target req token r = (Inr (entry, rt), t)"
  shows "re_ID entry \<noteq> []" and "re_DeployProject entry = tg_Project target"
  using assms by (auto simp: reset_checked_def known_server_def Let_def bind_op_ok fails_as_ok look_def require_ok)

lemma reset_passed:
  assumes "resetServerWithMaintenanceLease cfg rawID req token r = (Return (resp, status), t)" and "lr_ok resp"
  obtains target entry rt r1 where "serverTargetForID cfg rawID = Inr target"
    and "reset_request_refused req token (tg_ID target) = None"
    and "reset_checked cfg target req token r = (Inr (entry, rt), r1)"
proof -
  obtain target where tg: "serverTargetForID cfg rawID = Inr target"
    using assms by (auto simp: resetServerWithMaintenanceLease_def refusal_def failed_response_def split: sum.splits)
  have req: "reset_request_refused req token (tg_ID target) = None"
    using assms tg by (auto simp: resetServerWithMaintenanceLease_def refusal_def failed_response_def split: option.splits)
  obtain y r1 where y: "reset_checked cfg target req token r = (y, r1)" by fastforce
  have "\<exists>v. y = Inr v"
  proof (cases y)
    case (Inl h)
    then obtain rj where "h = Rejected rj" "\<not> lr_ok (fst (rj_answer rj))"
      using tripleD[OF reset_checked_refusal _ y] by (auto simp: not_ok_def)
    then show ?thesis using assms tg req y Inl by (auto simp: resetServerWithMaintenanceLease_def)
  qed simp
  then obtain entry rt where "y = Inr (entry, rt)" by auto
  then show thesis using that tg req y by blast
qed

text \<open>The docker log of a reset, under any condition that its own journal gives.\<close>

lemma reset_clean:
  fixes req :: resetServerRequest
  defines "opid \<equiv> the_ok [] (normalizeLifecycleOperationID (rq_OperationID req))"
  assumes "resetServerWithMaintenanceLease cfg rawID req token r = (Return a, t)" and "apart r"
    and "\<And>target entry rt r1. serverTargetForID cfg rawID = Inr target \<Longrightarrow>
      reset_checked cfg target req token r = (Inr (entry, rt), r1) \<Longrightarrow> target_utf8 rt"
    and "\<And>target entry rt r1 args s. serverTargetForID cfg rawID = Inr target \<Longrightarrow>
      reset_request_refused req token (tg_ID target) = None \<Longrightarrow>
      reset_checked cfg target req token r = (Inr (entry, rt), r1) \<Longrightarrow>
      down_allowed cfg leased (worker_document ''reset'' target (Some rt) opid KindReset) target args s \<Longrightarrow> D args s"
  shows "clean cfg D (length (rn_log r)) t"
proof -
  have "clean cfg D n t2" if tg: "serverTargetForID cfg rawID = Inr target" "reset_request_refused req token (tg_ID target) = None"
    and c: "reset_checked cfg target req token r = (Inr (entry, rt), r1)" and h: "holding cfg D n l r2"
    and w: "reset_work cfg target rt token opid r2 = (x, t2)" for target entry rt r1 n l r2 x t2
  proof -
    obtain sid where sid: "target = target_of cfg sid" "canonical_id sid" using tg(1) by (auto simp: target_for_id_iff)
    note g = reset_guarded[OF sid reset_checked_target(1)[OF c] assms(4)[OF tg(1) c] reset_checked_target(2)[OF c]]
    show ?thesis by (rule guarded_clean[OF g _ h w]) (rule assms(5)[OF tg c])
  qed
  from reset_ends[OF assms(2,3) this[unfolded opid_def]]
  have "ended cfg D (length (rn_log r)) (co_active (site_coord (rn_site r))) (co_preparing (site_coord (rn_site r))) t" .
  then show ?thesis by (simp add: ended_def)
qed

text \<open>
  C3. A deletion destroys volumes only under its journal. Whatever files, docker and the other
  requests say: if the deletion of a server asks docker to take a stack down with its volumes,
  then the request named the server and confirmed with its name; the stack is the one of this
  server, and its env file declares it; at that moment the journal of exactly this deletion,
  linked to the operation, is on disk behind the recovery fence, and a lease is held.
\<close>

theorem delete_destroys_under_journal:
  assumes "deleteServer cfg rawID confirm opid r = (Return a, t)" and "apart r"
    and "(args, s) \<in> set (drop (length (rn_log r)) (rn_log t))" and "args = down_command cfg project envFile"
  shows "\<exists>target. serverTargetForID cfg rawID = Inr target \<and> confirm = ''DELETE '' @ tg_ID target \<and>
    down_allowed cfg leased (worker_document ''delete'' target None opid KindClose) target args s"
proof -
  let ?D = "\<lambda>args s. \<exists>target. serverTargetForID cfg rawID = Inr target \<and> confirm = ''DELETE '' @ tg_ID target \<and>
    down_allowed cfg leased (worker_document ''delete'' target None opid KindClose) target args s"
  have "ended cfg ?D (length (rn_log r)) (co_active (site_coord (rn_site r))) (co_preparing (site_coord (rn_site r))) t"
    by (rule delete_ends[OF assms(1,2)]) blast
  moreover have "is_down cfg args" using assms(4) by (auto simp: is_down_def)
  ultimately show ?thesis using assms(3) by (auto simp: ended_def clean_def)
qed


text \<open>When a creation, a deletion or a reset has answered and its worker has ended, no preparation
  and no lease of it is left.\<close>

lemma handlers_vacate:
  assumes "m = createServerWithMaintenanceLease cfg creq token \<or> m = deleteServer cfg rawID confirm opid \<or>
      m = resetServerWithMaintenanceLease cfg rawID rreq token"
    and "m r = (Return a, t)" and "apart r"
  shows "co_active (site_coord (rn_site t)) \<in> {co_active (site_coord (rn_site r)), None} \<and>
    co_preparing (site_coord (rn_site t)) \<in> {co_preparing (site_coord (rn_site r)), None}"
proof -
  have "clean cfg (\<lambda>_ _. True) n t2"
    if "holding cfg (\<lambda>_ _. True) n l r2" and w: "reset_work cfg target rt token op r2 = (x, t2)" for target rt op n l r2 x t2
    using that sitsD[OF workers_sit(2) w] by (auto simp: holding_def clean_def sit_step_def)
  note reset = reset_ends[where D = "\<lambda>_ _. True", OF _ assms(3) this]
  from assms(1) have "ended cfg (\<lambda>_ _. True) (length (rn_log r)) (co_active (site_coord (rn_site r)))
      (co_preparing (site_coord (rn_site r))) t"
  proof (elim disjE)
    assume "m = createServerWithMaintenanceLease cfg creq token"
    from create_ends[OF assms(2)[unfolded this] assms(3)] show ?thesis .
  next
    assume "m = deleteServer cfg rawID confirm opid"
    from delete_ends[where D = "\<lambda>_ _. True", OF assms(2)[unfolded this] assms(3)] show ?thesis by simp
  next
    assume "m = resetServerWithMaintenanceLease cfg rawID rreq token"
    from reset[OF assms(2)[unfolded this]] show ?thesis by simp
  qed
  then show ?thesis by (simp add: ended_def)
qed

text \<open>
  Creating a server never takes a stack down: none of the docker commands of a creation,
  successful or not, removes containers or volumes.
\<close>

theorem creation_destroys_nothing:
  assumes "createServerWithMaintenanceLease cfg req token r = (Return a, t)" and "apart r"
  shows "\<forall>(args, s) \<in> set (drop (length (rn_log r)) (rn_log t)). args \<noteq> down_command cfg project envFile"
proof -
  have "clean cfg (\<lambda>_ _. False) (length (rn_log r)) t" using create_ends[OF assms] by (simp add: ended_def)
  then show ?thesis unfolding clean_def is_down_def by fast
qed

text \<open>
  C15. What an accepted reset has shown. An answer that is ok means: the id is one of a server in
  the registry and belongs to its project, the confirmation names it, no storage pins and no
  execution evidence were given, and the target needs none; without a maintenance lease no
  image pins and no 3190 scenario, with one exactly the maintenance case: server pep, an
  operation id, the scenario 990002, one commit for both tags, and valid digests.
\<close>

theorem reset_gate:
  assumes "resetServerWithMaintenanceLease cfg rawID req token r = (Return (resp, status), t)" and "lr_ok resp"
  shows "\<exists>target entry rt r1. serverTargetForID cfg rawID = Inr target \<and> rq_Confirm req = ''RESET '' @ tg_ID target \<and>
    rq_StorageImageDigests req = [] \<and> rq_ApprovalPlanSHA256 req = [] \<and> rq_ExecutionReceiptSHA256 req = [] \<and>
    is_ok (normalizeLifecycleOperationID (rq_OperationID req)) \<and>
    (if token = [] then rq_ScenarioCode req \<noteq> ''scenario_3190'' \<and> rq_ImageTag req = [] \<and> rq_WebGameTag req = [] \<and>
       rq_ImageDigests req = []
     else tg_ID target = ''pep'' \<and> rq_OperationID req \<noteq> [] \<and> rq_ScenarioCode req = ''scenario_990002'' \<and>
       gitSHA40 (rq_ImageTag req) \<and> rq_WebGameTag req = rq_ImageTag req \<and>
       is_ok (normalizeResetImageDigests (rq_ImageDigests req))) \<and>
    reset_checked cfg target req token r = (Inr (entry, rt), r1) \<and>
    re_ID entry \<noteq> [] \<and> re_DeployProject entry = tg_Project target \<and> \<not> resetTargetRequiresD101Execution rt"
proof -
  obtain target entry rt r1 where tg: "serverTargetForID cfg rawID = Inr target"
    and req: "reset_request_refused req token (tg_ID target) = None"
    and c: "reset_checked cfg target req token r = (Inr (entry, rt), r1)"
    by (rule reset_passed[OF assms])
  from req have "rq_Confirm req = ''RESET '' @ tg_ID target"
    "rq_StorageImageDigests req = []" "rq_ApprovalPlanSHA256 req = []" "rq_ExecutionReceiptSHA256 req = []"
    "is_ok (normalizeLifecycleOperationID (rq_OperationID req))"
    "if token = [] then rq_ScenarioCode req \<noteq> ''scenario_3190'' \<and> rq_ImageTag req = [] \<and> rq_WebGameTag req = [] \<and>
       rq_ImageDigests req = []
     else tg_ID target = ''pep'' \<and> rq_OperationID req \<noteq> [] \<and> rq_ScenarioCode req = ''scenario_990002'' \<and>
       gitSHA40 (rq_ImageTag req) \<and> rq_WebGameTag req = rq_ImageTag req \<and>
       is_ok (normalizeResetImageDigests (rq_ImageDigests req))"
    by (auto simp: reset_request_refused_def split: if_splits)
  with tg c reset_checked_known[OF c] reset_checked_target(2)[OF c] show ?thesis by blast
qed

section \<open>Examples\<close>

definition ex_registry_files :: "string \<Rightarrow> string files" where
  "ex_registry_files env' = [''/workspace/.env'' \<mapsto> \<lparr>f_mode = 384, f_owner = (0, 0), f_content = Synced
       (''SERVER_REGISTRY_JSON=[{'' @ json_string ''id'' @ '':'' @ json_string ''pep1'' @ '','' @
        json_string ''deployProject'' @ '':'' @ json_string ''opensamguk-spep1'' @ ''}]'' @ [newline])\<rparr>,
     ''/workspace/servers/spep1.env'' \<mapsto> \<lparr>f_mode = 384, f_owner = (0, 0), f_content = Synced env'\<rparr>]"

definition ex_idle_run :: "calls \<Rightarrow> string files \<Rightarrow> run" where
  "ex_idle_run c env = \<lparr>rn_site = \<lparr>si_world = \<lparr>wd_store = None, wd_files = (\<lambda>_. None),
       wd_coord = newOperationCoordinator ''/m'' ''/j'' (Some newLifecycleJobManager) (\<lambda>_. False)\<rparr>,
     si_env = env, si_journal = (\<lambda>_. None)\<rparr>, rn_now = 0, rn_calls = (\<lambda>_. c), rn_log = []\<rparr>"

text \<open>A deletion whose down fails; docker answers everything else.\<close>

definition ex_deletion_run :: run where
  "ex_deletion_run = ex_idle_run (ex_calls (\<lambda>args. if length args < 9 then ([], None) else ([], Some (Err [])))
     (\<lambda>_. Inl (Err []))) (ex_registry_files (''SERVER_ID=pep1'' @ [newline]))"

lemma ex_deletion:
  "case with_preparation KindClose [] ''pep1'' fp [] f g
      (delete_body ex_config (target_of ex_config ''pep1'') fp ''DELETE pep1'' []) ex_deletion_run of
    (Return a, t) \<Rightarrow> down_command ex_config ''opensamguk-spep1'' ''/workspace/servers/spep1.env'' \<in> set (map fst (rn_log t))
  | _ \<Rightarrow> False"
  by code_simp

lemma ex_deletion_answer:
  obtains a t where "deleteServer ex_config ''pep1'' ''DELETE pep1'' [] ex_deletion_run = (Return a, t)"
    and "down_command ex_config ''opensamguk-spep1'' ''/workspace/servers/spep1.env'' \<in> set (map fst (rn_log t))"
proof -
  have tg: "serverTargetForID ex_config ''pep1'' = Inr (target_of ex_config ''pep1'')" by code_simp
  have sid: "tg_ID (target_of ex_config ''pep1'') = ''pep1''" by (simp add: target_of_def)
  let ?fp = "closeRequestFingerprint ''pep1''"
  obtain o' t where d: "deleteServer ex_config ''pep1'' ''DELETE pep1'' [] ex_deletion_run = (o', t)" by fastforce
  then have "with_preparation KindClose [] ''pep1'' ?fp [] (preparation_refusal ''pep1'' [] [] [])
      (replayed [] (tg_Project (target_of ex_config ''pep1'')))
      (delete_body ex_config (target_of ex_config ''pep1'') ?fp ''DELETE pep1'' []) ex_deletion_run = (o', t)"
    by (simp add: deleteServer_def tg sid Let_def)
  with ex_deletion[of ?fp "preparation_refusal ''pep1'' [] [] []" "replayed [] (tg_Project (target_of ex_config ''pep1''))"]
  obtain a where "o' = Return a"
    "down_command ex_config ''opensamguk-spep1'' ''/workspace/servers/spep1.env'' \<in> set (map fst (rn_log t))"
    by (cases o') simp_all
  then show thesis using that d by blast
qed

lemma ex_apart: "apart (ex_idle_run (ex_calls docker http) env)"
  by (simp add: apart_def ex_idle_run_def ex_calls_def journal_well_def all_well_def newOperationCoordinator_def Let_def)

theorem delete_destroys_under_journal_witness:
  "\<exists>t s. (down_command ex_config ''opensamguk-spep1'' ''/workspace/servers/spep1.env'', s) \<in> set (rn_log t) \<and>
     t = snd (deleteServer ex_config ''pep1'' ''DELETE pep1'' [] ex_deletion_run) \<and>
     down_allowed ex_config leased (worker_document ''delete'' (target_of ex_config ''pep1'') None [] KindClose)
       (target_of ex_config ''pep1'') (down_command ex_config ''opensamguk-spep1'' ''/workspace/servers/spep1.env'') s"
proof -
  let ?c = "down_command ex_config ''opensamguk-spep1'' ''/workspace/servers/spep1.env''"
  obtain a t where d: "deleteServer ex_config ''pep1'' ''DELETE pep1'' [] ex_deletion_run = (Return a, t)"
    and c: "?c \<in> set (map fst (rn_log t))" by (rule ex_deletion_answer)
  from c obtain s where s: "(?c, s) \<in> set (rn_log t)" by auto
  have "rn_log ex_deletion_run = []" "apart ex_deletion_run"
    by (simp add: ex_deletion_run_def ex_idle_run_def, simp add: ex_deletion_run_def ex_apart)
  moreover have "serverTargetForID ex_config ''pep1'' = Inr (target_of ex_config ''pep1'')" by code_simp
  ultimately show ?thesis using delete_destroys_under_journal[OF d _ _ refl, where s = s] s d by auto
qed

text \<open>A reset that is accepted and whose worker stops at its journal.\<close>

definition ex_reset_run :: run where
  "ex_reset_run = ex_idle_run ((ex_calls (\<lambda>_. ([], None)) (\<lambda>_. Inl (Err [])))\<lparr>ca_write := (False, all_well ''/t'')\<rparr>)
     (ex_registry_files (''SERVER_ID=pep1'' @ [newline] @ ''SCENARIO_CODE=s1'' @ [newline] @ ''SERVER_GENERATION=3'' @
        [newline] @ ''SCENARIO_SEED_ENABLED=true'' @ [newline]))"

definition ex_reset_request :: resetServerRequest where
  "ex_reset_request = zero_reset_request\<lparr>rq_Confirm := ''RESET pep1''\<rparr>"

lemma ex_reset:
  "case reset_checked ex_config (target_of ex_config ''pep1'') ex_reset_request [] ex_reset_run of
     (Inr (entry, rt), r1) \<Rightarrow> target_utf8 rt \<and>
       (case with_preparation KindReset [] ''pep1'' fp [] f g
              (reset_body ex_config (target_of ex_config ''pep1'') entry rt fp [] []) r1 of
          (Return (resp, st), t) \<Rightarrow> lr_ok resp | _ \<Rightarrow> False)
   | _ \<Rightarrow> False"
  by code_simp

lemma ex_reset_answer:
  obtains resp st t where "resetServerWithMaintenanceLease ex_config ''pep1'' ex_reset_request [] ex_reset_run = (Return (resp, st), t)"
    and "lr_ok resp"
proof -
  let ?target = "target_of ex_config ''pep1''"
  have tg: "serverTargetForID ex_config ''pep1'' = Inr ?target" by code_simp
  have sid: "tg_ID ?target = ''pep1''" by (simp add: target_of_def)
  have req: "reset_request_refused ex_reset_request [] ''pep1'' = None" "the_ok [] (normalizeLifecycleOperationID (rq_OperationID ex_reset_request)) = []"
    by code_simp+
  obtain entry rt r1 where c: "reset_checked ex_config ?target ex_reset_request [] ex_reset_run = (Inr (entry, rt), r1)"
    using ex_reset[of "[]" "preparation_refusal [] [] [] []" "replayed [] []"] by (auto split: prod.splits sum.splits)
  obtain o' t where d: "resetServerWithMaintenanceLease ex_config ''pep1'' ex_reset_request [] ex_reset_run = (o', t)" by fastforce
  let ?fp = "resetRequestFingerprint ''pep1'' rt" and ?f = "preparation_refusal ''pep1'' (re_Name entry) (re_DeployProject entry) []"
    and ?g = "replayed (re_Name entry) (re_DeployProject entry)"
  have "with_preparation KindReset [] ''pep1'' ?fp [] ?f ?g (reset_body ex_config ?target entry rt ?fp [] []) r1 = (o', t)"
    using d by (simp add: resetServerWithMaintenanceLease_def tg sid req c Let_def)
  with ex_reset[of ?fp ?f ?g] c obtain resp st where "o' = Return (resp, st)" "lr_ok resp"
    by (cases o') (auto split: prod.splits)
  then show thesis using that d by blast
qed

theorem reset_gate_witness:
  "\<exists>entry rt r1. reset_checked ex_config (target_of ex_config ''pep1'') ex_reset_request [] ex_reset_run = (Inr (entry, rt), r1) \<and>
     re_ID entry \<noteq> [] \<and> \<not> resetTargetRequiresD101Execution rt"
proof -
  obtain resp st t where d: "resetServerWithMaintenanceLease ex_config ''pep1'' ex_reset_request [] ex_reset_run = (Return (resp, st), t)"
    and ok: "lr_ok resp" by (rule ex_reset_answer)
  have "serverTargetForID ex_config ''pep1'' = Inr (target_of ex_config ''pep1'')" by code_simp
  with reset_gate[OF d ok] show ?thesis by auto
qed


definition ex_create_request :: createServerRequest where
  "ex_create_request = \<lparr>cr_ID = ''pep2'', cr_OperationID = [], cr_MaintenanceLease = [], cr_Name = ''Che'', cr_Generation = [],
     cr_ImageTag = [], cr_GameAPIPort = ''8081'', cr_WebGamePort = ''8081'', cr_ScenarioCode = [], cr_ScenarioSeedEnabled = None\<rparr>"

theorem creation_destroys_nothing_witness:
  "\<exists>a. fst (createServerWithMaintenanceLease ex_config ex_create_request [] ex_deletion_run) = Return a \<and> snd a = 409 \<and>
     (\<forall>(args, s) \<in> set (rn_log (snd (createServerWithMaintenanceLease ex_config ex_create_request [] ex_deletion_run))).
        args \<noteq> down_command ex_config ''opensamguk-spep1'' ''/workspace/servers/spep1.env'')"
proof -
  have "(case fst (createServerWithMaintenanceLease ex_config ex_create_request [] ex_deletion_run) of
      Return a \<Rightarrow> snd a = 409 | Wait \<Rightarrow> False)" by code_simp
  then obtain a t where c: "createServerWithMaintenanceLease ex_config ex_create_request [] ex_deletion_run = (Return a, t)"
    and a: "snd a = 409" by (cases "createServerWithMaintenanceLease ex_config ex_create_request [] ex_deletion_run")
      (auto split: outcome.splits)
  have "apart ex_deletion_run" "rn_log ex_deletion_run = []"
    by (simp add: ex_deletion_run_def ex_apart, simp add: ex_deletion_run_def ex_idle_run_def)
  with creation_destroys_nothing[OF c] c a show ?thesis by auto
qed

end
