(* ===== verification/JsonFields.thy ===== *)
theory JsonFields
  imports Handler
begin

text \<open>
  \<open>encoding/json\<close> into Go structs, field by field: a table gives for each JSON name how a value
  changes the field. Values are read as Go reads them: null leaves a scalar as it is and
  clears a map or a pointer; a number must be an integer in the range of the field.
\<close>

type_synonym 'r field_decoder = "'r \<Rightarrow> json \<Rightarrow> 'r option"

definition field ::
    "('a \<Rightarrow> json \<Rightarrow> 'a option) \<Rightarrow> ('r \<Rightarrow> 'a) \<Rightarrow> (('a \<Rightarrow> 'a) \<Rightarrow> 'r \<Rightarrow> 'r) \<Rightarrow> 'r field_decoder" where
  "field rd get upd r j = map_option (\<lambda>x. upd (\<lambda>_. x) r) (rd (get r) j)"

definition json_pointer :: "('a \<Rightarrow> json \<Rightarrow> 'a option) \<Rightarrow> 'a \<Rightarrow> 'a option \<Rightarrow> json \<Rightarrow> 'a option option" where
  "json_pointer rd zero old j =
     (if j = JNull then Some None else map_option Some (rd (case old of None \<Rightarrow> zero | Some x \<Rightarrow> x) j))"

definition json_map :: "env \<Rightarrow> json \<Rightarrow> env option" where
  "json_map old j = (case j of JNull \<Rightarrow> Some [] | JObj ms \<Rightarrow> decode_env_members old ms | _ \<Rightarrow> None)"

fun json_elems :: "('a \<Rightarrow> json \<Rightarrow> 'a option) \<Rightarrow> 'a \<Rightarrow> 'a list \<Rightarrow> json list \<Rightarrow> 'a list option" where
  "json_elems rd zero old [] = Some []"
| "json_elems rd zero old (j # js) =
     Option.bind (rd (case old of [] \<Rightarrow> zero | x # _ \<Rightarrow> x) j) (\<lambda>y.
       map_option (Cons y) (json_elems rd zero (drop 1 old) js))"

definition json_list :: "('a \<Rightarrow> json \<Rightarrow> 'a option) \<Rightarrow> 'a \<Rightarrow> 'a list \<Rightarrow> json \<Rightarrow> 'a list option" where
  "json_list rd zero old j = (case j of JNull \<Rightarrow> Some [] | JArr js \<Rightarrow> json_elems rd zero old js | _ \<Rightarrow> None)"

definition json_uint64 :: "64 word \<Rightarrow> json \<Rightarrow> 64 word option" where
  "json_uint64 old j =
     (case j of
        JNum s \<Rightarrow> if s \<noteq> [] \<and> list_all is_digit s \<and> dec_value s < 2 ^ 64 then Some (word_of_nat (dec_value s)) else None
      | JNull \<Rightarrow> Some old
      | _ \<Rightarrow> None)"

section \<open>Structs\<close>

text \<open>With \<open>DisallowUnknownFields\<close> a member whose name is no field is an error.\<close>

fun strict_members :: "(string \<times> 'r field_decoder) list \<Rightarrow> 'r \<Rightarrow> (string \<times> json) list \<Rightarrow> 'r option" where
  "strict_members table r [] = Some r"
| "strict_members table r ((k, v) # ms) =
     Option.bind (Option.bind (json_field (map fst table) k) (map_of table))
       (\<lambda>f. Option.bind (f r v) (\<lambda>r'. strict_members table r' ms))"

definition strict_struct :: "(string \<times> 'r field_decoder) list \<Rightarrow> 'r field_decoder" where
  "strict_struct table r j =
     (case j of JObj ms \<Rightarrow> strict_members table r ms | JNull \<Rightarrow> Some r | _ \<Rightarrow> None)"

definition loose_struct :: "(string \<times> 'r field_decoder) list \<Rightarrow> 'r field_decoder" where
  "loose_struct table = decode_struct (map fst table)
     (\<lambda>r name j. case map_of table name of None \<Rightarrow> Some r | Some f \<Rightarrow> f r j)"

definition unmarshal :: "(string \<times> 'r field_decoder) list \<Rightarrow> 'r \<Rightarrow> string \<Rightarrow> 'r option" where
  "unmarshal table zero text' = Option.bind (parse_json text') (loose_struct table zero)"

end
