(* ===== verification/ResetEvidence.thy ===== *)
theory ResetEvidence
  imports JsonFields
begin

text \<open>
  reset_execution_evidence.go: the private evidence of a native reset. An approval plan and a
  preflight receipt are files that only their owner may read; they are read with a check of
  the directory and of the file before and after, decoded strictly, and validated against
  each other, the target and the clock. Every system call of the reader is an answer.
\<close>

section \<open>Plans and preflight receipts\<close>

record resetApprovalPlan =
  ap_ApprovalIntentSHA :: string
  ap_Version :: int
  ap_ServerID :: string
  ap_WorldID :: int
  ap_OperationID :: string
  ap_TargetFingerprint :: string
  ap_AppSourceSHA :: string
  ap_Target :: resetLifecycleTarget
  ap_OldImageDigests :: env
  ap_NewImageDigests :: env
  ap_WindowOpensAtUnix :: int
  ap_DestructiveCutoffUnix :: int
  ap_RecoveryDeadlineUnix :: int
  ap_ApprovalReceiptSHA :: string
  ap_CombinedCIReceiptSHA :: string
  ap_SelectedSourceReceiptSHA :: string
  ap_IsolatedSeedTickReceiptSHA :: string
  ap_WriterFreezeReceiptSHA :: string
  ap_SpaceInventoryReceiptSHA :: string
  ap_SpaceBudget :: resetSpaceBudget

record resetPreflightReceipt =
  pf_Version :: int
  pf_ServerID :: string
  pf_WorldID :: int
  pf_OperationID :: string
  pf_TargetFingerprint :: string
  pf_ApprovalPlanSHA :: string
  pf_AppSourceSHA :: string
  pf_NewImageDigests :: env
  pf_OldImageDigests :: env
  pf_ObservedAtUnix :: int
  pf_ExpiresAtUnix :: int
  pf_PublicationState :: string
  pf_PublicationRevision :: string
  pf_WriterFreezeReceiptSHA :: string
  pf_DrainReceiptSHA :: string
  pf_BackupManifestSHA :: string
  pf_PreStopNativeProofSHA :: string
  pf_BackupRetainUntilUnix :: int
  pf_RestoreVerified :: "bool option"
  pf_FilesystemDevice :: "uint64 option"
  pf_AvailableBytes :: "uint64 option"
  pf_AvailableInodes :: "uint64 option"
  pf_UnfinishedTemporaryBytes :: "uint64 option"
  pf_RemainingNewFileCount :: "uint64 option"
  pf_StoppedContainerIDs :: env
  pf_DatabaseClientCount :: "uint64 option"

definition resetEvidenceMaxBytes :: nat where
  "resetEvidenceMaxBytes = 64 * 1024"

definition five_services :: "string list" where
  "five_services = [''game-api'', ''game-engine'', ''web-game'', ''game-postgres'', ''game-redis'']"

definition validResetFiveImageDigests :: "env \<Rightarrow> bool" where
  "validResetFiveImageDigests pins \<longleftrightarrow> length pins = 5 \<and> list_all (\<lambda>s. resetManifestDigest (gm_str pins s)) five_services"

text \<open>\<open>reflect.DeepEqual\<close> of string maps and of targets.\<close>

definition same_map :: "env \<Rightarrow> env \<Rightarrow> bool" where
  "same_map m m' \<longleftrightarrow> length m = length m' \<and> list_all (\<lambda>(k, v). map_of m' k = Some v) m"

definition equal_target :: "resetLifecycleTarget \<Rightarrow> resetLifecycleTarget \<Rightarrow> bool" where
  "equal_target t t' \<longleftrightarrow> rt_ScenarioCode t = rt_ScenarioCode t' \<and> rt_Generation t = rt_Generation t' \<and>
     rt_ScenarioSeedEnabled t = rt_ScenarioSeedEnabled t' \<and> same_map (rt_Updates t) (rt_Updates t') \<and>
     same_map (rt_ImageDigests t) (rt_ImageDigests t') \<and>
     same_map (rt_StorageImageDigests t) (rt_StorageImageDigests t')"

section \<open>Validation\<close>

definition fixed_settings :: "(string \<times> string) list" where
  "fixed_settings = [(''SERVER_NAME'', map (\<lambda>n. char_of (n :: nat)) [235, 185, 188, 236, 132, 173]),
     (''RESET_MAXGENERAL'', ''50''), (''RESET_FIRST_TURN'', ''immediate''), (''SCENARIO_LOOKUP_DIR'', []),
     (''RESET_TURNTERM'', ''60''), (''RESET_EXTEND'', ''1''), (''RESET_BLOCK_GENERAL_CREATE'', ''1''),
     (''RESET_NPCMODE'', ''0''), (''RESET_SHOW_IMG_LEVEL'', ''3'')]"

definition plan_identity_ok :: "resetApprovalPlan \<Rightarrow> string \<Rightarrow> resetLifecycleTarget \<Rightarrow> bool" where
  "plan_identity_ok plan op target \<longleftrightarrow>
     normalizeLifecycleOperationID op = Inr op \<and> op \<noteq> [] \<and> ap_Version plan = 1 \<and> ap_ServerID plan = ''pep'' \<and>
     ap_WorldID plan = 1 \<and> ap_OperationID plan = op \<and> gitSHA40 (ap_AppSourceSHA plan) \<and>
     ap_TargetFingerprint plan = resetRequestFingerprint ''pep'' target \<and> equal_target (ap_Target plan) target \<and>
     gm_str (rt_Updates (ap_Target plan)) ''IMAGE_TAG'' = ap_AppSourceSHA plan \<and>
     gm_str (rt_Updates (ap_Target plan)) ''WEB_GAME_TAG'' = ap_AppSourceSHA plan \<and>
     validResetFiveImageDigests (ap_OldImageDigests plan) \<and> validResetFiveImageDigests (ap_NewImageDigests plan)"

definition plan_target_ok :: "resetApprovalPlan \<Rightarrow> resetLifecycleTarget \<Rightarrow> bool" where
  "plan_target_ok plan target \<longleftrightarrow>
     list_all (\<lambda>s. gm_str (rt_ImageDigests target) s = gm_str (ap_NewImageDigests plan) s) resetImageServices \<and>
     rt_ScenarioCode target = ''scenario_3190'' \<and> rt_Generation target = 0 \<and> rt_ScenarioSeedEnabled target \<and>
     length (rt_StorageImageDigests target) = 2 \<and>
     list_all (\<lambda>(k, v). map_of (rt_Updates target) k = Some v) fixed_settings \<and>
     list_all (\<lambda>s. gm_str (rt_StorageImageDigests target) s = gm_str (ap_NewImageDigests plan) s) resetStorageServices"

definition plan_proofs :: "resetApprovalPlan \<Rightarrow> string list" where
  "plan_proofs plan = [ap_ApprovalReceiptSHA plan, ap_CombinedCIReceiptSHA plan, ap_SelectedSourceReceiptSHA plan,
     ap_IsolatedSeedTickReceiptSHA plan, ap_WriterFreezeReceiptSHA plan, ap_SpaceInventoryReceiptSHA plan]"

definition plan_window_ok :: "resetApprovalPlan \<Rightarrow> time \<Rightarrow> bool" where
  "plan_window_ok plan now \<longleftrightarrow>
     \<not> (ap_WindowOpensAtUnix plan \<le> 0 \<or> ap_WindowOpensAtUnix plan \<ge> ap_DestructiveCutoffUnix plan \<or>
        ap_DestructiveCutoffUnix plan \<ge> ap_RecoveryDeadlineUnix plan \<or>
        now < of_unix (ap_WindowOpensAtUnix plan) \<or> \<not> now < of_unix (ap_DestructiveCutoffUnix plan))"

definition validateResetApprovalPlan ::
    "resetApprovalPlan \<Rightarrow> string \<Rightarrow> resetLifecycleTarget \<Rightarrow> time \<Rightarrow> unit result" where
  "validateResetApprovalPlan plan op target now =
     (if ap_ApprovalIntentSHA plan \<noteq> [] \<and> \<not> resetEvidenceSHA (ap_ApprovalIntentSHA plan) \<or>
         \<not> plan_identity_ok plan op target \<or> \<not> plan_target_ok plan target \<or>
         \<not> list_all resetEvidenceSHA (plan_proofs plan) \<or> \<not> plan_window_ok plan now \<or>
         \<not> is_ok (resetRequiredSpace (ap_SpaceBudget plan))
      then Inl ErrResetExecutionEvidence else Inr ())"

definition preflight_identity_ok :: "resetPreflightReceipt \<Rightarrow> resetApprovalPlan \<Rightarrow> string \<Rightarrow> bool" where
  "preflight_identity_ok pf plan planSHA \<longleftrightarrow>
     pf_Version pf = 1 \<and> pf_ServerID pf = ap_ServerID plan \<and> pf_WorldID pf = ap_WorldID plan \<and>
     pf_OperationID pf = ap_OperationID plan \<and> pf_TargetFingerprint pf = ap_TargetFingerprint plan \<and>
     resetEvidenceSHA planSHA \<and> pf_ApprovalPlanSHA pf = planSHA \<and> pf_AppSourceSHA pf = ap_AppSourceSHA plan \<and>
     same_map (pf_NewImageDigests pf) (ap_NewImageDigests plan) \<and>
     same_map (pf_OldImageDigests pf) (ap_OldImageDigests plan) \<and>
     pf_PublicationState pf = ''VERIFYING'' \<and> canonical_revision (pf_PublicationRevision pf) \<and>
     pf_WriterFreezeReceiptSHA pf = ap_WriterFreezeReceiptSHA plan \<and> resetEvidenceSHA (pf_DrainReceiptSHA pf) \<and>
     resetEvidenceSHA (pf_BackupManifestSHA pf) \<and> pf_RestoreVerified pf = Some False \<and>
     pf_FilesystemDevice pf \<noteq> None \<and> pf_DatabaseClientCount pf = Some 0"

definition preflight_times_ok :: "resetPreflightReceipt \<Rightarrow> resetApprovalPlan \<Rightarrow> time \<Rightarrow> bool" where
  "preflight_times_ok pf plan now \<longleftrightarrow>
     (let observed = of_unix (pf_ObservedAtUnix pf); expiry = of_unix (pf_ExpiresAtUnix pf) in
      \<not> (pf_ObservedAtUnix pf < ap_WindowOpensAtUnix plan \<or> observed > now \<or> now - observed \<ge> resetPreflightMaxAge \<or>
         \<not> expiry > observed \<or> expiry - observed > resetPreflightMaxAge \<or> \<not> now < expiry \<or>
         pf_ExpiresAtUnix pf > ap_DestructiveCutoffUnix plan \<or>
         pf_BackupRetainUntilUnix pf < wrap64 (pf_ObservedAtUnix pf + 7 * 24 * 60 * 60)))"

definition stopped_containers_ok :: "env \<Rightarrow> bool" where
  "stopped_containers_ok ids \<longleftrightarrow> length ids = 5 \<and> list_all (\<lambda>s. resetEvidenceSHA (gm_str ids s)) five_services \<and>
     distinct (map (gm_str ids) five_services)"

definition preflight_space_ok :: "resetPreflightReceipt \<Rightarrow> resetSpaceBudget \<Rightarrow> bool" where
  "preflight_space_ok pf budget \<longleftrightarrow>
     (case (pf_UnfinishedTemporaryBytes pf, pf_RemainingNewFileCount pf, sb_TemporaryBytes budget, sb_NewFileCount budget) of
        (Some unfinished, Some remaining, Some temporary, Some files') \<Rightarrow> \<not> unfinished > temporary \<and> \<not> remaining > files'
      | _ \<Rightarrow> False) \<and>
     verifyResetRemainingSpace (sb_RecoveryBytes budget) (pf_UnfinishedTemporaryBytes pf) (pf_RemainingNewFileCount pf)
       (sb_InodeReserve budget) \<lparr>so_AvailableBytes = pf_AvailableBytes pf, so_AvailableInodes = pf_AvailableInodes pf\<rparr> = None"

definition validateResetPreflight ::
    "resetPreflightReceipt \<Rightarrow> resetApprovalPlan \<Rightarrow> string \<Rightarrow> time \<Rightarrow> unit result" where
  "validateResetPreflight pf plan planSHA now =
     (if ap_ApprovalIntentSHA plan \<noteq> [] \<and> \<not> resetEvidenceSHA (pf_PreStopNativeProofSHA pf) \<or>
         ap_ApprovalIntentSHA plan = [] \<and> pf_PreStopNativeProofSHA pf \<noteq> [] \<or>
         \<not> preflight_identity_ok pf plan planSHA \<or> \<not> preflight_times_ok pf plan now \<or>
         \<not> stopped_containers_ok (pf_StoppedContainerIDs pf) \<or> \<not> preflight_space_ok pf (ap_SpaceBudget plan)
      then Inl ErrResetExecutionEvidence else Inr ())"

section \<open>Strict decoding\<close>

text \<open>No object of the text may have a key twice.\<close>

fun json_distinct :: "json \<Rightarrow> bool" where
  "json_distinct (JArr js) \<longleftrightarrow> list_all json_distinct js"
| "json_distinct (JObj ms) \<longleftrightarrow> distinct (map fst ms) \<and> list_all (\<lambda>m. json_distinct (snd m)) ms"
| "json_distinct _ \<longleftrightarrow> True"

definition requireResetApprovalTargetJSON :: "json \<Rightarrow> bool" where
  "requireResetApprovalTargetJSON j \<longleftrightarrow>
     (case j of
        JObj root \<Rightarrow>
          (case map_of root ''target'' of
             Some (JObj target) \<Rightarrow>
               map_of target ''generation'' \<notin> {None, Some JNull} \<and>
               (case map_of target ''updates'' of
                  Some (JObj updates) \<Rightarrow> JNull \<notin> set (map snd updates)
                | Some JNull \<Rightarrow> True
                | _ \<Rightarrow> False)
           | _ \<Rightarrow> False)
      | _ \<Rightarrow> False)"

text \<open>\<open>requireResetPrivateJSONShape\<close> follows the Go type: what it makes of a type, and the check.\<close>

datatype shape = Scalar | Struct "(string \<times> shape) list" | MapOf shape

lemma shape_size [termination_simp]: "f \<in> set fs \<Longrightarrow> size (snd f) < Suc (size_list (size_prod (\<lambda>_. 0) size) fs)"
  by (induction fs) auto

fun shape_ok :: "shape \<Rightarrow> json \<Rightarrow> bool" where
  "shape_ok Scalar j \<longleftrightarrow> j \<noteq> JNull"
| "shape_ok (Struct fs) j \<longleftrightarrow>
     (case j of
        JObj ms \<Rightarrow> length ms = length fs \<and>
          list_all (\<lambda>f. case map_of ms (fst f) of None \<Rightarrow> False | Some v \<Rightarrow> shape_ok (snd f) v) fs
      | _ \<Rightarrow> False)"
| "shape_ok (MapOf sh) j \<longleftrightarrow>
     (case j of JObj ms \<Rightarrow> list_all (\<lambda>m. shape_ok sh (snd m)) ms | _ \<Rightarrow> False)"

definition preflight_shape :: "(string \<times> shape) list" where
  "preflight_shape = map (\<lambda>n. (n, Scalar)) [''version'', ''serverId'', ''worldId'', ''operationId'',
     ''targetFingerprint'', ''approvalPlanSha256'', ''appSourceSha''] @
   [(''newImageDigests'', MapOf Scalar), (''oldImageDigests'', MapOf Scalar)] @
   map (\<lambda>n. (n, Scalar)) [''observedAtUnix'', ''expiresAtUnix'', ''publicationState'', ''publicationRevision'',
     ''writerFreezeReceiptSha256'', ''drainReceiptSha256'', ''backupManifestSha256'', ''preStopNativeProofSha256'',
     ''backupRetainUntilUnix'', ''restoreVerified'', ''filesystemDevice'', ''availableBytes'', ''availableInodes'',
     ''unfinishedTemporaryBytes'', ''remainingNewFileCount''] @
   [(''stoppedContainerIds'', MapOf Scalar), (''databaseClientCount'', Scalar)]"

definition preflight_member_ok :: "(string \<times> json) list \<Rightarrow> string \<times> shape \<Rightarrow> bool" where
  "preflight_member_ok ms f \<longleftrightarrow>
     (case map_of ms (fst f) of
        None \<Rightarrow> fst f = ''preStopNativeProofSha256''
      | Some v \<Rightarrow> shape_ok (snd f) v \<and>
          (fst f = ''preStopNativeProofSha256'' \<longrightarrow> (case v of JStr s \<Rightarrow> resetEvidenceSHA s | _ \<Rightarrow> False)))"

definition requireResetPreflightProofShape :: "json \<Rightarrow> bool" where
  "requireResetPreflightProofShape j \<longleftrightarrow>
     (case j of
        JObj ms \<Rightarrow> list_all (preflight_member_ok ms) preflight_shape \<and>
          list_all (\<lambda>m. fst m \<in> set (map fst preflight_shape)) ms
      | _ \<Rightarrow> False)"

definition decodeResetPrivateJSON :: "(json \<Rightarrow> bool) \<Rightarrow> (json \<Rightarrow> 'a option) \<Rightarrow> string \<Rightarrow> 'a result" where
  "decodeResetPrivateJSON shape_check rd wire =
     (case parse_json wire of
        None \<Rightarrow> Inl ErrResetExecutionEvidence
      | Some j \<Rightarrow>
          if \<not> json_distinct j \<or> \<not> shape_check j then Inl ErrResetExecutionEvidence
          else (case rd j of None \<Rightarrow> Inl ErrResetExecutionEvidence | Some x \<Rightarrow> Inr x))"

end
