(* ===== verification/ResetReceipt.thy ===== *)
theory ResetReceipt
  imports ResetEvidence
begin

text \<open>
  The reading of the private evidence (reset_execution_evidence.go) and the publication receipt
  of a finished reset (reset_publication_receipt.go): its custody, its strict decoding, its
  validation against the plan, the preflight and the durable operation, and its delivery.
\<close>

section \<open>Custody\<close>

text \<open>
  The answers of the system calls: the path after its symbolic links, the directory and the
  file before and after the reading, whether the file could be opened without following a
  link, and what was read, at most one byte over the limit.
\<close>

record custody_dir =
  dr_IsDir :: bool
  dr_Perm :: nat
  dr_Uid :: nat
  dr_Identity :: "nat \<times> nat"

record custody_file =
  fl_IsRegular :: bool
  fl_Perm :: nat
  fl_Size :: int
  fl_ModTime :: time
  fl_Uid :: nat
  fl_Nlink :: nat
  fl_Identity :: "nat \<times> nat"

record custody_calls =
  cu_resolved :: "string option"
  cu_dir :: "custody_dir option"
  cu_open :: bool
  cu_file :: "custody_file option"
  cu_wire :: "string option"
  cu_fileAfter :: "custody_file option"
  cu_dirAfter :: "custody_dir option"

definition private_dir :: "nat \<Rightarrow> custody_dir \<Rightarrow> bool" where
  "private_dir uid d \<longleftrightarrow> dr_IsDir d \<and> dr_Perm d mod 64 = 0 \<and> dr_Uid d = uid"

definition private_file :: "nat \<Rightarrow> custody_file \<Rightarrow> bool" where
  "private_file uid f \<longleftrightarrow> fl_Perm f = 256 \<and> fl_Uid f = uid \<and> fl_Nlink f = 1"

definition unchanged_file :: "custody_file \<Rightarrow> custody_file \<Rightarrow> bool" where
  "unchanged_file f f' \<longleftrightarrow> fl_Identity f = fl_Identity f' \<and> fl_Size f = fl_Size f' \<and> fl_ModTime f = fl_ModTime f'"

definition readResetPrivateCustody :: "custody_calls \<Rightarrow> string \<Rightarrow> string \<Rightarrow> nat \<Rightarrow> string result" where
  "readResetPrivateCustody cu directory opid uid =
     (if \<not> has_prefix directory ''/'' \<or> normalizeLifecycleOperationID opid \<noteq> Inr opid \<or> opid = [] \<or>
         cu_resolved cu \<noteq> Some (filepath_clean directory)
      then Inl ErrResetExecutionEvidence
      else case (cu_dir cu, cu_file cu, cu_wire cu, cu_fileAfter cu, cu_dirAfter cu) of
        (Some d, Some f, Some wire, Some f', Some d') \<Rightarrow>
          if \<not> private_dir uid d \<or> \<not> cu_open cu \<or> \<not> fl_IsRegular f \<or> \<not> private_file uid f \<or> fl_Size f \<le> 0 \<or>
             fl_Size f > int resetEvidenceMaxBytes \<or> length wire > resetEvidenceMaxBytes \<or> \<not> unchanged_file f f' \<or>
             dr_Identity d \<noteq> dr_Identity d' \<or> \<not> private_file uid f' \<or> \<not> private_dir uid d'
          then Inl ErrResetExecutionEvidence else Inr wire
      | _ \<Rightarrow> Inl ErrResetExecutionEvidence)"

definition readResetPrivateEvidence ::
    "(string \<Rightarrow> 'a result) \<Rightarrow> custody_calls \<Rightarrow> string \<Rightarrow> string \<Rightarrow> string \<Rightarrow> nat \<Rightarrow> 'a result" where
  "readResetPrivateEvidence rd cu directory opid expectedSHA uid =
     (if \<not> resetEvidenceSHA expectedSHA then Inl ErrResetExecutionEvidence
      else bind_r (readResetPrivateCustody cu directory opid uid) (\<lambda>wire.
        if sha256_hex wire \<noteq> expectedSHA then Inl ErrResetExecutionEvidence else rd wire))"

section \<open>Decoding plans and preflight receipts\<close>

definition target_fields :: "(string \<times> resetLifecycleTarget field_decoder) list" where
  "target_fields =
     [(''storageImageDigests'', field json_map rt_StorageImageDigests rt_StorageImageDigests_update),
      (''scenarioCode'', field json_str rt_ScenarioCode rt_ScenarioCode_update),
      (''generation'', field json_int rt_Generation rt_Generation_update),
      (''scenarioSeedEnabled'', field json_bool rt_ScenarioSeedEnabled rt_ScenarioSeedEnabled_update),
      (''updates'', field json_map rt_Updates rt_Updates_update),
      (''imageDigests'', field json_map rt_ImageDigests rt_ImageDigests_update)]"

abbreviation word_pointer :: "uint64 option \<Rightarrow> json \<Rightarrow> uint64 option option" where
  "word_pointer \<equiv> json_pointer json_uint64 0"

definition budget_fields :: "(string \<times> resetSpaceBudget field_decoder) list" where
  "budget_fields =
     [(''CandidateUnpackedBytes'', field word_pointer sb_CandidateUnpackedBytes sb_CandidateUnpackedBytes_update),
      (''BackupBytes'', field word_pointer sb_BackupBytes sb_BackupBytes_update),
      (''RecoveryBytes'', field word_pointer sb_RecoveryBytes sb_RecoveryBytes_update),
      (''TemporaryBytes'', field word_pointer sb_TemporaryBytes sb_TemporaryBytes_update),
      (''NewFileCount'', field word_pointer sb_NewFileCount sb_NewFileCount_update),
      (''InodeReserve'', field word_pointer sb_InodeReserve sb_InodeReserve_update)]"

definition zero_target :: resetLifecycleTarget where
  "zero_target = \<lparr>rt_StorageImageDigests = [], rt_ScenarioCode = [], rt_Generation = 0,
     rt_ScenarioSeedEnabled = False, rt_Updates = [], rt_ImageDigests = []\<rparr>"

definition zero_plan :: resetApprovalPlan where
  "zero_plan = \<lparr>ap_ApprovalIntentSHA = [], ap_Version = 0, ap_ServerID = [], ap_WorldID = 0, ap_OperationID = [],
     ap_TargetFingerprint = [], ap_AppSourceSHA = [], ap_Target = zero_target, ap_OldImageDigests = [],
     ap_NewImageDigests = [], ap_WindowOpensAtUnix = 0, ap_DestructiveCutoffUnix = 0, ap_RecoveryDeadlineUnix = 0,
     ap_ApprovalReceiptSHA = [], ap_CombinedCIReceiptSHA = [], ap_SelectedSourceReceiptSHA = [],
     ap_IsolatedSeedTickReceiptSHA = [], ap_WriterFreezeReceiptSHA = [], ap_SpaceInventoryReceiptSHA = [],
     ap_SpaceBudget = \<lparr>sb_CandidateUnpackedBytes = None, sb_BackupBytes = None, sb_RecoveryBytes = None,
       sb_TemporaryBytes = None, sb_NewFileCount = None, sb_InodeReserve = None\<rparr>\<rparr>"

definition plan_fields :: "(string \<times> resetApprovalPlan field_decoder) list" where
  "plan_fields =
     [(''approvalIntentSha256'', field json_str ap_ApprovalIntentSHA ap_ApprovalIntentSHA_update),
      (''version'', field json_int ap_Version ap_Version_update),
      (''serverId'', field json_str ap_ServerID ap_ServerID_update),
      (''worldId'', field json_int ap_WorldID ap_WorldID_update),
      (''operationId'', field json_str ap_OperationID ap_OperationID_update),
      (''targetFingerprint'', field json_str ap_TargetFingerprint ap_TargetFingerprint_update),
      (''appSourceSha'', field json_str ap_AppSourceSHA ap_AppSourceSHA_update),
      (''target'', field (strict_struct target_fields) ap_Target ap_Target_update),
      (''oldImageDigests'', field json_map ap_OldImageDigests ap_OldImageDigests_update),
      (''newImageDigests'', field json_map ap_NewImageDigests ap_NewImageDigests_update),
      (''windowOpensAtUnix'', field json_int ap_WindowOpensAtUnix ap_WindowOpensAtUnix_update),
      (''destructiveCutoffUnix'', field json_int ap_DestructiveCutoffUnix ap_DestructiveCutoffUnix_update),
      (''recoveryDeadlineUnix'', field json_int ap_RecoveryDeadlineUnix ap_RecoveryDeadlineUnix_update),
      (''approvalReceiptSha256'', field json_str ap_ApprovalReceiptSHA ap_ApprovalReceiptSHA_update),
      (''combinedCiReceiptSha256'', field json_str ap_CombinedCIReceiptSHA ap_CombinedCIReceiptSHA_update),
      (''selectedSourceReceiptSha256'', field json_str ap_SelectedSourceReceiptSHA ap_SelectedSourceReceiptSHA_update),
      (''isolatedSeedTickReceiptSha256'', field json_str ap_IsolatedSeedTickReceiptSHA ap_IsolatedSeedTickReceiptSHA_update),
      (''writerFreezeReceiptSha256'', field json_str ap_WriterFreezeReceiptSHA ap_WriterFreezeReceiptSHA_update),
      (''spaceInventoryReceiptSha256'', field json_str ap_SpaceInventoryReceiptSHA ap_SpaceInventoryReceiptSHA_update),
      (''spaceBudget'', field (strict_struct budget_fields) ap_SpaceBudget ap_SpaceBudget_update)]"

definition zero_preflight :: resetPreflightReceipt where
  "zero_preflight = \<lparr>pf_Version = 0, pf_ServerID = [], pf_WorldID = 0, pf_OperationID = [], pf_TargetFingerprint = [],
     pf_ApprovalPlanSHA = [], pf_AppSourceSHA = [], pf_NewImageDigests = [], pf_OldImageDigests = [],
     pf_ObservedAtUnix = 0, pf_ExpiresAtUnix = 0, pf_PublicationState = [], pf_PublicationRevision = [],
     pf_WriterFreezeReceiptSHA = [], pf_DrainReceiptSHA = [], pf_BackupManifestSHA = [], pf_PreStopNativeProofSHA = [],
     pf_BackupRetainUntilUnix = 0, pf_RestoreVerified = None, pf_FilesystemDevice = None, pf_AvailableBytes = None,
     pf_AvailableInodes = None, pf_UnfinishedTemporaryBytes = None, pf_RemainingNewFileCount = None,
     pf_StoppedContainerIDs = [], pf_DatabaseClientCount = None\<rparr>"

definition preflight_fields :: "(string \<times> resetPreflightReceipt field_decoder) list" where
  "preflight_fields =
     [(''version'', field json_int pf_Version pf_Version_update),
      (''serverId'', field json_str pf_ServerID pf_ServerID_update),
      (''worldId'', field json_int pf_WorldID pf_WorldID_update),
      (''operationId'', field json_str pf_OperationID pf_OperationID_update),
      (''targetFingerprint'', field json_str pf_TargetFingerprint pf_TargetFingerprint_update),
      (''approvalPlanSha256'', field json_str pf_ApprovalPlanSHA pf_ApprovalPlanSHA_update),
      (''appSourceSha'', field json_str pf_AppSourceSHA pf_AppSourceSHA_update),
      (''newImageDigests'', field json_map pf_NewImageDigests pf_NewImageDigests_update),
      (''oldImageDigests'', field json_map pf_OldImageDigests pf_OldImageDigests_update),
      (''observedAtUnix'', field json_int pf_ObservedAtUnix pf_ObservedAtUnix_update),
      (''expiresAtUnix'', field json_int pf_ExpiresAtUnix pf_ExpiresAtUnix_update),
      (''publicationState'', field json_str pf_PublicationState pf_PublicationState_update),
      (''publicationRevision'', field json_str pf_PublicationRevision pf_PublicationRevision_update),
      (''writerFreezeReceiptSha256'', field json_str pf_WriterFreezeReceiptSHA pf_WriterFreezeReceiptSHA_update),
      (''drainReceiptSha256'', field json_str pf_DrainReceiptSHA pf_DrainReceiptSHA_update),
      (''backupManifestSha256'', field json_str pf_BackupManifestSHA pf_BackupManifestSHA_update),
      (''preStopNativeProofSha256'', field json_str pf_PreStopNativeProofSHA pf_PreStopNativeProofSHA_update),
      (''backupRetainUntilUnix'', field json_int pf_BackupRetainUntilUnix pf_BackupRetainUntilUnix_update),
      (''restoreVerified'', field (json_pointer json_bool False) pf_RestoreVerified pf_RestoreVerified_update),
      (''filesystemDevice'', field word_pointer pf_FilesystemDevice pf_FilesystemDevice_update),
      (''availableBytes'', field word_pointer pf_AvailableBytes pf_AvailableBytes_update),
      (''availableInodes'', field word_pointer pf_AvailableInodes pf_AvailableInodes_update),
      (''unfinishedTemporaryBytes'', field word_pointer pf_UnfinishedTemporaryBytes pf_UnfinishedTemporaryBytes_update),
      (''remainingNewFileCount'', field word_pointer pf_RemainingNewFileCount pf_RemainingNewFileCount_update),
      (''stoppedContainerIds'', field json_map pf_StoppedContainerIDs pf_StoppedContainerIDs_update),
      (''databaseClientCount'', field word_pointer pf_DatabaseClientCount pf_DatabaseClientCount_update)]"

definition decode_plan :: "string \<Rightarrow> resetApprovalPlan result" where
  "decode_plan = decodeResetPrivateJSON requireResetApprovalTargetJSON (strict_struct plan_fields zero_plan)"

definition decode_preflight :: "string \<Rightarrow> resetPreflightReceipt result" where
  "decode_preflight = decodeResetPrivateJSON requireResetPreflightProofShape (strict_struct preflight_fields zero_preflight)"

section \<open>Publication receipts\<close>

record resetPublicationReceipt =
  pr_Version :: int
  pr_ServerID :: string
  pr_WorldID :: int
  pr_OperationID :: string
  pr_Generation :: "int option"
  pr_ScenarioCode :: string
  pr_TargetFingerprint :: string
  pr_PublicationRevision :: string
  pr_AppSourceSHA :: string
  pr_ImageDigests :: env
  pr_SelectedSourceReceiptSHA :: string
  pr_IsolatedSeedTickReceiptSHA :: string
  pr_ActualRuntimeReceiptSHA :: string
  pr_FirstTickReceiptSHA :: string
  pr_RoleValidationReceiptSHA :: string
  pr_BackupManifestSHA :: string
  pr_IssuedAtUnix :: int
  pr_ExpiresAtUnix :: int
  pr_Execution :: resetExecutionJournal

text \<open>The execution record as text; the space of an attestation must have all three figures.\<close>

definition json_time :: "go_time \<Rightarrow> json \<Rightarrow> go_time option" where
  "json_time old j = (case j of JStr s \<Rightarrow> parse_rfc3339 s | JNull \<Rightarrow> Some old | _ \<Rightarrow> None)"

definition json_space :: "resetExecutionSpaceSnapshot \<Rightarrow> json \<Rightarrow> resetExecutionSpaceSnapshot option" where
  "json_space old j =
     (if \<not> json_distinct j then None
      else case strict_struct
          [(''device'', field word_pointer fst apfst), (''availableBytes'', field word_pointer (\<lambda>x. fst (snd x)) (\<lambda>f. apsnd (apfst f))),
           (''availableInodes'', field word_pointer (\<lambda>x. snd (snd x)) (\<lambda>f. apsnd (apsnd f)))] (None, None, None) j of
        Some (Some d, Some b, Some i) \<Rightarrow> Some \<lparr>sp_Device = d, sp_AvailableBytes = b, sp_AvailableInodes = i\<rparr>
      | _ \<Rightarrow> None)"

definition zero_time :: go_time where
  "zero_time = \<lparr>gt_instant = 0, gt_offset = 0\<rparr>"

definition zero_snapshot :: resetExecutionPhaseSnapshot where
  "zero_snapshot = \<lparr>sn_ObservedAt = zero_time, sn_ServerID = [], sn_OperationID = [], sn_TargetFingerprint = [],
     sn_PublicationState = [], sn_PublicationRevision = [], sn_WriterFreezeReceiptSHA = [], sn_WriterFreezeHeld = False\<rparr>"

definition snapshot_fields :: "(string \<times> resetExecutionPhaseSnapshot field_decoder) list" where
  "snapshot_fields =
     [(''ObservedAt'', field json_time sn_ObservedAt sn_ObservedAt_update),
      (''ServerID'', field json_str sn_ServerID sn_ServerID_update),
      (''OperationID'', field json_str sn_OperationID sn_OperationID_update),
      (''TargetFingerprint'', field json_str sn_TargetFingerprint sn_TargetFingerprint_update),
      (''PublicationState'', field json_str sn_PublicationState sn_PublicationState_update),
      (''PublicationRevision'', field json_str sn_PublicationRevision sn_PublicationRevision_update),
      (''WriterFreezeReceiptSHA'', field json_str sn_WriterFreezeReceiptSHA sn_WriterFreezeReceiptSHA_update),
      (''WriterFreezeHeld'', field json_bool sn_WriterFreezeHeld sn_WriterFreezeHeld_update)]"

definition zero_attestation :: resetExecutionAttestation where
  "zero_attestation = \<lparr>at_Phase = [], at_PreviousSHA = [], at_StartedAt = zero_time, at_CompletedAt = zero_time,
     at_Snapshot = zero_snapshot, at_Space = \<lparr>sp_Device = 0, sp_AvailableBytes = 0, sp_AvailableInodes = 0\<rparr>, at_SHA = []\<rparr>"

definition attestation_fields :: "(string \<times> resetExecutionAttestation field_decoder) list" where
  "attestation_fields =
     [(''phase'', field json_str at_Phase at_Phase_update),
      (''previousSha256'', field json_str at_PreviousSHA at_PreviousSHA_update),
      (''startedAt'', field json_time at_StartedAt at_StartedAt_update),
      (''completedAt'', field json_time at_CompletedAt at_CompletedAt_update),
      (''snapshot'', field (strict_struct snapshot_fields) at_Snapshot at_Snapshot_update),
      (''space'', field json_space at_Space at_Space_update),
      (''sha256'', field json_str at_SHA at_SHA_update)]"

definition refs_fields :: "(string \<times> resetExecutionEvidenceRefs field_decoder) list" where
  "refs_fields =
     [(''approvalPlanSha256'', field json_str ev_ApprovalPlanSHA ev_ApprovalPlanSHA_update),
      (''executionReceiptSha256'', field json_str ev_ExecutionReceiptSHA ev_ExecutionReceiptSHA_update)]"

definition execution_fields :: "(string \<times> resetExecutionJournal field_decoder) list" where
  "execution_fields =
     [(''version'', field json_int rx_Version rx_Version_update),
      (''acceptedAtUnix'', field json_int rx_AcceptedAtUnix rx_AcceptedAtUnix_update),
      (''evidence'', field (strict_struct refs_fields) rx_Evidence rx_Evidence_update),
      (''targetFingerprint'', field json_str rx_TargetFingerprint rx_TargetFingerprint_update),
      (''requestFingerprint'', field json_str rx_RequestFingerprint rx_RequestFingerprint_update),
      (''attestations'', field (json_list (strict_struct attestation_fields) zero_attestation)
         rx_Attestations rx_Attestations_update)]"

definition zero_receipt :: resetPublicationReceipt where
  "zero_receipt = \<lparr>pr_Version = 0, pr_ServerID = [], pr_WorldID = 0, pr_OperationID = [], pr_Generation = None,
     pr_ScenarioCode = [], pr_TargetFingerprint = [], pr_PublicationRevision = [], pr_AppSourceSHA = [],
     pr_ImageDigests = [], pr_SelectedSourceReceiptSHA = [], pr_IsolatedSeedTickReceiptSHA = [],
     pr_ActualRuntimeReceiptSHA = [], pr_FirstTickReceiptSHA = [], pr_RoleValidationReceiptSHA = [],
     pr_BackupManifestSHA = [], pr_IssuedAtUnix = 0, pr_ExpiresAtUnix = 0,
     pr_Execution = \<lparr>rx_Version = 0, rx_AcceptedAtUnix = 0,
       rx_Evidence = \<lparr>ev_ApprovalPlanSHA = [], ev_ExecutionReceiptSHA = []\<rparr>, rx_TargetFingerprint = [],
       rx_RequestFingerprint = [], rx_Attestations = []\<rparr>\<rparr>"

definition receipt_fields :: "(string \<times> resetPublicationReceipt field_decoder) list" where
  "receipt_fields =
     [(''version'', field json_int pr_Version pr_Version_update),
      (''serverId'', field json_str pr_ServerID pr_ServerID_update),
      (''worldId'', field json_int pr_WorldID pr_WorldID_update),
      (''operationId'', field json_str pr_OperationID pr_OperationID_update),
      (''generation'', field (json_pointer json_int 0) pr_Generation pr_Generation_update),
      (''scenarioCode'', field json_str pr_ScenarioCode pr_ScenarioCode_update),
      (''targetFingerprint'', field json_str pr_TargetFingerprint pr_TargetFingerprint_update),
      (''publicationRevision'', field json_str pr_PublicationRevision pr_PublicationRevision_update),
      (''appSourceSha'', field json_str pr_AppSourceSHA pr_AppSourceSHA_update),
      (''imageDigests'', field json_map pr_ImageDigests pr_ImageDigests_update),
      (''selectedSourceReceiptSha256'', field json_str pr_SelectedSourceReceiptSHA pr_SelectedSourceReceiptSHA_update),
      (''isolatedSeedTickReceiptSha256'', field json_str pr_IsolatedSeedTickReceiptSHA pr_IsolatedSeedTickReceiptSHA_update),
      (''actualRuntimeReceiptSha256'', field json_str pr_ActualRuntimeReceiptSHA pr_ActualRuntimeReceiptSHA_update),
      (''firstTickReceiptSha256'', field json_str pr_FirstTickReceiptSHA pr_FirstTickReceiptSHA_update),
      (''roleValidationReceiptSha256'', field json_str pr_RoleValidationReceiptSHA pr_RoleValidationReceiptSHA_update),
      (''backupManifestSha256'', field json_str pr_BackupManifestSHA pr_BackupManifestSHA_update),
      (''issuedAtUnix'', field json_int pr_IssuedAtUnix pr_IssuedAtUnix_update),
      (''expiresAtUnix'', field json_int pr_ExpiresAtUnix pr_ExpiresAtUnix_update),
      (''execution'', field (strict_struct execution_fields) pr_Execution pr_Execution_update)]"

definition decode_receipt :: "string \<Rightarrow> resetPublicationReceipt result" where
  "decode_receipt = decodeResetPrivateJSON (\<lambda>_. True) (strict_struct receipt_fields zero_receipt)"

section \<open>Validation of a receipt\<close>

record resetExecutionEvidence =
  xe_Plan :: resetApprovalPlan
  xe_Preflight :: resetPreflightReceipt

definition succeeded_pep_reset :: "op_record \<Rightarrow> bool" where
  "succeeded_pep_reset op \<longleftrightarrow> op_kind op = KindReset \<and> op_subjectID op = ''pep'' \<and> op_status op = JobSucceeded"

definition receipt_identity_ok ::
    "resetPublicationReceipt \<Rightarrow> resetApprovalPlan \<Rightarrow> resetPreflightReceipt \<Rightarrow> op_record \<Rightarrow> bool" where
  "receipt_identity_ok pr plan pf op \<longleftrightarrow>
     pr_Version pr = 1 \<and> pr_ServerID pr = ''pep'' \<and> pr_WorldID pr = 1 \<and> pr_OperationID pr = ap_OperationID plan \<and>
     op_operationID op = ap_OperationID plan \<and> succeeded_pep_reset op \<and> pr_Generation pr = Some 0 \<and>
     pr_ScenarioCode pr = ''scenario_3190'' \<and> pr_TargetFingerprint pr = ap_TargetFingerprint plan \<and>
     pr_PublicationRevision pr = pf_PublicationRevision pf \<and> pr_AppSourceSHA pr = ap_AppSourceSHA plan \<and>
     pr_SelectedSourceReceiptSHA pr = ap_SelectedSourceReceiptSHA plan \<and>
     pr_IsolatedSeedTickReceiptSHA pr = ap_IsolatedSeedTickReceiptSHA plan \<and>
     pr_BackupManifestSHA pr = pf_BackupManifestSHA pf \<and> validResetFiveImageDigests (pr_ImageDigests pr) \<and>
     rx_AcceptedAtUnix (pr_Execution pr) = unix_of (op_createdAt op) \<and>
     rx_RequestFingerprint (pr_Execution pr) = op_fingerprint op \<and> length (rx_Attestations (pr_Execution pr)) = 3 \<and>
     validateResetExecutionJournal (pr_Execution pr) (ap_OperationID plan) (ap_Target plan) = Inr ()"

definition receipt_times_ok ::
    "resetPublicationReceipt \<Rightarrow> resetApprovalPlan \<Rightarrow> resetPreflightReceipt \<Rightarrow> time \<Rightarrow> bool" where
  "receipt_times_ok pr plan pf now \<longleftrightarrow>
     (let issued = of_unix (pr_IssuedAtUnix pr); a = rx_Attestations (pr_Execution pr) ! 2;
          completed = gt_instant (at_CompletedAt a) in
      \<not> (sn_PublicationRevision (at_Snapshot a) \<noteq> pf_PublicationRevision pf \<or>
         sn_WriterFreezeReceiptSHA (at_Snapshot a) \<noteq> ap_WriterFreezeReceiptSHA plan \<or>
         unix_of completed \<ge> ap_DestructiveCutoffUnix plan \<or> issued < completed \<or> issued > now \<or>
         pr_ExpiresAtUnix pr \<le> pr_IssuedAtUnix pr \<or> wrap64 (pr_ExpiresAtUnix pr - pr_IssuedAtUnix pr) > 30 \<or>
         pr_ExpiresAtUnix pr > ap_RecoveryDeadlineUnix plan \<or> unix_of now \<ge> pr_ExpiresAtUnix pr))"

definition validateResetPublicationReceipt ::
    "resetPublicationReceipt \<Rightarrow> resetExecutionEvidence \<Rightarrow> op_record \<Rightarrow> time \<Rightarrow> unit result" where
  "validateResetPublicationReceipt pr evidence op now =
     (let plan = xe_Plan evidence; pf = xe_Preflight evidence in
      if \<not> receipt_identity_ok pr plan pf op \<or>
         \<not> list_all (\<lambda>(service, pin). gm_str (pr_ImageDigests pr) service = pin) (ap_NewImageDigests plan) \<or>
         \<not> list_all resetEvidenceSHA
             [pr_ActualRuntimeReceiptSHA pr, pr_FirstTickReceiptSHA pr, pr_RoleValidationReceiptSHA pr] \<or>
         \<not> receipt_times_ok pr plan pf now
      then Inl ErrResetExecutionEvidence else Inr ())"

section \<open>Reading and delivering a receipt\<close>

text \<open>The calls of one reading, by the directory that is read.\<close>

type_synonym custody = "string \<Rightarrow> custody_calls"

definition evidence_dir :: "config \<Rightarrow> string \<Rightarrow> string" where
  "evidence_dir cfg name = filepath_join [cf_serversDir cfg, name]"

definition check_evidence ::
    "resetPublicationReceipt \<Rightarrow> resetApprovalPlan \<Rightarrow> resetPreflightReceipt \<Rightarrow> string \<Rightarrow> op_record \<Rightarrow> time \<Rightarrow> unit result" where
  "check_evidence pr plan pf opid op now =
     bind_r (validateResetApprovalPlan plan opid (ap_Target plan) (op_createdAt op)) (\<lambda>_.
     bind_r (validateResetPreflight pf plan (ev_ApprovalPlanSHA (rx_Evidence (pr_Execution pr))) (op_createdAt op)) (\<lambda>_.
       validateResetPublicationReceipt pr \<lparr>xe_Plan = plan, xe_Preflight = pf\<rparr> op now))"

definition readResetPublicationReceiptWithCustodyUID ::
    "config \<Rightarrow> op_store option \<Rightarrow> custody \<Rightarrow> string \<Rightarrow> string \<Rightarrow> time \<Rightarrow> nat \<Rightarrow> string result" where
  "readResetPublicationReceiptWithCustodyUID cfg store cu opid expectedSHA now uid =
     (case Option.bind store (Lookup opid) of
        None \<Rightarrow> Inl ErrResetExecutionEvidence
      | Some op \<Rightarrow>
          if \<not> lifecycleJobIDRe opid \<or> \<not> resetEvidenceSHA expectedSHA \<or> \<not> succeeded_pep_reset op
          then Inl ErrResetExecutionEvidence
          else
            let receipts = evidence_dir cfg ''.deployer-publication-receipts'';
                approvals = evidence_dir cfg ''.deployer-reset-approvals'';
                preflights = evidence_dir cfg ''.deployer-reset-preflights'' in
            bind_r (readResetPrivateCustody (cu receipts) receipts opid uid) (\<lambda>wire.
            if sha256_hex wire \<noteq> expectedSHA then Inl ErrResetExecutionEvidence
            else bind_r (decode_receipt wire) (\<lambda>pr.
            let refs = rx_Evidence (pr_Execution pr) in
            bind_r (readResetPrivateEvidence decode_plan (cu approvals) approvals opid (ev_ApprovalPlanSHA refs) uid) (\<lambda>plan.
            bind_r (readResetPrivateEvidence decode_preflight (cu preflights) preflights opid
                      (ev_ExecutionReceiptSHA refs) uid) (\<lambda>pf.
            map_sum id (\<lambda>_. wire) (check_evidence pr plan pf opid op now))))))"

definition readResetPublicationReceipt ::
    "config \<Rightarrow> op_store option \<Rightarrow> custody \<Rightarrow> string \<Rightarrow> string \<Rightarrow> time \<Rightarrow> string result" where
  "readResetPublicationReceipt cfg store cu opid expectedSHA now =
     readResetPublicationReceiptWithCustodyUID cfg store cu opid expectedSHA now 0"

text \<open>
  \<open>serveResetPublicationReceipt\<close>, with the parts of the path, whether a slot is free, and
  whether the request was cancelled meanwhile. The reply carries the bytes of the receipt.
\<close>

definition serveResetPublicationReceipt ::
    "string list \<Rightarrow> string \<Rightarrow> bool \<Rightarrow> bool \<Rightarrow> bool \<Rightarrow> (string \<Rightarrow> string \<Rightarrow> string result) \<Rightarrow> string reply" where
  "serveResetPublicationReceipt parts rawQuery isGet slot cancelled read =
     (if length parts \<noteq> 3 \<or> \<not> lifecycleJobIDRe (hd parts) \<or> parts ! 1 \<noteq> ''validation-receipt'' \<or>
         \<not> resetEvidenceSHA (parts ! 2) \<or> rawQuery \<noteq> []
      then error_reply 400 ''invalid receipt identity''
      else if \<not> isGet then error_reply 405 ''GET only''
      else if \<not> slot then error_reply 503 ''validation receipt unavailable''
      else case read (hd parts) (parts ! 2) of
        Inl e \<Rightarrow> error_reply 503 ''validation receipt unavailable''
      | Inr wire \<Rightarrow>
          if wire = [] \<or> length wire > resetEvidenceMaxBytes \<or> sha256_hex wire \<noteq> parts ! 2 \<or> cancelled
          then error_reply 503 ''validation receipt unavailable'' else ok_reply wire)"

definition isResetPublicationReceiptPath :: "string \<Rightarrow> bool" where
  "isResetPublicationReceiptPath path \<longleftrightarrow> (case split_on CHR ''/'' path of
     _ # p # _ \<Rightarrow> p = ''validation-receipt'' | _ \<Rightarrow> False)"

end
