(* ===== verification/ResetReceiptLaws.thy ===== *)
theory ResetReceiptLaws
  imports ResetReceipt
begin

text \<open>
  What a delivered publication receipt proves: when its evidence was made, in which order, and
  that all documents speak of one operation, one target and one set of images.
\<close>

section \<open>What the validations say\<close>

lemma valid_plan:
  "validateResetApprovalPlan plan op target now = Inr () \<longleftrightarrow>
     (ap_ApprovalIntentSHA plan \<noteq> [] \<longrightarrow> resetEvidenceSHA (ap_ApprovalIntentSHA plan)) \<and>
     plan_identity_ok plan op target \<and> plan_target_ok plan target \<and> list_all resetEvidenceSHA (plan_proofs plan) \<and>
     plan_window_ok plan now \<and> is_ok (resetRequiredSpace (ap_SpaceBudget plan))"
  by (auto simp: validateResetApprovalPlan_def)

lemma valid_preflight:
  "validateResetPreflight pf plan sha now = Inr () \<longleftrightarrow>
     (if ap_ApprovalIntentSHA plan = [] then pf_PreStopNativeProofSHA pf = []
      else resetEvidenceSHA (pf_PreStopNativeProofSHA pf)) \<and>
     preflight_identity_ok pf plan sha \<and> preflight_times_ok pf plan now \<and>
     stopped_containers_ok (pf_StoppedContainerIDs pf) \<and> preflight_space_ok pf (ap_SpaceBudget plan)"
  by (auto simp: validateResetPreflight_def)

lemma valid_receipt:
  "validateResetPublicationReceipt pr \<lparr>xe_Plan = plan, xe_Preflight = pf\<rparr> op now = Inr () \<longleftrightarrow>
     receipt_identity_ok pr plan pf op \<and>
     list_all (\<lambda>(service, pin). gm_str (pr_ImageDigests pr) service = pin) (ap_NewImageDigests plan) \<and>
     list_all resetEvidenceSHA [pr_ActualRuntimeReceiptSHA pr, pr_FirstTickReceiptSHA pr, pr_RoleValidationReceiptSHA pr] \<and>
     receipt_times_ok pr plan pf now"
  by (auto simp: validateResetPublicationReceipt_def Let_def)

lemma checked_evidence:
  "check_evidence pr plan pf opid op now = Inr () \<longleftrightarrow>
     validateResetApprovalPlan plan opid (ap_Target plan) (op_createdAt op) = Inr () \<and>
     validateResetPreflight pf plan (ev_ApprovalPlanSHA (rx_Evidence (pr_Execution pr))) (op_createdAt op) = Inr () \<and>
     validateResetPublicationReceipt pr \<lparr>xe_Plan = plan, xe_Preflight = pf\<rparr> op now = Inr ()"
  by (auto simp: check_evidence_def bind_r_def split: sum.splits)

text \<open>An image of the plan is the image of the receipt.\<close>

lemma digest_nonempty: "resetManifestDigest s \<Longrightarrow> s \<noteq> []"
  by (auto simp: resetManifestDigest_def has_prefix_def)

lemma pinned_same:
  assumes "list_all (\<lambda>(service, pin). gm_str m service = pin) pins" and "resetManifestDigest (gm_str pins s)"
  shows "gm_str m s = gm_str pins s"
proof -
  obtain d where d: "map_of pins s = Some d"
    using digest_nonempty[OF assms(2)] by (auto simp: gm_str_def split: option.splits)
  then have "(s, d) \<in> set pins" by (rule map_of_SomeD)
  then show ?thesis using assms(1) d by (auto simp: list_all_iff gm_str_def)
qed

lemma three_attestations:
  assumes "length as = 3" and "attestation_chain r opid reset_phases [] t None as = Inr ()"
  obtains a b c where "as = [a, b, c]" "map at_Phase [a, b, c] = reset_phases" "chained [a, b, c]"
    "t \<le> gt_instant (at_StartedAt a)" "list_all (attestation_sound r opid) [a, b, c]"
proof -
  obtain a b c where as: "as = [a, b, c]"
    using assms(1) by (auto simp: numeral_3_eq_3 length_Suc_conv)
  show ?thesis using assms(2) unfolding as chain_iff
    by (intro that[of a b c]) (simp_all add: as reset_phases_def)
qed

lemma attestation_order:
  "attestation_sound r opid a \<Longrightarrow> gt_instant (at_StartedAt a) \<le> gt_instant (at_CompletedAt a)"
  by (auto simp: attestation_sound_def)

section \<open>The order of the evidence\<close>

definition evidence_order ::
    "resetPublicationReceipt \<Rightarrow> resetApprovalPlan \<Rightarrow> resetPreflightReceipt \<Rightarrow> time \<Rightarrow> time \<Rightarrow> bool" where
  "evidence_order pr plan pf created now \<longleftrightarrow>
     of_unix (ap_WindowOpensAtUnix plan) \<le> created \<and> created < of_unix (ap_DestructiveCutoffUnix plan) \<and>
     of_unix (pf_ObservedAtUnix pf) \<le> created \<and> created < of_unix (pf_ObservedAtUnix pf) + 30 * second \<and>
     created < of_unix (pf_ExpiresAtUnix pf) \<and>
     (\<exists>a b c. rx_Attestations (pr_Execution pr) = [a, b, c] \<and> map at_Phase [a, b, c] = reset_phases \<and>
        of_unix (unix_of created) \<le> gt_instant (at_StartedAt a) \<and>
        sorted (concat (map (\<lambda>x. [gt_instant (at_StartedAt x), gt_instant (at_CompletedAt x)]) [a, b, c])) \<and>
        unix_of (gt_instant (at_CompletedAt c)) < ap_DestructiveCutoffUnix plan \<and>
        gt_instant (at_CompletedAt c) \<le> of_unix (pr_IssuedAtUnix pr) \<and>
        list_all (\<lambda>x. sn_PublicationRevision (at_Snapshot x) = pf_PublicationRevision pf \<and>
          sn_WriterFreezeReceiptSHA (at_Snapshot x) = ap_WriterFreezeReceiptSHA plan) [a, b, c]) \<and>
     of_unix (pr_IssuedAtUnix pr) \<le> now \<and> unix_of now < pr_ExpiresAtUnix pr \<and>
     wrap64 (pr_ExpiresAtUnix pr - pr_IssuedAtUnix pr) \<le> 30"

lemma evidence_ordered:
  assumes "check_evidence pr plan pf opid op now = Inr ()"
  shows "evidence_order pr plan pf (op_createdAt op) now"
proof -
  note v = assms[unfolded checked_evidence valid_plan valid_preflight valid_receipt]
  from v have w: "plan_window_ok plan (op_createdAt op)" and p: "preflight_times_ok pf plan (op_createdAt op)"
    and i: "receipt_identity_ok pr plan pf op" and t: "receipt_times_ok pr plan pf now" by blast+
  let ?x = "pr_Execution pr"
  from i have len: "length (rx_Attestations ?x) = 3" and acc: "rx_AcceptedAtUnix ?x = unix_of (op_createdAt op)"
    and x: "validateResetExecutionJournal ?x (ap_OperationID plan) (ap_Target plan) = Inr ()"
    by (auto simp: receipt_identity_ok_def)
  from x have ch: "attestation_chain ?x (ap_OperationID plan) reset_phases [] (of_unix (rx_AcceptedAtUnix ?x)) None
      (rx_Attestations ?x) = Inr ()"
    unfolding validated_journal_iff by blast
  obtain a b c where abc: "rx_Attestations ?x = [a, b, c]" "map at_Phase [a, b, c] = reset_phases" "chained [a, b, c]"
    "of_unix (rx_AcceptedAtUnix ?x) \<le> gt_instant (at_StartedAt a)"
    "list_all (attestation_sound ?x (ap_OperationID plan)) [a, b, c]"
    by (rule three_attestations[OF len ch])
  have links: "chain_link a b" "chain_link b c" using abc(3) by simp_all
  have sound: "gt_instant (at_StartedAt y) \<le> gt_instant (at_CompletedAt y)" if "y \<in> {a, b, c}" for y
    using abc(5) that attestation_order by auto
  have c: "sn_PublicationRevision (at_Snapshot c) = pf_PublicationRevision pf"
    "sn_WriterFreezeReceiptSHA (at_Snapshot c) = ap_WriterFreezeReceiptSHA plan"
    "unix_of (gt_instant (at_CompletedAt c)) < ap_DestructiveCutoffUnix plan"
    "gt_instant (at_CompletedAt c) \<le> of_unix (pr_IssuedAtUnix pr)"
    using t by (auto simp: receipt_times_ok_def abc(1) Let_def)
  have "sorted (concat (map (\<lambda>x. [gt_instant (at_StartedAt x), gt_instant (at_CompletedAt x)]) [a, b, c]))"
    using links sound[of a] sound[of b] sound[of c] unfolding chain_link_def by simp
  moreover have "list_all (\<lambda>x. sn_PublicationRevision (at_Snapshot x) = pf_PublicationRevision pf \<and>
      sn_WriterFreezeReceiptSHA (at_Snapshot x) = ap_WriterFreezeReceiptSHA plan) [a, b, c]"
    using links c(1,2) unfolding chain_link_def by simp
  ultimately show ?thesis
    using w p t abc(1,2,4) acc c(3,4)
    unfolding evidence_order_def plan_window_ok_def preflight_times_ok_def receipt_times_ok_def resetPreflightMaxAge_def Let_def
    by auto
qed

text \<open>
  C18. A receipt rests on evidence made in order. When the evidence of a publication receipt is
  accepted, the operation was admitted within the approved window and within thirty seconds of
  its preflight; three attested phases, in their order, follow its admission and each other,
  end before the destructive cutoff and before the receipt was issued, and all name the same
  publication revision and writer freeze; the receipt is not older than thirty seconds. The
  five images of the receipt are the approved ones, and the operation was reserved for exactly
  the approved target and these two documents.
\<close>

theorem receipt_evidence_ordered:
  assumes "check_evidence pr plan pf opid op now = Inr ()"
  shows "evidence_order pr plan pf (op_createdAt op) now \<and>
    list_all (\<lambda>s. gm_str (pr_ImageDigests pr) s = gm_str (ap_NewImageDigests plan) s \<and>
      resetManifestDigest (gm_str (pr_ImageDigests pr) s)) five_services \<and>
    list_all (\<lambda>s. gm_str (rt_ImageDigests (ap_Target plan)) s = gm_str (pr_ImageDigests pr) s) resetImageServices \<and>
    resetExecutionRequestFingerprint ''pep'' (ap_Target plan) (rx_Evidence (pr_Execution pr)) = Inr (op_fingerprint op)"
proof -
  note v = assms[unfolded checked_evidence valid_plan valid_preflight valid_receipt]
  from v have pins: "list_all (\<lambda>(service, pin). gm_str (pr_ImageDigests pr) service = pin) (ap_NewImageDigests plan)"
    and i: "receipt_identity_ok pr plan pf op" and five: "validResetFiveImageDigests (ap_NewImageDigests plan)"
    and target: "plan_target_ok plan (ap_Target plan)"
    by (auto simp: plan_identity_ok_def)
  have same: "gm_str (pr_ImageDigests pr) s = gm_str (ap_NewImageDigests plan) s \<and>
      resetManifestDigest (gm_str (pr_ImageDigests pr) s)" if "s \<in> set five_services" for s
    using pinned_same[OF pins, of s] five that by (auto simp: validResetFiveImageDigests_def list_all_iff)
  moreover have "gm_str (rt_ImageDigests (ap_Target plan)) s = gm_str (pr_ImageDigests pr) s"
    if "s \<in> set resetImageServices" for s
    using same[of s] target that by (auto simp: plan_target_ok_def list_all_iff resetImageServices_def five_services_def)
  moreover have "resetExecutionRequestFingerprint ''pep'' (ap_Target plan) (rx_Evidence (pr_Execution pr)) = Inr (op_fingerprint op)"
    using i unfolding receipt_identity_ok_def validated_journal_iff by auto
  ultimately show ?thesis using evidence_ordered[OF assms] unfolding list_all_iff by blast
qed

section \<open>Delivery\<close>

lemma custody_kept:
  "readResetPrivateCustody cu directory opid uid = Inr wire \<Longrightarrow>
     cu_wire cu = Some wire \<and> length wire \<le> resetEvidenceMaxBytes \<and>
     (\<exists>d f. cu_dir cu = Some d \<and> cu_file cu = Some f \<and> private_dir uid d \<and> private_file uid f \<and> fl_IsRegular f)"
  by (auto simp: readResetPrivateCustody_def split: if_splits option.splits)

lemma evidence_read:
  "readResetPrivateEvidence rd cu directory opid sha uid = Inr x \<longleftrightarrow>
     (\<exists>wire. resetEvidenceSHA sha \<and> readResetPrivateCustody cu directory opid uid = Inr wire \<and>
        sha256_hex wire = sha \<and> rd wire = Inr x)"
  by (auto simp: readResetPrivateEvidence_def bind_r_def split: sum.splits)

lemma map_unit_ok: "map_sum id (\<lambda>_. w) x = Inr v \<longleftrightarrow> x = Inr () \<and> v = w"
  by (cases x) auto

text \<open>A text that root alone keeps for an operation in one of the three directories.\<close>

definition kept_text :: "config \<Rightarrow> custody \<Rightarrow> string \<Rightarrow> string \<Rightarrow> string \<Rightarrow> bool" where
  "kept_text cfg cu name opid text' \<longleftrightarrow> (let dir = evidence_dir cfg name in
     readResetPrivateCustody (cu dir) dir opid 0 = Inr text')"

lemma kept_job: "kept_text cfg cu name opid text' \<Longrightarrow> lifecycleJobIDRe opid"
  by (auto simp: kept_text_def Let_def readResetPrivateCustody_def normalizeLifecycleOperationID_def split: if_splits)

lemma kept_length: "kept_text cfg cu name opid text' \<Longrightarrow> length text' \<le> resetEvidenceMaxBytes"
  using custody_kept by (auto simp: kept_text_def Let_def)

lemma hash_evidence: "resetEvidenceSHA (sha256_hex s)"
  by (simp add: resetEvidenceSHA_def sha256_hex_string)

text \<open>
  A proven receipt: it, the plan and the preflight it names by their hashes are kept so, are
  strictly well formed, and pass the checks against the succeeded reset of pep.
\<close>

definition proven_receipt :: "config \<Rightarrow> op_store option \<Rightarrow> custody \<Rightarrow> time \<Rightarrow> string \<Rightarrow> string \<Rightarrow> bool" where
  "proven_receipt cfg store cu now opid wire \<longleftrightarrow>
     (\<exists>op pr plan pf plan_text pf_text. Option.bind store (Lookup opid) = Some op \<and> succeeded_pep_reset op \<and>
        kept_text cfg cu ''.deployer-publication-receipts'' opid wire \<and> decode_receipt wire = Inr pr \<and>
        kept_text cfg cu ''.deployer-reset-approvals'' opid plan_text \<and> decode_plan plan_text = Inr plan \<and>
        sha256_hex plan_text = ev_ApprovalPlanSHA (rx_Evidence (pr_Execution pr)) \<and>
        kept_text cfg cu ''.deployer-reset-preflights'' opid pf_text \<and> decode_preflight pf_text = Inr pf \<and>
        sha256_hex pf_text = ev_ExecutionReceiptSHA (rx_Evidence (pr_Execution pr)) \<and>
        check_evidence pr plan pf opid op now = Inr ())"

lemma read_evidence_ok:
  "readResetPrivateEvidence rd (cu (evidence_dir cfg n)) (evidence_dir cfg n) opid sha 0 = Inr x \<longleftrightarrow>
     (\<exists>t. kept_text cfg cu n opid t \<and> rd t = Inr x \<and> sha256_hex t = sha)"
  unfolding evidence_read kept_text_def Let_def using hash_evidence by blast

lemma receipt_read:
  "readResetPublicationReceipt cfg store cu opid sha now = Inr wire \<longleftrightarrow>
     sha256_hex wire = sha \<and> proven_receipt cfg store cu now opid wire"
proof (cases "Option.bind store (Lookup opid)")
  case (Some op)
  have "readResetPublicationReceipt cfg store cu opid sha now = Inr wire \<longleftrightarrow>
     lifecycleJobIDRe opid \<and> resetEvidenceSHA sha \<and> succeeded_pep_reset op \<and> sha256_hex wire = sha \<and>
     kept_text cfg cu ''.deployer-publication-receipts'' opid wire \<and>
     (\<exists>pr plan pf. decode_receipt wire = Inr pr \<and>
        readResetPrivateEvidence decode_plan (cu (evidence_dir cfg ''.deployer-reset-approvals''))
          (evidence_dir cfg ''.deployer-reset-approvals'') opid (ev_ApprovalPlanSHA (rx_Evidence (pr_Execution pr))) 0 = Inr plan \<and>
        readResetPrivateEvidence decode_preflight (cu (evidence_dir cfg ''.deployer-reset-preflights''))
          (evidence_dir cfg ''.deployer-reset-preflights'') opid
          (ev_ExecutionReceiptSHA (rx_Evidence (pr_Execution pr))) 0 = Inr pf \<and>
        check_evidence pr plan pf opid op now = Inr ())"
    by (auto simp: readResetPublicationReceipt_def readResetPublicationReceiptWithCustodyUID_def bind_r_def Let_def
        map_unit_ok kept_text_def Some split: sum.splits if_splits)
  then show ?thesis
    unfolding read_evidence_ok proven_receipt_def Some option.inject
    using kept_job[of cfg cu _ opid wire] hash_evidence[of wire] by (simp only: ex_simps simp_thms) blast
qed (auto simp: readResetPublicationReceipt_def readResetPublicationReceiptWithCustodyUID_def proven_receipt_def)


section \<open>An accepted receipt\<close>

definition hex_of :: "nat \<Rightarrow> char \<Rightarrow> string" where
  "hex_of n c = replicate n c"

definition ex_digests :: "string list \<Rightarrow> env" where
  "ex_digests services = map (\<lambda>s. (s, ''sha256:'' @ hex_of 64 CHR ''4'')) services"

definition ex_d101_target :: resetLifecycleTarget where
  "ex_d101_target = \<lparr>rt_StorageImageDigests = ex_digests resetStorageServices, rt_ScenarioCode = ''scenario_3190'',
     rt_Generation = 0, rt_ScenarioSeedEnabled = True,
     rt_Updates = fixed_settings @ [(''IMAGE_TAG'', hex_of 40 CHR ''1''), (''WEB_GAME_TAG'', hex_of 40 CHR ''1'')],
     rt_ImageDigests = ex_digests resetImageServices\<rparr>"

definition ex_budget :: resetSpaceBudget where
  "ex_budget = \<lparr>sb_CandidateUnpackedBytes = Some 5, sb_BackupBytes = Some 5, sb_RecoveryBytes = Some 5,
     sb_TemporaryBytes = Some 5, sb_NewFileCount = Some 5, sb_InodeReserve = Some 5\<rparr>"

text \<open>The fingerprint of the target is an argument: it is nowhere computed.\<close>

definition ex_plan :: "string \<Rightarrow> resetApprovalPlan" where
  "ex_plan fp = \<lparr>ap_ApprovalIntentSHA = [], ap_Version = 1, ap_ServerID = ''pep'', ap_WorldID = 1, ap_OperationID = ex_opid,
     ap_TargetFingerprint = fp, ap_AppSourceSHA = hex_of 40 CHR ''1'', ap_Target = ex_d101_target,
     ap_OldImageDigests = ex_digests five_services, ap_NewImageDigests = ex_digests five_services,
     ap_WindowOpensAtUnix = 1699999000, ap_DestructiveCutoffUnix = 1700003600, ap_RecoveryDeadlineUnix = 1700007200,
     ap_ApprovalReceiptSHA = hex_of 64 CHR ''5'', ap_CombinedCIReceiptSHA = hex_of 64 CHR ''5'',
     ap_SelectedSourceReceiptSHA = hex_of 64 CHR ''5'', ap_IsolatedSeedTickReceiptSHA = hex_of 64 CHR ''5'',
     ap_WriterFreezeReceiptSHA = hex_of 64 CHR ''e'', ap_SpaceInventoryReceiptSHA = hex_of 64 CHR ''5'',
     ap_SpaceBudget = ex_budget\<rparr>"

definition ex_preflight :: "string \<Rightarrow> resetPreflightReceipt" where
  "ex_preflight fp = \<lparr>pf_Version = 1, pf_ServerID = ''pep'', pf_WorldID = 1, pf_OperationID = ex_opid,
     pf_TargetFingerprint = fp, pf_ApprovalPlanSHA = hex_of 64 CHR ''b'', pf_AppSourceSHA = hex_of 40 CHR ''1'',
     pf_NewImageDigests = ex_digests five_services, pf_OldImageDigests = ex_digests five_services,
     pf_ObservedAtUnix = 1699999990, pf_ExpiresAtUnix = 1700000015, pf_PublicationState = ''VERIFYING'',
     pf_PublicationRevision = ''12'', pf_WriterFreezeReceiptSHA = hex_of 64 CHR ''e'', pf_DrainReceiptSHA = hex_of 64 CHR ''6'',
     pf_BackupManifestSHA = hex_of 64 CHR ''7'', pf_PreStopNativeProofSHA = [], pf_BackupRetainUntilUnix = 1701000000,
     pf_RestoreVerified = Some False, pf_FilesystemDevice = Some 1, pf_AvailableBytes = Some 99999999999,
     pf_AvailableInodes = Some 99, pf_UnfinishedTemporaryBytes = Some 1, pf_RemainingNewFileCount = Some 1,
     pf_StoppedContainerIDs = map (\<lambda>(s, c). (s, hex_of 64 c)) (zip five_services ''12345''),
     pf_DatabaseClientCount = Some 0\<rparr>"

definition ex_execution :: "string \<Rightarrow> string \<Rightarrow> resetExecutionJournal" where
  "ex_execution fp rf = \<lparr>rx_Version = 1, rx_AcceptedAtUnix = 1700000000, rx_Evidence = ex_refs,
     rx_TargetFingerprint = fp, rx_RequestFingerprint = rf, rx_Attestations = []\<rparr>"

definition ex_phase :: "string \<Rightarrow> string \<Rightarrow> nat \<Rightarrow> resetExecutionAttestation" where
  "ex_phase fp rf n = rec_nat (ex_attestation (ex_execution fp rf) ''prepared'' [] 1700000001)
     (\<lambda>i a. ex_attestation (ex_execution fp rf) (reset_phases ! Suc i) (at_SHA a) (1700000001 + 6 * (int i + 1))) n"

definition ex_receipt :: "string \<Rightarrow> string \<Rightarrow> resetPublicationReceipt" where
  "ex_receipt fp rf = \<lparr>pr_Version = 1, pr_ServerID = ''pep'', pr_WorldID = 1, pr_OperationID = ex_opid,
     pr_Generation = Some 0, pr_ScenarioCode = ''scenario_3190'', pr_TargetFingerprint = fp,
     pr_PublicationRevision = ''12'', pr_AppSourceSHA = hex_of 40 CHR ''1'', pr_ImageDigests = ex_digests five_services,
     pr_SelectedSourceReceiptSHA = hex_of 64 CHR ''5'', pr_IsolatedSeedTickReceiptSHA = hex_of 64 CHR ''5'',
     pr_ActualRuntimeReceiptSHA = hex_of 64 CHR ''8'', pr_FirstTickReceiptSHA = hex_of 64 CHR ''8'',
     pr_RoleValidationReceiptSHA = hex_of 64 CHR ''8'', pr_BackupManifestSHA = hex_of 64 CHR ''7'',
     pr_IssuedAtUnix = 1700000100, pr_ExpiresAtUnix = 1700000130,
     pr_Execution = (ex_execution fp rf)\<lparr>rx_Attestations := [ex_phase fp rf 0, ex_phase fp rf 1, ex_phase fp rf 2]\<rparr>\<rparr>"

definition ex_reset_op :: "string \<Rightarrow> op_record" where
  "ex_reset_op rf = zero_op_record\<lparr>op_operationID := ex_opid, op_kind := KindReset, op_subjectID := ''pep'',
     op_fingerprint := rf, op_status := JobSucceeded, op_createdAt := of_unix 1700000000\<rparr>"

lemma ex_plan_parts:
  "plan_target_ok (ex_plan fp) ex_d101_target"
  "list_all resetEvidenceSHA (plan_proofs (ex_plan fp))"
  "plan_window_ok (ex_plan fp) (of_unix 1700000000)"
  "is_ok (resetRequiredSpace (ap_SpaceBudget (ex_plan fp)))"
  by code_simp+

lemma ex_preflight_parts:
  "preflight_times_ok (ex_preflight fp) (ex_plan fp) (of_unix 1700000000)"
  "stopped_containers_ok (pf_StoppedContainerIDs (ex_preflight fp))"
  "preflight_space_ok (ex_preflight fp) (ap_SpaceBudget (ex_plan fp))"
  by code_simp+

lemma ex_image_parts:
  "validResetFiveImageDigests (ex_digests five_services)"
  "same_map (ex_digests five_services) (ex_digests five_services)"
  "equal_target ex_d101_target ex_d101_target"
  "list_all (\<lambda>(service, pin). gm_str (ex_digests five_services) service = pin) (ex_digests five_services)"
  by code_simp+

lemma ex_hash_parts:
  "gitSHA40 (hex_of 40 CHR ''1'')"
  "resetEvidenceSHA (hex_of 64 CHR ''b'')"
  "resetEvidenceSHA (hex_of 64 CHR ''6'')"
  "resetEvidenceSHA (hex_of 64 CHR ''7'')"
  "resetEvidenceSHA (hex_of 64 CHR ''8'')"
  "canonical_revision ''12''"
  by code_simp+

lemma ex_id_parts:
  "normalizeLifecycleOperationID ex_opid = Inr ex_opid"
  "ex_opid \<noteq> []"
  "lifecycleJobIDRe ex_opid"
  "gm_str (rt_Updates ex_d101_target) ''IMAGE_TAG'' = hex_of 40 CHR ''1''"
  "gm_str (rt_Updates ex_d101_target) ''WEB_GAME_TAG'' = hex_of 40 CHR ''1''"
  "unix_of (of_unix 1700000000) = 1700000000"
  by code_simp+

lemma ex_ref_parts:
  "resetEvidenceSHA (ev_ApprovalPlanSHA ex_refs)"
  "resetEvidenceSHA (ev_ExecutionReceiptSHA ex_refs)"
  "ev_ApprovalPlanSHA ex_refs = hex_of 64 CHR ''b''"
  by code_simp+

lemmas ex_evidence_parts = ex_plan_parts ex_preflight_parts ex_image_parts ex_hash_parts ex_id_parts ex_ref_parts

lemma ex_execution_valid:
  assumes "fp = resetRequestFingerprint ''pep'' ex_d101_target"
    and "resetExecutionRequestFingerprint ''pep'' ex_d101_target ex_refs = Inr rf"
  shows "validateResetExecutionJournal (pr_Execution (ex_receipt fp rf)) ex_opid ex_d101_target = Inr ()"
proof -
  let ?r = "ex_execution fp rf"
  let ?as = "[ex_phase fp rf 0, ex_phase fp rf 1, ex_phase fp rf 2]"
  have phases: "ex_phase fp rf 0 = ex_attestation ?r ''prepared'' [] 1700000001"
    "ex_phase fp rf 1 = ex_attestation ?r ''before-journal'' (at_SHA (ex_phase fp rf 0)) 1700000007"
    "ex_phase fp rf 2 = ex_attestation ?r ''before-down'' (at_SHA (ex_phase fp rf 1)) 1700000013"
    by (simp_all add: ex_phase_def reset_phases_def numeral_2_eq_2)
  have links: "chain_link (ex_phase fp rf 0) (ex_phase fp rf 1)" "chain_link (ex_phase fp rf 1) (ex_phase fp rf 2)"
    unfolding phases(1,2,3) by (rule ex_attestation_linked; simp)+
  have "list_all (attestation_sound (?r\<lparr>rx_Attestations := ?as\<rparr>) ex_opid) ?as"
    unfolding phases(1,2,3) using ex_attestation_sound by simp
  then have "attestation_chain (?r\<lparr>rx_Attestations := ?as\<rparr>) ex_opid reset_phases [] (of_unix 1700000000) None ?as = Inr ()"
    unfolding chain_iff using links
    by (simp add: phases phases(2)[unfolded One_nat_def] ex_attestation_fields reset_phases_def of_unix_small go_defs)
  then show ?thesis
    using assms ex_evidence_parts
    unfolding validated_journal_iff by (auto simp: ex_receipt_def ex_execution_def hex_of_def ex_refs_def)
qed

lemma ex_evidence_accepted:
  assumes fp: "fp = resetRequestFingerprint ''pep'' ex_d101_target"
    and rf: "resetExecutionRequestFingerprint ''pep'' ex_d101_target ex_refs = Inr rf"
  shows "check_evidence (ex_receipt fp rf) (ex_plan fp) (ex_preflight fp) ex_opid (ex_reset_op rf) (of_unix 1700000110) = Inr ()"
proof -
  have created: "op_createdAt (ex_reset_op rf) = of_unix 1700000000" by (simp add: ex_reset_op_def)
  have target: "ap_Target (ex_plan fp) = ex_d101_target" by (simp add: ex_plan_def)
  have refs: "ev_ApprovalPlanSHA (rx_Evidence (pr_Execution (ex_receipt fp rf))) = hex_of 64 CHR ''b''"
    using ex_ref_parts(3) by (simp add: ex_receipt_def ex_execution_def)
  have "plan_identity_ok (ex_plan fp) ex_opid ex_d101_target"
    using ex_evidence_parts fp by (simp add: plan_identity_ok_def ex_plan_def)
  then have "validateResetApprovalPlan (ex_plan fp) ex_opid ex_d101_target (of_unix 1700000000) = Inr ()"
    unfolding valid_plan using ex_plan_parts[of fp] by (simp add: ex_plan_def)
  moreover have "preflight_identity_ok (ex_preflight fp) (ex_plan fp) (hex_of 64 CHR ''b'')"
    using ex_evidence_parts by (simp add: preflight_identity_ok_def ex_preflight_def ex_plan_def)
  then have "validateResetPreflight (ex_preflight fp) (ex_plan fp) (hex_of 64 CHR ''b'') (of_unix 1700000000) = Inr ()"
    unfolding valid_preflight using ex_preflight_parts[of fp] by (simp add: ex_plan_def ex_preflight_def)
  moreover have "receipt_identity_ok (ex_receipt fp rf) (ex_plan fp) (ex_preflight fp) (ex_reset_op rf)"
    using ex_execution_valid[OF fp rf] ex_image_parts ex_id_parts
    by (simp add: receipt_identity_ok_def ex_receipt_def ex_plan_def ex_preflight_def ex_reset_op_def
        succeeded_pep_reset_def ex_execution_def)
  moreover have "receipt_times_ok (ex_receipt fp rf) (ex_plan fp) (ex_preflight fp) (of_unix 1700000110)"
    by (simp add: receipt_times_ok_def ex_receipt_def ex_plan_def ex_preflight_def ex_phase_def ex_attestation_fields
        numeral_2_eq_2 nth_Cons')
      (simp add: ex_unsigned_def hex_of_def of_unix_small unix_of_def wrap64_def unix_epoch_def go_defs)
  ultimately show ?thesis
    unfolding checked_evidence valid_receipt created target refs
    using ex_image_parts ex_hash_parts by (simp add: ex_receipt_def ex_plan_def)
qed

theorem receipt_evidence_ordered_witness:
  "\<exists>fp rf. evidence_order (ex_receipt fp rf) (ex_plan fp) (ex_preflight fp) (of_unix 1700000000) (of_unix 1700000110) \<and>
     resetExecutionRequestFingerprint ''pep'' ex_d101_target ex_refs = Inr rf"
proof -
  have "is_ok (resetExecutionRequestFingerprint ''pep'' ex_d101_target ex_refs)"
    using ex_ref_parts by (simp add: resetExecutionRequestFingerprint_def normalizeResetExecutionEvidenceRefs_def)
  then obtain rf where rf: "resetExecutionRequestFingerprint ''pep'' ex_d101_target ex_refs = Inr rf"
    by (auto simp: is_ok_iff)
  have "op_createdAt (ex_reset_op rf) = of_unix 1700000000" by (simp add: ex_reset_op_def)
  with receipt_evidence_ordered[OF ex_evidence_accepted[OF refl rf]] rf show ?thesis by auto
qed

end
