(* ===== verification/Http.thy ===== *)
theory Http
  imports Verify
begin

text \<open>
  The HTTP side of main.go before any handler: requests as the standard library delivers
  them, the bearer token and the loopback check (\<open>withAuth\<close>, \<open>withLoopback\<close>,
  \<open>isLoopbackRequest\<close>), the routes of \<open>main\<close>, the command line (\<open>earlyCommand\<close>,
  \<open>authenticatedHTTPCommand\<close>), and the lists of image tags. Of Go's net, net/url and net/http the
  part the source uses is written out: addresses, escapes, query strings, path patterns.
\<close>

section \<open>Requests\<close>

text \<open>
  The path is the escaped one of the request line. A body is none when reading it fails
  within the limit.
\<close>

record http_request =
  hq_Method :: string
  hq_Path :: string
  hq_RawQuery :: string
  hq_Authorization :: string
  hq_MaintenanceLease :: string
  hq_RemoteAddr :: string
  hq_Body :: "string option"

definition limited_body :: "http_request \<Rightarrow> string option" where
  "limited_body q = map_option (take (2 ^ 16)) (hq_Body q)"

text \<open>\<open>url.PathUnescape\<close> and \<open>url.QueryUnescape\<close>, which also reads a plus as a space.\<close>

fun url_unescape :: "bool \<Rightarrow> string \<Rightarrow> string option" where
  "url_unescape query [] = Some []"
| "url_unescape query (c # s) =
     (if c = CHR ''%'' then
        (case s of
           a # b # t \<Rightarrow>
             (case (hex_value a, hex_value b) of
                (Some x, Some y) \<Rightarrow> map_option (Cons (char_of (16 * x + y))) (url_unescape query t)
              | _ \<Rightarrow> None)
         | _ \<Rightarrow> None)
      else map_option (Cons (if query \<and> c = CHR ''+'' then CHR '' '' else c)) (url_unescape query s))"

text \<open>\<open>URL.Query().Get\<close>: pairs that are malformed are dropped; the first value counts.\<close>

definition query_pair :: "string \<Rightarrow> (string \<times> string) option" where
  "query_pair part =
     (if part = [] \<or> CHR '';'' \<in> set part then None
      else let (k, v) = cut_at CHR ''='' part in
        Option.bind (url_unescape True k) (\<lambda>k'.
          map_option (Pair k') (url_unescape True (case v of None \<Rightarrow> [] | Some x \<Rightarrow> x))))"

definition query_get :: "http_request \<Rightarrow> string \<Rightarrow> string" where
  "query_get q key = gm_str (List.map_filter query_pair (split_on CHR ''&'' (hq_RawQuery q))) key"

definition url_path :: "http_request \<Rightarrow> string" where
  "url_path q = (case url_unescape False (hq_Path q) of None \<Rightarrow> [] | Some p \<Rightarrow> p)"

section \<open>The token\<close>

definition authorised :: "config \<Rightarrow> http_request \<Rightarrow> bool" where
  "authorised cfg q \<longleftrightarrow> (let want = ''Bearer '' @ cf_token cfg in
     length (hq_Authorization q) = length want \<and> secureEqual (hq_Authorization q) want)"

section \<open>Loopback addresses\<close>

definition last_index :: "char \<Rightarrow> string \<Rightarrow> nat option" where
  "last_index c s = (if c \<in> set s then Some (length s - 1 - length (takeWhile (\<lambda>x. x \<noteq> c) (rev s))) else None)"

definition first_index :: "char \<Rightarrow> string \<Rightarrow> nat option" where
  "first_index c s = (if c \<in> set s then Some (length (takeWhile (\<lambda>x. x \<noteq> c) s)) else None)"

text \<open>\<open>net.SplitHostPort\<close>, as far as the host.\<close>

definition split_host :: "string \<Rightarrow> string option" where
  "split_host hostport =
     (case last_index CHR '':'' hostport of
        None \<Rightarrow> None
      | Some i \<Rightarrow>
          if hd hostport = CHR ''['' then
            (case first_index CHR '']'' hostport of
               None \<Rightarrow> None
             | Some n \<Rightarrow>
                 if n + 1 \<noteq> i \<or> CHR ''['' \<in> set (drop 1 hostport) \<or> CHR '']'' \<in> set (drop (n + 1) hostport) then None
                 else Some (drop 1 (take n hostport)))
          else if CHR '':'' \<in> set (take i hostport) \<or> CHR ''['' \<in> set hostport \<or> CHR '']'' \<in> set hostport then None
          else Some (take i hostport))"

text \<open>\<open>net.ParseIP\<close>: four decimal octets, or eight hexadecimal groups of which one run may be left out.\<close>

definition ip_octet :: "string \<Rightarrow> nat option" where
  "ip_octet s = (if s \<noteq> [] \<and> list_all is_digit s \<and> (length s = 1 \<or> hd s \<noteq> CHR ''0'')
     then (let n = foldl (\<lambda>n c. 10 * n + (byte c - 48)) 0 s in if n \<le> 255 then Some n else None) else None)"

definition parse_ip4 :: "string \<Rightarrow> nat list option" where
  "parse_ip4 s = (let os = map ip_octet (split_on CHR ''.'' s) in
     if length os = 4 \<and> None \<notin> set os then Some (map the os) else None)"

definition is_hex :: "char \<Rightarrow> bool" where
  "is_hex c \<longleftrightarrow> hex_value c \<noteq> None"

definition hex_group :: "string \<Rightarrow> nat" where
  "hex_group ds = foldl (\<lambda>n c. 16 * n + (case hex_value c of None \<Rightarrow> 0 | Some v \<Rightarrow> v)) 0 ds"

text \<open>
  The groups left to read, the place of the double colon, the bytes read so far, the text.
  The result is none for an error; what is not read is left over.
\<close>

fun ip6_groups :: "nat \<Rightarrow> nat option \<Rightarrow> nat list \<Rightarrow> string \<Rightarrow> (nat option \<times> nat list \<times> string) option" where
  "ip6_groups 0 ellipsis bytes s = Some (ellipsis, bytes, s)"
| "ip6_groups (Suc n) ellipsis bytes s =
     (let ds = takeWhile is_hex s; r = dropWhile is_hex s in
      if ds = [] \<or> 4 < length ds then None
      else if r \<noteq> [] \<and> hd r = CHR ''.'' then
        (if ellipsis = None \<and> length bytes \<noteq> 12 \<or> 16 < length bytes + 4 then None
         else map_option (\<lambda>os. (ellipsis, bytes @ os, [])) (parse_ip4 s))
      else
        let bytes' = bytes @ [hex_group ds div 256, hex_group ds mod 256] in
        if r = [] then Some (ellipsis, bytes', [])
        else if hd r \<noteq> CHR '':'' \<or> tl r = [] then None
        else if hd (tl r) = CHR '':'' then
          (if ellipsis \<noteq> None then None
           else if tl (tl r) = [] then Some (Some (length bytes'), bytes', [])
           else ip6_groups n (Some (length bytes')) bytes' (tl (tl r)))
        else ip6_groups n ellipsis bytes' (tl r))"

definition parse_ip6 :: "string \<Rightarrow> nat list option" where
  "parse_ip6 s =
     (case (if has_prefix s ''::''
            then (if drop 2 s = [] then Some (Some 0, [], []) else ip6_groups 8 (Some 0) [] (drop 2 s))
            else ip6_groups 8 None [] s) of
        None \<Rightarrow> None
      | Some (ellipsis, bytes, r) \<Rightarrow>
          if r \<noteq> [] then None
          else (case ellipsis of
              None \<Rightarrow> if length bytes < 16 then None else Some bytes
            | Some e \<Rightarrow> if 16 \<le> length bytes then None
                else Some (take e bytes @ replicate (16 - length bytes) 0 @ drop e bytes)))"

definition parse_ip :: "string \<Rightarrow> nat list option" where
  "parse_ip s =
     (case find (\<lambda>c. c \<in> set ''.:%'') s of
        None \<Rightarrow> None
      | Some c \<Rightarrow>
          if c = CHR ''.'' then map_option (\<lambda>os. replicate 10 0 @ [255, 255] @ os) (parse_ip4 s)
          else if c = CHR '':'' \<and> CHR ''%'' \<notin> set s then parse_ip6 s else None)"

definition is_loopback_ip :: "nat list \<Rightarrow> bool" where
  "is_loopback_ip ip \<longleftrightarrow>
     (if take 12 ip = replicate 10 0 @ [255, 255] then ip ! 12 = 127 else ip = replicate 15 0 @ [1])"

definition isLoopbackRequest :: "http_request \<Rightarrow> bool" where
  "isLoopbackRequest q \<longleftrightarrow>
     (let host = (case split_host (hq_RemoteAddr q) of None \<Rightarrow> hq_RemoteAddr q | Some h \<Rightarrow> h) in
      case parse_ip host of None \<Rightarrow> False | Some ip \<Rightarrow> is_loopback_ip ip)"

section \<open>Routes\<close>

datatype route = RHealth | RReady | RStatus | RDeploy | RWebDeploy | RServers | RCreate | RClose | RReset
  | RSharedEnv | RServerEnv | RJobs | ROperations | RMaintenance

text \<open>The patterns of \<open>main\<close>; those that end in a slash match every longer path.\<close>

definition route_patterns :: "(string list \<times> route) list" where
  "route_patterns = [([''healthz''], RHealth), ([''readyz''], RReady), ([''status''], RStatus),
     ([''deploy''], RDeploy), ([''deploy'', ''web-game''], RWebDeploy), ([''servers''], RServers),
     ([''servers'', ''create''], RCreate), ([''servers'', ''close''], RClose), ([''servers'', ''reset''], RReset),
     ([''env'', ''shared''], RSharedEnv), ([''env'', ''server''], RServerEnv), ([''jobs''], RJobs),
     ([''operations''], ROperations), ([''maintenance''], RMaintenance)]"

definition subtree_patterns :: "(string \<times> route) list" where
  "subtree_patterns = [(''jobs'', RJobs), (''operations'', ROperations), (''maintenance'', RMaintenance)]"

datatype dispatch = BadRequest | Redirect | NotFound | Matched route

definition clean_path :: "string \<Rightarrow> string" where
  "clean_path p =
     (if p = [] then ''/''
      else let p' = (if hd p = CHR ''/'' then p else CHR ''/'' # p); np = filepath_clean p' in
        if last p' = CHR ''/'' \<and> np \<noteq> ''/'' then np @ ''/'' else np)"

text \<open>\<open>ServeMux\<close>: a path that is not clean is redirected; the segments are compared unescaped.\<close>

definition mux :: "http_request \<Rightarrow> dispatch" where
  "mux q =
     (if url_unescape False (hq_Path q) = None \<or> hq_Path q = ''*'' then BadRequest
      else if hq_Method q \<noteq> ''CONNECT'' \<and> clean_path (hq_Path q) \<noteq> hq_Path q then Redirect
      else let segments = map (\<lambda>s. the (url_unescape False s)) (split_on CHR ''/'' (drop 1 (hq_Path q))) in
        case map_of route_patterns segments of
          Some r \<Rightarrow> Matched r
        | None \<Rightarrow> (case map_of subtree_patterns (hd segments) of Some r \<Rightarrow> Matched r | None \<Rightarrow> NotFound))"

text \<open>The two routes without \<open>withAuth\<close>, and the two with \<open>withLoopback\<close>.\<close>

definition open_route :: "route \<Rightarrow> bool" where
  "open_route r \<longleftrightarrow> r \<in> {RHealth, RReady}"

definition loopback_route :: "route \<Rightarrow> bool" where
  "loopback_route r \<longleftrightarrow> r \<in> {RWebDeploy, RMaintenance}"

definition withAuth :: "config \<Rightarrow> http_request \<Rightarrow> 'b reply option" where
  "withAuth cfg q = (if authorised cfg q then None else Some (error_reply 401 ''authentication failed''))"

definition withLoopback :: "http_request \<Rightarrow> 'b reply option" where
  "withLoopback q = (if isLoopbackRequest q then None else Some (error_reply 403 ''loopback requests only''))"

section \<open>The command line\<close>

definition isAuthenticatedHTTPRouteAllowed :: "string \<Rightarrow> string \<Rightarrow> bool" where
  "isAuthenticatedHTTPRouteAllowed meth path =
     (if meth = ''GET'' then
        path = ''/maintenance'' \<or> has_prefix path ''/jobs/'' \<and> lifecycleJobIDRe (trim_prefix path ''/jobs/'')
      else if meth = ''POST'' then
        path \<in> set [''/maintenance/enter'', ''/maintenance/enter-if-idle'', ''/maintenance/leave'',
                  ''/maintenance/repair'', ''/servers/create'', ''/deploy/web-game''] \<or>
        has_prefix path ''/jobs/'' \<and> has_suffix (trim_prefix path ''/jobs/'') ''/cancel'' \<and>
        lifecycleJobIDRe (trim_suffix (trim_prefix path ''/jobs/'') ''/cancel'')
      else False)"

text \<open>
  \<open>authenticatedHTTPCommand\<close>: the request it makes, or its exit status without one. The client
  answers with the status and the body of the response, of which the copy may fail.
\<close>

record client_request =
  cq_Method :: string
  cq_URL :: string
  cq_Authorization :: string
  cq_ContentType :: string
  cq_HasBody :: bool
  cq_Timeout :: duration

definition authenticatedHTTPDefaultTimeout :: duration where
  "authenticatedHTTPDefaultTimeout = 10 * second"

definition command_request :: "config \<Rightarrow> duration \<Rightarrow> string \<Rightarrow> string \<Rightarrow> client_request" where
  "command_request cfg timeout meth path =
     (let base = trim_slashes (cf_localHTTPBaseURL cfg) in
      \<lparr>cq_Method = meth, cq_URL = (if base = [] then ''http://localhost:9000'' else base) @ path,
       cq_Authorization = ''Bearer '' @ cf_token cfg,
       cq_ContentType = (if meth = ''POST'' then ''application/json'' else []), cq_HasBody = (meth = ''POST''),
       cq_Timeout = (if timeout \<le> 0 then authenticatedHTTPDefaultTimeout else timeout)\<rparr>)"

definition authenticatedHTTPCommand ::
    "config \<Rightarrow> duration \<Rightarrow> string \<Rightarrow> string \<Rightarrow> (client_request \<Rightarrow> (int \<times> bool) result) \<Rightarrow> client_request option \<times> int" where
  "authenticatedHTTPCommand cfg timeout meth path client =
     (if cf_token cfg = [] \<or> \<not> isAuthenticatedHTTPRouteAllowed meth path then (None, 2)
      else let cr = command_request cfg timeout meth path in
        (Some cr, case client cr of
           Inl e \<Rightarrow> 1
         | Inr (status, copied) \<Rightarrow> if \<not> copied then 1 else if status < 200 \<or> status \<ge> 300 then 8 else 0))"

datatype early = EarlyExit int | EarlyRequest duration string string | Continue

definition timed_request :: "string \<Rightarrow> string \<Rightarrow> string \<Rightarrow> early" where
  "timed_request meth path t =
     (case atoi t of
        None \<Rightarrow> EarlyExit 2
      | Some n \<Rightarrow> if n < 1 \<or> 300 < n then EarlyExit 2 else EarlyRequest (n * second) meth path)"

definition earlyCommand :: "string list \<Rightarrow> early" where
  "earlyCommand args =
     (if 2 \<le> length args \<and> args ! 1 = ''--authenticated-http'' then
        (if length args = 4 then EarlyRequest authenticatedHTTPDefaultTimeout (args ! 2) (args ! 3)
         else if length args = 5 then timed_request (args ! 2) (args ! 3) (args ! 4)
         else EarlyExit 2)
      else if length args = 1 then Continue
      else if length args = 2 \<and> args ! 1 \<in> set [''--check-running-registry-targets'', ''--check-registry-targets'',
          ''--check-registry'']
      then Continue else EarlyExit 2)"

text \<open>What \<open>main\<close> does after the configuration is loaded.\<close>

datatype program_mode = CheckRunningTargets | CheckTargets | CheckRegistry | SyncAllowlist | NoToken | Listen

definition main_mode :: "string list \<Rightarrow> config \<Rightarrow> program_mode" where
  "main_mode args cfg =
     (if length args = 2 \<and> args ! 1 = ''--check-running-registry-targets'' then CheckRunningTargets
      else if length args = 2 \<and> args ! 1 = ''--check-registry-targets'' then CheckTargets
      else if length args = 2 \<and> args ! 1 = ''--check-registry'' then CheckRegistry
      else if length args = 2 \<and> args ! 1 = ''--sync-battle-ws-allowlist'' then SyncAllowlist
      else if cf_token cfg = [] then NoToken else Listen)"

definition main_command :: "string list \<Rightarrow> config \<Rightarrow> program_mode option" where
  "main_command args cfg = (case earlyCommand args of Continue \<Rightarrow> Some (main_mode args cfg) | _ \<Rightarrow> None)"

section \<open>Image tags\<close>

definition requiredPromoteImagePrefixes :: "string list" where
  "requiredPromoteImagePrefixes = [''game-api-'', ''game-engine-'', ''web-game-'']"

definition tag_candidate :: "string \<Rightarrow> string \<Rightarrow> string option" where
  "tag_candidate raw prefix' =
     (let suffix = trim_prefix raw prefix' in
      if \<not> has_prefix raw prefix' \<or> suffix = [] \<or> suffix = ''latest'' \<or> \<not> tagRe suffix then None else Some suffix)"

text \<open>The candidates in the order of their first occurrence, each with the prefixes it was seen with.\<close>

definition add_candidate :: "string \<times> string \<Rightarrow> (string, string list) gomap \<Rightarrow> (string, string list) gomap" where
  "add_candidate c m = (let (suffix, prefix') = c in
     case map_of m suffix of
       None \<Rightarrow> m @ [(suffix, [prefix'])]
     | Some have \<Rightarrow> AList.update suffix (have @ [prefix']) m)"

definition tag_candidates :: "string list \<Rightarrow> (string \<times> string) list" where
  "tag_candidates raws = concat (map (\<lambda>raw. List.map_filter
     (\<lambda>p. map_option (\<lambda>s. (s, p)) (tag_candidate raw p)) requiredPromoteImagePrefixes) raws)"

definition deployableAppTags :: "string list \<Rightarrow> string list" where
  "deployableAppTags raws =
     (let m = fold add_candidate (tag_candidates raws) [] in
      map fst (filter (\<lambda>(s, have). list_all (\<lambda>p. p \<in> set have) requiredPromoteImagePrefixes) m))"

end
