(* ===== verification/HttpHandlers.thy ===== *)
theory HttpHandlers
  imports Http ServerOps ResetReceipt
begin

text \<open>
  The HTTP handlers of main.go, on runs: readiness, operations, jobs, maintenance, status, the
  stateless deployment, the env files, and the decoding and the lease check of the server
  handlers; and the server that routes a request to them. A worker that a handler starts is
  run to its end before the next request.
\<close>

section \<open>Replies\<close>

record statusResponse =
  sr_Project :: string
  sr_CurrentTag :: string
  sr_AvailableTags :: "string list"

record deployResponse =
  dp_Project :: string
  dp_Tag :: string
  dp_OK :: bool
  dp_Detail :: string

record envResponse =
  er_Scope :: string
  er_ID :: string
  er_JobID :: string
  er_RestartRequired :: bool
  er_AffectedServices :: "string list"
  er_Fields :: "(string, envField) gomap"

datatype http_body = BodyStatus string | BodyTags statusResponse | BodyServers "registryEntry list"
  | BodyLifecycle lifecycle_response | BodyJob job_response | BodyOperation operation_response
  | BodyNoOperation string | BodyMaintenance maintenanceState string | BodyEnv envResponse
  | BodyDeploy deployResponse | BodyWeb webGameDeployResponse | BodyReceipt string

definition reply_as :: "('a \<Rightarrow> http_body) \<Rightarrow> 'a reply \<Rightarrow> http_body reply" where
  "reply_as f rep = \<lparr>rp_status = rp_status rep, rp_retryAfter = rp_retryAfter rep, rp_body = map_sum id f (rp_body rep)\<rparr>"

definition unavailable :: "string \<Rightarrow> http_body reply" where
  "unavailable text' = (error_reply 503 text')\<lparr>rp_retryAfter := True\<rparr>"

text \<open>\<open>writeCreateServerResponse\<close>.\<close>

definition writeCreateServerResponse :: "answer \<Rightarrow> http_body reply" where
  "writeCreateServerResponse a =
     \<lparr>rp_status = snd a, rp_retryAfter = (snd a = 503), rp_body = Inr (BodyLifecycle (fst a))\<rparr>"

text \<open>A step that answers every failure in one way.\<close>

definition or_reply :: "int \<Rightarrow> string \<Rightarrow> (run, 'a) operation \<Rightarrow> run \<Rightarrow> (http_body reply + 'a) \<times> run" where
  "or_reply status text' = fail_with (error_reply status text')"

definition settled_reply :: "('a + 'a) \<times> run \<Rightarrow> 'a \<times> run" where
  "settled_reply x = (case fst x of Inl rep \<Rightarrow> rep | Inr rep \<Rightarrow> rep, snd x)"

type_synonym handled = "http_body reply outcome \<times> run"

definition handled_with :: "http_body reply \<Rightarrow> run \<Rightarrow> handled" where
  "handled_with rep r = (Return rep, r)"

section \<open>Readiness and the checks of the command line\<close>

definition recovery_pending :: "run \<Rightarrow> bool \<times> run" where
  "recovery_pending r = (let (pending, c) = lifecycleRecoveryPending (site_coord (rn_site r)) in
     (pending, on_run_coord (\<lambda>_. c) r))"

definition registered_targets :: "config \<Rightarrow> (run, unit) operation" where
  "registered_targets cfg = change_env (\<lambda>c. validateRegisteredServerTargets cfg (snd (ca_write c)))"

definition handleReady :: "config \<Rightarrow> http_request \<Rightarrow> run \<Rightarrow> http_body reply \<times> run" where
  "handleReady cfg q r =
     (if hq_Method q \<noteq> ''GET'' then (error_reply 405 ''GET only'', r)
      else
        let (pending, r1) = recovery_pending r in
        if pending then (error_reply 503 ''lifecycle recovery is required'', r1)
        else settled_reply (bind_op (or_reply 503 ''registry is not ready'' (registered_targets cfg)) (\<lambda>_.
          bind_op (fail_with (unavailable ''docker daemon is unreachable'') dockerPreflight) (\<lambda>_.
            lift_op (\<lambda>_. Inr (ok_reply (BodyStatus ''ready''))))) r1))"

definition checkRegistryTargetsCommand :: "config \<Rightarrow> run \<Rightarrow> int \<times> run" where
  "checkRegistryTargetsCommand cfg r =
     (let (x, r1) = registered_targets cfg r in (if is_ok x then 0 else 1, r1))"

definition running_registry :: "config \<Rightarrow> (run, unit) operation" where
  "running_registry cfg = act (\<lambda>c s.
     let (e, fs) = validateRunningServerRegistry cfg
           (docker_result (ca_docker c [''ps'', ''--filter'', ''status=running'', ''--format'', ''{{.Label \"com.docker.compose.project\"}}'']))
           (snd (ca_write c)) (si_env s)
     in (no_error e, s\<lparr>si_env := fs\<rparr>))"

definition checkRunningRegistryTargetsCommand :: "config \<Rightarrow> run \<Rightarrow> int \<times> run" where
  "checkRunningRegistryTargetsCommand cfg r =
     (let (x, r1) = bind_op (registered_targets cfg) (\<lambda>_. running_registry cfg) r in (if is_ok x then 0 else 1, r1))"

definition checkRegistryCommand :: "config \<Rightarrow> run \<Rightarrow> int \<times> run" where
  "checkRegistryCommand cfg r =
     (let (pending, r1) = recovery_pending r in
      if pending then (1, r1) else checkRegistryTargetsCommand cfg r1)"

section \<open>Operations and jobs\<close>

definition handleOperation :: "config \<Rightarrow> custody \<Rightarrow> bool \<Rightarrow> http_request \<Rightarrow> run \<Rightarrow> http_body reply \<times> run" where
  "handleOperation cfg cu slot q r =
     (let path = url_path q; opid = trim_prefix path ''/operations/''; store = wd_store (si_world (rn_site r)) in
      if path = ''/operations'' \<or> \<not> has_prefix path ''/operations/''
      then (error_reply 400 ''operation id is invalid'', r)
      else if isResetPublicationReceiptPath opid
      then (reply_as BodyReceipt (serveResetPublicationReceipt (split_on CHR ''/'' opid) (hq_RawQuery q)
              (hq_Method q = ''GET'') slot (ca_cancelled (next_call r))
              (\<lambda>o' sha. readResetPublicationReceipt cfg store cu o' sha (rn_now r))), tick r)
      else if CHR ''/'' \<in> set opid \<or> \<not> lifecycleJobIDRe opid then (error_reply 400 ''operation id is invalid'', r)
      else if hq_Method q \<noteq> ''GET'' then (error_reply 405 ''GET only'', r)
      else case Option.bind store (Lookup opid) of
        None \<Rightarrow> (\<lparr>rp_status = 404, rp_retryAfter = False, rp_body = Inr (BodyNoOperation opid)\<rparr>, r)
      | Some record' \<Rightarrow> (ok_reply (BodyOperation (operationResponseForRecord record')), r))"

definition job_reply :: "job_response option \<Rightarrow> http_body reply" where
  "job_reply x = (case x of None \<Rightarrow> error_reply 404 ''no such job'' | Some j \<Rightarrow> ok_reply (BodyJob j))"

definition cancel_lifecycle_job :: "string \<Rightarrow> run \<Rightarrow> job_response option \<times> run" where
  "cancel_lifecycle_job jid r =
     (let (x, ctx, m) = requestCancel jid (rn_now r) (jobs_of r); r1 = on_jobs (\<lambda>_. m) r in
      (x, case ctx of None \<Rightarrow> r1 | Some c \<Rightarrow> on_run_coord (cancel_ctx c) r1))"

definition handleLifecycleJob :: "http_request \<Rightarrow> run \<Rightarrow> http_body reply \<times> run" where
  "handleLifecycleJob q r =
     (let path = url_path q; parts = split_on CHR ''/'' (trim_prefix path ''/jobs/''); jid = hd parts in
      if path = ''/jobs'' \<or> \<not> has_prefix path ''/jobs/'' \<or> 2 < length parts \<or> \<not> lifecycleJobIDRe jid
      then (error_reply 400 ''job id is invalid'', r)
      else if length parts = 1 then
        (if hq_Method q \<noteq> ''GET'' then (error_reply 405 ''GET only'', r)
         else let (x, m) = lookup_job jid (rn_now r) (jobs_of r) in (job_reply x, on_jobs (\<lambda>_. m) r))
      else if parts ! 1 \<noteq> ''cancel'' then (error_reply 400 ''job action is invalid'', r)
      else if hq_Method q \<noteq> ''POST'' then (error_reply 405 ''POST only'', r)
      else let (x, r1) = cancel_lifecycle_job jid r in (job_reply x, r1))"

section \<open>Maintenance\<close>

text \<open>
  \<open>enterMaintenance\<close>: close and cancel, release the lock, cancel the job of the active lease,
  and wait until everything has drained.
\<close>

definition enter_maintenance :: "run \<Rightarrow> (maintenanceState \<times> string result) outcome \<times> run" where
  "enter_maintenance r =
     (let c = next_call r in
      case enterMaintenance_close (fst (ca_write c)) (snd (ca_write c)) (site_coord (rn_site r)) of
        (Inl e, co) \<Rightarrow> (Return (StateOpen, Inl e), on_run_coord (\<lambda>_. co) (tick r))
      | (Inr job, co) \<Rightarrow>
          let r1 = on_run_coord (\<lambda>_. co) (tick r);
              r2 = (case job of None \<Rightarrow> r1 | Some jid \<Rightarrow> snd (cancel_lifecycle_job jid r1));
              (x, co') = enterMaintenance_drain (ca_rand c 0) (site_coord (rn_site r2))
          in (x, on_run_coord (\<lambda>_. co') r2))"

definition maintenance_reply :: "maintenanceState \<Rightarrow> string \<Rightarrow> http_body reply" where
  "maintenance_reply state lease = ok_reply (BodyMaintenance state lease)"

definition maintenance_enter :: "run \<Rightarrow> handled" where
  "maintenance_enter r =
     (case enter_maintenance r of
        (Wait, r1) \<Rightarrow> (Wait, r1)
      | (Return (state, Inl e), r1) \<Rightarrow>
          handled_with (error_reply (if e = ErrMaintenanceLeaseUsed then 409 else 500) ''maintenance enter failed'') r1
      | (Return (state, Inr lease), r1) \<Rightarrow> handled_with (maintenance_reply state lease) r1)"

definition maintenance_enter_if_idle :: "run \<Rightarrow> handled" where
  "maintenance_enter_if_idle r =
     (let c = next_call r;
          ((state, x), co) = enterMaintenanceIfIdle (ca_rand c 0) (fst (ca_write c)) (snd (ca_write c)) (site_coord (rn_site r));
          r1 = on_run_coord (\<lambda>_. co) (tick r)
      in case x of
        Inl e \<Rightarrow> handled_with (if e = ErrMaintenanceIdleConflict
            then error_reply 409 ''maintenance idle admission unavailable''
            else error_reply 500 ''maintenance idle admission failed'') r1
      | Inr lease \<Rightarrow> handled_with (maintenance_reply state lease) r1)"

definition maintenance_leave :: "run \<Rightarrow> handled" where
  "maintenance_leave r =
     (let ((state, x), co) = leaveMaintenance (ca_ok (next_call r)) (site_coord (rn_site r));
          r1 = on_run_coord (\<lambda>_. co) (tick r)
      in if is_ok x then handled_with (maintenance_reply state []) r1
         else handled_with (error_reply 409 ''maintenance leave failed'') r1)"

definition maintenance_repair :: "config \<Rightarrow> run \<Rightarrow> handled" where
  "maintenance_repair cfg r =
     (case repairLifecycleJournal cfg r of
        (Wait, r1) \<Rightarrow> (Wait, r1)
      | (Return (Inl e), r1) \<Rightarrow>
          handled_with (if e = ErrDockerUnreachable then unavailable ''docker daemon is unreachable''
            else error_reply 409 ''lifecycle recovery failed'') r1
      | (Return (Inr _), r1) \<Rightarrow> handled_with (maintenance_reply (maintenance_state (site_coord (rn_site r1))) []) r1)"

definition handleMaintenance :: "config \<Rightarrow> http_request \<Rightarrow> run \<Rightarrow> handled" where
  "handleMaintenance cfg q r =
     (let path = url_path q; get' = (hq_Method q = ''GET''); post = (hq_Method q = ''POST'') in
      if get' \<and> path = ''/maintenance''
      then handled_with (maintenance_reply (maintenance_state (site_coord (rn_site r))) []) r
      else if post \<and> path = ''/maintenance/enter'' then maintenance_enter r
      else if post \<and> path = ''/maintenance/enter-if-idle'' then maintenance_enter_if_idle r
      else if post \<and> path = ''/maintenance/leave'' then maintenance_leave r
      else if post \<and> path = ''/maintenance/repair'' then maintenance_repair cfg r
      else handled_with (error_reply 405 ''maintenance endpoint unavailable'') r)"

section \<open>Status\<close>

text \<open>\<open>url.PathEscape\<close>.\<close>

definition hex_upper :: "nat \<Rightarrow> char" where
  "hex_upper n = char_of (if n < 10 then 48 + n else 55 + n)"

definition path_escape :: "string \<Rightarrow> string" where
  "path_escape s = concat (map (\<lambda>c. if is_upper c \<or> is_lower c \<or> is_digit c \<or> c \<in> set ''-_.~$&+=:@'' then [c]
     else [CHR ''%'', hex_upper (byte c div 16), hex_upper (byte c mod 16)]) s)"

definition versions_url :: "config \<Rightarrow> string \<Rightarrow> string" where
  "versions_url cfg package = trim_slashes (envOrValue (cf_ghcrAPIBaseURL cfg) ''https://api.github.com'') @ ''/users/'' @
     path_escape (cf_ghcrOwner cfg) @ ''/packages/container/'' @ path_escape package @ ''/versions?per_page=100''"

definition tags_fields :: "(string \<times> string list field_decoder) list" where
  "tags_fields = [(''tags'', \<lambda>r j. json_list json_str [] r j)]"

definition decode_versions :: "string \<Rightarrow> string list list option" where
  "decode_versions body =
     Option.bind (parse_value (2 * length body) body) (\<lambda>(j, rest).
       json_list (loose_struct [(''metadata'', loose_struct [(''container'', loose_struct tags_fields)])]) [] [] j)"

definition fetchPackageTags :: "config \<Rightarrow> string \<Rightarrow> (string \<Rightarrow> (int \<times> string) result) \<Rightarrow> string list" where
  "fetchPackageTags cfg package http =
     (case http (versions_url cfg package) of
        Inl e \<Rightarrow> []
      | Inr (status, body) \<Rightarrow>
          if status \<noteq> 200 then []
          else case decode_versions body of None \<Rightarrow> [] | Some tags \<Rightarrow> rev (remdups (rev (concat tags))))"

definition fetchAvailableTags :: "config \<Rightarrow> (string \<Rightarrow> (int \<times> string) result) \<Rightarrow> string list" where
  "fetchAvailableTags cfg http = deployableAppTags (fetchPackageTags cfg ''opensamguk'' http)"

definition handleStatus :: "config \<Rightarrow> http_request \<Rightarrow> run \<Rightarrow> http_body reply \<times> run" where
  "handleStatus cfg q r =
     (let project = query_get q ''project'' in
      if hq_Method q \<noteq> ''GET'' then (error_reply 405 ''GET only'', r)
      else if \<not> is_ok (serverTargetForProject cfg project) then (error_reply 400 ''project is invalid'', r)
      else case readImageTag cfg project (si_env (rn_site r)) of
        Inl e \<Rightarrow> (error_reply 404 ''env file could not be read'', r)
      | Inr tag \<Rightarrow> (ok_reply (BodyTags \<lparr>sr_Project = project, sr_CurrentTag = tag,
            sr_AvailableTags = fetchAvailableTags cfg (ca_http (next_call r))\<rparr>), tick r))"

section \<open>Leases\<close>

text \<open>\<open>beginMutation\<close> without a job, and the deferred \<open>lease.Done\<close>, which may come a second time.\<close>

definition begin_mutation :: "run \<Rightarrow> lease_id result outcome \<times> run" where
  "begin_mutation r =
     (case dockerPreflight r of
        (Inl e, r1) \<Rightarrow> (Return (Inl ErrDockerUnreachable), r1)
      | (Inr _, r1) \<Rightarrow>
          let (o', cancel, c) = beginMutation True [] (site_coord (rn_site r1)) in (o', on_run_coord (\<lambda>_. c) r1))"

definition with_lease :: "(lease_id \<Rightarrow> run \<Rightarrow> (http_body reply + http_body reply) \<times> run) \<Rightarrow> run \<Rightarrow> handled" where
  "with_lease body r =
     (case begin_mutation r of
        (Wait, r1) \<Rightarrow> (Wait, r1)
      | (Return (Inl e), r1) \<Rightarrow> (Return (admission_reply e), r1)
      | (Return (Inr l), r1) \<Rightarrow>
          let (rep, r2) = settled_reply (body l r1) in (Return rep, on_run_coord (lease_done l) r2))"

section \<open>The stateless deployment\<close>

record deployRequest =
  dq_Project :: string
  dq_Tag :: string

definition deploy_fields :: "(string \<times> deployRequest field_decoder) list" where
  "deploy_fields = [(''project'', field json_str dq_Project dq_Project_update), (''tag'', field json_str dq_Tag dq_Tag_update)]"

definition deploy_reply :: "int \<Rightarrow> deployRequest \<Rightarrow> string \<Rightarrow> http_body reply" where
  "deploy_reply status req detail = \<lparr>rp_status = status, rp_retryAfter = False, rp_body = Inr (BodyDeploy
     \<lparr>dp_Project = dq_Project req, dp_Tag = dq_Tag req, dp_OK = (status = 200), dp_Detail = detail\<rparr>)\<rparr>"

definition detailed :: "deployRequest \<Rightarrow> string \<Rightarrow> (run \<Rightarrow> (string \<times> err option) \<times> run) \<Rightarrow> run \<Rightarrow> (http_body reply + string) \<times> run" where
  "detailed req shown m r =
     (case m r of
        ((detail, Some e), r1) \<Rightarrow> (Inl (deploy_reply 500 req (shown @ detail)), r1)
      | ((detail, None), r1) \<Rightarrow> (Inr (shown @ detail), r1))"

definition write_tag :: "config \<Rightarrow> deployRequest \<Rightarrow> (run, unit) operation" where
  "write_tag cfg req = act (\<lambda>c s. let (x, fs) = writeImageTag cfg (dq_Project req) (dq_Tag req) (ca_write2 c) (si_env s)
     in (x, s\<lparr>si_env := fs\<rparr>))"

definition deploy_staged ::
    "config \<Rightarrow> serverTarget \<Rightarrow> deployRequest \<Rightarrow> string \<Rightarrow> run \<Rightarrow> (http_body reply + http_body reply) \<times> run" where
  "deploy_staged cfg target req temp =
     bind_op (detailed req [] (pullStateless cfg (dq_Project req) temp)) (\<lambda>pulled.
     bind_op (or_reply 503 ''deployment cancelled'' not_cancelled) (\<lambda>_.
     bind_op (or_reply 503 ''lifecycle recovery journal could not be created''
                (site_op (\<lambda>c. writeLifecycleJournal ''deploy'' target (ca_write c)))) (\<lambda>_.
     bind_op (or_reply 500 ''IMAGE_TAG and WEB_GAME_TAG could not be replaced'' (write_tag cfg req)) (\<lambda>_.
     bind_op (detailed req (pulled @ [CHR 0x0A]) (upStateless cfg (dq_Project req) (tg_EnvFile target))) (\<lambda>detail.
     bind_op (fail_with (deploy_reply 500 req detail) clear_journal) (\<lambda>_.
       lift_op (\<lambda>_. Inr (deploy_reply 200 req detail))))))))"

definition env_present :: "serverTarget \<Rightarrow> (run, unit) operation" where
  "env_present target = bind_op (stat_env target) (\<lambda>st. look (\<lambda>_. bind_r st (\<lambda>present. require present ''absent'')))"

definition deploy_leased ::
    "config \<Rightarrow> serverTarget \<Rightarrow> deployRequest \<Rightarrow> lease_id \<Rightarrow> run \<Rightarrow> (http_body reply + http_body reply) \<times> run" where
  "deploy_leased cfg target req l =
     bind_op (or_reply 404 ''env file is missing'' (env_present target)) (\<lambda>_ r.
       let sc = ca_stage (next_call r) in
       bind_op (or_reply 500 ''temporary env could not be made'' (act (\<lambda>c s.
            let (x, fs) = tempImageTagEnvFile (tg_EnvFile target) (dq_Tag req) sc (si_env s) in (x, s\<lparr>si_env := fs\<rparr>))))
         (\<lambda>temp r. drop_staged sc temp (deploy_staged cfg target req temp r)) r)"

definition handleDeploy :: "config \<Rightarrow> http_request \<Rightarrow> run \<Rightarrow> handled" where
  "handleDeploy cfg q r =
     (if hq_Method q \<noteq> ''POST'' then handled_with (error_reply 405 ''POST only'') r
      else case limited_body q of
        None \<Rightarrow> handled_with (error_reply 400 ''body could not be read'') r
      | Some body \<Rightarrow>
          (case unmarshal deploy_fields \<lparr>dq_Project = [], dq_Tag = []\<rparr> body of
             None \<Rightarrow> handled_with (error_reply 400 ''JSON could not be parsed'') r
           | Some req \<Rightarrow>
               (case serverTargetForProject cfg (dq_Project req) of
                  Inl e \<Rightarrow> handled_with (error_reply 400 ''project is invalid'') r
                | Inr target \<Rightarrow>
                    if \<not> tagRe (dq_Tag req) then handled_with (error_reply 400 ''tag is invalid'') r
                    else if \<not> is_ok (validateServerTarget target (si_env (rn_site r)))
                    then handled_with (error_reply 409 ''server env identity is invalid'') r
                    else with_lease (deploy_leased cfg target req) r)))"

section \<open>Server requests\<close>

definition create_fields :: "(string \<times> createServerRequest field_decoder) list" where
  "create_fields =
     [(''id'', field json_str cr_ID cr_ID_update),
      (''operationId'', field json_str cr_OperationID cr_OperationID_update),
      (''maintenanceLease'', field json_str cr_MaintenanceLease cr_MaintenanceLease_update),
      (''name'', field json_str cr_Name cr_Name_update),
      (''generation'', field json_str cr_Generation cr_Generation_update),
      (''imageTag'', field json_str cr_ImageTag cr_ImageTag_update),
      (''gameApiPort'', field json_str cr_GameAPIPort cr_GameAPIPort_update),
      (''webGamePort'', field json_str cr_WebGamePort cr_WebGamePort_update),
      (''scenarioCode'', field json_str cr_ScenarioCode cr_ScenarioCode_update),
      (''scenarioSeedEnabled'', field (json_pointer json_bool False) cr_ScenarioSeedEnabled cr_ScenarioSeedEnabled_update)]"

definition zero_create_request :: createServerRequest where
  "zero_create_request = \<lparr>cr_ID = [], cr_OperationID = [], cr_MaintenanceLease = [], cr_Name = [], cr_Generation = [],
     cr_ImageTag = [], cr_GameAPIPort = [], cr_WebGamePort = [], cr_ScenarioCode = [], cr_ScenarioSeedEnabled = None\<rparr>"

definition reset_fields :: "(string \<times> resetServerRequest field_decoder) list" where
  "reset_fields =
     [(''storageImageDigests'', field json_map rq_StorageImageDigests rq_StorageImageDigests_update),
      (''approvalPlanSha256'', field json_str rq_ApprovalPlanSHA256 rq_ApprovalPlanSHA256_update),
      (''executionReceiptSha256'', field json_str rq_ExecutionReceiptSHA256 rq_ExecutionReceiptSHA256_update),
      (''id'', field json_str rq_ID rq_ID_update),
      (''operationId'', field json_str rq_OperationID rq_OperationID_update),
      (''maintenanceLease'', field json_str rq_MaintenanceLease rq_MaintenanceLease_update),
      (''confirm'', field json_str rq_Confirm rq_Confirm_update),
      (''imageTag'', field json_str rq_ImageTag rq_ImageTag_update),
      (''webGameTag'', field json_str rq_WebGameTag rq_WebGameTag_update),
      (''imageDigests'', field json_map rq_ImageDigests rq_ImageDigests_update),
      (''generation'', field json_str rq_Generation rq_Generation_update),
      (''serverName'', field (json_pointer json_str []) rq_ServerName rq_ServerName_update),
      (''maxGeneral'', field (json_pointer json_int 0) rq_MaxGeneral rq_MaxGeneral_update),
      (''firstTurn'', field (json_pointer json_str []) rq_FirstTurn rq_FirstTurn_update),
      (''scenarioLookupDir'', field (json_pointer json_str []) rq_ScenarioLookupDir rq_ScenarioLookupDir_update),
      (''scenarioCode'', field json_str rq_ScenarioCode rq_ScenarioCode_update),
      (''scenarioSeedEnabled'', field (json_pointer json_bool False) rq_ScenarioSeedEnabled rq_ScenarioSeedEnabled_update),
      (''turnTerm'', field json_str rq_TurnTerm rq_TurnTerm_update), (''sync'', field json_str rq_Sync rq_Sync_update),
      (''fiction'', field json_str rq_Fiction rq_Fiction_update), (''extend'', field json_str rq_Extend rq_Extend_update),
      (''blockGeneralCreate'', field json_str rq_BlockGeneralCreate rq_BlockGeneralCreate_update),
      (''npcMode'', field json_str rq_NPCMode rq_NPCMode_update),
      (''showImgLevel'', field json_str rq_ShowImgLevel rq_ShowImgLevel_update),
      (''autorunUserOptions'', field (json_list json_str []) rq_AutorunUserOptions rq_AutorunUserOptions_update),
      (''autorunUserMinutes'', field json_str rq_AutorunUserMinutes rq_AutorunUserMinutes_update),
      (''joinMode'', field json_str rq_JoinMode rq_JoinMode_update),
      (''tournamentTrig'', field json_str rq_TournamentTrig rq_TournamentTrig_update),
      (''reserveOpen'', field json_str rq_ReserveOpen rq_ReserveOpen_update),
      (''preReserveOpen'', field json_str rq_PreReserveOpen rq_PreReserveOpen_update)]"

text \<open>The maintenance lease of a request, from its header or its body, and only over loopback.\<close>

definition request_lease :: "http_request \<Rightarrow> string \<Rightarrow> http_body reply + string" where
  "request_lease q in_body =
     (let header = hq_MaintenanceLease q; lease = (if header \<noteq> [] then header else in_body) in
      if header \<noteq> [] \<and> in_body \<noteq> [] \<and> header \<noteq> in_body
      then Inl (error_reply 400 ''the maintenance leases differ'')
      else if lease \<noteq> [] \<and> \<not> isLoopbackRequest q
      then Inl (error_reply 403 ''maintenance lease requires a loopback request'')
      else Inr lease)"

definition lifecycle_reply :: "answer outcome \<times> run \<Rightarrow> handled" where
  "lifecycle_reply x = (case x of (Wait, r) \<Rightarrow> (Wait, r) | (Return a, r) \<Rightarrow> (Return (writeCreateServerResponse a), r))"

definition handleServerCreate :: "config \<Rightarrow> http_request \<Rightarrow> run \<Rightarrow> handled" where
  "handleServerCreate cfg q r =
     (if hq_Method q \<noteq> ''POST'' then handled_with (error_reply 405 ''POST only'') r
      else case limited_body q of
        None \<Rightarrow> handled_with (error_reply 400 ''body could not be read'') r
      | Some body \<Rightarrow>
          (case unmarshal create_fields zero_create_request body of
             None \<Rightarrow> handled_with (error_reply 400 ''JSON could not be parsed'') r
           | Some req \<Rightarrow>
               (case request_lease q (cr_MaintenanceLease req) of
                  Inl rep \<Rightarrow> handled_with rep r
                | Inr lease \<Rightarrow> lifecycle_reply
                    (createServerWithMaintenanceLease cfg (req\<lparr>cr_MaintenanceLease := []\<rparr>) lease r))))"

record closeRequest =
  cl_ID :: string
  cl_OperationID :: string

definition close_fields :: "(string \<times> closeRequest field_decoder) list" where
  "close_fields = [(''id'', field json_str cl_ID cl_ID_update),
     (''operationId'', field json_str cl_OperationID cl_OperationID_update)]"

definition close_checked :: "closeRequest \<Rightarrow> (string \<times> string) result" where
  "close_checked req =
     bind_r (normalizeLifecycleOperationID (cl_OperationID req)) (\<lambda>opid.
       map_sum id (\<lambda>(sid, key). (sid, opid)) (normalizeCreateServerID (cl_ID req)))"

definition handleServerClose :: "config \<Rightarrow> http_request \<Rightarrow> run \<Rightarrow> handled" where
  "handleServerClose cfg q r =
     (if hq_Method q \<noteq> ''POST'' then handled_with (error_reply 405 ''POST only'') r
      else case limited_body q of
        None \<Rightarrow> handled_with (error_reply 400 ''body could not be read'') r
      | Some body \<Rightarrow>
          (case unmarshal close_fields \<lparr>cl_ID = [], cl_OperationID = []\<rparr> body of
             None \<Rightarrow> handled_with (error_reply 400 ''JSON could not be parsed'') r
           | Some req \<Rightarrow>
               (case close_checked req of
                  Inl e \<Rightarrow> handled_with (writeCreateServerResponse (refusal [] [] [] [] ''the request is invalid'' 400)) r
                | Inr (sid, opid) \<Rightarrow> lifecycle_reply (deleteServer cfg sid (''DELETE '' @ sid) opid r))))"

definition decode_reset_body :: "string \<Rightarrow> resetServerRequest option" where
  "decode_reset_body body = (if trim_space body = [] then Some zero_reset_request else unmarshal reset_fields zero_reset_request body)"

definition handleServerReset :: "config \<Rightarrow> http_request \<Rightarrow> run \<Rightarrow> handled" where
  "handleServerReset cfg q r =
     (if hq_Method q \<noteq> ''POST'' then handled_with (error_reply 405 ''POST only'') r
      else case limited_body q of
        None \<Rightarrow> handled_with (error_reply 400 ''body could not be read'') r
      | Some body \<Rightarrow>
          (case decode_reset_body body of
             None \<Rightarrow> handled_with (error_reply 400 ''JSON could not be parsed'') r
           | Some req \<Rightarrow>
               let rawID = (if query_get q ''id'' = [] then rq_ID req else query_get q ''id'') in
               (case request_lease q (rq_MaintenanceLease req) of
                  Inl rep \<Rightarrow> handled_with rep r
                | Inr lease \<Rightarrow> lifecycle_reply
                    (resetServerWithMaintenanceLease cfg rawID (req\<lparr>rq_MaintenanceLease := []\<rparr>) lease r))))"

definition read_registry :: "config \<Rightarrow> (run, registryEntry list) operation" where
  "read_registry cfg = act (\<lambda>c s. let (x, fs) = readRegistry cfg (snd (ca_write c)) (si_env s) in (x, s\<lparr>si_env := fs\<rparr>))"

definition handleServers :: "config \<Rightarrow> http_request \<Rightarrow> run \<Rightarrow> handled" where
  "handleServers cfg q r =
     (if hq_Method q = ''GET'' then
        (case read_registry cfg r of
           (Inl e, r1) \<Rightarrow> handled_with (error_reply 500 ''registry could not be read'') r1
         | (Inr entries, r1) \<Rightarrow> handled_with (ok_reply (BodyServers entries)) r1)
      else if hq_Method q = ''POST'' then handleServerCreate cfg q r
      else if hq_Method q = ''DELETE''
      then lifecycle_reply (deleteServer cfg (query_get q ''id'') (query_get q ''confirm'') [] r)
      else handled_with (error_reply 405 ''GET/POST/DELETE only'') r)"

end
