(* ===== verification/EnvHandlers.thy ===== *)
theory EnvHandlers
  imports HttpHandlers
begin

text \<open>
  The env requests (\<open>handleEnv\<close>, \<open>handleSharedEnv\<close>, \<open>handleServerEnv\<close> of main.go): reading the
  fields of an env file, and patching it, with the journal and the job that reload the shared
  registry when the patch of a server changes its entry; and the server that routes every
  request.
\<close>

section \<open>Requests\<close>

record envRequestContext =
  ec_Scope :: string
  ec_ID :: string
  ec_Path :: string
  ec_Allowlist :: allowlist
  ec_AffectedServices :: "string list"

definition patch_fields :: "(string \<times> env field_decoder) list" where
  "patch_fields = [(''values'', json_map)]"

definition env_reply :: "envRequestContext \<Rightarrow> string \<Rightarrow> bool \<Rightarrow> string list \<Rightarrow> (string, envField) gomap \<Rightarrow> http_body reply" where
  "env_reply ctx jid restart services fields' = ok_reply (BodyEnv \<lparr>er_Scope = ec_Scope ctx, er_ID = ec_ID ctx,
     er_JobID = jid, er_RestartRequired = restart, er_AffectedServices = services, er_Fields = fields'\<rparr>)"

section \<open>Jobs of a patch\<close>

text \<open>\<open>finishClaimedLifecycleJob\<close>, where there is a job; a failed step answers and finishes it.\<close>

definition finish_claimed :: "lease_id \<Rightarrow> string option \<Rightarrow> bool \<Rightarrow> run \<Rightarrow> run" where
  "finish_claimed l job failed r =
     (case job of
        None \<Rightarrow> r
      | Some jid \<Rightarrow> r\<lparr>rn_site := (rn_site r)
          \<lparr>si_world := finishClaimedLifecycleJob l jid failed (rn_now r) (si_world (rn_site r))\<rparr>\<rparr>)"

definition or_finish ::
    "lease_id \<Rightarrow> string option \<Rightarrow> int \<Rightarrow> string \<Rightarrow> (run, 'a) operation \<Rightarrow> run \<Rightarrow> (http_body reply + 'a) \<times> run" where
  "or_finish l job status text' m r =
     (case m r of
        (Inr x, r1) \<Rightarrow> (Inr x, r1)
      | (Inl e, r1) \<Rightarrow> (Inl (error_reply status text'), finish_claimed l job True r1))"

text \<open>The job that reloads the registry: reserved, and claimed for the lease.\<close>

definition reload_job :: "lease_id \<Rightarrow> run \<Rightarrow> (http_body reply + string) \<times> run" where
  "reload_job l r =
     (let (x, m) = reserve (rn_now r) (ca_rand (next_call r)) (jobs_of r); r1 = on_jobs (\<lambda>_. m) (tick r) in
      case x of
        Inl e \<Rightarrow> let (text', status) = lifecycleJobReservationFailure e in (Inl (error_reply status text'), r1)
      | Inr jid \<Rightarrow>
          let (y, cancel, co) = claimLifecycleJob l jid (site_coord (rn_site r1));
              r2 = on_run_coord (\<lambda>_. co) r1;
              r3 = (if cancel then snd (cancel_lifecycle_job jid r2) else r2)
          in case y of
            Inl e \<Rightarrow> (Inl (admission_reply e), on_jobs (discard jid) r3)
          | Inr _ \<Rightarrow> (Inr jid, r3))"

definition changes_registry :: "config \<Rightarrow> envRequestContext \<Rightarrow> env \<Rightarrow> (run, bool) operation" where
  "changes_registry cfg ctx values' = act (\<lambda>c s.
     let (x, fs) = serverEnvPatchChangesRegistry cfg (ec_ID ctx) (ec_Path ctx) values' (snd (ca_write c)) (si_env s)
     in (x, s\<lparr>si_env := fs\<rparr>))"

definition patch_job ::
    "config \<Rightarrow> envRequestContext \<Rightarrow> env \<Rightarrow> lease_id \<Rightarrow> run \<Rightarrow> (http_body reply + string option) \<times> run" where
  "patch_job cfg ctx values' l =
     (if ec_Scope ctx \<noteq> ''server'' then lift_op (\<lambda>_. Inr None)
      else bind_op (or_reply 500 ''registry synchronisation could not be prepared'' (changes_registry cfg ctx values'))
        (\<lambda>reload. if reload then bind_op (reload_job l) (\<lambda>jid. lift_op (\<lambda>_. Inr (Some jid)))
           else lift_op (\<lambda>_. Inr None)))"

section \<open>The patch\<close>

definition patch_journal ::
    "config \<Rightarrow> envRequestContext \<Rightarrow> lease_id \<Rightarrow> string option \<Rightarrow> run \<Rightarrow> (http_body reply + unit) \<times> run" where
  "patch_journal cfg ctx l job =
     (if job = None then lift_op (\<lambda>_. Inr ())
      else bind_op (or_finish l job 500 ''registry recovery journal could not be prepared''
                     (look (\<lambda>_. serverTargetForID cfg (ec_ID ctx)))) (\<lambda>target.
        or_finish l job 503 ''registry recovery journal could not be prepared''
          (site_op (\<lambda>c. writeLifecycleJournal ''patch'' target (ca_write c)))))"

definition patch_advance ::
    "config \<Rightarrow> string \<Rightarrow> lease_id \<Rightarrow> string option \<Rightarrow> run \<Rightarrow> (http_body reply + unit) \<times> run" where
  "patch_advance cfg stage l job =
     (if job = None then lift_op (\<lambda>_. Inr ())
      else or_finish l job 500 ''registry recovery journal could not be updated'' (advance cfg stage))"

definition patch_file :: "envRequestContext \<Rightarrow> env \<Rightarrow> (run, (string, envField) gomap) operation" where
  "patch_file ctx values' = act (\<lambda>c s.
     let (x, fs) = patchManagedEnvFile (ec_Path ctx) (ec_Allowlist ctx) values' (ca_write2 c) (si_env s)
     in (x, s\<lparr>si_env := fs\<rparr>))"

definition sync_changed :: "config \<Rightarrow> envRequestContext \<Rightarrow> (run, bool) operation" where
  "sync_changed cfg ctx = act (\<lambda>c s.
     let ((changed, e), fs) = syncRegistryEntryFromEnv cfg (ec_ID ctx) (ec_Path ctx) (snd (ca_write c)) (ca_write2 c) (si_env s)
     in (case e of None \<Rightarrow> Inr changed | Some x \<Rightarrow> Inl x, s\<lparr>si_env := fs\<rparr>))"

text \<open>The work of the reload job, which keeps the lease until its end.\<close>

definition reload_work :: "config \<Rightarrow> envRequestContext \<Rightarrow> (run, unit) operation" where
  "reload_work cfg ctx =
     bind_op (look (\<lambda>_. serverTargetForID cfg (ec_ID ctx))) (\<lambda>target.
     bind_op (reconcile cfg target) (\<lambda>_. bind_op (reloadSharedRegistry cfg) (\<lambda>_. clear_journal)))"

definition startClaimedLifecycleJob :: "lease_id \<Rightarrow> string \<Rightarrow> (run, unit) operation \<Rightarrow> run \<Rightarrow> run" where
  "startClaimedLifecycleJob l jid job r = (let (x, r1) = job r in finish_claimed l (Some jid) (\<not> is_ok x) r1)"

definition patch_settled ::
    "config \<Rightarrow> envRequestContext \<Rightarrow> lease_id \<Rightarrow> string option \<Rightarrow> (string, envField) gomap \<Rightarrow> bool \<Rightarrow> run \<Rightarrow>
     (http_body reply + http_body reply) \<times> run" where
  "patch_settled cfg ctx l job fields' changed =
     (case job of
        None \<Rightarrow> lift_op (\<lambda>_. if changed then Inl (error_reply 500 ''registry reload could not be prepared'')
          else Inr (env_reply ctx [] True (ec_AffectedServices ctx) fields'))
      | Some jid \<Rightarrow>
          if changed
          then (\<lambda>r. (Inr (env_reply ctx jid True (appendUnique (ec_AffectedServices ctx) [sharedRegistryReloadServices]) fields'),
                  startClaimedLifecycleJob l jid (reload_work cfg ctx) r))
          else bind_op (or_finish l job 500 ''registry recovery journal could not be cleared'' clear_journal) (\<lambda>_ r.
            (Inr (env_reply ctx [] True (ec_AffectedServices ctx) fields'), finish_claimed l job False r)))"

definition patch_leased ::
    "config \<Rightarrow> envRequestContext \<Rightarrow> env \<Rightarrow> lease_id \<Rightarrow> run \<Rightarrow> (http_body reply + http_body reply) \<times> run" where
  "patch_leased cfg ctx values' l =
     bind_op (patch_job cfg ctx values' l) (\<lambda>job.
     bind_op (or_finish l job 503 ''mutation cancelled'' not_cancelled) (\<lambda>_.
     bind_op (patch_journal cfg ctx l job) (\<lambda>_.
     bind_op (or_finish l job 500 ''env file could not be written'' (patch_file ctx values')) (\<lambda>fields'.
     bind_op (patch_advance cfg lifecycleJournalStageEnv l job) (\<lambda>_.
       if ec_Scope ctx \<noteq> ''server''
       then lift_op (\<lambda>_. Inr (env_reply ctx [] True (ec_AffectedServices ctx) fields'))
       else
         bind_op (or_finish l job 503 ''mutation cancelled'' not_cancelled) (\<lambda>_.
         bind_op (or_finish l job 500 ''registry could not be synchronised'' (sync_changed cfg ctx)) (\<lambda>changed.
         bind_op (patch_advance cfg lifecycleJournalStageRegistry l job) (\<lambda>_.
           patch_settled cfg ctx l job fields' changed))))))))"

definition handleEnv :: "config \<Rightarrow> envRequestContext \<Rightarrow> http_request \<Rightarrow> run \<Rightarrow> handled" where
  "handleEnv cfg ctx q r =
     (if hq_Method q = ''GET'' then
        (case readEnvFields (ec_Path ctx) (ec_Allowlist ctx) (si_env (rn_site r)) of
           Inl e \<Rightarrow> handled_with (error_reply 404 ''env file could not be read'') r
         | Inr fields' \<Rightarrow> handled_with (env_reply ctx [] False [] fields') r)
      else if hq_Method q = ''PATCH'' then
        (case limited_body q of
           None \<Rightarrow> handled_with (error_reply 400 ''body could not be read'') r
         | Some body \<Rightarrow>
             (case unmarshal patch_fields [] body of
                None \<Rightarrow> handled_with (error_reply 400 ''JSON could not be parsed'') r
              | Some values' \<Rightarrow>
                  if values' = [] then handled_with (error_reply 400 ''values are empty'') r
                  else if validateEnvPatch values' (ec_Allowlist ctx) \<noteq> None
                  then handled_with (error_reply 400 ''env patch is not allowed'') r
                  else with_lease (patch_leased cfg ctx values') r))
      else handled_with (error_reply 405 ''GET/PATCH only'') r)"

definition handleSharedEnv :: "config \<Rightarrow> http_request \<Rightarrow> run \<Rightarrow> handled" where
  "handleSharedEnv cfg = handleEnv cfg \<lparr>ec_Scope = ''shared'', ec_ID = [], ec_Path = sharedEnvFile cfg,
     ec_Allowlist = sharedEnvAllowlist, ec_AffectedServices = cf_sharedEnvServices cfg\<rparr>"

definition handleServerEnv :: "config \<Rightarrow> http_request \<Rightarrow> run \<Rightarrow> handled" where
  "handleServerEnv cfg q r =
     (case serverTargetForID cfg (query_get q ''id'') of
        Inl e \<Rightarrow> handled_with (error_reply 400 ''server id is invalid'') r
      | Inr target \<Rightarrow>
          if \<not> is_ok (validateServerTarget target (si_env (rn_site r)))
          then handled_with (error_reply 409 ''server env identity is invalid'') r
          else handleEnv cfg \<lparr>ec_Scope = ''server'', ec_ID = tg_ID target, ec_Path = tg_EnvFile target,
                 ec_Allowlist = serverEnvAllowlist, ec_AffectedServices = cf_statelessServices cfg\<rparr> q r)"

section \<open>The web deployment over HTTP\<close>

text \<open>
  The answers of a web deployment from those of a run. Its docker commands are not logged; no
  such command takes a stack down.
\<close>

definition docker_of :: "calls \<Rightarrow> docker" where
  "docker_of c args = (if ca_cancelled c then Inl (Err ''context canceled'') else docker_result (ca_docker c args))"

definition web_calls_of :: "(nat \<Rightarrow> calls) \<Rightarrow> web_calls" where
  "web_calls_of c = \<lparr>wc_stage = ca_stage (c 1), wc_pull = docker_of (c 2), wc_cancelled1 = ca_cancelled (c 3),
     wc_journal = ca_write (c 4), wc_cancelled2 = ca_cancelled (c 5), wc_pin = ca_write2 (c 6), wc_advance = ca_write (c 7),
     wc_up = docker_of (c 8), wc_inspect = docker_of (c 9), wc_clear = ca_remove (c 10)\<rparr>"

definition served_web_deploy :: "config \<Rightarrow> http_request \<Rightarrow> run \<Rightarrow> handled" where
  "served_web_deploy cfg q r =
     (let (o', s) = handleWebGameDeploy cfg (hq_Method q = ''POST'') (case hq_Body q of None \<Rightarrow> [] | Some b \<Rightarrow> b)
            (is_ok (fst (dockerPreflight r))) (web_calls_of (rn_calls r)) (rn_site r);
          r1 = ((tick ^^ 11) r)\<lparr>rn_site := s\<rparr>
      in case o' of Wait \<Rightarrow> (Wait, r1) | Return rep \<Rightarrow> (Return (reply_as BodyWeb rep), r1))"

section \<open>The server\<close>

definition handle :: "config \<Rightarrow> custody \<Rightarrow> bool \<Rightarrow> route \<Rightarrow> http_request \<Rightarrow> run \<Rightarrow> handled" where
  "handle cfg cu slot rt q r =
     (let plain = (\<lambda>(rep, r1). handled_with rep r1) in
      case rt of
        RHealth \<Rightarrow> handled_with (ok_reply (BodyStatus ''up'')) r
      | RReady \<Rightarrow> plain (handleReady cfg q r)
      | RStatus \<Rightarrow> plain (handleStatus cfg q r)
      | RDeploy \<Rightarrow> handleDeploy cfg q r
      | RWebDeploy \<Rightarrow> served_web_deploy cfg q r
      | RServers \<Rightarrow> handleServers cfg q r
      | RCreate \<Rightarrow> handleServerCreate cfg q r
      | RClose \<Rightarrow> handleServerClose cfg q r
      | RReset \<Rightarrow> handleServerReset cfg q r
      | RSharedEnv \<Rightarrow> handleSharedEnv cfg q r
      | RServerEnv \<Rightarrow> handleServerEnv cfg q r
      | RJobs \<Rightarrow> plain (handleLifecycleJob q r)
      | ROperations \<Rightarrow> plain (handleOperation cfg cu slot q r)
      | RMaintenance \<Rightarrow> handleMaintenance cfg q r)"

definition guarded_handle :: "config \<Rightarrow> custody \<Rightarrow> bool \<Rightarrow> route \<Rightarrow> http_request \<Rightarrow> run \<Rightarrow> handled" where
  "guarded_handle cfg cu slot rt q r =
     (case (if open_route rt then None else withAuth cfg q) of
        Some rep \<Rightarrow> handled_with rep r
      | None \<Rightarrow>
          (case (if loopback_route rt then withLoopback q else None) of
             Some rep \<Rightarrow> handled_with rep r
           | None \<Rightarrow> handle cfg cu slot rt q r))"

definition serve :: "config \<Rightarrow> custody \<Rightarrow> bool \<Rightarrow> http_request \<Rightarrow> run \<Rightarrow> handled" where
  "serve cfg cu slot q r =
     (case mux q of
        BadRequest \<Rightarrow> handled_with (error_reply 400 ''bad request'') r
      | Redirect \<Rightarrow> handled_with (error_reply 301 ''moved permanently'') r
      | NotFound \<Rightarrow> handled_with (error_reply 404 ''not found'') r
      | Matched rt \<Rightarrow> guarded_handle cfg cu slot rt q r)"

end
