(* ===== verification/ServeLaws.thy ===== *)
theory ServeLaws
  imports EnvHandlers ServerOpsLaws RecoveryLaws
begin

text \<open>
  The server as a whole: who is admitted (the token and the loopback check), what the command
  line accepts, and which requests may take the stack of a server down.
\<close>

section \<open>Admission\<close>

lemma authorised_iff: "authorised cfg q \<longleftrightarrow> hq_Authorization q = ''Bearer '' @ cf_token cfg"
  unfolding authorised_def Let_def secureEqual_iff by auto

section \<open>Gentle operations\<close>

text \<open>A gentle operation only adds to the docker log, and takes no stack down.\<close>

definition gentle_step :: "config \<Rightarrow> run \<Rightarrow> run \<Rightarrow> bool" where
  "gentle_step cfg r t \<longleftrightarrow> logged (\<lambda>a s. \<not> is_down cfg a) r t"

definition gentle :: "config \<Rightarrow> (run \<Rightarrow> 'x \<times> run) \<Rightarrow> bool" where
  "gentle cfg m \<longleftrightarrow> (\<forall>r. gentle_step cfg r (snd (m r)))"

named_theorems gentle_rules \<open>operations that take no stack down\<close>

lemma gentle_refl [simp]: "gentle_step cfg r r"
  by (simp add: gentle_step_def)

lemma gentle_trans: "gentle_step cfg r s \<Longrightarrow> gentle_step cfg s t \<Longrightarrow> gentle_step cfg r t"
  unfolding gentle_step_def by (rule logged_trans)

lemma gentle_same: "rn_log t = rn_log s \<Longrightarrow> gentle_step cfg r s \<Longrightarrow> gentle_step cfg r t"
  by (simp add: gentle_step_def logged_def)

lemma gentle_still: "rn_log t = rn_log r \<Longrightarrow> gentle_step cfg r t"
  by (simp add: gentle_step_def logged_def)

lemma gentleI: "(\<And>r x t. m r = (x, t) \<Longrightarrow> gentle_step cfg r t) \<Longrightarrow> gentle cfg m"
  unfolding gentle_def by (metis prod.collapse)

lemma gentleD: "gentle cfg m \<Longrightarrow> m r = (x, t) \<Longrightarrow> gentle_step cfg r t"
  unfolding gentle_def by (metis snd_conv)

lemma gentle_quiet: "quiet cfg m \<Longrightarrow> gentle cfg m"
  unfolding quiet_def gentle_def quiet_step_def gentle_step_def logged_def by blast

lemma gentle_calm: "calm cfg m \<Longrightarrow> gentle cfg m"
  by (rule gentle_quiet[OF quiet_calm])

lemma gentle_clean: "gentle_step cfg r t \<Longrightarrow> clean cfg D n r \<Longrightarrow> clean cfg D n t"
  unfolding gentle_step_def logged_def using clean_ext by fast

lemma gentle_bind [gentle_rules]: "gentle cfg m \<Longrightarrow> (\<And>v. gentle cfg (k v)) \<Longrightarrow> gentle cfg (bind_op m k)"
  unfolding gentle_def by (blast intro: bind_op_keeps[where R = "gentle_step cfg"] gentle_trans gentle_refl)

lemma gentle_lift [gentle_rules]: "gentle cfg (lift_op f)" "gentle cfg (look g)"
  by (simp_all add: gentle_def look_def)

lemma gentle_pure [gentle_rules]: "gentle cfg (\<lambda>r. (f r, r))"
  by (simp add: gentle_def)

lemma gentle_fail [gentle_rules]: "gentle cfg m \<Longrightarrow> gentle cfg (fail_with f m)"
  by (simp add: gentle_def)

lemma gentle_or_reply [gentle_rules]: "gentle cfg m \<Longrightarrow> gentle cfg (or_reply status text' m)"
  by (simp add: gentle_def or_reply_def)

lemma gentle_act [gentle_rules]: "gentle cfg (act f)"
  by (rule gentleI) (auto simp: act_def tick_def intro!: gentle_still split: prod.splits)

lemma gentle_observe [gentle_rules]: "gentle cfg (site_op g)" "gentle cfg (observe f)" "gentle cfg (change_env h)"
  "gentle cfg (check_env k)" "gentle cfg not_cancelled"
  unfolding site_op_def observe_def change_env_def check_env_def not_cancelled_def by (rule gentle_rules)+

lemma gentle_journal [gentle_rules]: "gentle cfg (advance cfg' stage)" "gentle cfg clear_journal"
  by (rule gentle_quiet[OF quiet_journal(1)], rule gentle_quiet[OF quiet_journal(4)])

lemmas gentle_preflight [gentle_rules] = gentle_calm[OF calm_preflight]

lemma gentle_if [gentle_rules]: "gentle cfg m \<Longrightarrow> gentle cfg m' \<Longrightarrow> gentle cfg (if b then m else m')"
  by simp

lemma gentle_option [gentle_rules]:
  "gentle cfg m \<Longrightarrow> (\<And>x. gentle cfg (f x)) \<Longrightarrow> gentle cfg (case v of None \<Rightarrow> m | Some x \<Rightarrow> f x)"
  by (cases v) simp_all

lemma gentle_settled [gentle_rules]: "gentle cfg m \<Longrightarrow> gentle cfg (\<lambda>r. settled_reply (m r))"
  by (simp add: gentle_def settled_reply_def)

text \<open>Changes of the state outside the docker log.\<close>

lemma log_same [simp]: "rn_log (on_run_coord f r) = rn_log r" "rn_log (on_jobs g r) = rn_log r" "rn_log (tick r) = rn_log r"
  "rn_log ((tick ^^ n) r) = rn_log r" "rn_log (finish_claimed l job b r) = rn_log r"
  by (simp add: on_run_coord_def, simp add: on_jobs_def on_run_coord_def, simp add: tick_def,
      induction n, simp, simp add: tick_def, simp add: finish_claimed_def split: option.split)

section \<open>The stateless deployment\<close>

lemma gentle_docker: "\<not> is_down cfg args \<Longrightarrow> gentle cfg (runDockerContextWithEnvironment args)"
  by (auto simp: gentle_def gentle_step_def logged_def runDockerContextWithEnvironment_def tick_def)

lemma gentle_checked: "c \<noteq> ''down'' \<Longrightarrow> gentle cfg (checked_docker cfg project envFile staged (c # cs) failed done')"
proof -
  assume "c \<noteq> ''down''"
  then have "gentle cfg (runDockerContextWithEnvironment (server_compose cfg project envFile (c # cs)))"
    by (intro gentle_docker not_down)
  then show ?thesis
    by (auto simp: gentle_def checked_docker_def split_beta Let_def split: sum.split)
qed

lemma gentle_stateless [gentle_rules]: "gentle cfg (pullStateless cfg project envFile)" "gentle cfg (upStateless cfg project envFile)"
  unfolding pullStateless_def upStateless_def append_Cons by (rule gentle_checked, simp)+

lemma gentle_detailed [gentle_rules]: "gentle cfg m \<Longrightarrow> gentle cfg (detailed req shown m)"
proof (rule gentleI)
  fix r x t
  assume m: "gentle cfg m" and d: "detailed req shown m r = (x, t)"
  obtain detail e u where u: "m r = ((detail, e), u)" by (metis prod.collapse)
  then have "t = u" using d by (cases e) (auto simp: detailed_def)
  then show "gentle_step cfg r t" using gentleD[OF m u] by simp
qed

lemma gentle_staged: "gentle cfg m \<Longrightarrow> gentle cfg (\<lambda>r. drop_staged sc temp (m r))"
  unfolding gentle_def by (auto simp: drop_staged_def split_beta Let_def intro: gentle_same[rotated])

lemma gentle_with_lease: "(\<And>l. gentle cfg (body l)) \<Longrightarrow> gentle cfg (with_lease body)"
proof (rule gentleI)
  fix r x t
  assume body: "\<And>l. gentle cfg (body l)" and w: "with_lease body r = (x, t)"
  obtain o' r1 where b: "begin_mutation r = (o', r1)" by fastforce
  obtain y r0 where d: "dockerPreflight r = (y, r0)" by fastforce
  have "rn_log r1 = rn_log r0" using b d by (auto simp: begin_mutation_def split: sum.splits prod.splits)
  then have r1: "gentle_step cfg r r1" using gentleD[OF gentle_preflight d] by (rule gentle_same)
  show "gentle_step cfg r t"
  proof (cases "\<exists>l. o' = Return (Inr l)")
    case True
    then obtain l where l: "o' = Return (Inr l)" by blast
    obtain z r2 where z: "body l r1 = (z, r2)" by fastforce
    have "rn_log t = rn_log r2" using w b l z by (auto simp: with_lease_def settled_reply_def)
    then show ?thesis using gentle_same gentle_trans[OF r1 gentleD[OF body z]] by blast
  next
    case False
    then have "t = r1" using w b by (auto simp: with_lease_def split: outcome.splits sum.splits)
    then show ?thesis using r1 by simp
  qed
qed

lemma gentle_deploy: "gentle cfg (handleDeploy cfg q)"
proof -
  have staged: "gentle cfg (deploy_staged cfg target req temp)" for target req temp
    unfolding deploy_staged_def write_tag_def by (intro gentle_rules)
  have "gentle cfg (deploy_leased cfg target req l)" for target req l
  proof -
    have "gentle cfg (bind_op (or_reply 500 ''temporary env could not be made'' (act (\<lambda>c s.
          let (x, fs) = tempImageTagEnvFile (tg_EnvFile target) (dq_Tag req) sc (si_env s) in (x, s\<lparr>si_env := fs\<rparr>))))
        (\<lambda>temp r. drop_staged sc temp (deploy_staged cfg target req temp r)))" for sc
      by (intro gentle_rules gentle_staged staged)
    then have "gentle cfg (\<lambda>r. let sc = ca_stage (next_call r) in
        bind_op (or_reply 500 ''temporary env could not be made'' (act (\<lambda>c s.
          let (x, fs) = tempImageTagEnvFile (tg_EnvFile target) (dq_Tag req) sc (si_env s) in (x, s\<lparr>si_env := fs\<rparr>))))
        (\<lambda>temp r. drop_staged sc temp (deploy_staged cfg target req temp r)) r)"
      unfolding gentle_def Let_def by blast
    moreover have "gentle cfg (env_present target)"
      unfolding env_present_def stat_env_def by (intro gentle_rules)
    ultimately show ?thesis unfolding deploy_leased_def by (intro gentle_bind gentle_or_reply)
  qed
  from gentle_with_lease[OF this] show ?thesis
    by (auto simp: gentle_def handleDeploy_def handled_with_def split: option.split sum.split)
qed

section \<open>Readiness, status, jobs and maintenance\<close>

lemma gentle_ready: "gentle cfg (handleReady cfg q)"
proof -
  let ?rest = "\<lambda>r1. settled_reply (bind_op (or_reply 503 ''registry is not ready'' (registered_targets cfg)) (\<lambda>_.
          bind_op (fail_with (unavailable ''docker daemon is unreachable'') dockerPreflight) (\<lambda>_.
            lift_op (\<lambda>_. Inr (ok_reply (BodyStatus ''ready''))))) r1)"
  have "gentle cfg ?rest" unfolding registered_targets_def by (intro gentle_rules)
  moreover have "gentle_step cfg r (snd (recovery_pending r))" for r
    by (rule gentle_still) (simp add: recovery_pending_def split_beta)
  ultimately have "gentle_step cfg r (snd (?rest (snd (recovery_pending r))))" for r
    unfolding gentle_def using gentle_trans by blast
  moreover have "gentle_step cfg r (snd (recovery_pending r))" for r
    by (rule gentle_still) (simp add: recovery_pending_def split_beta)
  ultimately show ?thesis by (simp add: gentle_def handleReady_def split_beta Let_def)
qed

lemma gentle_lookups: "gentle cfg (handleStatus cfg q)" "gentle cfg (handleOperation cfg cu slot q)"
  "gentle cfg (handleLifecycleJob q)"
proof -
  have "rn_log (snd (cancel_lifecycle_job jid r)) = rn_log r" for jid r
    by (simp add: cancel_lifecycle_job_def Let_def split: prod.split option.split)
  then show "gentle cfg (handleLifecycleJob q)"
    by (auto simp: gentle_def handleLifecycleJob_def split_beta Let_def intro!: gentle_still)
qed (auto simp: gentle_def handleStatus_def handleOperation_def Let_def intro!: gentle_still split: sum.split option.split)

lemma gentle_maintenance:
  assumes "\<not> (hq_Method q = ''POST'' \<and> url_path q = ''/maintenance/repair'')"
  shows "gentle cfg (handleMaintenance cfg q)"
proof -
  have job: "rn_log (snd (cancel_lifecycle_job jid r)) = rn_log r" for jid r
    by (simp add: cancel_lifecycle_job_def Let_def split: prod.split option.split)
  have "rn_log (snd (enter_maintenance r)) = rn_log r" for r
    by (simp add: enter_maintenance_def job Let_def split_beta split: sum.split option.split)
  then have "gentle cfg maintenance_enter"
    by (auto simp: gentle_def maintenance_enter_def handled_with_def split_beta intro!: gentle_still
        split: outcome.split sum.split prod.split)
  then show ?thesis using assms
    by (auto simp: gentle_def handleMaintenance_def handled_with_def maintenance_enter_if_idle_def maintenance_leave_def
        Let_def intro!: gentle_still split: sum.split prod.split)
qed

section \<open>Env requests\<close>

lemma gentle_or_finish [gentle_rules]: "gentle cfg m \<Longrightarrow> gentle cfg (or_finish l job status text' m)"
proof (rule gentleI)
  fix r x t
  assume m: "gentle cfg m" and f: "or_finish l job status text' m r = (x, t)"
  obtain y u where u: "m r = (y, u)" by fastforce
  then have "rn_log t = rn_log u" using f by (auto simp: or_finish_def split: sum.splits)
  then show "gentle_step cfg r t" by (rule gentle_same[OF _ gentleD[OF m u]])
qed

lemma gentle_patch_steps [gentle_rules]: "gentle cfg (reload_job l)" "gentle cfg (patch_journal cfg ctx l job)"
  "gentle cfg (patch_advance cfg stage l job)" "gentle cfg (reload_work cfg ctx)"
proof -
  have job: "rn_log (snd (cancel_lifecycle_job jid r)) = rn_log r" for jid r
    by (simp add: cancel_lifecycle_job_def Let_def split: prod.split option.split)
  then show "gentle cfg (reload_job l)"
    by (auto simp: gentle_def reload_job_def Let_def intro!: gentle_still split: sum.split prod.split)
  show "gentle cfg (patch_journal cfg ctx l job)" "gentle cfg (patch_advance cfg stage l job)"
    unfolding patch_journal_def patch_advance_def by (intro gentle_rules)+
  show "gentle cfg (reload_work cfg ctx)"
    unfolding reload_work_def by (intro gentle_rules gentle_calm[OF calm_registry(2)] gentle_calm[OF calm_reload])
qed

lemma gentle_settle: "gentle cfg (patch_settled cfg ctx l job fields' changed)"
proof (cases job)
  case None
  then show ?thesis by (simp add: patch_settled_def gentle_lift)
next
  case (Some jid)
  have "rn_log (startClaimedLifecycleJob l jid m r) = rn_log (snd (m r))" for m r
    by (simp add: startClaimedLifecycleJob_def split_beta)
  then have "gentle cfg (\<lambda>r. (rep, startClaimedLifecycleJob l jid (reload_work cfg ctx) r))" for rep :: "http_body reply + http_body reply"
    using gentle_patch_steps(4)[of cfg ctx] by (auto simp: gentle_def intro: gentle_same)
  moreover have "gentle cfg (\<lambda>r. (rep, finish_claimed l job False r))" for rep :: "http_body reply + http_body reply"
    by (auto simp: gentle_def intro: gentle_still)
  ultimately show ?thesis using Some by (simp add: patch_settled_def) (intro gentle_rules impI conjI)
qed

lemma gentle_env: "gentle cfg (handleEnv cfg ctx q)" "gentle cfg (handleSharedEnv cfg q)" "gentle cfg (handleServerEnv cfg q)"
proof -
  have "gentle cfg (patch_leased cfg ctx vals l)" for ctx vals l
    unfolding patch_leased_def patch_job_def changes_registry_def patch_file_def sync_changed_def
    by (intro gentle_rules gentle_settle)
  then have "gentle cfg (with_lease (patch_leased cfg ctx vals))" for ctx vals by (rule gentle_with_lease)
  then show env: "gentle cfg (handleEnv cfg ctx q)" for ctx
    by (auto simp: gentle_def handleEnv_def handled_with_def split: option.split sum.split)
  show "gentle cfg (handleSharedEnv cfg q)" unfolding handleSharedEnv_def by (rule env)
  show "gentle cfg (handleServerEnv cfg q)"
    using env by (auto simp: gentle_def handleServerEnv_def handled_with_def split: sum.split)
qed

lemma gentle_web: "gentle cfg (served_web_deploy cfg q)"
  by (auto simp: gentle_def served_web_deploy_def Let_def intro!: gentle_still split: prod.split outcome.split)

section \<open>Handlers that may take a stack down\<close>

definition destruction_allowed :: "config \<Rightarrow> string list \<Rightarrow> site \<Rightarrow> bool" where
  "destruction_allowed cfg args s \<longleftrightarrow>
     (\<exists>d target. down_allowed cfg leased d target args s \<or> down_allowed cfg co_closed d target args s)"

definition destructive_route :: "route \<Rightarrow> bool" where
  "destructive_route rt \<longleftrightarrow> rt \<in> {RServers, RClose, RReset, RMaintenance}"

lemma gentle_from_start: "gentle cfg m \<Longrightarrow> m r = (x, t) \<Longrightarrow> clean cfg D (length (rn_log r)) t"
  by (rule gentle_clean[OF gentleD clean_start])

lemma delete_clean:
  assumes "deleteServer cfg rawID confirm opid r = (Return a, t)" and "apart r"
  shows "clean cfg (destruction_allowed cfg) (length (rn_log r)) t"
proof -
  have "ended cfg (destruction_allowed cfg) (length (rn_log r)) (co_active (site_coord (rn_site r)))
      (co_preparing (site_coord (rn_site r))) t"
    by (rule delete_ends[OF assms]) (auto simp: destruction_allowed_def)
  then show ?thesis by (simp add: ended_def)
qed

lemma create_clean:
  assumes "createServerWithMaintenanceLease cfg req token r = (Return a, t)" and "apart r"
  shows "clean cfg D (length (rn_log r)) t"
  using create_ends[OF assms] by (simp add: ended_def)

lemma lifecycle_reply_returned: "lifecycle_reply x = (Return rep, t) \<Longrightarrow> \<exists>a. x = (Return a, t)"
  by (cases x; cases "fst x") (auto simp: lifecycle_reply_def)

lemma served_create_clean:
  assumes "handleServerCreate cfg q r = (Return rep, t)" and "apart r"
  shows "clean cfg D (length (rn_log r)) t"
  using assms clean_start
  by (auto simp: handleServerCreate_def handled_with_def split: if_splits option.splits sum.splits
      dest!: lifecycle_reply_returned intro: create_clean)

lemma served_delete_clean:
  assumes "handleServerClose cfg q r = (Return rep, t) \<or> handleServers cfg q r = (Return rep, t)" and "apart r"
  shows "clean cfg (destruction_allowed cfg) (length (rn_log r)) t"
proof -
  have read: "clean cfg (destruction_allowed cfg) (length (rn_log r)) u" if "read_registry cfg r = (x, u)" for x u
    using gentle_from_start[where m = "read_registry cfg" and r = r] that by (simp add: read_registry_def gentle_act)
  show ?thesis using assms clean_start
    by (auto simp: handleServerClose_def handleServers_def handled_with_def split: if_splits option.splits sum.splits prod.splits
        dest!: lifecycle_reply_returned read intro: delete_clean served_create_clean)
qed

lemma served_reset_clean:
  assumes "handleServerReset cfg q r = (Return rep, t)" and "apart r"
    and "\<And>target req token entry rt r1. reset_checked cfg target req token r = (Inr (entry, rt), r1) \<Longrightarrow> target_utf8 rt"
  shows "clean cfg (destruction_allowed cfg) (length (rn_log r)) t"
proof -
  have "clean cfg (destruction_allowed cfg) (length (rn_log r)) t"
    if "resetServerWithMaintenanceLease cfg rawID req token r = (Return a, t)" for rawID req token a
    by (rule reset_clean[OF that assms(2) assms(3)]) (assumption, auto simp: destruction_allowed_def)
  then show ?thesis using assms(1) clean_start
    by (auto simp: handleServerReset_def handled_with_def Let_def split: if_splits option.splits sum.splits
        dest!: lifecycle_reply_returned)
qed

text \<open>The docker commands since r that take a stack down satisfy D.\<close>

definition only_downs :: "config \<Rightarrow> (string list \<Rightarrow> site \<Rightarrow> bool) \<Rightarrow> run \<Rightarrow> run \<Rightarrow> bool" where
  "only_downs cfg D r t \<longleftrightarrow> (\<forall>(args, s) \<in> set (drop (length (rn_log r)) (rn_log t)). is_down cfg args \<longrightarrow> D args s)"

lemma clean_only: "clean cfg D (length (rn_log r)) t \<Longrightarrow> only_downs cfg D r t"
  by (auto simp: clean_def only_downs_def)

lemma gentle_only: "gentle cfg m \<Longrightarrow> m r = (x, t) \<Longrightarrow> only_downs cfg D r t"
  by (rule clean_only[OF gentle_from_start])

lemma served_repair_only:
  assumes "handleMaintenance cfg q r = (Return rep, t)" and "apart r" and "journal_good cfg (rn_site r)"
  shows "only_downs cfg (destruction_allowed cfg) r t"
proof (cases "hq_Method q = ''POST'' \<and> url_path q = ''/maintenance/repair''")
  case False
  then show ?thesis by (rule gentle_only[OF gentle_maintenance assms(1)])
next
  case True
  obtain o' u where u: "repairLifecycleJournal cfg r = (o', u)" by fastforce
  then obtain x where x: "o' = Return x" "t = u"
    using assms(1) True by (auto simp: handleMaintenance_def maintenance_repair_def handled_with_def
        split: outcome.splits sum.splits if_splits)
  have apart: "ans_tmp (snd (ca_write (rn_calls r n))) \<noteq> journal_path (rn_site r)" for n
    using assms(2) by (simp add: apart_def)
  have "\<exists>j target. down_allowed cfg co_closed j target args s"
    if "(args, s) \<in> set (drop (length (rn_log r)) (rn_log t))" "is_down cfg args" for args s
    using repair_downs[OF u[unfolded x(1)] assms(3) apart, of args s] that x(2) by blast
  then show ?thesis unfolding only_downs_def destruction_allowed_def by blast
qed

lemma handle_only:
  assumes "handle cfg cu slot rt q r = (Return rep, t)" and "apart r"
    and "rt = RMaintenance \<Longrightarrow> journal_good cfg (rn_site r)"
    and "\<And>target req token entry x r1. rt = RReset \<Longrightarrow>
      reset_checked cfg target req token r = (Inr (entry, x), r1) \<Longrightarrow> target_utf8 x"
  shows "only_downs cfg (\<lambda>args s. destructive_route rt \<and> destruction_allowed cfg args s) r t"
proof (cases rt)
  case RServers
  then have "handleServerClose cfg q r = (Return rep, t) \<or> handleServers cfg q r = (Return rep, t)"
    using assms(1) by (simp add: handle_def)
  then have "only_downs cfg (destruction_allowed cfg) r t" by (rule clean_only[OF served_delete_clean[OF _ assms(2)]])
  then show ?thesis by (simp add: RServers destructive_route_def)
next
  case RClose
  then have "handleServerClose cfg q r = (Return rep, t) \<or> handleServers cfg q r = (Return rep, t)"
    using assms(1) by (simp add: handle_def)
  then have "only_downs cfg (destruction_allowed cfg) r t" by (rule clean_only[OF served_delete_clean[OF _ assms(2)]])
  then show ?thesis by (simp add: RClose destructive_route_def)
next
  case RReset
  then have "only_downs cfg (destruction_allowed cfg) r t"
    using assms(1) clean_only[OF served_reset_clean[OF _ assms(2) assms(4)[OF RReset]]] by (simp add: handle_def)
  then show ?thesis by (simp add: RReset destructive_route_def)
next
  case RMaintenance
  then have "only_downs cfg (destruction_allowed cfg) r t"
    using assms(1) served_repair_only[OF _ assms(2) assms(3)[OF RMaintenance]] by (simp add: handle_def)
  then show ?thesis by (simp add: RMaintenance destructive_route_def)
next
  case RCreate
  then show ?thesis using assms(1) clean_only[OF served_create_clean[OF _ assms(2)]] by (simp add: handle_def)
next
  case RHealth
  then show ?thesis using assms(1) by (auto simp: handle_def handled_with_def only_downs_def)
qed (use assms(1) in \<open>auto simp: handle_def handled_with_def split: prod.splits
    intro: gentle_only[OF gentle_ready] gentle_only[OF gentle_lookups(1)] gentle_only[OF gentle_lookups(2)]
      gentle_only[OF gentle_lookups(3)] gentle_only[OF gentle_deploy] gentle_only[OF gentle_web]
      gentle_only[OF gentle_env(2)] gentle_only[OF gentle_env(3)]\<close>)

text \<open>What a request is before it reaches its handler.\<close>

lemma serve_refused:
  assumes "hq_Authorization q \<noteq> ''Bearer '' @ cf_token cfg \<and> (\<forall>rt. mux q = Matched rt \<longrightarrow> \<not> open_route rt) \<or>
      \<not> isLoopbackRequest q \<and> (\<exists>rt. mux q = Matched rt \<and> loopback_route rt)"
  shows "\<exists>rep. serve cfg cu slot q r = (Return rep, r) \<and> rp_status rep \<in> {301, 400, 401, 403, 404}"
  using assms
  by (cases "mux q") (auto simp: serve_def guarded_handle_def withAuth_def withLoopback_def handled_with_def error_reply_def
      authorised_iff open_route_def loopback_route_def split: option.split)

lemma serve_matched:
  assumes "serve cfg cu slot q r = (Return rep, t)" and "t \<noteq> r"
  obtains rt where "mux q = Matched rt" and "handle cfg cu slot rt q r = (Return rep, t)"
    and "open_route rt \<or> hq_Authorization q = ''Bearer '' @ cf_token cfg"
    and "loopback_route rt \<Longrightarrow> isLoopbackRequest q"
  using assms
  by (cases "mux q") (auto simp: serve_def guarded_handle_def withAuth_def withLoopback_def handled_with_def authorised_iff
      split: option.splits if_splits)

section \<open>Properties of the server\<close>


text \<open>
  C6. A request that is not admitted changes nothing. Without exactly the token, on every route but
  the two open ones, and on the web deployment and the maintenance routes also when it does not
  come over loopback, a request leaves the state, the clock, the docker log and the unread
  answers as they are, and is answered with an error.
\<close>

theorem refused_request_changes_nothing:
  assumes "hq_Authorization q \<noteq> ''Bearer '' @ cf_token cfg \<and> mux q \<noteq> Matched RHealth \<and> mux q \<noteq> Matched RReady \<or>
      \<not> isLoopbackRequest q \<and> (mux q = Matched RWebDeploy \<or> mux q = Matched RMaintenance)"
  shows "\<exists>rep. serve cfg cu slot q r = (Return rep, r) \<and> rp_status rep \<in> {301, 400, 401, 403, 404}"
  by (rule serve_refused) (use assms in \<open>auto simp: open_route_def loopback_route_def\<close>)

text \<open>
  C40. What the command line can start. Without an argument the server, which refuses to start
  without a token; with exactly one argument one of the three checks; everything else ends the
  process first. In particular the synchronisation of the websocket allowlist, which the main
  function has a branch for and the deployment workflow calls, is never started.
\<close>

theorem command_line_modes:
  fixes program :: string
  shows "main_command args cfg =
    (if length args = 1 then Some (if cf_token cfg = [] then NoToken else Listen)
     else if length args = 2 then map_of [(''--check-running-registry-targets'', CheckRunningTargets),
       (''--check-registry-targets'', CheckTargets), (''--check-registry'', CheckRegistry)] (args ! 1)
     else None) \<and>
   main_command args cfg \<noteq> Some SyncAllowlist \<and>
   earlyCommand [program, ''--sync-battle-ws-allowlist''] = EarlyExit 2"
  by (auto simp: main_command_def main_mode_def earlyCommand_def timed_request_def split: early.splits option.splits if_splits)

section \<open>Examples\<close>

text \<open>A deletion over HTTP whose docker command fails, and a request with a wrong token.\<close>

definition ex_close_request :: http_request where
  "ex_close_request = \<lparr>hq_Method = ''DELETE'', hq_Path = ''/servers'', hq_RawQuery = ''id=pep1&confirm=DELETE+pep%31'',
     hq_Authorization = ''Bearer secret'', hq_MaintenanceLease = [], hq_RemoteAddr = ''192.0.2.7:4711'', hq_Body = None\<rparr>"

definition ex_no_custody :: custody where
  "ex_no_custody directory = \<lparr>cu_resolved = None, cu_dir = None, cu_open = False, cu_file = None, cu_wire = None,
     cu_fileAfter = None, cu_dirAfter = None\<rparr>"

lemma ex_close_routed: "mux ex_close_request = Matched RServers" "query_get ex_close_request ''id'' = ''pep1''"
  "query_get ex_close_request ''confirm'' = ''DELETE pep1''" "authorised ex_config ex_close_request"
  by code_simp+

lemma ex_close_served:
  "serve ex_config ex_no_custody True ex_close_request r = lifecycle_reply (deleteServer ex_config ''pep1'' ''DELETE pep1'' [] r)"
  using ex_close_routed
  by (simp add: serve_def guarded_handle_def open_route_def loopback_route_def withAuth_def handle_def handleServers_def ex_close_request_def)


theorem refused_request_changes_nothing_witness:
  "\<exists>rep. serve ex_config ex_no_custody True (ex_close_request\<lparr>hq_Authorization := ''Bearer secret!''\<rparr>) ex_deletion_run =
      (Return rep, ex_deletion_run) \<and> rp_status rep \<in> {301, 400, 401, 403, 404}"
proof (rule refused_request_changes_nothing, rule disjI1)
  have "mux (ex_close_request\<lparr>hq_Authorization := ''Bearer secret!''\<rparr>) = Matched RServers" by code_simp
  moreover have "hq_Authorization (ex_close_request\<lparr>hq_Authorization := ''Bearer secret!''\<rparr>) \<noteq> ''Bearer '' @ cf_token ex_config"
    by (simp add: ex_config_def)
  ultimately show "hq_Authorization (ex_close_request\<lparr>hq_Authorization := ''Bearer secret!''\<rparr>) \<noteq> ''Bearer '' @ cf_token ex_config \<and>
      mux (ex_close_request\<lparr>hq_Authorization := ''Bearer secret!''\<rparr>) \<noteq> Matched RHealth \<and>
      mux (ex_close_request\<lparr>hq_Authorization := ''Bearer secret!''\<rparr>) \<noteq> Matched RReady" by simp
qed

end
