(* ===== verification/ServeRelease.thy ===== *)
theory ServeRelease
  imports ServeLaws
begin

text \<open>
  How the server leaves the coordinator: whatever a request asks for and however its handler
  ends, no preparation and no lease of it is left when it has been answered and its work has
  ended.
\<close>

section \<open>Who occupies the coordinator\<close>

definition vacated :: "coord \<Rightarrow> coord \<Rightarrow> bool" where
  "vacated c c' \<longleftrightarrow> co_active c' \<in> {co_active c, None} \<and> co_preparing c' \<in> {co_preparing c, None}"

abbreviation coord_of :: "run \<Rightarrow> coord" where
  "coord_of r \<equiv> site_coord (rn_site r)"

text \<open>The lease l occupies the coordinator and can be given back, or nobody does.\<close>

definition mine :: "lease_id \<Rightarrow> coord \<Rightarrow> bool" where
  "mine l c \<longleftrightarrow> co_preparing c = None \<and>
     (co_active c = None \<or> co_active c = Some l \<and> (\<exists>ls. co_leases c l = Some ls \<and> \<not> ls_done ls))"

lemma mine_held: "held l c \<Longrightarrow> mine l c"
  by (simp add: held_def mine_def)

lemma mine_seat: "seat c' = seat c \<Longrightarrow> mine l c \<Longrightarrow> mine l c'"
  by (simp add: seat_def mine_def)

lemma mine_done: "mine l c \<Longrightarrow> co_active (lease_done l c) = None \<and> co_preparing (lease_done l c) = None"
  by (auto simp: mine_def lease_done_def Let_def split: option.split)

lemma mine_lease_done: "mine l c \<Longrightarrow> mine l (lease_done l c)"
  using mine_done by (simp add: mine_def)

lemma vacated_refl [simp]: "vacated c c"
  by (simp add: vacated_def)

lemma vacated_seat: "seat c' = seat c \<Longrightarrow> vacated c c'"
  by (simp add: seat_def vacated_def)

lemma vacated_none: "co_active c' = None \<Longrightarrow> co_preparing c' = None \<Longrightarrow> vacated c c'"
  by (simp add: vacated_def)

lemma vacated_trans: "vacated c c' \<Longrightarrow> vacated c' c'' \<Longrightarrow> vacated c c''"
  by (auto simp: vacated_def)

section \<open>Work under a lease\<close>

definition minds :: "lease_id \<Rightarrow> (run \<Rightarrow> 'x \<times> run) \<Rightarrow> bool" where
  "minds l m \<longleftrightarrow> (\<forall>r. mine l (coord_of r) \<longrightarrow> mine l (coord_of (snd (m r))))"

named_theorems mind_rules \<open>work that leaves its lease to be given back\<close>

lemma mindsI: "(\<And>r x t. m r = (x, t) \<Longrightarrow> mine l (coord_of r) \<Longrightarrow> mine l (coord_of t)) \<Longrightarrow> minds l m"
  unfolding minds_def by (metis prod.collapse)

lemma mindsD: "minds l m \<Longrightarrow> m r = (x, t) \<Longrightarrow> mine l (coord_of r) \<Longrightarrow> mine l (coord_of t)"
  unfolding minds_def by (metis snd_conv)

lemma minds_sits: "sits m \<Longrightarrow> minds l m"
  unfolding sits_def minds_def sit_step_def by (blast intro: mine_seat)

lemma minds_quiet: "quiet cfg m \<Longrightarrow> minds l m"
  by (rule minds_sits[OF sits_quiet])

lemma minds_calm: "calm cfg m \<Longrightarrow> minds l m"
  by (rule minds_quiet[OF quiet_calm])

lemma minds_bind [mind_rules]: "minds l m \<Longrightarrow> (\<And>v. minds l (k v)) \<Longrightarrow> minds l (bind_op m k)"
  unfolding minds_def
  by (intro allI, rule bind_op_keeps[where R = "\<lambda>r t. mine l (coord_of r) \<longrightarrow> mine l (coord_of t)"]) auto

lemma minds_lift [mind_rules]: "minds l (lift_op f)" "minds l (look g)" "minds l (\<lambda>r. (h r, r))"
  by (simp_all add: minds_def look_def)

lemma minds_fail [mind_rules]: "minds l m \<Longrightarrow> minds l (fail_with f m)" "minds l m \<Longrightarrow> minds l (or_reply status text' m)"
  by (simp_all add: minds_def or_reply_def)

lemma minds_if [mind_rules]: "minds l m \<Longrightarrow> minds l m' \<Longrightarrow> minds l (if b then m else m')"
  by simp

lemma minds_act [mind_rules]:
  assumes "\<And>c s. site_coord (snd (f c s)) = site_coord s \<and> si_journal (snd (f c s)) = si_journal s"
  shows "minds l (act f)"
  using assms by (auto simp: minds_def act_def tick_def split_beta)

lemma minds_checks [mind_rules]: "minds l not_cancelled" "minds l (check_env f)"
  by (rule minds_calm, intro calm_rules)+

lemma quiet_plain: "quiet cfg (site_op (\<lambda>c. writeLifecycleJournal operation target (ca_write c)))"
  by (rule quiet_site) (simp add: writeLifecycleJournal_def)

lemma minds_journal [mind_rules]: "minds l (advance cfg stage)" "minds l clear_journal"
  "minds l (site_op (\<lambda>c. writeLifecycleJournal operation target (ca_write c)))"
  by (rule minds_quiet[OF quiet_journal(1)], rule minds_quiet[OF quiet_journal(4)], rule minds_quiet[OF quiet_plain])

lemma begin_coord:
  assumes "beginMutation ok [] c = (Return x, cancel, c')"
  shows "case x of Inl e \<Rightarrow> vacated c c' | Inr l \<Rightarrow> held l c'"
  using assms by (auto simp: beginMutation_def begin_try_def new_lease_def held_def vacated_def Let_def split: if_splits)

lemma begin_mutation_held:
  assumes "begin_mutation r = (Return x, t)"
  shows "case x of Inl e \<Rightarrow> vacated (coord_of r) (coord_of t) | Inr l \<Rightarrow> held l (coord_of t)"
proof -
  obtain y r1 where d: "dockerPreflight r = (y, r1)" by fastforce
  have c: "coord_of r1 = coord_of r" using calmD[OF calm_preflight d] by (simp add: calm_step_def)
  show ?thesis
  proof (cases y)
    case (Inl e)
    then show ?thesis using assms d c by (auto simp: begin_mutation_def)
  next
    case (Inr u)
    then obtain cancel co where b: "beginMutation True [] (coord_of r1) = (Return x, cancel, co)" "t = on_run_coord (\<lambda>_. co) r1"
      using assms d by (auto simp: begin_mutation_def split: prod.splits)
    have "coord_of t = co" by (simp add: b(2) on_run_coord_def)
    then show ?thesis using begin_coord[OF b(1)] c by (simp split: sum.splits)
  qed
qed

lemma with_lease_vacates:
  assumes "\<And>l. minds l (body l)" and "with_lease body r = (Return rep, t)"
  shows "vacated (coord_of r) (coord_of t)"
proof -
  obtain x r1 where b: "begin_mutation r = (Return x, r1)"
    using assms(2) by (cases "begin_mutation r"; cases "fst (begin_mutation r)") (auto simp: with_lease_def)
  note h = begin_mutation_held[OF b]
  show ?thesis
  proof (cases x)
    case (Inl e)
    then show ?thesis using h assms(2) b by (auto simp: with_lease_def)
  next
    case (Inr l)
    obtain z r2 where z: "body l r1 = (z, r2)" by fastforce
    have m: "mine l (coord_of r2)" by (rule mindsD[OF assms(1) z mine_held]) (use h Inr in simp)
    have "coord_of t = lease_done l (coord_of r2)"
      using assms(2) b Inr z by (auto simp: with_lease_def settled_reply_def on_run_coord_def)
    then show ?thesis using mine_done[OF m] by (auto intro: vacated_none)
  qed
qed

section \<open>The stateless deployment\<close>

lemma minds_detailed: "minds l m \<Longrightarrow> minds l (detailed req shown m)"
proof (rule mindsI)
  fix r x t
  assume m: "minds l m" and d: "detailed req shown m r = (x, t)" and i: "mine l (coord_of r)"
  obtain detail e u where u: "m r = ((detail, e), u)" by (metis prod.collapse)
  then have "t = u" using d by (cases e) (auto simp: detailed_def)
  then show "mine l (coord_of t)" using mindsD[OF m u i] by simp
qed

lemma minds_stateless: "minds l (pullStateless cfg project envFile)" "minds l (upStateless cfg project envFile)"
proof -
  have "rn_site (snd (checked_docker cfg project envFile staged command failed done' r)) = rn_site r"
    for staged command failed done' r
    by (simp add: checked_docker_def runDockerContextWithEnvironment_def tick_def split_beta Let_def split: sum.split)
  then show "minds l (pullStateless cfg project envFile)" "minds l (upStateless cfg project envFile)"
    by (simp_all add: minds_def pullStateless_def upStateless_def)
qed

lemma minds_staged: "minds l m \<Longrightarrow> minds l (\<lambda>r. drop_staged sc temp (m r))"
  by (simp add: minds_def drop_staged_def split_beta Let_def)

lemma minds_deploy: "minds l (deploy_leased cfg target req l')"
proof -
  have staged: "minds l (deploy_staged cfg target req temp)" for temp
    unfolding deploy_staged_def write_tag_def
    by (intro mind_rules minds_detailed minds_stateless) (simp add: split_beta)
  have "minds l (bind_op (or_reply 500 ''temporary env could not be made'' (act (\<lambda>c s.
        let (x, fs) = tempImageTagEnvFile (tg_EnvFile target) (dq_Tag req) sc (si_env s) in (x, s\<lparr>si_env := fs\<rparr>))))
      (\<lambda>temp r. drop_staged sc temp (deploy_staged cfg target req temp r)))" for sc
    by (intro mind_rules minds_staged staged) (simp add: split_beta)
  then have "minds l (\<lambda>r. let sc = ca_stage (next_call r) in
      bind_op (or_reply 500 ''temporary env could not be made'' (act (\<lambda>c s.
        let (x, fs) = tempImageTagEnvFile (tg_EnvFile target) (dq_Tag req) sc (si_env s) in (x, s\<lparr>si_env := fs\<rparr>))))
      (\<lambda>temp r. drop_staged sc temp (deploy_staged cfg target req temp r)) r)"
    unfolding minds_def Let_def by blast
  moreover have "minds l (env_present target)"
    unfolding env_present_def by (intro mind_rules minds_calm[OF calm_registry(4)])
  ultimately show ?thesis unfolding deploy_leased_def by (intro minds_bind minds_fail)
qed

lemma deploy_vacates: "handleDeploy cfg q r = (Return rep, t) \<Longrightarrow> vacated (coord_of r) (coord_of t)"
  by (auto simp: handleDeploy_def handled_with_def split: if_splits option.splits sum.splits
      intro: with_lease_vacates[OF minds_deploy])

section \<open>Env requests\<close>

lemma mine_finish: "mine l (coord_of r) \<Longrightarrow> mine l (coord_of (finish_claimed l job b r))"
proof (cases job)
  case (Some jid)
  let ?w = "finishClaimedLifecycleJob l jid b (rn_now r) (si_world (rn_site r))"
  have "seat (wd_coord (with_jobs f w)) = seat (wd_coord w)" for f w
    by (simp add: with_jobs_def map_coord_def)
  then have "\<exists>c. seat c = seat (coord_of r) \<and> wd_coord ?w = lease_done l c"
    by (auto simp: finishClaimedLifecycleJob_def Let_def map_coord_def)
  moreover assume "mine l (coord_of r)"
  ultimately show ?thesis using mine_lease_done mine_seat Some by (auto simp: finish_claimed_def)
qed (simp add: finish_claimed_def)

lemma minds_or_finish [mind_rules]: "minds l m \<Longrightarrow> minds l (or_finish l job status text' m)"
proof (rule mindsI)
  fix r x t
  assume m: "minds l m" and f: "or_finish l job status text' m r = (x, t)" and i: "mine l (coord_of r)"
  obtain y u where u: "m r = (y, u)" by fastforce
  then have "t = u \<or> t = finish_claimed l job True u" using f by (auto simp: or_finish_def split: sum.splits)
  then show "mine l (coord_of t)" using mindsD[OF m u i] mine_finish by blast
qed

lemma seat_cancel_job: "seat (coord_of (snd (cancel_lifecycle_job jid r))) = seat (coord_of r)"
  by (simp add: cancel_lifecycle_job_def on_jobs_def on_run_coord_def cancel_ctx_def seat_def Let_def split: prod.split option.split)

lemma mine_claim:
  assumes "claimLifecycleJob l jid c = (y, cancel, c')" and "mine l c"
  shows "mine l c'"
  using assms by (auto simp: claimLifecycleJob_def claim_job_def mine_def Let_def split: if_splits option.splits prod.splits)

lemma minds_reload_job: "minds l (reload_job l)"
proof (rule mindsI)
  fix r x t
  assume d: "reload_job l r = (x, t)" and i: "mine l (coord_of r)"
  have jobs: "mine l (coord_of (on_jobs f s))" if "mine l (coord_of s)" for f s
    by (rule mine_seat[OF _ that]) (simp add: on_jobs_def on_run_coord_def seat_def)
  obtain z m where z: "reserve (rn_now r) (ca_rand (next_call r)) (jobs_of r) = (z, m)" by fastforce
  let ?r1 = "on_jobs (\<lambda>_. m) (tick r)"
  have r1: "mine l (coord_of ?r1)" using jobs[of "tick r"] i by (simp add: tick_def)
  show "mine l (coord_of t)"
  proof (cases z)
    case (Inl e)
    then have "t = ?r1" using d z by (auto simp: reload_job_def split: prod.splits)
    then show ?thesis using r1 by simp
  next
    case (Inr jid)
    obtain y cancel co where c: "claimLifecycleJob l jid (coord_of ?r1) = (y, cancel, co)" by (metis prod.collapse)
    let ?r2 = "on_run_coord (\<lambda>_. co) ?r1"
    let ?r3 = "if cancel then snd (cancel_lifecycle_job jid ?r2) else ?r2"
    have "mine l (coord_of ?r2)" using mine_claim[OF c r1] by (simp add: on_run_coord_def)
    then have "mine l (coord_of ?r3)" using mine_seat[OF seat_cancel_job] by simp
    moreover have "t = ?r3 \<or> t = on_jobs (discard jid) ?r3"
      using d z c Inr by (cases y) (auto simp: reload_job_def Let_def)
    ultimately show ?thesis using jobs by blast
  qed
qed

lemma quiet_reload: "quiet cfg (reload_work cfg ctx)"
  unfolding reload_work_def
  by (intro quiet_bind quiet_journal quiet_calm[OF calm_look] quiet_calm[OF calm_registry(2)] quiet_calm[OF calm_reload])

lemma minds_settled: "minds l (patch_settled cfg ctx l job fields' changed)"
proof (cases job)
  case None
  then show ?thesis by (simp add: patch_settled_def minds_lift)
next
  case (Some jid)
  have "minds l (\<lambda>r. (rep, startClaimedLifecycleJob l jid (reload_work cfg ctx) r))" for rep :: "http_body reply + http_body reply"
    using mindsD[OF minds_quiet[OF quiet_reload]] mine_finish
    by (auto simp: minds_def startClaimedLifecycleJob_def split: prod.split)
  moreover have "minds l (\<lambda>r. (rep, finish_claimed l job False r))" for rep :: "http_body reply + http_body reply"
    using mine_finish by (simp add: minds_def)
  ultimately show ?thesis using Some by (simp add: patch_settled_def) (intro mind_rules impI conjI)
qed

lemma minds_patch: "minds l (patch_leased cfg ctx vals l)"
proof -
  have "minds l (patch_journal cfg ctx l job)" "minds l (patch_advance cfg stage l job)" for job stage
    unfolding patch_journal_def patch_advance_def by (intro mind_rules)+
  then show ?thesis
    unfolding patch_leased_def patch_job_def changes_registry_def patch_file_def sync_changed_def
    by (intro mind_rules minds_reload_job minds_settled; simp add: split_beta)
qed

lemma env_vacates: "handleEnv cfg ctx q r = (Return rep, t) \<Longrightarrow> vacated (coord_of r) (coord_of t)"
  by (auto simp: handleEnv_def handled_with_def split: if_splits option.splits sum.splits
      intro: with_lease_vacates[OF minds_patch])

section \<open>The repair\<close>

lemma sits_site: "(\<And>c s. seat (site_coord (snd (f c s))) = seat (site_coord s)) \<Longrightarrow> sits (site_op f)"
  by (auto simp: sits_def sit_step_def site_op_def act_def tick_def split_beta)

lemma sits_calm: "calm cfg m \<Longrightarrow> sits m"
  by (rule sits_quiet[OF quiet_calm])

lemma sits_look [sit_rules]: "sits (look f)"
  by (simp add: sits_def sit_step_def look_def)

lemma sits_check_env [sit_rules]: "sits (check_env g)"
  by (rule sits_calm) (intro calm_rules)

lemma sits_stat_env [sit_rules]: "sits (stat_env target)"
  by (rule sits_calm) (intro calm_rules)

lemma sits_valid_target [sit_rules]: "sits (valid_target target)"
  by (rule sits_calm) (intro calm_rules)

lemma sits_remove_env [sit_rules]: "sits (remove_env_file target)"
  by (rule sits_calm) (intro calm_rules)


lemma sits_done [sit_rules]: "sits (done_with b)"
  unfolding done_with_def by (rule sits_look)

lemma sits_if [sit_rules]: "sits m \<Longrightarrow> sits m' \<Longrightarrow> sits (if b then m else m')"
  by simp

lemma sits_option [sit_rules]: "sits m \<Longrightarrow> (\<And>x. sits (f x)) \<Longrightarrow> sits (case v of None \<Rightarrow> m | Some x \<Rightarrow> f x)"
  by (cases v) simp_all

lemma sits_transition [sit_rules]: "sits (transition opid st http mid)"
  by (rule sits_calm[OF calm_transition])

lemma sits_or_repair [sit_rules]: "sits m \<Longrightarrow> sits (or_repair cfg target m)"
proof -
  assume m: "sits m"
  have "sit_step r (snd (or_repair cfg target m r))" for r
  proof -
    obtain x t where x: "m r = (x, t)" by fastforce
    obtain y u where y: "set_repair cfg (tg_ID target) True t = (y, u)" by fastforce
    have "sit_step r t" "sit_step r u"
      using sitsD[OF m x] sit_quiet[OF calm_quiet[OF calm_set_repair[OF y]]] sit_trans by blast+
    then show ?thesis using x y by (cases x; cases y) (simp_all add: or_repair_def markResetRepairRequired_def)
  qed
  then show ?thesis by (simp add: sits_def)
qed

lemma sits_or_recovery [sit_rules]: "sits m \<Longrightarrow> sits (or_recovery_required j m)"
proof -
  assume m: "sits m"
  have "sit_step r (snd (or_recovery_required j m r))" for r
  proof -
    obtain x t where x: "m r = (x, t)" by fastforce
    obtain y u where y: "transition (lj_OperationID j) JobRecoveryRequired 202 IdRecoveryRequired t = (y, u)" by fastforce
    have "sit_step r t" "sit_step r u" using sitsD[OF m x] sitsD[OF sits_transition y] sit_trans by blast+
    then show ?thesis using x y by (cases x; cases y) (simp_all add: or_recovery_required_def)
  qed
  then show ?thesis by (simp add: sits_def)
qed

lemmas sits_journal [sit_rules] = sits_quiet[OF quiet_journal(1)] sits_quiet[OF quiet_journal(4)]

lemma sits_replay: "sits (replay cfg j target)"
proof -
  have "sits (repair_create cfg target)" "sits (repair_patch cfg target)" "sits (repair_web cfg j target)"
    by (rule sits_calm, rule calm_web)+
  moreover have "sits (repair_deploy cfg target)" by (rule sits_calm[OF calm_stateless])
  moreover have prepare: "sits (prepareResetRecovery cfg j target)"
    unfolding prepareResetRecovery_def by (intro sit_rules; rule sits_calm[where cfg = cfg], intro calm_rules)
  have "sits (repair_reset_prepare cfg j target)"
    unfolding repair_reset_prepare_def by (intro sit_rules prepare; rule sits_calm[where cfg = cfg], intro calm_rules)
  moreover have "sits (repair_reset_replace cfg target)"
    unfolding repair_reset_replace_def up_server_def down_server_def
    by (intro sit_rules; rule sits_calm[where cfg = cfg], intro calm_rules)
  moreover have "sits (repair_delete cfg target)"
  proof -
    have "sits (case st of Inl e \<Rightarrow> look (\<lambda>_. Inl e) | Inr False \<Rightarrow> look (\<lambda>_. Inr ())
        | Inr True \<Rightarrow> bind_op (valid_target target) (\<lambda>_. bind_op (down_server cfg target) (\<lambda>_. remove_env_file target)))" for st
      by (auto simp: down_server_def split: sum.split bool.split intro!: sit_rules)
    note down = this
    show ?thesis unfolding repair_delete_def
      by (intro sit_rules down; rule sits_calm[where cfg = cfg], intro calm_rules)
  qed
  ultimately show ?thesis unfolding replay_def Let_def by (intro sit_rules)
qed

lemma sits_repair: "sits (repair_leased cfg)"
proof -
  have clears: "sits (site_op (\<lambda>c. settleSucceededLifecycleJournal cfg (ca_remove c)))" by (rule sits_site) simp
  have verified: "sits (verifySucceededLifecycleJournal cfg j target)" for j target
    unfolding verifySucceededLifecycleJournal_def by (rule sits_calm[where cfg = cfg], intro calm_rules)
  have completed: "sits (settle_completed cfg j target)" for j target
    unfolding settle_completed_def by (intro sit_rules clears verified)
  have file': "sits (check_env_file j target)" for j target
  proof -
    have "sits (case st of Inl e \<Rightarrow> look (\<lambda>_. Inl e) | Inr True \<Rightarrow> drop_value (valid_target target)
        | Inr False \<Rightarrow> look (\<lambda>_. require (lj_Operation j = ''create'' \<or> lj_Operation j = ''delete'') ''server env is absent''))" for st
      by (auto simp: drop_value_def split: sum.split bool.split intro!: sit_rules)
    note checked = this
    show ?thesis unfolding check_env_file_def by (intro sit_rules checked)
  qed
  have settled: "sits (settle_replayed j b)" for j b unfolding settle_replayed_def by (intro sit_rules)
  have unsettled: "sits (replay_unsettled cfg j target)" for j target
    unfolding replay_unsettled_def by (intro sit_rules file' sits_replay settled sits_calm[OF calm_preflight])
  show ?thesis unfolding repair_leased_def repair_journal_def by (intro sit_rules completed unsettled)
qed

lemma repair_vacates:
  assumes "repairLifecycleJournal cfg r = (Return x, t)"
  shows "vacated (coord_of r) (coord_of t)"
proof -
  obtain lease c where b: "beginRecovery_try (coord_of r) = (lease, c)" by fastforce
  let ?r = "on_run_coord (\<lambda>_. c) r"
  show ?thesis
  proof (cases "\<exists>l. lease = Return (Inr l)")
    case True
    then obtain l where l: "lease = Return (Inr l)" by blast
    have "held l (coord_of ?r)"
      using b l by (auto simp: beginRecovery_try_def new_lease_def held_def on_run_coord_def Let_def split: if_splits)
    moreover obtain y u where u: "repair_leased cfg ?r = (y, u)" by fastforce
    ultimately have "mine l (coord_of u)" using mindsD[OF minds_sits[OF sits_repair] u mine_held] by simp
    moreover have "coord_of t = lease_done l (coord_of u)"
      using assms b l u by (auto simp: repairLifecycleJournal_def on_run_coord_def)
    ultimately show ?thesis using mine_done by (auto intro: vacated_none)
  next
    case False
    then have "c = coord_of r" using recovery_refused[OF b] by blast
    moreover obtain y u where u: "dockerPreflight ?r = (y, u)" by fastforce
    moreover have "t = u" using assms b False u
      by (auto simp: repairLifecycleJournal_def Let_def split: outcome.splits sum.splits)
    ultimately show ?thesis using calmD[OF calm_preflight u] by (simp add: calm_step_def on_run_coord_def)
  qed
qed

section \<open>Maintenance, lookups and web deployments\<close>

lemma place_marker:
  "write_marker durable mkdir a c = (b, e, c') \<Longrightarrow> seat c' = seat c"
  by (auto simp: write_marker_def seat_def Let_def split: if_splits prod.splits)

lemma place_close: "enterMaintenance_close mkdir a c = (x, c') \<Longrightarrow> seat c' = seat c"
  by (auto simp: enterMaintenance_close_def writeMaintenanceMarkerAtomic_def cancel_ctx_def seat_def Let_def
      dest!: place_marker split: if_splits option.splits prod.splits)

lemma place_leave: "leaveMaintenance ok c = ((state, x), c') \<Longrightarrow> seat c' = seat c"
  by (auto simp: leaveMaintenance_def seat_def Let_def split: if_splits)

lemma place_idle: "enterMaintenanceIfIdle rand mkdir a c = ((state, x), c') \<Longrightarrow> seat c' = seat c"
  by (auto simp: enterMaintenanceIfIdle_def writeMaintenanceMarkerDurable_def seat_def Let_def
      dest!: place_marker split: if_splits option.splits prod.splits)

lemma place_drain: "enterMaintenance_drain rand c = (x, c') \<Longrightarrow> seat c' = seat c"
  by (auto simp: enterMaintenance_drain_def seat_def Let_def split: if_splits option.splits)

lemma seat_enter: "enter_maintenance r = (x, t) \<Longrightarrow> seat (coord_of t) = seat (coord_of r)"
proof -
  assume e: "enter_maintenance r = (x, t)"
  let ?c = "next_call r"
  obtain y co where c: "enterMaintenance_close (fst (ca_write ?c)) (snd (ca_write ?c)) (coord_of r) = (y, co)" by fastforce
  let ?r1 = "on_run_coord (\<lambda>_. co) (tick r)"
  have r1: "seat (coord_of ?r1) = seat (coord_of r)" using place_close[OF c] by (simp add: on_run_coord_def)
  show ?thesis
  proof (cases y)
    case (Inl err)
    then show ?thesis using e c r1 by (simp add: enter_maintenance_def Let_def)
  next
    case (Inr job)
    let ?r2 = "case job of None \<Rightarrow> ?r1 | Some jid \<Rightarrow> snd (cancel_lifecycle_job jid ?r1)"
    obtain z co' where z: "enterMaintenance_drain (ca_rand ?c 0) (coord_of ?r2) = (z, co')" by fastforce
    have "seat (coord_of ?r2) = seat (coord_of r)" using r1 seat_cancel_job by (simp split: option.split)
    moreover have "t = on_run_coord (\<lambda>_. co') ?r2" using e c Inr z by (simp add: enter_maintenance_def Let_def)
    ultimately show ?thesis using place_drain[OF z] by (simp add: on_run_coord_def)
  qed
qed

lemma maintenance_vacates:
  assumes "handleMaintenance cfg q r = (Return rep, t)"
  shows "vacated (coord_of r) (coord_of t)"
proof -
  have "vacated (coord_of r) (coord_of t)" if "maintenance_enter r = (Return rep, t)"
    using that by (auto simp: maintenance_enter_def handled_with_def dest!: seat_enter
        intro!: vacated_seat split: prod.splits outcome.splits sum.splits)
  moreover have "vacated (coord_of r) (coord_of t)" if "maintenance_enter_if_idle r = (Return rep, t)"
    using that by (auto simp: maintenance_enter_if_idle_def handled_with_def on_run_coord_def Let_def dest!: place_idle
        intro!: vacated_seat split: prod.splits sum.splits if_splits)
  moreover have "vacated (coord_of r) (coord_of t)" if "maintenance_leave r = (Return rep, t)"
    using that by (auto simp: maintenance_leave_def handled_with_def on_run_coord_def Let_def dest!: place_leave
        intro!: vacated_seat split: prod.splits if_splits)
  moreover have "vacated (coord_of r) (coord_of t)" if "maintenance_repair cfg r = (Return rep, t)"
    using that by (auto simp: maintenance_repair_def handled_with_def dest!: repair_vacates
        split: prod.splits outcome.splits sum.splits if_splits)
  ultimately show ?thesis using assms by (auto simp: handleMaintenance_def handled_with_def Let_def split: if_splits)
qed

lemma seat_lookups:
  "handleStatus cfg q r = (x, t) \<Longrightarrow> seat (coord_of t) = seat (coord_of r)"
  "handleOperation cfg cu slot q r = (x, t) \<Longrightarrow> seat (coord_of t) = seat (coord_of r)"
  "handleLifecycleJob q r = (x, t) \<Longrightarrow> seat (coord_of t) = seat (coord_of r)"
proof -
  have "seat (coord_of (on_jobs f r)) = seat (coord_of r)" for f by (simp add: on_jobs_def on_run_coord_def)
  then show "handleLifecycleJob q r = (x, t) \<Longrightarrow> seat (coord_of t) = seat (coord_of r)"
    using seat_cancel_job[of _ r] by (auto simp: handleLifecycleJob_def Let_def split: if_splits prod.splits) (metis snd_conv)+
qed (auto simp: handleStatus_def handleOperation_def tick_def Let_def split: if_splits sum.splits option.splits)

lemma seat_ready: "handleReady cfg q r = (x, t) \<Longrightarrow> seat (coord_of t) = seat (coord_of r)"
proof -
  assume h: "handleReady cfg q r = (x, t)"
  obtain b r1 where p: "recovery_pending r = (b, r1)" by fastforce
  have r1: "seat (coord_of r1) = seat (coord_of r)"
    using p by (auto simp: recovery_pending_def lifecycleRecoveryPending_def on_run_coord_def seat_def Let_def
        split: if_splits prod.splits)
  let ?m = "bind_op (or_reply 503 ''registry is not ready'' (registered_targets cfg)) (\<lambda>_.
      bind_op (fail_with (unavailable ''docker daemon is unreachable'') dockerPreflight) (\<lambda>_.
        lift_op (\<lambda>_. Inr (ok_reply (BodyStatus ''ready'')))))"
  have "sits (or_reply 503 ''registry is not ready'' (registered_targets cfg))"
    using sits_calm[OF calm_change_env] by (simp add: sits_def or_reply_def registered_targets_def)
  moreover have "sits (fail_with (unavailable ''docker daemon is unreachable'') dockerPreflight)"
    using sits_calm[OF calm_preflight] by (simp add: sits_def)
  moreover have "sits (lift_op f)" for f :: "run \<Rightarrow> http_body reply + http_body reply"
    by (simp add: sits_def sit_step_def)
  ultimately have m: "sits ?m" by (intro sits_bind)
  show ?thesis
  proof (cases "hq_Method q \<noteq> ''GET'' \<or> b")
    case True
    then show ?thesis using h p r1 by (auto simp: handleReady_def split: if_splits)
  next
    case False
    then have "t = snd (?m r1)" using h p by (auto simp: handleReady_def settled_reply_def)
    then show ?thesis using m r1 by (simp add: sits_def sit_step_def)
  qed
qed

lemma seat_web_leased: "seat (site_coord (snd (web_leased cfg target req wc s))) = seat (site_coord s)"
proof -
  let ?R = "\<lambda>s t. seat (site_coord t) = seat (site_coord s)"
  have env: "seat (site_coord (snd (stop n text' (env_op f) s))) = seat (site_coord s)" for n text' f and s :: site
    by (simp add: env_op_def split_beta)
  have bind: "(\<And>s. ?R s (snd (m s))) \<Longrightarrow> (\<And>x s. ?R s (snd (k x s))) \<Longrightarrow> ?R s (snd (bind_op m k s))" for m k s
    by (rule bind_op_keeps[where R = ?R]) auto
  have work: "?R s (snd (web_work cfg target req wc s))" for s
    unfolding web_work_def by (intro bind env) (simp_all add: env_check_def)
  have "?R s (snd (web_journaled_work cfg target req wc s))" for s
    unfolding web_journaled_work_def by (intro bind work) simp_all
  then have "?R s (snd (bind_op (web_checks cfg target req wc temp) (\<lambda>_.
      bind_op (web_journal target req wc) (\<lambda>_. web_journaled_work cfg target req wc)) s))" for temp s
    by (intro bind) (simp_all add: web_journal_def)
  then show ?thesis unfolding web_leased_def
    by (intro bind env) (simp_all add: after_temp_def env_check_def)
qed

lemma web_vacates:
  assumes "served_web_deploy cfg q r = (Return rep, t)"
  shows "vacated (coord_of r) (coord_of t)"
proof -
  let ?h = "handleWebGameDeploy cfg (hq_Method q = ''POST'') (case hq_Body q of None \<Rightarrow> [] | Some b \<Rightarrow> b)
      (is_ok (fst (dockerPreflight r))) (web_calls_of (rn_calls r)) (rn_site r)"
  obtain o' s where h: "?h = (o', s)" by fastforce
  then obtain w where o': "o' = Return w" and t: "coord_of t = site_coord s"
    using assms by (cases o') (auto simp: served_web_deploy_def Let_def)
  have "vacated (coord_of r) (site_coord s)"
  proof (cases "s = rn_site r")
    case False
    then obtain target wr where d: "decode_web_request (case hq_Body q of None \<Rightarrow> [] | Some b \<Rightarrow> b) = Some wr"
      and b: "bind_r (serverTargetForProject cfg (wr_Project wr)) (\<lambda>target.
        map_sum id (\<lambda>_. target) (validateWebGameDeployTarget (Some (wr_target wr)))) = Inr target" and p: "hq_Method q = ''POST''"
      using h by (auto simp: handleWebGameDeploy_def split: if_splits option.splits sum.splits)
    obtain y cancel c where m: "beginMutation (is_ok (fst (dockerPreflight r))) [] (coord_of r) = (y, cancel, c)"
      by (metis prod.collapse)
    let ?s = "on_coord (\<lambda>_. c) (rn_site r)"
    obtain x where y: "y = Return x" using h o' d b p m by (cases y) (auto simp: handleWebGameDeploy_def)
    show ?thesis
    proof (cases x)
      case (Inl e)
      then have "s = ?s" using h o' d b p m y by (simp add: handleWebGameDeploy_def)
      then show ?thesis using begin_coord[OF m[unfolded y]] Inl by simp
    next
      case (Inr l)
      obtain res s' where w: "web_leased cfg target (wr_target wr) (web_calls_of (rn_calls r)) ?s = (res, s')" by fastforce
      have "held l (site_coord ?s)" using begin_coord[OF m[unfolded y]] Inr by simp
      from mine_seat[OF _ mine_held[OF this]] have "mine l (site_coord s')"
        using seat_web_leased[of cfg target "wr_target wr" "web_calls_of (rn_calls r)" ?s] w by simp
      moreover have "site_coord s = lease_done l (site_coord s')"
        using h o' d b p m y Inr w by (auto simp: handleWebGameDeploy_def)
      ultimately show ?thesis using mine_done by (auto intro: vacated_none)
    qed
  qed simp
  then show ?thesis using t by simp
qed

section \<open>Every request\<close>

lemma server_vacates:
  assumes "m = createServerWithMaintenanceLease cfg creq token \<or> m = deleteServer cfg rawID confirm opid \<or>
      m = resetServerWithMaintenanceLease cfg rawID rreq token"
    and "lifecycle_reply (m r) = (Return rep, t)" and "apart r"
  shows "vacated (coord_of r) (coord_of t)"
proof -
  obtain a where "m r = (Return a, t)" using lifecycle_reply_returned[OF assms(2)] by blast
  then show ?thesis using handlers_vacate[OF assms(1) _ assms(3)] by (simp add: vacated_def)
qed

lemma create_served_vacates: "handleServerCreate cfg q r = (Return rep, t) \<Longrightarrow> apart r \<Longrightarrow> vacated (coord_of r) (coord_of t)"
  by (auto simp: handleServerCreate_def handled_with_def split: if_splits option.splits sum.splits
      intro: server_vacates[OF disjI1[OF refl]])

lemma handle_vacates:
  assumes "handle cfg cu slot rt q r = (Return rep, t)" and "apart r"
  shows "vacated (coord_of r) (coord_of t)"
proof -
  have delete: "vacated (coord_of r) (coord_of t)" if "lifecycle_reply (deleteServer cfg rawID confirm opid r) = (Return rep, t)"
    for rawID confirm opid by (rule server_vacates[OF disjI2[OF disjI1[OF refl]] that assms(2)])
  have reset: "vacated (coord_of r) (coord_of t)"
    if "lifecycle_reply (resetServerWithMaintenanceLease cfg rawID req token r) = (Return rep, t)" for rawID req token
    by (rule server_vacates[OF disjI2[OF disjI2[OF refl]] that assms(2)])
  have read: "vacated (coord_of r) (coord_of t)" if "read_registry cfg r = (x, t)" for x
    using that by (auto simp: read_registry_def act_def tick_def split: prod.splits)
  note created = create_served_vacates[OF _ assms(2)]
  show ?thesis
  proof (cases rt)
    case RServers
    then show ?thesis using assms(1)
      by (auto simp: handle_def handleServers_def handled_with_def split: if_splits sum.splits prod.splits
          intro: delete created read)
  next
    case RClose
    then show ?thesis using assms(1)
      by (auto simp: handle_def handleServerClose_def handled_with_def split: if_splits option.splits sum.splits intro: delete)
  next
    case RReset
    then show ?thesis using assms(1)
      by (auto simp: handle_def handleServerReset_def handled_with_def Let_def split: if_splits option.splits sum.splits intro: reset)
  next
    case RServerEnv
    then show ?thesis using assms(1)
      by (auto simp: handle_def handleServerEnv_def handled_with_def split: if_splits sum.splits intro: env_vacates)
  qed (use assms(1) in \<open>auto simp: handle_def handleSharedEnv_def handled_with_def split: prod.splits
      intro: created deploy_vacates web_vacates env_vacates maintenance_vacates vacated_seat[OF seat_ready]
        vacated_seat[OF seat_lookups(1)] vacated_seat[OF seat_lookups(2)] vacated_seat[OF seat_lookups(3)]\<close>)
qed

text \<open>
  C14. Every request gives the coordinator back. Whatever a request asks for, and wherever its
  handler or its work stops, when it has been answered and its work has ended the coordinator
  is occupied by nobody, or by whom it was occupied before: no lease and no preparation leaks
  from any of the handlers, so that none of them can block the requests that follow.
\<close>

theorem served_request_releases_coordinator:
  assumes "serve cfg cu slot q r = (Return rep, t)" and "apart r"
  shows "co_active (site_coord (rn_site t)) \<in> {co_active (site_coord (rn_site r)), None} \<and>
    co_preparing (site_coord (rn_site t)) \<in> {co_preparing (site_coord (rn_site r)), None}"
proof (cases "t = r")
  case False
  then obtain rt where "handle cfg cu slot rt q r = (Return rep, t)" by (rule serve_matched[OF assms(1)]) blast
  from handle_vacates[OF this assms(2)] show ?thesis by (simp add: vacated_def)
qed simp

theorem served_request_releases_coordinator_witness:
  "\<exists>t. snd (serve ex_config ex_no_custody True ex_close_request ex_deletion_run) = t \<and> rn_log t \<noteq> [] \<and>
     co_active (site_coord (rn_site t)) = None \<and> co_preparing (site_coord (rn_site t)) = None"
proof -
  obtain a t where d: "deleteServer ex_config ''pep1'' ''DELETE pep1'' [] ex_deletion_run = (Return a, t)"
    and c: "down_command ex_config ''opensamguk-spep1'' ''/workspace/servers/spep1.env'' \<in> set (map fst (rn_log t))"
    by (rule ex_deletion_answer)
  have v: "serve ex_config ex_no_custody True ex_close_request ex_deletion_run = (Return (writeCreateServerResponse a), t)"
    by (simp add: ex_close_served d lifecycle_reply_def)
  have "apart ex_deletion_run" by (simp add: ex_deletion_run_def ex_apart)
  moreover have "co_active (site_coord (rn_site ex_deletion_run)) = None" "co_preparing (site_coord (rn_site ex_deletion_run)) = None"
    by (simp_all add: ex_deletion_run_def ex_idle_run_def newOperationCoordinator_def Let_def)
  ultimately show ?thesis using served_request_releases_coordinator[OF v] v c by auto
qed

end
