(* ===== verification/Spec2Isabelle.thy ===== *)
theory Spec2Isabelle
  imports OperationStoreSystem CoordinatorSystem Lifecycle RegistrySystem
    SpaceBudget ResetTargetLaws JournalLaws WebDeployLaws RecoveryLaws ServerOpsLaws
    ResetReceiptLaws ServeLaws ServeRelease
begin

text \<open>
  A verification of the deployer of opensamguk-docker (src/deployer), the control plane that
  creates, resets, closes and deploys game servers on one docker host.

  The program. The deployer is one process with an HTTP interface. It keeps one compose stack
  per game server (a project, an env file, two volumes) and one shared stack. A request that
  changes anything goes through the same gates: it is authenticated; where it starts a
  lifecycle operation, it enters a preparation of the coordinator, reserves its operation id in
  the durable operation store and a job in the job manager; it is promoted to the single
  lease; it writes a journal that names the mutation; it changes env files, the registry and
  the stacks; it settles the operation and the job, removes the journal and gives the lease
  back. After a crash the journal fences all new work until a repair has replayed it. Resets
  of one server may need evidence that a person approved and a native program executed; the
  deployer reads it from private files.

  Conventions. A Go string is an Isabelle string, byte by byte. A record type keeps the fields
  of the struct under a prefix; an enumeration is a datatype; int64 and uint64 are words, or
  integers with the wrap-around written out, where arithmetic can leave the range; a Go map is
  an association list with distinct keys; a nil map is the empty one; ranging over a map is
  reading its list. An error is the left side of a sum. Every system call, every answer of
  docker, of an HTTP server, of the clock and of the source of randomness is an argument, so
  each theorem holds whatever they answer. A call that can block has the outcome Wait. The
  files of the coordinator and of the journal are one path each; the coordinator, the store
  and the job manager of a configured process are always present; hooks that only tests set
  are absent. Texts for people are shortened and in English; log lines are left out.

  Shared theories.
    \<^item> Prelude: errors and results, Go maps, sequencing of fallible operations, transition systems.
    \<^item> GoText: the regular expressions, ports, generations, tokens and comparisons of main.go,
      and the functions of Go's strings, path/filepath and strconv that it uses.
    \<^item> Json, JsonFields: encoding/json, its printer and parser, and decoding into structs.
    \<^item> GoTime, Sha256: RFC 3339, Unix times in 64 bits, and SHA-256.
    \<^item> AtomicWrite: the two writers of main.go and operation_store.go that replace a file, with
      the trace of every state that a crash could leave. Locale atomic_writer.

  State machines.
    \<^item> LifecycleTypes: kinds, states and public messages; legacy_native_guards.go.
    \<^item> OperationStore, OperationStoreLaws, OperationStoreSystem: operation_store.go. The invariant,
      the agreement of memory and disk under every failing call, the refinement of the abstract
      life of a record, reopening after a crash. Locales of the laws are interpreted there.
    \<^item> JobManager: the job table of main.go, its invariant and the abstract life of a job.
    \<^item> Coordinator, CoordinatorSystem: operationCoordinator of main.go as a system with waiting
      calls that are resumed in any order: mutual exclusion, the maintenance barrier, the fence.
    \<^item> Lifecycle: the functions of main.go between handlers, store, jobs and coordinator:
      reservation, replay, preparation, confirmed transitions, settlement. Locale operation_log.

  Data of the servers.
    \<^item> Identity: serverTargetForID and what maps to it.
    \<^item> EnvFile, EnvFileLaws: env files, patches, allowlists, validation of a server's file.
    \<^item> Registry, RegistryLaws, RegistrySystem: the registry line, battle_ws_allowlist.go.
    \<^item> ResetTarget, ResetTargetLaws, SpaceBudget: reset_settings.go, reset_image_pins.go,
      reset_storage_pins.go, reset_space_budget.go and the reset target of main.go.
    \<^item> ResetJournal: reset_execution_journal.go, reset_execution_phase.go: the attestation chain.
    \<^item> ResetEvidence, ResetReceipt, ResetReceiptLaws: reset_execution_evidence.go and
      reset_publication_receipt.go: private files, strict decoding, validation, delivery.

  Operations. A run (Handler) is the state of the process with the answers of all later calls,
  the clock, and the log of the docker commands with the state each was issued in.
    \<^item> Journal, JournalLaws: the lifecycle journal of main.go. Locale mutation_journal.
    \<^item> Handler, Stack, Steps: docker calls, compose commands, staged env copies, single steps.
    \<^item> Verify: the verification of a reset and of a reload, with its polling loop.
    \<^item> WebDeploy, WebDeployLaws: web_game_deploy.go.
    \<^item> Recovery, RecoveryLaws: repairLifecycleJournal and the recovery of the store.
    \<^item> ServerSteps, ServerOps, ServerOpsLaws: creation, deletion and reset with their workers.
    \<^item> GuardedRuns, HandlerRuns: the logic by which those laws are proved: calm, quiet and guarded
      operations, triples with early returns, and who occupies the coordinator.
    \<^item> Http, HttpHandlers, EnvHandlers, ServeLaws: the command line, authentication, routes, every
      handler, and the server that dispatches a request; which requests can destroy a stack.
    \<^item> ServeRelease: every request, whatever it asks for, gives the coordinator back.

  What the theorems show. A stack is only taken down with its volumes for the server that the
  request or the journal names, under a journal on disk with the fence up, and never for a
  request without the token. Operations are serialised; a lease, a preparation and the
  coordinator are given back by every request. No committed record of an operation is lost, a
  crash leaves the old or the new document, and a repeated request gets the first answer. An env patch changes exactly its
  keys; the registry holds canonical entries; a reset target has one normal form and one
  fingerprint. A reset is verified against exactly its target, and a delivered receipt proves
  its chain of evidence.

  Bounds and fuel. The JSON parser gets twice the length of the text, which is proved enough.
  The polling loop is cut at the number of rounds that its deadline allows, and is proved to
  end before. An IPv6 address has eight groups. Every other recursion is on a list or has a
  termination proof.

  Choices a reader should know. The store and the journal are modelled at the level of their
  decoded documents, with the replacement of invalid UTF-8 that the encoder does; the registry,
  the requests, the evidence, docker's image information and the front page are modelled at
  the level of the text. A handler runs its worker to its end before the next request; a
  cancellation is the answer that the context is cancelled, at any of its checks. One answer of docker serves the
  inspections of one verification. The docker commands of a web deployment and of its repair
  are arguments that are not in the log; none of them takes a stack down. The descriptions
  of env fields are left out of a response. A time in evidence is read without unescaping its
  string, as Go does. That applied targets are valid UTF-8 is a hypothesis where the journal
  must read back what was written. Instants count nanoseconds from year 1.

  Not modelled. loadConfig, envOr and envList read the environment of the process; their
  result is the record config, over which everything is quantified. The bodies of the calls of
  the operating system, docker, GHCR and the HTTP client and server are not in this
  repository. The acceptance harness (Python and shell, under src/scripts and src/tools), the
  workflows and the Go tests are not part of the deployer.
\<close>

end
